(* ===== verification/Prelude.thy ===== *)
theory Prelude
  imports Main "HOL-Library.List_Lexorder" "HOL-Library.Char_ord" "HOL-Library.Product_Lexorder"
begin

text \<open>
  The vocabulary the components share: the errors the Python code raises and the result type
  that carries them, the string methods of Python the code uses, JSON values and dictionaries,
  text timestamps, and the generic lemmas on lists and results that the component proofs use.

  A Python \<open>str\<close> is a \<^typ>\<open>string\<close>: one character per code point, restricted to the code
  points U+0000 to U+00FF. \<open>strip\<close>, \<open>lower\<close> and \<open>upper\<close> below are exact on that range, but for
  the three code points whose other case lies outside it (U+00B5, U+00DF, U+00FF), which they keep.
\<close>

section \<open>Errors and results\<close>

text \<open>One constructor for each exception class the modelled code raises, with its message.\<close>

datatype err =
    ValueError string
  | KeyError string
  | LookupError string
  | TypeError string
  | RuntimeError string
  | PermissionError string
  | IntegrityError string
  | HTTPException nat string
  | PrincipalInvariantError string
  | QuarantinedTicketError string
  | SupervisorPlanError string
  | WorkflowDesignError string
  | EventDispatchError string
  | GovernanceValidationError string
  | AgentDefinitionError string
  | NetSecurityError string
  | SecretVaultError string
  | InvalidSignature string

type_synonym 'a res = "err + 'a"

named_theorems res_simps \<open>inversion of results and of the guards that produce them\<close>
named_theorems frame \<open>parts of the store an operation leaves alone\<close>

text \<open>Sequencing: the first error ends the computation, as an uncaught exception does.\<close>

fun rbind :: "'e + 'a \<Rightarrow> ('a \<Rightarrow> 'e + 'b) \<Rightarrow> 'e + 'b" where
  "rbind (Inl e) f = Inl e"
| "rbind (Inr x) f = f x"

text \<open>\<open>if c: raise e\<close>.\<close>

definition raise_if :: "bool \<Rightarrow> 'e \<Rightarrow> 'e + unit" where
  "raise_if c e = (if c then Inl e else Inr ())"

lemma rbind_Inr_iff [res_simps]: "rbind m f = Inr y \<longleftrightarrow> (\<exists>x. m = Inr x \<and> f x = Inr y)"
  by (cases m) auto

lemma rbind_Inl_iff [res_simps]: "rbind m f = Inl e \<longleftrightarrow> m = Inl e \<or> (\<exists>x. m = Inr x \<and> f x = Inl e)"
  by (cases m) auto

lemma raise_if_Inr_iff [res_simps]: "raise_if c e = Inr u \<longleftrightarrow> \<not> c"
  by (simp add: raise_if_def)

lemma raise_if_Inl_iff [res_simps]: "raise_if c e = Inl e' \<longleftrightarrow> c \<and> e' = e"
  by (auto simp: raise_if_def)

lemma raise_if_simps [simp]: "raise_if True e = Inl e" "raise_if False e = Inr ()"
  by (simp_all add: raise_if_def)

lemma case_option_Inr:
  "(case m of None \<Rightarrow> Inl e | Some x \<Rightarrow> f x) = Inr y \<longleftrightarrow> (\<exists>x. m = Some x \<and> f x = Inr y)"
  by (cases m) auto

text \<open>Mapping a fallible function over a list, left to right, as a comprehension does.\<close>

fun rmap :: "('a \<Rightarrow> 'e + 'b) \<Rightarrow> 'a list \<Rightarrow> 'e + 'b list" where
  "rmap f [] = Inr []"
| "rmap f (x # xs) = rbind (f x) (\<lambda>y. rbind (rmap f xs) (\<lambda>ys. Inr (y # ys)))"

lemma rmap_Inr_length: "rmap f xs = Inr ys \<Longrightarrow> length ys = length xs"
  by (induction xs arbitrary: ys) (auto simp: res_simps)

lemma rmap_Inr_list_all2: "rmap f xs = Inr ys \<Longrightarrow> list_all2 (\<lambda>x y. f x = Inr y) xs ys"
  by (induction xs arbitrary: ys) (auto simp: res_simps)

lemma rmap_Inr_set: "rmap f xs = Inr ys \<Longrightarrow> y \<in> set ys \<Longrightarrow> \<exists>x\<in>set xs. f x = Inr y"
  by (induction xs arbitrary: ys) (auto simp: res_simps)

lemma rmap_Inl_set: "rmap f xs = Inl e \<Longrightarrow> \<exists>x\<in>set xs. f x = Inl e"
  by (induction xs) (auto simp: res_simps)

lemma list_ex_key: "list_ex (\<lambda>x. f x = k) xs \<longleftrightarrow> k \<in> f ` set xs"
  by (auto simp: list_ex_iff)

lemma find_SomeD: "find P xs = Some x \<Longrightarrow> x \<in> set xs \<and> P x"
  by (auto simp: find_Some_iff)

lemma find_unique_key: "distinct (map f xs) \<Longrightarrow> r \<in> set xs \<Longrightarrow> find (\<lambda>x. f x = f r) xs = Some r"
  by (induction xs) auto

section \<open>Strings\<close>

text \<open>\<open>str.isspace\<close> on one code point.\<close>

definition py_space :: "char \<Rightarrow> bool" where
  "py_space c = (let n = (of_char c :: nat) in
     (9 \<le> n \<and> n \<le> 13) \<or> (28 \<le> n \<and> n \<le> 32) \<or> n = 133 \<or> n = 160)"

definition lstrip :: "string \<Rightarrow> string" where
  "lstrip s = dropWhile py_space s"

definition rstrip :: "string \<Rightarrow> string" where
  "rstrip s = rev (dropWhile py_space (rev s))"

definition strip :: "string \<Rightarrow> string" where
  "strip s = rstrip (lstrip s)"

text \<open>\<open>s.rstrip(c)\<close> for a single character.\<close>

definition rstrip_char :: "char \<Rightarrow> string \<Rightarrow> string" where
  "rstrip_char c s = rev (dropWhile (\<lambda>x. x = c) (rev s))"

definition lower_char :: "char \<Rightarrow> char" where
  "lower_char c = (let n = (of_char c :: nat) in
     if (65 \<le> n \<and> n \<le> 90) \<or> (192 \<le> n \<and> n \<le> 222 \<and> n \<noteq> 215) then char_of (n + 32) else c)"

definition upper_char :: "char \<Rightarrow> char" where
  "upper_char c = (let n = (of_char c :: nat) in
     if (97 \<le> n \<and> n \<le> 122) \<or> (224 \<le> n \<and> n \<le> 254 \<and> n \<noteq> 247) then char_of (n - 32) else c)"

definition lower :: "string \<Rightarrow> string" where
  "lower s = map lower_char s"

definition upper :: "string \<Rightarrow> string" where
  "upper s = map upper_char s"

text \<open>\<open>str.casefold\<close>: as \<open>lower\<close>, but the sharp s folds to two letters.\<close>

definition casefold :: "string \<Rightarrow> string" where
  "casefold s = concat (map (\<lambda>c. if (of_char c :: nat) = 223 then ''ss'' else [lower_char c]) s)"

fun starts_with :: "string \<Rightarrow> string \<Rightarrow> bool" where
  "starts_with s [] = True"
| "starts_with [] (p # ps) = False"
| "starts_with (c # s) (p # ps) = (c = p \<and> starts_with s ps)"

text \<open>\<open>t in s\<close>.\<close>

definition contains :: "string \<Rightarrow> string \<Rightarrow> bool" where
  "contains t s \<longleftrightarrow> list_ex (\<lambda>u. starts_with u t) (map (\<lambda>n. drop n s) [0..<Suc (length s)])"

text \<open>\<open>s.partition(sep)\<close> for a one-character separator: head, whether it was found, tail.\<close>

fun partition_char :: "char \<Rightarrow> string \<Rightarrow> string \<times> bool \<times> string" where
  "partition_char c [] = ([], False, [])"
| "partition_char c (x # xs) =
     (if x = c then ([], True, xs)
      else (case partition_char c xs of (h, f, t) \<Rightarrow> (x # h, f, t)))"

text \<open>\<open>sep.join(xs)\<close>.\<close>

fun join :: "string \<Rightarrow> string list \<Rightarrow> string" where
  "join sep [] = []"
| "join sep [x] = x"
| "join sep (x # y # zs) = x @ sep @ join sep (y # zs)"

text \<open>Decimal digits of an integer, \<open>str(n)\<close>.\<close>

fun show_nat :: "nat \<Rightarrow> string" where
  "show_nat n = (if n < 10 then [char_of (48 + n)]
                 else show_nat (n div 10) @ [char_of (48 + n mod 10)])"

declare show_nat.simps [simp del]

definition show_int :: "int \<Rightarrow> string" where
  "show_int i = (if i < 0 then CHR ''-'' # show_nat (nat (- i)) else show_nat (nat i))"

text \<open>Reading decimal digits back; the printed form of an integer determines it.\<close>

definition is_digit :: "char \<Rightarrow> bool" where
  "is_digit c \<longleftrightarrow> 48 \<le> (of_char c :: nat) \<and> (of_char c :: nat) \<le> 57"

definition digits_value :: "string \<Rightarrow> nat" where
  "digits_value s = foldl (\<lambda>n c. 10 * n + ((of_char c :: nat) - 48)) 0 s"

lemma digits_value_show_nat [simp]: "digits_value (show_nat n) = n"
proof (induction n rule: show_nat.induct)
  case (1 n)
  have d: "(of_char (char_of (48 + k :: nat)) :: nat) = 48 + k" if "k < 10" for k :: nat
    using that by (simp add: of_char_of)
  show ?case
  proof (cases "n < 10")
    case True
    then show ?thesis by (subst show_nat.simps) (simp add: digits_value_def d)
  next
    case False
    then have "digits_value (show_nat (n div 10) @ [char_of (48 + n mod 10)]) = n"
      using 1 by (simp add: digits_value_def d)
    with False show ?thesis by (subst show_nat.simps) simp
  qed
qed

lemma show_nat_head: "show_nat n \<noteq> [] \<and> hd (show_nat n) \<noteq> CHR ''-''"
proof (induction n rule: show_nat.induct)
  case (1 n)
  have "char_of (48 + k :: nat) \<noteq> CHR ''-''" if "k < 10" for k :: nat
  proof
    assume "char_of (48 + k) = CHR ''-''"
    then have "(of_char (char_of (48 + k :: nat)) :: nat) = of_char (CHR ''-'')" by simp
    with that show False by (simp add: of_char_of)
  qed
  with 1 show ?case by (cases "n < 10") (simp_all add: show_nat.simps [of n] hd_append)
qed

lemma show_int_inj: "show_int i = show_int j \<longleftrightarrow> i = j"
proof
  assume eq: "show_int i = show_int j"
  have neg: "show_int k = CHR ''-'' # show_nat (nat (- k))" if "k < 0" for k using that by (simp add: show_int_def)
  have pos: "show_int k = show_nat (nat k)" if "\<not> k < 0" for k using that by (simp add: show_int_def)
  have "(i < 0) = (j < 0)" using eq neg pos show_nat_head by (metis list.sel(1))
  then have "(if i < 0 then nat (- i) else nat i) = (if j < 0 then nat (- j) else nat j)"
    using eq neg pos digits_value_show_nat by (metis list.inject)
  with \<open>(i < 0) = (j < 0)\<close> show "i = j" by (auto split: if_splits)
qed simp

text \<open>\<open>_normalize_client_id\<close> and \<open>value.strip() or None\<close>: blank text counts as absent.\<close>

definition strip_or_none :: "string \<Rightarrow> string option" where
  "strip_or_none s = (let n = strip s in if n = [] then None else Some n)"

text \<open>Lemmas on stripping: a stripped string is stripped, and is empty only for blank text.\<close>

lemma dropWhile_hd: "dropWhile P s \<noteq> [] \<Longrightarrow> \<not> P (hd (dropWhile P s))"
  by (induction s) auto

lemma lstrip_fix: "s = [] \<or> \<not> py_space (hd s) \<Longrightarrow> lstrip s = s"
  by (cases s) (auto simp: lstrip_def)

lemma rstrip_append_nonspace: "\<not> py_space c \<Longrightarrow> rstrip (s @ [c]) = s @ [c]"
  by (simp add: rstrip_def)

lemma dropWhile_twice [simp]: "dropWhile P (dropWhile P s) = dropWhile P s"
  by (induction s) auto

lemma rstrip_rstrip [simp]: "rstrip (rstrip s) = rstrip s"
  by (simp add: rstrip_def)

lemma rstrip_Cons_nonspace: "\<not> py_space c \<Longrightarrow> \<exists>t. rstrip (c # s) = c # t"
proof -
  assume c: "\<not> py_space c"
  have "dropWhile py_space (rev s @ [c]) = dropWhile py_space (rev s) @ [c]"
    using c by (induction "rev s" arbitrary: s rule: list.induct)
      (auto simp: dropWhile_append dropWhile_append3)
  then show ?thesis by (simp add: rstrip_def)
qed

lemma lstrip_rstrip_lstrip: "lstrip (rstrip (lstrip s)) = rstrip (lstrip s)"
proof (cases "lstrip s")
  case Nil
  then have "rstrip (lstrip s) = []" by (simp add: rstrip_def)
  then show ?thesis by (simp add: lstrip_def)
next
  case (Cons c t)
  then have "\<not> py_space c"
    using dropWhile_hd [of py_space s] by (simp add: lstrip_def)
  then obtain u where "rstrip (c # t) = c # u" using rstrip_Cons_nonspace by blast
  with Cons \<open>\<not> py_space c\<close> show ?thesis by (simp add: lstrip_def)
qed

lemma strip_strip [simp]: "strip (strip s) = strip s"
  by (simp add: strip_def lstrip_rstrip_lstrip)

lemma strip_Nil [simp]: "strip [] = []"
  by (simp add: strip_def rstrip_def lstrip_def)

lemma strip_eq_Nil_iff: "strip s = [] \<longleftrightarrow> list_all py_space s"
proof
  assume "strip s = []"
  then have "dropWhile py_space (rev (lstrip s)) = []" by (simp add: strip_def rstrip_def)
  then have "\<forall>c\<in>set (lstrip s). py_space c" by (simp add: dropWhile_eq_Nil_conv)
  moreover have "lstrip s \<noteq> [] \<Longrightarrow> \<not> py_space (hd (lstrip s))"
    using dropWhile_hd [of py_space s] by (simp add: lstrip_def)
  ultimately have "lstrip s = []" by (cases "lstrip s") auto
  then show "list_all py_space s" by (simp add: lstrip_def dropWhile_eq_Nil_conv list_all_iff)
next
  assume "list_all py_space s"
  then have "lstrip s = []" by (simp add: lstrip_def dropWhile_eq_Nil_conv list_all_iff)
  then show "strip s = []" by (simp add: strip_def rstrip_def)
qed

lemma length_strip_le: "length (strip s) \<le> length s"
  unfolding strip_def rstrip_def lstrip_def
  by (metis length_dropWhile_le length_rev order_trans)

lemma strip_or_none_Some [res_simps]: "strip_or_none s = Some n \<longleftrightarrow> n = strip s \<and> n \<noteq> []"
  by (auto simp: strip_or_none_def Let_def)

lemma strip_or_none_None [res_simps]: "strip_or_none s = None \<longleftrightarrow> strip s = []"
  by (auto simp: strip_or_none_def Let_def)

end
