(* ===== verification/Json.thy ===== *)
theory Json
  imports Prelude
begin

text \<open>
  The Python values that travel through JSON columns, request payloads and generated documents:
  \<open>None\<close>, booleans, integers, strings, lists and dictionaries with string keys. A dictionary is
  an association list in insertion order; \<open>dget\<close> reads the first entry of a key and \<open>dset\<close>
  overwrites in place or appends, as a Python \<open>dict\<close> does. A JSON text column is represented by
  the value it encodes. Floating-point numbers are not modelled.
\<close>

datatype pyval =
    PNone
  | PBool bool
  | PInt int
  | PStr string
  | PList "pyval list"
  | PDict "(string \<times> pyval) list"

type_synonym pydict = "(string \<times> pyval) list"

section \<open>Dictionaries\<close>

definition dget :: "(string \<times> 'v) list \<Rightarrow> string \<Rightarrow> 'v option" where
  "dget d k = map_of d k"

fun dset :: "(string \<times> 'v) list \<Rightarrow> string \<Rightarrow> 'v \<Rightarrow> (string \<times> 'v) list" where
  "dset [] k v = [(k, v)]"
| "dset ((k', v') # d) k v = (if k' = k then (k, v) # d else (k', v') # dset d k v)"

text \<open>\<open>d.get(key)\<close> and \<open>d.get(key, default)\<close>.\<close>

definition dget_or :: "pydict \<Rightarrow> string \<Rightarrow> pyval \<Rightarrow> pyval" where
  "dget_or d k v = (case dget d k of None \<Rightarrow> v | Some w \<Rightarrow> w)"

definition dkeys :: "(string \<times> 'v) list \<Rightarrow> string list" where
  "dkeys d = map fst d"

text \<open>\<open>{**a, **b}\<close>.\<close>

fun dmerge :: "(string \<times> 'v) list \<Rightarrow> (string \<times> 'v) list \<Rightarrow> (string \<times> 'v) list" where
  "dmerge a [] = a"
| "dmerge a ((k, v) # b) = dmerge (dset a k v) b"

lemma dget_dset [simp]: "dget (dset d k v) k' = (if k' = k then Some v else dget d k')"
  by (induction d k v rule: dset.induct) (auto simp: dget_def)

lemma dkeys_dset: "set (dkeys (dset d k v)) = insert k (set (dkeys d))"
  by (induction d k v rule: dset.induct) (auto simp: dkeys_def)

lemma distinct_dset: "distinct (dkeys d) \<Longrightarrow> distinct (dkeys (dset d k v))"
proof (induction d k v rule: dset.induct)
  case (2 k' v' d k v)
  then show ?case using dkeys_dset [of d k v] by (auto simp: dkeys_def)
qed (simp add: dkeys_def)

lemma dget_Cons: "dget ((k', v) # d) k = (if k = k' then Some v else dget d k)"
  by (simp add: dget_def)

lemma dget_None_iff: "dget d k = None \<longleftrightarrow> k \<notin> set (dkeys d)"
  by (simp add: dget_def dkeys_def map_of_eq_None_iff)

lemma dget_Some_in: "dget d k = Some v \<Longrightarrow> (k, v) \<in> set d"
  by (simp add: dget_def map_of_SomeD)

lemma dget_dmerge: "distinct (dkeys b) \<Longrightarrow>
  dget (dmerge a b) k = (case dget b k of None \<Rightarrow> dget a k | Some v \<Rightarrow> Some v)"
proof (induction a b rule: dmerge.induct)
  case (2 a k' v b)
  have "dget b k' = None" using 2(2) by (simp add: dget_None_iff dkeys_def)
  with 2 show ?case by (auto simp: dkeys_def dget_Cons split: option.split)
qed (simp add: dget_def)

lemma dkeys_dmerge: "set (dkeys (dmerge a b)) = set (dkeys a) \<union> fst ` set b"
  by (induction a b rule: dmerge.induct) (auto simp: dkeys_dset)

lemma set_dset_sub: "set (dset d k v) \<subseteq> insert (k, v) (set d)"
  by (induction d k v rule: dset.induct) auto

lemma set_dmerge_sub: "set (dmerge a b) \<subseteq> set a \<union> set b"
proof (induction a b rule: dmerge.induct)
  case (2 a k v b)
  then show ?case using set_dset_sub [of a k v] by auto
qed simp

section \<open>Python equality\<close>

text \<open>
  \<open>==\<close> on these values: a boolean equals the integer it converts to, lists compare element by
  element, and dictionaries compare as mappings, whatever their insertion order.
\<close>

definition bool_int :: "bool \<Rightarrow> int" where
  "bool_int b = (if b then 1 else 0)"

function (sequential) py_eq :: "pyval \<Rightarrow> pyval \<Rightarrow> bool" where
  "py_eq PNone PNone = True"
| "py_eq (PBool a) (PBool b) = (a = b)"
| "py_eq (PBool a) (PInt i) = (bool_int a = i)"
| "py_eq (PInt i) (PBool b) = (i = bool_int b)"
| "py_eq (PInt i) (PInt j) = (i = j)"
| "py_eq (PStr s) (PStr t) = (s = t)"
| "py_eq (PList xs) (PList ys) =
     (length xs = length ys \<and> list_all (\<lambda>(x, y). py_eq x y) (zip xs ys))"
| "py_eq (PDict d) (PDict e) =
     (length d = length e \<and>
      list_all (\<lambda>(k, v). case dget e k of None \<Rightarrow> False | Some w \<Rightarrow> py_eq v w) d)"
| "py_eq _ _ = False"
  by pat_completeness auto
termination
proof (relation "measure (\<lambda>(v, w). size v)", goal_cases)
  case 1
  show ?case by simp
next
  case (2 xs ys z x y)
  then have "x \<in> set xs" by (auto dest: set_zip_leftD)
  then show ?case by (induction xs) auto
next
  case (3 d e z k v w)
  then have "(k, v) \<in> set d" by simp
  then show ?case by (induction d) auto
qed

text \<open>Truth value testing, \<open>bool(x)\<close>.\<close>

fun truthy :: "pyval \<Rightarrow> bool" where
  "truthy PNone = False"
| "truthy (PBool b) = b"
| "truthy (PInt i) = (i \<noteq> 0)"
| "truthy (PStr s) = (s \<noteq> [])"
| "truthy (PList xs) = (xs \<noteq> [])"
| "truthy (PDict d) = (d \<noteq> [])"

text \<open>\<open>isinstance(x, int)\<close> holds of booleans too; the code excludes them where it matters.\<close>

fun is_dict :: "pyval \<Rightarrow> bool" where
  "is_dict (PDict _) = True"
| "is_dict _ = False"

fun as_dict :: "pyval \<Rightarrow> pydict" where
  "as_dict (PDict d) = d"
| "as_dict _ = []"

fun as_list :: "pyval \<Rightarrow> pyval list" where
  "as_list (PList xs) = xs"
| "as_list _ = []"

text \<open>\<open>value if isinstance(value, str) and value.strip() else None\<close>, unstripped.\<close>

fun string_or_none :: "pyval \<Rightarrow> string option" where
  "string_or_none (PStr s) = (if strip s = [] then None else Some s)"
| "string_or_none _ = None"

fun opt_str :: "string option \<Rightarrow> pyval" where
  "opt_str None = PNone"
| "opt_str (Some s) = PStr s"

fun opt_int :: "int option \<Rightarrow> pyval" where
  "opt_int None = PNone"
| "opt_int (Some i) = PInt i"

lemma py_eq_str [simp]: "py_eq v (PStr s) \<longleftrightarrow> v = PStr s" "py_eq (PStr s) v \<longleftrightarrow> PStr s = v"
  by (cases v; auto)+

section \<open>JSON text\<close>

text \<open>
  \<open>json.dumps(value, sort_keys=True, separators=(",", ":"))\<close>: compact, keys sorted, and every
  character outside printable ASCII escaped, so that its length in characters is its length in
  bytes.
\<close>

definition hex_digit :: "nat \<Rightarrow> char" where
  "hex_digit n = char_of (if n < 10 then 48 + n else 87 + n)"

definition json_char :: "char \<Rightarrow> string" where
  "json_char c = (let n = (of_char c :: nat) in
     if n = 34 then [char_of (92 :: nat), char_of (34 :: nat)] else if n = 92 then [char_of (92 :: nat), char_of (92 :: nat)]
     else if n = 10 then [char_of (92 :: nat), CHR ''n''] else if n = 13 then [char_of (92 :: nat), CHR ''r'']
     else if n = 9 then [char_of (92 :: nat), CHR ''t''] else if n = 12 then [char_of (92 :: nat), CHR ''f'']
     else if n = 8 then [char_of (92 :: nat), CHR ''b'']
     else if 32 \<le> n \<and> n \<le> 126 then [c]
     else [char_of (92 :: nat), CHR ''u'', CHR ''0'', CHR ''0'', hex_digit (n div 16), hex_digit (n mod 16)])"

definition json_string :: "string \<Rightarrow> string" where
  "json_string s = char_of (34 :: nat) # concat (map json_char s) @ [char_of (34 :: nat)]"

primrec json_text :: "pyval \<Rightarrow> string" where
  "json_text PNone = ''null''"
| "json_text (PBool b) = (if b then ''true'' else ''false'')"
| "json_text (PInt i) = show_int i"
| "json_text (PStr s) = json_string s"
| "json_text (PList xs) = ''['' @ join '','' (map json_text xs) @ '']''"
| "json_text (PDict d) = ''{'' @ join '','' (map (\<lambda>(k, t). json_string k @ '':'' @ t) (sort_key fst (map (map_prod id json_text) d))) @ ''}''"

section \<open>Text of a value\<close>

text \<open>\<open>str(x)\<close> is \<open>py_str\<close>, with Python's \<open>repr\<close> for lists and dictionaries.\<close>

definition repr_char :: "char \<Rightarrow> char \<Rightarrow> string" where
  "repr_char quote c = (let n = (of_char c :: nat) in
     if c = quote \<or> n = 92 then [char_of (92 :: nat), c] else if n = 10 then [char_of (92 :: nat), CHR ''n'']
     else if n = 13 then [char_of (92 :: nat), CHR ''r''] else if n = 9 then [char_of (92 :: nat), CHR ''t'']
     else if n < 32 \<or> 127 \<le> n \<and> n \<le> 160 \<or> n = 173 then [char_of (92 :: nat), CHR ''x'', hex_digit (n div 16), hex_digit (n mod 16)]
     else [c])"

definition repr_string :: "string \<Rightarrow> string" where
  "repr_string s = (let apostrophe = char_of (39 :: nat); double = char_of (34 :: nat);
      quote = (if apostrophe \<in> set s \<and> double \<notin> set s then double else apostrophe) in
      quote # concat (map (repr_char quote) s) @ [quote])"

primrec py_repr :: "pyval \<Rightarrow> string" where
  "py_repr PNone = ''None''"
| "py_repr (PBool b) = (if b then ''True'' else ''False'')"
| "py_repr (PInt i) = show_int i"
| "py_repr (PStr s) = repr_string s"
| "py_repr (PList xs) = ''['' @ join '', '' (map py_repr xs) @ '']''"
| "py_repr (PDict d) = ''{'' @ join '', '' (map (\<lambda>(k, t). repr_string k @ '': '' @ t) (map (map_prod id py_repr) d)) @ ''}''"

definition py_str :: "pyval \<Rightarrow> string" where
  "py_str v = (case v of PStr s \<Rightarrow> s | _ \<Rightarrow> py_repr v)"

end
