(* ===== verification/Store_Model.thy ===== *)
theory Store_Model
  imports Json
begin

text \<open>
  The SQLite store as a record of tables: the tables of \<open>store.py\<close> the modelled operations read
  and write. A table is a list of rows in insertion order; a unique or primary key is enforced by
  the operation that inserts, which fails with \<^const>\<open>IntegrityError\<close>. An operation is
  a function from the store to a result that carries the new store: an operation that raises
  inside \<open>with self._connect()\<close> returns no store, since the connection rolls back.

  A timestamp column is a \<open>time\<close>, the instant in microseconds; the clock is an argument of
  each operation and is read once. Where the code handles blank or malformed text in a timestamp
  column, the column has type \<open>stamp\<close>. The redaction of text and of JSON values
  (\<open>reports/renderers.py\<close>), the SHA-256 digest and the text Python gives an exception (\<open>str(exc)\<close>) are
  the functions of the record \<open>env\<close>.
\<close>

type_synonym time = int

datatype stamp = Null_stamp | Blank_stamp | Bad_stamp | At time

record env =
  redact :: "string \<Rightarrow> string"
  redact_value :: "pyval \<Rightarrow> pyval"
  sha256 :: "string \<Rightarrow> string"
  show_err :: "err \<Rightarrow> string"

text \<open>The instance of \<open>env\<close> the worked examples evaluate: no redaction, the digest injective.\<close>

definition plain_env :: env where
  "plain_env = \<lparr>redact = (\<lambda>s. s), redact_value = (\<lambda>v. v), sha256 = (\<lambda>s. ''h:'' @ s),
     show_err = (\<lambda>e. ''error'')\<rparr>"

section \<open>Rows\<close>

record principal_row =
  pr_id :: string
  pr_kind :: string
  pr_name :: string
  pr_active :: bool
  pr_created :: time

record credential_row =
  cr_principal :: string
  cr_hash :: string
  cr_active :: bool
  cr_created :: time

record client_role_row =
  ro_principal :: string
  ro_client :: string
  ro_role :: string

record global_role_row =
  gl_principal :: string
  gl_role :: string

record grant_row =
  gr_principal :: string
  gr_key :: string
  gr_scope :: string
  gr_active :: bool
  gr_granted_by :: string
  gr_updated_by :: string
  gr_created :: time
  gr_updated :: time

record session_row =
  se_hash :: string
  se_principal :: string
  se_method :: string
  se_created :: time
  se_last_seen :: time
  se_idle :: time
  se_absolute :: time
  se_revoked :: bool
  se_agent :: string

record identity_row =
  id_issuer :: string
  id_subject :: string
  id_kind :: string
  id_principal :: string
  id_created :: time
  id_login :: "time option"

record client_row =
  cl_id :: string
  cl_name :: string
  cl_status :: string
  cl_created :: time
  cl_updated :: time

record activation_row =
  cm_client :: string
  cm_at :: time
  cm_by :: string

record ticket_row =
  tk_id :: string
  tk_client :: "string option"
  tk_client_name :: string
  tk_subject :: string
  tk_body :: string
  tk_priority :: string
  tk_status :: string
  tk_requester :: "string option"

record approval_row =
  ap_id :: int
  ap_subject :: string
  ap_action :: string
  ap_payload :: pyval
  ap_status :: string
  ap_comment :: string
  ap_created :: time
  ap_updated :: time
  ap_exec_status :: string
  ap_exec_message :: string
  ap_executed :: "time option"
  ap_exec_result :: pyval
  ap_client :: "string option"
  ap_approver :: "string option"
  ap_expires :: stamp

record workflow_run_row =
  wr_id :: int
  wr_template :: string
  wr_ticket :: string
  wr_status :: string
  wr_message :: string
  wr_approval :: "int option"
  wr_created :: time
  wr_updated :: time
  wr_client :: "string option"
  wr_version :: "int option"

record smart_run_row =
  sr_id :: int
  sr_action :: string
  sr_actor :: string
  sr_status :: string
  sr_digest :: string
  sr_output :: pyval
  sr_evidence :: pyval
  sr_approval :: "int option"
  sr_created :: time
  sr_updated :: time
  sr_client :: "string option"
  sr_error :: string

record audit_row =
  au_type :: string
  au_subject :: string
  au_detail :: string
  au_created :: time
  au_client :: "string option"
  au_approver :: "string option"

record history_row =
  hi_type :: string
  hi_subject :: string
  hi_status :: string
  hi_message :: string
  hi_payload :: pyval
  hi_created :: time
  hi_client :: "string option"

record delivery_row =
  ev_id :: int
  ev_key :: string
  ev_type :: string
  ev_entity_type :: string
  ev_entity :: string
  ev_payload :: pyval
  ev_status :: string
  ev_agent_count :: int
  ev_agent_ids :: pyval
  ev_run_ids :: pyval
  ev_playbook_count :: int
  ev_playbook_ids :: pyval
  ev_playbook_run_ids :: pyval
  ev_playbook_attempts :: pyval
  ev_error :: string
  ev_received :: time
  ev_processed :: "time option"
  ev_client :: "string option"
  ev_attempts :: pyval
  ev_retry_count :: int
  ev_max_retries :: int
  ev_retry_delay :: int
  ev_next_retry :: "time option"

record agent_def =
  ad_id :: string
  ad_name :: string
  ad_enabled :: bool
  ad_trigger :: string
  ad_entity_type :: string
  ad_filters :: pydict
  ad_client :: "string option"
  ad_run_once :: bool
  ad_depends :: "string list"
  ad_tools :: "string list"
  ad_version :: int
  ad_description :: string
  ad_steps :: "pydict list"
  ad_max_steps :: int
  ad_timeout :: int
  ad_created :: time
  ad_updated :: time
  ad_window_start :: "string option"
  ad_window_end :: "string option"
  ad_window_zone :: string
  ad_context :: "string list"
  ad_expiry :: "int option"
  ad_result_aware :: bool
  ad_approval_tools :: "string list"
  ad_approval_rules :: "pyval list"

text \<open>\<open>ar_state\<close> is \<open>None\<close> where the text of the column is not JSON.\<close>

record agent_run =
  ar_id :: int
  ar_agent :: string
  ar_entity :: string
  ar_actor :: string
  ar_status :: string
  ar_step :: int
  ar_state :: "pyval option"
  ar_revision :: "int option"
  ar_client :: "string option"
  ar_started :: time
  ar_finished :: time

record revision_row =
  rv_agent :: string
  rv_version :: int
  rv_definition :: pyval
  rv_created :: time
  rv_client :: "string option"

text \<open>What a run hands to the execution recorder (\<open>observability.py\<close>).\<close>

record step_record =
  sp_kind :: string
  sp_name :: string
  sp_status :: string
  sp_input :: pyval
  sp_output :: pyval
  sp_error :: string

record execution =
  ex_kind :: string
  ex_source :: int
  ex_actor :: string
  ex_status :: string
  ex_trigger :: string
  ex_client :: "string option"
  ex_correlation :: "string option"
  ex_metadata :: pydict
  ex_steps :: "step_record list"
  ex_evidence :: pyval

record subscription_row =
  su_id :: string
  su_playbook :: string
  su_event :: string
  su_client :: string
  su_mapping :: pydict
  su_enabled :: bool
  su_created :: time
  su_updated :: time

text \<open>The tables of published playbooks; a JSON column is the value its text encodes.\<close>

record playbook_entry =
  en_id :: string
  en_source :: string
  en_definition :: pyval
  en_provenance :: string
  en_enabled :: bool
  en_version :: int
  en_created :: time
  en_updated :: time
  en_client :: "string option"

record playbook_revision =
  pv_playbook :: string
  pv_version :: int
  pv_snapshot :: pyval
  pv_created :: time
  pv_client :: "string option"

text \<open>A stored report; a client or project that is not known is empty text.\<close>

record report_row =
  rp_id :: string
  rp_type :: string
  rp_title :: string
  rp_created :: time
  rp_created_by :: string
  rp_client :: string
  rp_project :: string
  rp_sections :: pyval
  rp_metadata :: pydict
  rp_evidence :: string

record job_row =
  jo_id :: int
  jo_template :: string
  jo_cron :: string
  jo_params :: pydict
  jo_paused :: bool
  jo_created :: time
  jo_updated :: time
  jo_client :: "string option"
  jo_kind :: string
  jo_agent :: "string option"
  jo_entity :: "string option"
  jo_schedule :: string
  jo_interval :: "int option"
  jo_run_at :: "string option"
  jo_timezone :: string

record backup_row =
  bk_id :: int
  bk_started :: time
  bk_finished :: time
  bk_status :: string
  bk_destination :: string
  bk_size :: "int option"
  bk_failure :: string

record cursor_row =
  cu_instance :: string
  cu_type :: string
  cu_value :: "string option"
  cu_status :: string
  cu_synced :: "string option"
  cu_updated :: time
  cu_token :: "string option"
  cu_expires :: stamp

section \<open>The store\<close>

text \<open>The \<open>seq\<close> fields are the \<open>autoincrement\<close> sequences: the largest identifier ever used.\<close>

record store =
  principals :: "principal_row list"
  credentials :: "credential_row list"
  client_roles :: "client_role_row list"
  global_roles :: "global_role_row list"
  grants :: "grant_row list"
  sessions :: "session_row list"
  identities :: "identity_row list"
  clients :: "client_row list"
  activations :: "activation_row list"
  tickets :: "ticket_row list"
  approvals :: "approval_row list"
  approvals_seq :: int
  workflow_runs :: "workflow_run_row list"
  workflow_runs_seq :: int
  smart_runs :: "smart_run_row list"
  smart_runs_seq :: int
  deliveries :: "delivery_row list"
  deliveries_seq :: int
  agent_defs :: "agent_def list"
  revisions :: "revision_row list"
  agent_runs :: "agent_run list"
  agent_runs_seq :: int
  executions :: "execution list"
  subscriptions :: "subscription_row list"
  playbook_entries :: "playbook_entry list"
  playbook_revisions :: "playbook_revision list"
  reports :: "report_row list"
  jobs :: "job_row list"
  jobs_seq :: int
  connector_instances :: "string list"
  cursors :: "cursor_row list"
  app_config :: "(string \<times> string) list"
  backup_runs :: "backup_row list"
  backup_runs_seq :: int
  audit_events :: "audit_row list"
  event_history :: "history_row list"

definition empty_store :: store where
  "empty_store = \<lparr>principals = [], credentials = [], client_roles = [], global_roles = [],
     grants = [], sessions = [], identities = [], clients = [], activations = [], tickets = [], approvals = [],
     approvals_seq = 0, workflow_runs = [], workflow_runs_seq = 0, smart_runs = [], smart_runs_seq = 0, deliveries = [], deliveries_seq = 0, agent_defs = [],
     revisions = [], agent_runs = [], agent_runs_seq = 0, executions = [], subscriptions = [], playbook_entries = [], playbook_revisions = [], reports = [],
     jobs = [], jobs_seq = 0, connector_instances = [], cursors = [], app_config = [], backup_runs = [], backup_runs_seq = 0, audit_events = [],
     event_history = []\<rparr>"

text \<open>The ticket and the agent the worked examples vary.\<close>

definition plain_ticket :: "string \<Rightarrow> string option \<Rightarrow> ticket_row" where
  "plain_ticket i client = \<lparr>tk_id = i, tk_client = client, tk_client_name = [], tk_subject = [], tk_body = [], tk_priority = ''low'',
     tk_status = ''open'', tk_requester = None\<rparr>"

definition plain_agent :: "string \<Rightarrow> string list \<Rightarrow> agent_def" where
  "plain_agent i deps = \<lparr>ad_id = i, ad_name = i, ad_enabled = True, ad_trigger = ''manual'', ad_entity_type = ''ticket'',
     ad_filters = [], ad_client = None, ad_run_once = True, ad_depends = deps, ad_tools = [], ad_version = 1, ad_description = [],
     ad_steps = [], ad_max_steps = 8, ad_timeout = 60, ad_created = 0, ad_updated = 0, ad_window_start = None, ad_window_end = None,
     ad_window_zone = ''UTC'', ad_context = [], ad_expiry = None, ad_result_aware = False, ad_approval_tools = [], ad_approval_rules = []\<rparr>"

definition QUARANTINE_CLIENT_ID :: string where
  "QUARANTINE_CLIENT_ID = ''__quarantine__''"

section \<open>Shared table operations\<close>

text \<open>\<open>update T set ... where p\<close>.\<close>

definition update_where :: "('r \<Rightarrow> bool) \<Rightarrow> ('r \<Rightarrow> 'r) \<Rightarrow> 'r list \<Rightarrow> 'r list" where
  "update_where p f rows = map (\<lambda>r. if p r then f r else r) rows"

text \<open>The rows an update or delete touches, \<open>cursor.rowcount\<close>.\<close>

definition row_count :: "('r \<Rightarrow> bool) \<Rightarrow> 'r list \<Rightarrow> nat" where
  "row_count p rows = length (filter p rows)"

definition normalize_client_id :: "string option \<Rightarrow> string option" where
  "normalize_client_id c = (case c of None \<Rightarrow> None | Some s \<Rightarrow> strip_or_none s)"

text \<open>\<open>Store._add_audit_event\<close> and \<open>Store._add_event_history\<close>: append only.\<close>

definition add_audit_row ::
  "time \<Rightarrow> string \<Rightarrow> string \<Rightarrow> string \<Rightarrow> string option \<Rightarrow> string option \<Rightarrow> store \<Rightarrow> store" where
  "add_audit_row now event_type subject detail client approver s =
     s\<lparr>audit_events := audit_events s @
        [\<lparr>au_type = event_type, au_subject = subject, au_detail = detail, au_created = now,
          au_client = normalize_client_id client, au_approver = approver\<rparr>]\<rparr>"

definition add_history_row ::
  "env \<Rightarrow> time \<Rightarrow> string \<Rightarrow> string \<Rightarrow> string \<Rightarrow> string \<Rightarrow> pyval \<Rightarrow> string option \<Rightarrow> store \<Rightarrow> store" where
  "add_history_row E now event_type subject status message payload client s =
     s\<lparr>event_history := event_history s @
        [\<lparr>hi_type = event_type, hi_subject = subject, hi_status = status, hi_message = message,
          hi_payload = redact_value E payload, hi_created = now,
          hi_client = normalize_client_id client\<rparr>]\<rparr>"

text \<open>\<open>Store.add_audit_event\<close>: the audit row and its history row in one transaction.\<close>

definition add_audit_event ::
  "env \<Rightarrow> time \<Rightarrow> string \<Rightarrow> string \<Rightarrow> string \<Rightarrow> string option \<Rightarrow> string option \<Rightarrow> store \<Rightarrow> store" where
  "add_audit_event E now event_type subject detail client approver s =
     add_history_row E now event_type subject ''completed'' detail (PDict []) client
       (add_audit_row now event_type subject detail client approver s)"

text \<open>
  Code that calls several store methods in turn keeps what the earlier ones committed when a later one raises: such an
  operation returns its result, or the error, together with the store. \<open>tx\<close> makes one transactional call and \<open>sbind\<close> goes on
  after a call that returned.
\<close>

definition sbind :: "('e + 'a) \<times> 's \<Rightarrow> ('a \<Rightarrow> 's \<Rightarrow> ('e + 'b) \<times> 's) \<Rightarrow> ('e + 'b) \<times> 's" where
  "sbind p f = (case fst p of Inl e \<Rightarrow> (Inl e, snd p) | Inr x \<Rightarrow> f x (snd p))"

definition tx :: "'e + ('a \<times> 's) \<Rightarrow> 's \<Rightarrow> ('e + 'a) \<times> 's" where
  "tx r s = (case r of Inl e \<Rightarrow> (Inl e, s) | Inr (x, t) \<Rightarrow> (Inr x, t))"

lemma sbind_simps [simp]: "sbind (Inl e, s) f = (Inl e, s)" "sbind (Inr x, s) f = f x s"
  by (simp_all add: sbind_def)

lemma tx_simps [simp]: "tx (Inl e) s = (Inl e, s)" "tx (Inr (x, t)) s = (Inr x, t)"
  by (simp_all add: tx_def)

lemma sbind_Inr_iff: "sbind p f = (Inr y, t) \<longleftrightarrow> (\<exists>x u. p = (Inr x, u) \<and> f x u = (Inr y, t))"
  by (cases p; cases "fst p") (auto simp: sbind_def)

lemma tx_Inr_iff: "tx r s = (Inr x, t) \<longleftrightarrow> r = Inr (x, t)"
  by (cases r) (auto simp: tx_def)

lemma sbind_cong [fundef_cong]: "p = p' \<Longrightarrow> (\<And>x u. p' = (Inr x, u) \<Longrightarrow> f x u = g x u) \<Longrightarrow> sbind p f = sbind p' g"
  by (cases p'; cases "fst p'") (auto simp: sbind_def)

text \<open>\<open>Store._require_ticket_not_quarantined\<close>.\<close>

definition ticket_client :: "store \<Rightarrow> string \<Rightarrow> string option option" where
  "ticket_client s tid = map_option tk_client (find (\<lambda>t. tk_id t = tid) (tickets s))"

definition require_ticket_not_quarantined :: "store \<Rightarrow> string \<Rightarrow> unit res" where
  "require_ticket_not_quarantined s tid =
     (if ticket_client s tid = Some (Some QUARANTINE_CLIENT_ID)
      then Inl (QuarantinedTicketError (''ticket '' @ tid @ '' is quarantined pending client mapping''))
      else Inr ())"

lemma plain_simps [simp]:
  "tk_id (plain_ticket i c) = i" "tk_client (plain_ticket i c) = c" "ad_id (plain_agent i deps) = i" "ad_depends (plain_agent i deps) = deps"
  by (simp_all add: plain_ticket_def plain_agent_def)

lemma update_where_simps [simp]:
  "update_where p f [] = []"
  "update_where p f (r # rs) = (if p r then f r else r) # update_where p f rs"
  by (simp_all add: update_where_def)

lemma set_update_where: "set (update_where p f rs) = (\<lambda>r. if p r then f r else r) ` set rs"
  by (simp add: update_where_def)

lemma ball_update_where [simp]:
  "(\<forall>x\<in>set (update_where p f rs). Q x) \<longleftrightarrow> (\<forall>r\<in>set rs. Q (if p r then f r else r))"
  by (auto simp: update_where_def)

lemma bex_update_where [simp]:
  "(\<exists>x\<in>set (update_where p f rs). Q x) \<longleftrightarrow> (\<exists>r\<in>set rs. Q (if p r then f r else r))"
  by (auto simp: update_where_def)

lemma map_update_where:
  "(\<And>r. p r \<Longrightarrow> g (f r) = g r) \<Longrightarrow> map g (update_where p f rs) = map g rs"
  by (simp add: update_where_def)

lemma length_update_where [simp]: "length (update_where p f rs) = length rs"
  by (simp add: update_where_def)

lemma row_count_0_iff: "row_count p rows = 0 \<longleftrightarrow> (\<forall>r\<in>set rows. \<not> p r)"
  by (auto simp: row_count_def filter_empty_conv)

lemma row_count_unique:
  assumes "distinct (map f rows)" shows "row_count (\<lambda>r. f r = k \<and> p r) rows \<le> 1"
proof -
  have "row_count (\<lambda>r. f r = k \<and> p r) rows = length (filter (\<lambda>r. f r = k \<and> p r) rows)"
    by (simp add: row_count_def)
  also have "\<dots> \<le> 1" using assms
    by (induction rows) (auto simp: filter_empty_conv, metis image_eqI)
  finally show ?thesis .
qed

lemma find_update_where:
  "(\<And>x. p x \<Longrightarrow> f (g x) = f x) \<Longrightarrow>
   find (\<lambda>r. f r = i) (update_where p g rs) = map_option (\<lambda>r. if p r then g r else r) (find (\<lambda>r. f r = i) rs)"
  by (induction rs) auto

lemma find_append_Some: "find P xs = Some r \<Longrightarrow> find P (xs @ ys) = Some r"
  by (induction xs) (auto split: if_splits)

lemma find_append: "find P (xs @ ys) = (case find P xs of None \<Rightarrow> find P ys | Some x \<Rightarrow> Some x)"
  by (induction xs) auto

lemma row_count_1_unique:
  assumes "row_count (\<lambda>r. f r = i \<and> Q r) rs = 1" "distinct (map f rs)" "r \<in> set rs" "f r = i"
  shows "Q r"
proof -
  have "row_count (\<lambda>r. f r = i \<and> Q r) rs \<noteq> 0" using assms(1) by simp
  then obtain x where "x \<in> set rs" "f x = i" "Q x" unfolding row_count_0_iff by blast
  moreover have "x = r" using assms(2-4) calculation(1,2) by (auto simp: distinct_map inj_on_def)
  ultimately show ?thesis by simp
qed

lemma normalize_client_id_idem [simp]:
  "normalize_client_id (normalize_client_id c) = normalize_client_id c"
  by (auto simp: normalize_client_id_def strip_or_none_def Let_def split: option.splits)

lemmas audit_defs = add_audit_event_def add_audit_row_def add_history_row_def

section \<open>Interfaces\<close>

text \<open>
  A component that changes the store through operations that may fail: \<open>step\<close> is one operation
  and \<open>inv\<close> an invariant every successful operation keeps. A run applies a list of operations;
  one that fails leaves the store as it was, as the rolled-back transaction does.
\<close>

definition apply_op :: "('o \<Rightarrow> 's \<Rightarrow> err + 'r \<times> 's) \<Rightarrow> 'o \<Rightarrow> 's \<Rightarrow> 's" where
  "apply_op step c s = (case step c s of Inl _ \<Rightarrow> s | Inr (_, t) \<Rightarrow> t)"

fun run_ops :: "('o \<Rightarrow> 's \<Rightarrow> err + 'r \<times> 's) \<Rightarrow> 'o list \<Rightarrow> 's \<Rightarrow> 's" where
  "run_ops step [] s = s"
| "run_ops step (c # cs) s = run_ops step cs (apply_op step c s)"

locale guarded_ops =
  fixes step :: "'o \<Rightarrow> 's \<Rightarrow> err + 'r \<times> 's"
    and inv :: "'s \<Rightarrow> bool"
  assumes step_keeps: "inv s \<Longrightarrow> step c s = Inr (r, t) \<Longrightarrow> inv t"
begin

lemma apply_op_keeps: "inv s \<Longrightarrow> inv (apply_op step c s)"
  by (auto simp: apply_op_def step_keeps split: sum.splits)

lemma run_ops_keeps: "inv s \<Longrightarrow> inv (run_ops step cs s)"
  by (induction cs arbitrary: s) (auto intro: apply_op_keeps)

end

text \<open>
  The audit trail as an interface: every operation only appends to the two log tables.
\<close>

definition log_extends :: "store \<Rightarrow> store \<Rightarrow> bool" where
  "log_extends s t \<longleftrightarrow>
     (\<exists>a h. audit_events t = audit_events s @ a \<and> event_history t = event_history s @ h)"

lemma log_extends_refl [simp]: "log_extends s s"
  by (simp add: log_extends_def)

lemma log_extends_trans [trans]: "log_extends s t \<Longrightarrow> log_extends t u \<Longrightarrow> log_extends s u"
  by (fastforce simp: log_extends_def)

lemma log_extends_same:
  "audit_events t = audit_events s \<Longrightarrow> event_history t = event_history s \<Longrightarrow> log_extends s t"
  by (simp add: log_extends_def)

lemma log_extends_add_audit_row [simp]: "log_extends s (add_audit_row n e u d c a s)"
  and log_extends_add_history_row [simp]: "log_extends s (add_history_row E n e u st m p c s)"
  by (auto simp: log_extends_def add_audit_row_def add_history_row_def)

locale append_only_log =
  fixes step :: "'o \<Rightarrow> store \<Rightarrow> err + 'r \<times> store"
  assumes step_appends: "step c s = Inr (r, t) \<Longrightarrow> log_extends s t"
begin

lemma run_ops_appends: "log_extends s (run_ops step cs s)"
proof (induction cs arbitrary: s)
  case (Cons c cs)
  have "log_extends s (apply_op step c s)"
    by (auto simp: apply_op_def step_appends split: sum.splits)
  then show ?case using Cons.IH by (auto intro: log_extends_trans)
qed simp

end

end
