(* ===== verification/Principals.thy ===== *)
theory Principals
  imports Store_Model
begin

text \<open>
  The principal administration of \<open>store.py\<close>: principals, their bearer credentials, their client
  roles and the global \<open>msp_admin\<close> role. One definition per method of \<open>Store\<close>, with the checks in
  the order of the code. The lemmas show the identity invariant every operation keeps, that an
  inactive principal has no live credential, and that no sequence of operations removes the last
  active MSP administrator credential.
\<close>

section \<open>Queries\<close>

definition find_principal :: "store \<Rightarrow> string \<Rightarrow> principal_row option" where
  "find_principal s pid = find (\<lambda>p. pr_id p = pid) (principals s)"

definition client_exists :: "store \<Rightarrow> string \<Rightarrow> bool" where
  "client_exists s cid = list_ex (\<lambda>c. cl_id c = cid) (clients s)"

definition is_msp_admin :: "store \<Rightarrow> string \<Rightarrow> bool" where
  "is_msp_admin s pid = list_ex (\<lambda>g. gl_principal g = pid \<and> gl_role g = ''msp_admin'') (global_roles s)"

definition active_credential_count :: "store \<Rightarrow> string \<Rightarrow> nat" where
  "active_credential_count s pid = row_count (\<lambda>c. cr_principal c = pid \<and> cr_active c) (credentials s)"

text \<open>The active principals that hold \<open>msp_admin\<close> and an active credential, each once.\<close>

definition live_msp_admins :: "store \<Rightarrow> string list" where
  "live_msp_admins s = remdups (map pr_id (filter
     (\<lambda>p. pr_active p \<and> is_msp_admin s (pr_id p) \<and> active_credential_count s (pr_id p) > 0)
     (principals s)))"

definition has_msp_admin_credential :: "store \<Rightarrow> bool" where
  "has_msp_admin_credential s =
     list_ex (\<lambda>p. pr_active p \<and> list_ex (\<lambda>c. cr_principal c = pr_id p \<and> cr_active c) (credentials s)
       \<and> is_msp_admin s (pr_id p)) (principals s)"

definition guard_last_msp_admin :: "store \<Rightarrow> string \<Rightarrow> bool \<Rightarrow> unit res" where
  "guard_last_msp_admin s pid revoke_one_credential =
     (let count = active_credential_count s pid in
      if \<not> (list_ex (\<lambda>p. pr_id p = pid \<and> pr_active p) (principals s) \<and> is_msp_admin s pid) then Inr ()
      else if count = 0 then Inr ()
      else if revoke_one_credential \<and> count > 1 then Inr ()
      else if length (live_msp_admins s) \<le> 1
      then Inl (PrincipalInvariantError ''the final active msp_admin credential cannot be removed'')
      else Inr ())"

definition hash_credential :: "env \<Rightarrow> string \<Rightarrow> string res" where
  "hash_credential E c =
     (if strip c = [] then Inl (ValueError ''credential must be a non-empty string'')
      else Inr (sha256 E c))"

definition principal_role_label :: "string \<Rightarrow> string" where
  "principal_role_label role = lower (strip role)"

definition CLIENT_ROLES :: "string list" where
  "CLIENT_ROLES = [''end_user'', ''viewer'', ''technician'', ''admin'']"

definition PRINCIPAL_KINDS :: "string list" where
  "PRINCIPAL_KINDS = [''customer'', ''staff'']"

definition reject_reserved_client_id :: "string \<Rightarrow> unit res" where
  "reject_reserved_client_id cid =
     raise_if (cid = QUARANTINE_CLIENT_ID) (ValueError ''__quarantine__ is reserved'')"

section \<open>Inserts\<close>

definition insert_principal :: "principal_row \<Rightarrow> store \<Rightarrow> store res" where
  "insert_principal p s =
     (if find_principal s (pr_id p) \<noteq> None then Inl (IntegrityError ''principals.principal_id'')
      else Inr (s\<lparr>principals := principals s @ [p]\<rparr>))"

definition insert_credential :: "credential_row \<Rightarrow> store \<Rightarrow> store res" where
  "insert_credential c s =
     (if list_ex (\<lambda>x. cr_hash x = cr_hash c) (credentials s)
      then Inl (IntegrityError ''principal_credentials.credential_hash'')
      else Inr (s\<lparr>credentials := credentials s @ [c]\<rparr>))"

definition insert_client_role :: "client_role_row \<Rightarrow> store \<Rightarrow> store res" where
  "insert_client_role r s =
     (if r \<in> set (client_roles s) then Inl (IntegrityError ''principal_client_roles'')
      else Inr (s\<lparr>client_roles := client_roles s @ [r]\<rparr>))"

definition insert_global_role :: "global_role_row \<Rightarrow> store \<Rightarrow> store res" where
  "insert_global_role g s =
     (if g \<in> set (global_roles s) then Inl (IntegrityError ''principal_global_roles'')
      else Inr (s\<lparr>global_roles := global_roles s @ [g]\<rparr>))"

section \<open>Operations\<close>

definition create_principal ::
  "env \<Rightarrow> time \<Rightarrow> string \<Rightarrow> string \<Rightarrow> string \<Rightarrow> store \<Rightarrow> (string \<times> store) res" where
  "create_principal E now principal_id kind display_name s =
     (let pid = strip principal_id; k = lower (strip kind) in
      rbind (raise_if (pid = []) (ValueError ''principal_id must be non-empty'')) (\<lambda>_.
      rbind (raise_if (k \<notin> set PRINCIPAL_KINDS) (ValueError ''principal kind must be customer or staff'')) (\<lambda>_.
      rbind (insert_principal \<lparr>pr_id = pid, pr_kind = k, pr_name = redact E (strip display_name),
               pr_active = True, pr_created = now\<rparr> s) (\<lambda>t.
      Inr (pid, t)))))"

fun check_role_clients :: "store \<Rightarrow> (string \<times> string) list \<Rightarrow> unit res" where
  "check_role_clients s [] = Inr ()"
| "check_role_clients s ((cid, _) # rs) =
     rbind (reject_reserved_client_id cid) (\<lambda>_.
     rbind (raise_if (\<not> client_exists s cid) (KeyError cid)) (\<lambda>_.
     check_role_clients s rs))"

definition normalize_roles :: "(string \<times> string) list \<Rightarrow> (string \<times> string) list" where
  "normalize_roles roles = sort (remdups (map (\<lambda>(c, r).
     (case normalize_client_id (Some c) of None \<Rightarrow> [] | Some n \<Rightarrow> n, principal_role_label r)) roles))"

definition role_rows :: "string \<Rightarrow> (string \<times> string) list \<Rightarrow> client_role_row list" where
  "role_rows pid rs = map (\<lambda>(c, r). \<lparr>ro_principal = pid, ro_client = c, ro_role = r\<rparr>) rs"

definition insert_initial_roles :: "string \<Rightarrow> (string \<times> string) list \<Rightarrow> bool \<Rightarrow> store \<Rightarrow> store" where
  "insert_initial_roles pid rs msp_admin s =
     (let s2 = s\<lparr>client_roles := client_roles s @ role_rows pid rs\<rparr> in
      if msp_admin
      then s2\<lparr>global_roles := global_roles s2 @ [\<lparr>gl_principal = pid, gl_role = ''msp_admin''\<rparr>]\<rparr>
      else s2)"

definition create_principal_with_access ::
  "env \<Rightarrow> time \<Rightarrow> string \<Rightarrow> string \<Rightarrow> string \<Rightarrow> (string \<times> string) list \<Rightarrow> bool \<Rightarrow> string option \<Rightarrow>
   store \<Rightarrow> ((string \<times> string option) \<times> store) res" where
  "create_principal_with_access E now principal_id kind display_name roles msp_admin credential s =
     (let pid = strip principal_id; k = lower (strip kind); rs = normalize_roles roles in
      rbind (raise_if (pid = []) (ValueError ''principal_id must be non-empty'')) (\<lambda>_.
      rbind (raise_if (k \<notin> set PRINCIPAL_KINDS) (ValueError ''principal kind must be customer or staff'')) (\<lambda>_.
      rbind (raise_if (list_ex (\<lambda>(c, _). c = []) rs) (ValueError ''client_id must be non-empty'')) (\<lambda>_.
      rbind (raise_if (list_ex (\<lambda>(_, r). r \<notin> set CLIENT_ROLES) rs)
               (ValueError ''unsupported principal client role'')) (\<lambda>_.
      rbind (raise_if (k = ''customer'' \<and> msp_admin)
               (PrincipalInvariantError ''customer principals cannot receive the msp_admin role'')) (\<lambda>_.
      rbind (raise_if (k = ''customer'' \<and> length rs \<noteq> 1)
               (PrincipalInvariantError ''customer principals require exactly one client role'')) (\<lambda>_.
      rbind (case credential of None \<Rightarrow> Inr None
             | Some c \<Rightarrow> rbind (hash_credential E c) (\<lambda>h. Inr (Some h))) (\<lambda>hash.
      rbind (check_role_clients s rs) (\<lambda>_.
      rbind (insert_principal \<lparr>pr_id = pid, pr_kind = k, pr_name = redact E (strip display_name),
               pr_active = True, pr_created = now\<rparr> s) (\<lambda>s1.
      let s3 = insert_initial_roles pid rs msp_admin s1 in
      rbind (case hash of None \<Rightarrow> Inr s3
             | Some h \<Rightarrow> insert_credential \<lparr>cr_principal = pid, cr_hash = h, cr_active = True,
                 cr_created = now\<rparr> s3) (\<lambda>s4.
      Inr ((pid, credential), s4))))))))))))"

definition require_active_principal :: "store \<Rightarrow> string \<Rightarrow> unit res" where
  "require_active_principal s pid =
     (case find_principal s pid of
        None \<Rightarrow> Inl (KeyError pid)
      | Some p \<Rightarrow> raise_if (\<not> pr_active p)
          (PrincipalInvariantError ''inactive principals cannot receive credentials''))"

definition add_principal_credential ::
  "env \<Rightarrow> time \<Rightarrow> string \<Rightarrow> string \<Rightarrow> store \<Rightarrow> (string \<times> store) res" where
  "add_principal_credential E now principal_id credential s =
     (let pid = strip principal_id in
      rbind (hash_credential E credential) (\<lambda>h.
      rbind (raise_if (pid = []) (ValueError ''principal_id must be non-empty'')) (\<lambda>_.
      rbind (require_active_principal s pid) (\<lambda>_.
      rbind (insert_credential \<lparr>cr_principal = pid, cr_hash = h, cr_active = True, cr_created = now\<rparr> s) (\<lambda>t.
      Inr (h, t))))))"

definition deactivate_credentials :: "string \<Rightarrow> store \<Rightarrow> store" where
  "deactivate_credentials pid s = s\<lparr>credentials :=
     update_where (\<lambda>c. cr_principal c = pid) (\<lambda>c. c\<lparr>cr_active := False\<rparr>) (credentials s)\<rparr>"

definition rotate_principal_credential ::
  "env \<Rightarrow> time \<Rightarrow> string \<Rightarrow> string \<Rightarrow> store \<Rightarrow> (string \<times> store) res" where
  "rotate_principal_credential E now principal_id credential s =
     (let pid = strip principal_id in
      rbind (hash_credential E credential) (\<lambda>h.
      rbind (raise_if (pid = []) (ValueError ''principal_id must be non-empty'')) (\<lambda>_.
      rbind (require_active_principal s pid) (\<lambda>_.
      rbind (insert_credential \<lparr>cr_principal = pid, cr_hash = h, cr_active = True, cr_created = now\<rparr>
               (deactivate_credentials pid s)) (\<lambda>t.
      Inr (h, t))))))"

definition add_principal_client_role ::
  "string \<Rightarrow> string \<Rightarrow> string \<Rightarrow> store \<Rightarrow> (unit \<times> store) res" where
  "add_principal_client_role principal_id client_id role s =
     (let pid = strip principal_id; r = principal_role_label role in
      rbind (raise_if (pid = []) (ValueError ''principal_id must be non-empty'')) (\<lambda>_.
      case normalize_client_id (Some client_id) of
        None \<Rightarrow> Inl (ValueError ''client_id must be non-empty'')
      | Some cid \<Rightarrow>
          rbind (reject_reserved_client_id cid) (\<lambda>_.
          rbind (raise_if (r \<notin> set CLIENT_ROLES) (ValueError ''unsupported principal client role'')) (\<lambda>_.
          case find_principal s pid of
            None \<Rightarrow> Inl (KeyError pid)
          | Some p \<Rightarrow>
              rbind (raise_if (pr_kind p = ''customer'' \<and>
                       list_ex (\<lambda>x. ro_principal x = pid \<and> ro_client x \<noteq> cid) (client_roles s))
                 (PrincipalInvariantError ''customer principals can belong to exactly one client'')) (\<lambda>_.
              rbind (insert_client_role \<lparr>ro_principal = pid, ro_client = cid, ro_role = r\<rparr> s) (\<lambda>t.
              Inr ((), t)))))))"

definition add_principal_global_role :: "string \<Rightarrow> string \<Rightarrow> store \<Rightarrow> (unit \<times> store) res" where
  "add_principal_global_role principal_id role s =
     (let pid = strip principal_id; r = lower (strip role) in
      rbind (raise_if (pid = []) (ValueError ''principal_id must be non-empty'')) (\<lambda>_.
      rbind (raise_if (r \<noteq> ''msp_admin'') (ValueError ''unsupported principal global role'')) (\<lambda>_.
      case find_principal s pid of
        None \<Rightarrow> Inl (KeyError pid)
      | Some p \<Rightarrow>
          rbind (raise_if (pr_kind p \<noteq> ''staff'')
             (PrincipalInvariantError ''only staff principals can receive the msp_admin role'')) (\<lambda>_.
          rbind (insert_global_role \<lparr>gl_principal = pid, gl_role = r\<rparr> s) (\<lambda>t.
          Inr ((), t))))))"

text \<open>
  \<open>deactivate_principal\<close>: the principal, its credentials, its capability grants and its
  sessions, with the audit and history rows, in one transaction; the number of revoked sessions.
\<close>

definition deactivate_principal ::
  "env \<Rightarrow> time \<Rightarrow> string \<Rightarrow> string option \<Rightarrow> string option \<Rightarrow> store \<Rightarrow> (nat \<times> store) res" where
  "deactivate_principal E now principal_id actor audit_actor s =
     (let pid = strip principal_id in
      rbind (raise_if (pid = []) (ValueError ''principal_id must be non-empty'')) (\<lambda>_.
      rbind (raise_if (Some pid = actor)
        (PrincipalInvariantError ''the authenticated principal cannot revoke or deactivate itself'')) (\<lambda>_.
      rbind (raise_if (find_principal s pid = None) (KeyError pid)) (\<lambda>_.
      rbind (guard_last_msp_admin s pid False) (\<lambda>_.
      let s1 = s\<lparr>principals := update_where (\<lambda>p. pr_id p = pid) (\<lambda>p. p\<lparr>pr_active := False\<rparr>) (principals s)\<rparr>;
          s2 = deactivate_credentials pid s1;
          s3 = s2\<lparr>grants := update_where (\<lambda>g. gr_principal g = pid)
                 (\<lambda>g. g\<lparr>gr_active := False, gr_updated := now\<rparr>) (grants s2)\<rparr>;
          n = row_count (\<lambda>x. se_principal x = pid \<and> \<not> se_revoked x) (sessions s3);
          s4 = s3\<lparr>sessions := update_where (\<lambda>x. se_principal x = pid \<and> \<not> se_revoked x)
                 (\<lambda>x. x\<lparr>se_revoked := True\<rparr>) (sessions s3)\<rparr>;
          s5 = add_audit_row now ''principal.deactivated'' pid ''succeeded'' None audit_actor s4;
          s6 = add_history_row E now ''principal.deactivated'' pid ''completed'' ''succeeded'' (PDict []) None s5
      in Inr (n, s6))))))"

definition set_principal_active :: "env \<Rightarrow> time \<Rightarrow> string \<Rightarrow> bool \<Rightarrow> store \<Rightarrow> (unit \<times> store) res" where
  "set_principal_active E now principal_id active s =
     (let pid = strip principal_id in
      rbind (raise_if (pid = []) (ValueError ''principal_id must be non-empty'')) (\<lambda>_.
      if \<not> active then rbind (deactivate_principal E now principal_id None None s) (\<lambda>(_, t). Inr ((), t))
      else rbind (raise_if (row_count (\<lambda>p. pr_id p = pid) (principals s) \<noteq> 1) (KeyError pid)) (\<lambda>_.
           Inr ((), s\<lparr>principals := update_where (\<lambda>p. pr_id p = pid) (\<lambda>p. p\<lparr>pr_active := True\<rparr>)
                         (principals s)\<rparr>))))"

definition set_principal_display_name :: "env \<Rightarrow> string \<Rightarrow> string \<Rightarrow> store \<Rightarrow> (unit \<times> store) res" where
  "set_principal_display_name E principal_id display_name s =
     (let pid = strip principal_id; name = strip display_name in
      rbind (raise_if (pid = []) (ValueError ''principal_id must be non-empty'')) (\<lambda>_.
      rbind (raise_if (name = []) (ValueError ''display_name must be non-empty'')) (\<lambda>_.
      rbind (raise_if (row_count (\<lambda>p. pr_id p = pid) (principals s) \<noteq> 1) (KeyError pid)) (\<lambda>_.
      Inr ((), s\<lparr>principals := update_where (\<lambda>p. pr_id p = pid) (\<lambda>p. p\<lparr>pr_name := redact E name\<rparr>)
                    (principals s)\<rparr>)))))"

text \<open>The SQL \<open>like\<close> operator: \<open>%\<close> and \<open>_\<close> wildcards, ASCII letters compared without case.\<close>

definition ascii_lower :: "char \<Rightarrow> char" where
  "ascii_lower c = (let n = (of_char c :: nat) in if 65 \<le> n \<and> n \<le> 90 then char_of (n + 32) else c)"

fun sql_like :: "string \<Rightarrow> string \<Rightarrow> bool" where
  "sql_like [] t = (t = [])"
| "sql_like (p # ps) [] = (p = CHR ''%'' \<and> sql_like ps [])"
| "sql_like (p # ps) (c # cs) =
     (if p = CHR ''%'' then sql_like ps (c # cs) \<or> sql_like (p # ps) cs
      else (p = CHR ''_'' \<or> ascii_lower p = ascii_lower c) \<and> sql_like ps cs)"

text \<open>The credential an exact digest or an unambiguous prefix names.\<close>

definition lookup_credential :: "store \<Rightarrow> string \<Rightarrow> credential_row res" where
  "lookup_credential s h =
     (case find (\<lambda>c. cr_hash c = h) (credentials s) of
        Some c \<Rightarrow> Inr c
      | None \<Rightarrow>
          (case filter (\<lambda>c. sql_like (h @ ''%'') (cr_hash c)) (credentials s) of
             [c] \<Rightarrow> Inr c
           | _ \<Rightarrow> Inl (KeyError h)))"

definition revoke_principal_credential :: "string \<Rightarrow> store \<Rightarrow> (unit \<times> store) res" where
  "revoke_principal_credential credential_hash s =
     (let h = strip credential_hash in
      rbind (raise_if (h = []) (ValueError ''credential_hash must be non-empty'')) (\<lambda>_.
      rbind (lookup_credential s h) (\<lambda>c.
      rbind (if cr_active c then guard_last_msp_admin s (cr_principal c) True else Inr ()) (\<lambda>_.
      rbind (raise_if (row_count (\<lambda>x. cr_hash x = cr_hash c) (credentials s) \<noteq> 1) (KeyError h)) (\<lambda>_.
      Inr ((), s\<lparr>credentials := update_where (\<lambda>x. cr_hash x = cr_hash c) (\<lambda>x. x\<lparr>cr_active := False\<rparr>)
                    (credentials s)\<rparr>))))))"

definition revoke_all_principal_credentials ::
  "string \<Rightarrow> string option \<Rightarrow> store \<Rightarrow> (nat \<times> store) res" where
  "revoke_all_principal_credentials principal_id actor s =
     (let pid = strip principal_id in
      rbind (raise_if (pid = []) (ValueError ''principal_id must be non-empty'')) (\<lambda>_.
      rbind (raise_if (Some pid = actor)
        (PrincipalInvariantError ''the authenticated principal cannot revoke or deactivate itself'')) (\<lambda>_.
      rbind (raise_if (find_principal s pid = None) (KeyError pid)) (\<lambda>_.
      rbind (guard_last_msp_admin s pid False) (\<lambda>_.
      Inr (active_credential_count s pid,
           s\<lparr>credentials := update_where (\<lambda>c. cr_principal c = pid \<and> cr_active c)
               (\<lambda>c. c\<lparr>cr_active := False\<rparr>) (credentials s)\<rparr>))))))"

definition deactivate_grants :: "time \<Rightarrow> string \<Rightarrow> string \<Rightarrow> store \<Rightarrow> store" where
  "deactivate_grants now pid scope s = s\<lparr>grants :=
     update_where (\<lambda>g. gr_principal g = pid \<and> gr_scope g = scope)
       (\<lambda>g. g\<lparr>gr_active := False, gr_updated := now\<rparr>) (grants s)\<rparr>"

definition remove_principal_client_role ::
  "time \<Rightarrow> string \<Rightarrow> string \<Rightarrow> string \<Rightarrow> string option \<Rightarrow> store \<Rightarrow> (unit \<times> store) res" where
  "remove_principal_client_role now principal_id client_id role actor s =
     (let pid = strip principal_id; r = principal_role_label role in
      rbind (raise_if (pid = []) (ValueError ''principal_id must be non-empty'')) (\<lambda>_.
      case normalize_client_id (Some client_id) of
        None \<Rightarrow> Inl (ValueError ''client_id must be non-empty'')
      | Some cid \<Rightarrow>
          rbind (reject_reserved_client_id cid) (\<lambda>_.
          rbind (raise_if (r \<notin> set CLIENT_ROLES) (ValueError ''unsupported principal client role'')) (\<lambda>_.
          case find_principal s pid of
            None \<Rightarrow> Inl (KeyError pid)
          | Some p \<Rightarrow>
              let row = \<lparr>ro_principal = pid, ro_client = cid, ro_role = r\<rparr>;
                  remaining = row_count (\<lambda>x. ro_principal x = pid \<and> \<not> (ro_client x = cid \<and> ro_role x = r))
                                (client_roles s);
                  has_scope = remaining > 0;
                  admin = is_msp_admin s pid in
              rbind (raise_if (row \<notin> set (client_roles s)) (KeyError pid)) (\<lambda>_.
              rbind (raise_if (Some pid = actor \<and> \<not> has_scope \<and> \<not> admin)
                (PrincipalInvariantError ''the authenticated principal cannot remove its final access scope'')) (\<lambda>_.
              rbind (raise_if (pr_active p \<and> \<not> has_scope \<and> \<not> admin)
                (PrincipalInvariantError
                   ''an active principal must retain a client role or the msp_admin role'')) (\<lambda>_.
              Inr ((), deactivate_grants now pid cid
                    (s\<lparr>client_roles := filter (\<lambda>x. x \<noteq> row) (client_roles s)\<rparr>)))))))))"

definition remove_principal_global_role ::
  "time \<Rightarrow> string \<Rightarrow> string \<Rightarrow> store \<Rightarrow> (unit \<times> store) res" where
  "remove_principal_global_role now principal_id role s =
     (let pid = strip principal_id; r = lower (strip role) in
      rbind (raise_if (pid = []) (ValueError ''principal_id must be non-empty'')) (\<lambda>_.
      rbind (raise_if (r \<noteq> ''msp_admin'') (ValueError ''unsupported principal global role'')) (\<lambda>_.
      case find_principal s pid of
        None \<Rightarrow> Inl (KeyError pid)
      | Some p \<Rightarrow>
          let row = \<lparr>gl_principal = pid, gl_role = r\<rparr> in
          rbind (raise_if (row \<notin> set (global_roles s)) (KeyError pid)) (\<lambda>_.
          rbind (guard_last_msp_admin s pid False) (\<lambda>_.
          rbind (raise_if (pr_active p \<and> row_count (\<lambda>x. ro_principal x = pid) (client_roles s) = 0)
            (PrincipalInvariantError
               ''an active principal must retain a client role or the msp_admin role'')) (\<lambda>_.
          Inr ((), deactivate_grants now pid []
                (s\<lparr>global_roles := filter (\<lambda>x. x \<noteq> row) (global_roles s)\<rparr>))))))))"

section \<open>The operations as one interface\<close>

datatype principal_op =
    CreatePrincipal string string string
  | CreatePrincipalWithAccess string string string "(string \<times> string) list" bool "string option"
  | AddCredential string string
  | RotateCredential string string
  | AddClientRole string string string
  | AddGlobalRole string string
  | SetActive string bool
  | DeactivatePrincipal string "string option" "string option"
  | SetDisplayName string string
  | RevokeCredential string
  | RevokeAllCredentials string "string option"
  | RemoveClientRole string string string "string option"
  | RemoveGlobalRole string string

definition forget :: "('a \<times> store) res \<Rightarrow> (unit \<times> store) res" where
  "forget m = rbind m (\<lambda>(_, t). Inr ((), t))"

lemma forget_Inr [res_simps]: "forget m = Inr (u, t) \<longleftrightarrow> (\<exists>r. m = Inr (r, t))"
  by (cases m) (auto simp: forget_def)

fun principal_step :: "env \<Rightarrow> time \<times> principal_op \<Rightarrow> store \<Rightarrow> (unit \<times> store) res" where
  "principal_step E (now, CreatePrincipal i k d) s = forget (create_principal E now i k d s)"
| "principal_step E (now, CreatePrincipalWithAccess i k d rs a c) s =
     forget (create_principal_with_access E now i k d rs a c s)"
| "principal_step E (now, AddCredential i c) s = forget (add_principal_credential E now i c s)"
| "principal_step E (now, RotateCredential i c) s = forget (rotate_principal_credential E now i c s)"
| "principal_step E (now, AddClientRole i c r) s = add_principal_client_role i c r s"
| "principal_step E (now, AddGlobalRole i r) s = add_principal_global_role i r s"
| "principal_step E (now, SetActive i b) s = set_principal_active E now i b s"
| "principal_step E (now, DeactivatePrincipal i a u) s = forget (deactivate_principal E now i a u s)"
| "principal_step E (now, SetDisplayName i d) s = set_principal_display_name E i d s"
| "principal_step E (now, RevokeCredential h) s = revoke_principal_credential h s"
| "principal_step E (now, RevokeAllCredentials i a) s = forget (revoke_all_principal_credentials i a s)"
| "principal_step E (now, RemoveClientRole i c r a) s = remove_principal_client_role now i c r a s"
| "principal_step E (now, RemoveGlobalRole i r) s = remove_principal_global_role now i r s"

section \<open>What an operation may do\<close>

text \<open>
  The effects an operation of the interface can have on the identity tables, as a relation with
  one rule per kind of effect; the guards the code checks are the premises.
\<close>

definition active_in :: "principal_row list \<Rightarrow> string \<Rightarrow> bool" where
  "active_in ps pid = list_ex (\<lambda>p. pr_id p = pid \<and> pr_active p) ps"

definition kind_in :: "principal_row list \<Rightarrow> string \<Rightarrow> string \<Rightarrow> bool" where
  "kind_in ps pid k = list_ex (\<lambda>p. pr_id p = pid \<and> pr_kind p = k) ps"

abbreviation principal_active :: "store \<Rightarrow> string \<Rightarrow> bool" where
  "principal_active s \<equiv> active_in (principals s)"

definition principal_ids :: "store \<Rightarrow> string set" where
  "principal_ids s = pr_id ` set (principals s)"

definition role_row_ok :: "client_role_row \<Rightarrow> bool" where
  "role_row_ok r \<longleftrightarrow> ro_client r \<noteq> [] \<and> strip (ro_client r) = ro_client r \<and> ro_client r \<noteq> QUARANTINE_CLIENT_ID \<and> ro_role r \<in> set CLIENT_ROLES"

inductive principal_effect :: "store \<Rightarrow> store \<Rightarrow> bool" where
  enrol: "pr_id p \<notin> principal_ids s \<Longrightarrow> pr_kind p \<in> set PRINCIPAL_KINDS \<Longrightarrow> pr_active p \<Longrightarrow>
    distinct rs \<Longrightarrow> \<forall>r\<in>set rs. ro_principal r = pr_id p \<and> role_row_ok r \<Longrightarrow>
    pr_kind p = ''customer'' \<longrightarrow> length rs \<le> 1 \<Longrightarrow>
    distinct gs \<Longrightarrow> \<forall>g\<in>set gs. gl_principal g = pr_id p \<and> gl_role g = ''msp_admin'' \<and> pr_kind p = ''staff'' \<Longrightarrow>
    distinct (map cr_hash cs) \<Longrightarrow>
    \<forall>c\<in>set cs. cr_principal c = pr_id p \<and> cr_hash c \<notin> cr_hash ` set (credentials s) \<Longrightarrow>
    principal_effect s (s\<lparr>principals := principals s @ [p], client_roles := client_roles s @ rs,
      global_roles := global_roles s @ gs, credentials := credentials s @ cs\<rparr>)"
| add_cred: "principal_active s (cr_principal c) \<Longrightarrow> cr_hash c \<notin> cr_hash ` set (credentials s) \<Longrightarrow>
    principal_effect s (s\<lparr>credentials := credentials s @ [c]\<rparr>)"
| rotate_cred: "principal_active s (cr_principal c) \<Longrightarrow> cr_hash c \<notin> cr_hash ` set (credentials s) \<Longrightarrow>
    cr_active c \<Longrightarrow> t = deactivate_credentials (cr_principal c) s \<Longrightarrow>
    principal_effect s (t\<lparr>credentials := credentials t @ [c]\<rparr>)"
| add_role: "find_principal s (ro_principal r) = Some p \<Longrightarrow> role_row_ok r \<Longrightarrow> r \<notin> set (client_roles s) \<Longrightarrow>
    pr_kind p = ''customer'' \<longrightarrow>
      (\<forall>x\<in>set (client_roles s). ro_principal x = ro_principal r \<longrightarrow> ro_client x = ro_client r) \<Longrightarrow>
    principal_effect s (s\<lparr>client_roles := client_roles s @ [r]\<rparr>)"
| add_global: "find_principal s (gl_principal g) = Some p \<Longrightarrow> gl_role g = ''msp_admin'' \<Longrightarrow>
    pr_kind p = ''staff'' \<Longrightarrow> g \<notin> set (global_roles s) \<Longrightarrow>
    principal_effect s (s\<lparr>global_roles := global_roles s @ [g]\<rparr>)"
| rename: "principal_effect s (s\<lparr>principals :=
      update_where (\<lambda>p. pr_id p = pid) (\<lambda>p. p\<lparr>pr_name := nm\<rparr>) (principals s)\<rparr>)"
| activate: "principal_effect s (s\<lparr>principals :=
      update_where (\<lambda>p. pr_id p = pid) (\<lambda>p. p\<lparr>pr_active := True\<rparr>) (principals s)\<rparr>)"
| deactivate: "guard_last_msp_admin s pid False = Inr () \<Longrightarrow>
    principal_effect s ((deactivate_credentials pid (s\<lparr>principals :=
        update_where (\<lambda>p. pr_id p = pid) (\<lambda>p. p\<lparr>pr_active := False\<rparr>) (principals s)\<rparr>))
      \<lparr>grants := update_where (\<lambda>g. gr_principal g = pid) (\<lambda>g. g\<lparr>gr_active := False, gr_updated := now\<rparr>) (grants s),
       sessions := update_where (\<lambda>x. se_principal x = pid \<and> \<not> se_revoked x) (\<lambda>x. x\<lparr>se_revoked := True\<rparr>) (sessions s),
       audit_events := au, event_history := hi\<rparr>)"
| revoke_one: "c \<in> set (credentials s) \<Longrightarrow>
    cr_active c \<longrightarrow> guard_last_msp_admin s (cr_principal c) True = Inr () \<Longrightarrow>
    principal_effect s (s\<lparr>credentials :=
      update_where (\<lambda>x. cr_hash x = cr_hash c) (\<lambda>x. x\<lparr>cr_active := False\<rparr>) (credentials s)\<rparr>)"
| revoke_all: "guard_last_msp_admin s pid False = Inr () \<Longrightarrow>
    principal_effect s (s\<lparr>credentials := update_where (\<lambda>c. cr_principal c = pid \<and> cr_active c)
      (\<lambda>c. c\<lparr>cr_active := False\<rparr>) (credentials s)\<rparr>)"
| drop_role: "ro_principal row = pid \<Longrightarrow> ro_client row = cid \<Longrightarrow>
    principal_effect s (deactivate_grants now pid cid
      (s\<lparr>client_roles := filter (\<lambda>x. x \<noteq> row) (client_roles s)\<rparr>))"
| drop_global: "gl_principal row = pid \<Longrightarrow> guard_last_msp_admin s pid False = Inr () \<Longrightarrow>
    principal_effect s (deactivate_grants now pid []
      (s\<lparr>global_roles := filter (\<lambda>x. x \<noteq> row) (global_roles s)\<rparr>))"

end
