(* ===== verification/Client_Scope.thy ===== *)
theory Client_Scope
  imports Principals
begin

text \<open>
  Tenant scopes (\<open>client_scope.py\<close>), the SQL predicates built from them and the client table of
  \<open>store.py\<close>. A \<open>frozenset\<close> is a set; \<open>AuthContext\<close> of \<open>rbac.py\<close> is the record \<open>auth_context\<close>.
  The lemmas show that a scope resolved for a tenant-bound principal never leaves its client
  memberships, and that the scoped client operations neither show nor change a row outside it.
\<close>

datatype role = END_USER | VIEWER | TECHNICIAN | ADMIN

text \<open>\<open>Role\<close> is an \<open>IntEnum\<close>: roles compare by their numbers.\<close>

fun role_rank :: "role \<Rightarrow> nat" where
  "role_rank END_USER = 0"
| "role_rank VIEWER = 1"
| "role_rank TECHNICIAN = 2"
| "role_rank ADMIN = 3"

instantiation role :: linorder
begin

definition less_eq_role :: "role \<Rightarrow> role \<Rightarrow> bool" where
  "less_eq_role a b \<longleftrightarrow> role_rank a \<le> role_rank b"

definition less_role :: "role \<Rightarrow> role \<Rightarrow> bool" where
  "less_role a b \<longleftrightarrow> role_rank a < role_rank b"

instance
proof
  fix a b c :: role
  show "a \<le> b \<Longrightarrow> b \<le> a \<Longrightarrow> a = b" by (cases a; cases b) (simp_all add: less_eq_role_def)
qed (auto simp: less_eq_role_def less_role_def)

end

record auth_context =
  ac_role :: role
  ac_token :: "string option"
  ac_client :: "string option"
  ac_principal :: "string option"
  ac_client_ids :: "string set"
  ac_msp_admin :: bool
  ac_demo :: bool
  ac_grants :: "(string \<times> string option) set"
  ac_method :: string
  ac_session :: "string option"

datatype client_scope = BoundClients "string set" | AllClients

text \<open>\<open>BoundClients.__post_init__\<close>.\<close>

definition bound_clients :: "string set \<Rightarrow> client_scope res" where
  "bound_clients ids =
     (if ids = {} \<or> [] \<in> ids then Inl (ValueError ''BoundClients requires at least one non-empty client_id'')
      else Inr (BoundClients ids))"

text \<open>The \<open>client_id\<close> property of the two scope classes.\<close>

fun scope_client_id :: "client_scope \<Rightarrow> string option res" where
  "scope_client_id (BoundClients ids) =
     (if card ids \<noteq> 1 then Inl (HTTPException 403 ''operation requires a single client scope'')
      else Inr (Some (the_elem ids)))"
| "scope_client_id AllClients = Inr None"

text \<open>\<open>x.strip() if x else None\<close>, then \<open>""\<close> to \<open>None\<close>.\<close>

definition strip_arg :: "string option \<Rightarrow> string option" where
  "strip_arg x = (case x of None \<Rightarrow> None | Some s \<Rightarrow> strip_or_none s)"

definition requested_client_from :: "string \<Rightarrow> string option \<Rightarrow> string \<Rightarrow> string option res" where
  "requested_client_from header_value explicit_client_id conflict_detail =
     (let explicit = strip_arg explicit_client_id; header = strip_or_none header_value in
      rbind (raise_if (explicit \<noteq> None \<and> header \<noteq> None \<and> explicit \<noteq> header)
               (HTTPException 400 conflict_detail)) (\<lambda>_.
      Inr (if explicit \<noteq> None then explicit else header)))"

definition resolve_client_scope :: "auth_context \<Rightarrow> string option \<Rightarrow> client_scope res" where
  "resolve_client_scope ctx requested_client_id =
     (let requested = strip_arg requested_client_id in
      if ac_demo ctx then (case requested of Some r \<Rightarrow> bound_clients {r} | None \<Rightarrow> Inr AllClients)
      else if ac_msp_admin ctx then (case requested of Some r \<Rightarrow> bound_clients {r} | None \<Rightarrow> Inr AllClients)
      else
        let bound = Set.filter (\<lambda>c. c \<noteq> []) (strip ` ac_client_ids ctx) in
        rbind (raise_if (bound = {}) (HTTPException 403 ''authenticated principal has no tenant'')) (\<lambda>_.
        rbind (raise_if (case requested of None \<Rightarrow> False | Some r \<Rightarrow> r \<notin> bound)
                 (HTTPException 403 ''requested tenant is outside authenticated scope'')) (\<lambda>_.
        case requested of Some r \<Rightarrow> bound_clients {r} | None \<Rightarrow> bound_clients bound)))"

section \<open>Scopes in SQL\<close>

datatype scope_arg = Scope client_scope | Scope_str string | No_scope

text \<open>
  \<open>_client_scope_predicate\<close> and \<open>_quarantine_exclusion_predicate\<close>, as the test the clause makes
  of a nullable \<open>client_id\<close> column: a comparison with null is not true.
\<close>

definition client_scope_predicate :: "scope_arg \<Rightarrow> (string option \<Rightarrow> bool) res" where
  "client_scope_predicate scope =
     (case scope of
        Scope AllClients \<Rightarrow> Inr (\<lambda>_. True)
      | Scope (BoundClients ids) \<Rightarrow> Inr (\<lambda>c. case c of None \<Rightarrow> False | Some x \<Rightarrow> x \<in> ids)
      | Scope_str t \<Rightarrow>
          (case normalize_client_id (Some t) of
             None \<Rightarrow> Inl (ValueError ''client_id must be non-empty'')
           | Some n \<Rightarrow> Inr (\<lambda>c. c = Some n))
      | No_scope \<Rightarrow> Inl (ValueError ''client scope is required''))"

definition quarantine_exclusion_predicate :: "string option \<Rightarrow> bool" where
  "quarantine_exclusion_predicate c = (case c of None \<Rightarrow> False | Some x \<Rightarrow> x \<noteq> QUARANTINE_CLIENT_ID)"

text \<open>The scope of a nullable client column: all clients when it is null.\<close>

definition client_scope_of :: "string option \<Rightarrow> scope_arg" where
  "client_scope_of c = (case c of None \<Rightarrow> Scope AllClients | Some x \<Rightarrow> Scope_str x)"

definition get_ticket :: "string \<Rightarrow> scope_arg \<Rightarrow> store \<Rightarrow> ticket_row option res" where
  "get_ticket tid scope s =
     rbind (client_scope_predicate scope) (\<lambda>p. Inr (find (\<lambda>t. tk_id t = tid \<and> p (tk_client t)) (tickets s)))"

definition in_scope :: "client_scope \<Rightarrow> string \<Rightarrow> bool" where
  "in_scope scope c = (case scope of AllClients \<Rightarrow> True | BoundClients ids \<Rightarrow> c \<in> ids)"

section \<open>The client table\<close>

definition find_client :: "store \<Rightarrow> string \<Rightarrow> client_row option" where
  "find_client s cid = find (\<lambda>c. cl_id c = cid) (clients s)"

definition ensure_quarantine_client :: "time \<Rightarrow> store \<Rightarrow> (client_row \<times> store) res" where
  "ensure_quarantine_client now s =
     (let t = (if client_exists s QUARANTINE_CLIENT_ID then s
               else s\<lparr>clients := clients s @ [\<lparr>cl_id = QUARANTINE_CLIENT_ID,
                      cl_name = ''Unmapped / Quarantine'', cl_status = ''quarantine'',
                      cl_created = now, cl_updated = now\<rparr>]\<rparr>) in
      case find_client t QUARANTINE_CLIENT_ID of
        None \<Rightarrow> Inl (RuntimeError ''quarantine client could not be created'')
      | Some c \<Rightarrow> Inr (c, t))"

definition list_clients :: "client_scope \<Rightarrow> store \<Rightarrow> client_row list" where
  "list_clients scope s =
     sort_key (\<lambda>c. (cl_name c, cl_id c)) (filter (\<lambda>c. in_scope scope (cl_id c)) (clients s))"

definition get_client :: "client_scope \<Rightarrow> string \<Rightarrow> store \<Rightarrow> client_row option" where
  "get_client scope client_id s =
     (case normalize_client_id (Some client_id) of
        None \<Rightarrow> None
      | Some n \<Rightarrow> find (\<lambda>c. cl_id c = n \<and> in_scope scope (cl_id c)) (clients s))"

definition create_client :: "env \<Rightarrow> time \<Rightarrow> string \<Rightarrow> string \<Rightarrow> store \<Rightarrow> (client_row \<times> store) res" where
  "create_client E now client_id name s =
     (let nm = strip name in
      case normalize_client_id (Some client_id) of
        None \<Rightarrow> Inl (ValueError ''client_id must be non-empty'')
      | Some n \<Rightarrow>
          rbind (reject_reserved_client_id n) (\<lambda>_.
          rbind (raise_if (nm = []) (ValueError ''client name must be non-empty'')) (\<lambda>_.
          rbind (raise_if (client_exists s n) (IntegrityError ''clients.client_id'')) (\<lambda>_.
          let t = s\<lparr>clients := clients s @ [\<lparr>cl_id = n, cl_name = redact E nm, cl_status = ''active'',
                      cl_created = now, cl_updated = now\<rparr>]\<rparr> in
          case find_client t n of
            None \<Rightarrow> Inl (RuntimeError ''client could not be created'')
          | Some c \<Rightarrow> Inr (c, t)))))"

definition CLIENT_STATUSES :: "string list" where
  "CLIENT_STATUSES = [''active'', ''archived'', ''quarantine'']"

definition set_client_status ::
  "time \<Rightarrow> client_scope \<Rightarrow> string \<Rightarrow> string \<Rightarrow> store \<Rightarrow> (client_row option \<times> store) res" where
  "set_client_status now scope client_id status s =
     (let st = lower (strip status) in
      case normalize_client_id (Some client_id) of
        None \<Rightarrow> Inr (None, s)
      | Some n \<Rightarrow>
          rbind (reject_reserved_client_id n) (\<lambda>_.
          rbind (raise_if (st \<notin> set CLIENT_STATUSES) (ValueError ''unsupported client status'')) (\<lambda>_.
          let t = s\<lparr>clients := update_where (\<lambda>c. cl_id c = n \<and> in_scope scope (cl_id c))
                      (\<lambda>c. c\<lparr>cl_status := st, cl_updated := now\<rparr>) (clients s)\<rparr> in
          Inr (find (\<lambda>c. cl_id c = n \<and> in_scope scope (cl_id c)) (clients t), t))))"

text \<open>Commercial activations: the join with \<open>clients\<close>, insert-or-ignore, delete.\<close>

definition list_commercial_activations :: "client_scope \<Rightarrow> store \<Rightarrow> activation_row list" where
  "list_commercial_activations scope s =
     sort_key cm_client (filter (\<lambda>a. client_exists s (cm_client a) \<and> in_scope scope (cm_client a)) (activations s))"

definition activate_commercial_client ::
  "env \<Rightarrow> time \<Rightarrow> client_scope \<Rightarrow> string \<Rightarrow> string \<Rightarrow> time option \<Rightarrow> store \<Rightarrow>
   (activation_row option \<times> store) res" where
  "activate_commercial_client E clock scope client_id activated_by now s =
     (let actor = redact E (strip activated_by) in
      case normalize_client_id (Some client_id) of
        None \<Rightarrow> Inr (None, s)
      | Some n \<Rightarrow>
          rbind (raise_if (actor = []) (ValueError ''activated_by must be non-empty'')) (\<lambda>_.
          if get_client scope n s = None then Inr (None, s)
          else
            let at = (case now of Some x \<Rightarrow> x | None \<Rightarrow> clock);
                t = (if list_ex (\<lambda>a. cm_client a = n) (activations s) then s
                     else s\<lparr>activations := activations s @ [\<lparr>cm_client = n, cm_at = at, cm_by = actor\<rparr>]\<rparr>) in
            Inr (find (\<lambda>a. cm_client a = n) (activations t), t)))"

definition deactivate_commercial_client :: "client_scope \<Rightarrow> string \<Rightarrow> store \<Rightarrow> (bool \<times> store) res" where
  "deactivate_commercial_client scope client_id s =
     (case normalize_client_id (Some client_id) of
        None \<Rightarrow> Inr (False, s)
      | Some n \<Rightarrow>
          if get_client scope n s = None then Inr (False, s)
          else Inr (row_count (\<lambda>a. cm_client a = n) (activations s) > 0,
                    s\<lparr>activations := filter (\<lambda>a. cm_client a \<noteq> n) (activations s)\<rparr>))"

section \<open>Laws of scopes\<close>

lemma bound_clients_Inr [res_simps]:
  "bound_clients ids = Inr sc \<longleftrightarrow> ids \<noteq> {} \<and> [] \<notin> ids \<and> sc = BoundClients ids"
  by (auto simp: bound_clients_def)

lemma strip_arg_Some [res_simps]: "strip_arg x = Some r \<longleftrightarrow> (\<exists>t. x = Some t \<and> r = strip t \<and> r \<noteq> [])"
  by (auto simp: strip_arg_def res_simps split: option.splits)

lemma strip_arg_nonempty [simp]: "strip_arg x \<noteq> Some []"
  by (simp add: res_simps)

lemma scope_client_id_single: "scope_client_id sc = Inr (Some c) \<Longrightarrow> sc = BoundClients {c}"
  by (cases sc) (auto split: if_splits simp: card_1_singleton_iff)

lemma resolve_bound:
  assumes "resolve_client_scope ctx req = Inr sc" "\<not> ac_demo ctx" "\<not> ac_msp_admin ctx"
  shows "sc = BoundClients (case strip_arg req of Some r \<Rightarrow> {r}
           | None \<Rightarrow> strip ` ac_client_ids ctx - {[]})"
    and "\<forall>r. strip_arg req = Some r \<longrightarrow> r \<in> strip ` ac_client_ids ctx"
    and "strip ` ac_client_ids ctx - {[]} \<noteq> {}"
proof -
  have eq: "Set.filter (\<lambda>c. c \<noteq> []) A = A - {[]}" for A :: "string set" by auto
  show "sc = BoundClients (case strip_arg req of Some r \<Rightarrow> {r} | None \<Rightarrow> strip ` ac_client_ids ctx - {[]})"
    "\<forall>r. strip_arg req = Some r \<longrightarrow> r \<in> strip ` ac_client_ids ctx"
    "strip ` ac_client_ids ctx - {[]} \<noteq> {}"
    using assms unfolding resolve_client_scope_def Let_def eq
    by (auto simp: rbind_Inr_iff raise_if_Inr_iff bound_clients_Inr split: option.splits)
qed

section \<open>Laws of the client table\<close>

datatype client_op =
    EnsureQuarantine
  | CreateClient string string
  | SetClientStatus client_scope string string
  | ActivateCommercial client_scope string string "time option"
  | DeactivateCommercial client_scope string

fun client_step :: "env \<Rightarrow> time \<times> client_op \<Rightarrow> store \<Rightarrow> (unit \<times> store) res" where
  "client_step E (now, EnsureQuarantine) s = forget (ensure_quarantine_client now s)"
| "client_step E (now, CreateClient i n) s = forget (create_client E now i n s)"
| "client_step E (now, SetClientStatus sc i st) s = forget (set_client_status now sc i st s)"
| "client_step E (now, ActivateCommercial sc i a w) s = forget (activate_commercial_client E now sc i a w s)"
| "client_step E (now, DeactivateCommercial sc i) s = forget (deactivate_commercial_client sc i s)"

text \<open>
  The client table: identifiers unique, non-empty and stripped, statuses in the enumeration, the
  reserved client always in quarantine; at most one activation per client.
\<close>

definition client_row_ok :: "client_row \<Rightarrow> bool" where
  "client_row_ok c \<longleftrightarrow> cl_id c \<noteq> [] \<and> strip (cl_id c) = cl_id c \<and> cl_status c \<in> set CLIENT_STATUSES \<and>
     (cl_id c = QUARANTINE_CLIENT_ID \<longrightarrow> cl_status c = ''quarantine'')"

definition clients_ok :: "store \<Rightarrow> bool" where
  "clients_ok s \<longleftrightarrow> distinct (map cl_id (clients s)) \<and> (\<forall>c\<in>set (clients s). client_row_ok c) \<and>
     distinct (map cm_client (activations s))"

lemma client_exists_iff: "client_exists s cid \<longleftrightarrow> cid \<in> cl_id ` set (clients s)"
  by (auto simp: client_exists_def list_ex_iff)

lemma quarantine_row_ok: "client_row_ok \<lparr>cl_id = QUARANTINE_CLIENT_ID, cl_name = n, cl_status = ''quarantine'',
    cl_created = a, cl_updated = b\<rparr>"
proof -
  have "strip ''__quarantine__'' = ''__quarantine__''" by code_simp
  then show ?thesis by (simp add: client_row_ok_def CLIENT_STATUSES_def QUARANTINE_CLIENT_ID_def)
qed

lemma normalize_Some [res_simps]: "normalize_client_id (Some c) = Some n \<longleftrightarrow> n = strip c \<and> n \<noteq> []"
  by (simp add: normalize_client_id_def res_simps)

lemma normalize_None [res_simps]: "normalize_client_id (Some c) = None \<longleftrightarrow> strip c = []"
  by (simp add: normalize_client_id_def res_simps)

lemma set_status_clients_ok:
  assumes "clients_ok s" "set_client_status now sc i st s = Inr (r, t)" shows "clients_ok t"
proof -
  have eq: "map cl_id (update_where P (\<lambda>c. c\<lparr>cl_status := st', cl_updated := now\<rparr>) cs) = map cl_id cs"
    for P st' cs by (simp add: map_update_where)
  show ?thesis using assms
    by (auto simp: set_client_status_def Let_def res_simps clients_ok_def client_row_ok_def eq
        reject_reserved_client_id_def set_update_where split: option.splits if_splits)
qed

lemma client_step_ok: "clients_ok s \<Longrightarrow> client_step E c s = Inr (u, t) \<Longrightarrow> clients_ok t"
proof -
  assume s: "clients_ok s" and step: "client_step E c s = Inr (u, t)"
  obtain now op where c: "c = (now, op)" by (cases c)
  show ?thesis
  proof (cases op)
    case EnsureQuarantine
    then show ?thesis using s step quarantine_row_ok unfolding c
      by (auto simp: forget_Inr ensure_quarantine_client_def Let_def clients_ok_def client_exists_iff
          split: option.splits if_splits)
  next
    case (CreateClient i n)
    then show ?thesis using s step unfolding c
      by (auto simp: forget_Inr create_client_def Let_def res_simps clients_ok_def client_exists_iff
          client_row_ok_def CLIENT_STATUSES_def reject_reserved_client_id_def split: option.splits)
  next
    case (ActivateCommercial sc i a w)
    then show ?thesis using s step unfolding c
      by (auto simp: forget_Inr activate_commercial_client_def Let_def res_simps clients_ok_def
          list_ex_key split: option.splits if_splits)
  next
    case (DeactivateCommercial sc i)
    then show ?thesis using s step unfolding c
      by (auto simp: forget_Inr deactivate_commercial_client_def clients_ok_def distinct_map_filter
          split: option.splits if_splits)
  qed (use s step in \<open>auto simp: c forget_Inr dest: set_status_clients_ok\<close>)
qed

interpretation client_ops: guarded_ops "client_step E" clients_ok for E
  by unfold_locales (rule client_step_ok)

interpretation client_log: append_only_log "client_step E" for E
proof
  fix c s r t assume step: "client_step E c s = Inr (r, t)"
  obtain now op where c: "c = (now, op)" by (cases c)
  show "log_extends s t" using step unfolding c
    by (cases op) (auto simp: forget_Inr Let_def res_simps log_extends_same ensure_quarantine_client_def
        create_client_def set_client_status_def activate_commercial_client_def
        deactivate_commercial_client_def split: option.splits if_splits)
qed

end
