(* ===== verification/Principal_Laws.thy ===== *)
theory Principal_Laws
  imports Principals
begin

text \<open>
  The laws of the principal administration. Every operation has one of the effects of
  \<^const>\<open>principal_effect\<close>; every effect keeps the identity invariant and leaves at least one
  active MSP administrator with an active credential; so does every run of operations, through the
  interfaces \<open>guarded_ops\<close> and \<open>append_only_log\<close>.
\<close>

section \<open>Every operation has one of the effects\<close>

lemma find_principal_None: "find_principal s pid = None \<longleftrightarrow> pid \<notin> principal_ids s"
  by (auto simp: find_principal_def principal_ids_def find_None_iff)

lemma find_principal_Some: "find_principal s pid = Some p \<Longrightarrow> p \<in> set (principals s) \<and> pr_id p = pid"
  by (auto simp: find_principal_def find_Some_iff)

lemma insert_principal_Inr [res_simps]: "insert_principal p s = Inr t \<longleftrightarrow>
   pr_id p \<notin> principal_ids s \<and> t = s\<lparr>principals := principals s @ [p]\<rparr>"
  by (auto simp: insert_principal_def find_principal_None)

lemma insert_credential_Inr [res_simps]: "insert_credential c s = Inr t \<longleftrightarrow>
   cr_hash c \<notin> cr_hash ` set (credentials s) \<and> t = s\<lparr>credentials := credentials s @ [c]\<rparr>"
  by (auto simp: insert_credential_def list_ex_iff) (metis image_eqI)

lemma insert_client_role_Inr [res_simps]: "insert_client_role r s = Inr t \<longleftrightarrow>
   r \<notin> set (client_roles s) \<and> t = s\<lparr>client_roles := client_roles s @ [r]\<rparr>"
  by (auto simp: insert_client_role_def)

lemma insert_global_role_Inr [res_simps]: "insert_global_role g s = Inr t \<longleftrightarrow>
   g \<notin> set (global_roles s) \<and> t = s\<lparr>global_roles := global_roles s @ [g]\<rparr>"
  by (auto simp: insert_global_role_def)

lemma require_active_principal_Inr: "require_active_principal s pid = Inr u \<Longrightarrow> principal_active s pid"
  by (auto simp: require_active_principal_def res_simps active_in_def list_ex_iff
        split: option.splits dest: find_principal_Some)

lemma create_principal_effect: "create_principal E now i k d s = Inr (r, t) \<Longrightarrow> principal_effect s t"
  using principal_effect.enrol [of _ s "[]" "[]" "[]"]
  by (auto simp: create_principal_def Let_def res_simps PRINCIPAL_KINDS_def)

lemma add_credential_effect: "add_principal_credential E now i c s = Inr (r, t) \<Longrightarrow> principal_effect s t"
  by (auto simp: add_principal_credential_def Let_def res_simps
        intro!: principal_effect.add_cred dest: require_active_principal_Inr)

lemma map_hash_deactivate [simp]:
  "map cr_hash (credentials (deactivate_credentials pid s)) = map cr_hash (credentials s)"
  by (simp add: deactivate_credentials_def map_update_where)

lemma cr_hash_deactivate:
  "cr_hash ` set (credentials (deactivate_credentials pid s)) = cr_hash ` set (credentials s)"
  using arg_cong [OF map_hash_deactivate [of pid s], of set] by (simp only: set_map)

lemma rotate_credential_effect: "rotate_principal_credential E now i c s = Inr (r, t) \<Longrightarrow> principal_effect s t"
  by (auto simp: rotate_principal_credential_def Let_def res_simps cr_hash_deactivate
        intro!: principal_effect.rotate_cred dest: require_active_principal_Inr)

lemma add_client_role_effect: "add_principal_client_role i c r s = Inr (u, t) \<Longrightarrow> principal_effect s t"
  by (auto simp: add_principal_client_role_def Let_def res_simps reject_reserved_client_id_def
        role_row_ok_def list_ex_iff normalize_client_id_def
        split: option.splits intro!: principal_effect.add_role)

lemma add_global_role_effect: "add_principal_global_role i r s = Inr (u, t) \<Longrightarrow> principal_effect s t"
  by (auto simp: add_principal_global_role_def Let_def res_simps
        split: option.splits intro!: principal_effect.add_global)

lemma deactivate_effect: "deactivate_principal E now i a u s = Inr (n, t) \<Longrightarrow> principal_effect s t"
  using principal_effect.deactivate [of s]
  by (auto simp: deactivate_principal_def Let_def res_simps audit_defs deactivate_credentials_def)

lemma set_active_effect: "set_principal_active E now i b s = Inr (u, t) \<Longrightarrow> principal_effect s t"
  by (auto simp: set_principal_active_def Let_def res_simps split: if_splits prod.splits
        intro: deactivate_effect principal_effect.activate)

lemma set_display_name_effect: "set_principal_display_name E i d s = Inr (u, t) \<Longrightarrow> principal_effect s t"
  by (auto simp: set_principal_display_name_def Let_def res_simps intro: principal_effect.rename)

lemma lookup_credential_in: "lookup_credential s h = Inr c \<Longrightarrow> c \<in> set (credentials s)"
proof (cases "find (\<lambda>c. cr_hash c = h) (credentials s)")
  case None
  moreover assume "lookup_credential s h = Inr c"
  ultimately have "filter (\<lambda>c. sql_like (h @ ''%'') (cr_hash c)) (credentials s) = [c]"
    by (auto simp: lookup_credential_def split: list.splits)
  then have "c \<in> set (filter (\<lambda>c. sql_like (h @ ''%'') (cr_hash c)) (credentials s))" by simp
  then show ?thesis by simp
qed (auto simp: lookup_credential_def find_Some_iff)

lemma revoke_credential_effect: "revoke_principal_credential h s = Inr (u, t) \<Longrightarrow> principal_effect s t"
  by (auto simp: revoke_principal_credential_def Let_def res_simps split: if_splits
        intro!: principal_effect.revoke_one dest: lookup_credential_in)

lemma revoke_all_effect: "revoke_all_principal_credentials i a s = Inr (n, t) \<Longrightarrow> principal_effect s t"
  by (auto simp: revoke_all_principal_credentials_def Let_def res_simps intro: principal_effect.revoke_all)

lemma remove_client_role_effect: "remove_principal_client_role now i c r a s = Inr (u, t) \<Longrightarrow> principal_effect s t"
  by (auto simp: remove_principal_client_role_def Let_def res_simps split: option.splits
        intro!: principal_effect.drop_role)

lemma remove_global_role_effect: "remove_principal_global_role now i r s = Inr (u, t) \<Longrightarrow> principal_effect s t"
  by (auto simp: remove_principal_global_role_def Let_def res_simps split: option.splits
        intro!: principal_effect.drop_global)


lemma check_role_clients_Inr: "check_role_clients s rs = Inr u \<Longrightarrow>
   \<forall>(c, r)\<in>set rs. c \<noteq> QUARANTINE_CLIENT_ID \<and> client_exists s c"
  by (induction rs) (auto simp: res_simps reject_reserved_client_id_def)

lemma insert_initial_roles_eq: "insert_initial_roles pid rs adm s =
  s\<lparr>client_roles := client_roles s @ role_rows pid rs,
    global_roles := global_roles s @ (if adm then [\<lparr>gl_principal = pid, gl_role = ''msp_admin''\<rparr>] else [])\<rparr>"
  by (simp add: insert_initial_roles_def)

lemma distinct_role_rows: "distinct rs \<Longrightarrow> distinct (role_rows pid rs)"
  unfolding role_rows_def by (auto simp: distinct_map inj_on_def)

lemma distinct_normalize_roles: "distinct (normalize_roles roles)"
  by (simp add: normalize_roles_def)

lemma normalize_roles_strip: "(c, r) \<in> set (normalize_roles roles) \<Longrightarrow> strip c = c"
  by (auto simp: normalize_roles_def normalize_client_id_def strip_or_none_def Let_def split: option.splits)

lemma role_rows_ok:
  assumes "check_role_clients s rs = Inr u" "\<forall>(c, r)\<in>set rs. strip c = c" "\<not> list_ex (\<lambda>(c, _). c = []) rs"
    "\<not> list_ex (\<lambda>(_, r). r \<notin> set CLIENT_ROLES) rs"
  shows "\<forall>r\<in>set (role_rows pid rs). ro_principal r = pid \<and> role_row_ok r"
  using assms check_role_clients_Inr [OF assms(1)]
  by (fastforce simp: role_rows_def role_row_ok_def list_ex_iff)

lemma create_with_access_effect:
  assumes "create_principal_with_access E now i k d roles adm cred s = Inr (r, t)"
  shows "principal_effect s t"
proof -
  define pid ki rs where "pid = strip i" "ki = lower (strip k)" "rs = normalize_roles roles"
  define p where "p = \<lparr>pr_id = pid, pr_kind = ki, pr_name = redact E (strip d), pr_active = True, pr_created = now\<rparr>"
  define s1 where "s1 = s\<lparr>principals := principals s @ [p]\<rparr>"
  from assms obtain hash where
    guards: "pr_id p \<notin> principal_ids s" "ki \<in> set PRINCIPAL_KINDS"
      "\<not> list_ex (\<lambda>(c, _). c = []) rs" "\<not> list_ex (\<lambda>(_, r). r \<notin> set CLIENT_ROLES) rs"
      "\<not> (ki = ''customer'' \<and> adm)" "\<not> (ki = ''customer'' \<and> length rs \<noteq> 1)"
      "check_role_clients s rs = Inr ()"
    and ins: "(case hash of None \<Rightarrow> Inr (insert_initial_roles pid rs adm s1)
      | Some h \<Rightarrow> insert_credential \<lparr>cr_principal = pid, cr_hash = h, cr_active = True, cr_created = now\<rparr>
          (insert_initial_roles pid rs adm s1)) = Inr t"
    unfolding create_principal_with_access_def Let_def pid_ki_rs_def [symmetric] rbind_Inr_iff
      raise_if_Inr_iff insert_principal_Inr p_def [symmetric] s1_def [symmetric]
    by auto
  obtain cs where
    t: "t = (insert_initial_roles pid rs adm s1)\<lparr>credentials := credentials s @ cs\<rparr>"
    and cs: "cs = [] \<or> (\<exists>c. cs = [c] \<and> cr_principal c = pid \<and> cr_hash c \<notin> cr_hash ` set (credentials s))"
    using ins that [of "case hash of None \<Rightarrow> [] | Some h \<Rightarrow>
      [\<lparr>cr_principal = pid, cr_hash = h, cr_active = True, cr_created = now\<rparr>]"]
    by (cases hash) (auto simp: res_simps insert_initial_roles_eq s1_def)
  have *: "t = s\<lparr>principals := principals s @ [p], client_roles := client_roles s @ role_rows pid rs,
      global_roles := global_roles s @ (if adm then [\<lparr>gl_principal = pid, gl_role = ''msp_admin''\<rparr>] else []),
      credentials := credentials s @ cs\<rparr>"
    by (simp add: t insert_initial_roles_eq s1_def)
  have p: "pr_id p = pid" "pr_kind p = ki" "pr_active p" by (simp_all add: p_def)
  have rs: "distinct rs" by (simp add: pid_ki_rs_def distinct_normalize_roles)
  show ?thesis unfolding *
  proof (rule principal_effect.enrol)
    show "distinct (role_rows pid rs)" using rs by (rule distinct_role_rows)
    show "\<forall>r\<in>set (role_rows pid rs). ro_principal r = pr_id p \<and> role_row_ok r"
      unfolding p using guards(3,4)
      by (intro role_rows_ok [OF guards(7)]) (auto simp: pid_ki_rs_def dest: normalize_roles_strip)
    show "pr_id p \<notin> principal_ids s" by (rule guards(1))
    show "pr_kind p \<in> set PRINCIPAL_KINDS" "pr_active p" using guards(2) p by simp_all
    show "pr_kind p = ''customer'' \<longrightarrow> length (role_rows pid rs) \<le> 1"
      using guards(6) by (simp add: p role_rows_def)
    show "\<forall>g\<in>set (if adm then [\<lparr>gl_principal = pid, gl_role = ''msp_admin''\<rparr>] else []).
        gl_principal g = pr_id p \<and> gl_role g = ''msp_admin'' \<and> pr_kind p = ''staff''"
      using guards(2,5) by (auto simp: p PRINCIPAL_KINDS_def)
    show "distinct (map cr_hash cs)" using cs by (elim disjE exE) simp_all
    show "\<forall>c\<in>set cs. cr_principal c = pr_id p \<and> cr_hash c \<notin> cr_hash ` set (credentials s)"
      using cs p(1) by (elim disjE exE) simp_all
  qed simp
qed

section \<open>The identity invariant\<close>

definition ids_unique :: "store \<Rightarrow> bool" where
  "ids_unique s \<longleftrightarrow> distinct (map pr_id (principals s)) \<and> distinct (map cr_hash (credentials s)) \<and>
     distinct (client_roles s) \<and> distinct (global_roles s)"

definition kinds_ok :: "store \<Rightarrow> bool" where
  "kinds_ok s \<longleftrightarrow> (\<forall>p\<in>set (principals s). pr_kind p \<in> set PRINCIPAL_KINDS)"

definition roles_ok :: "store \<Rightarrow> bool" where
  "roles_ok s \<longleftrightarrow> (\<forall>r\<in>set (client_roles s). ro_principal r \<in> principal_ids s \<and> role_row_ok r) \<and>
     (\<forall>r\<in>set (client_roles s). \<forall>r'\<in>set (client_roles s).
        ro_principal r = ro_principal r' \<and> kind_in (principals s) (ro_principal r) ''customer'' \<longrightarrow> ro_client r = ro_client r')"

definition globals_ok :: "store \<Rightarrow> bool" where
  "globals_ok s \<longleftrightarrow> (\<forall>g\<in>set (global_roles s). gl_role g = ''msp_admin'' \<and> kind_in (principals s) (gl_principal g) ''staff'')"

definition credentials_live :: "store \<Rightarrow> bool" where
  "credentials_live s \<longleftrightarrow> (\<forall>c\<in>set (credentials s). cr_active c \<longrightarrow> principal_active s (cr_principal c))"

definition identity_inv :: "store \<Rightarrow> bool" where
  "identity_inv s \<longleftrightarrow> ids_unique s \<and> kinds_ok s \<and> roles_ok s \<and> globals_ok s \<and> credentials_live s"

lemma map_pr_id_update [simp]:
  "map pr_id (update_where P (\<lambda>p. p\<lparr>pr_active := b\<rparr>) ps) = map pr_id ps"
  "map pr_id (update_where P (\<lambda>p. p\<lparr>pr_name := n\<rparr>) ps) = map pr_id ps"
  by (simp_all add: map_update_where)

lemma pr_id_update [simp]:
  "pr_id ` set (update_where P (\<lambda>p. p\<lparr>pr_active := b\<rparr>) ps) = pr_id ` set ps"
  "pr_id ` set (update_where P (\<lambda>p. p\<lparr>pr_name := n\<rparr>) ps) = pr_id ` set ps"
  using arg_cong [OF map_pr_id_update(1) [of P b ps], of set]
    arg_cong [OF map_pr_id_update(2) [of P n ps], of set] by (simp_all only: set_map)

lemma map_cr_hash_update [simp]:
  "map cr_hash (update_where P (\<lambda>c. c\<lparr>cr_active := b\<rparr>) cs) = map cr_hash cs"
  by (simp add: map_update_where)

lemma kind_in_simps [simp]:
  "kind_in (ps @ qs) pid k \<longleftrightarrow> kind_in ps pid k \<or> kind_in qs pid k"
  "kind_in [p] pid k \<longleftrightarrow> pr_id p = pid \<and> pr_kind p = k"
  "kind_in (update_where P (\<lambda>p. p\<lparr>pr_active := b\<rparr>) ps) = kind_in ps"
  "kind_in (update_where P (\<lambda>p. p\<lparr>pr_name := n\<rparr>) ps) = kind_in ps"
  by (auto simp: kind_in_def list_ex_iff fun_eq_iff cong: bex_cong)

lemma active_in_simps [simp]:
  "active_in (ps @ qs) pid \<longleftrightarrow> active_in ps pid \<or> active_in qs pid"
  "active_in [p] pid \<longleftrightarrow> pr_id p = pid \<and> pr_active p"
  "active_in (update_where P (\<lambda>p. p\<lparr>pr_name := n\<rparr>) ps) = active_in ps"
  "active_in (update_where (\<lambda>p. pr_id p = q) (\<lambda>p. p\<lparr>pr_active := False\<rparr>) ps) pid \<longleftrightarrow> active_in ps pid \<and> pid \<noteq> q"
  "active_in (update_where (\<lambda>p. pr_id p = q) (\<lambda>p. p\<lparr>pr_active := True\<rparr>) ps) pid \<longleftrightarrow>
     active_in ps pid \<or> (pid = q \<and> pid \<in> pr_id ` set ps)"
  by (auto simp: active_in_def list_ex_iff fun_eq_iff cong: bex_cong)

lemma kind_in_ids: "kind_in ps pid k \<Longrightarrow> pid \<in> pr_id ` set ps"
  by (auto simp: kind_in_def list_ex_iff)

lemma active_in_ids: "active_in ps pid \<Longrightarrow> pid \<in> pr_id ` set ps"
  by (auto simp: active_in_def list_ex_iff)

lemma effect_ids_unique: "principal_effect s t \<Longrightarrow> identity_inv s \<Longrightarrow> ids_unique t"
proof (induction rule: principal_effect.induct)
  case (enrol p s rs gs cs)
  have "set rs \<inter> set (client_roles s) = {}"
    using enrol.prems enrol.hyps(1,5) unfolding identity_inv_def roles_ok_def by auto
  moreover have "\<not> kind_in (principals s) (pr_id p) ''staff''"
    using enrol.hyps(1) by (auto simp: principal_ids_def dest: kind_in_ids)
  then have "set gs \<inter> set (global_roles s) = {}"
    using enrol.prems enrol.hyps(8) unfolding identity_inv_def globals_ok_def
    by (metis disjoint_iff)
  moreover have "cr_hash ` set (credentials s) \<inter> cr_hash ` set cs = {}"
  proof (rule equals0I)
    fix h assume "h \<in> cr_hash ` set (credentials s) \<inter> cr_hash ` set cs"
    then have h: "h \<in> cr_hash ` set (credentials s)" "h \<in> cr_hash ` set cs" by simp_all
    from h(2) obtain c where "c \<in> set cs" "h = cr_hash c" by (rule imageE)
    with enrol.hyps(10) h(1) show False by simp
  qed
  ultimately show ?case using enrol.hyps enrol.prems
    by (auto simp: ids_unique_def identity_inv_def principal_ids_def)
qed (simp_all add: identity_inv_def ids_unique_def principal_ids_def deactivate_credentials_def deactivate_grants_def)

lemma effect_kinds_ok: "principal_effect s t \<Longrightarrow> kinds_ok s \<Longrightarrow> kinds_ok t"
  by (induction rule: principal_effect.induct)
    (auto simp: kinds_ok_def deactivate_credentials_def deactivate_grants_def)

lemma length_le_1_unique: "length xs \<le> Suc 0 \<Longrightarrow> x \<in> set xs \<Longrightarrow> y \<in> set xs \<Longrightarrow> x = y"
  by (cases xs) auto

lemma kind_in_find: "ids_unique s \<Longrightarrow> find_principal s pid = Some p \<Longrightarrow> kind_in (principals s) pid k \<longleftrightarrow> pr_kind p = k"
  by (auto simp: kind_in_def list_ex_iff ids_unique_def distinct_map inj_on_def dest!: find_principal_Some)

lemma roles_ok_mono:
  "roles_ok s \<Longrightarrow> set (client_roles t) \<subseteq> set (client_roles s) \<Longrightarrow> principal_ids t = principal_ids s \<Longrightarrow>
   kind_in (principals t) = kind_in (principals s) \<Longrightarrow> roles_ok t"
  unfolding roles_ok_def by (simp, blast)

lemma effect_roles_ok: "principal_effect s t \<Longrightarrow> identity_inv s \<Longrightarrow> roles_ok t"
proof (induction rule: principal_effect.induct)
  case (enrol p s rs gs cs)
  have old: "ro_principal r \<noteq> pr_id p" if "r \<in> set (client_roles s)" for r
    using enrol.prems enrol.hyps(1) that by (auto simp: identity_inv_def roles_ok_def)
  have new: "\<not> kind_in (principals s) (pr_id p) k" for k
    using enrol.hyps(1) by (auto simp: principal_ids_def dest: kind_in_ids)
  let ?t = "s\<lparr>principals := principals s @ [p], client_roles := client_roles s @ rs,
       global_roles := global_roles s @ gs, credentials := credentials s @ cs\<rparr>"
  show ?case unfolding roles_ok_def
  proof (intro conjI ballI impI)
    fix r assume "r \<in> set (client_roles ?t)"
    then show "role_row_ok r" "ro_principal r \<in> principal_ids ?t"
      using enrol.prems enrol.hyps(5) by (auto simp: identity_inv_def roles_ok_def principal_ids_def)
  next
    fix r r' assume r: "r \<in> set (client_roles ?t)" "r' \<in> set (client_roles ?t)"
      and k: "ro_principal r = ro_principal r' \<and> kind_in (principals ?t) (ro_principal r) ''customer''"
    show "ro_client r = ro_client r'"
    proof (cases "r \<in> set (client_roles s)")
      case True
      with k old [OF True] enrol.hyps(5) r have "r' \<in> set (client_roles s)" by auto
      moreover from k old [OF True] have "kind_in (principals s) (ro_principal r) ''customer''" by auto
      ultimately show ?thesis using enrol.prems True k unfolding identity_inv_def roles_ok_def by blast
    next
      case False
      with r have "r \<in> set rs" by simp
      with enrol.hyps(5) have "ro_principal r = pr_id p" by blast
      with k old new r have "r' \<in> set rs" "pr_kind p = ''customer''" by auto
      with enrol.hyps(6) \<open>r \<in> set rs\<close> have "r = r'" by (auto dest: length_le_1_unique)
      then show ?thesis by simp
    qed
  qed
next
  case (add_role s r p)
  have p: "ro_principal r \<in> principal_ids s"
    using add_role.hyps(1) find_principal_None [of s "ro_principal r"] by auto
  have k: "kind_in (principals s) (ro_principal r) ''customer'' \<Longrightarrow> pr_kind p = ''customer''"
    using kind_in_find [OF _ add_role.hyps(1)] add_role.prems by (simp add: identity_inv_def)
  show ?case
    using add_role.prems add_role.hyps(2,4) p k
    by (simp add: identity_inv_def roles_ok_def principal_ids_def) metis
qed (auto simp: identity_inv_def principal_ids_def deactivate_credentials_def deactivate_grants_def
       elim: roles_ok_mono)

lemma effect_globals_ok: "principal_effect s t \<Longrightarrow> globals_ok s \<Longrightarrow> globals_ok t"
  by (induction rule: principal_effect.induct)
    (auto simp: globals_ok_def kind_in_def deactivate_credentials_def deactivate_grants_def
       list_ex_iff dest: find_principal_Some)

lemma effect_credentials_live: "principal_effect s t \<Longrightarrow> credentials_live s \<Longrightarrow> credentials_live t"
  by (induction rule: principal_effect.induct)
    (auto simp: credentials_live_def deactivate_credentials_def deactivate_grants_def)

lemma effect_identity_inv: "principal_effect s t \<Longrightarrow> identity_inv s \<Longrightarrow> identity_inv t"
  using effect_ids_unique effect_kinds_ok effect_roles_ok effect_globals_ok effect_credentials_live
  unfolding identity_inv_def by blast


section \<open>The lockout guard\<close>

definition live_admin :: "store \<Rightarrow> string \<Rightarrow> bool" where
  "live_admin s pid \<longleftrightarrow> principal_active s pid \<and> is_msp_admin s pid \<and>
     (\<exists>c\<in>set (credentials s). cr_principal c = pid \<and> cr_active c)"

lemma active_credential_count_pos:
  "active_credential_count s pid > 0 \<longleftrightarrow> (\<exists>c\<in>set (credentials s). cr_principal c = pid \<and> cr_active c)"
  using row_count_0_iff [of "\<lambda>c. cr_principal c = pid \<and> cr_active c" "credentials s"]
  by (auto simp: active_credential_count_def)

lemma has_msp_admin_credential_iff: "has_msp_admin_credential s \<longleftrightarrow> (\<exists>pid. live_admin s pid)"
  by (auto simp: has_msp_admin_credential_def live_admin_def active_in_def list_ex_iff)

lemma set_live_msp_admins: "set (live_msp_admins s) = {pid. live_admin s pid}"
  by (auto simp: live_msp_admins_def live_admin_def active_credential_count_pos active_in_def list_ex_iff)

lemma distinct_two: "distinct xs \<Longrightarrow> length xs > 1 \<Longrightarrow> \<exists>y\<in>set xs. y \<noteq> x"
  by (cases xs; cases "tl xs") auto

lemma guard_other_admin:
  assumes "guard_last_msp_admin s pid b = Inr ()" "live_admin s pid" "\<not> (b \<and> active_credential_count s pid > 1)"
  shows "\<exists>q. q \<noteq> pid \<and> live_admin s q"
proof -
  have "active_credential_count s pid > 0" using assms(2)
    by (simp add: live_admin_def active_credential_count_pos)
  then have "length (live_msp_admins s) > 1"
    using assms unfolding guard_last_msp_admin_def live_admin_def active_in_def Let_def
    by (auto split: if_splits)
  then show ?thesis
    using distinct_two [of "live_msp_admins s" pid] set_live_msp_admins [of s]
    by (auto simp: live_msp_admins_def)
qed

lemma is_msp_admin_cong: "global_roles t = global_roles s \<Longrightarrow> is_msp_admin t = is_msp_admin s"
  by (simp add: is_msp_admin_def fun_eq_iff)

text \<open>An effect that takes nothing from the administrators other than \<open>pid\<close>.\<close>

lemma live_admin_survives:
  assumes "guard_last_msp_admin s pid False = Inr ()" "\<exists>q. live_admin s q"
    "\<And>q. q \<noteq> pid \<Longrightarrow> live_admin s q \<Longrightarrow> live_admin t q"
  shows "\<exists>q. live_admin t q"
  using assms guard_other_admin [OF assms(1)] by (metis (full_types))

lemma count_after_revoke:
  assumes "distinct (map cr_hash cs)" "c \<in> set cs" "cr_active c" "cr_principal c = pid"
    "row_count (\<lambda>x. cr_principal x = pid \<and> cr_active x) cs > 1"
  shows "\<exists>x\<in>set cs. cr_principal x = pid \<and> cr_active x \<and> cr_hash x \<noteq> cr_hash c"
proof -
  let ?ys = "filter (\<lambda>x. cr_principal x = pid \<and> cr_active x) cs"
  have "distinct (map cr_hash ?ys)" using assms(1) by (simp add: distinct_map_filter)
  moreover have "length (map cr_hash ?ys) > 1" using assms(5) by (simp add: row_count_def)
  ultimately obtain h where "h \<in> set (map cr_hash ?ys)" "h \<noteq> cr_hash c" using distinct_two by metis
  then show ?thesis by auto
qed

lemma effect_no_lockout:
  "principal_effect s t \<Longrightarrow> identity_inv s \<Longrightarrow> \<exists>q. live_admin s q \<Longrightarrow> \<exists>q. live_admin t q"
proof (induction rule: principal_effect.induct)
  case (rotate_cred s c t)
  then obtain q where q: "live_admin s q" by blast
  have "live_admin (t\<lparr>credentials := credentials t @ [c]\<rparr>) q"
    using q rotate_cred.hyps
    by (cases "q = cr_principal c") (auto simp: live_admin_def deactivate_credentials_def is_msp_admin_def)
  then show ?case by blast
next
  case (deactivate s pid hi au now)
  show ?case by (rule live_admin_survives [OF deactivate.hyps deactivate.prems(2)])
    (auto simp: live_admin_def deactivate_credentials_def is_msp_admin_def)
next
  case (revoke_one c s)
  let ?t = "s\<lparr>credentials := update_where (\<lambda>x. cr_hash x = cr_hash c) (\<lambda>x. x\<lparr>cr_active := False\<rparr>) (credentials s)\<rparr>"
  have uniq: "x = c" if "x \<in> set (credentials s)" "cr_hash x = cr_hash c" for x
    using revoke_one that by (auto simp: identity_inv_def ids_unique_def distinct_map inj_on_def)
  obtain q where q: "live_admin s q" using revoke_one.prems by blast
  have other: "live_admin ?t p" if "live_admin s p" "p \<noteq> cr_principal c \<or> \<not> cr_active c" for p
    using that uniq by (auto simp: live_admin_def is_msp_admin_def)
  show ?case
  proof (cases "q = cr_principal c \<and> cr_active c")
    case False
    with other q show ?thesis by blast
  next
    case True
    show ?thesis
    proof (cases "active_credential_count s q > 1")
      case True': True
      obtain x where "x \<in> set (credentials s)" "cr_principal x = q" "cr_active x" "cr_hash x \<noteq> cr_hash c"
        using count_after_revoke [of "credentials s" c q] revoke_one True True'
        by (auto simp: identity_inv_def ids_unique_def active_credential_count_def)
      with q have "live_admin ?t q" by (auto simp: live_admin_def is_msp_admin_def)
      then show ?thesis by blast
    next
      case False
      with guard_other_admin [of s q True] q True revoke_one.hyps(2)
      obtain p where "p \<noteq> q" "live_admin s p" by auto
      with other True show ?thesis by blast
    qed
  qed
next
  case (revoke_all s pid)
  show ?case by (rule live_admin_survives [OF revoke_all.hyps revoke_all.prems(2)])
    (auto simp: live_admin_def is_msp_admin_def)
next
  case (drop_global row pid s now)
  show ?case by (rule live_admin_survives [OF drop_global.hyps(2) drop_global.prems(2)])
    (use drop_global.hyps(1) in \<open>auto simp: live_admin_def is_msp_admin_def deactivate_grants_def list_ex_iff\<close>)
qed (fastforce simp: live_admin_def is_msp_admin_def deactivate_grants_def)+

section \<open>Runs of operations\<close>

lemmas step_effects = create_principal_effect create_with_access_effect add_credential_effect
  rotate_credential_effect add_client_role_effect add_global_role_effect set_active_effect
  deactivate_effect set_display_name_effect revoke_credential_effect revoke_all_effect
  remove_client_role_effect remove_global_role_effect

lemma principal_step_effect: "principal_step E c s = Inr (u, t) \<Longrightarrow> principal_effect s t"
proof -
  assume step: "principal_step E c s = Inr (u, t)"
  obtain now op where c: "c = (now, op)" by (cases c)
  show ?thesis using step unfolding c
    by (cases op) (auto simp: forget_Inr dest: step_effects)
qed

interpretation identity_ops: guarded_ops "principal_step E" identity_inv for E
  by unfold_locales (auto dest: principal_step_effect effect_identity_inv)

interpretation admin_ops:
  guarded_ops "principal_step E" "\<lambda>s. identity_inv s \<and> (\<exists>q. live_admin s q)" for E
  by unfold_locales (auto dest: principal_step_effect effect_identity_inv effect_no_lockout)

lemma deactivate_appends: "deactivate_principal E now i a u s = Inr (n, t) \<Longrightarrow> log_extends s t"
  by (auto simp: deactivate_principal_def Let_def res_simps audit_defs deactivate_credentials_def
        log_extends_def)

lemma principal_step_appends: "principal_step E c s = Inr (u, t) \<Longrightarrow> log_extends s t"
proof -
  assume step: "principal_step E c s = Inr (u, t)"
  obtain now op where c: "c = (now, op)" by (cases c)
  show ?thesis
  proof (cases op)
    case (CreatePrincipalWithAccess i k d rs a cr)
    then show ?thesis using step unfolding c
      by (auto simp: forget_Inr create_principal_with_access_def Let_def res_simps
          insert_initial_roles_def log_extends_def split: option.splits if_splits)
  next
    case (SetActive i b)
    then show ?thesis using step unfolding c
      by (auto simp: set_principal_active_def Let_def res_simps log_extends_same
          split: if_splits dest: deactivate_appends)
  qed (use step in \<open>auto simp: c forget_Inr Let_def res_simps log_extends_same dest: deactivate_appends
         simp: create_principal_def add_principal_credential_def rotate_principal_credential_def
           deactivate_credentials_def add_principal_client_role_def add_principal_global_role_def
           set_principal_display_name_def revoke_principal_credential_def
           revoke_all_principal_credentials_def remove_principal_client_role_def
           remove_principal_global_role_def deactivate_grants_def split: option.splits\<close>)
qed

interpretation principal_log: append_only_log "principal_step E" for E
  by unfold_locales (rule principal_step_appends)


section \<open>Properties\<close>

definition demo_admins :: store where
  "demo_admins = run_ops (principal_step plain_env)
     [(1, CreatePrincipalWithAccess ''root'' ''staff'' ''Root'' [] True (Some ''k1'')),
      (2, CreatePrincipalWithAccess ''dan'' ''staff'' ''Dan'' [] True (Some ''k2''))] empty_store"

definition demo_ops :: "(time \<times> principal_op) list" where
  "demo_ops = [(3, DeactivatePrincipal ''dan'' (Some ''root'') None), (4, RevokeCredential ''h:k1''),
     (5, RemoveGlobalRole ''root'' ''msp_admin''), (6, RotateCredential ''root'' ''k3'')]"

lemma identity_inv_empty [simp]: "identity_inv empty_store"
  by (simp add: identity_inv_def empty_store_def ids_unique_def kinds_ok_def roles_ok_def
      globals_ok_def credentials_live_def)

lemma demo_admins_inv: "identity_inv demo_admins"
  unfolding demo_admins_def by (rule identity_ops.run_ops_keeps) simp

lemma demo_admins_live: "has_msp_admin_credential demo_admins"
  by code_simp

text \<open>
  C1. No administrative lockout: starting from a well-formed store in which some active
  \<open>msp_admin\<close> principal holds an active credential, every sequence of principal operations
  (whatever their arguments, including ones that fail) ends in a store in which
  \<open>has_msp_admin_credential\<close> still answers true.
\<close>

theorem no_admin_lockout:
  assumes "identity_inv s" "has_msp_admin_credential s"
  shows "has_msp_admin_credential (run_ops (principal_step E) cs s)"
  using admin_ops.run_ops_keeps [of s E cs] assms by (auto simp: has_msp_admin_credential_iff)

theorem no_admin_lockout_witness:
  "has_msp_admin_credential demo_admins \<and>
   has_msp_admin_credential (run_ops (principal_step plain_env) demo_ops demo_admins)"
  using no_admin_lockout [OF demo_admins_inv demo_admins_live] demo_admins_live by simp

text \<open>
  C2. The identity invariant: principal identifiers, credential digests and role rows stay unique,
  kinds and roles stay in their enumerations, no role names the reserved quarantine client, a
  customer principal stays within one client, only staff hold \<open>msp_admin\<close>, and an active
  credential always belongs to an active principal, after every sequence of operations.
\<close>

theorem identity_invariant:
  assumes "identity_inv s"
  shows "identity_inv (run_ops (principal_step E) cs s)"
  using assms by (rule identity_ops.run_ops_keeps)

theorem identity_invariant_witness:
  "identity_inv demo_admins \<and> identity_inv (run_ops (principal_step plain_env) demo_ops demo_admins)"
  using identity_invariant [OF demo_admins_inv] demo_admins_inv by simp

lemma filter_update_where_other:
  "(\<And>r. q r \<Longrightarrow> \<not> p r) \<Longrightarrow> (\<And>r. p r \<Longrightarrow> \<not> q (f r)) \<Longrightarrow>
   filter q (update_where p f rs) = filter q rs"
  by (induction rs) auto

lemma filter_update_where_none:
  "(\<And>r. p r \<Longrightarrow> \<not> q (f r)) \<Longrightarrow> (\<And>r. \<not> p r \<Longrightarrow> \<not> q r) \<Longrightarrow> filter q (update_where p f rs) = []"
  by (induction rs) auto

text \<open>
  Rotation: when \<open>rotate_principal_credential\<close> succeeds, the principal was active, its only
  active credential is the new digest, every other principal's credentials are as they were, and
  no other table changes.
\<close>

theorem rotate_leaves_one_credential:
  assumes "rotate_principal_credential E now i c s = Inr (h, t)"
  shows "h = sha256 E c \<and> principal_active s (strip i) \<and>
    filter (\<lambda>x. cr_principal x = strip i \<and> cr_active x) (credentials t) =
      [\<lparr>cr_principal = strip i, cr_hash = h, cr_active = True, cr_created = now\<rparr>] \<and>
    filter (\<lambda>x. cr_principal x \<noteq> strip i) (credentials t) =
      filter (\<lambda>x. cr_principal x \<noteq> strip i) (credentials s) \<and>
    t = s\<lparr>credentials := credentials t\<rparr>"
  using assms require_active_principal_Inr
  by (auto simp: rotate_principal_credential_def hash_credential_def Let_def res_simps
      deactivate_credentials_def filter_update_where_other filter_update_where_none split: if_splits)

theorem rotate_leaves_one_credential_witness:
  "\<exists>h t. rotate_principal_credential plain_env 7 '' dan '' ''k9'' demo_admins = Inr (h, t) \<and>
    filter (\<lambda>x. cr_principal x = ''dan'' \<and> cr_active x) (credentials t) =
      [\<lparr>cr_principal = ''dan'', cr_hash = ''h:k9'', cr_active = True, cr_created = 7\<rparr>]"
proof -
  have "isl (rotate_principal_credential plain_env 7 '' dan '' ''k9'' demo_admins) = False"
    by code_simp
  then obtain h t where r: "rotate_principal_credential plain_env 7 '' dan '' ''k9'' demo_admins = Inr (h, t)"
    by (cases "rotate_principal_credential plain_env 7 '' dan '' ''k9'' demo_admins") auto
  have "strip '' dan '' = ''dan''" by code_simp
  then show ?thesis using rotate_leaves_one_credential [OF r] r by (simp add: plain_env_def)
qed

text \<open>
  Deactivation is total: when \<open>deactivate_principal\<close> succeeds the principal is inactive, none
  of its credentials or capability grants is active and none of its sessions is live; the number
  returned counts the sessions revoked; every row of every other principal is as it was; and
  exactly one \<open>principal.deactivated\<close> audit event naming the principal is appended.
\<close>

theorem deactivation_is_total:
  assumes "deactivate_principal E now i actor audit_actor s = Inr (n, t)"
  shows "\<not> principal_active t (strip i) \<and>
    filter (\<lambda>c. cr_principal c = strip i \<and> cr_active c) (credentials t) = [] \<and>
    filter (\<lambda>g. gr_principal g = strip i \<and> gr_active g) (grants t) = [] \<and>
    filter (\<lambda>x. se_principal x = strip i \<and> \<not> se_revoked x) (sessions t) = [] \<and>
    n = row_count (\<lambda>x. se_principal x = strip i \<and> \<not> se_revoked x) (sessions s) \<and>
    filter (\<lambda>p. pr_id p \<noteq> strip i) (principals t) = filter (\<lambda>p. pr_id p \<noteq> strip i) (principals s) \<and>
    filter (\<lambda>c. cr_principal c \<noteq> strip i) (credentials t) = filter (\<lambda>c. cr_principal c \<noteq> strip i) (credentials s) \<and>
    filter (\<lambda>g. gr_principal g \<noteq> strip i) (grants t) = filter (\<lambda>g. gr_principal g \<noteq> strip i) (grants s) \<and>
    filter (\<lambda>x. se_principal x \<noteq> strip i) (sessions t) = filter (\<lambda>x. se_principal x \<noteq> strip i) (sessions s) \<and>
    audit_events t = audit_events s @ [\<lparr>au_type = ''principal.deactivated'', au_subject = strip i,
      au_detail = ''succeeded'', au_created = now, au_client = None, au_approver = audit_actor\<rparr>]"
  using assms
  by (auto simp: deactivate_principal_def Let_def res_simps deactivate_credentials_def audit_defs
      filter_update_where_other filter_update_where_none normalize_client_id_def
      intro!: filter_update_where_other)

theorem deactivation_is_total_witness:
  "\<exists>n t. deactivate_principal plain_env 3 ''dan'' (Some ''root'') None demo_admins = Inr (n, t) \<and>
    \<not> principal_active t ''dan''"
proof -
  have "isl (deactivate_principal plain_env 3 ''dan'' (Some ''root'') None demo_admins) = False"
    by code_simp
  then obtain n t where r: "deactivate_principal plain_env 3 ''dan'' (Some ''root'') None demo_admins = Inr (n, t)"
    by (cases "deactivate_principal plain_env 3 ''dan'' (Some ''root'') None demo_admins") auto
  have "strip ''dan'' = ''dan''" by code_simp
  then show ?thesis using deactivation_is_total [OF r] r by simp
qed

end
