(* ===== verification/Sessions.thy ===== *)
theory Sessions
  imports Client_Scope Principal_Laws
begin

text \<open>
  Browser sessions (\<open>sessions.py\<close>, the session methods of \<open>store.py\<close> and
  \<open>_create_browser_session\<close> of \<open>api/auth_routes.py\<close>) and the OIDC identity links. Session
  timestamps are instants: the code writes them all as UTC ISO texts, whose order as texts is their
  order in time. A session token drawn at random is an argument. The lemmas show that a live
  session always belongs to an active principal and never outlives its absolute limit, and that an
  email invite is consumed once.
\<close>

record settings =
  api_token :: string
  admin_token :: string
  tech_token :: string
  viewer_token :: string
  end_user_support_enabled :: bool
  end_user_token :: string
  end_user_client_id :: string
  end_user_user_id :: string
  set_client_id :: string
  demo_mode :: bool
  session_idle_ttl_minutes :: int
  session_absolute_ttl_minutes :: int

section \<open>Sessions\<close>

definition minutes :: "int \<Rightarrow> time" where
  "minutes n = n * 60000000"

definition hash_session_token :: "env \<Rightarrow> string \<Rightarrow> string res" where
  "hash_session_token E token =
     (if token = [] then Inl (ValueError ''session token must be a non-empty string'')
      else Inr (sha256 E token))"

definition session_expiries :: "time \<Rightarrow> int \<Rightarrow> int \<Rightarrow> (time \<times> time) res" where
  "session_expiries now idle_ttl absolute_ttl =
     rbind (raise_if (idle_ttl \<le> 0 \<or> absolute_ttl \<le> 0) (ValueError ''session TTLs must be positive'')) (\<lambda>_.
     let absolute_expires_at = now + minutes absolute_ttl in
     Inr (min (now + minutes idle_ttl) absolute_expires_at, absolute_expires_at))"

definition create_auth_session ::
  "time \<Rightarrow> string \<Rightarrow> string \<Rightarrow> time option \<Rightarrow> time option \<Rightarrow> string \<Rightarrow> string \<Rightarrow> store \<Rightarrow>
   (session_row \<times> store) res" where
  "create_auth_session now session_token_hash principal_id idle_expires_at absolute_expires_at auth_method user_agent s =
     (let h = strip session_token_hash; pid = strip principal_id; m = lower (strip auth_method) in
      rbind (raise_if (h = [] \<or> pid = []) (ValueError ''session token hash and principal_id are required'')) (\<lambda>_.
      rbind (raise_if (m \<notin> {''local'', ''oidc''}) (ValueError ''unsupported session auth method'')) (\<lambda>_.
      case (idle_expires_at, absolute_expires_at) of
        (Some idle, Some absolute) \<Rightarrow>
          rbind (raise_if (\<not> list_ex (\<lambda>p. pr_id p = pid \<and> pr_active p) (principals s)) (KeyError pid)) (\<lambda>_.
          rbind (raise_if (list_ex (\<lambda>x. se_hash x = h) (sessions s))
                   (IntegrityError ''auth_sessions.session_token_hash'')) (\<lambda>_.
          let row = \<lparr>se_hash = h, se_principal = pid, se_method = m, se_created = now, se_last_seen = now,
                      se_idle = idle, se_absolute = absolute, se_revoked = False,
                      se_agent = take 512 user_agent\<rparr> in
          Inr (row, s\<lparr>sessions := sessions s @ [row]\<rparr>)))
      | _ \<Rightarrow> Inl (ValueError ''session expiry timestamps are required''))))"

definition get_auth_session :: "time \<Rightarrow> string \<Rightarrow> store \<Rightarrow> session_row option \<times> store" where
  "get_auth_session now session_token_hash s =
     (let h = strip session_token_hash in
      if h = [] then (None, s)
      else
        let t = s\<lparr>sessions := filter (\<lambda>x. \<not> (se_idle x \<le> now \<or> se_absolute x \<le> now)) (sessions s)\<rparr> in
        (find (\<lambda>x. se_hash x = h \<and> \<not> se_revoked x) (sessions t), t))"

definition touch_auth_session ::
  "string \<Rightarrow> time option \<Rightarrow> time option \<Rightarrow> store \<Rightarrow> bool \<times> store" where
  "touch_auth_session session_token_hash last_seen_at idle_expires_at s =
     (let h = strip session_token_hash in
      case (last_seen_at, idle_expires_at) of
        (Some seen, Some idle) \<Rightarrow>
          if h = [] then (False, s)
          else
            (case find (\<lambda>x. se_hash x = h \<and> \<not> se_revoked x) (sessions s) of
               None \<Rightarrow> (False, s)
             | Some row \<Rightarrow>
                 (row_count (\<lambda>x. se_hash x = h \<and> \<not> se_revoked x) (sessions s) = 1,
                  s\<lparr>sessions := update_where (\<lambda>x. se_hash x = h \<and> \<not> se_revoked x)
                      (\<lambda>x. x\<lparr>se_last_seen := seen, se_idle := min idle (se_absolute row)\<rparr>) (sessions s)\<rparr>))
      | _ \<Rightarrow> (False, s))"

definition revoke_auth_session :: "string \<Rightarrow> store \<Rightarrow> bool \<times> store" where
  "revoke_auth_session session_token_hash s =
     (let h = strip session_token_hash in
      if h = [] then (False, s)
      else (row_count (\<lambda>x. se_hash x = h) (sessions s) = 1,
            s\<lparr>sessions := update_where (\<lambda>x. se_hash x = h) (\<lambda>x. x\<lparr>se_revoked := True\<rparr>) (sessions s)\<rparr>))"

definition revoke_principal_sessions :: "string \<Rightarrow> store \<Rightarrow> nat \<times> store" where
  "revoke_principal_sessions principal_id s =
     (let pid = strip principal_id in
      if pid = [] then (0, s)
      else (row_count (\<lambda>x. se_principal x = pid \<and> \<not> se_revoked x) (sessions s),
            s\<lparr>sessions := update_where (\<lambda>x. se_principal x = pid \<and> \<not> se_revoked x)
                (\<lambda>x. x\<lparr>se_revoked := True\<rparr>) (sessions s)\<rparr>))"

text \<open>\<open>_create_browser_session\<close>, up to the cookie it sets on the response.\<close>

definition create_browser_session ::
  "env \<Rightarrow> time \<Rightarrow> string \<Rightarrow> settings \<Rightarrow> string \<Rightarrow> string \<Rightarrow> string \<Rightarrow> store \<Rightarrow> ((string \<times> time) \<times> store) res" where
  "create_browser_session E now token cfg principal_id auth_method user_agent s =
     rbind (hash_session_token E token) (\<lambda>h.
     rbind (session_expiries now (session_idle_ttl_minutes cfg) (session_absolute_ttl_minutes cfg)) (\<lambda>(idle, absolute).
     rbind (create_auth_session now h principal_id (Some idle) (Some absolute) auth_method user_agent s) (\<lambda>(_, t).
     Inr ((h, absolute), t))))"

section \<open>Identity links\<close>

definition identity_key :: "string \<Rightarrow> string \<Rightarrow> string \<Rightarrow> string \<times> string \<times> string" where
  "identity_key issuer subject subject_kind =
     (let k = lower (strip subject_kind) in
      (rstrip_char (CHR ''/'') (strip issuer),
       if k = ''email'' then casefold (strip subject) else strip subject, k))"

definition row_key :: "identity_row \<Rightarrow> string \<times> string \<times> string" where
  "row_key r = (id_issuer r, id_subject r, id_kind r)"

definition add_principal_identity ::
  "time \<Rightarrow> string \<Rightarrow> string \<Rightarrow> string \<Rightarrow> string \<Rightarrow> store \<Rightarrow> (identity_row \<times> store) res" where
  "add_principal_identity now principal_id issuer subject subject_kind s =
     (let pid = strip principal_id in
      case identity_key issuer subject subject_kind of (iss, sub, k) \<Rightarrow>
        rbind (raise_if (pid = [] \<or> iss = [] \<or> sub = [])
                 (ValueError ''principal identity fields must be non-empty'')) (\<lambda>_.
        rbind (raise_if (k \<notin> {''oid'', ''email''}) (ValueError ''unsupported principal identity kind'')) (\<lambda>_.
        rbind (raise_if (find_principal s pid = None) (KeyError pid)) (\<lambda>_.
        rbind (raise_if (list_ex (\<lambda>r. row_key r = (iss, sub, k)) (identities s))
                 (IntegrityError ''principal_identities'')) (\<lambda>_.
        let row = \<lparr>id_issuer = iss, id_subject = sub, id_kind = k, id_principal = pid,
                    id_created = now, id_login = None\<rparr> in
        Inr (row, s\<lparr>identities := identities s @ [row]\<rparr>))))))"

definition remove_principal_identity ::
  "string \<Rightarrow> string \<Rightarrow> string \<Rightarrow> string \<Rightarrow> store \<Rightarrow> (unit \<times> store) res" where
  "remove_principal_identity principal_id issuer subject subject_kind s =
     (let pid = strip principal_id; k = identity_key issuer subject subject_kind;
          hit = (\<lambda>r. id_principal r = pid \<and> row_key r = k) in
      rbind (raise_if (row_count hit (identities s) \<noteq> 1) (KeyError pid)) (\<lambda>_.
      Inr ((), s\<lparr>identities := filter (\<lambda>r. \<not> hit r) (identities s)\<rparr>)))"

definition list_principal_identities :: "string \<Rightarrow> store \<Rightarrow> identity_row list res" where
  "list_principal_identities principal_id s =
     (let pid = strip principal_id in
      rbind (raise_if (pid = []) (ValueError ''principal_id must be non-empty'')) (\<lambda>_.
      Inr (sort_key (\<lambda>r. (id_kind r, id_subject r)) (filter (\<lambda>r. id_principal r = pid) (identities s)))))"

definition find_principal_by_identity :: "string \<Rightarrow> string \<Rightarrow> string \<Rightarrow> store \<Rightarrow> string option" where
  "find_principal_by_identity issuer subject subject_kind s =
     (case identity_key issuer subject subject_kind of (iss, sub, k) \<Rightarrow>
        if iss = [] \<or> sub = [] \<or> k \<notin> {''oid'', ''email''} then None
        else map_option id_principal
          (find (\<lambda>r. row_key r = (iss, sub, k) \<and>
              list_ex (\<lambda>p. pr_id p = id_principal r \<and> pr_active p) (principals s)) (identities s)))"

definition mark_identity_login ::
  "time \<Rightarrow> string \<Rightarrow> string \<Rightarrow> string \<Rightarrow> time option \<Rightarrow> store \<Rightarrow> bool \<times> store" where
  "mark_identity_login clock issuer subject subject_kind at s =
     (let k = identity_key issuer subject subject_kind in
      (row_count (\<lambda>r. row_key r = k) (identities s) = 1,
       s\<lparr>identities := update_where (\<lambda>r. row_key r = k)
          (\<lambda>r. r\<lparr>id_login := Some (case at of Some x \<Rightarrow> x | None \<Rightarrow> clock)\<rparr>) (identities s)\<rparr>))"

definition upgrade_email_identity ::
  "time \<Rightarrow> string \<Rightarrow> string \<Rightarrow> string \<Rightarrow> time option \<Rightarrow> store \<Rightarrow> string option \<times> store" where
  "upgrade_email_identity clock issuer email oid at s =
     (let iss = rstrip_char (CHR ''/'') (strip issuer); em = casefold (strip email); ob = strip oid;
          login_at = (case at of Some x \<Rightarrow> x | None \<Rightarrow> clock) in
      if iss = [] \<or> em = [] \<or> ob = [] then (None, s)
      else
        let oid_row = find (\<lambda>r. row_key r = (iss, ob, ''oid'')) (identities s);
            email_row = find (\<lambda>r. row_key r = (iss, em, ''email'') \<and>
              list_ex (\<lambda>p. pr_id p = id_principal r \<and> pr_active p) (principals s)) (identities s) in
        case email_row of
          None \<Rightarrow> (None, s)
        | Some r \<Rightarrow>
            let pid = id_principal r in
            if (case oid_row of None \<Rightarrow> False | Some x \<Rightarrow> id_principal x \<noteq> pid) then (None, s)
            else
              let kept = filter (\<lambda>r. row_key r \<noteq> (iss, em, ''email'')) (identities s) in
              (Some pid, s\<lparr>identities :=
                 (if list_ex (\<lambda>r. row_key r = (iss, ob, ''oid'')) kept
                  then update_where (\<lambda>r. row_key r = (iss, ob, ''oid'')) (\<lambda>r. r\<lparr>id_login := Some login_at\<rparr>) kept
                  else kept @ [\<lparr>id_issuer = iss, id_subject = ob, id_kind = ''oid'', id_principal = pid,
                                 id_created = login_at, id_login = Some login_at\<rparr>])\<rparr>))"

section \<open>The operations as one interface\<close>

datatype session_op =
    OpenSession string settings string string string
  | GetSession string
  | TouchSession string time
  | RevokeSession string
  | RevokePrincipalSessions string
  | AddIdentity string string string string
  | RemoveIdentity string string string string
  | MarkLogin string string string "time option"
  | UpgradeIdentity string string string "time option"

fun session_step :: "env \<Rightarrow> time \<times> session_op \<Rightarrow> store \<Rightarrow> (unit \<times> store) res" where
  "session_step E (now, OpenSession tok cfg pid m ua) s = forget (create_browser_session E now tok cfg pid m ua s)"
| "session_step E (now, GetSession h) s = Inr ((), snd (get_auth_session now h s))"
| "session_step E (now, TouchSession h idle) s = Inr ((), snd (touch_auth_session h (Some now) (Some idle) s))"
| "session_step E (now, RevokeSession h) s = Inr ((), snd (revoke_auth_session h s))"
| "session_step E (now, RevokePrincipalSessions p) s = Inr ((), snd (revoke_principal_sessions p s))"
| "session_step E (now, AddIdentity p i u k) s = forget (add_principal_identity now p i u k s)"
| "session_step E (now, RemoveIdentity p i u k) s = remove_principal_identity p i u k s"
| "session_step E (now, MarkLogin i u k at) s = Inr ((), snd (mark_identity_login now i u k at s))"
| "session_step E (now, UpgradeIdentity i e ob at) s = Inr ((), snd (upgrade_email_identity now i e ob at s))"

section \<open>The session invariant\<close>

text \<open>
  Session digests are unique, a session names an existing principal, its idle limit stays within
  its absolute limit, and a session that is not revoked belongs to an active principal.
\<close>

definition session_row_ok :: "principal_row list \<Rightarrow> session_row \<Rightarrow> bool" where
  "session_row_ok ps x \<longleftrightarrow> se_principal x \<in> pr_id ` set ps \<and> se_method x \<in> {''local'', ''oidc''} \<and>
     se_idle x \<le> se_absolute x \<and> length (se_agent x) \<le> 512 \<and>
     (\<not> se_revoked x \<longrightarrow> active_in ps (se_principal x))"

definition identity_row_ok :: "principal_row list \<Rightarrow> identity_row \<Rightarrow> bool" where
  "identity_row_ok ps r \<longleftrightarrow> id_principal r \<in> pr_id ` set ps \<and> id_kind r \<in> {''oid'', ''email''} \<and>
     id_issuer r \<noteq> [] \<and> id_subject r \<noteq> []"

definition sessions_ok :: "store \<Rightarrow> bool" where
  "sessions_ok s \<longleftrightarrow> distinct (map se_hash (sessions s)) \<and>
     (\<forall>x\<in>set (sessions s). session_row_ok (principals s) x)"

definition links_ok :: "store \<Rightarrow> bool" where
  "links_ok s \<longleftrightarrow> distinct (map row_key (identities s)) \<and>
     (\<forall>r\<in>set (identities s). identity_row_ok (principals s) r)"

lemma session_expiries_Inr: "session_expiries now i a = Inr (x, y) \<Longrightarrow> now < x \<and> x \<le> y"
  by (auto simp: session_expiries_def Let_def res_simps minutes_def)

lemma create_auth_session_Inr:
  assumes "create_auth_session now h p (Some i) (Some a) m ua s = Inr (row, t)"
  shows "t = s\<lparr>sessions := sessions s @ [row]\<rparr> \<and> se_hash row \<notin> se_hash ` set (sessions s) \<and>
    se_hash row = strip h \<and> se_principal row = strip p \<and> \<not> se_revoked row \<and>
    se_idle row = i \<and> se_absolute row = a \<and> active_in (principals s) (strip p) \<and>
    se_method row \<in> {''local'', ''oidc''} \<and> length (se_agent row) \<le> 512"
  using assms by (auto simp: create_auth_session_def Let_def res_simps list_ex_key active_in_def)

lemma browser_session_ok:
  "sessions_ok s \<Longrightarrow> create_browser_session E now tok cfg p m ua s = Inr (r, t) \<Longrightarrow> sessions_ok t"
  by (auto simp: create_browser_session_def res_simps sessions_ok_def session_row_ok_def
      active_in_ids
      dest!: create_auth_session_Inr session_expiries_Inr)

lemma distinct_filter_rows: "distinct (map f xs) \<Longrightarrow> distinct (map f (filter P xs))"
  by (simp add: distinct_map_filter)

lemma map_se_hash_update [simp]:
  "map se_hash (update_where P (\<lambda>x. x\<lparr>se_revoked := b\<rparr>) xs) = map se_hash xs"
  "map se_hash (update_where P (\<lambda>x. x\<lparr>se_last_seen := n, se_idle := i\<rparr>) xs) = map se_hash xs"
  by (simp_all add: map_update_where)

lemma map_row_key_update [simp]:
  "map row_key (update_where P (\<lambda>r. r\<lparr>id_login := v\<rparr>) rs) = map row_key rs"
  by (simp add: map_update_where row_key_def)

lemma row_key_new [simp]: "row_key \<lparr>id_issuer = i, id_subject = u, id_kind = k, id_principal = p,
    id_created = c, id_login = l\<rparr> = (i, u, k)"
  by (simp add: row_key_def)

lemma get_session_ok: "sessions_ok s \<Longrightarrow> sessions_ok (snd (get_auth_session now h s))"
  by (simp add: get_auth_session_def Let_def sessions_ok_def distinct_filter_rows)

lemma revoke_session_ok:
  "sessions_ok s \<Longrightarrow> sessions_ok (snd (revoke_auth_session h s))"
  "sessions_ok s \<Longrightarrow> sessions_ok (snd (revoke_principal_sessions p s))"
  by (force simp: revoke_auth_session_def revoke_principal_sessions_def Let_def sessions_ok_def
      session_row_ok_def)+

lemma unique_key: "distinct (map f xs) \<Longrightarrow> x \<in> set xs \<Longrightarrow> y \<in> set xs \<Longrightarrow> f x = f y \<Longrightarrow> x = y"
  by (auto simp: distinct_map inj_on_def)

lemma touch_session_ok:
  assumes "sessions_ok s" shows "sessions_ok (snd (touch_auth_session h l i s))"
proof -
  have *: "min idle (se_absolute row) \<le> se_absolute x"
    if "find (\<lambda>x. se_hash x = strip h \<and> \<not> se_revoked x) (sessions s) = Some row"
      "x \<in> set (sessions s)" "se_hash x = strip h" for row x idle
  proof -
    have "row \<in> set (sessions s)" "se_hash row = strip h" using that(1) by (auto simp: find_Some_iff)
    then have "x = row" using assms that(2,3) unique_key [of se_hash "sessions s" x row]
      by (simp add: sessions_ok_def)
    then show ?thesis by simp
  qed
  show ?thesis using assms *
    by (auto simp: touch_auth_session_def Let_def sessions_ok_def session_row_ok_def
        split: option.splits)
qed

lemma links_frame: "identities t = identities s \<Longrightarrow> principals t = principals s \<Longrightarrow> links_ok t = links_ok s"
  by (simp add: links_ok_def)

lemma sessions_frame: "sessions t = sessions s \<Longrightarrow> principals t = principals s \<Longrightarrow> sessions_ok t = sessions_ok s"
  by (simp add: sessions_ok_def)

lemma find_principal_ids: "find_principal s pid = Some p \<Longrightarrow> pid \<in> pr_id ` set (principals s)"
  using find_principal_Some [of s pid p] by blast

lemma add_identity_ok:
  "links_ok s \<Longrightarrow> add_principal_identity now p i u k s = Inr (r, t) \<Longrightarrow> links_ok t"
  by (auto simp: add_principal_identity_def Let_def res_simps links_ok_def identity_row_ok_def
      list_ex_key find_principal_ids split: prod.splits)

lemma remove_identity_ok: "links_ok s \<Longrightarrow> remove_principal_identity p i u k s = Inr (r, t) \<Longrightarrow> links_ok t"
  by (auto simp: remove_principal_identity_def Let_def res_simps links_ok_def distinct_filter_rows)

lemma mark_login_ok: "links_ok s \<Longrightarrow> links_ok (snd (mark_identity_login now i u k at s))"
  by (simp add: mark_identity_login_def Let_def links_ok_def identity_row_ok_def)

lemma upgrade_ok:
  assumes "links_ok s" shows "links_ok (snd (upgrade_email_identity now i e ob at s))"
proof -
  have "id_principal r \<in> pr_id ` set (principals s)"
    if "find (\<lambda>r. row_key r = k \<and> Q r) (identities s) = Some r" for r k Q
    using that assms by (auto simp: find_Some_iff links_ok_def identity_row_ok_def)
  then show ?thesis using assms
    by (auto simp: upgrade_email_identity_def Let_def links_ok_def identity_row_ok_def
        distinct_filter_rows list_ex_key split: option.splits)
qed

lemma session_step_ok:
  assumes "sessions_ok s \<and> links_ok s" "session_step E c s = Inr (u, t)"
  shows "sessions_ok t \<and> links_ok t"
proof -
  obtain now op where c: "c = (now, op)" by (cases c)
  have frames: "principals t = principals s \<and> (identities t = identities s \<or> sessions t = sessions s)"
    using assms(2) unfolding c
    by (cases op) (auto simp: forget_Inr res_simps Let_def create_browser_session_def get_auth_session_def
        touch_auth_session_def revoke_auth_session_def revoke_principal_sessions_def
        add_principal_identity_def remove_principal_identity_def mark_identity_login_def
        upgrade_email_identity_def split: option.splits prod.splits dest!: create_auth_session_Inr)
  show ?thesis
  proof (cases "identities t = identities s")
    case True
    then have "links_ok t" using frames assms(1) links_frame by blast
    moreover have "sessions_ok t"
    proof (cases "sessions t = sessions s")
      case False
      then show ?thesis using assms unfolding c
        by (cases op) (auto simp: forget_Inr res_simps Let_def add_principal_identity_def
            remove_principal_identity_def mark_identity_login_def upgrade_email_identity_def
            intro: get_session_ok revoke_session_ok touch_session_ok
            split: option.splits prod.splits dest: browser_session_ok)
    qed (use frames assms(1) sessions_frame in blast)
    ultimately show ?thesis by blast
  next
    case False
    then have "sessions_ok t" using frames assms(1) sessions_frame by blast
    moreover have "links_ok t" using False assms unfolding c
      by (cases op) (auto simp: forget_Inr res_simps Let_def create_browser_session_def get_auth_session_def
        touch_auth_session_def revoke_auth_session_def revoke_principal_sessions_def
        intro: mark_login_ok upgrade_ok split: option.splits prod.splits
        dest!: create_auth_session_Inr dest: add_identity_ok remove_identity_ok)
    ultimately show ?thesis by blast
  qed
qed

interpretation session_ops: guarded_ops "session_step E" "\<lambda>s. sessions_ok s \<and> links_ok s" for E
  by unfold_locales (rule session_step_ok)

lemma session_step_appends: "session_step E c s = Inr (u, t) \<Longrightarrow> log_extends s t"
proof -
  assume step: "session_step E c s = Inr (u, t)"
  obtain now op where c: "c = (now, op)" by (cases c)
  show ?thesis using step unfolding c
    by (cases op) (auto simp: forget_Inr res_simps Let_def create_browser_session_def get_auth_session_def
        touch_auth_session_def revoke_auth_session_def revoke_principal_sessions_def
        add_principal_identity_def remove_principal_identity_def mark_identity_login_def
        upgrade_email_identity_def log_extends_same
        split: option.splits prod.splits dest!: create_auth_session_Inr)
qed

interpretation session_log: append_only_log "session_step E" for E
  by unfold_locales (rule session_step_appends)

text \<open>Principal operations keep the session and link invariants.\<close>

lemma session_row_ok_mono:
  "session_row_ok ps x \<Longrightarrow> pr_id ` set ps \<subseteq> pr_id ` set qs \<Longrightarrow>
   (\<And>pid. active_in ps pid \<Longrightarrow> active_in qs pid) \<Longrightarrow> session_row_ok qs x"
  by (auto simp: session_row_ok_def)

lemma identity_row_ok_mono:
  "identity_row_ok ps x \<Longrightarrow> pr_id ` set ps \<subseteq> pr_id ` set qs \<Longrightarrow> identity_row_ok qs x"
  by (auto simp: identity_row_ok_def)

lemma sessions_ok_mono:
  "sessions_ok s \<Longrightarrow> sessions t = sessions s \<Longrightarrow> principal_ids s \<subseteq> principal_ids t \<Longrightarrow>
   (\<And>pid. principal_active s pid \<Longrightarrow> principal_active t pid) \<Longrightarrow> sessions_ok t"
  by (auto simp: sessions_ok_def principal_ids_def intro: session_row_ok_mono)

lemma effect_sessions_ok: "principal_effect s t \<Longrightarrow> sessions_ok s \<Longrightarrow> sessions_ok t"
proof (induction rule: principal_effect.induct)
  case (deactivate s pid hi au now)
  have "session_row_ok (update_where (\<lambda>p. pr_id p = pid) (\<lambda>p. p\<lparr>pr_active := False\<rparr>) (principals s))
      (if se_principal x = pid \<and> \<not> se_revoked x then x\<lparr>se_revoked := True\<rparr> else x)"
    if "session_row_ok (principals s) x" for x
    using that by (auto simp: session_row_ok_def)
  with deactivate.prems show ?case
    by (auto simp: sessions_ok_def deactivate_credentials_def)
qed (auto simp: principal_ids_def deactivate_credentials_def deactivate_grants_def elim!: sessions_ok_mono)

lemma effect_principal_ids: "principal_effect s t \<Longrightarrow> principal_ids s \<subseteq> principal_ids t"
  by (induction rule: principal_effect.induct)
    (auto simp: principal_ids_def deactivate_credentials_def deactivate_grants_def)

lemma effect_identities: "principal_effect s t \<Longrightarrow> identities t = identities s"
  by (induction rule: principal_effect.induct)
    (auto simp: deactivate_credentials_def deactivate_grants_def)

lemma effect_links_ok: "principal_effect s t \<Longrightarrow> links_ok s \<Longrightarrow> links_ok t"
  using effect_principal_ids [of s t] effect_identities [of s t]
  by (auto simp: links_ok_def principal_ids_def intro: identity_row_ok_mono)

section \<open>Properties\<close>

definition demo_settings :: settings where
  "demo_settings = \<lparr>api_token = [], admin_token = ''boot'', tech_token = [], viewer_token = [],
     end_user_support_enabled = False, end_user_token = [], end_user_client_id = [],
     end_user_user_id = [], set_client_id = ''acme'', demo_mode = False,
     session_idle_ttl_minutes = 720, session_absolute_ttl_minutes = 10080\<rparr>"

definition demo_sessions :: store where
  "demo_sessions = run_ops (session_step plain_env)
     [(10, OpenSession ''tok'' demo_settings ''dan'' ''local'' ''ua''),
      (11, AddIdentity ''dan'' ''https://idp/'' ''Dan@Acme.example'' ''email'')] demo_admins"

lemma demo_sessions_ok: "sessions_ok demo_sessions \<and> links_ok demo_sessions"
  unfolding demo_sessions_def
proof (rule session_ops.run_ops_keeps)
  have "sessions demo_admins = [] \<and> identities demo_admins = []" by code_simp
  then show "sessions_ok demo_admins \<and> links_ok demo_admins" by (simp add: sessions_ok_def links_ok_def)
qed

text \<open>
  A session the store returns is usable: it is not revoked, both its expiry instants lie in the
  future and the idle limit is within the absolute one, its principal is active, and the expired
  sessions are gone from the table afterwards while every unexpired one is kept.
\<close>

theorem returned_session_is_live:
  assumes "sessions_ok s" "get_auth_session now h s = (Some x, t)"
  shows "\<not> se_revoked x \<and> now < se_idle x \<and> se_idle x \<le> se_absolute x \<and>
    principal_active s (se_principal x) \<and> se_hash x = strip h \<and>
    set (sessions t) = {y \<in> set (sessions s). now < se_idle y \<and> now < se_absolute y}"
proof -
  from assms(2) have t: "sessions t = filter (\<lambda>x. \<not> (se_idle x \<le> now \<or> se_absolute x \<le> now)) (sessions s)"
    and f: "find (\<lambda>x. se_hash x = strip h \<and> \<not> se_revoked x) (sessions t) = Some x"
    by (auto simp: get_auth_session_def Let_def split: if_splits)
  from f have x: "x \<in> set (sessions t)" "se_hash x = strip h" "\<not> se_revoked x"
    by (auto simp: find_Some_iff)
  with t have "x \<in> set (sessions s)" "now < se_idle x" by auto
  with x t assms(1) show ?thesis by (auto simp: sessions_ok_def session_row_ok_def)
qed

theorem returned_session_is_live_witness:
  "\<exists>x t. get_auth_session 12 ''h:tok'' demo_sessions = (Some x, t) \<and>
    12 < se_idle x \<and> principal_active demo_sessions (se_principal x)"
proof -
  have "fst (get_auth_session 12 ''h:tok'' demo_sessions) \<noteq> None" by code_simp
  then obtain x t where g: "get_auth_session 12 ''h:tok'' demo_sessions = (Some x, t)"
    by (cases "get_auth_session 12 ''h:tok'' demo_sessions") auto
  show ?thesis using returned_session_is_live [OF conjunct1 [OF demo_sessions_ok] g] g by blast
qed

lemma find_none_filter: "find P (filter (\<lambda>r. f r \<noteq> k) xs) = None" if "\<And>r. P r \<Longrightarrow> f r = k"
  using that by (auto simp: find_None_iff)

lemma oid_key: "identity_key i x ''oid'' = (rstrip_char (CHR ''/'') (strip i), strip x, ''oid'')"
proof -
  have "lower (strip ''oid'') = ''oid''" by code_simp
  then show ?thesis by (simp add: identity_key_def)
qed

lemma upgrade_Some:
  assumes "links_ok s" "upgrade_email_identity now i e ob at s = (Some pid, t)"
  shows "principals t = principals s" "principal_active s pid"
    "rstrip_char (CHR ''/'') (strip i) \<noteq> []" "strip ob \<noteq> []"
    "\<forall>r\<in>set (identities t). row_key r \<noteq> (rstrip_char (CHR ''/'') (strip i), casefold (strip e), ''email'')"
    "\<exists>r\<in>set (identities t). row_key r = (rstrip_char (CHR ''/'') (strip i), strip ob, ''oid'')"
    "\<forall>r\<in>set (identities t). row_key r = (rstrip_char (CHR ''/'') (strip i), strip ob, ''oid'') \<longrightarrow> id_principal r = pid"
proof -
  let ?ok = "(rstrip_char (CHR ''/'') (strip i), strip ob, ''oid'')"
  have uniq: "find (\<lambda>r. row_key r = ?ok) (identities s) = Some r"
    if "r \<in> set (identities s)" "row_key r = ?ok" for r
    using that assms(1) find_unique_key [of row_key "identities s" r] by (simp add: links_ok_def)
  have rk: "row_key (r\<lparr>id_login := v\<rparr>) = row_key r" for r v by (simp add: row_key_def)
  note defs = upgrade_email_identity_def Let_def
  show "principals t = principals s" "rstrip_char (CHR ''/'') (strip i) \<noteq> []" "strip ob \<noteq> []"
    using assms(2) by (auto simp: defs split: if_splits option.splits)
  show "principal_active s pid"
    using assms(2) by (auto simp: defs active_in_def find_Some_iff split: if_splits option.splits)
  show "\<forall>r\<in>set (identities t). row_key r \<noteq> (rstrip_char (CHR ''/'') (strip i), casefold (strip e), ''email'')"
    using assms(2) by (auto simp: defs rk set_update_where split: if_splits option.splits)
  show "\<exists>r\<in>set (identities t). row_key r = ?ok"
    using assms(2) by (auto simp: defs rk list_ex_iff split: if_splits option.splits)
  show "\<forall>r\<in>set (identities t). row_key r = ?ok \<longrightarrow> id_principal r = pid"
  proof (intro ballI impI)
    fix r assume r: "r \<in> set (identities t)" "row_key r = ?ok"
    show "id_principal r = pid"
    proof (cases "\<exists>r'\<in>set (identities s). row_key r' = ?ok \<and> id_principal r' = id_principal r")
      case True
      then obtain r' where "find (\<lambda>r. row_key r = ?ok) (identities s) = Some r'" "id_principal r' = id_principal r"
        using uniq by blast
      then show ?thesis using assms(2) by (auto simp: defs split: if_splits option.splits)
    next
      case False
      then show ?thesis using assms(2) r
        by (fastforce simp: defs rk set_update_where split: if_splits option.splits)
    qed
  qed
qed

text \<open>
  C7. An email invite is consumed exactly once: after a successful upgrade the permanent OID link
  finds the invited, active principal, and no later upgrade with the same email finds an invite,
  whatever OID it presents.
\<close>

theorem invite_consumed_once:
  assumes "links_ok s" "upgrade_email_identity now i e ob at s = (Some pid, t)"
  shows "find_principal_by_identity i ob ''oid'' t = Some pid \<and> principal_active t pid \<and>
    upgrade_email_identity now' i e ob' at' t = (None, t)"
proof -
  note u = upgrade_Some [OF assms]
  let ?ok = "(rstrip_char (CHR ''/'') (strip i), strip ob, ''oid'')"
  let ?hit = "\<lambda>r. row_key r = ?ok \<and> list_ex (\<lambda>p. pr_id p = id_principal r \<and> pr_active p) (principals t)"
  have act: "list_ex (\<lambda>p. pr_id p = pid \<and> pr_active p) (principals t)"
    using u(1,2) by (simp add: active_in_def)
  then have "\<exists>r\<in>set (identities t). ?hit r" using u(6,7) by metis
  then obtain r where r: "find ?hit (identities t) = Some r"
    by (cases "find ?hit (identities t)") (auto simp: find_None_iff)
  then have "id_principal r = pid" using u(7) by (auto simp: find_Some_iff)
  with r u(3,4) have "find_principal_by_identity i ob ''oid'' t = Some pid"
    by (simp add: find_principal_by_identity_def oid_key)
  moreover have "upgrade_email_identity now' i e ob' at' t = (None, t)"
    using u(5) by (auto simp: upgrade_email_identity_def Let_def find_Some_iff split: option.splits)
  ultimately show ?thesis using act by (simp add: active_in_def)
qed

theorem invite_consumed_once_witness:
  "\<exists>pid t. upgrade_email_identity 20 ''https://idp'' ''DAN@acme.example'' ''oid-1'' None demo_sessions = (Some pid, t) \<and>
    find_principal_by_identity ''https://idp'' ''oid-1'' ''oid'' t = Some pid"
proof -
  let ?u = "upgrade_email_identity 20 ''https://idp'' ''DAN@acme.example'' ''oid-1'' None demo_sessions"
  have "fst ?u \<noteq> None" by code_simp
  then obtain pid t where g: "?u = (Some pid, t)" by (cases ?u) auto
  show ?thesis using invite_consumed_once [OF conjunct2 [OF demo_sessions_ok] g] g by blast
qed

end
