(* ===== verification/Capabilities.thy ===== *)
theory Capabilities
  imports Sessions
begin

text \<open>
  Capability grants (\<open>capabilities.py\<close>): the normalisers, the target check, granting, revoking and
  listing. A grant row is keyed by principal, capability and client scope, the empty scope standing
  for every client. The lemmas show that an active grant always names an active principal, that a
  grant is idempotent on its key, and what the authorization queries return after each operation.
\<close>

definition MICROSOFT_ADMIN_CAPABILITY :: string where
  "MICROSOFT_ADMIN_CAPABILITY = ''microsoft_admin''"

definition SUPPORTED_CAPABILITIES :: "string list" where
  "SUPPORTED_CAPABILITIES = [MICROSOFT_ADMIN_CAPABILITY]"

definition scope_to_client_id :: "string \<Rightarrow> string option" where
  "scope_to_client_id scope = (if scope = [] then None else Some scope)"

definition cap_principal_id :: "string \<Rightarrow> string res" where
  "cap_principal_id v = (let n = strip v in
     if n = [] \<or> length n > 128 then Inl (ValueError ''principal_id must be 1-128 characters'') else Inr n)"

definition cap_actor_id :: "string \<Rightarrow> string res" where
  "cap_actor_id v = (let n = strip v in
     if n = [] \<or> length n > 128 then Inl (ValueError ''actor_id must be 1-128 characters'') else Inr n)"

text \<open>The pattern \<open>[a-z][a-z0-9_.-]{0,63}\<close>, matched against the whole text.\<close>

definition key_head :: "char \<Rightarrow> bool" where
  "key_head c = (let n = (of_char c :: nat) in 97 \<le> n \<and> n \<le> 122)"

definition key_tail :: "char \<Rightarrow> bool" where
  "key_tail c = (key_head c \<or> (let n = (of_char c :: nat) in 48 \<le> n \<and> n \<le> 57) \<or> c \<in> set ''_.-'')"

definition capability_key_match :: "string \<Rightarrow> bool" where
  "capability_key_match t =
     (case t of [] \<Rightarrow> False | c # cs \<Rightarrow> key_head c \<and> length cs \<le> 63 \<and> list_all key_tail cs)"

definition capability_key :: "string \<Rightarrow> string res" where
  "capability_key v =
     (let n = lower (strip v) in
      if \<not> capability_key_match n then Inl (ValueError ''capability_key is invalid'')
      else if n \<notin> set SUPPORTED_CAPABILITIES then Inl (ValueError ''unsupported capability_key'')
      else Inr n)"

definition cap_client_id :: "string option \<Rightarrow> string option res" where
  "cap_client_id v =
     (case v of None \<Rightarrow> Inr None
      | Some t \<Rightarrow>
          let n = strip t in
          if n = [] \<or> length n > 128 \<or> n = ''__quarantine__'' then Inl (ValueError ''client_id is invalid'')
          else Inr (Some n))"

section \<open>Queries\<close>

definition active_capability_grants :: "string \<Rightarrow> store \<Rightarrow> (string \<times> string option) set res" where
  "active_capability_grants principal_id s =
     rbind (cap_principal_id principal_id) (\<lambda>pid.
     Inr (set (map (\<lambda>g. (gr_key g, scope_to_client_id (gr_scope g)))
       (filter (\<lambda>g. gr_principal g = pid \<and> gr_active g) (grants s)))))"

definition list_capability_grants ::
  "string option \<Rightarrow> string option \<Rightarrow> store \<Rightarrow> grant_row list res" where
  "list_capability_grants principal_id capability s =
     rbind (case principal_id of None \<Rightarrow> Inr None | Some p \<Rightarrow> rbind (cap_principal_id p) (\<lambda>x. Inr (Some x))) (\<lambda>p.
     rbind (case capability of None \<Rightarrow> Inr None | Some k \<Rightarrow> rbind (capability_key k) (\<lambda>x. Inr (Some x))) (\<lambda>k.
     Inr (sort_key (\<lambda>g. (gr_principal g, gr_key g, gr_scope g))
       (filter (\<lambda>g. (case p of None \<Rightarrow> True | Some x \<Rightarrow> gr_principal g = x) \<and>
                    (case k of None \<Rightarrow> True | Some x \<Rightarrow> gr_key g = x)) (grants s)))))"

record principal_summary =
  ps_id :: string
  ps_kind :: string
  ps_name :: string
  ps_active :: bool
  ps_client_roles :: "(string \<times> string) list"
  ps_global_roles :: "string list"

definition client_role_pairs :: "store \<Rightarrow> string \<Rightarrow> (string \<times> string) list" where
  "client_role_pairs s pid =
     sort (map (\<lambda>r. (ro_client r, ro_role r)) (filter (\<lambda>r. ro_principal r = pid) (client_roles s)))"

definition global_role_names :: "store \<Rightarrow> string \<Rightarrow> string list" where
  "global_role_names s pid = sort (map gl_role (filter (\<lambda>g. gl_principal g = pid) (global_roles s)))"

definition list_principals :: "store \<Rightarrow> principal_summary list" where
  "list_principals s = map (\<lambda>p. \<lparr>ps_id = pr_id p, ps_kind = pr_kind p, ps_name = pr_name p,
       ps_active = pr_active p, ps_client_roles = client_role_pairs s (pr_id p),
       ps_global_roles = global_role_names s (pr_id p)\<rparr>)
     (sort_key (\<lambda>p. (pr_name p, pr_id p)) (principals s))"

section \<open>Operations\<close>

definition validate_grant_target :: "store \<Rightarrow> string \<Rightarrow> string option \<Rightarrow> unit res" where
  "validate_grant_target s pid client =
     (case find_principal s pid of
        None \<Rightarrow> Inl (KeyError pid)
      | Some p \<Rightarrow>
          rbind (raise_if (\<not> pr_active p) (ValueError ''capability grants require an active principal'')) (\<lambda>_.
          case client of
            None \<Rightarrow> raise_if (\<not> is_msp_admin s pid)
                      (ValueError ''global capability grants require the msp_admin role'')
          | Some c \<Rightarrow>
              rbind (raise_if (\<not> list_ex (\<lambda>x. cl_id x = c \<and> cl_status x \<noteq> ''quarantine'') (clients s))
                       (KeyError c)) (\<lambda>_.
              raise_if (\<not> list_ex (\<lambda>r. ro_principal r = pid \<and> ro_client r = c) (client_roles s)
                        \<and> \<not> is_msp_admin s pid)
                (ValueError ''principal has no role for the requested client''))))"

definition grant_key :: "grant_row \<Rightarrow> string \<times> string \<times> string" where
  "grant_key g = (gr_principal g, gr_key g, gr_scope g)"

text \<open>\<open>insert ... on conflict do update\<close>: at most one row per key.\<close>

definition upsert_grant :: "grant_row \<Rightarrow> grant_row list \<Rightarrow> grant_row list" where
  "upsert_grant g gs =
     (if list_ex (\<lambda>x. grant_key x = grant_key g) gs
      then update_where (\<lambda>x. grant_key x = grant_key g)
             (\<lambda>x. x\<lparr>gr_active := True, gr_updated_by := gr_updated_by g, gr_updated := gr_updated g\<rparr>) gs
      else gs @ [g])"

definition grant_capability ::
  "time \<Rightarrow> string \<Rightarrow> string \<Rightarrow> string option \<Rightarrow> string \<Rightarrow> store \<Rightarrow> (grant_row \<times> store) res" where
  "grant_capability now principal_id capability client_id actor_id s =
     rbind (cap_principal_id principal_id) (\<lambda>pid.
     rbind (capability_key capability) (\<lambda>k.
     rbind (cap_client_id client_id) (\<lambda>c.
     rbind (cap_actor_id actor_id) (\<lambda>a.
     let scope = (case c of None \<Rightarrow> [] | Some x \<Rightarrow> x) in
     rbind (validate_grant_target s pid c) (\<lambda>_.
     let t = s\<lparr>grants := upsert_grant \<lparr>gr_principal = pid, gr_key = k, gr_scope = scope, gr_active = True,
                gr_granted_by = a, gr_updated_by = a, gr_created = now, gr_updated = now\<rparr> (grants s)\<rparr> in
     case find (\<lambda>g. grant_key g = (pid, k, scope)) (grants t) of
       None \<Rightarrow> Inl (RuntimeError ''capability grant was not persisted'')
     | Some g \<Rightarrow> Inr (g, t))))))"

definition revoke_capability ::
  "time \<Rightarrow> string \<Rightarrow> string \<Rightarrow> string option \<Rightarrow> string \<Rightarrow> store \<Rightarrow> (grant_row \<times> store) res" where
  "revoke_capability now principal_id capability client_id actor_id s =
     rbind (cap_principal_id principal_id) (\<lambda>pid.
     rbind (capability_key capability) (\<lambda>k.
     rbind (cap_client_id client_id) (\<lambda>c.
     rbind (cap_actor_id actor_id) (\<lambda>a.
     let scope = (case c of None \<Rightarrow> [] | Some x \<Rightarrow> x);
         t = s\<lparr>grants := update_where (\<lambda>g. grant_key g = (pid, k, scope))
                (\<lambda>g. g\<lparr>gr_active := False, gr_updated_by := a, gr_updated := now\<rparr>) (grants s)\<rparr> in
     rbind (raise_if (row_count (\<lambda>g. grant_key g = (pid, k, scope)) (grants s) \<noteq> 1) (KeyError pid)) (\<lambda>_.
     case find (\<lambda>g. grant_key g = (pid, k, scope)) (grants t) of
       None \<Rightarrow> Inl (RuntimeError ''capability grant disappeared after revoke'')
     | Some g \<Rightarrow> Inr (g, t))))))"

datatype capability_op =
    Grant string string "string option" string
  | Revoke string string "string option" string

fun capability_step :: "env \<Rightarrow> time \<times> capability_op \<Rightarrow> store \<Rightarrow> (unit \<times> store) res" where
  "capability_step E (now, Grant p k c a) s = forget (grant_capability now p k c a s)"
| "capability_step E (now, Revoke p k c a) s = forget (revoke_capability now p k c a s)"

section \<open>The grant invariant\<close>

text \<open>
  One row per key, every capability supported, and every active grant held by an active principal.
\<close>

definition grant_row_ok :: "principal_row list \<Rightarrow> grant_row \<Rightarrow> bool" where
  "grant_row_ok ps g \<longleftrightarrow> gr_principal g \<in> pr_id ` set ps \<and> gr_key g \<in> set SUPPORTED_CAPABILITIES \<and>
     gr_scope g \<noteq> QUARANTINE_CLIENT_ID \<and> (gr_active g \<longrightarrow> active_in ps (gr_principal g))"

definition grants_ok :: "store \<Rightarrow> bool" where
  "grants_ok s \<longleftrightarrow> distinct (map grant_key (grants s)) \<and> (\<forall>g\<in>set (grants s). grant_row_ok (principals s) g)"

lemma grant_key_update [simp]: "grant_key (g\<lparr>gr_active := a, gr_updated_by := b, gr_updated := c\<rparr>) = grant_key g"
  "grant_key (g\<lparr>gr_active := a, gr_updated := c\<rparr>) = grant_key g"
  by (simp_all add: grant_key_def)

lemma map_grant_key_update [simp]:
  "map grant_key (update_where P (\<lambda>g. g\<lparr>gr_active := a, gr_updated_by := b, gr_updated := c\<rparr>) gs) = map grant_key gs"
  "map grant_key (update_where P (\<lambda>g. g\<lparr>gr_active := a, gr_updated := c\<rparr>) gs) = map grant_key gs"
  by (simp_all add: map_update_where)

lemma distinct_upsert: "distinct (map grant_key gs) \<Longrightarrow> distinct (map grant_key (upsert_grant g gs))"
  by (auto simp: upsert_grant_def list_ex_key)

lemma grant_inputs:
  "cap_principal_id v = Inr p \<Longrightarrow> p = strip v \<and> p \<noteq> []"
  "capability_key v = Inr k \<Longrightarrow> k = lower (strip v) \<and> k \<in> set SUPPORTED_CAPABILITIES"
  "cap_client_id w = Inr c \<Longrightarrow> c \<noteq> Some [] \<and> c \<noteq> Some QUARANTINE_CLIENT_ID"
  by (auto simp: cap_principal_id_def capability_key_def cap_client_id_def Let_def
      QUARANTINE_CLIENT_ID_def split: if_splits option.splits)

lemma validate_target_active: "validate_grant_target s pid c = Inr u \<Longrightarrow> principal_active s pid"
  by (auto simp: validate_grant_target_def res_simps active_in_def list_ex_iff split: option.splits
      dest: find_principal_Some)

lemma upsert_rows_ok:
  assumes "\<forall>g\<in>set gs. grant_row_ok ps g" "grant_row_ok ps g" "gr_active g"
  shows "\<forall>g\<in>set (upsert_grant g gs). grant_row_ok ps g"
proof -
  have "active_in ps (gr_principal g)" using assms(2,3) by (simp add: grant_row_ok_def)
  then show ?thesis using assms(1,2)
    by (auto simp: upsert_grant_def grant_row_ok_def grant_key_def)
qed

lemma grant_capability_effect:
  assumes "grant_capability now p k c a s = Inr (g, t)"
  obtains g0 where "t = s\<lparr>grants := upsert_grant g0 (grants s)\<rparr>" "grant_row_ok (principals s) g0" "gr_active g0"
    "gr_principal g0 = strip p" "gr_key g0 = lower (strip k)"
    "gr_scope g0 = (case c of None \<Rightarrow> [] | Some x \<Rightarrow> strip x)"
proof -
  from assms obtain pid key cl ac where i: "cap_principal_id p = Inr pid" "capability_key k = Inr key"
    "cap_client_id c = Inr cl" "cap_actor_id a = Inr ac"
    and v: "validate_grant_target s pid cl = Inr ()"
    and t: "t = s\<lparr>grants := upsert_grant \<lparr>gr_principal = pid, gr_key = key, gr_scope = (case cl of None \<Rightarrow> [] | Some x \<Rightarrow> x),
      gr_active = True, gr_granted_by = ac, gr_updated_by = ac, gr_created = now, gr_updated = now\<rparr> (grants s)\<rparr>"
    by (auto simp: grant_capability_def Let_def res_simps case_option_Inr)
  have "active_in (principals s) pid" using validate_target_active [OF v] .
  moreover have "(case cl of None \<Rightarrow> [] | Some x \<Rightarrow> x) = (case c of None \<Rightarrow> [] | Some x \<Rightarrow> strip x)"
    using i(3) by (auto simp: cap_client_id_def Let_def split: option.splits if_splits)
  moreover have "(case cl of None \<Rightarrow> [] | Some x \<Rightarrow> x) \<noteq> QUARANTINE_CLIENT_ID"
    using grant_inputs(3) [OF i(3)] by (auto simp: QUARANTINE_CLIENT_ID_def split: option.splits)
  ultimately show ?thesis using t grant_inputs(1) [OF i(1)] grant_inputs(2) [OF i(2)]
    by (intro that [of "\<lparr>gr_principal = pid, gr_key = key, gr_scope = (case cl of None \<Rightarrow> [] | Some x \<Rightarrow> x),
      gr_active = True, gr_granted_by = ac, gr_updated_by = ac, gr_created = now, gr_updated = now\<rparr>"])
      (auto simp: grant_row_ok_def active_in_ids)
qed

lemma revoke_capability_effect:
  assumes "revoke_capability now p k c a s = Inr (g, t)"
  shows "\<exists>ac. t = s\<lparr>grants := update_where
      (\<lambda>g. grant_key g = (strip p, lower (strip k), case c of None \<Rightarrow> [] | Some x \<Rightarrow> strip x))
      (\<lambda>g. g\<lparr>gr_active := False, gr_updated_by := ac, gr_updated := now\<rparr>) (grants s)\<rparr>"
proof -
  from assms obtain pid key cl ac where i: "cap_principal_id p = Inr pid" "capability_key k = Inr key"
    "cap_client_id c = Inr cl" "cap_actor_id a = Inr ac"
    and t: "t = s\<lparr>grants := update_where (\<lambda>g. grant_key g = (pid, key, case cl of None \<Rightarrow> [] | Some x \<Rightarrow> x))
      (\<lambda>g. g\<lparr>gr_active := False, gr_updated_by := ac, gr_updated := now\<rparr>) (grants s)\<rparr>"
    by (auto simp: revoke_capability_def Let_def res_simps case_option_Inr)
  have "(case cl of None \<Rightarrow> [] | Some x \<Rightarrow> x) = (case c of None \<Rightarrow> [] | Some x \<Rightarrow> strip x)"
    using i(3) by (auto simp: cap_client_id_def Let_def split: option.splits if_splits)
  with t grant_inputs(1) [OF i(1)] grant_inputs(2) [OF i(2)] show ?thesis by metis
qed

lemma capability_step_ok: "grants_ok s \<Longrightarrow> capability_step E c s = Inr (u, t) \<Longrightarrow> grants_ok t"
proof (induction E c s rule: capability_step.induct)
  case (1 E now p k c a s)
  then show ?case
    by (auto simp: forget_Inr grants_ok_def elim!: grant_capability_effect
        intro: distinct_upsert dest: upsert_rows_ok)
next
  case (2 E now p k c a s)
  then show ?case
    by (auto simp: forget_Inr grants_ok_def grant_row_ok_def set_update_where
        dest!: revoke_capability_effect)
qed

interpretation capability_ops: guarded_ops "capability_step E" grants_ok for E
  by unfold_locales (rule capability_step_ok)

interpretation capability_log: append_only_log "capability_step E" for E
proof
  fix c s r t assume step: "capability_step E c s = Inr (r, t)"
  obtain now op where c: "c = (now, op)" by (cases c)
  show "log_extends s t" using step unfolding c
    by (cases op) (auto simp: forget_Inr log_extends_same elim!: grant_capability_effect
        dest!: revoke_capability_effect)
qed

lemma grant_row_ok_mono:
  "grant_row_ok ps g \<Longrightarrow> pr_id ` set ps \<subseteq> pr_id ` set qs \<Longrightarrow>
   (\<And>pid. active_in ps pid \<Longrightarrow> active_in qs pid) \<Longrightarrow> grant_row_ok qs g"
  by (auto simp: grant_row_ok_def)

lemma grants_ok_mono:
  "grants_ok s \<Longrightarrow> grants t = grants s \<Longrightarrow> principal_ids s \<subseteq> principal_ids t \<Longrightarrow>
   (\<And>pid. principal_active s pid \<Longrightarrow> principal_active t pid) \<Longrightarrow> grants_ok t"
  by (auto simp: grants_ok_def principal_ids_def intro: grant_row_ok_mono)

lemma grant_row_ok_off: "grant_row_ok ps g \<Longrightarrow> grant_row_ok ps (g\<lparr>gr_active := False, gr_updated := now\<rparr>)"
  by (simp add: grant_row_ok_def)

lemma deactivate_grants_ok: "grants_ok s \<Longrightarrow> grants_ok (deactivate_grants now pid sc s)"
  by (simp add: grants_ok_def deactivate_grants_def grant_row_ok_off)

lemma effect_grants_ok: "principal_effect s t \<Longrightarrow> grants_ok s \<Longrightarrow> grants_ok t"
proof (induction rule: principal_effect.induct)
  case (deactivate s pid hi au now)
  have "grant_row_ok (update_where (\<lambda>p. pr_id p = pid) (\<lambda>p. p\<lparr>pr_active := False\<rparr>) (principals s))
      (if gr_principal g = pid then g\<lparr>gr_active := False, gr_updated := now\<rparr> else g)"
    if "grant_row_ok (principals s) g" for g
    using that by (auto simp: grant_row_ok_def)
  with deactivate.prems show ?case
    by (auto simp: grants_ok_def deactivate_credentials_def)
next
  case (drop_role row pid cid now s)
  then show ?case by (intro deactivate_grants_ok) (simp add: grants_ok_def)
next
  case (drop_global row pid s now)
  then show ?case by (intro deactivate_grants_ok) (simp add: grants_ok_def)
qed (auto simp: principal_ids_def deactivate_credentials_def elim!: grants_ok_mono)

end
