(* ===== verification/Access.thy ===== *)
theory Access
  imports Capabilities
begin

text \<open>
  The administration of access as one system: any interleaving of the operations on clients,
  principals, sessions and identity links, and capability grants. Each component changes only its
  own tables; the invariants of all of them hold after every run.
\<close>

datatype access_op =
    ClientOp client_op
  | PrincipalOp principal_op
  | SessionOp session_op
  | CapabilityOp capability_op

fun access_step :: "env \<Rightarrow> time \<times> access_op \<Rightarrow> store \<Rightarrow> (unit \<times> store) res" where
  "access_step E (now, ClientOp c) s = client_step E (now, c) s"
| "access_step E (now, PrincipalOp c) s = principal_step E (now, c) s"
| "access_step E (now, SessionOp c) s = session_step E (now, c) s"
| "access_step E (now, CapabilityOp c) s = capability_step E (now, c) s"

definition access_inv :: "store \<Rightarrow> bool" where
  "access_inv s \<longleftrightarrow> identity_inv s \<and> sessions_ok s \<and> links_ok s \<and> grants_ok s \<and> clients_ok s"

section \<open>Frames\<close>

lemma client_step_frame: "client_step E (now, c) s = Inr (u, t) \<Longrightarrow> t = s\<lparr>clients := clients t, activations := activations t\<rparr>"
  by (cases c) (auto simp: forget_Inr Let_def res_simps ensure_quarantine_client_def
      create_client_def set_client_status_def activate_commercial_client_def
      deactivate_commercial_client_def split: option.splits if_splits)

lemma session_step_frame: "session_step E (now, c) s = Inr (u, t) \<Longrightarrow> t = s\<lparr>sessions := sessions t, identities := identities t\<rparr>"
  by (cases c) (auto simp: forget_Inr res_simps Let_def create_browser_session_def get_auth_session_def
        touch_auth_session_def revoke_auth_session_def revoke_principal_sessions_def
        add_principal_identity_def remove_principal_identity_def mark_identity_login_def
        upgrade_email_identity_def split: option.splits prod.splits dest!: create_auth_session_Inr)

lemma capability_step_frame: "capability_step E (now, c) s = Inr (u, t) \<Longrightarrow> t = s\<lparr>grants := grants t\<rparr>"
  by (cases c) (auto simp: forget_Inr elim!: grant_capability_effect dest!: revoke_capability_effect)

lemma effect_clients: "principal_effect s t \<Longrightarrow> clients t = clients s \<and> activations t = activations s"
  by (induction rule: principal_effect.induct) (auto simp: deactivate_credentials_def deactivate_grants_def)

lemma identity_inv_frame:
  "principals t = principals s \<Longrightarrow> credentials t = credentials s \<Longrightarrow> client_roles t = client_roles s \<Longrightarrow>
   global_roles t = global_roles s \<Longrightarrow> identity_inv t = identity_inv s"
  by (simp add: identity_inv_def ids_unique_def kinds_ok_def roles_ok_def globals_ok_def
      credentials_live_def principal_ids_def)

lemma grants_frame: "grants t = grants s \<Longrightarrow> principals t = principals s \<Longrightarrow> grants_ok t = grants_ok s"
  by (simp add: grants_ok_def)

lemma clients_frame: "clients t = clients s \<Longrightarrow> activations t = activations s \<Longrightarrow> clients_ok t = clients_ok s"
  by (simp add: clients_ok_def)

lemmas inv_frames = identity_inv_frame sessions_frame links_frame grants_frame clients_frame

lemma access_step_inv: "access_inv s \<Longrightarrow> access_step E c s = Inr (u, t) \<Longrightarrow> access_inv t"
proof -
  assume inv: "access_inv s" and step: "access_step E c s = Inr (u, t)"
  obtain now op where c: "c = (now, op)" by (cases c)
  show ?thesis
  proof (cases op)
    case (ClientOp d)
    then have d: "client_step E (now, d) s = Inr (u, t)" using step c by simp
    obtain a b where t: "t = s\<lparr>clients := a, activations := b\<rparr>" using client_step_frame [OF d] by blast
    show ?thesis using inv client_step_ok [OF _ d] inv_frames [of t s] unfolding access_inv_def by (simp add: t)
  next
    case (PrincipalOp d)
    then have e: "principal_effect s t" using step c principal_step_effect by simp
    show ?thesis using inv effect_identity_inv [OF e] effect_sessions_ok [OF e] effect_links_ok [OF e]
        effect_grants_ok [OF e] effect_clients [OF e] clients_frame [of t s] unfolding access_inv_def by simp
  next
    case (SessionOp d)
    then have d: "session_step E (now, d) s = Inr (u, t)" using step c by simp
    obtain a b where t: "t = s\<lparr>sessions := a, identities := b\<rparr>" using session_step_frame [OF d] by blast
    show ?thesis using inv session_step_ok [OF _ d] inv_frames [of t s] unfolding access_inv_def by (simp add: t)
  next
    case (CapabilityOp d)
    then have d: "capability_step E (now, d) s = Inr (u, t)" using step c by simp
    obtain a where t: "t = s\<lparr>grants := a\<rparr>" using capability_step_frame [OF d] by blast
    show ?thesis using inv capability_step_ok [OF _ d] inv_frames [of t s] unfolding access_inv_def by (simp add: t)
  qed
qed

interpretation access: guarded_ops "access_step E" access_inv for E
  by unfold_locales (rule access_step_inv)

interpretation access_log: append_only_log "access_step E" for E
proof
  fix c s r t assume step: "access_step E c s = Inr (r, t)"
  obtain now op where c: "c = (now, op)" by (cases c)
  show "log_extends s t" using step unfolding c
    by (cases op) (auto intro: client_log.step_appends principal_step_appends session_step_appends
        capability_log.step_appends)
qed

lemma access_inv_empty: "access_inv empty_store"
  by (simp add: access_inv_def sessions_ok_def links_ok_def grants_ok_def clients_ok_def empty_store_def
      identity_inv_empty [unfolded empty_store_def])

section \<open>Properties\<close>

definition demo_access_ops :: "(time \<times> access_op) list" where
  "demo_access_ops =
     [(1, PrincipalOp (CreatePrincipalWithAccess ''root'' ''staff'' ''Root'' [] True (Some ''k1''))),
      (2, PrincipalOp (CreatePrincipalWithAccess ''dan'' ''staff'' ''Dan'' [] True (Some ''k2''))),
      (3, ClientOp (CreateClient ''acme'' ''Acme'')), (4, ClientOp (CreateClient ''beta'' ''Beta'')),
      (5, PrincipalOp (CreatePrincipalWithAccess ''eve'' ''staff'' ''Eve'' [(''acme'', ''technician'')] False (Some ''k5''))),
      (6, CapabilityOp (Grant ''eve'' ''microsoft_admin'' (Some ''acme'') ''root'')),
      (7, SessionOp (OpenSession ''tok'' demo_settings ''dan'' ''local'' ''ua''))]"

definition demo_tenants :: store where
  "demo_tenants = run_ops (access_step plain_env) demo_access_ops empty_store"

lemma demo_tenants_inv: "access_inv demo_tenants"
  unfolding demo_tenants_def by (rule access.run_ops_keeps [OF access_inv_empty])

text \<open>
  C6. Access needs an active principal: after any interleaving of client, principal, session,
  identity-link and capability operations on a fresh store, every active credential, every active
  capability grant and every session that is not revoked belongs to an active principal, and no
  session's idle limit passes its absolute limit.
\<close>

theorem access_needs_active_principal:
  "let s = run_ops (access_step E) cs empty_store in
     list_all (\<lambda>c. cr_active c \<longrightarrow> principal_active s (cr_principal c)) (credentials s) \<and>
     list_all (\<lambda>g. gr_active g \<longrightarrow> principal_active s (gr_principal g)) (grants s) \<and>
     list_all (\<lambda>x. (\<not> se_revoked x \<longrightarrow> principal_active s (se_principal x)) \<and> se_idle x \<le> se_absolute x) (sessions s)"
  using access.run_ops_keeps [OF access_inv_empty, of E cs]
  by (simp add: Let_def access_inv_def identity_inv_def credentials_live_def grants_ok_def grant_row_ok_def
      sessions_ok_def session_row_ok_def list_all_iff)

theorem access_needs_active_principal_witness:
  "map gr_principal (filter gr_active (grants demo_tenants)) = [''eve''] \<and> principal_active demo_tenants ''eve''"
proof -
  have m: "map gr_principal (filter gr_active (grants demo_tenants)) = [''eve'']" by code_simp
  then have "''eve'' \<in> set (map gr_principal (filter gr_active (grants demo_tenants)))" by simp
  then obtain g where g: "g \<in> set (grants demo_tenants)" "gr_active g" "gr_principal g = ''eve''" by auto
  show ?thesis using access_needs_active_principal [of plain_env demo_access_ops] g m
    unfolding Let_def demo_tenants_def [symmetric] list_all_iff by metis
qed

end
