(* ===== verification/Rbac.thy ===== *)
theory Rbac
  imports Access
begin

text \<open>
  Authentication and authorization (\<open>rbac.py\<close>): how a request's bearer token or session cookie
  resolves to an authentication context, and the role and capability dependencies of the routes.
  The session branch reads and writes the store, and what it writes stays written when the request
  is then refused, so the resolution returns the store beside its result. The detail of an HTTP
  error that is a JSON object is represented by its code, capability and reason.
\<close>

record auth_record =
  pa_id :: string
  pa_kind :: string
  pa_client_roles :: "(string \<times> string) list"
  pa_global_roles :: "string set"

record request =
  rq_authorization :: "string option"
  rq_session :: "string option"
  rq_method :: "string option"
  rq_csrf :: bool
  rq_client_header :: string
  rq_client_query :: "string option"

definition unauthorized :: "string \<Rightarrow> err" where
  "unauthorized detail = HTTPException 401 detail"

definition role_from_label :: "string \<Rightarrow> role res" where
  "role_from_label label =
     (let l = upper (strip label) in
      if l = ''END_USER'' then Inr END_USER
      else if l = ''VIEWER'' then Inr VIEWER
      else if l = ''TECHNICIAN'' then Inr TECHNICIAN
      else if l = ''ADMIN'' then Inr ADMIN
      else Inl (unauthorized ''principal has an invalid role''))"

definition approver_id :: "env \<Rightarrow> auth_context \<Rightarrow> string option" where
  "approver_id E ctx =
     (case ac_token ctx of
        Some t \<Rightarrow> if t = [] then ac_principal ctx else Some (take 16 (sha256 E t))
      | None \<Rightarrow> ac_principal ctx)"

definition has_capability :: "auth_context \<Rightarrow> string \<Rightarrow> string option \<Rightarrow> bool" where
  "has_capability ctx key client =
     (let k = lower (strip key) in
      (k, None) \<in> ac_grants ctx \<or> (client \<noteq> None \<and> (k, client) \<in> ac_grants ctx))"

definition tokens_configured :: "settings \<Rightarrow> bool" where
  "tokens_configured cfg \<longleftrightarrow> api_token cfg \<noteq> [] \<or> admin_token cfg \<noteq> [] \<or> tech_token cfg \<noteq> [] \<or>
     viewer_token cfg \<noteq> [] \<or> (end_user_support_enabled cfg \<and> end_user_token cfg \<noteq> [])"

definition admin_credential_configured :: "settings \<Rightarrow> store \<Rightarrow> bool" where
  "admin_credential_configured cfg s \<longleftrightarrow> strip (api_token cfg) \<noteq> [] \<or> strip (admin_token cfg) \<noteq> [] \<or>
     has_msp_admin_credential s"

section \<open>Principals behind credentials and sessions\<close>

definition auth_record_of :: "store \<Rightarrow> principal_row \<Rightarrow> auth_record" where
  "auth_record_of s p = \<lparr>pa_id = pr_id p, pa_kind = pr_kind p,
     pa_client_roles = client_role_pairs s (pr_id p), pa_global_roles = set (global_role_names s (pr_id p))\<rparr>"

definition find_principal_by_credential_hash :: "store \<Rightarrow> string \<Rightarrow> auth_record option" where
  "find_principal_by_credential_hash s h =
     map_option (auth_record_of s)
       (find (\<lambda>p. pr_active p \<and>
          list_ex (\<lambda>c. cr_principal c = pr_id p \<and> cr_active c \<and> cr_hash c = h) (credentials s)) (principals s))"

definition find_principal_auth_record :: "store \<Rightarrow> string \<Rightarrow> auth_record option" where
  "find_principal_auth_record s principal_id =
     (let pid = strip principal_id in
      if pid = [] then None
      else map_option (auth_record_of s) (find (\<lambda>p. pr_id p = pid \<and> pr_active p) (principals s)))"

definition principal_auth_context ::
  "settings \<Rightarrow> string option \<Rightarrow> auth_record \<Rightarrow> store \<Rightarrow> string \<Rightarrow> string option \<Rightarrow> auth_context res" where
  "principal_auth_context cfg token prin s auth_method session_hash =
     rbind (rmap (\<lambda>(c, r). rbind (role_from_label r) (\<lambda>x. Inr (c, x))) (pa_client_roles prin)) (\<lambda>pairs.
     let roles = dmerge [] pairs; ids = set (dkeys roles) in
     rbind (raise_if (pa_kind prin = ''customer'' \<and> card ids \<noteq> 1)
              (unauthorized ''principal has an invalid client membership'')) (\<lambda>_.
     rbind (raise_if (ids = {} \<and> ''msp_admin'' \<notin> pa_global_roles prin)
              (unauthorized ''principal has no client membership'')) (\<lambda>_.
     let configured = strip_or_none (set_client_id cfg);
         primary = (if (case configured of None \<Rightarrow> False | Some c \<Rightarrow> c \<in> ids) then configured
                    else (case sorted_list_of_set ids of [] \<Rightarrow> None | c # _ \<Rightarrow> Some c));
         admin = (''msp_admin'' \<in> pa_global_roles prin);
         primary_role = (case primary of None \<Rightarrow> None | Some c \<Rightarrow> dget roles c) in
     case (if admin then Some ADMIN else primary_role) of
       None \<Rightarrow> Inl (unauthorized ''principal has no usable role'')
     | Some role \<Rightarrow>
         rbind (active_capability_grants (pa_id prin) s) (\<lambda>gs.
         Inr \<lparr>ac_role = role, ac_token = token, ac_client = primary, ac_principal = Some (pa_id prin),
              ac_client_ids = ids, ac_msp_admin = admin, ac_demo = False, ac_grants = gs,
              ac_method = auth_method, ac_session = session_hash\<rparr>))))"

section \<open>Bearer tokens\<close>

definition extract_bearer_token :: "string option \<Rightarrow> string res" where
  "extract_bearer_token authorization =
     (case authorization of
        None \<Rightarrow> Inl (unauthorized ''missing bearer token'')
      | Some a \<Rightarrow>
          if a = [] then Inl (unauthorized ''missing bearer token'')
          else
            (case partition_char (CHR '' '') a of (scheme, found, token) \<Rightarrow>
               if \<not> found \<or> lower scheme \<noteq> ''bearer'' \<or> token = []
               then Inl (unauthorized ''invalid bearer token'') else Inr token))"

text \<open>\<open>secrets.compare_digest\<close> refuses texts with a character outside ASCII.\<close>

definition compare_digest :: "string \<Rightarrow> string \<Rightarrow> bool res" where
  "compare_digest a b =
     (if list_ex (\<lambda>c. (of_char c :: nat) \<ge> 128) (a @ b)
      then Inl (TypeError ''comparing strings with non-ASCII characters is not supported'')
      else Inr (a = b))"

fun match_configured :: "string \<Rightarrow> (string \<times> role) list \<Rightarrow> role option res" where
  "match_configured token [] = Inr None"
| "match_configured token ((candidate, r) # rest) =
     (if candidate = [] then match_configured token rest
      else rbind (compare_digest token candidate) (\<lambda>eq. if eq then Inr (Some r) else match_configured token rest))"

definition resolve_bearer_auth_context ::
  "env \<Rightarrow> settings \<Rightarrow> string option \<Rightarrow> store \<Rightarrow> auth_context res" where
  "resolve_bearer_auth_context E cfg authorization s =
     (let configured = strip_or_none (set_client_id cfg); eu_client = strip_or_none (end_user_client_id cfg) in
      rbind (extract_bearer_token authorization) (\<lambda>token.
      rbind (if end_user_support_enabled cfg \<and> end_user_token cfg \<noteq> []
             then compare_digest token (end_user_token cfg) else Inr False) (\<lambda>end_user.
      if end_user
      then Inr \<lparr>ac_role = END_USER, ac_token = Some token, ac_client = eu_client,
                ac_principal = strip_or_none (end_user_user_id cfg), ac_client_ids = set_option eu_client,
                ac_msp_admin = False, ac_demo = False, ac_grants = {}, ac_method = ''bearer'', ac_session = None\<rparr>
      else
        rbind (match_configured token [(api_token cfg, ADMIN), (admin_token cfg, ADMIN),
                 (tech_token cfg, TECHNICIAN), (viewer_token cfg, VIEWER)]) (\<lambda>matched.
        case matched of
          Some r \<Rightarrow> Inr \<lparr>ac_role = r, ac_token = Some token, ac_client = configured, ac_principal = None,
                ac_client_ids = set_option configured, ac_msp_admin = True, ac_demo = False, ac_grants = {},
                ac_method = ''bearer'', ac_session = None\<rparr>
        | None \<Rightarrow>
            rbind (hash_credential E token) (\<lambda>h.
            case find_principal_by_credential_hash s h of
              Some p \<Rightarrow> principal_auth_context cfg (Some token) p s ''bearer'' None
            | None \<Rightarrow> Inl (unauthorized ''invalid bearer token''))))))"

section \<open>Requests\<close>

definition session_expired :: "time \<Rightarrow> session_row \<Rightarrow> bool" where
  "session_expired now x \<longleftrightarrow> now \<ge> se_idle x \<or> now \<ge> se_absolute x"

definition csrf_protected :: "string option \<Rightarrow> bool" where
  "csrf_protected meth = (case meth of None \<Rightarrow> False
     | Some m \<Rightarrow> m \<noteq> [] \<and> upper m \<in> {''POST'', ''PUT'', ''PATCH'', ''DELETE''})"

definition resolve_session_context ::
  "env \<Rightarrow> time \<Rightarrow> settings \<Rightarrow> request \<Rightarrow> string \<Rightarrow> store \<Rightarrow> auth_context res \<times> store" where
  "resolve_session_context E now cfg rq token s =
     (case hash_session_token E token of
        Inl e \<Rightarrow> (Inl e, s)
      | Inr h \<Rightarrow>
          (case get_auth_session now h s of
             (None, t) \<Rightarrow> (Inl (unauthorized ''invalid session''), t)
           | (Some x, t) \<Rightarrow>
               if session_expired now x then (Inl (unauthorized ''invalid session''), t)
               else
                 (case find_principal_auth_record t (se_principal x) of
                    None \<Rightarrow> (Inl (unauthorized ''invalid session''), t)
                  | Some p \<Rightarrow>
                      if csrf_protected (rq_method rq) \<and> \<not> rq_csrf rq
                      then (Inl (HTTPException 403 ''csrf_required''), t)
                      else
                        (case session_expiries now (session_idle_ttl_minutes cfg) (session_absolute_ttl_minutes cfg) of
                           Inl e \<Rightarrow> (Inl e, t)
                         | Inr (idle, _) \<Rightarrow>
                             (case touch_auth_session h (Some now) (Some idle) t of
                                (_, u) \<Rightarrow> (principal_auth_context cfg None p u (se_method x) (Some h), u))))))"

definition resolve_auth_context ::
  "env \<Rightarrow> time \<Rightarrow> settings \<Rightarrow> request \<Rightarrow> store \<Rightarrow> auth_context res \<times> store" where
  "resolve_auth_context E now cfg rq s =
     (let configured = strip_or_none (set_client_id cfg) in
      if demo_mode cfg then
        let c = (case configured of Some c \<Rightarrow> c | None \<Rightarrow> ''demo'') in
        (Inr \<lparr>ac_role = ADMIN, ac_token = None, ac_client = Some c, ac_principal = Some ''demo'',
              ac_client_ids = {c}, ac_msp_admin = False, ac_demo = True,
              ac_grants = {(MICROSOFT_ADMIN_CAPABILITY, Some c)}, ac_method = ''demo'', ac_session = None\<rparr>, s)
      else
        (case rq_authorization rq of
           Some a \<Rightarrow> (resolve_bearer_auth_context E cfg (Some a) s, s)
         | None \<Rightarrow>
             (case rq_session rq of
                Some token \<Rightarrow>
                  if token = [] then (Inl (unauthorized ''missing bearer token''), s)
                  else resolve_session_context E now cfg rq token s
              | None \<Rightarrow> (Inl (unauthorized ''missing bearer token''), s))))"

definition require_end_user ::
  "env \<Rightarrow> time \<Rightarrow> settings \<Rightarrow> request \<Rightarrow> store \<Rightarrow> auth_context res \<times> store" where
  "require_end_user E now cfg rq s =
     (case resolve_auth_context E now cfg rq s of (r, t) \<Rightarrow>
       (rbind r (\<lambda>ctx. rbind (raise_if (ac_role ctx \<noteq> END_USER)
          (HTTPException 403 ''end-user access required'')) (\<lambda>_. Inr ctx)), t))"

definition require_role ::
  "env \<Rightarrow> time \<Rightarrow> settings \<Rightarrow> role \<Rightarrow> request \<Rightarrow> store \<Rightarrow> auth_context res \<times> store" where
  "require_role E now cfg minimum rq s =
     (case resolve_auth_context E now cfg rq s of (r, t) \<Rightarrow>
       (rbind r (\<lambda>ctx. rbind (raise_if (ac_role ctx < minimum)
          (HTTPException 403 ''insufficient role'')) (\<lambda>_. Inr ctx)), t))"

section \<open>Capabilities\<close>

definition capability_failure_reason :: "auth_context \<Rightarrow> string \<Rightarrow> string" where
  "capability_failure_reason ctx key =
     (if ac_principal ctx = None then ''no_principal''
      else if key \<notin> fst ` ac_grants ctx then ''no_grant''
      else ''client_scope_mismatch'')"

definition capability_required :: "string \<Rightarrow> string \<Rightarrow> err" where
  "capability_required key reason = HTTPException 403 (''capability_required '' @ key @ '' '' @ reason)"

definition outside_memberships :: "auth_context \<Rightarrow> string option \<Rightarrow> bool" where
  "outside_memberships ctx requested =
     (case requested of None \<Rightarrow> False
      | Some r \<Rightarrow> r \<noteq> [] \<and> \<not> ac_demo ctx \<and> \<not> ac_msp_admin ctx \<and> strip r \<notin> ac_client_ids ctx)"

definition check_capability ::
  "auth_context \<Rightarrow> string \<Rightarrow> string \<Rightarrow> string option \<Rightarrow> (auth_context \<times> string option) res" where
  "check_capability ctx key header query =
     rbind (requested_client_from header query ''conflicting Microsoft Admin client scopes'') (\<lambda>requested.
     rbind (raise_if (outside_memberships ctx requested) (capability_required key ''client_scope_mismatch'')) (\<lambda>_.
     rbind (case requested of None \<Rightarrow> Inr (ac_client ctx)
            | Some _ \<Rightarrow> rbind (resolve_client_scope ctx requested) scope_client_id) (\<lambda>client.
     rbind (raise_if (\<not> has_capability ctx key client)
              (capability_required key (capability_failure_reason ctx key))) (\<lambda>_.
     Inr (ctx, case strip_arg requested of Some r \<Rightarrow> Some r
               | None \<Rightarrow> if ac_demo ctx \<or> ac_msp_admin ctx then None else ac_client ctx)))))"

definition require_capability ::
  "env \<Rightarrow> time \<Rightarrow> settings \<Rightarrow> string \<Rightarrow> role \<Rightarrow> request \<Rightarrow> store \<Rightarrow> (auth_context \<times> string option) res \<times> store" where
  "require_capability E now cfg key minimum rq s =
     (case resolve_auth_context E now cfg rq s of (r, t) \<Rightarrow>
       (rbind r (\<lambda>ctx. rbind (raise_if (ac_role ctx < minimum) (HTTPException 403 ''insufficient role'')) (\<lambda>_.
          check_capability ctx key (rq_client_header rq) (rq_client_query rq))), t))"

definition require_capability_scope :: "auth_context \<Rightarrow> string \<Rightarrow> string option \<Rightarrow> string res" where
  "require_capability_scope ctx key requested =
     rbind (raise_if (outside_memberships ctx requested) (capability_required key ''client_scope_mismatch'')) (\<lambda>_.
     rbind (rbind (resolve_client_scope ctx requested) scope_client_id) (\<lambda>client.
     case client of
       None \<Rightarrow> Inl (HTTPException 403 ''capability operation requires one explicit client'')
     | Some c \<Rightarrow>
         rbind (raise_if (\<not> has_capability ctx key (Some c))
                  (capability_required key (capability_failure_reason ctx key))) (\<lambda>_.
         Inr c)))"

end
