(* ===== verification/Rbac_Laws.thy ===== *)
theory Rbac_Laws
  imports Rbac
begin

text \<open>
  What an authentication context proves about the store: who it can name, which clients its scope
  can reach and which capability grants it carries. The statements span principals, sessions,
  capabilities and client scopes.
\<close>

section \<open>Contexts of stored principals\<close>

lemma rmap_fst: "rmap (\<lambda>(c, r). rbind (f r) (\<lambda>x. Inr (c, x))) ps = Inr qs \<Longrightarrow> map fst qs = map fst ps"
  by (induction ps arbitrary: qs) (auto simp: res_simps)

lemma rmap_pairs: "rmap (\<lambda>(c, r). rbind (f r) (\<lambda>x. Inr (c, x))) ps = Inr qs \<Longrightarrow> (c, x) \<in> set qs \<Longrightarrow>
   \<exists>r. (c, r) \<in> set ps \<and> f r = Inr x"
  by (induction ps arbitrary: qs) (fastforce simp: res_simps)+

lemma principal_auth_context_Inr:
  assumes "principal_auth_context cfg tok p s m h = Inr ctx"
  shows "ac_principal ctx = Some (pa_id p) \<and> ac_client_ids ctx = fst ` set (pa_client_roles p) \<and>
    ac_msp_admin ctx = (''msp_admin'' \<in> pa_global_roles p) \<and> \<not> ac_demo ctx \<and> ac_token ctx = tok \<and>
    ac_session ctx = h \<and> active_capability_grants (pa_id p) s = Inr (ac_grants ctx) \<and>
    (ac_msp_admin ctx \<longrightarrow> ac_role ctx = ADMIN) \<and>
    (\<not> ac_msp_admin ctx \<longrightarrow> (\<exists>c r. (c, r) \<in> set (pa_client_roles p) \<and> ac_client ctx = Some c \<and>
       role_from_label r = Inr (ac_role ctx)))"
proof -
  let ?f = "\<lambda>(c, r). rbind (role_from_label r) (\<lambda>x. Inr (c, x))"
  from assms obtain pairs where pairs: "rmap ?f (pa_client_roles p) = Inr pairs"
    by (auto simp: principal_auth_context_def res_simps)
  have ids: "set (dkeys (dmerge [] pairs)) = fst ` set (pa_client_roles p)"
    using rmap_fst [OF pairs] by (metis dkeys_dmerge dkeys_def list.simps(8) list.set(1) set_map sup_bot_left)
  have role: "\<exists>r. (c, r) \<in> set (pa_client_roles p) \<and> role_from_label r = Inr x"
    if "dget (dmerge [] pairs) c = Some x" for c x
    using that set_dmerge_sub [of "[]" pairs] rmap_pairs [OF pairs] dget_Some_in by fastforce
  define roles where "roles = dmerge [] pairs"
  define primary where "primary = (if (case strip_or_none (set_client_id cfg) of None \<Rightarrow> False
      | Some c \<Rightarrow> c \<in> set (dkeys roles)) then strip_or_none (set_client_id cfg)
    else (case sorted_list_of_set (set (dkeys roles)) of [] \<Rightarrow> None | c # _ \<Rightarrow> Some c))"
  from assms pairs obtain r gs where
    r: "(if ''msp_admin'' \<in> pa_global_roles p then Some ADMIN
       else (case primary of None \<Rightarrow> None | Some c \<Rightarrow> dget roles c)) = Some r"
    and gs: "active_capability_grants (pa_id p) s = Inr gs"
    and ctx: "ctx = \<lparr>ac_role = r, ac_token = tok, ac_client = primary, ac_principal = Some (pa_id p),
      ac_client_ids = set (dkeys roles), ac_msp_admin = (''msp_admin'' \<in> pa_global_roles p), ac_demo = False,
      ac_grants = gs, ac_method = m, ac_session = h\<rparr>"
    unfolding principal_auth_context_def Let_def rbind_Inr_iff raise_if_Inr_iff case_option_Inr
      roles_def primary_def by (simp, blast)
  have "\<exists>c. primary = Some c \<and> dget roles c = Some r" if "''msp_admin'' \<notin> pa_global_roles p"
    using r that by (cases primary) simp_all
  then have "\<exists>c x. (c, x) \<in> set (pa_client_roles p) \<and> primary = Some c \<and> role_from_label x = Inr r"
    if "''msp_admin'' \<notin> pa_global_roles p"
    using role that unfolding roles_def by blast
  then show ?thesis using r gs ids unfolding ctx roles_def by (simp split: if_splits)
qed

lemma auth_record_client_roles:
  "fst ` set (pa_client_roles (auth_record_of s p)) = ro_client ` {r \<in> set (client_roles s). ro_principal r = pr_id p}"
  by (auto simp: auth_record_of_def client_role_pairs_def image_iff)

lemma auth_record_admin: "''msp_admin'' \<in> pa_global_roles (auth_record_of s p) \<longleftrightarrow> is_msp_admin s (pr_id p)"
  by (force simp: auth_record_of_def global_role_names_def is_msp_admin_def list_ex_iff)

text \<open>
  \<open>backed ctx s\<close>: the context carries what the store says of an active principal now.
\<close>

definition backed :: "auth_context \<Rightarrow> store \<Rightarrow> bool" where
  "backed ctx s \<longleftrightarrow> (\<exists>pid. ac_principal ctx = Some pid \<and> principal_active s pid \<and>
     ac_client_ids ctx = ro_client ` {r \<in> set (client_roles s). ro_principal r = pid} \<and>
     ac_msp_admin ctx = is_msp_admin s pid \<and> \<not> ac_demo ctx \<and>
     active_capability_grants pid s = Inr (ac_grants ctx) \<and>
     (ac_msp_admin ctx \<longrightarrow> ac_role ctx = ADMIN) \<and>
     (\<not> ac_msp_admin ctx \<longrightarrow> (\<exists>r\<in>set (client_roles s). ro_principal r = pid \<and>
        ac_client ctx = Some (ro_client r) \<and> role_from_label (ro_role r) = Inr (ac_role ctx))))"

lemma record_context_backed:
  assumes "p \<in> set (principals s)" "pr_active p"
    "principal_auth_context cfg tok (auth_record_of s p) s m h = Inr ctx"
  shows "backed ctx s \<and> ac_principal ctx = Some (pr_id p)"
proof -
  note c = principal_auth_context_Inr [OF assms(3)]
  have "pa_id (auth_record_of s p) = pr_id p" by (simp add: auth_record_of_def)
  moreover have "active_in (principals s) (pr_id p)" using assms(1,2) by (auto simp: active_in_def list_ex_iff)
  moreover have "\<exists>r\<in>set (client_roles s). ro_principal r = pr_id p \<and> ro_client r = a \<and> ro_role r = b"
    if "(a, b) \<in> set (pa_client_roles (auth_record_of s p))" for a b
    using that by (auto simp: auth_record_of_def client_role_pairs_def)
  ultimately have role: "\<not> ac_msp_admin ctx \<Longrightarrow> \<exists>r\<in>set (client_roles s). ro_principal r = pr_id p \<and>
      ac_client ctx = Some (ro_client r) \<and> role_from_label (ro_role r) = Inr (ac_role ctx)"
    and rest: "principal_active s (pr_id p)" "pa_id (auth_record_of s p) = pr_id p"
    using c by blast+
  show ?thesis unfolding backed_def
    by (intro conjI exI [of _ "pr_id p"] impI role) (use c rest in \<open>simp_all add: auth_record_client_roles auth_record_admin\<close>)
qed

lemma credential_principal:
  assumes "find_principal_by_credential_hash s h = Some a"
  shows "\<exists>p. p \<in> set (principals s) \<and> pr_active p \<and> a = auth_record_of s p \<and>
    (\<exists>c\<in>set (credentials s). cr_principal c = pr_id p \<and> cr_active c \<and> cr_hash c = h)"
  using assms by (auto simp: find_principal_by_credential_hash_def list_ex_iff dest!: find_SomeD)

lemma session_principal:
  assumes "find_principal_auth_record s pid = Some a"
  shows "\<exists>p. p \<in> set (principals s) \<and> pr_active p \<and> pr_id p = strip pid \<and> a = auth_record_of s p"
  using assms by (auto simp: find_principal_auth_record_def Let_def split: if_splits dest!: find_SomeD)

section \<open>Authentication soundness\<close>

lemma compare_digest_True: "compare_digest a b = Inr True \<Longrightarrow> a = b"
  by (auto simp: compare_digest_def split: if_splits)

lemma match_configured_Some:
  "match_configured tok cs = Inr (Some r) \<Longrightarrow> (tok, r) \<in> set cs \<and> tok \<noteq> []"
  by (induction tok cs rule: match_configured.induct)
    (auto simp: res_simps split: if_splits dest: compare_digest_True)

datatype auth_source = From_demo | From_end_user | From_bootstrap | From_credential | From_session

text \<open>What each way to authenticate rests on.\<close>

fun justified :: "env \<Rightarrow> time \<Rightarrow> settings \<Rightarrow> request \<Rightarrow> store \<Rightarrow> auth_context \<Rightarrow> auth_source \<Rightarrow> bool" where
  "justified E now cfg rq s ctx From_demo \<longleftrightarrow> demo_mode cfg \<and> ac_demo ctx"
| "justified E now cfg rq s ctx From_end_user \<longleftrightarrow> \<not> demo_mode cfg \<and> end_user_support_enabled cfg \<and>
     end_user_token cfg \<noteq> [] \<and> extract_bearer_token (rq_authorization rq) = Inr (end_user_token cfg) \<and>
     ac_role ctx = END_USER \<and> \<not> ac_msp_admin ctx \<and> \<not> ac_demo ctx \<and> ac_grants ctx = {} \<and>
     ac_principal ctx = strip_or_none (end_user_user_id cfg) \<and>
     ac_client_ids ctx = set_option (strip_or_none (end_user_client_id cfg)) \<and>
     ac_token ctx = Some (end_user_token cfg)"
| "justified E now cfg rq s ctx From_bootstrap \<longleftrightarrow> \<not> demo_mode cfg \<and>
     (\<exists>tok. tok \<noteq> [] \<and> extract_bearer_token (rq_authorization rq) = Inr tok \<and>
        (tok, ac_role ctx) \<in> {(api_token cfg, ADMIN), (admin_token cfg, ADMIN), (tech_token cfg, TECHNICIAN),
          (viewer_token cfg, VIEWER)}) \<and> ac_principal ctx = None \<and> ac_grants ctx = {} \<and> \<not> ac_demo ctx \<and>
     ac_msp_admin ctx"
| "justified E now cfg rq s ctx From_credential \<longleftrightarrow> \<not> demo_mode cfg \<and> backed ctx s \<and>
     (\<exists>tok. extract_bearer_token (rq_authorization rq) = Inr tok \<and>
        (\<exists>c\<in>set (credentials s). cr_active c \<and> cr_hash c = sha256 E tok \<and> ac_principal ctx = Some (cr_principal c)))"
| "justified E now cfg rq s ctx From_session \<longleftrightarrow> \<not> demo_mode cfg \<and> backed ctx s \<and> rq_authorization rq = None \<and>
     (\<exists>tok x. rq_session rq = Some tok \<and> tok \<noteq> [] \<and> x \<in> set (sessions s) \<and> se_hash x = strip (sha256 E tok) \<and>
        \<not> se_revoked x \<and> now < se_idle x \<and> now < se_absolute x \<and>
        ac_principal ctx = Some (strip (se_principal x)) \<and>
        (csrf_protected (rq_method rq) \<longrightarrow> rq_csrf rq))"

lemma bearer_justified:
  assumes "resolve_bearer_auth_context E cfg (rq_authorization rq) s = Inr ctx" "\<not> demo_mode cfg"
  shows "\<exists>src. justified E now cfg rq s ctx src"
proof -
  from assms(1) obtain tok eu where tok: "extract_bearer_token (rq_authorization rq) = Inr tok"
    and eu: "(if end_user_support_enabled cfg \<and> end_user_token cfg \<noteq> []
       then compare_digest tok (end_user_token cfg) else Inr False) = Inr eu"
    by (auto simp: resolve_bearer_auth_context_def Let_def rbind_Inr_iff)
  show ?thesis
  proof (cases eu)
    case True
    then have "end_user_support_enabled cfg" "end_user_token cfg \<noteq> []" "tok = end_user_token cfg"
      using eu by (auto split: if_splits dest: compare_digest_True)
    then have "justified E now cfg rq s ctx From_end_user" using assms tok eu True
      by (auto simp: resolve_bearer_auth_context_def Let_def)
    then show ?thesis by blast
  next
    case False
    let ?cs = "[(api_token cfg, ADMIN), (admin_token cfg, ADMIN), (tech_token cfg, TECHNICIAN), (viewer_token cfg, VIEWER)]"
    from assms(1) tok eu False obtain m where m: "match_configured tok ?cs = Inr m"
      by (auto simp: resolve_bearer_auth_context_def Let_def rbind_Inr_iff simp del: match_configured.simps)
    show ?thesis
    proof (cases m)
      case (Some r)
      then have mem: "(tok, r) \<in> set ?cs" "tok \<noteq> []" using m match_configured_Some by blast+
      have ctx: "ctx = \<lparr>ac_role = r, ac_token = Some tok, ac_client = strip_or_none (set_client_id cfg), ac_principal = None,
          ac_client_ids = set_option (strip_or_none (set_client_id cfg)), ac_msp_admin = True, ac_demo = False,
          ac_grants = {}, ac_method = ''bearer'', ac_session = None\<rparr>"
        using assms(1) tok eu False m Some
        by (simp add: resolve_bearer_auth_context_def Let_def del: match_configured.simps)
      have "justified E now cfg rq s ctx From_bootstrap"
        using mem tok assms(2) unfolding ctx by auto
      then show ?thesis by blast
    next
      case None
      from assms(1) tok eu False m None obtain h p where h: "hash_credential E tok = Inr h"
        and p: "find_principal_by_credential_hash s h = Some p"
        and c: "principal_auth_context cfg (Some tok) p s ''bearer'' None = Inr ctx"
        by (auto simp: resolve_bearer_auth_context_def Let_def rbind_Inr_iff
            simp del: match_configured.simps split: option.splits)
      from h have "h = sha256 E tok" by (auto simp: hash_credential_def split: if_splits)
      with credential_principal [OF p] c record_context_backed tok assms(2)
      have "justified E now cfg rq s ctx From_credential" by fastforce
      then show ?thesis by blast
    qed
  qed
qed

lemma backed_sessions: "backed ctx (s\<lparr>sessions := xs\<rparr>) = backed ctx s"
  by (simp add: backed_def is_msp_admin_def active_capability_grants_def)

lemma get_auth_session_frame: "get_auth_session now h s = (y, t) \<Longrightarrow> t = s\<lparr>sessions := sessions t\<rparr>"
  by (auto simp: get_auth_session_def Let_def split: if_splits)

lemma touch_auth_session_frame: "touch_auth_session h l i s = (b, t) \<Longrightarrow> t = s\<lparr>sessions := sessions t\<rparr>"
  by (auto simp: touch_auth_session_def Let_def split: option.splits if_splits)

lemma auth_record_sessions [simp]: "auth_record_of (s\<lparr>sessions := xs\<rparr>) p = auth_record_of s p"
  by (simp add: auth_record_of_def client_role_pairs_def global_role_names_def)

lemma get_auth_session_Some:
  assumes "get_auth_session now h s = (Some x, t)"
  shows "x \<in> set (sessions s)" "se_hash x = strip h" "\<not> se_revoked x" "now < se_idle x" "now < se_absolute x"
  using assms by (auto simp: get_auth_session_def Let_def split: if_splits dest!: find_SomeD)

lemma session_justified:
  assumes "resolve_session_context E now cfg rq token s = (Inr ctx, u)" "\<not> demo_mode cfg"
    "rq_authorization rq = None" "rq_session rq = Some token" "token \<noteq> []"
  shows "justified E now cfg rq s ctx From_session"
proof -
  have h: "hash_session_token E token = Inr (sha256 E token)" using assms(5) by (simp add: hash_session_token_def)
  obtain y t where g: "get_auth_session now (sha256 E token) s = (y, t)" by fastforce
  from assms(1) h g obtain x where y: "y = Some x"
    by (auto simp: resolve_session_context_def split: option.splits)
  from assms(1) h g y obtain a idle w where a: "find_principal_auth_record t (se_principal x) = Some a"
    and csrf: "csrf_protected (rq_method rq) \<longrightarrow> rq_csrf rq"
    and touch: "touch_auth_session (sha256 E token) (Some now) (Some idle) t = (w, u)"
    and ctx: "principal_auth_context cfg None a u (se_method x) (Some (sha256 E token)) = Inr ctx"
    by (auto simp: resolve_session_context_def split: option.splits if_splits sum.splits prod.splits)
  obtain xs where t: "t = s\<lparr>sessions := xs\<rparr>" using get_auth_session_frame [OF g] by blast
  obtain zs where z: "u = s\<lparr>sessions := zs\<rparr>" using touch_auth_session_frame [OF touch] t by fastforce
  obtain p where p: "p \<in> set (principals s)" "pr_active p" "pr_id p = strip (se_principal x)" "a = auth_record_of s p"
    using session_principal [OF a] t by auto
  have "backed ctx (s\<lparr>sessions := zs\<rparr>) \<and> ac_principal ctx = Some (pr_id p)"
    using record_context_backed [of p "s\<lparr>sessions := zs\<rparr>" cfg None "se_method x" "Some (sha256 E token)" ctx] ctx z p by simp
  then show ?thesis using assms(2-5) csrf p(3) get_auth_session_Some [OF g [unfolded y]]
    by (auto simp: backed_sessions)
qed

lemma resolve_justified:
  assumes "resolve_auth_context E now cfg rq s = (Inr ctx, t)"
  shows "\<exists>src. justified E now cfg rq s ctx src"
proof (cases "demo_mode cfg")
  case True
  then have "justified E now cfg rq s ctx From_demo" using assms by (auto simp: resolve_auth_context_def Let_def)
  then show ?thesis by blast
next
  case False
  show ?thesis
  proof (cases "rq_authorization rq")
    case (Some a)
    then have "resolve_bearer_auth_context E cfg (rq_authorization rq) s = Inr ctx"
      using assms False by (auto simp: resolve_auth_context_def)
    then show ?thesis using False by (rule bearer_justified)
  next
    case None
    with assms False obtain tok where tok: "rq_session rq = Some tok" "tok \<noteq> []"
      "resolve_session_context E now cfg rq tok s = (Inr ctx, t)"
      by (auto simp: resolve_auth_context_def Let_def split: option.splits if_splits)
    show ?thesis using session_justified [OF tok(3) False None tok(1,2)] by blast
  qed
qed

lemma resolve_session_frame:
  assumes "resolve_session_context E now cfg rq tok s = (r, t)"
  shows "t = s\<lparr>sessions := sessions t\<rparr>"
proof (cases "hash_session_token E tok")
  case (Inr h)
  obtain y u where g: "get_auth_session now h s = (y, u)" by fastforce
  note u = get_auth_session_frame [OF g]
  have "t = u \<or> (\<exists>i w. touch_auth_session h (Some now) (Some i) u = (w, t))" using assms Inr g
    by (auto simp: resolve_session_context_def split: option.splits sum.splits prod.splits if_splits)
  then show ?thesis using u touch_auth_session_frame by (metis store.surjective store.update_convs(6))
qed (use assms in \<open>simp add: resolve_session_context_def\<close>)

lemma resolve_frame:
  assumes "resolve_auth_context E now cfg rq s = (r, t)"
  shows "t = s\<lparr>sessions := sessions t\<rparr>"
  using assms by (auto simp: resolve_auth_context_def Let_def split: if_splits option.splits
      dest: resolve_session_frame)

section \<open>Consequences\<close>

lemma backed_client_ids:
  assumes "identity_inv s" "backed ctx s" "c \<in> strip ` ac_client_ids ctx"
  shows "\<exists>pid. ac_principal ctx = Some pid \<and> principal_active s pid \<and>
    (\<exists>r\<in>set (client_roles s). ro_principal r = pid \<and> ro_client r = c) \<and> c \<noteq> QUARANTINE_CLIENT_ID \<and> c \<noteq> []"
proof -
  from assms(2) obtain pid where p: "ac_principal ctx = Some pid" "principal_active s pid"
    "ac_client_ids ctx = ro_client ` {r \<in> set (client_roles s). ro_principal r = pid}"
    by (auto simp: backed_def)
  with assms(3) obtain r where r: "r \<in> set (client_roles s)" "ro_principal r = pid" "c = strip (ro_client r)" by auto
  then have "role_row_ok r" using assms(1) by (simp add: identity_inv_def roles_ok_def)
  then have "c = ro_client r" "c \<noteq> QUARANTINE_CLIENT_ID" "c \<noteq> []" using r(3) by (simp_all add: role_row_ok_def)
  with p(1,2) r(1,2) show ?thesis by (intro exI [of _ pid] conjI bexI [of _ r]) simp_all
qed

lemma list_clients_in: "c \<in> set (list_clients sc s) \<longleftrightarrow> c \<in> set (clients s) \<and> in_scope sc (cl_id c)"
  by (simp add: list_clients_def)

lemma justified_backed:
  "justified E now cfg rq s ctx src \<Longrightarrow> \<not> ac_demo ctx \<Longrightarrow> ac_principal ctx \<noteq> None \<Longrightarrow>
   backed ctx s \<or> (ac_principal ctx = strip_or_none (end_user_user_id cfg) \<and>
     ac_token ctx = Some (end_user_token cfg) \<and> end_user_support_enabled cfg)"
  by (cases src) auto

lemma active_grants_rows:
  assumes "active_capability_grants pid s = Inr gs" "(k, c) \<in> gs"
  shows "\<exists>g\<in>set (grants s). gr_principal g = strip pid \<and> gr_active g \<and> gr_key g = k \<and>
    gr_scope g = (case c of None \<Rightarrow> [] | Some x \<Rightarrow> x)"
  using assms grant_inputs(1) [of pid]
  by (auto simp: active_capability_grants_def res_simps scope_to_client_id_def split: if_splits)

lemma require_scope_Inr:
  assumes "require_capability_scope ctx key req = Inr c"
  shows "(lower (strip key), None) \<in> ac_grants ctx \<or> (lower (strip key), Some c) \<in> ac_grants ctx"
    "\<not> ac_demo ctx \<Longrightarrow> \<not> ac_msp_admin ctx \<Longrightarrow> c \<in> strip ` ac_client_ids ctx"
proof -
  from assms obtain sc where sc: "resolve_client_scope ctx req = Inr sc" "scope_client_id sc = Inr (Some c)"
    and cap: "has_capability ctx key (Some c)"
    by (auto simp: require_capability_scope_def res_simps split: option.splits)
  show "(lower (strip key), None) \<in> ac_grants ctx \<or> (lower (strip key), Some c) \<in> ac_grants ctx"
    using cap by (auto simp: has_capability_def Let_def)
  assume "\<not> ac_demo ctx" "\<not> ac_msp_admin ctx"
  with resolve_bound [OF sc(1)] scope_client_id_single [OF sc(2)]
  show "c \<in> strip ` ac_client_ids ctx" by (auto split: option.splits)
qed

section \<open>Properties\<close>

definition demo_request :: request where
  "demo_request = \<lparr>rq_authorization = Some ''Bearer k5'', rq_session = None, rq_method = Some ''GET'',
     rq_csrf = False, rq_client_header = [], rq_client_query = None\<rparr>"

text \<open>
  C3. Authentication is sound: whenever a request resolves to a context, one of the five sources
  justifies it. Demo mode is on; or the configured end-user or bootstrap token was presented; or an
  active credential of an active principal was presented; or the cookie names a session that is not
  revoked and not expired, of an active principal, and a state-changing method carried the CSRF
  header. In the last two cases the context carries exactly the memberships, the administrator
  flag and the active grants the store holds for that principal now. Only the session table changes.
\<close>

theorem authentication_sound:
  assumes "resolve_auth_context E now cfg rq s = (Inr ctx, t)"
  shows "(\<exists>src. justified E now cfg rq s ctx src) \<and> t = s\<lparr>sessions := sessions t\<rparr>"
  using resolve_justified [OF assms] resolve_frame [OF assms] by simp

lemma demo_resolves: "\<exists>ctx t. resolve_auth_context plain_env 40 demo_settings demo_request demo_tenants = (Inr ctx, t) \<and>
   ac_principal ctx = Some ''eve'' \<and> \<not> ac_demo ctx \<and> \<not> ac_msp_admin ctx \<and> ac_token ctx = Some ''k5''"
proof -
  let ?r = "resolve_auth_context plain_env 40 demo_settings demo_request demo_tenants"
  have "(case fst ?r of Inl _ \<Rightarrow> False | Inr ctx \<Rightarrow> ac_principal ctx = Some ''eve'' \<and> \<not> ac_demo ctx \<and>
      \<not> ac_msp_admin ctx \<and> ac_token ctx = Some ''k5'')" by code_simp
  then show ?thesis by (cases ?r; cases "fst ?r") auto
qed

theorem authentication_sound_witness:
  "\<exists>ctx t src. resolve_auth_context plain_env 40 demo_settings demo_request demo_tenants = (Inr ctx, t) \<and>
     justified plain_env 40 demo_settings demo_request demo_tenants ctx src"
  using demo_resolves authentication_sound by metis

text \<open>
  A deactivated principal cannot authenticate: once \<open>deactivate_principal\<close> has succeeded, no
  request, with any bearer token or session cookie and at any time, resolves to that principal
  (outside demo mode, and unless the settings name it as the configured end user).
\<close>

theorem deactivated_cannot_authenticate:
  assumes "deactivate_principal E now i actor audit_actor s = Inr (n, t)"
    "resolve_auth_context E now' cfg rq t = (Inr ctx, u)" "\<not> ac_demo ctx"
    "strip_or_none (end_user_user_id cfg) \<noteq> Some (strip i)"
  shows "ac_principal ctx \<noteq> Some (strip i)"
proof
  assume p: "ac_principal ctx = Some (strip i)"
  have "\<not> principal_active t (strip i)"
    using assms(1) by (auto simp: deactivate_principal_def Let_def res_simps audit_defs deactivate_credentials_def)
  moreover obtain src where "justified E now' cfg rq t ctx src" using resolve_justified [OF assms(2)] by blast
  ultimately show False using justified_backed [of E now' cfg rq t ctx src] assms(3,4) p by (auto simp: backed_def)
qed

theorem deactivated_cannot_authenticate_witness:
  "\<exists>n t ctx u. deactivate_principal plain_env 41 ''dan'' None None demo_tenants = Inr (n, t) \<and>
     resolve_auth_context plain_env 42 demo_settings demo_request t = (Inr ctx, u) \<and> ac_principal ctx \<noteq> Some ''dan''"
proof -
  let ?d = "deactivate_principal plain_env 41 ''dan'' None None demo_tenants"
  have ev: "(case ?d of Inl _ \<Rightarrow> False | Inr (_, t) \<Rightarrow>
      (case fst (resolve_auth_context plain_env 42 demo_settings demo_request t) of Inl _ \<Rightarrow> False | Inr ctx \<Rightarrow> \<not> ac_demo ctx))"
    by code_simp
  then obtain n t where d: "?d = Inr (n, t)" by (cases ?d) auto
  with ev obtain ctx u where r: "resolve_auth_context plain_env 42 demo_settings demo_request t = (Inr ctx, u)" "\<not> ac_demo ctx"
    by (cases "resolve_auth_context plain_env 42 demo_settings demo_request t") (auto split: sum.splits)
  have "strip_or_none (end_user_user_id demo_settings) \<noteq> Some (strip ''dan'')" "strip ''dan'' = ''dan''" by code_simp+
  then show ?thesis using deactivated_cannot_authenticate [OF d r] d r(1) by auto
qed

text \<open>
  C4. Tenant isolation: outside demo mode, a context that is not an MSP administrator's and not the
  configured end user's sees, under every scope \<open>resolve_client_scope\<close> grants it, only clients on
  which its active principal holds a role, and never the quarantine client.
\<close>

theorem tenant_isolation:
  assumes "identity_inv s" "resolve_auth_context E now cfg rq s = (Inr ctx, t)"
    "\<not> ac_demo ctx" "\<not> ac_msp_admin ctx" "ac_token ctx \<noteq> Some (end_user_token cfg)"
    "resolve_client_scope ctx req = Inr sc" "c \<in> set (list_clients sc t)"
  shows "\<exists>pid. ac_principal ctx = Some pid \<and> principal_active s pid \<and>
    (\<exists>r\<in>set (client_roles s). ro_principal r = pid \<and> ro_client r = cl_id c) \<and> cl_id c \<noteq> QUARANTINE_CLIENT_ID"
proof -
  obtain src where j: "justified E now cfg rq s ctx src" using resolve_justified [OF assms(2)] by blast
  then have "backed ctx s" using assms(3-5) by (cases src) auto
  moreover have "cl_id c \<in> strip ` ac_client_ids ctx"
    using assms(7) resolve_bound [OF assms(6,3,4)]
    by (auto simp: list_clients_in in_scope_def split: option.splits)
  ultimately show ?thesis using backed_client_ids [OF assms(1)] by blast
qed

lemma demo_resolves_inv:
  "identity_inv demo_tenants"
  using demo_tenants_inv by (simp add: access_inv_def)

theorem tenant_isolation_witness:
  "\<exists>ctx t sc c. resolve_auth_context plain_env 40 demo_settings demo_request demo_tenants = (Inr ctx, t) \<and>
     resolve_client_scope ctx None = Inr sc \<and> c \<in> set (list_clients sc t) \<and>
     (\<exists>r\<in>set (client_roles demo_tenants). ro_client r = cl_id c)"
proof -
  obtain ctx t where r: "resolve_auth_context plain_env 40 demo_settings demo_request demo_tenants = (Inr ctx, t)"
    "\<not> ac_demo ctx" "\<not> ac_msp_admin ctx" "ac_token ctx = Some ''k5''" using demo_resolves by blast
  have "(case resolve_auth_context plain_env 40 demo_settings demo_request demo_tenants of
      (Inr ctx, t) \<Rightarrow> (case resolve_client_scope ctx None of Inr sc \<Rightarrow> list_clients sc t \<noteq> [] | Inl _ \<Rightarrow> False)
    | _ \<Rightarrow> False)" by code_simp
  then obtain sc c where sc: "resolve_client_scope ctx None = Inr sc" "c \<in> set (list_clients sc t)"
    unfolding r(1) by (auto split: sum.splits) (metis list.set_intros(1) neq_Nil_conv)
  have "ac_token ctx \<noteq> Some (end_user_token demo_settings)" by (simp add: r(4) demo_settings_def)
  then show ?thesis using tenant_isolation [OF demo_resolves_inv r(1,2,3) _ sc] r(1) sc by blast
qed

text \<open>
  C5. A capability needs a live grant: when \<open>require_capability_scope\<close> authorizes a client for a
  context resolved outside demo mode, the context's active principal holds an active grant of that
  capability for that client or for all clients, and unless it is an MSP administrator it also
  holds a role on that client.
\<close>

theorem capability_needs_grant:
  assumes "access_inv s" "resolve_auth_context E now cfg rq s = (Inr ctx, t)" "\<not> ac_demo ctx"
    "require_capability_scope ctx key req = Inr c"
  shows "\<exists>pid g. ac_principal ctx = Some pid \<and> principal_active s pid \<and> g \<in> set (grants s) \<and> gr_active g \<and>
    gr_principal g = strip pid \<and> gr_key g = lower (strip key) \<and> gr_scope g \<in> {[], c} \<and>
    (is_msp_admin s pid \<or> (\<exists>r\<in>set (client_roles s). ro_principal r = pid \<and> ro_client r = c))"
proof -
  obtain src where j: "justified E now cfg rq s ctx src" using resolve_justified [OF assms(2)] by blast
  have "ac_grants ctx \<noteq> {}" using require_scope_Inr(1) [OF assms(4)] by auto
  then have b: "backed ctx s" using j assms(3) by (cases src) auto
  then obtain pid where p: "ac_principal ctx = Some pid" "principal_active s pid"
    "ac_msp_admin ctx = is_msp_admin s pid" "active_capability_grants pid s = Inr (ac_grants ctx)"
    by (auto simp: backed_def)
  obtain g where "g \<in> set (grants s)" "gr_active g" "gr_principal g = strip pid" "gr_key g = lower (strip key)"
    "gr_scope g \<in> {[], c}"
    using require_scope_Inr(1) [OF assms(4)] active_grants_rows [OF p(4)] by fastforce
  moreover have "is_msp_admin s pid \<or> (\<exists>r\<in>set (client_roles s). ro_principal r = pid \<and> ro_client r = c)"
    using require_scope_Inr(2) [OF assms(4,3)] backed_client_ids [OF _ b] assms(1) p
    by (cases "is_msp_admin s pid") (auto simp: access_inv_def)
  ultimately show ?thesis using p(1,2) by blast
qed

theorem capability_needs_grant_witness:
  "\<exists>ctx t c. resolve_auth_context plain_env 40 demo_settings demo_request demo_tenants = (Inr ctx, t) \<and>
     require_capability_scope ctx ''Microsoft_Admin'' (Some '' acme '') = Inr c \<and>
     (\<exists>g\<in>set (grants demo_tenants). gr_active g)"
proof -
  obtain ctx t where r: "resolve_auth_context plain_env 40 demo_settings demo_request demo_tenants = (Inr ctx, t)"
    "\<not> ac_demo ctx" using demo_resolves by blast
  have "(case resolve_auth_context plain_env 40 demo_settings demo_request demo_tenants of
      (Inr ctx, t) \<Rightarrow> \<not> isl (require_capability_scope ctx ''Microsoft_Admin'' (Some '' acme '')) | _ \<Rightarrow> False)" by code_simp
  then obtain c where c: "require_capability_scope ctx ''Microsoft_Admin'' (Some '' acme '') = Inr c"
    unfolding r(1) by (cases "require_capability_scope ctx ''Microsoft_Admin'' (Some '' acme '')") auto
  show ?thesis using capability_needs_grant [OF demo_tenants_inv r c] r(1) c by blast
qed

end
