(* ===== verification/Approvals.thy ===== *)
theory Approvals
  imports Client_Scope
begin

text \<open>
  Approval requests (\<open>store.py\<close>): creation, decision, payload edits, the claim that reserves an
  approved request for execution, the recorded outcome, and the expiry that every read performs.
  A JSON column holds the redacted value, as \<open>_json_dumps\<close> writes it; the order of dictionary keys
  in the text is not represented. An operation that raises inside its transaction leaves the store
  as it was, so an expiry it had already written is rolled back with it.
\<close>

definition DEFAULT_APPROVAL_EXPIRY_SECONDS :: int where
  "DEFAULT_APPROVAL_EXPIRY_SECONDS = 24 * 60 * 60"

definition MAX_APPROVAL_EXPIRY_SECONDS :: int where
  "MAX_APPROVAL_EXPIRY_SECONDS = 30 * 24 * 60 * 60"

definition seconds :: "int \<Rightarrow> time" where
  "seconds n = n * 1000000"

definition json_dumps :: "env \<Rightarrow> pydict \<Rightarrow> pyval" where
  "json_dumps E payload = redact_value E (PDict payload)"

definition workflow_status_for_approval :: "string \<Rightarrow> string" where
  "workflow_status_for_approval status =
     (if status = ''approved'' then ''approved'' else if status = ''rejected'' then ''rejected'' else ''pending_approval'')"

definition approval_expiry_at :: "time \<Rightarrow> int \<Rightarrow> time res" where
  "approval_expiry_at created n =
     rbind (raise_if (n < 1 \<or> n > MAX_APPROVAL_EXPIRY_SECONDS)
              (ValueError ''approval expiry must be between 1 and 2592000 seconds'')) (\<lambda>_.
     Inr (created + seconds n))"

fun approval_expired :: "time \<Rightarrow> stamp \<Rightarrow> bool" where
  "approval_expired now Null_stamp = False"
| "approval_expired now Blank_stamp = False"
| "approval_expired now Bad_stamp = True"
| "approval_expired now (At t) = (t \<le> now)"

definition str_field :: "pydict \<Rightarrow> string \<Rightarrow> string option" where
  "str_field d k = (case dget d k of Some (PStr v) \<Rightarrow> strip_or_none v | _ \<Rightarrow> None)"

definition ticket_id_from_payload :: "pydict \<Rightarrow> string option" where
  "ticket_id_from_payload payload =
     (case str_field payload ''ticket_id'' of
        Some t \<Rightarrow> Some t
      | None \<Rightarrow> (case dget payload ''payload'' of Some (PDict d) \<Rightarrow> str_field d ''ticket_id'' | _ \<Rightarrow> None))"

section \<open>Reading and expiring\<close>

definition find_approval :: "store \<Rightarrow> int \<Rightarrow> approval_row option" where
  "find_approval s i = find (\<lambda>r. ap_id r = i) (approvals s)"

definition expire_approval_request :: "env \<Rightarrow> time \<Rightarrow> approval_row \<Rightarrow> store \<Rightarrow> approval_row \<times> store" where
  "expire_approval_request E now row s =
     (if ap_status row \<noteq> ''pending'' \<or> \<not> approval_expired now (ap_expires row) then (row, s)
      else
        let i = ap_id row; smart = starts_with (ap_action row) ''smart_action:'';
            s1 = s\<lparr>approvals := update_where (\<lambda>r. ap_id r = i \<and> ap_status r = ''pending'')
                   (\<lambda>r. r\<lparr>ap_status := ''expired'', ap_comment := ''Approval expired'', ap_updated := now,
                          ap_approver := Some ''system:approval-expiry''\<rparr>) (approvals s)\<rparr>;
            s2 = s1\<lparr>workflow_runs := update_where (\<lambda>w. wr_approval w = Some i)
                   (\<lambda>w. w\<lparr>wr_status := ''rejected'', wr_updated := now\<rparr>) (workflow_runs s1)\<rparr>;
            s3 = (if smart then s2\<lparr>smart_runs := update_where
                     (\<lambda>x. sr_approval x = Some i \<and> sr_status x = ''pending_approval'')
                     (\<lambda>x. x\<lparr>sr_status := ''rejected'', sr_updated := now\<rparr>) (smart_runs s2)\<rparr> else s2);
            s4 = add_audit_row now (if smart then ''smart_action.completed'' else ''approval_request.expired'')
                   (ap_subject row)
                   (if smart then drop 13 (ap_action row) @ '' expired'' else ap_action row @ '' approval expired'')
                   (ap_client row) (Some ''system:approval-expiry'') s3;
            s5 = add_history_row E now ''approval_request.expired'' (ap_subject row) ''expired''
                   ''Approval expired before execution'' (redact_value E (ap_payload row)) (ap_client row) s4
        in (case find_approval s5 i of Some r \<Rightarrow> r | None \<Rightarrow> row, s5))"

definition approval_view :: "env \<Rightarrow> approval_row \<Rightarrow> approval_row" where
  "approval_view E r = r\<lparr>ap_comment := redact E (ap_comment r), ap_payload := redact_value E (ap_payload r),
     ap_exec_result := redact_value E (ap_exec_result r)\<rparr>"

definition get_approval_request :: "env \<Rightarrow> time \<Rightarrow> int \<Rightarrow> store \<Rightarrow> approval_row option \<times> store" where
  "get_approval_request E now i s =
     (case find_approval s i of
        None \<Rightarrow> (None, s)
      | Some row \<Rightarrow>
          (case expire_approval_request E now row s of (r, t) \<Rightarrow> (Some (approval_view E r), t)))"

fun expire_all :: "env \<Rightarrow> time \<Rightarrow> approval_row list \<Rightarrow> store \<Rightarrow> approval_row list \<times> store" where
  "expire_all E now [] s = ([], s)"
| "expire_all E now (row # rows) s =
     (case expire_approval_request E now row s of (r, t) \<Rightarrow>
        (case expire_all E now rows t of (rs, u) \<Rightarrow> (approval_view E r # rs, u)))"

definition list_approval_requests ::
  "env \<Rightarrow> time \<Rightarrow> scope_arg \<Rightarrow> store \<Rightarrow> (approval_row list \<times> store) res" where
  "list_approval_requests E now scope s =
     rbind (client_scope_predicate scope) (\<lambda>p.
     Inr (expire_all E now (rev (sort_key ap_id (filter (\<lambda>r. p (ap_client r)) (approvals s)))) s))"

text \<open>The reload that ends every mutation.\<close>

definition persisted :: "env \<Rightarrow> time \<Rightarrow> int \<Rightarrow> store \<Rightarrow> (approval_row \<times> store) res" where
  "persisted E now i s =
     (case get_approval_request E now i s of
        (None, t) \<Rightarrow> Inl (RuntimeError ''approval request was not persisted'')
      | (Some r, t) \<Rightarrow> Inr (r, t))"

section \<open>Operations\<close>

definition check_ticket :: "string option \<Rightarrow> store \<Rightarrow> unit res" where
  "check_ticket tid s = (case tid of None \<Rightarrow> Inr () | Some t \<Rightarrow> require_ticket_not_quarantined s t)"

definition create_approval_request ::
  "env \<Rightarrow> time \<Rightarrow> string \<Rightarrow> string \<Rightarrow> pydict \<Rightarrow> string option \<Rightarrow> int \<Rightarrow> store \<Rightarrow> (approval_row \<times> store) res" where
  "create_approval_request E now subject action payload client expires_in s =
     rbind (approval_expiry_at now expires_in) (\<lambda>expires.
     let pj = json_dumps E payload; c = normalize_client_id client;
         tid = (case ticket_id_from_payload payload of
                  Some t \<Rightarrow> Some t
                | None \<Rightarrow> if ticket_client s subject \<noteq> None then Some subject else None) in
     rbind (check_ticket tid s) (\<lambda>_.
     let i = approvals_seq s + 1;
         s1 = s\<lparr>approvals_seq := i, approvals := approvals s @
                [\<lparr>ap_id = i, ap_subject = subject, ap_action = action, ap_payload = pj, ap_status = ''pending'',
                  ap_comment = [], ap_created = now, ap_updated = now, ap_exec_status = ''not_started'',
                  ap_exec_message = [], ap_executed = None, ap_exec_result = PDict [], ap_client = c,
                  ap_approver = None, ap_expires = At expires\<rparr>]\<rparr>;
         s2 = add_audit_row now ''approval.requested'' subject (action @ '' approval requested'') c None s1;
         s3 = add_history_row E now ''approval.requested'' subject ''pending''
                (action @ '' waiting for technician approval'') (redact_value E pj) c s2
     in persisted E now i s3))"

text \<open>
  The prologue the four mutations of a stored request share: load the row, refuse a quarantined
  ticket, expire.
\<close>

definition load_approval :: "env \<Rightarrow> time \<Rightarrow> int \<Rightarrow> store \<Rightarrow> (approval_row \<times> store) res" where
  "load_approval E now i s =
     (case find_approval s i of
        None \<Rightarrow> Inl (KeyError (show_int i))
      | Some row \<Rightarrow>
          rbind (check_ticket (ticket_id_from_payload (as_dict (ap_payload row))) s) (\<lambda>_.
          Inr (expire_approval_request E now row s)))"

definition update_approval_request ::
  "env \<Rightarrow> time \<Rightarrow> int \<Rightarrow> string \<Rightarrow> string \<Rightarrow> string option \<Rightarrow> bool \<Rightarrow> bool \<Rightarrow> store \<Rightarrow> (approval_row \<times> store) res" where
  "update_approval_request E now i status comment approver allow_completed smart_capability s =
     rbind (load_approval E now i s) (\<lambda>(row, s1).
     rbind (raise_if (starts_with (ap_action row) ''smart_action:'' \<and> \<not> smart_capability)
       (PermissionError ''smart-action approvals must be updated through SmartActionService'')) (\<lambda>_.
     rbind (raise_if (status \<notin> {''pending'', ''approved'', ''rejected''})
       (ValueError ''approval status must be pending, approved, or rejected'')) (\<lambda>_.
     rbind (raise_if (ap_status row = ''expired'') (PermissionError ''approval request has expired'')) (\<lambda>_.
     rbind (raise_if (ap_status row \<noteq> ''pending'' \<and> \<not> allow_completed)
       (PermissionError ''approval request has already completed'')) (\<lambda>_.
     let s2 = s1\<lparr>approvals := update_where (\<lambda>r. ap_id r = i)
                (\<lambda>r. r\<lparr>ap_status := status, ap_comment := redact E comment, ap_updated := now,
                       ap_approver := (case approver of Some a \<Rightarrow> Some a | None \<Rightarrow> ap_approver r)\<rparr>) (approvals s1)\<rparr>;
         s3 = s2\<lparr>workflow_runs := update_where (\<lambda>w. wr_approval w = Some i)
                (\<lambda>w. w\<lparr>wr_status := workflow_status_for_approval status, wr_updated := now\<rparr>) (workflow_runs s2)\<rparr>;
         s4 = add_audit_row now ''approval_request.updated'' (ap_subject row) (ap_action row @ '' '' @ status)
                (ap_client row) approver s3;
         s5 = add_history_row E now ''approval_request.updated'' (ap_subject row) status
                (redact E (if comment = [] then ap_action row @ '' '' @ status else comment))
                (redact_value E (ap_payload row)) (ap_client row) s4
     in persisted E now i s5)))))"

definition update_approval_request_payload ::
  "env \<Rightarrow> time \<Rightarrow> int \<Rightarrow> pydict \<Rightarrow> string \<Rightarrow> store \<Rightarrow> (approval_row \<times> store) res" where
  "update_approval_request_payload E now i payload comment s =
     rbind (load_approval E now i s) (\<lambda>(row, s1).
     rbind (raise_if (ap_status row = ''expired'') (PermissionError ''approval request has expired'')) (\<lambda>_.
     rbind (raise_if (ap_status row \<noteq> ''pending'')
       (PermissionError ''approval payload can only be edited while pending'')) (\<lambda>_.
     let pj = json_dumps E payload;
         s2 = s1\<lparr>approvals := update_where (\<lambda>r. ap_id r = i)
                (\<lambda>r. r\<lparr>ap_payload := pj, ap_comment := redact E comment, ap_updated := now\<rparr>) (approvals s1)\<rparr>;
         message = redact E (if comment = [] then ap_action row @ '' payload edited'' else comment);
         s3 = add_audit_row now ''approval_request.edited'' (ap_subject row) message (ap_client row) None s2;
         s4 = add_history_row E now ''approval_request.edited'' (ap_subject row) ''pending'' message
                (redact_value E pj) (ap_client row) s3
     in persisted E now i s4)))"

definition record_approval_execution ::
  "env \<Rightarrow> time \<Rightarrow> int \<Rightarrow> string \<Rightarrow> string \<Rightarrow> pydict \<Rightarrow> string \<Rightarrow> store \<Rightarrow> (approval_row \<times> store) res" where
  "record_approval_execution E now i status message result audit_event_type s =
     rbind (load_approval E now i s) (\<lambda>(row, s1).
     rbind (raise_if (ap_status row = ''expired'') (PermissionError ''approval request has expired'')) (\<lambda>_.
     let rj = json_dumps E result;
         s2 = s1\<lparr>approvals := update_where (\<lambda>r. ap_id r = i)
                (\<lambda>r. r\<lparr>ap_exec_status := status, ap_exec_message := message, ap_executed := Some now,
                       ap_exec_result := rj, ap_updated := now\<rparr>) (approvals s1)\<rparr>;
         s3 = add_audit_row now audit_event_type (ap_subject row)
                (ap_action row @ '' execution '' @ status @ '': '' @ message) (ap_client row) (ap_approver row) s2;
         s4 = add_history_row E now audit_event_type (ap_subject row) status message rj (ap_client row) s3
     in persisted E now i s4))"

definition CLAIMED_STATUSES :: "string list" where
  "CLAIMED_STATUSES = [''succeeded'', ''verified'', ''unverified'', ''submitted'', ''running'']"

definition claim_approval_execution :: "env \<Rightarrow> time \<Rightarrow> int \<Rightarrow> store \<Rightarrow> (bool \<times> store) res" where
  "claim_approval_execution E now i s =
     rbind (load_approval E now i s) (\<lambda>(row, s1).
     rbind (raise_if (ap_status row = ''expired'') (PermissionError ''approval request has expired'')) (\<lambda>_.
     let hit = (\<lambda>r. ap_id r = i \<and> ap_status r = ''approved'' \<and> ap_exec_status r \<notin> set CLAIMED_STATUSES) in
     Inr (row_count hit (approvals s1) = 1,
          s1\<lparr>approvals := update_where hit (\<lambda>r. r\<lparr>ap_exec_status := ''running'', ap_exec_message := [],
               ap_executed := None, ap_exec_result := PDict [], ap_updated := now\<rparr>) (approvals s1)\<rparr>)))"

datatype approval_op =
    CreateApproval string string pydict "string option" int
  | UpdateApproval int string string "string option" bool bool
  | UpdatePayload int pydict string
  | RecordExecution int string string pydict string
  | ClaimExecution int
  | GetApproval int
  | ListApprovals scope_arg

fun approval_step :: "env \<Rightarrow> time \<times> approval_op \<Rightarrow> store \<Rightarrow> (unit \<times> store) res" where
  "approval_step E (now, CreateApproval u a p c n) s = forget (create_approval_request E now u a p c n s)"
| "approval_step E (now, UpdateApproval i st c ap al sm) s = forget (update_approval_request E now i st c ap al sm s)"
| "approval_step E (now, UpdatePayload i p c) s = forget (update_approval_request_payload E now i p c s)"
| "approval_step E (now, RecordExecution i st m r t) s = forget (record_approval_execution E now i st m r t s)"
| "approval_step E (now, ClaimExecution i) s = forget (claim_approval_execution E now i s)"
| "approval_step E (now, GetApproval i) s = Inr ((), snd (get_approval_request E now i s))"
| "approval_step E (now, ListApprovals sc) s = forget (list_approval_requests E now sc s)"

end
