(* ===== verification/Approval_Laws.thy ===== *)
theory Approval_Laws
  imports Approvals
begin

text \<open>
  The approval state machine. \<open>approval_move\<close> lists the moves one request can make, with the
  conditions the code checks and the set of requests whose outcome is being recorded; every operation moves each stored request by such moves and may add
  fresh ones. From the moves follow: an expired request never changes again, a payload is frozen
  once the request has left \<open>pending\<close>, and at most one claim succeeds until an outcome is recorded.
\<close>

section \<open>Moves of one request\<close>

inductive approval_move :: "int set \<Rightarrow> time \<Rightarrow> approval_row \<Rightarrow> approval_row \<Rightarrow> bool" where
  expire: "ap_status r = ''pending'' \<Longrightarrow> approval_expired now (ap_expires r) \<Longrightarrow>
    approval_move D now r (r\<lparr>ap_status := ''expired'', ap_comment := c, ap_updated := u, ap_approver := a\<rparr>)"
| decide: "ap_status r \<noteq> ''expired'' \<Longrightarrow> ap_status r = ''pending'' \<longrightarrow> \<not> approval_expired now (ap_expires r) \<Longrightarrow>
    st \<in> {''pending'', ''approved'', ''rejected''} \<Longrightarrow>
    approval_move D now r (r\<lparr>ap_status := st, ap_comment := c, ap_updated := u, ap_approver := a\<rparr>)"
| edit: "ap_status r = ''pending'' \<Longrightarrow> \<not> approval_expired now (ap_expires r) \<Longrightarrow>
    approval_move D now r (r\<lparr>ap_payload := p, ap_comment := c, ap_updated := u\<rparr>)"
| outcome: "ap_status r \<noteq> ''expired'' \<Longrightarrow> ap_id r \<in> D \<Longrightarrow>
    approval_move D now r (r\<lparr>ap_exec_status := st, ap_exec_message := m, ap_executed := e, ap_exec_result := v, ap_updated := u\<rparr>)"
| claim: "ap_status r = ''approved'' \<Longrightarrow> ap_exec_status r \<notin> set CLAIMED_STATUSES \<Longrightarrow>
    approval_move D now r (r\<lparr>ap_exec_status := ''running'', ap_exec_message := m, ap_executed := e, ap_exec_result := v, ap_updated := u\<rparr>)"

abbreviation approval_moves :: "int set \<Rightarrow> time \<Rightarrow> approval_row \<Rightarrow> approval_row \<Rightarrow> bool" where
  "approval_moves D now \<equiv> (approval_move D now)\<^sup>*\<^sup>*"

definition APPROVAL_STATUSES :: "string set" where
  "APPROVAL_STATUSES = {''pending'', ''approved'', ''rejected'', ''expired''}"

lemma move_keeps: "approval_move D now r r' \<Longrightarrow>
  ap_id r' = ap_id r \<and> ap_expires r' = ap_expires r \<and> ap_subject r' = ap_subject r \<and> ap_action r' = ap_action r \<and>
  ap_client r' = ap_client r \<and> ap_created r' = ap_created r \<and>
  (ap_status r \<in> APPROVAL_STATUSES \<longrightarrow> ap_status r' \<in> APPROVAL_STATUSES)"
  by (cases rule: approval_move.cases) (auto simp: APPROVAL_STATUSES_def)

lemma moves_keep: "approval_moves D now r r' \<Longrightarrow>
  ap_id r' = ap_id r \<and> ap_expires r' = ap_expires r \<and> ap_subject r' = ap_subject r \<and> ap_action r' = ap_action r \<and>
  ap_client r' = ap_client r \<and> ap_created r' = ap_created r \<and>
  (ap_status r \<in> APPROVAL_STATUSES \<longrightarrow> ap_status r' \<in> APPROVAL_STATUSES)"
  by (induction rule: rtranclp_induct) (auto dest: move_keeps)

lemma expired_stuck: "approval_move D now r r' \<Longrightarrow> ap_status r = ''expired'' \<Longrightarrow> False"
  by (cases rule: approval_move.cases) auto

lemma expired_frozen: "approval_moves D now r r' \<Longrightarrow> ap_status r = ''expired'' \<Longrightarrow> r' = r"
  by (induction rule: converse_rtranclp_induct) (auto dest: expired_stuck)

section \<open>Moves of the table\<close>

definition evolves :: "int set \<Rightarrow> time \<Rightarrow> store \<Rightarrow> store \<Rightarrow> bool" where
  "evolves D now s t \<longleftrightarrow> (\<exists>xs new. approvals t = xs @ new \<and> list_all2 (approval_moves D now) (approvals s) xs \<and>
     approvals_seq s \<le> approvals_seq t \<and> distinct (map ap_id new) \<and>
     (\<forall>r\<in>set new. approvals_seq s < ap_id r \<and> ap_id r \<le> approvals_seq t \<and> ap_status r \<in> APPROVAL_STATUSES))"

definition approvals_inv :: "store \<Rightarrow> bool" where
  "approvals_inv s \<longleftrightarrow> distinct (map ap_id (approvals s)) \<and>
     (\<forall>r\<in>set (approvals s). ap_id r \<le> approvals_seq s \<and> ap_status r \<in> APPROVAL_STATUSES)"

lemma list_all2_moves_ids: "list_all2 (approval_moves D now) xs ys \<Longrightarrow> map ap_id ys = map ap_id xs"
  by (induction rule: list_all2_induct) (auto dest: moves_keep)

lemma list_all2_moves_in: "list_all2 (approval_moves D now) xs ys \<Longrightarrow> y \<in> set ys \<Longrightarrow> \<exists>x\<in>set xs. approval_moves D now x y"
  by (induction rule: list_all2_induct) auto

lemma evolves_moves:
  "list_all2 (approval_moves D now) (approvals s) (approvals t) \<Longrightarrow> approvals_seq t = approvals_seq s \<Longrightarrow> evolves D now s t"
  unfolding evolves_def by (intro exI [of _ "approvals t"] exI [of _ "[]"]) simp

lemma evolves_same: "approvals t = approvals s \<Longrightarrow> approvals_seq t = approvals_seq s \<Longrightarrow> evolves D now s t"
  by (rule evolves_moves) (simp_all add: list_all2_refl)

lemma evolves_refl [simp]: "evolves D now s s"
  by (rule evolves_same) simp_all

lemma list_all2_moves_trans:
  "list_all2 (approval_moves D now) xs ys \<Longrightarrow> list_all2 (approval_moves D now) ys zs \<Longrightarrow> list_all2 (approval_moves D now) xs zs"
  by (erule (1) list_all2_trans [rotated]) auto

lemma distinct_append_bound:
  fixes f :: "'a \<Rightarrow> int"
  assumes "distinct (map f xs)" "distinct (map f ys)" "\<And>x. x \<in> set xs \<Longrightarrow> f x \<le> k" "\<And>y. y \<in> set ys \<Longrightarrow> k < f y"
  shows "distinct (map f (xs @ ys))"
proof -
  have "f x \<noteq> f y" if "x \<in> set xs" "y \<in> set ys" for x y using assms(3) [OF that(1)] assms(4) [OF that(2)] by simp
  then show ?thesis using assms(1,2) by auto
qed

lemma evolves_trans:
  assumes "evolves D now s t" "evolves D now t u" shows "evolves D now s u"
proof -
  from assms(1) obtain xs new where t: "approvals t = xs @ new" "list_all2 (approval_moves D now) (approvals s) xs"
    "approvals_seq s \<le> approvals_seq t" "distinct (map ap_id new)"
    "\<forall>r\<in>set new. approvals_seq s < ap_id r \<and> ap_id r \<le> approvals_seq t \<and> ap_status r \<in> APPROVAL_STATUSES"
    by (auto simp: evolves_def)
  from assms(2) obtain ys new2 where u: "approvals u = ys @ new2" "list_all2 (approval_moves D now) (xs @ new) ys"
    "approvals_seq t \<le> approvals_seq u" "distinct (map ap_id new2)"
    "\<forall>r\<in>set new2. approvals_seq t < ap_id r \<and> ap_id r \<le> approvals_seq u \<and> ap_status r \<in> APPROVAL_STATUSES"
    by (auto simp: evolves_def t(1))
  from u(2) obtain ys1 ys2 where y: "ys = ys1 @ ys2" "list_all2 (approval_moves D now) xs ys1"
    "list_all2 (approval_moves D now) new ys2" by (auto simp: list_all2_append1)
  have ids: "map ap_id ys2 = map ap_id new" using y(3) by (rule list_all2_moves_ids)
  have ok2: "approvals_seq s < ap_id r \<and> ap_id r \<le> approvals_seq t \<and> ap_status r \<in> APPROVAL_STATUSES"
    if r: "r \<in> set ys2" for r
  proof -
    obtain x where "x \<in> set new" "approval_moves D now x r" using list_all2_moves_in [OF y(3) r] by blast
    then show ?thesis using t(5) moves_keep [of D now x r] by simp
  qed
  have "distinct (map ap_id (ys2 @ new2))"
    using ids t(4) u(4,5) ok2 by (intro distinct_append_bound [where k = "approvals_seq t"]) simp_all
  moreover have "list_all2 (approval_moves D now) (approvals s) ys1"
    using t(2) y(2) by (rule list_all2_moves_trans)
  moreover have "\<forall>r\<in>set (ys2 @ new2). approvals_seq s < ap_id r \<and> ap_id r \<le> approvals_seq u \<and> ap_status r \<in> APPROVAL_STATUSES"
    using ok2 t(3) u(3,5) by fastforce
  ultimately show ?thesis using t(3) u(1,3) y(1)
    unfolding evolves_def by (intro exI [of _ ys1] exI [of _ "ys2 @ new2"]) simp
qed

lemma evolves_inv: "evolves D now s t \<Longrightarrow> approvals_inv s \<Longrightarrow> approvals_inv t"
proof -
  assume "evolves D now s t" and inv: "approvals_inv s"
  then obtain xs new where t: "approvals t = xs @ new" "list_all2 (approval_moves D now) (approvals s) xs"
    "approvals_seq s \<le> approvals_seq t" "distinct (map ap_id new)"
    "\<forall>r\<in>set new. approvals_seq s < ap_id r \<and> ap_id r \<le> approvals_seq t \<and> ap_status r \<in> APPROVAL_STATUSES"
    by (auto simp: evolves_def)
  have ids: "map ap_id xs = map ap_id (approvals s)" using t(2) by (rule list_all2_moves_ids)
  have old: "ap_id r \<le> approvals_seq s \<and> ap_status r \<in> APPROVAL_STATUSES" if r: "r \<in> set xs" for r
  proof -
    obtain x where "x \<in> set (approvals s)" "approval_moves D now x r" using list_all2_moves_in [OF t(2) r] by blast
    then show ?thesis using inv moves_keep [of D now x r] by (simp add: approvals_inv_def)
  qed
  have "distinct (map ap_id (xs @ new))" using ids inv t(4,5) old
    by (intro distinct_append_bound [where k = "approvals_seq s"]) (simp_all add: approvals_inv_def)
  then show ?thesis using t old by (fastforce simp: approvals_inv_def)
qed

text \<open>A stored request after an evolution: where it came from.\<close>

lemma evolves_row:
  assumes "evolves D now s t" "approvals_inv s" "find_approval s i = Some r"
  shows "\<exists>r'. find_approval t i = Some r' \<and> approval_moves D now r r'"
proof -
  from assms(1) obtain xs new where t: "approvals t = xs @ new" "list_all2 (approval_moves D now) (approvals s) xs"
    by (auto simp: evolves_def)
  have "find (\<lambda>x. ap_id x = i) rs = Some r \<Longrightarrow> list_all2 (approval_moves D now) rs ys \<Longrightarrow>
      \<exists>r'. find (\<lambda>x. ap_id x = i) (ys @ new) = Some r' \<and> approval_moves D now r r'" for rs ys
  proof (induction rs arbitrary: ys)
    case (Cons a rs)
    then obtain b zs where ys: "ys = b # zs" "approval_moves D now a b" "list_all2 (approval_moves D now) rs zs"
      by (auto simp: list_all2_Cons1)
    have "ap_id b = ap_id a" using moves_keep [OF ys(2)] by simp
    with Cons ys show ?case by (auto split: if_splits)
  qed simp
  with assms(3) t show ?thesis by (auto simp: find_approval_def)
qed

section \<open>Every operation is an evolution\<close>

lemma approvals_frame [simp]:
  "approvals (add_audit_row n e u d c a s) = approvals s"
  "approvals (add_history_row E n e u st m p c s) = approvals s"
  "approvals_seq (add_audit_row n e u d c a s) = approvals_seq s"
  "approvals_seq (add_history_row E n e u st m p c s) = approvals_seq s"
  by (simp_all add: add_audit_row_def add_history_row_def)

lemma update_where_moves:
  "(\<And>r. r \<in> set rs \<Longrightarrow> p r \<Longrightarrow> approval_moves D now r (f r)) \<Longrightarrow> list_all2 (approval_moves D now) rs (update_where p f rs)"
  by (induction rs) auto

lemma expire_cases:
  assumes "expire_approval_request E now row s = (r', t)"
  obtains (same) "t = s" "r' = row" "ap_status row = ''pending'' \<longrightarrow> \<not> approval_expired now (ap_expires row)"
  | (gone) "ap_status row = ''pending''" "approval_expired now (ap_expires row)"
      "approvals t = update_where (\<lambda>r. ap_id r = ap_id row \<and> ap_status r = ''pending'')
         (\<lambda>r. r\<lparr>ap_status := ''expired'', ap_comment := ''Approval expired'', ap_updated := now,
                ap_approver := Some ''system:approval-expiry''\<rparr>) (approvals s)"
      "approvals_seq t = approvals_seq s" "log_extends s t"
      "r' = (case find_approval t (ap_id row) of Some r \<Rightarrow> r | None \<Rightarrow> row)"
proof (cases "ap_status row \<noteq> ''pending'' \<or> \<not> approval_expired now (ap_expires row)")
  case True
  then show ?thesis using assms same by (auto simp: expire_approval_request_def)
next
  case False
  then have "approvals t = update_where (\<lambda>r. ap_id r = ap_id row \<and> ap_status r = ''pending'')
         (\<lambda>r. r\<lparr>ap_status := ''expired'', ap_comment := ''Approval expired'', ap_updated := now,
                ap_approver := Some ''system:approval-expiry''\<rparr>) (approvals s)"
      "approvals_seq t = approvals_seq s" "log_extends s t"
      "r' = (case find_approval t (ap_id row) of Some r \<Rightarrow> r | None \<Rightarrow> row)"
    using assms by (auto simp: expire_approval_request_def Let_def log_extends_def audit_defs split: if_splits)
  then show ?thesis using False gone by blast
qed

definition same_expiry :: "approval_row \<Rightarrow> store \<Rightarrow> bool" where
  "same_expiry row s \<longleftrightarrow> (\<forall>r\<in>set (approvals s). ap_id r = ap_id row \<longrightarrow> ap_expires r = ap_expires row)"

lemma expire_evolves:
  assumes "expire_approval_request E now row s = (r', t)" "same_expiry row s"
  shows "evolves D now s t \<and> (\<forall>x. same_expiry x s \<longrightarrow> same_expiry x t)"
  using assms(1)
proof (cases rule: expire_cases)
  case gone
  have "list_all2 (approval_moves D now) (approvals s) (approvals t)" unfolding gone(3)
    using assms(2) gone(1,2)
    by (intro update_where_moves r_into_rtranclp approval_move.expire) (auto simp: same_expiry_def)
  then show ?thesis using gone(3,4) by (auto intro!: evolves_moves simp: same_expiry_def set_update_where)
qed simp

lemma inv_same_expiry: "approvals_inv s \<Longrightarrow> row \<in> set (approvals s) \<Longrightarrow> same_expiry row s"
  by (auto simp: approvals_inv_def same_expiry_def distinct_map inj_on_def)

lemma find_approval_in: "find_approval s i = Some r \<Longrightarrow> r \<in> set (approvals s) \<and> ap_id r = i"
  by (auto simp: find_approval_def dest: find_SomeD)

lemma find_approval_unique:
  "approvals_inv s \<Longrightarrow> find_approval s i = Some r \<Longrightarrow> x \<in> set (approvals s) \<Longrightarrow> ap_id x = i \<Longrightarrow> x = r"
  using find_approval_in [of s i r] by (auto simp: approvals_inv_def distinct_map inj_on_def)

lemma get_evolves: "approvals_inv s \<Longrightarrow> get_approval_request E now i s = (r, t) \<Longrightarrow> evolves D now s t"
  by (auto simp: get_approval_request_def split: option.splits prod.splits
      dest!: find_approval_in expire_evolves intro: inv_same_expiry)

lemma expire_all_evolves:
  "expire_all E now rows s = (rs, t) \<Longrightarrow> (\<And>r. r \<in> set rows \<Longrightarrow> same_expiry r s) \<Longrightarrow> evolves D now s t"
proof (induction E now rows s arbitrary: rs t rule: expire_all.induct)
  case (2 E now row rows s)
  from 2(2) obtain r' u rs' where e: "expire_approval_request E now row s = (r', u)"
    and r: "expire_all E now rows u = (rs', t)" by (auto split: prod.splits)
  note x = expire_evolves [OF e 2(3) [OF list.set_intros(1)]]
  have "evolves D now u t" by (rule 2(1) [OF e [symmetric] r]) (use x 2(3) in auto)
  then show ?case using x evolves_trans by blast
qed simp

lemma list_evolves:
  assumes "approvals_inv s" "list_approval_requests E now sc s = Inr (rs, t)" shows "evolves D now s t"
proof -
  from assms(2) obtain p where
    "expire_all E now (rev (sort_key ap_id (filter (\<lambda>r. p (ap_client r)) (approvals s)))) s = (rs, t)"
    by (auto simp: list_approval_requests_def res_simps)
  then show ?thesis by (rule expire_all_evolves) (use assms(1) in \<open>auto intro: inv_same_expiry\<close>)
qed

lemma persisted_evolves: "approvals_inv s \<Longrightarrow> persisted E now i s = Inr (r, t) \<Longrightarrow> evolves D now s t"
  by (auto simp: persisted_def split: prod.splits option.splits dest: get_evolves)

text \<open>What the shared prologue delivers: the current row, not expired silently.\<close>

lemma load_approval_Inr:
  assumes "approvals_inv s" "load_approval E now i s = Inr (row, t)"
  shows "evolves D now s t \<and> approvals_inv t \<and> find_approval t i = Some row \<and>
    (ap_status row = ''pending'' \<longrightarrow> \<not> approval_expired now (ap_expires row))"
proof -
  from assms(2) obtain r0 where f: "find_approval s i = Some r0"
    and e: "expire_approval_request E now r0 s = (row, t)"
    by (auto simp: load_approval_def res_simps case_option_Inr)
  have r0: "r0 \<in> set (approvals s)" "ap_id r0 = i" using find_approval_in [OF f] by auto
  have ev: "evolves D now s t" using expire_evolves [OF e] inv_same_expiry [OF assms(1) r0(1)] by blast
  have inv: "approvals_inv t" using evolves_inv [OF ev assms(1)] .
  obtain r1 where r1: "find_approval t i = Some r1" using evolves_row [OF ev assms(1) f] by blast
  from e show ?thesis
  proof (cases rule: expire_cases)
    case same
    then show ?thesis using ev inv f by simp
  next
    case gone
    then have "row = r1" using r1 r0 by simp
    moreover have "ap_status r1 \<noteq> ''pending''"
      using find_approval_in [OF r1] gone(3) r0(2) by (auto simp: set_update_where split: if_splits)
    ultimately show ?thesis using ev inv r1 by simp
  qed
qed

text \<open>An update of the one row the prologue loaded, then the reload.\<close>

lemma update_row_evolves:
  assumes "approvals_inv t" "find_approval t i = Some row" "approval_moves D now row (f row)"
    "approvals u = update_where (\<lambda>r. ap_id r = i) f (approvals t)" "approvals_seq u = approvals_seq t"
  shows "evolves D now t u"
proof (rule evolves_moves)
  show "list_all2 (approval_moves D now) (approvals t) (approvals u)" unfolding assms(4)
    by (rule update_where_moves) (use find_approval_unique [OF assms(1,2)] assms(3) in blast)
qed (rule assms(5))

lemma load_update_persisted:
  assumes "approvals_inv s" "load_approval E now i s = Inr (row, s1)"
    "approval_moves D now row (f row)"
    "approvals u = update_where (\<lambda>r. ap_id r = i) f (approvals s1)" "approvals_seq u = approvals_seq s1"
    "persisted E now i u = Inr (r, t)"
  shows "evolves D now s t"
proof -
  note l = load_approval_Inr [OF assms(1,2)]
  have a: "evolves D now s1 u" using update_row_evolves [OF _ _ assms(3-5)] l by blast
  then have "evolves D now u t" using persisted_evolves [OF _ assms(6)] evolves_inv l by blast
  with a l show ?thesis using evolves_trans by blast
qed

lemma update_evolves:
  assumes "approvals_inv s" "update_approval_request E now i st c ap al sm s = Inr (r, t)"
  shows "evolves D now s t"
proof -
  from assms(2) obtain row s1 u where l: "load_approval E now i s = Inr (row, s1)"
    and p: "persisted E now i u = Inr (r, t)"
    and g: "st \<in> {''pending'', ''approved'', ''rejected''}" "ap_status row \<noteq> ''expired''"
    and u: "approvals u = update_where (\<lambda>r. ap_id r = i)
        (\<lambda>r. r\<lparr>ap_status := st, ap_comment := redact E c, ap_updated := now,
          ap_approver := (case ap of Some a \<Rightarrow> Some a | None \<Rightarrow> ap_approver r)\<rparr>) (approvals s1)"
      "approvals_seq u = approvals_seq s1"
    by (clarsimp simp: update_approval_request_def res_simps Let_def)
  show ?thesis using load_approval_Inr [OF assms(1) l] g
    by (intro load_update_persisted [OF assms(1) l _ u p] r_into_rtranclp approval_move.decide) simp_all
qed

lemma payload_evolves:
  assumes "approvals_inv s" "update_approval_request_payload E now i p c s = Inr (r, t)"
  shows "evolves D now s t"
proof -
  from assms(2) obtain row s1 u where l: "load_approval E now i s = Inr (row, s1)"
    and q: "persisted E now i u = Inr (r, t)" and g: "ap_status row = ''pending''"
    and u: "approvals u = update_where (\<lambda>r. ap_id r = i)
        (\<lambda>r. r\<lparr>ap_payload := json_dumps E p, ap_comment := redact E c, ap_updated := now\<rparr>) (approvals s1)"
      "approvals_seq u = approvals_seq s1"
    by (clarsimp simp: update_approval_request_payload_def res_simps Let_def)
  show ?thesis using load_approval_Inr [OF assms(1) l] g
    by (intro load_update_persisted [OF assms(1) l _ u q] r_into_rtranclp approval_move.edit) simp_all
qed

lemma record_evolves:
  assumes "approvals_inv s" "record_approval_execution E now i st m v a s = Inr (r, t)"
  shows "evolves {i} now s t"
proof -
  from assms(2) obtain row s1 u where l: "load_approval E now i s = Inr (row, s1)"
    and p: "persisted E now i u = Inr (r, t)" and g: "ap_status row \<noteq> ''expired''"
    and u: "approvals u = update_where (\<lambda>r. ap_id r = i)
        (\<lambda>r. r\<lparr>ap_exec_status := st, ap_exec_message := m, ap_executed := Some now,
               ap_exec_result := json_dumps E v, ap_updated := now\<rparr>) (approvals s1)"
      "approvals_seq u = approvals_seq s1"
    by (clarsimp simp: record_approval_execution_def res_simps Let_def)
  show ?thesis using g load_approval_Inr [OF assms(1) l] find_approval_in [of s1 i row]
    by (intro load_update_persisted [OF assms(1) l _ u p] r_into_rtranclp approval_move.outcome) simp_all
qed

lemma claim_evolves:
  assumes "approvals_inv s" "claim_approval_execution E now i s = Inr (b, t)"
  shows "evolves D now s t"
proof -
  let ?hit = "\<lambda>r. ap_id r = i \<and> ap_status r = ''approved'' \<and> ap_exec_status r \<notin> set CLAIMED_STATUSES"
  from assms(2) obtain row s1 where l: "load_approval E now i s = Inr (row, s1)"
    and t: "t = s1\<lparr>approvals := update_where ?hit (\<lambda>r. r\<lparr>ap_exec_status := ''running'', ap_exec_message := [],
        ap_executed := None, ap_exec_result := PDict [], ap_updated := now\<rparr>) (approvals s1)\<rparr>"
    by (auto simp: claim_approval_execution_def res_simps Let_def)
  have "evolves D now s1 t" unfolding t
    by (rule evolves_moves) (auto intro!: update_where_moves r_into_rtranclp approval_move.claim)
  then show ?thesis using load_approval_Inr [OF assms(1) l] evolves_trans by blast
qed

lemma create_evolves:
  assumes "approvals_inv s" "create_approval_request E now u a p c n s = Inr (r, t)"
  shows "evolves D now s t"
proof -
  from assms(2) obtain s3 row where p: "persisted E now (approvals_seq s + 1) s3 = Inr (r, t)"
    and s3: "approvals s3 = approvals s @ [row]" "approvals_seq s3 = approvals_seq s + 1"
      "ap_id row = approvals_seq s + 1" "ap_status row = ''pending''"
    by (clarsimp simp: create_approval_request_def res_simps Let_def)
  have "evolves D now s s3" unfolding evolves_def
    by (rule exI [of _ "approvals s"], rule exI [of _ "[row]"])
      (simp add: s3 list_all2_refl APPROVAL_STATUSES_def)
  then show ?thesis using persisted_evolves [OF evolves_inv [OF _ assms(1)] p] evolves_trans by blast
qed

text \<open>The requests whose outcome an operation records.\<close>

fun recorded :: "approval_op \<Rightarrow> int set" where
  "recorded (RecordExecution i st m v a) = {i}"
| "recorded _ = {}"

lemma approval_step_evolves:
  "approvals_inv s \<Longrightarrow> approval_step E (now, c) s = Inr (u, t) \<Longrightarrow> evolves (recorded c) now s t"
  by (cases c) (auto simp: forget_Inr dest: create_evolves update_evolves payload_evolves record_evolves
      claim_evolves list_evolves intro: get_evolves [OF _ surjective_pairing])

interpretation approval_ops: guarded_ops "approval_step E" approvals_inv for E
proof
  fix c s r t assume "approvals_inv s" "approval_step E c s = Inr (r, t)"
  then show "approvals_inv t" using approval_step_evolves evolves_inv by (cases c) blast
qed

lemma expire_appends: "expire_approval_request E now row s = (r, t) \<Longrightarrow> log_extends s t"
  by (erule expire_cases) auto

lemma get_appends: "get_approval_request E now i s = (r, t) \<Longrightarrow> log_extends s t"
  by (auto simp: get_approval_request_def split: option.splits prod.splits dest: expire_appends)

lemma expire_all_appends: "expire_all E now rows s = (rs, t) \<Longrightarrow> log_extends s t"
  by (induction E now rows s arbitrary: rs t rule: expire_all.induct)
    (auto split: prod.splits dest!: expire_appends intro: log_extends_trans)

lemma persisted_appends: "persisted E now i s = Inr (r, t) \<Longrightarrow> log_extends s t"
  by (auto simp: persisted_def split: prod.splits option.splits dest: get_appends)

lemma load_appends: "load_approval E now i s = Inr (row, t) \<Longrightarrow> log_extends s t"
  by (auto simp: load_approval_def res_simps case_option_Inr dest: expire_appends)

lemma log_chain: "log_extends s t \<Longrightarrow> log_extends u v \<Longrightarrow>
  audit_events u = audit_events t @ a \<Longrightarrow> event_history u = event_history t @ h \<Longrightarrow> log_extends s v"
  by (fastforce simp: log_extends_def)

lemma approval_step_appends: "approval_step E (now, c) s = Inr (u, t) \<Longrightarrow> log_extends s t"
proof (cases c)
  case (CreateApproval us a p cl n)
  moreover assume "approval_step E (now, c) s = Inr (u, t)"
  ultimately show ?thesis
    by (auto simp: forget_Inr create_approval_request_def res_simps Let_def audit_defs dest!: persisted_appends
        simp: log_extends_def)
next
  case (ClaimExecution i)
  moreover assume "approval_step E (now, c) s = Inr (u, t)"
  ultimately show ?thesis
    by (auto simp: forget_Inr claim_approval_execution_def res_simps Let_def log_extends_def dest!: load_appends)
qed (auto simp: forget_Inr update_approval_request_def update_approval_request_payload_def record_approval_execution_def
      list_approval_requests_def res_simps Let_def audit_defs
      dest!: load_appends persisted_appends expire_all_appends
      intro: log_chain get_appends [OF surjective_pairing])

interpretation approval_log: append_only_log "approval_step E" for E
proof
  fix c s r t assume "approval_step E c s = Inr (r, t)"
  then show "log_extends s t" using approval_step_appends by (cases c) blast
qed

section \<open>Runs\<close>

lemma run_evolves_row:
  assumes "approvals_inv s" "find_approval s i = Some r"
    "\<And>D now x y. P x \<Longrightarrow> approval_moves D now x y \<Longrightarrow> (\<forall>(n, c)\<in>set cs. i \<notin> recorded c) \<longrightarrow> i \<notin> D \<Longrightarrow> ap_id x = i \<Longrightarrow> P y"
    "P r"
  shows "\<exists>r'. find_approval (run_ops (approval_step E) cs s) i = Some r' \<and> P r'"
  using assms
proof (induction cs arbitrary: s r)
  case (Cons c cs)
  obtain now op where c: "c = (now, op)" by (cases c)
  let ?t = "apply_op (approval_step E) c s"
  have inv: "approvals_inv ?t" using Cons.prems(1) by (rule approval_ops.apply_op_keeps)
  have "\<exists>r'. find_approval ?t i = Some r' \<and> P r'"
  proof (cases "approval_step E c s")
    case (Inl e)
    then show ?thesis using Cons.prems by (simp add: apply_op_def)
  next
    case (Inr x)
    then obtain t where t: "approval_step E (now, op) s = Inr ((), t)" "?t = t"
      by (cases x) (auto simp: c apply_op_def)
    obtain r' where r': "find_approval t i = Some r'" "approval_moves (recorded op) now r r'"
      using evolves_row [OF approval_step_evolves [OF Cons.prems(1) t(1)] Cons.prems(1,2)] by blast
    have "P r'" by (rule Cons.prems(3) [OF Cons.prems(4) r'(2)])
        (use Cons.prems(2) find_approval_in in \<open>auto simp: c\<close>)
    then show ?thesis using r'(1) t(2) by simp
  qed
  then obtain r' where "find_approval ?t i = Some r'" "P r'" by blast
  then show ?case using Cons.IH [OF inv _ _ \<open>P r'\<close>] Cons.prems(3) by (simp add: c)
qed simp

lemma running_move: "approval_move D now x y \<Longrightarrow> ap_id x \<notin> D \<Longrightarrow> ap_exec_status x \<in> set CLAIMED_STATUSES \<Longrightarrow>
   ap_exec_status y = ap_exec_status x \<and> ap_id y = ap_id x"
  by (cases rule: approval_move.cases) auto

lemma running_moves: "approval_moves D now x y \<Longrightarrow> ap_id x \<notin> D \<Longrightarrow> ap_exec_status x \<in> set CLAIMED_STATUSES \<Longrightarrow>
   ap_exec_status y = ap_exec_status x \<and> ap_id y = ap_id x"
  by (induction rule: rtranclp_induct) (auto dest: running_move)

lemma moves_back: "approval_moves {} now r r' \<Longrightarrow> ap_status r' = ''approved'' \<Longrightarrow> ap_exec_status r' \<notin> set CLAIMED_STATUSES \<Longrightarrow>
   ap_exec_status r \<notin> set CLAIMED_STATUSES"
  using running_moves [of "{}" now r r'] by auto

text \<open>What a successful claim saw and left.\<close>

lemma claim_True:
  assumes "approvals_inv s" "claim_approval_execution E now i s = Inr (True, t)"
  shows "\<exists>r r'. find_approval s i = Some r \<and> ap_status r = ''approved'' \<and> ap_exec_status r \<notin> set CLAIMED_STATUSES \<and>
    find_approval t i = Some r' \<and> ap_status r' = ''approved'' \<and> ap_exec_status r' = ''running''"
proof -
  let ?hit = "\<lambda>r. ap_id r = i \<and> ap_status r = ''approved'' \<and> ap_exec_status r \<notin> set CLAIMED_STATUSES"
  let ?f = "\<lambda>r. r\<lparr>ap_exec_status := ''running'', ap_exec_message := [], ap_executed := None,
      ap_exec_result := PDict [], ap_updated := now\<rparr>"
  from assms(2) obtain row s1 where l: "load_approval E now i s = Inr (row, s1)"
    and n: "row_count ?hit (approvals s1) = 1"
    and t: "t = s1\<lparr>approvals := update_where ?hit ?f (approvals s1)\<rparr>"
    by (auto simp: claim_approval_execution_def res_simps Let_def)
  note li = load_approval_Inr [OF assms(1) l]
  from n have "row_count ?hit (approvals s1) \<noteq> 0" by simp
  then obtain x where "x \<in> set (approvals s1)" "?hit x" unfolding row_count_0_iff by blast
  then have row: "?hit row" using find_approval_unique [of s1 i row x] li by blast
  from l obtain r0 where f: "find_approval s i = Some r0" and e: "expire_approval_request E now r0 s = (row, s1)"
    by (auto simp: load_approval_def res_simps case_option_Inr)
  from e have s1: "s1 = s \<and> row = r0"
  proof (cases rule: expire_cases)
    case gone
    from li have "row \<in> set (approvals s1)" "ap_id row = i" using find_approval_in [of s1 i row] by auto
    then obtain r where r: "r \<in> set (approvals s)" "ap_id r = i"
      "ap_status row = (if ap_status r = ''pending'' \<and> i = ap_id r0 then ''expired'' else ap_status r)"
      unfolding gone(3) set_update_where by (auto split: if_splits)
    then have "r = r0" using find_approval_unique [OF assms(1) f] by blast
    then show ?thesis using r gone(1) row by simp
  qed simp
  have "find (\<lambda>r. ap_id r = i) rs = Some row \<Longrightarrow>
      find (\<lambda>r. ap_id r = i) (update_where ?hit ?f rs) = Some (?f row)" for rs
    using row by (induction rs) (auto split: if_splits)
  then have "find_approval t i = Some (?f row)" using li unfolding t find_approval_def by simp
  then show ?thesis using f s1 row by simp
qed

section \<open>Properties\<close>

definition demo_approvals :: store where
  "demo_approvals = run_ops (approval_step plain_env)
     [(0, CreateApproval ''t1'' ''halopsa.note'' [(''note'', PStr ''hi'')] (Some ''acme'') 60),
      (1, CreateApproval ''t2'' ''halopsa.note'' [] None 1),
      (2, UpdateApproval 1 ''approved'' [] (Some ''eve'') False False),
      (3000000, GetApproval 2)] empty_store"

lemma approvals_inv_empty: "approvals_inv empty_store"
  by (simp add: approvals_inv_def empty_store_def)

lemma demo_approvals_inv: "approvals_inv demo_approvals"
  unfolding demo_approvals_def by (rule approval_ops.run_ops_keeps [OF approvals_inv_empty])

text \<open>
  C9. Expiry is final: once a stored approval request is expired, no sequence of operations on
  approval requests (decisions with or without \<open>allow_completed\<close>, payload edits, claims, recorded
  outcomes, reads) changes any of its columns.
\<close>

theorem expired_approval_is_final:
  assumes "approvals_inv s" "find_approval s i = Some r" "ap_status r = ''expired''"
  shows "find_approval (run_ops (approval_step E) cs s) i = Some r"
  using run_evolves_row [of s i r "\<lambda>x. x = r" cs E] assms expired_frozen by blast

theorem expired_approval_is_final_witness:
  "\<exists>r. ap_status r = ''expired'' \<and>
    find_approval (run_ops (approval_step plain_env) [(4000000, UpdateApproval 2 ''approved'' [] None True True)] demo_approvals) 2 = Some r"
proof -
  have "(case find_approval demo_approvals 2 of Some r \<Rightarrow> ap_status r = ''expired'' | None \<Rightarrow> False)" by code_simp
  then obtain r where r: "find_approval demo_approvals 2 = Some r" "ap_status r = ''expired''"
    by (auto split: option.splits)
  show ?thesis using expired_approval_is_final [OF demo_approvals_inv r] r(2) by blast
qed

text \<open>
  C8. Execution is claimed at most once: a successful claim saw an approved, unclaimed request and
  marks it running; after it, whatever operations follow, no further claim of that request succeeds
  until an outcome is recorded for it.
\<close>

theorem claim_is_exclusive:
  assumes "approvals_inv s" "claim_approval_execution E now i s = Inr (True, t)"
    "\<forall>(n, c)\<in>set cs. i \<notin> recorded c"
  shows "(\<exists>r. find_approval s i = Some r \<and> ap_status r = ''approved'' \<and> ap_exec_status r \<notin> set CLAIMED_STATUSES) \<and>
    claim_approval_execution E now' i (run_ops (approval_step E) cs t) \<noteq> Inr (True, u)"
proof -
  note c = claim_True [OF assms(1,2)]
  then obtain r' where r': "find_approval t i = Some r'" "ap_exec_status r' = ''running''" by blast
  have inv: "approvals_inv t" using claim_evolves [OF assms(1,2)] evolves_inv assms(1) by blast
  have "\<exists>x. find_approval (run_ops (approval_step E) cs t) i = Some x \<and> ap_exec_status x = ''running''"
  proof (rule run_evolves_row [OF inv r'(1), of "\<lambda>x. ap_exec_status x = ''running''"])
    fix D n x y
    assume "ap_exec_status x = ''running''" "approval_moves D n x y"
      "(\<forall>(n, c)\<in>set cs. i \<notin> recorded c) \<longrightarrow> i \<notin> D" "ap_id x = i"
    then show "ap_exec_status y = ''running''"
      using running_moves [of D n x y] assms(3) by (simp add: CLAIMED_STATUSES_def)
  qed (rule r'(2))
  then obtain x where x: "find_approval (run_ops (approval_step E) cs t) i = Some x" "ap_exec_status x = ''running''"
    by blast
  have "claim_approval_execution E now' i (run_ops (approval_step E) cs t) \<noteq> Inr (True, u)"
  proof
    assume "claim_approval_execution E now' i (run_ops (approval_step E) cs t) = Inr (True, u)"
    from claim_True [OF approval_ops.run_ops_keeps [OF inv] this] x show False
      by (auto simp: CLAIMED_STATUSES_def)
  qed
  with c show ?thesis by blast
qed

theorem claim_is_exclusive_witness:
  "\<exists>t. claim_approval_execution plain_env 5 1 demo_approvals = Inr (True, t) \<and>
    claim_approval_execution plain_env 7 1 (run_ops (approval_step plain_env) [(6, GetApproval 1)] t) \<noteq> Inr (True, t)"
proof -
  let ?c = "claim_approval_execution plain_env 5 1 demo_approvals"
  have "(case ?c of Inr (b, _) \<Rightarrow> b | Inl _ \<Rightarrow> False)" by code_simp
  then obtain t where t: "?c = Inr (True, t)" by (cases ?c) auto
  show ?thesis using claim_is_exclusive [OF demo_approvals_inv t, of "[(6, GetApproval 1)]"] t by auto
qed

end
