(* ===== verification/Deliveries.thy ===== *)
theory Deliveries
  imports Client_Scope
begin

text \<open>
  The event delivery table of \<open>store.py\<close>: idempotent creation, the outcome of a dispatch, the claim
  of a retry and the queries. The JSON columns hold the redacted values the code writes; an empty
  timestamp text is \<open>None\<close>. An argument the code may leave out of an update (\<open>coalesce\<close>) is an option.
\<close>

definition DEFAULT_EVENT_MAX_RETRIES :: int where "DEFAULT_EVENT_MAX_RETRIES = 3"
definition DEFAULT_EVENT_RETRY_DELAY_SECONDS :: int where "DEFAULT_EVENT_RETRY_DELAY_SECONDS = 60"
definition MAX_EVENT_RETRY_DELAY_SECONDS :: int where "MAX_EVENT_RETRY_DELAY_SECONDS = 60 * 60"
definition MAX_EVENT_RETRIES :: int where "MAX_EVENT_RETRIES = 10"

definition validate_event_retry_policy :: "int \<Rightarrow> int \<Rightarrow> unit res" where
  "validate_event_retry_policy max_retries delay =
     rbind (raise_if (max_retries < 0 \<or> max_retries > MAX_EVENT_RETRIES)
              (ValueError ''event max_retries must be between 0 and 10'')) (\<lambda>_.
     raise_if (delay < 1 \<or> delay > MAX_EVENT_RETRY_DELAY_SECONDS)
       (ValueError ''event retry_delay_seconds must be between 1 and 3600 seconds''))"

definition event_delivery_from_row :: "env \<Rightarrow> delivery_row \<Rightarrow> delivery_row" where
  "event_delivery_from_row E r = r\<lparr>ev_client := normalize_client_id (ev_client r),
     ev_payload := redact_value E (ev_payload r), ev_error := redact E (ev_error r),
     ev_playbook_ids := redact_value E (ev_playbook_ids r),
     ev_playbook_run_ids := redact_value E (ev_playbook_run_ids r),
     ev_playbook_attempts := redact_value E (ev_playbook_attempts r)\<rparr>"

definition find_delivery :: "store \<Rightarrow> int \<Rightarrow> delivery_row option" where
  "find_delivery s i = find (\<lambda>r. ev_id r = i) (deliveries s)"

definition get_event_delivery :: "env \<Rightarrow> int \<Rightarrow> scope_arg \<Rightarrow> store \<Rightarrow> delivery_row option res" where
  "get_event_delivery E i scope s =
     rbind (client_scope_predicate scope) (\<lambda>p.
     Inr (map_option (event_delivery_from_row E) (find (\<lambda>r. ev_id r = i \<and> p (ev_client r)) (deliveries s))))"

definition create_event_delivery ::
  "env \<Rightarrow> time \<Rightarrow> string \<Rightarrow> string \<Rightarrow> string \<Rightarrow> string \<Rightarrow> pydict \<Rightarrow> string option \<Rightarrow> int \<Rightarrow> int \<Rightarrow> store \<Rightarrow>
   ((delivery_row \<times> bool) \<times> store) res" where
  "create_event_delivery E now key event_type entity_type entity_id payload client max_retries delay s =
     rbind (validate_event_retry_policy max_retries delay) (\<lambda>_.
     let c = normalize_client_id client; pj = redact_value E (PDict payload) in
     rbind (if lower (strip entity_type) = ''ticket'' then require_ticket_not_quarantined s entity_id else Inr ()) (\<lambda>_.
     let created = \<not> list_ex (\<lambda>r. ev_key r = key) (deliveries s); i = deliveries_seq s + 1;
         s1 = (if created then s\<lparr>deliveries_seq := i, deliveries := deliveries s @
                 [\<lparr>ev_id = i, ev_key = key, ev_type = event_type, ev_entity_type = entity_type, ev_entity = entity_id,
                   ev_payload = pj, ev_status = ''received'', ev_agent_count = 0, ev_agent_ids = PList [],
                   ev_run_ids = PList [], ev_playbook_count = 0, ev_playbook_ids = PList [],
                   ev_playbook_run_ids = PList [], ev_playbook_attempts = PDict [], ev_error = [],
                   ev_received = now, ev_processed = None, ev_client = c, ev_attempts = PDict [],
                   ev_retry_count = 0, ev_max_retries = max_retries, ev_retry_delay = delay,
                   ev_next_retry = None\<rparr>]\<rparr> else s) in
     case find (\<lambda>r. ev_key r = key) (deliveries s1) of
       None \<Rightarrow> Inl (RuntimeError ''event delivery was not persisted'')
     | Some row \<Rightarrow>
         let detail = event_type @ '' received for '' @ entity_id;
             s2 = (if created then add_history_row E now ''event.received'' (show_int (ev_id row)) ''received'' detail pj c
                     (add_audit_row now ''event.received'' (show_int (ev_id row)) detail c None s1) else s1) in
         Inr ((event_delivery_from_row E row, created), s2)))"

record delivery_outcome =
  do_status :: string
  do_agent_count :: int
  do_agent_ids :: pyval
  do_run_ids :: pyval
  do_playbook_count :: int
  do_playbook_ids :: "pyval option"
  do_playbook_run_ids :: "pyval option"
  do_playbook_attempts :: "pyval option"
  do_error :: string
  do_attempts :: "pyval option"
  do_retry_count :: "int option"
  do_next_retry :: "time option option"

definition coalesce :: "'a option \<Rightarrow> 'a \<Rightarrow> 'a" where
  "coalesce x y = (case x of None \<Rightarrow> y | Some v \<Rightarrow> v)"

definition apply_outcome :: "env \<Rightarrow> time \<Rightarrow> delivery_outcome \<Rightarrow> delivery_row \<Rightarrow> delivery_row" where
  "apply_outcome E now d r = r\<lparr>ev_status := do_status d, ev_agent_count := do_agent_count d,
     ev_agent_ids := redact_value E (do_agent_ids d), ev_run_ids := redact_value E (do_run_ids d),
     ev_error := redact E (do_error d), ev_processed := Some now, ev_playbook_count := do_playbook_count d,
     ev_playbook_ids := coalesce (map_option (redact_value E) (do_playbook_ids d)) (ev_playbook_ids r),
     ev_playbook_run_ids := coalesce (map_option (redact_value E) (do_playbook_run_ids d)) (ev_playbook_run_ids r),
     ev_playbook_attempts := coalesce (map_option (redact_value E) (do_playbook_attempts d)) (ev_playbook_attempts r),
     ev_attempts := coalesce (map_option (redact_value E) (do_attempts d)) (ev_attempts r),
     ev_retry_count := coalesce (do_retry_count d) (ev_retry_count r),
     ev_next_retry := coalesce (do_next_retry d) (ev_next_retry r)\<rparr>"

definition update_event_delivery ::
  "env \<Rightarrow> time \<Rightarrow> int \<Rightarrow> delivery_outcome \<Rightarrow> store \<Rightarrow> (delivery_row \<times> store) res" where
  "update_event_delivery E now i d s =
     rbind (raise_if (row_count (\<lambda>r. ev_id r = i) (deliveries s) \<noteq> 1) (KeyError (show_int i))) (\<lambda>_.
     let t = s\<lparr>deliveries := update_where (\<lambda>r. ev_id r = i) (apply_outcome E now d) (deliveries s)\<rparr> in
     case find_delivery t i of
       None \<Rightarrow> Inl (RuntimeError ''event delivery was not persisted'')
     | Some r \<Rightarrow> Inr (event_delivery_from_row E r, t))"

definition claim_event_delivery_retry :: "env \<Rightarrow> int \<Rightarrow> scope_arg \<Rightarrow> store \<Rightarrow> (delivery_row \<times> store) res" where
  "claim_event_delivery_retry E i scope s =
     rbind (client_scope_predicate scope) (\<lambda>p.
     let hit = (\<lambda>r. ev_id r = i \<and> p (ev_client r) \<and> ev_status r = ''failed'' \<and> ev_retry_count r < ev_max_retries r);
         t = s\<lparr>deliveries := update_where hit (\<lambda>r. r\<lparr>ev_status := ''retrying'', ev_retry_count := ev_retry_count r + 1,
                 ev_error := [], ev_next_retry := None\<rparr>) (deliveries s)\<rparr> in
     rbind (if row_count hit (deliveries s) \<noteq> 1
            then (case find (\<lambda>r. ev_id r = i \<and> p (ev_client r)) (deliveries t) of
                    None \<Rightarrow> Inl (KeyError (show_int i))
                  | Some r \<Rightarrow>
                      if ev_status r \<noteq> ''failed'' then Inl (ValueError ''only failed event deliveries can be retried'')
                      else Inl (ValueError ''event delivery retry limit reached''))
            else Inr ()) (\<lambda>_.
     case find (\<lambda>r. ev_id r = i \<and> p (ev_client r)) (deliveries t) of
       None \<Rightarrow> Inl (RuntimeError ''event delivery was not persisted'')
     | Some r \<Rightarrow> Inr (event_delivery_from_row E r, t)))"

definition get_event_delivery_payload :: "int \<Rightarrow> scope_arg \<Rightarrow> store \<Rightarrow> pydict res" where
  "get_event_delivery_payload i scope s =
     rbind (client_scope_predicate scope) (\<lambda>p.
     case find (\<lambda>r. ev_id r = i \<and> p (ev_client r)) (deliveries s) of
       None \<Rightarrow> Inl (KeyError (show_int i))
     | Some r \<Rightarrow> (case ev_payload r of PDict d \<Rightarrow> Inr d
                  | _ \<Rightarrow> Inl (ValueError ''event delivery payload must be an object'')))"

definition list_event_deliveries :: "env \<Rightarrow> scope_arg \<Rightarrow> store \<Rightarrow> delivery_row list res" where
  "list_event_deliveries E scope s =
     rbind (client_scope_predicate scope) (\<lambda>p.
     Inr (map (event_delivery_from_row E) (rev (sort_key ev_id (filter (\<lambda>r. p (ev_client r)) (deliveries s))))))"

definition due_at :: "time \<Rightarrow> delivery_row \<Rightarrow> bool" where
  "due_at now r = (ev_status r = ''failed'' \<and> ev_retry_count r < ev_max_retries r \<and>
     (case ev_next_retry r of None \<Rightarrow> False | Some x \<Rightarrow> x \<le> now))"

definition list_due_event_delivery_ids :: "time \<Rightarrow> int \<Rightarrow> scope_arg \<Rightarrow> store \<Rightarrow> int list res" where
  "list_due_event_delivery_ids now limit scope s =
     rbind (raise_if (limit < 1 \<or> limit > 100)
              (ValueError ''event delivery retry limit must be between 1 and 100'')) (\<lambda>_.
     rbind (client_scope_predicate scope) (\<lambda>p.
     Inr (map ev_id (take (nat limit)
       (sort_key (\<lambda>r. (case ev_next_retry r of Some x \<Rightarrow> x | None \<Rightarrow> 0, ev_id r))
          (filter (\<lambda>r. due_at now r \<and> p (ev_client r)) (deliveries s)))))))"

fun json_string_list :: "pyval \<Rightarrow> string list" where
  "json_string_list (PList xs) = concat (map (\<lambda>v. case v of PStr t \<Rightarrow> [t] | _ \<Rightarrow> []) xs)"
| "json_string_list _ = []"

definition has_event_agent_run :: "string \<Rightarrow> string \<Rightarrow> string \<Rightarrow> scope_arg \<Rightarrow> store \<Rightarrow> bool res" where
  "has_event_agent_run agent event_type entity scope s =
     rbind (client_scope_predicate scope) (\<lambda>p.
     Inr (list_ex (\<lambda>r. ev_type r = event_type \<and> ev_entity r = entity \<and> ev_status r \<in> {''completed'', ''failed''} \<and>
            p (ev_client r) \<and> agent \<in> set (json_string_list (ev_agent_ids r))) (deliveries s)))"

definition has_completed_event_agent_run :: "string \<Rightarrow> string \<Rightarrow> string \<Rightarrow> scope_arg \<Rightarrow> store \<Rightarrow> bool res" where
  "has_completed_event_agent_run agent event_type entity scope s =
     rbind (client_scope_predicate scope) (\<lambda>p.
     Inr (list_ex (\<lambda>r. ev_type r = event_type \<and> ev_entity r = entity \<and> ev_status r = ''completed'' \<and>
            p (ev_client r) \<and> agent \<in> set (json_string_list (ev_agent_ids r))) (deliveries s)))"

section \<open>The operations as one interface\<close>

text \<open>The dispatcher never passes \<open>retry_count\<close> to an update, so the interface leaves it out.\<close>

datatype delivery_op =
    CreateDelivery string string string string pydict "string option" int int
  | UpdateDelivery int delivery_outcome
  | ClaimRetry int scope_arg

fun delivery_step :: "env \<Rightarrow> time \<times> delivery_op \<Rightarrow> store \<Rightarrow> (unit \<times> store) res" where
  "delivery_step E (now, CreateDelivery k ty et e p c m d) s = forget (create_event_delivery E now k ty et e p c m d s)"
| "delivery_step E (now, UpdateDelivery i d) s = forget (update_event_delivery E now i (d\<lparr>do_retry_count := None\<rparr>) s)"
| "delivery_step E (now, ClaimRetry i sc) s = forget (claim_event_delivery_retry E i sc s)"

section \<open>The delivery invariant\<close>

definition delivery_row_ok :: "delivery_row \<Rightarrow> bool" where
  "delivery_row_ok r \<longleftrightarrow> 0 \<le> ev_retry_count r \<and> ev_retry_count r \<le> ev_max_retries r \<and>
     ev_max_retries r \<le> MAX_EVENT_RETRIES \<and> 1 \<le> ev_retry_delay r \<and> ev_retry_delay r \<le> MAX_EVENT_RETRY_DELAY_SECONDS"

definition deliveries_inv :: "store \<Rightarrow> bool" where
  "deliveries_inv s \<longleftrightarrow> distinct (map ev_id (deliveries s)) \<and> distinct (map ev_key (deliveries s)) \<and>
     (\<forall>r\<in>set (deliveries s). ev_id r \<le> deliveries_seq s \<and> delivery_row_ok r)"

lemma apply_outcome_keeps [simp]:
  "ev_id (apply_outcome E now d r) = ev_id r" "ev_key (apply_outcome E now d r) = ev_key r"
  "ev_max_retries (apply_outcome E now d r) = ev_max_retries r"
  "ev_retry_delay (apply_outcome E now d r) = ev_retry_delay r"
  "ev_client (apply_outcome E now d r) = ev_client r"
  "ev_status (apply_outcome E now d r) = do_status d"
  "ev_retry_count (apply_outcome E now d r) = coalesce (do_retry_count d) (ev_retry_count r)"
  by (simp_all add: apply_outcome_def)

lemma deliveries_frame [simp]:
  "deliveries (add_audit_row n e u d c a s) = deliveries s"
  "deliveries (add_history_row E n e u st m p c s) = deliveries s"
  "deliveries_seq (add_audit_row n e u d c a s) = deliveries_seq s"
  "deliveries_seq (add_history_row E n e u st m p c s) = deliveries_seq s"
  by (simp_all add: add_audit_row_def add_history_row_def)

lemma policy_ok: "validate_event_retry_policy m d = Inr u \<Longrightarrow>
   0 \<le> m \<and> m \<le> MAX_EVENT_RETRIES \<and> 1 \<le> d \<and> d \<le> MAX_EVENT_RETRY_DELAY_SECONDS"
  by (auto simp: validate_event_retry_policy_def res_simps)

lemma create_delivery_effect:
  assumes "create_event_delivery E now k ty et e p c m d s = Inr ((v, created), t)"
  shows "created = (k \<notin> ev_key ` set (deliveries s))"
    "\<not> created \<Longrightarrow> t = s"
    "created \<Longrightarrow> \<exists>row. deliveries t = deliveries s @ [row] \<and> deliveries_seq t = deliveries_seq s + 1 \<and>
       ev_id row = deliveries_seq s + 1 \<and> ev_key row = k \<and> ev_retry_count row = 0 \<and> ev_max_retries row = m \<and>
       ev_retry_delay row = d \<and> ev_status row = ''received'' \<and> v = event_delivery_from_row E row"
    "validate_event_retry_policy m d = Inr ()"
    "\<exists>row. row \<in> set (deliveries t) \<and> ev_key row = k \<and> v = event_delivery_from_row E row"
proof -
  have new: "find (\<lambda>r. ev_key r = k) (xs @ [row]) = Some row" if "\<not> list_ex (\<lambda>r. ev_key r = k) xs" "ev_key row = k"
    for xs and row :: delivery_row using that by (induction xs) auto
  show "created = (k \<notin> ev_key ` set (deliveries s))" "\<not> created \<Longrightarrow> t = s" "validate_event_retry_policy m d = Inr ()"
    using assms by (auto simp: create_event_delivery_def res_simps Let_def case_option_Inr list_ex_key)
  show "created \<Longrightarrow> \<exists>row. deliveries t = deliveries s @ [row] \<and> deliveries_seq t = deliveries_seq s + 1 \<and>
       ev_id row = deliveries_seq s + 1 \<and> ev_key row = k \<and> ev_retry_count row = 0 \<and> ev_max_retries row = m \<and>
       ev_retry_delay row = d \<and> ev_status row = ''received'' \<and> v = event_delivery_from_row E row"
    using assms by (auto simp: create_event_delivery_def res_simps Let_def case_option_Inr new)
  show "\<exists>row. row \<in> set (deliveries t) \<and> ev_key row = k \<and> v = event_delivery_from_row E row"
    using assms by (auto simp: create_event_delivery_def res_simps Let_def case_option_Inr new dest!: find_SomeD)
qed

lemma update_delivery_effect:
  "update_event_delivery E now i d s = Inr (v, t) \<Longrightarrow>
   t = s\<lparr>deliveries := update_where (\<lambda>r. ev_id r = i) (apply_outcome E now d) (deliveries s)\<rparr>"
  by (auto simp: update_event_delivery_def res_simps Let_def case_option_Inr)

definition retried :: "delivery_row \<Rightarrow> delivery_row" where
  "retried r = r\<lparr>ev_status := ''retrying'', ev_retry_count := ev_retry_count r + 1, ev_error := [], ev_next_retry := None\<rparr>"

lemma claim_retry_effect:
  assumes "claim_event_delivery_retry E i sc s = Inr (v, t)"
  obtains p where "client_scope_predicate sc = Inr p"
    "t = s\<lparr>deliveries := update_where (\<lambda>r. ev_id r = i \<and> p (ev_client r) \<and> ev_status r = ''failed'' \<and>
        ev_retry_count r < ev_max_retries r) retried (deliveries s)\<rparr>"
    "row_count (\<lambda>r. ev_id r = i \<and> p (ev_client r) \<and> ev_status r = ''failed'' \<and> ev_retry_count r < ev_max_retries r)
       (deliveries s) = 1"
  using assms unfolding claim_event_delivery_retry_def Let_def rbind_Inr_iff retried_def [abs_def, symmetric]
  by (auto simp: case_option_Inr split: if_splits option.splits)

lemma map_retried_update [simp]:
  "map ev_id (update_where P retried rs) = map ev_id rs" "map ev_key (update_where P retried rs) = map ev_key rs"
  by (simp_all add: map_update_where retried_def)

lemma map_outcome_update [simp]:
  "map ev_id (update_where P (apply_outcome E n d) rs) = map ev_id rs"
  "map ev_key (update_where P (apply_outcome E n d) rs) = map ev_key rs"
  by (simp_all add: map_update_where)

lemma delivery_step_inv: "deliveries_inv s \<Longrightarrow> delivery_step E c s = Inr (u, t) \<Longrightarrow> deliveries_inv t"
proof (induction E c s rule: delivery_step.induct)
  case (1 E now k ty et e p c m d s)
  then obtain v created where st: "create_event_delivery E now k ty et e p c m d s = Inr ((v, created), t)"
    by (auto simp: forget_Inr)
  note eff = create_delivery_effect [OF st]
  show ?case
  proof (cases created)
    case True
    with eff obtain row where row: "deliveries t = deliveries s @ [row]" "deliveries_seq t = deliveries_seq s + 1"
      "ev_id row = deliveries_seq s + 1" "ev_key row = k" "ev_retry_count row = 0" "ev_max_retries row = m" "ev_retry_delay row = d"
      by blast
    have "ev_id row \<notin> ev_id ` set (deliveries s)" using 1(1) row(3) unfolding deliveries_inv_def
      by (metis imageE zle_add1_eq_le less_irrefl)
    moreover have "k \<notin> ev_key ` set (deliveries s)" using eff(1) True by simp
    moreover have "delivery_row_ok row" using policy_ok [OF eff(4)] row(5-7) by (simp add: delivery_row_ok_def)
    moreover have "\<forall>r\<in>set (deliveries s). ev_id r \<le> deliveries_seq s + 1" using 1(1) by (fastforce simp: deliveries_inv_def)
    ultimately show ?thesis using 1(1) row(1-4) by (simp add: deliveries_inv_def)
  qed (use eff(2) 1(1) in simp)
next
  case (2 E now i d s)
  then obtain v where st: "update_event_delivery E now i (d\<lparr>do_retry_count := None\<rparr>) s = Inr (v, t)"
    by (auto simp: forget_Inr)
  show ?case using 2(1) unfolding update_delivery_effect [OF st]
    by (auto simp: deliveries_inv_def delivery_row_ok_def coalesce_def)
next
  case (3 E now i sc s)
  then obtain v where st: "claim_event_delivery_retry E i sc s = Inr (v, t)" by (auto simp: forget_Inr)
  then show ?case
  proof (cases rule: claim_retry_effect)
    case (1 p)
    show ?thesis using 3(1) unfolding 1(2) by (auto simp: deliveries_inv_def delivery_row_ok_def retried_def)
  qed
qed

interpretation delivery_ops: guarded_ops "delivery_step E" deliveries_inv for E
  by unfold_locales (rule delivery_step_inv)

lemma delivery_step_appends: "delivery_step E c s = Inr (u, t) \<Longrightarrow> log_extends s t"
proof (induction E c s rule: delivery_step.induct)
  case (1 E now k ty et e p c m d s)
  then show ?case
    by (auto simp: forget_Inr create_event_delivery_def res_simps Let_def case_option_Inr audit_defs log_extends_def)
next
  case (2 E now i d s)
  then show ?case by (auto simp: forget_Inr log_extends_same dest!: update_delivery_effect)
next
  case (3 E now i sc s)
  then show ?case by (auto simp: forget_Inr log_extends_same elim!: claim_retry_effect)
qed

interpretation delivery_log: append_only_log "delivery_step E" for E
  by unfold_locales (rule delivery_step_appends)

section \<open>Retries\<close>

definition is_claim :: "int \<Rightarrow> delivery_op \<Rightarrow> bool" where
  "is_claim i op = (case op of ClaimRetry j sc \<Rightarrow> j = i | _ \<Rightarrow> False)"

lemma delivery_step_row:
  assumes "deliveries_inv s" "find_delivery s i = Some r" "delivery_step E (now, op) s = Inr (u, t)"
  shows "\<exists>r'. find_delivery t i = Some r' \<and> ev_key r' = ev_key r \<and> ev_max_retries r' = ev_max_retries r \<and>
    ev_retry_count r' = ev_retry_count r + (if is_claim i op then 1 else 0)"
proof (cases op)
  case (CreateDelivery k ty et e p c m d)
  then obtain v created where st: "create_event_delivery E now k ty et e p c m d s = Inr ((v, created), t)"
    using assms(3) by (auto simp: forget_Inr)
  show ?thesis using create_delivery_effect(2,3) [OF st] assms(2) CreateDelivery
    by (cases created) (auto simp: find_delivery_def is_claim_def find_append_Some)
next
  case (UpdateDelivery j d)
  then obtain v where st: "update_event_delivery E now j (d\<lparr>do_retry_count := None\<rparr>) s = Inr (v, t)"
    using assms(3) by (auto simp: forget_Inr)
  show ?thesis using assms(2) UpdateDelivery unfolding update_delivery_effect [OF st]
    by (simp add: find_delivery_def is_claim_def find_update_where coalesce_def)
next
  case (ClaimRetry j sc)
  then obtain v where st: "claim_event_delivery_retry E j sc s = Inr (v, t)" using assms(3) by (auto simp: forget_Inr)
  then show ?thesis
  proof (cases rule: claim_retry_effect)
    case (1 p)
    have r: "r \<in> set (deliveries s)" "ev_id r = i" using assms(2) by (auto simp: find_delivery_def dest: find_SomeD)
    have "j = i \<Longrightarrow> p (ev_client r) \<and> ev_status r = ''failed'' \<and> ev_retry_count r < ev_max_retries r"
      using row_count_1_unique [of ev_id j "\<lambda>r. p (ev_client r) \<and> ev_status r = ''failed'' \<and>
        ev_retry_count r < ev_max_retries r" "deliveries s" r] 1(3) assms(1) r by (simp add: deliveries_inv_def)
    then show ?thesis using assms(2) ClaimRetry r(2) unfolding 1(2)
      by (auto simp: find_delivery_def is_claim_def find_update_where retried_def)
  qed
qed

text \<open>The successful retry claims of delivery \<open>i\<close> in a run.\<close>

fun claims :: "env \<Rightarrow> int \<Rightarrow> (time \<times> delivery_op) list \<Rightarrow> store \<Rightarrow> int" where
  "claims E i [] s = 0"
| "claims E i (c # cs) s =
     (if is_claim i (snd c) \<and> \<not> isl (delivery_step E c s) then 1 else 0) +
     claims E i cs (apply_op (delivery_step E) c s)"

lemma run_row:
  assumes "deliveries_inv s" "find_delivery s i = Some r"
  shows "\<exists>r'. find_delivery (run_ops (delivery_step E) cs s) i = Some r' \<and> ev_key r' = ev_key r \<and>
    ev_max_retries r' = ev_max_retries r \<and> ev_retry_count r' = ev_retry_count r + claims E i cs s"
  using assms
proof (induction cs arbitrary: s r)
  case (Cons c cs)
  obtain now op where c: "c = (now, op)" by (cases c)
  let ?t = "apply_op (delivery_step E) c s"
  have inv: "deliveries_inv ?t" using Cons.prems(1) by (rule delivery_ops.apply_op_keeps)
  have "\<exists>r'. find_delivery ?t i = Some r' \<and> ev_key r' = ev_key r \<and> ev_max_retries r' = ev_max_retries r \<and>
      ev_retry_count r' = ev_retry_count r + (if is_claim i op \<and> \<not> isl (delivery_step E c s) then 1 else 0)"
  proof (cases "delivery_step E c s")
    case (Inl e)
    then show ?thesis using Cons.prems(2) by (simp add: apply_op_def)
  next
    case (Inr x)
    then obtain t where t: "delivery_step E (now, op) s = Inr ((), t)" "?t = t" by (cases x) (auto simp: c apply_op_def)
    show ?thesis using delivery_step_row [OF Cons.prems t(1)] t by (simp add: c)
  qed
  then obtain r' where r': "find_delivery ?t i = Some r'" "ev_key r' = ev_key r" "ev_max_retries r' = ev_max_retries r"
    "ev_retry_count r' = ev_retry_count r + (if is_claim i op \<and> \<not> isl (delivery_step E c s) then 1 else 0)" by blast
  show ?case using Cons.IH [OF inv r'(1)] r'(2-4) by (auto simp: c)
qed simp

section \<open>Properties\<close>

definition demo_outcome :: delivery_outcome where
  "demo_outcome = \<lparr>do_status = ''failed'', do_agent_count = 0, do_agent_ids = PList [], do_run_ids = PList [],
     do_playbook_count = 0, do_playbook_ids = None, do_playbook_run_ids = None, do_playbook_attempts = None,
     do_error = ''boom'', do_attempts = None, do_retry_count = None, do_next_retry = Some (Some 9)\<rparr>"

definition demo_deliveries :: store where
  "demo_deliveries = run_ops (delivery_step plain_env)
     [(1, CreateDelivery ''key'' ''ticket.created'' ''ticket'' ''t1'' [] (Some ''acme'') 2 60),
      (2, UpdateDelivery 1 demo_outcome)] empty_store"

lemma demo_deliveries_inv: "deliveries_inv demo_deliveries"
  unfolding demo_deliveries_def
  by (rule delivery_ops.run_ops_keeps) (simp add: deliveries_inv_def empty_store_def)

text \<open>
  C34. Retries are bounded and accounted for: after any sequence of operations a stored delivery's
  retry counter has grown by exactly the number of its successful retry claims, and so the claims
  never exceed the retries its policy had left, which is at most ten.
\<close>

theorem retries_are_bounded:
  assumes "deliveries_inv s" "find_delivery s i = Some r"
  shows "\<exists>r'. find_delivery (run_ops (delivery_step E) cs s) i = Some r' \<and>
    ev_retry_count r' = ev_retry_count r + claims E i cs s \<and>
    claims E i cs s \<le> ev_max_retries r - ev_retry_count r \<and> claims E i cs s \<le> 10"
proof -
  obtain r' where r': "find_delivery (run_ops (delivery_step E) cs s) i = Some r'" "ev_max_retries r' = ev_max_retries r"
    "ev_retry_count r' = ev_retry_count r + claims E i cs s" using run_row [OF assms] by blast
  have "deliveries_inv (run_ops (delivery_step E) cs s)" using assms(1) by (rule delivery_ops.run_ops_keeps)
  then have "ev_retry_count r' \<le> ev_max_retries r'" using r'(1)
    by (auto simp: deliveries_inv_def delivery_row_ok_def find_delivery_def dest: find_SomeD)
  moreover have "0 \<le> ev_retry_count r" "ev_max_retries r \<le> 10" using assms
    by (auto simp: deliveries_inv_def delivery_row_ok_def find_delivery_def MAX_EVENT_RETRIES_def dest: find_SomeD)
  ultimately show ?thesis using r' by (intro exI [of _ r']) simp
qed

theorem retries_are_bounded_witness:
  "claims plain_env 1 [(3, ClaimRetry 1 (Scope AllClients)), (4, ClaimRetry 1 (Scope AllClients))] demo_deliveries = 1 \<and>
   (\<exists>r'. find_delivery (run_ops (delivery_step plain_env)
      [(3, ClaimRetry 1 (Scope AllClients)), (4, ClaimRetry 1 (Scope AllClients))] demo_deliveries) 1 = Some r' \<and>
      ev_retry_count r' = 1)"
proof -
  have c: "claims plain_env 1 [(3, ClaimRetry 1 (Scope AllClients)), (4, ClaimRetry 1 (Scope AllClients))] demo_deliveries = 1"
    by code_simp
  have "(case find_delivery demo_deliveries 1 of None \<Rightarrow> False | Some r \<Rightarrow> ev_retry_count r = 0)" by code_simp
  then obtain r where r: "find_delivery demo_deliveries 1 = Some r" "ev_retry_count r = 0" by (auto split: option.splits)
  show ?thesis using retries_are_bounded [OF demo_deliveries_inv r(1), of plain_env
      "[(3, ClaimRetry 1 (Scope AllClients)), (4, ClaimRetry 1 (Scope AllClients))]"] r(2) c by auto
qed

text \<open>
  Deliveries are idempotent on their key: once a delivery was created for a key, then after any
  further operations a second creation with that key creates nothing, changes nothing and returns
  the first delivery.
\<close>

theorem delivery_is_idempotent:
  assumes "deliveries_inv s" "create_event_delivery E now k ty et e p c m d s = Inr ((v, True), t)"
    "create_event_delivery E now' k ty' et' e' p' c' m' d' (run_ops (delivery_step E) cs t) = Inr ((w, created), u)"
  shows "\<not> created \<and> u = run_ops (delivery_step E) cs t \<and> ev_id w = ev_id v"
proof -
  let ?r = "run_ops (delivery_step E) cs t"
  obtain row where row: "deliveries t = deliveries s @ [row]" "ev_key row = k" "v = event_delivery_from_row E row"
    using create_delivery_effect(3) [OF assms(2)] by auto
  have inv: "deliveries_inv t"
    using delivery_step_inv [OF assms(1), of E "(now, CreateDelivery k ty et e p c m d)"] assms(2) by (simp add: forget_def)
  have "row \<in> set (deliveries t)" using row(1) by simp
  then have "find_delivery t (ev_id row) = Some row"
    using find_unique_key inv by (auto simp: find_delivery_def deliveries_inv_def)
  then obtain r' where r': "find_delivery ?r (ev_id row) = Some r'" "ev_key r' = k"
    using run_row [OF inv, of "ev_id row" row E cs] row(2) by blast
  then have in': "r' \<in> set (deliveries ?r)" "ev_id r' = ev_id row" by (auto simp: find_delivery_def dest: find_SomeD)
  then have nc: "\<not> created" using create_delivery_effect(1) [OF assms(3)] r'(2) by blast
  then have u: "u = ?r" using create_delivery_effect(2) [OF assms(3)] by simp
  obtain x where x: "x \<in> set (deliveries u)" "ev_key x = k" "w = event_delivery_from_row E x"
    using create_delivery_effect(5) [OF assms(3)] by blast
  have "deliveries_inv ?r" using inv by (rule delivery_ops.run_ops_keeps)
  then have "x = r'" using x(1,2) in'(1) r'(2) u by (auto simp: deliveries_inv_def distinct_map inj_on_def)
  then show ?thesis using nc u x(3) row(3) in'(2) by (simp add: event_delivery_from_row_def)
qed

theorem delivery_is_idempotent_witness:
  "\<exists>v t w. create_event_delivery plain_env 5 ''k2'' ''ticket.created'' ''ticket'' ''t1'' [] None 3 60 demo_deliveries = Inr ((v, True), t) \<and>
    create_event_delivery plain_env 6 ''k2'' ''ticket.updated'' ''ticket'' ''t9'' [] None 3 60 t = Inr ((w, False), t) \<and> ev_id w = ev_id v"
proof -
  let ?c = "create_event_delivery plain_env 5 ''k2'' ''ticket.created'' ''ticket'' ''t1'' [] None 3 60 demo_deliveries"
  have ev: "(case ?c of Inl _ \<Rightarrow> False | Inr ((v, b), t) \<Rightarrow> b \<and>
      \<not> isl (create_event_delivery plain_env 6 ''k2'' ''ticket.updated'' ''ticket'' ''t9'' [] None 3 60 t))" by code_simp
  then obtain v t where c: "?c = Inr ((v, True), t)" by (cases ?c) auto
  with ev obtain w b u where d: "create_event_delivery plain_env 6 ''k2'' ''ticket.updated'' ''ticket'' ''t9'' [] None 3 60 t = Inr ((w, b), u)"
    by (cases "create_event_delivery plain_env 6 ''k2'' ''ticket.updated'' ''ticket'' ''t9'' [] None 3 60 t") auto
  show ?thesis using delivery_is_idempotent [OF demo_deliveries_inv c, of 6 "''ticket.updated''" "''ticket''" "''t9''" "[]" None 3 60 "[]" w b u] c d
    by auto
qed

end
