(* ===== verification/Event_Dispatch.thy ===== *)
theory Event_Dispatch
  imports Deliveries
begin

text \<open>
  The event dispatcher (\<open>event_dispatch.py\<close>). \<open>AgentService.run\<close> and \<open>run_msp_playbook\<close> are the
  functions \<open>rt_agent\<close> and \<open>rt_playbook\<close> of a runtime record: each returns a run identifier and a
  status or the exception it raised, and the store it leaves. A set the code iterates in sorted
  order or only tests is a list of its elements. A method that raises after it has already written
  returns the store beside its error. The log lines are not modelled.
\<close>

record runtime =
  rt_agent :: "agent_def \<Rightarrow> string \<Rightarrow> string \<Rightarrow> pydict \<Rightarrow> store \<Rightarrow> (int \<times> string) res \<times> store"
  rt_playbook :: "subscription_row \<Rightarrow> string \<Rightarrow> string \<Rightarrow> string \<Rightarrow> string \<Rightarrow> pydict \<Rightarrow> store \<Rightarrow> (string \<times> string) res \<times> store"

record dispatch_result =
  dr_delivery :: delivery_row
  dr_duplicate :: bool
  dr_agents :: "string list"
  dr_runs :: "int list"
  dr_playbooks :: "string list"
  dr_playbook_runs :: "string list"
  dr_errors :: "string list"

definition SUPPORTED_EVENT_TYPES :: "string list" where
  "SUPPORTED_EVENT_TYPES = [''ticket.created'', ''ticket.updated'', ''ticket.unassigned'', ''ticket.priority_changed'',
     ''ticket.status_changed'', ''ticket.closed'', ''time_entry.added'', ''workflow.completed'']"

definition EVENT_RETRY_BATCH_SIZE :: int where "EVENT_RETRY_BATCH_SIZE = 10"

definition matches_filters :: "pydict \<Rightarrow> pydict \<Rightarrow> bool" where
  "matches_filters filters ctx = list_all (\<lambda>(k, expected). py_eq (dget_or ctx k PNone) expected) filters"

fun int_list :: "pyval \<Rightarrow> int list" where
  "int_list (PList xs) = concat (map (\<lambda>v. case v of PInt i \<Rightarrow> [i] | _ \<Rightarrow> []) xs)"
| "int_list _ = []"

fun attempts_from_json :: "pyval \<Rightarrow> (string \<times> pydict) list" where
  "attempts_from_json (PDict d) = concat (map (\<lambda>(k, v). case v of PDict a \<Rightarrow> [(k, a)] | _ \<Rightarrow> []) d)"
| "attempts_from_json _ = []"

definition attempts_json :: "(string \<times> pydict) list \<Rightarrow> pyval" where
  "attempts_json as = PDict (map (\<lambda>(k, a). (k, PDict a)) as)"

definition next_retry_at :: "time \<Rightarrow> int \<Rightarrow> int \<Rightarrow> time res" where
  "next_retry_at now retry_count delay_seconds =
     rbind (raise_if (delay_seconds < 1 \<or> delay_seconds > MAX_EVENT_RETRY_DELAY_SECONDS)
              (ValueError ''event retry_delay_seconds must be between 1 and 3600 seconds'')) (\<lambda>_.
     Inr (now + min (delay_seconds * 2 ^ nat (max retry_count 0)) MAX_EVENT_RETRY_DELAY_SECONDS * 1000000))"

definition attempt :: "string \<Rightarrow> string \<Rightarrow> pyval list \<Rightarrow> pydict" where
  "attempt status error runs = [(''status'', PStr status), (''error'', PStr error), (''run_ids'', PList runs)]"

definition attempt_status_in :: "string list \<Rightarrow> pydict option \<Rightarrow> bool" where
  "attempt_status_in sts a = (case a of None \<Rightarrow> False
     | Some d \<Rightarrow> (case dget d ''status'' of Some (PStr t) \<Rightarrow> t \<in> set sts | _ \<Rightarrow> False))"

section \<open>Stored definitions\<close>

definition list_agent_definitions :: "store \<Rightarrow> agent_def list" where
  "list_agent_definitions s = sort_key (\<lambda>d. (ad_name d, ad_id d)) (agent_defs s)"

text \<open>\<open>_msp_playbook_subscription_from_row\<close>: what a reader sees of a stored subscription.\<close>

definition subscription_from_row :: "env \<Rightarrow> subscription_row \<Rightarrow> subscription_row" where
  "subscription_from_row E x = x\<lparr>su_client := (case normalize_client_id (Some (su_client x)) of None \<Rightarrow> [] | Some c \<Rightarrow> c),
     su_mapping := as_dict (redact_value E (PDict (su_mapping x)))\<rparr>"

definition list_msp_playbook_subscriptions :: "env \<Rightarrow> string \<Rightarrow> string \<Rightarrow> store \<Rightarrow> subscription_row list" where
  "list_msp_playbook_subscriptions E client event_type s =
     map (subscription_from_row E) (sort_key (\<lambda>x. (su_client x, su_playbook x, su_id x))
       (filter (\<lambda>x. su_client x = client \<and> su_event x = event_type) (subscriptions s)))"

definition msp_playbook_subscription_input :: "subscription_row \<Rightarrow> pydict \<Rightarrow> pydict" where
  "msp_playbook_subscription_input sub ctx =
     concat (map (\<lambda>(target, source). case source of
        PStr k \<Rightarrow> (case dget ctx k of Some v \<Rightarrow> [(target, v)] | None \<Rightarrow> []) | _ \<Rightarrow> []) (su_mapping sub))"

text \<open>\<open>get_ticket\<close> as the dispatcher reads it: the client of the ticket, if it is in scope.\<close>

definition get_ticket_client :: "string \<Rightarrow> scope_arg \<Rightarrow> store \<Rightarrow> string option option res" where
  "get_ticket_client tid scope s =
     rbind (client_scope_predicate scope) (\<lambda>p.
     Inr (map_option tk_client (find (\<lambda>t. tk_id t = tid \<and> p (tk_client t)) (tickets s))))"

section \<open>The dependency loop\<close>

record dispatch_env =
  de_env :: env
  de_runtime :: runtime
  de_event :: string
  de_entity :: string
  de_client :: "string option"
  de_actor :: string
  de_retry :: bool
  de_context :: pydict

record dispatch_state =
  ds_attempts :: "(string \<times> pydict) list"
  ds_completed :: "string list"
  ds_runs :: "int list"
  ds_errors :: "string list"
  ds_store :: store

text \<open>
  The client of a delivery is normalised, so the queries below do not raise; \<open>holds\<close> reads their
  answer.
\<close>

definition holds :: "bool res \<Rightarrow> bool" where
  "holds r = (case r of Inl _ \<Rightarrow> False | Inr b \<Rightarrow> b)"

definition ran_before :: "dispatch_env \<Rightarrow> string \<Rightarrow> store \<Rightarrow> bool" where
  "ran_before D a s = holds (has_event_agent_run a (de_event D) (de_entity D) (client_scope_of (de_client D)) s)"

definition completed_before :: "dispatch_env \<Rightarrow> string \<Rightarrow> store \<Rightarrow> bool" where
  "completed_before D a s = holds (has_completed_event_agent_run a (de_event D) (de_entity D) (client_scope_of (de_client D)) s)"

definition unmet_dependencies :: "dispatch_env \<Rightarrow> agent_def \<Rightarrow> dispatch_state \<Rightarrow> string list" where
  "unmet_dependencies D d st =
     filter (\<lambda>x. x \<notin> set (ds_completed st) \<and> \<not> completed_before D x (ds_store st)) (ad_depends d)"

definition run_one :: "dispatch_env \<Rightarrow> agent_def \<Rightarrow> dispatch_state \<Rightarrow> dispatch_state" where
  "run_one D d st =
     (let scoped = (if ad_client d = None \<and> de_client D \<noteq> None then d\<lparr>ad_client := de_client D\<rparr> else d) in
      case rt_agent (de_runtime D) scoped (de_entity D) (de_actor D) (de_context D) (ds_store st) of
        (Inr (run_id, status), s) \<Rightarrow>
          st\<lparr>ds_runs := ds_runs st @ [run_id],
             ds_attempts := dset (ds_attempts st) (ad_id d)
               (attempt (if status = ''completed'' then ''completed'' else ''pending'') [] [PInt run_id]),
             ds_completed := (if status = ''completed'' then ad_id d # ds_completed st else ds_completed st),
             ds_store := s\<rparr>
      | (Inl e, s) \<Rightarrow>
          let msg = redact (de_env D) (ad_id d @ '': '' @ show_err (de_env D) e) in
          st\<lparr>ds_attempts := dset (ds_attempts st) (ad_id d) (attempt ''failed'' msg []),
             ds_errors := ds_errors st @ [msg], ds_store := s\<rparr>)"

text \<open>One pass over the pending agents: those still waiting, whether any made progress, the state.\<close>

fun dispatch_pass ::
  "dispatch_env \<Rightarrow> agent_def list \<Rightarrow> dispatch_state \<Rightarrow> (agent_def \<times> string list) list \<times> bool \<times> dispatch_state" where
  "dispatch_pass D [] st = ([], False, st)"
| "dispatch_pass D (d # ds) st =
     (if \<not> de_retry D \<and> ad_run_once d \<and> ran_before D (ad_id d) (ds_store st)
      then
        let st1 = (if completed_before D (ad_id d) (ds_store st)
                   then st\<lparr>ds_completed := ad_id d # ds_completed st\<rparr> else st) in
        (case dispatch_pass D ds st1 of (next, _, st2) \<Rightarrow> (next, True, st2))
      else
        let unmet = unmet_dependencies D d st in
        if unmet \<noteq> [] then (case dispatch_pass D ds st of (next, p, st2) \<Rightarrow> ((d, unmet) # next, p, st2))
        else (case dispatch_pass D ds (run_one D d st) of (next, _, st2) \<Rightarrow> (next, True, st2)))"

fun block_all :: "dispatch_env \<Rightarrow> (agent_def \<times> string list) list \<Rightarrow> dispatch_state \<Rightarrow> dispatch_state" where
  "block_all D [] st = st"
| "block_all D ((d, unmet) # rest) st =
     (let msg = redact (de_env D) (ad_id d @ '': dependency not completed: '' @ join '', '' unmet) in
      block_all D rest (st\<lparr>ds_attempts := dset (ds_attempts st) (ad_id d) (attempt ''blocked'' msg []),
                          ds_errors := ds_errors st @ [msg]\<rparr>))"

text \<open>The three ways a pass treats its first agent: already ran, still waiting, run now.\<close>

definition skips :: "dispatch_env \<Rightarrow> agent_def \<Rightarrow> dispatch_state \<Rightarrow> bool" where
  "skips D d st \<longleftrightarrow> \<not> de_retry D \<and> ad_run_once d \<and> ran_before D (ad_id d) (ds_store st)"

definition skip_one :: "dispatch_env \<Rightarrow> agent_def \<Rightarrow> dispatch_state \<Rightarrow> dispatch_state" where
  "skip_one D d st = (if completed_before D (ad_id d) (ds_store st)
     then st\<lparr>ds_completed := ad_id d # ds_completed st\<rparr> else st)"

lemma dispatch_pass_cases:
  assumes "dispatch_pass D (d # ds) st = (nxt, p, st')"
  obtains (skip) q where "skips D d st" "dispatch_pass D ds (skip_one D d st) = (nxt, q, st')" "p"
  | (wait) nxt' where "\<not> skips D d st" "unmet_dependencies D d st \<noteq> []" "dispatch_pass D ds st = (nxt', p, st')"
      "nxt = (d, unmet_dependencies D d st) # nxt'"
  | (run) q where "\<not> skips D d st" "unmet_dependencies D d st = []" "dispatch_pass D ds (run_one D d st) = (nxt, q, st')" "p"
proof (cases "skips D d st")
  case True
  obtain n q s2 where "dispatch_pass D ds (skip_one D d st) = (n, q, s2)" by (cases "dispatch_pass D ds (skip_one D d st)")
  then show ?thesis using assms True skip by (simp add: skips_def skip_one_def Let_def)
next
  case False
  show ?thesis
  proof (cases "unmet_dependencies D d st = []")
    case True
    obtain n q s2 where "dispatch_pass D ds (run_one D d st) = (n, q, s2)" by (cases "dispatch_pass D ds (run_one D d st)")
    then show ?thesis using assms False True run by (simp add: skips_def Let_def split: if_splits)
  next
    case no: False
    obtain n q s2 where "dispatch_pass D ds st = (n, q, s2)" by (cases "dispatch_pass D ds st")
    then show ?thesis using assms False no wait by (simp add: skips_def Let_def split: if_splits)
  qed
qed

lemma dispatch_pass_length:
  "dispatch_pass D ds st = (nxt, p, st') \<Longrightarrow> length nxt \<le> length ds \<and> (p \<longrightarrow> length nxt < length ds)"
proof (induction ds arbitrary: st nxt p st')
  case (Cons d ds)
  from Cons.prems show ?case
  proof (cases rule: dispatch_pass_cases)
    case (skip q)
    then show ?thesis using Cons.IH [OF skip(2)] by simp
  next
    case (wait nxt')
    then show ?thesis using Cons.IH [OF wait(3)] by simp
  next
    case (run q)
    then show ?thesis using Cons.IH [OF run(3)] by simp
  qed
qed simp

text \<open>\<open>while pending\<close>: a pass that makes progress leaves fewer agents, one that makes none is the last.\<close>

function dispatch_loop :: "dispatch_env \<Rightarrow> agent_def list \<Rightarrow> dispatch_state \<Rightarrow> dispatch_state" where
  "dispatch_loop D pending st =
     (if pending = [] then st
      else (case dispatch_pass D pending st of (next, progressed, st') \<Rightarrow>
              if \<not> progressed then block_all D next st' else dispatch_loop D (map fst next) st'))"
  by pat_completeness auto
termination
proof (relation "measure (\<lambda>(D, pending, st). length pending)", goal_cases)
  case (2 D pending st nxt y progressed st')
  then have "dispatch_pass D pending st = (nxt, progressed, st')" "progressed" by simp_all
  then show ?case using dispatch_pass_length [of D pending st nxt progressed st'] by simp
qed simp

declare dispatch_loop.simps [simp del]

section \<open>Playbook subscriptions\<close>

record playbook_state =
  pb_attempts :: "(string \<times> pydict) list"
  pb_matched :: "string list"
  pb_runs :: "string list"
  pb_errors :: "string list"
  pb_store :: store

definition run_subscription :: "dispatch_env \<Rightarrow> string \<Rightarrow> subscription_row \<Rightarrow> playbook_state \<Rightarrow> playbook_state" where
  "run_subscription D client sub st =
     (if \<not> su_enabled sub then st
      else if de_retry D \<and> \<not> attempt_status_in [''failed'', ''blocked''] (dget (pb_attempts st) (su_id sub)) then st
      else
        let st1 = (if su_id sub \<in> set (pb_matched st) then st else st\<lparr>pb_matched := pb_matched st @ [su_id sub]\<rparr>) in
        case rt_playbook (de_runtime D) sub (de_entity D) client (de_actor D) (''event:'' @ de_event D)
               (msp_playbook_subscription_input sub (de_context D)) (pb_store st1) of
          (Inr (run_id, status), s) \<Rightarrow>
            let done = (status = ''completed'') in
            st1\<lparr>pb_runs := pb_runs st1 @ [run_id],
                pb_attempts := dset (pb_attempts st1) (su_id sub)
                  (attempt (if done then ''completed'' else ''pending'')
                     (if done then [] else ''playbook requires review'') [PStr run_id]),
                pb_store := s\<rparr>
        | (Inl e, s) \<Rightarrow>
            let msg = redact (de_env D) (su_id sub @ '': '' @ show_err (de_env D) e) in
            st1\<lparr>pb_attempts := dset (pb_attempts st1) (su_id sub) (attempt ''failed'' msg []),
                pb_errors := pb_errors st1 @ [msg], pb_store := s\<rparr>)"

section \<open>Processing a delivery\<close>

definition event_context :: "delivery_row \<Rightarrow> pydict \<Rightarrow> string option \<Rightarrow> pydict" where
  "event_context dl payload client =
     (let base = dset (dset (dset (dset payload ''event_type'' (PStr (ev_type dl))) ''entity_type'' (PStr (ev_entity_type dl)))
                   ''entity_id'' (PStr (ev_entity dl))) ''ticket_id'' (PStr (ev_entity dl)) in
      case client of None \<Rightarrow> base | Some c \<Rightarrow> dset base ''client_id'' (PStr c))"

definition eligible :: "delivery_row \<Rightarrow> string option \<Rightarrow> pydict \<Rightarrow> agent_def \<Rightarrow> bool" where
  "eligible dl client ctx d \<longleftrightarrow> ad_enabled d \<and> ad_trigger d = ''event'' \<and> ad_entity_type d = ev_entity_type dl \<and>
     (ad_client d = None \<or> ad_client d = client) \<and> matches_filters (ad_filters d) ctx"

text \<open>\<open>_process_delivery\<close>, in its three parts: the agents, the playbooks, the recorded outcome.\<close>

definition agents_phase ::
  "env \<Rightarrow> runtime \<Rightarrow> delivery_row \<Rightarrow> pydict \<Rightarrow> string option \<Rightarrow> string \<Rightarrow> bool \<Rightarrow> store \<Rightarrow>
   string list \<times> dispatch_env \<times> dispatch_state" where
  "agents_phase E R dl payload client actor retry_only s =
     (let ctx = event_context dl payload client;
          matched0 = (if retry_only then json_string_list (ev_agent_ids dl) else []);
          runs0 = (if retry_only then int_list (ev_run_ids dl) else []);
          attempts0 = attempts_from_json (ev_attempts dl);
          attempts1 = (if retry_only \<and> attempts0 = []
                       then dmerge [] (map (\<lambda>a. (a, attempt ''failed'' [] [])) matched0) else attempts0);
          retryable = map fst (filter (\<lambda>(_, a). attempt_status_in [''failed'', ''blocked''] (Some a)) attempts1);
          eligibles = filter (eligible dl client ctx) (list_agent_definitions s);
          candidates = (if retry_only
                        then filter (\<lambda>d. attempt_status_in [''failed'', ''blocked''] (dget attempts1 (ad_id d))) eligibles
                        else eligibles);
          found = (if retry_only then map ad_id candidates else []);
          matched1 = (if retry_only then (if matched0 = [] then map ad_id candidates else matched0)
                      else map ad_id eligibles);
          gone = (if retry_only then sort (remdups (filter (\<lambda>a. a \<notin> set found) retryable)) else []);
          gone_error = (\<lambda>a. a @ '': agent is no longer eligible for retry'');
          attempts2 = foldl (\<lambda>as a. dset as a (attempt ''failed'' (gone_error a) [])) attempts1 gone;
          done0 = map fst (filter (\<lambda>(_, a). attempt_status_in [''completed''] (Some a)) attempts2);
          D = \<lparr>de_env = E, de_runtime = R, de_event = ev_type dl, de_entity = ev_entity dl, de_client = client,
               de_actor = actor, de_retry = retry_only, de_context = ctx\<rparr> in
      (matched1, D, dispatch_loop D candidates \<lparr>ds_attempts = attempts2, ds_completed = done0, ds_runs = runs0,
                 ds_errors = map gone_error gone, ds_store = s\<rparr>))"

definition playbooks_phase :: "dispatch_env \<Rightarrow> delivery_row \<Rightarrow> string option \<Rightarrow> bool \<Rightarrow> dispatch_state \<Rightarrow> playbook_state" where
  "playbooks_phase D dl client retry_only st =
     (let pst0 = \<lparr>pb_attempts = attempts_from_json (ev_playbook_attempts dl),
                  pb_matched = (if retry_only then json_string_list (ev_playbook_ids dl) else []),
                  pb_runs = (if retry_only then json_string_list (ev_playbook_run_ids dl) else []),
                  pb_errors = ds_errors st, pb_store = ds_store st\<rparr> in
      case client of None \<Rightarrow> pst0
      | Some c \<Rightarrow> fold (run_subscription D c) (list_msp_playbook_subscriptions (de_env D) c (ev_type dl) (ds_store st)) pst0)"

definition finish_delivery ::
  "env \<Rightarrow> time \<Rightarrow> delivery_row \<Rightarrow> string option \<Rightarrow> bool \<Rightarrow> string list \<Rightarrow> dispatch_state \<Rightarrow> playbook_state \<Rightarrow>
   dispatch_result res \<times> store" where
  "finish_delivery E now dl client retry_only matched st pst =
     (let status = (if pb_errors pst \<noteq> [] then ''failed'' else ''completed'');
          again = (status = ''failed'' \<and> ev_retry_count dl < ev_max_retries dl);
          next_at = (if again then rbind (next_retry_at now (ev_retry_count dl) (ev_retry_delay dl)) (\<lambda>x. Inr (Some x))
                     else Inr None) in
      case rbind next_at (\<lambda>nx. update_event_delivery E now (ev_id dl)
             \<lparr>do_status = status, do_agent_count = int (length matched), do_agent_ids = PList (map PStr matched),
              do_run_ids = PList (map PInt (ds_runs st)), do_playbook_count = int (length (pb_matched pst)),
              do_playbook_ids = Some (PList (map PStr (pb_matched pst))),
              do_playbook_run_ids = Some (PList (map PStr (pb_runs pst))),
              do_playbook_attempts = Some (attempts_json (pb_attempts pst)),
              do_error = join ''; '' (pb_errors pst), do_attempts = Some (attempts_json (ds_attempts st)),
              do_retry_count = None, do_next_retry = Some nx\<rparr> (pb_store pst)) of
        Inl e \<Rightarrow> (Inl e, pb_store pst)
      | Inr (dl2, s2) \<Rightarrow>
          (Inr \<lparr>dr_delivery = dl2, dr_duplicate = False, dr_agents = matched, dr_runs = ds_runs st,
                dr_playbooks = pb_matched pst, dr_playbook_runs = pb_runs pst, dr_errors = pb_errors pst\<rparr>,
           add_audit_event E now (if retry_only then ''event.retried'' else ''event.processed'') (show_int (ev_id dl2))
             (ev_type dl @ '' dispatched to '' @ show_nat (length matched) @ '' agent(s) with status '' @ status)
             client None s2))"

definition process_delivery ::
  "env \<Rightarrow> runtime \<Rightarrow> time \<Rightarrow> delivery_row \<Rightarrow> pydict \<Rightarrow> string option \<Rightarrow> string \<Rightarrow> bool \<Rightarrow> store \<Rightarrow>
   dispatch_result res \<times> store" where
  "process_delivery E R now dl payload client actor retry_only s =
     (case agents_phase E R dl payload client actor retry_only s of (matched, D, st) \<Rightarrow>
        finish_delivery E now dl client retry_only matched st (playbooks_phase D dl client retry_only st))"

definition validate_request :: "string \<Rightarrow> string \<Rightarrow> string \<Rightarrow> string \<Rightarrow> unit res" where
  "validate_request event_type entity_type entity_id key =
     rbind (raise_if (event_type \<notin> set SUPPORTED_EVENT_TYPES) (EventDispatchError ''unsupported event_type'')) (\<lambda>_.
     rbind (raise_if (entity_type \<noteq> ''ticket'') (EventDispatchError ''only ticket event entities are supported'')) (\<lambda>_.
     rbind (raise_if (strip entity_id = [] \<or> length entity_id > 200)
              (EventDispatchError ''entity_id must contain 1-200 characters'')) (\<lambda>_.
     raise_if (strip key = [] \<or> length key > 200)
       (EventDispatchError ''idempotency_key must contain 1-200 characters''))))"

definition result_from_delivery :: "delivery_row \<Rightarrow> bool \<Rightarrow> dispatch_result" where
  "result_from_delivery dl duplicate = \<lparr>dr_delivery = dl, dr_duplicate = duplicate,
     dr_agents = json_string_list (ev_agent_ids dl), dr_runs = int_list (ev_run_ids dl),
     dr_playbooks = json_string_list (ev_playbook_ids dl), dr_playbook_runs = json_string_list (ev_playbook_run_ids dl),
     dr_errors = (if ev_error dl = [] then [] else [ev_error dl])\<rparr>"

text \<open>The synthetic delivery of a skipped dispatch carries no identifier; it is 0 here.\<close>

definition quarantine_result ::
  "time \<Rightarrow> string \<Rightarrow> string \<Rightarrow> string \<Rightarrow> string \<Rightarrow> pydict \<Rightarrow> string option \<Rightarrow> delivery_row option \<Rightarrow> dispatch_result" where
  "quarantine_result now key event_type entity_type entity_id payload client dl =
     \<lparr>dr_delivery = (case dl of Some d \<Rightarrow> d | None \<Rightarrow>
        \<lparr>ev_id = 0, ev_key = key, ev_type = event_type, ev_entity_type = entity_type, ev_entity = entity_id,
         ev_payload = PDict payload, ev_status = ''skipped_quarantine'', ev_agent_count = 0, ev_agent_ids = PList [],
         ev_run_ids = PList [], ev_playbook_count = 0, ev_playbook_ids = PList [], ev_playbook_run_ids = PList [],
         ev_playbook_attempts = PDict [], ev_error = ''ticket is quarantined pending client mapping'',
         ev_received = now, ev_processed = None, ev_client = client, ev_attempts = PDict [], ev_retry_count = 0,
         ev_max_retries = DEFAULT_EVENT_MAX_RETRIES, ev_retry_delay = DEFAULT_EVENT_RETRY_DELAY_SECONDS,
         ev_next_retry = None\<rparr>),
      dr_duplicate = False, dr_agents = [], dr_runs = [], dr_playbooks = [], dr_playbook_runs = [], dr_errors = []\<rparr>"

definition dispatch ::
  "env \<Rightarrow> runtime \<Rightarrow> time \<Rightarrow> string \<Rightarrow> string \<Rightarrow> string \<Rightarrow> pydict \<Rightarrow> string \<Rightarrow> string option \<Rightarrow> string \<Rightarrow> int \<Rightarrow> int \<Rightarrow> store \<Rightarrow>
   dispatch_result res \<times> store" where
  "dispatch E R now event_type entity_type entity_id payload key client actor max_retries delay s =
     (let requested = normalize_client_id client in
      case rbind (validate_request event_type entity_type entity_id key) (\<lambda>_.
             get_ticket_client entity_id (client_scope_of requested) s) of
        Inl e \<Rightarrow> (Inl e, s)
      | Inr None \<Rightarrow> (Inl (LookupError entity_id), s)
      | Inr (Some tc) \<Rightarrow>
          if tc = Some QUARANTINE_CLIENT_ID
          then (Inr (quarantine_result now key event_type entity_type entity_id payload tc None), s)
          else
            let effective = (case requested of Some c \<Rightarrow> Some c | None \<Rightarrow> normalize_client_id tc) in
            (case create_event_delivery E now key event_type entity_type entity_id payload effective max_retries delay s of
               Inl e \<Rightarrow> (Inl e, s)
             | Inr ((dl, created), s1) \<Rightarrow>
                 if \<not> created then
                   (if ev_type dl \<noteq> event_type \<or> ev_entity_type dl \<noteq> entity_type \<or> ev_entity dl \<noteq> entity_id \<or> ev_client dl \<noteq> effective
                    then (Inl (EventDispatchError ''idempotency_key is already used for a different event''), s1)
                    else (Inr (result_from_delivery dl True), s1))
                 else process_delivery E R now dl payload effective actor False s1))"

definition retry ::
  "env \<Rightarrow> runtime \<Rightarrow> time \<Rightarrow> int \<Rightarrow> string option \<Rightarrow> string \<Rightarrow> store \<Rightarrow> dispatch_result res \<times> store" where
  "retry E R now i client actor s =
     (let scope = client_scope_of client in
      case get_event_delivery E i scope s of
        Inl e \<Rightarrow> (Inl e, s)
      | Inr None \<Rightarrow> (Inl (KeyError (show_int i)), s)
      | Inr (Some old) \<Rightarrow>
          if lower (strip (ev_entity_type old)) = ''ticket'' \<and>
             get_ticket_client (ev_entity old) (Scope AllClients) s = Inr (Some (Some QUARANTINE_CLIENT_ID))
          then (rbind (get_event_delivery_payload i scope s) (\<lambda>p.
                  Inr (quarantine_result now (ev_key old) (ev_type old) (ev_entity_type old) (ev_entity old) p
                         (ev_client old) (Some old))), s)
          else
            (case claim_event_delivery_retry E i scope s of
               Inl e \<Rightarrow> (Inl e, s)
             | Inr (dl, s1) \<Rightarrow>
                 (case get_event_delivery_payload i (client_scope_of (ev_client dl)) s1 of
                    Inl e \<Rightarrow> (Inl e, s1)
                  | Inr payload \<Rightarrow> process_delivery E R now dl payload (ev_client dl) actor True s1)))"

text \<open>\<open>except (KeyError, ValueError)\<close>, with the subclasses of \<open>ValueError\<close>.\<close>

fun key_or_value_error :: "err \<Rightarrow> bool" where
  "key_or_value_error (KeyError _) = True"
| "key_or_value_error (ValueError _) = True"
| "key_or_value_error (PrincipalInvariantError _) = True"
| "key_or_value_error (QuarantinedTicketError _) = True"
| "key_or_value_error (EventDispatchError _) = True"
| "key_or_value_error _ = False"

fun retry_each :: "env \<Rightarrow> runtime \<Rightarrow> time \<Rightarrow> int list \<Rightarrow> store \<Rightarrow> dispatch_result list res \<times> store" where
  "retry_each E R now [] s = (Inr [], s)"
| "retry_each E R now (i # is) s =
     (case retry E R now i None ''event-retry-worker'' s of
        (Inr r, t) \<Rightarrow> (case retry_each E R now is t of (rs, u) \<Rightarrow> (rbind rs (\<lambda>xs. Inr (r # xs)), u))
      | (Inl e, t) \<Rightarrow>
          if key_or_value_error e
          then retry_each E R now is (add_audit_event E now ''event.retry_skipped'' (show_int i)
                 (redact E (''automatic event retry skipped: '' @ show_err E e)) None None t)
          else (Inl e, t))"

definition retry_due :: "env \<Rightarrow> runtime \<Rightarrow> time \<Rightarrow> store \<Rightarrow> dispatch_result list res \<times> store" where
  "retry_due E R now s =
     (case list_due_event_delivery_ids now EVENT_RETRY_BATCH_SIZE (Scope AllClients) s of
        Inl e \<Rightarrow> (Inl e, s)
      | Inr ids \<Rightarrow> retry_each E R now ids s)"

end
