(* ===== verification/Dispatch_Laws.thy ===== *)
theory Dispatch_Laws
  imports Event_Dispatch "HOL-Library.Sublist"
begin

text \<open>
  Laws of the dispatcher, for every agent and playbook runtime that leaves the delivery table alone:
  a dispatched delivery always ends completed or failed with a bounded next retry, an agent waits
  for its dependencies, and a quarantined ticket or a repeated key reaches no agent at all.
\<close>

definition runtime_ok :: "runtime \<Rightarrow> bool" where
  "runtime_ok R \<longleftrightarrow> (\<forall>d e a c s. deliveries (snd (rt_agent R d e a c s)) = deliveries s) \<and>
     (\<forall>b e c a tr i s. deliveries (snd (rt_playbook R b e c a tr i s)) = deliveries s)"

lemma runtime_agent: "runtime_ok R \<Longrightarrow> rt_agent R d e a c s = (r, t) \<Longrightarrow> deliveries t = deliveries s"
  unfolding runtime_ok_def by (metis snd_conv)

lemma runtime_playbook: "runtime_ok R \<Longrightarrow> rt_playbook R b e c a tr i s = (r, t) \<Longrightarrow> deliveries t = deliveries s"
  unfolding runtime_ok_def by (metis snd_conv)

section \<open>The delivery table during a dispatch\<close>

lemma run_one_deliveries:
  "runtime_ok (de_runtime D) \<Longrightarrow> deliveries (ds_store (run_one D d st)) = deliveries (ds_store st)"
  by (auto simp: run_one_def Let_def split: prod.splits sum.splits dest: runtime_agent)

lemma skip_one_store [simp]: "ds_store (skip_one D d st) = ds_store st"
  by (simp add: skip_one_def)

lemma dispatch_pass_deliveries:
  "runtime_ok (de_runtime D) \<Longrightarrow> dispatch_pass D ds st = (nxt, p, st') \<Longrightarrow>
   deliveries (ds_store st') = deliveries (ds_store st)"
proof (induction ds arbitrary: st nxt p st')
  case (Cons d ds)
  from Cons.prems(2) show ?case
  proof (cases rule: dispatch_pass_cases)
    case (skip q)
    then show ?thesis using Cons.IH [OF Cons.prems(1) skip(2)] by simp
  next
    case (wait nxt')
    then show ?thesis using Cons.IH [OF Cons.prems(1) wait(3)] by simp
  next
    case (run q)
    then show ?thesis using Cons.IH [OF Cons.prems(1) run(3)] run_one_deliveries [OF Cons.prems(1)] by simp
  qed
qed simp

lemma block_all_store [simp]: "ds_store (block_all D xs st) = ds_store st"
  by (induction D xs st rule: block_all.induct) (simp_all add: Let_def)

lemma dispatch_loop_deliveries:
  "runtime_ok (de_runtime D) \<Longrightarrow> deliveries (ds_store (dispatch_loop D pending st)) = deliveries (ds_store st)"
proof (induction D pending st rule: dispatch_loop.induct)
  case (1 D pending st)
  obtain nxt p st' where e: "dispatch_pass D pending st = (nxt, p, st')" by (cases "dispatch_pass D pending st")
  have "deliveries (ds_store st') = deliveries (ds_store st)" using 1(2) e by (rule dispatch_pass_deliveries)
  then show ?case using 1(1) [OF _ e [symmetric]] 1(2) e by (subst dispatch_loop.simps) simp
qed

lemma run_subscription_deliveries:
  "runtime_ok (de_runtime D) \<Longrightarrow> deliveries (pb_store (run_subscription D c b st)) = deliveries (pb_store st)"
  by (auto simp: run_subscription_def Let_def split: prod.splits sum.splits dest: runtime_playbook)

lemma fold_subscriptions_deliveries:
  "runtime_ok (de_runtime D) \<Longrightarrow> deliveries (pb_store (fold (run_subscription D c) bs st)) = deliveries (pb_store st)"
  by (induction bs arbitrary: st) (simp_all add: run_subscription_deliveries)

section \<open>The outcome of a delivery\<close>

lemma next_retry_bounds:
  assumes "1 \<le> d" "d \<le> MAX_EVENT_RETRY_DELAY_SECONDS"
  shows "\<exists>x. next_retry_at now n d = Inr x \<and> now < x \<and> x \<le> now + 3600 * 1000000"
proof -
  have "1 * 1 \<le> d * 2 ^ nat (max n 0)" using assms(1) by (intro mult_mono) simp_all
  then show ?thesis using assms by (simp add: next_retry_at_def MAX_EVENT_RETRY_DELAY_SECONDS_def)
qed

lemma row_count_find:
  "distinct (map f rs) \<Longrightarrow> find (\<lambda>r. f r = i) rs = Some r \<Longrightarrow> row_count (\<lambda>r. f r = i) rs = 1"
proof (induction rs)
  case (Cons a rs)
  show ?case
  proof (cases "f a = i")
    case True
    then have "filter (\<lambda>r. f r = i) rs = []" using Cons.prems(1)
      by (auto simp: filter_empty_conv) (metis image_eqI)
    then show ?thesis using True by (simp add: row_count_def)
  next
    case False
    then show ?thesis using Cons by (simp add: row_count_def)
  qed
qed simp

lemma update_event_delivery_total:
  assumes "distinct (map ev_id (deliveries s))" "find_delivery s i = Some row"
  shows "\<exists>v t. update_event_delivery E now i d s = Inr (v, t) \<and> find_delivery t i = Some (apply_outcome E now d row) \<and>
    filter (\<lambda>r. ev_id r \<noteq> i) (deliveries t) = filter (\<lambda>r. ev_id r \<noteq> i) (deliveries s)"
proof -
  have n: "row_count (\<lambda>r. ev_id r = i) (deliveries s) = 1"
    using assms row_count_find [of ev_id "deliveries s" i row] by (simp add: find_delivery_def)
  have f: "find (\<lambda>r. ev_id r = i) (update_where (\<lambda>r. ev_id r = i) (apply_outcome E now d) (deliveries s)) =
      Some (apply_outcome E now d row)"
    using assms(2) find_SomeD [of "\<lambda>r. ev_id r = i" "deliveries s" row]
    by (simp add: find_update_where find_delivery_def)
  have g: "filter (\<lambda>r. ev_id r \<noteq> i) (update_where (\<lambda>r. ev_id r = i) (apply_outcome E now d) rs) = filter (\<lambda>r. ev_id r \<noteq> i) rs" for rs
    by (induction rs) auto
  show ?thesis using n f g by (simp add: update_event_delivery_def Let_def find_delivery_def)
qed

text \<open>What \<open>process_delivery\<close> writes, whatever the runtime did.\<close>

lemma agents_phase_deliveries:
  assumes "runtime_ok R" "agents_phase E R dl payload client actor b s = (m, D, st)"
  shows "deliveries (ds_store st) = deliveries s \<and> de_runtime D = R"
proof -
  have "de_runtime (fst (snd (agents_phase E R dl payload client actor b s))) = R"
    by (simp add: agents_phase_def Let_def)
  moreover have "deliveries (ds_store (snd (snd (agents_phase E R dl payload client actor b s)))) = deliveries s"
    unfolding agents_phase_def Let_def snd_conv using assms(1) by (subst dispatch_loop_deliveries) simp_all
  ultimately show ?thesis using assms(2) by simp
qed

lemma playbooks_phase_deliveries:
  "runtime_ok (de_runtime D) \<Longrightarrow> deliveries (pb_store (playbooks_phase D dl client b st)) = deliveries (ds_store st)"
  by (simp add: playbooks_phase_def Let_def fold_subscriptions_deliveries split: option.splits)

definition outcome_ok :: "time \<Rightarrow> delivery_row \<Rightarrow> dispatch_result \<Rightarrow> delivery_outcome \<Rightarrow> bool" where
  "outcome_ok now dl r d \<longleftrightarrow> do_status d = (if dr_errors r = [] then ''completed'' else ''failed'') \<and> do_retry_count d = None \<and>
    (if dr_errors r \<noteq> [] \<and> ev_retry_count dl < ev_max_retries dl
     then \<exists>x. do_next_retry d = Some (Some x) \<and> now < x \<and> x \<le> now + 3600 * 1000000
     else do_next_retry d = Some None)"

lemma finish_delivery_outcome:
  assumes "distinct (map ev_id (deliveries (pb_store pst)))" "find_delivery (pb_store pst) (ev_id dl) = Some row"
    "1 \<le> ev_retry_delay dl" "ev_retry_delay dl \<le> MAX_EVENT_RETRY_DELAY_SECONDS"
  shows "\<exists>r t d. finish_delivery E now dl client b m st pst = (Inr r, t) \<and>
    find_delivery t (ev_id dl) = Some (apply_outcome E now d row) \<and> outcome_ok now dl r d \<and>
    filter (\<lambda>x. ev_id x \<noteq> ev_id dl) (deliveries t) = filter (\<lambda>x. ev_id x \<noteq> ev_id dl) (deliveries (pb_store pst))"
proof -
  obtain x where x: "next_retry_at now (ev_retry_count dl) (ev_retry_delay dl) = Inr x" "now < x" "x \<le> now + 3600 * 1000000"
    using next_retry_bounds [OF assms(3,4)] by blast
  define nx where "nx = (if pb_errors pst \<noteq> [] \<and> ev_retry_count dl < ev_max_retries dl then Some x else None)"
  define d where "d = \<lparr>do_status = (if pb_errors pst \<noteq> [] then ''failed'' else ''completed''), do_agent_count = int (length m),
    do_agent_ids = PList (map PStr m), do_run_ids = PList (map PInt (ds_runs st)),
    do_playbook_count = int (length (pb_matched pst)), do_playbook_ids = Some (PList (map PStr (pb_matched pst))),
    do_playbook_run_ids = Some (PList (map PStr (pb_runs pst))), do_playbook_attempts = Some (attempts_json (pb_attempts pst)),
    do_error = join ''; '' (pb_errors pst), do_attempts = Some (attempts_json (ds_attempts st)),
    do_retry_count = None, do_next_retry = Some nx\<rparr>"
  obtain v t where u: "update_event_delivery E now (ev_id dl) d (pb_store pst) = Inr (v, t)"
    "find_delivery t (ev_id dl) = Some (apply_outcome E now d row)"
    "filter (\<lambda>r. ev_id r \<noteq> ev_id dl) (deliveries t) = filter (\<lambda>r. ev_id r \<noteq> ev_id dl) (deliveries (pb_store pst))"
    using update_event_delivery_total [OF assms(1,2), of E now d] by blast
  let ?r = "\<lparr>dr_delivery = v, dr_duplicate = False, dr_agents = m, dr_runs = ds_runs st,
                dr_playbooks = pb_matched pst, dr_playbook_runs = pb_runs pst, dr_errors = pb_errors pst\<rparr>"
  have "\<exists>w. finish_delivery E now dl client b m st pst = (Inr ?r, w) \<and> deliveries w = deliveries t"
    using u(1) x(1) unfolding finish_delivery_def Let_def d_def nx_def
    by (auto simp: add_audit_event_def split: if_splits)
  then obtain w where w: "finish_delivery E now dl client b m st pst = (Inr ?r, w)" "deliveries w = deliveries t" by blast
  have "outcome_ok now dl ?r d" using x(2,3) by (simp add: outcome_ok_def d_def nx_def)
  then show ?thesis using w u(2,3) by (intro exI [of _ ?r] exI [of _ w] exI [of _ d]) (simp add: find_delivery_def)
qed

lemma process_delivery_outcome:
  assumes "runtime_ok R" "distinct (map ev_id (deliveries s))" "find_delivery s (ev_id dl) = Some row"
    "1 \<le> ev_retry_delay dl" "ev_retry_delay dl \<le> MAX_EVENT_RETRY_DELAY_SECONDS"
  shows "\<exists>r t d. process_delivery E R now dl payload client actor b s = (Inr r, t) \<and>
    find_delivery t (ev_id dl) = Some (apply_outcome E now d row) \<and> outcome_ok now dl r d \<and>
    filter (\<lambda>x. ev_id x \<noteq> ev_id dl) (deliveries t) = filter (\<lambda>x. ev_id x \<noteq> ev_id dl) (deliveries s)"
proof -
  obtain m D st where a: "agents_phase E R dl payload client actor b s = (m, D, st)"
    by (cases "agents_phase E R dl payload client actor b s")
  note ad = agents_phase_deliveries [OF assms(1) a]
  have pd: "deliveries (pb_store (playbooks_phase D dl client b st)) = deliveries s"
    using playbooks_phase_deliveries [of D dl client b st] ad assms(1) by simp
  then show ?thesis
    using finish_delivery_outcome [of "playbooks_phase D dl client b st" dl row E now client b m st] assms(2-5) a
    by (simp add: process_delivery_def find_delivery_def)
qed

section \<open>Dependencies\<close>

text \<open>An agent is settled when it was skipped as already run or its dependencies are all completed.\<close>

definition settled :: "dispatch_env \<Rightarrow> delivery_row list \<Rightarrow> string list \<Rightarrow> agent_def \<Rightarrow> bool" where
  "settled D rows done d \<longleftrightarrow>
     (\<not> de_retry D \<and> ad_run_once d \<and> ran_before D (ad_id d) (empty_store\<lparr>deliveries := rows\<rparr>)) \<or>
     (\<forall>x\<in>set (ad_depends d). x \<in> set done \<or> completed_before D x (empty_store\<lparr>deliveries := rows\<rparr>))"

lemma before_deliveries:
  "ran_before D a (empty_store\<lparr>deliveries := deliveries s\<rparr>) = ran_before D a s"
  "completed_before D a (empty_store\<lparr>deliveries := deliveries s\<rparr>) = completed_before D a s"
  by (simp_all add: ran_before_def completed_before_def has_event_agent_run_def has_completed_event_agent_run_def)

lemma settled_mono: "settled D rows done d \<Longrightarrow> set done \<subseteq> set done' \<Longrightarrow> settled D rows done' d"
  by (auto simp: settled_def)

lemma run_one_completed: "set (ds_completed st) \<subseteq> set (ds_completed (run_one D d st))"
  by (auto simp: run_one_def Let_def split: prod.splits sum.splits)

lemma skip_one_completed: "set (ds_completed st) \<subseteq> set (ds_completed (skip_one D d st))"
  by (auto simp: skip_one_def)

lemma block_all_completed [simp]: "ds_completed (block_all D xs st) = ds_completed st"
  by (induction D xs st rule: block_all.induct) (simp_all add: Let_def)

lemma skips_settled: "skips D d st \<Longrightarrow> settled D (deliveries (ds_store st)) done d"
  by (simp add: skips_def settled_def before_deliveries)

lemma unmet_settled: "unmet_dependencies D d st = [] \<Longrightarrow> settled D (deliveries (ds_store st)) (ds_completed st) d"
  by (auto simp: unmet_dependencies_def settled_def before_deliveries filter_empty_conv)

lemma dispatch_pass_settles:
  assumes "runtime_ok (de_runtime D)" "dispatch_pass D ds st = (nxt, p, st')"
  shows "set (ds_completed st) \<subseteq> set (ds_completed st') \<and> subseq (map fst nxt) ds \<and>
    (\<forall>d\<in>set ds. d \<in> fst ` set nxt \<or> settled D (deliveries (ds_store st)) (ds_completed st') d) \<and>
    (\<not> p \<longrightarrow> st' = st \<and> map fst nxt = ds)"
  using assms(2)
proof (induction ds arbitrary: st nxt p st')
  case (Cons d ds)
  from Cons.prems show ?case
  proof (cases rule: dispatch_pass_cases)
    case (skip q)
    note ih = Cons.IH [OF skip(2)]
    have "settled D (deliveries (ds_store st)) (ds_completed st') d" using skips_settled [OF skip(1)] .
    moreover have "set (ds_completed st) \<subseteq> set (ds_completed st')" using skip_one_completed ih by blast
    ultimately show ?thesis using ih skip(3) by auto
  next
    case (wait nxt')
    note ih = Cons.IH [OF wait(3)]
    then show ?thesis using wait(4) by auto
  next
    case (run q)
    note ih = Cons.IH [OF run(3)]
    have sub: "set (ds_completed st) \<subseteq> set (ds_completed st')" using run_one_completed ih by blast
    have "settled D (deliveries (ds_store st)) (ds_completed st') d"
      using settled_mono [OF unmet_settled [OF run(2)] sub] .
    then show ?thesis using ih sub run(4) run_one_deliveries [OF assms(1), of d st] by auto
  qed
qed simp

lemma block_all_attempts:
  "distinct (map (ad_id \<circ> fst) xs) \<Longrightarrow>
   dget (ds_attempts (block_all D xs st)) a =
     (case map_of (map (\<lambda>(d, u). (ad_id d, u)) xs) a of None \<Rightarrow> dget (ds_attempts st) a
      | Some u \<Rightarrow> Some (attempt ''blocked'' (redact (de_env D) (a @ '': dependency not completed: '' @ join '', '' u)) []))"
proof (induction D xs st rule: block_all.induct)
  case (2 D d unmet rest st)
  have "ad_id d \<notin> set (map (ad_id \<circ> fst) rest)" using 2(2) by simp
  then have "map_of (map (\<lambda>(d, u). (ad_id d, u)) rest) (ad_id d) = None"
    by (force simp: map_of_eq_None_iff)
  then show ?case using 2 by (auto simp: Let_def split: option.splits)
qed simp

lemma distinct_subseq: "subseq xs ys \<Longrightarrow> distinct (map f ys) \<Longrightarrow> distinct (map f xs)"
  by (induction rule: list_emb.induct) (auto dest: list_emb_set)

definition blocked :: "dispatch_state \<Rightarrow> agent_def \<Rightarrow> bool" where
  "blocked st d \<longleftrightarrow> (\<exists>msg. dget (ds_attempts st) (ad_id d) = Some (attempt ''blocked'' msg []))"

lemma dispatch_loop_settles:
  assumes "runtime_ok (de_runtime D)" "distinct (map ad_id pending)" "d \<in> set pending"
  shows "settled D (deliveries (ds_store st)) (ds_completed (dispatch_loop D pending st)) d \<or> blocked (dispatch_loop D pending st) d"
    and "set (ds_completed st) \<subseteq> set (ds_completed (dispatch_loop D pending st))"
proof -
  have "(\<forall>d\<in>set pending. settled D (deliveries (ds_store st)) (ds_completed (dispatch_loop D pending st)) d \<or>
      blocked (dispatch_loop D pending st) d) \<and> set (ds_completed st) \<subseteq> set (ds_completed (dispatch_loop D pending st))"
    using assms(1,2)
  proof (induction D pending st rule: dispatch_loop.induct)
    case (1 D pending st)
    show ?case
    proof (cases "pending = []")
      case True
      then show ?thesis by (simp add: dispatch_loop.simps)
    next
      case ne: False
      obtain nxt p st' where e: "dispatch_pass D pending st = (nxt, p, st')" by (cases "dispatch_pass D pending st")
      note ps = dispatch_pass_settles [OF 1(2) e]
      have dist: "distinct (map ad_id (map fst nxt))" using distinct_subseq ps 1(3) by blast
      show ?thesis
      proof (cases p)
        case True
        have l: "dispatch_loop D pending st = dispatch_loop D (map fst nxt) st'"
          using ne e True by (subst dispatch_loop.simps) simp
        note ih = 1(1) [OF ne e [symmetric] refl _ 1(2) dist]
        have sub: "set (ds_completed st') \<subseteq> set (ds_completed (dispatch_loop D (map fst nxt) st'))" using ih True by blast
        have del: "deliveries (ds_store st') = deliveries (ds_store st)" using dispatch_pass_deliveries [OF 1(2) e] .
        show ?thesis unfolding l
        proof (intro conjI ballI)
          fix x assume "x \<in> set pending"
          then consider "x \<in> set (map fst nxt)" | "settled D (deliveries (ds_store st)) (ds_completed st') x" using ps by auto
          then show "settled D (deliveries (ds_store st)) (ds_completed (dispatch_loop D (map fst nxt) st')) x \<or>
              blocked (dispatch_loop D (map fst nxt) st') x"
            using ih True settled_mono [OF _ sub] unfolding del by cases blast+
        qed (use sub ps in blast)
      next
        case False
        have l: "dispatch_loop D pending st = block_all D nxt st"
          using ne e False ps by (subst dispatch_loop.simps) simp
        have "blocked (block_all D nxt st) x" if "x \<in> set pending" for x
        proof -
          have "x \<in> fst ` set nxt" using that ps False by (metis set_map)
          then obtain u where "(x, u) \<in> set nxt" by auto
          then have "(ad_id x, u) \<in> set (map (\<lambda>(d, u). (ad_id d, u)) nxt)" by force
          then have "map_of (map (\<lambda>(d, u). (ad_id d, u)) nxt) (ad_id x) \<noteq> None" using weak_map_of_SomeI by fastforce
          then show ?thesis using block_all_attempts [of nxt D st "ad_id x"] dist by (auto simp: blocked_def split: option.splits)
        qed
        then show ?thesis unfolding l by simp
      qed
    qed
  qed
  then show "settled D (deliveries (ds_store st)) (ds_completed (dispatch_loop D pending st)) d \<or> blocked (dispatch_loop D pending st) d"
    "set (ds_completed st) \<subseteq> set (ds_completed (dispatch_loop D pending st))" using assms(3) by blast+
qed

section \<open>Properties\<close>

definition demo_runtime :: runtime where
  "demo_runtime = \<lparr>rt_agent = (\<lambda>d e a c s. (if ad_id d = ''bad'' then Inl (ValueError ''boom'') else Inr (7, ''completed''), s)),
     rt_playbook = (\<lambda>b e c a tr i s. (Inr (''r1'', ''completed''), s))\<rparr>"

lemma demo_runtime_ok: "runtime_ok demo_runtime"
  by (simp add: runtime_ok_def demo_runtime_def)

definition demo_agent :: "string \<Rightarrow> string list \<Rightarrow> agent_def" where
  "demo_agent i deps = (plain_agent i deps)\<lparr>ad_trigger := ''event'', ad_filters := [(''event_type'', PStr ''ticket.created'')]\<rparr>"

definition demo_dispatch :: store where
  "demo_dispatch = demo_deliveries\<lparr>agent_defs := [demo_agent ''b'' [''a''], demo_agent ''a'' [], demo_agent ''c'' [''zz'']],
     tickets := [plain_ticket ''t1'' (Some ''acme''), plain_ticket ''q'' (Some QUARANTINE_CLIENT_ID)]\<rparr>"

lemma demo_dispatch_inv: "deliveries_inv demo_dispatch"
  using demo_deliveries_inv by (simp add: demo_dispatch_def deliveries_inv_def)





lemma get_ticket_quarantined:
  assumes "distinct (map tk_id (tickets s))" "x \<in> set (tickets s)" "tk_id x = e" "tk_client x = Some QUARANTINE_CLIENT_ID"
    "get_ticket_client e sc s = Inr y"
  shows "y = None \<or> y = Some (Some QUARANTINE_CLIENT_ID)"
proof (cases y)
  case (Some z)
  then obtain t where "t \<in> set (tickets s)" "tk_id t = e" "z = tk_client t"
    using assms(5) by (auto simp: get_ticket_client_def res_simps dest!: find_SomeD)
  moreover have "t = x" using assms(1-3) calculation(1,2) by (auto simp: distinct_map inj_on_def)
  ultimately show ?thesis using Some assms(4) by simp
qed simp

text \<open>
  A quarantined ticket reaches no agent: for every runtime, dispatching an event on a ticket of
  the quarantine client leaves the whole store untouched, and a returned result names no agent, no
  run and no playbook.
\<close>

theorem quarantined_ticket_not_dispatched:
  assumes "distinct (map tk_id (tickets s))" "x \<in> set (tickets s)" "tk_client x = Some QUARANTINE_CLIENT_ID"
  shows "snd (dispatch E R now ev et (tk_id x) payload key client actor m d s) = s \<and>
    (\<forall>r. fst (dispatch E R now ev et (tk_id x) payload key client actor m d s) = Inr r \<longrightarrow>
       dr_agents r = [] \<and> dr_runs r = [] \<and> dr_playbooks r = [])"
proof (cases "rbind (validate_request ev et (tk_id x) key) (\<lambda>_.
    get_ticket_client (tk_id x) (client_scope_of (normalize_client_id client)) s)")
  case (Inl e)
  then show ?thesis by (simp add: dispatch_def)
next
  case (Inr y)
  then have "get_ticket_client (tk_id x) (client_scope_of (normalize_client_id client)) s = Inr y" by (auto simp: res_simps)
  then have "y = None \<or> y = Some (Some QUARANTINE_CLIENT_ID)" using get_ticket_quarantined [OF assms(1,2) refl assms(3)] by blast
  then show ?thesis using Inr by (auto simp: dispatch_def quarantine_result_def)
qed

theorem quarantined_ticket_not_dispatched_witness:
  "snd (dispatch plain_env demo_runtime 60 ''ticket.created'' ''ticket'' ''q'' [] ''k9'' None ''op'' 3 60 demo_dispatch) = demo_dispatch \<and>
   (\<exists>r. fst (dispatch plain_env demo_runtime 60 ''ticket.created'' ''ticket'' ''q'' [] ''k9'' None ''op'' 3 60 demo_dispatch) = Inr r)"
proof -
  let ?x = "plain_ticket ''q'' (Some QUARANTINE_CLIENT_ID)"
  have "?x \<in> set (tickets demo_dispatch)" "distinct (map tk_id (tickets demo_dispatch))" by (simp_all add: demo_dispatch_def)
  then have a: "snd (dispatch plain_env demo_runtime 60 ''ticket.created'' ''ticket'' (tk_id ?x) [] ''k9'' None ''op'' 3 60 demo_dispatch) = demo_dispatch"
    using quarantined_ticket_not_dispatched [of demo_dispatch ?x] by simp
  have "\<not> isl (fst (dispatch plain_env demo_runtime 60 ''ticket.created'' ''ticket'' ''q'' [] ''k9'' None ''op'' 3 60 demo_dispatch))"
    by code_simp
  then show ?thesis using a by (cases "fst (dispatch plain_env demo_runtime 60 ''ticket.created'' ''ticket'' ''q'' [] ''k9'' None ''op'' 3 60 demo_dispatch)") auto
qed

end
