(* ===== verification/Poll_Lease.thy ===== *)
theory Poll_Lease
  imports Client_Scope
begin

text \<open>
  The connector poll leases of \<open>store.py\<close>: \<open>upsert_sync_cursor\<close>, \<open>claim_poll_lease\<close>,
  \<open>finish_poll_lease\<close> and the queries. The clock the caller passes is a \<open>time\<close>, the time to live a
  number of microseconds, and \<open>SyncCursorLeaseConflictError\<close>, a \<open>RuntimeError\<close>, is one here too. The
  lemmas show that an active lease excludes every other poller and that a late finish with a stale
  token changes nothing.
\<close>

datatype lease_result = GRANTED | LOCKED | INSTANCE_MISSING

definition normalize_lease_token :: "string \<Rightarrow> string res" where
  "normalize_lease_token token =
     (if strip token = [] then Inl (ValueError ''token must be a non-empty string'') else Inr (strip token))"

definition lease_is_active :: "cursor_row \<Rightarrow> time \<Rightarrow> bool" where
  "lease_is_active row now =
     (cu_status row = ''syncing'' \<and> (case cu_expires row of At t \<Rightarrow> t \<ge> now | _ \<Rightarrow> False))"

definition cursor_key :: "cursor_row \<Rightarrow> string \<times> string" where
  "cursor_key c = (cu_instance c, cu_type c)"

definition find_cursor :: "store \<Rightarrow> string \<times> string \<Rightarrow> cursor_row option" where
  "find_cursor s k = find (\<lambda>c. cursor_key c = k) (cursors s)"

definition normalized_key :: "string \<Rightarrow> string \<Rightarrow> (string \<times> string) res" where
  "normalized_key connector_instance cursor_type =
     (case normalize_client_id (Some connector_instance) of
        None \<Rightarrow> Inl (ValueError ''connector_instance_id must be non-empty'')
      | Some i \<Rightarrow> (case normalize_client_id (Some cursor_type) of
                     None \<Rightarrow> Inl (ValueError ''cursor_type must be non-empty'')
                   | Some c \<Rightarrow> Inr (i, c)))"

definition upsert_sync_cursor ::
  "time \<Rightarrow> string \<Rightarrow> string \<Rightarrow> string option \<Rightarrow> string \<Rightarrow> string option \<Rightarrow> store \<Rightarrow> (cursor_row \<times> store) res" where
  "upsert_sync_cursor now instance cursor_type cursor_value status last_synced s =
     (let st = lower (strip status); v = normalize_client_id cursor_value; l = normalize_client_id last_synced in
      rbind (normalized_key instance cursor_type) (\<lambda>k.
      rbind (raise_if (st \<notin> {''idle'', ''syncing'', ''degraded'', ''failed''})
               (ValueError ''unsupported sync cursor status'')) (\<lambda>_.
      rbind (raise_if (fst k \<notin> set (connector_instances s)) (KeyError (fst k))) (\<lambda>_.
      rbind (raise_if (case find_cursor s k of None \<Rightarrow> False | Some row \<Rightarrow> lease_is_active row now)
               (RuntimeError ''cannot overwrite sync cursor while an active poll lease is held'')) (\<lambda>_.
      let t = s\<lparr>cursors := (if find_cursor s k \<noteq> None
                 then update_where (\<lambda>c. cursor_key c = k)
                        (\<lambda>c. c\<lparr>cu_value := v, cu_status := st, cu_synced := l, cu_updated := now,
                               cu_token := None, cu_expires := Null_stamp\<rparr>) (cursors s)
                 else cursors s @ [\<lparr>cu_instance = fst k, cu_type = snd k, cu_value = v, cu_status = st,
                        cu_synced = l, cu_updated = now, cu_token = None, cu_expires = Null_stamp\<rparr>])\<rparr> in
      case find_cursor t k of
        None \<Rightarrow> Inl (RuntimeError ''sync cursor was not persisted'')
      | Some row \<Rightarrow> Inr (row, t))))))"

definition list_sync_cursors :: "store \<Rightarrow> cursor_row list" where
  "list_sync_cursors s = sort_key cursor_key (cursors s)"

definition get_sync_cursor :: "string \<Rightarrow> string \<Rightarrow> store \<Rightarrow> cursor_row option" where
  "get_sync_cursor instance cursor_type s =
     (case normalized_key instance cursor_type of Inl _ \<Rightarrow> None | Inr k \<Rightarrow> find_cursor s k)"

definition claim_poll_lease ::
  "string \<Rightarrow> string \<Rightarrow> string \<Rightarrow> time \<Rightarrow> time \<Rightarrow> store \<Rightarrow> (lease_result \<times> store) res" where
  "claim_poll_lease instance cursor_type token ttl now s =
     rbind (normalize_lease_token token) (\<lambda>tok.
     rbind (normalized_key instance cursor_type) (\<lambda>k.
     rbind (raise_if (ttl \<le> 0) (ValueError ''ttl_seconds must be a finite positive number'')) (\<lambda>_.
     if fst k \<notin> set (connector_instances s) then Inr (INSTANCE_MISSING, s)
     else
       (case find_cursor s k of
          None \<Rightarrow> Inr (GRANTED, s\<lparr>cursors := cursors s @
                    [\<lparr>cu_instance = fst k, cu_type = snd k, cu_value = None, cu_status = ''syncing'', cu_synced = None,
                      cu_updated = now, cu_token = Some tok, cu_expires = At (now + ttl)\<rparr>]\<rparr>)
        | Some row \<Rightarrow>
            if lease_is_active row now then Inr (LOCKED, s)
            else Inr (GRANTED, s\<lparr>cursors := update_where (\<lambda>c. cursor_key c = k)
                   (\<lambda>c. c\<lparr>cu_status := ''syncing'', cu_token := Some tok, cu_expires := At (now + ttl),
                          cu_updated := now\<rparr>) (cursors s)\<rparr>)))))"

definition finish_poll_lease ::
  "string \<Rightarrow> string \<Rightarrow> string \<Rightarrow> string \<Rightarrow> string option \<Rightarrow> string option \<Rightarrow> time \<Rightarrow> store \<Rightarrow> (bool \<times> store) res" where
  "finish_poll_lease instance cursor_type token status cursor_value last_synced now s =
     (let st = lower (strip status); v = normalize_client_id cursor_value; l = normalize_client_id last_synced in
      rbind (normalize_lease_token token) (\<lambda>tok.
      rbind (normalized_key instance cursor_type) (\<lambda>k.
      rbind (raise_if (st \<notin> {''idle'', ''degraded'', ''failed''})
               (ValueError ''unsupported terminal sync cursor status'')) (\<lambda>_.
      if fst k \<notin> set (connector_instances s) then Inr (False, s)
      else
        let hit = (\<lambda>c. cursor_key c = k \<and> cu_status c = ''syncing'' \<and> cu_token c = Some tok) in
        Inr (row_count hit (cursors s) = 1,
             s\<lparr>cursors := update_where hit (\<lambda>c. c\<lparr>cu_status := st, cu_value := v, cu_synced := l, cu_updated := now,
                 cu_token := None, cu_expires := Null_stamp\<rparr>) (cursors s)\<rparr>)))))"

datatype lease_op =
    UpsertCursor string string "string option" string "string option"
  | ClaimLease string string string time
  | FinishLease string string string string "string option" "string option"

fun lease_step :: "time \<times> lease_op \<Rightarrow> store \<Rightarrow> (unit \<times> store) res" where
  "lease_step (now, UpsertCursor i c v st l) s = forget (upsert_sync_cursor now i c v st l s)"
| "lease_step (now, ClaimLease i c tok ttl) s = forget (claim_poll_lease i c tok ttl now s)"
| "lease_step (now, FinishLease i c tok st v l) s = forget (finish_poll_lease i c tok st v l now s)"

section \<open>Laws\<close>

definition cursors_ok :: "store \<Rightarrow> bool" where
  "cursors_ok s \<longleftrightarrow> distinct (map cursor_key (cursors s)) \<and>
     (\<forall>c\<in>set (cursors s). cu_instance c \<in> set (connector_instances s) \<and>
        cu_status c \<in> {''idle'', ''syncing'', ''degraded'', ''failed''} \<and>
        (cu_token c \<noteq> None \<longrightarrow> cu_status c = ''syncing''))"

lemma find_cursor_None: "find_cursor s k = None \<longleftrightarrow> k \<notin> cursor_key ` set (cursors s)"
  by (auto simp: find_cursor_def find_None_iff)

lemma cursor_key_updates [simp]:
  "cursor_key (c\<lparr>cu_status := st\<rparr>) = cursor_key c" "cursor_key (c\<lparr>cu_value := v\<rparr>) = cursor_key c"
  "cursor_key (c\<lparr>cu_synced := l\<rparr>) = cursor_key c" "cursor_key (c\<lparr>cu_updated := n\<rparr>) = cursor_key c"
  "cursor_key (c\<lparr>cu_token := tk\<rparr>) = cursor_key c" "cursor_key (c\<lparr>cu_expires := e\<rparr>) = cursor_key c"
  by (simp_all add: cursor_key_def)

lemma cursor_key_new [simp]:
  "cursor_key \<lparr>cu_instance = i, cu_type = c, cu_value = v, cu_status = st, cu_synced = l, cu_updated = n, cu_token = tk, cu_expires = e\<rparr> = (i, c)"
  by (simp add: cursor_key_def)

text \<open>
  What each operation does to the table: it leaves it alone, appends a row under a fresh key, or
  rewrites the row of its key. A rewrite at time \<open>now\<close> happens to an inactive lease, or is a finish
  with the very token the row holds.
\<close>

inductive cursor_effect :: "(string \<times> string) \<Rightarrow> time \<Rightarrow> string option \<Rightarrow> store \<Rightarrow> store \<Rightarrow> bool" for k now tok s where
  same: "cursor_effect k now tok s s"
| add: "find_cursor s k = None \<Longrightarrow> fst k \<in> set (connector_instances s) \<Longrightarrow> cursor_key r = k \<Longrightarrow>
    cu_status r \<in> {''idle'', ''syncing'', ''degraded'', ''failed''} \<Longrightarrow>
    (cu_token r \<noteq> None \<longrightarrow> cu_status r = ''syncing'') \<Longrightarrow>
    cursor_effect k now tok s (s\<lparr>cursors := cursors s @ [r]\<rparr>)"
| rewrite: "(\<And>c. P c \<Longrightarrow> cursor_key c = k) \<Longrightarrow>
    (\<And>c. cursor_key (f c) = cursor_key c \<and> cu_instance (f c) = cu_instance c \<and>
          cu_status (f c) \<in> {''idle'', ''syncing'', ''degraded'', ''failed''} \<and>
          (cu_token (f c) \<noteq> None \<longrightarrow> cu_status (f c) = ''syncing'')) \<Longrightarrow>
    (case find_cursor s k of None \<Rightarrow> False | Some c \<Rightarrow> \<not> lease_is_active c now) \<or>
      (tok \<noteq> None \<and> (\<forall>c. P c \<longrightarrow> cu_token c = tok)) \<Longrightarrow>
    cursor_effect k now tok s (s\<lparr>cursors := update_where P f (cursors s)\<rparr>)"

lemma upsert_effect:
  assumes "upsert_sync_cursor now i c v st l s = Inr (row, t)"
  obtains k where "normalized_key i c = Inr k" "cursor_effect k now None s t"
proof -
  obtain k where k: "normalized_key i c = Inr k"
      and st: "lower (strip st) \<in> {''idle'', ''syncing'', ''degraded'', ''failed''}"
      and mem: "fst k \<in> set (connector_instances s)"
      and free: "\<not> (case find_cursor s k of None \<Rightarrow> False | Some row \<Rightarrow> lease_is_active row now)"
      and t: "t = s\<lparr>cursors := (if find_cursor s k \<noteq> None
                 then update_where (\<lambda>c. cursor_key c = k)
                        (\<lambda>c. c\<lparr>cu_value := normalize_client_id v, cu_status := lower (strip st),
                               cu_synced := normalize_client_id l, cu_updated := now,
                               cu_token := None, cu_expires := Null_stamp\<rparr>) (cursors s)
                 else cursors s @ [\<lparr>cu_instance = fst k, cu_type = snd k, cu_value = normalize_client_id v,
                        cu_status = lower (strip st), cu_synced = normalize_client_id l, cu_updated = now,
                        cu_token = None, cu_expires = Null_stamp\<rparr>])\<rparr>"
    using assms unfolding upsert_sync_cursor_def Let_def by (simp only: rbind_Inr_iff raise_if_Inr_iff case_option_Inr) blast
  have "cursor_effect k now None s t"
  proof (cases "find_cursor s k")
    case None
    show ?thesis unfolding t using st by (simp add: None) (rule cursor_effect.add, auto simp: None mem)
  next
    case (Some row)
    show ?thesis unfolding t using st free by (simp add: Some) (rule cursor_effect.rewrite, auto simp: Some)
  qed
  with k show ?thesis by (rule that)
qed

lemma claim_effect:
  assumes "claim_poll_lease i c token ttl now s = Inr (r, t)"
  obtains k where "normalized_key i c = Inr k" "cursor_effect k now None s t"
proof -
  obtain tok k where k: "normalized_key i c = Inr k"
      and body: "(if fst k \<notin> set (connector_instances s) then Inr (INSTANCE_MISSING, s)
     else
       (case find_cursor s k of
          None \<Rightarrow> Inr (GRANTED, s\<lparr>cursors := cursors s @
                    [\<lparr>cu_instance = fst k, cu_type = snd k, cu_value = None, cu_status = ''syncing'', cu_synced = None,
                      cu_updated = now, cu_token = Some tok, cu_expires = At (now + ttl)\<rparr>]\<rparr>)
        | Some row \<Rightarrow>
            if lease_is_active row now then Inr (LOCKED, s)
            else Inr (GRANTED, s\<lparr>cursors := update_where (\<lambda>c. cursor_key c = k)
                   (\<lambda>c. c\<lparr>cu_status := ''syncing'', cu_token := Some tok, cu_expires := At (now + ttl),
                          cu_updated := now\<rparr>) (cursors s)\<rparr>))) = (Inr (r, t) :: (lease_result \<times> store) res)"
    using assms unfolding claim_poll_lease_def by (simp only: rbind_Inr_iff raise_if_Inr_iff) blast
  have "cursor_effect k now None s t"
  proof (cases "fst k \<in> set (connector_instances s)")
    case False
    with body show ?thesis by (simp add: cursor_effect.same)
  next
    case mem: True
    show ?thesis
    proof (cases "find_cursor s k")
      case None
      with body mem have t: "t = s\<lparr>cursors := cursors s @
                    [\<lparr>cu_instance = fst k, cu_type = snd k, cu_value = None, cu_status = ''syncing'', cu_synced = None,
                      cu_updated = now, cu_token = Some tok, cu_expires = At (now + ttl)\<rparr>]\<rparr>" by simp
      show ?thesis unfolding t by (rule cursor_effect.add) (auto simp: None mem)
    next
      case (Some row)
      show ?thesis
      proof (cases "lease_is_active row now")
        case True
        with Some body mem show ?thesis by (simp add: cursor_effect.same)
      next
        case False
        with Some body mem have t: "t = s\<lparr>cursors := update_where (\<lambda>c. cursor_key c = k)
                   (\<lambda>c. c\<lparr>cu_status := ''syncing'', cu_token := Some tok, cu_expires := At (now + ttl),
                          cu_updated := now\<rparr>) (cursors s)\<rparr>" by simp
        show ?thesis unfolding t using Some False by (intro cursor_effect.rewrite) auto
      qed
    qed
  qed
  with k show ?thesis by (rule that)
qed

lemma finish_effect:
  assumes "finish_poll_lease i c token st v l now s = Inr (r, t)"
  obtains k where "normalized_key i c = Inr k" "cursor_effect k now (Some (strip token)) s t"
proof -
  let ?hit = "\<lambda>k c. cursor_key c = k \<and> cu_status c = ''syncing'' \<and> cu_token c = Some (strip token)"
  let ?f = "\<lambda>c. c\<lparr>cu_status := lower (strip st), cu_value := normalize_client_id v, cu_synced := normalize_client_id l,
       cu_updated := now, cu_token := None, cu_expires := Null_stamp\<rparr>"
  obtain k where k: "normalized_key i c = Inr k" and st: "lower (strip st) \<in> {''idle'', ''degraded'', ''failed''}"
      and t: "t = s \<or> t = s\<lparr>cursors := update_where (?hit k) ?f (cursors s)\<rparr>"
    using assms unfolding finish_poll_lease_def Let_def normalize_lease_token_def
    by (simp only: rbind_Inr_iff raise_if_Inr_iff) (auto split: if_splits)
  have "cursor_effect k now (Some (strip token)) s (s\<lparr>cursors := update_where (?hit k) ?f (cursors s)\<rparr>)"
    using st by (intro cursor_effect.rewrite) auto
  with t have "cursor_effect k now (Some (strip token)) s t" by (auto intro: cursor_effect.same)
  with k show ?thesis by (rule that)
qed

lemma cursor_effect_ok: "cursor_effect k now tok s t \<Longrightarrow> cursors_ok s \<Longrightarrow> cursors_ok t"
proof (induction rule: cursor_effect.induct)
  case (add r)
  then show ?case by (auto simp: cursors_ok_def find_cursor_None cursor_key_def)
next
  case (rewrite P f)
  then have "map cursor_key (update_where P f (cursors s)) = map cursor_key (cursors s)"
    by (simp add: map_update_where)
  with rewrite show ?case by (auto simp: cursors_ok_def set_update_where)
qed

fun lease_key :: "lease_op \<Rightarrow> (string \<times> string) res" where
  "lease_key (UpsertCursor i c v st l) = normalized_key i c"
| "lease_key (ClaimLease i c tok ttl) = normalized_key i c"
| "lease_key (FinishLease i c tok st v l) = normalized_key i c"

fun lease_token :: "lease_op \<Rightarrow> string option" where
  "lease_token (FinishLease i c tok st v l) = Some (strip tok)"
| "lease_token _ = None"

lemma lease_step_effect:
  assumes "lease_step (now, op) s = Inr (u, t)"
  obtains k where "lease_key op = Inr k" "cursor_effect k now (lease_token op) s t"
  using assms
  by (cases op) (auto simp: forget_Inr elim!: upsert_effect claim_effect finish_effect)

interpretation lease_ops: guarded_ops lease_step cursors_ok
proof
  fix c s r t assume "cursors_ok s" "lease_step c s = Inr (r, t)"
  then show "cursors_ok t" by (cases c) (auto elim!: lease_step_effect intro: cursor_effect_ok)
qed

interpretation lease_log: append_only_log lease_step
proof
  fix c s r t assume "lease_step c s = Inr (r, t)"
  then show "log_extends s t"
    by (cases c) (auto elim!: lease_step_effect cursor_effect.cases simp: log_extends_same)
qed

section \<open>Holding a lease\<close>

definition held :: "store \<Rightarrow> string \<times> string \<Rightarrow> string \<Rightarrow> time \<Rightarrow> bool" where
  "held s k tok e \<longleftrightarrow> cursors_ok s \<and> fst k \<in> set (connector_instances s) \<and>
     (case find_cursor s k of None \<Rightarrow> False
      | Some row \<Rightarrow> cu_status row = ''syncing'' \<and> cu_token row = Some tok \<and> cu_expires row = At e)"

lemma find_cursor_append: "find_cursor s k = None \<Longrightarrow> cursor_key r = k \<Longrightarrow>
    find_cursor (s\<lparr>cursors := cursors s @ [r]\<rparr>) k = Some r"
  by (simp add: find_cursor_def find_append)

lemma find_cursor_other: "k' \<noteq> cursor_key r \<Longrightarrow>
    find_cursor (s\<lparr>cursors := cursors s @ [r]\<rparr>) k' = find_cursor s k'"
  by (cases "find_cursor s k'") (simp_all add: find_cursor_def find_append)

lemma find_cursor_rewrite:
  assumes "\<And>c. cursor_key (f c) = cursor_key c"
  shows "find_cursor (s\<lparr>cursors := update_where P f (cursors s)\<rparr>) k =
         map_option (\<lambda>c. if P c then f c else c) (find_cursor s k)"
  using assms by (simp add: find_cursor_def find_update_where)

lemma find_cursor_key: "find_cursor s k = Some row \<Longrightarrow> cursor_key row = k"
  by (auto simp: find_cursor_def dest: find_SomeD)

lemma held_effect:
  assumes "cursor_effect k' now token s t" "held s k tok e" "now \<le> e" "k' = k \<Longrightarrow> token \<noteq> Some tok"
  shows "held t k tok e"
  using assms(1)
proof cases
  case same
  with assms(2) show ?thesis by simp
next
  case (add r)
  obtain row where row: "find_cursor s k = Some row"
    using assms(2) by (auto simp: held_def split: option.splits)
  with add have "k \<noteq> cursor_key r" by auto
  with assms(2) add cursor_effect_ok [OF assms(1)] show ?thesis by (simp add: held_def find_cursor_other)
next
  case (rewrite P f)
  obtain row where row: "find_cursor s k = Some row" "cu_status row = ''syncing''" "cu_token row = Some tok"
      "cu_expires row = At e" "cursors_ok s" "fst k \<in> set (connector_instances s)"
    using assms(2) by (auto simp: held_def split: option.splits)
  have "\<not> P row"
  proof
    assume P: "P row"
    then have "k' = k" using rewrite(2) find_cursor_key [OF row(1)] by simp
    with rewrite(4) row assms(3,4) P show False by (auto simp: lease_is_active_def)
  qed
  with rewrite(3) row(1) have "find_cursor t k = Some row"
    unfolding rewrite(1) by (subst find_cursor_rewrite) auto
  moreover have "connector_instances t = connector_instances s" by (simp add: rewrite(1))
  ultimately show ?thesis using row cursor_effect_ok [OF assms(1)] by (simp add: held_def)
qed

definition leaves_lease :: "string \<times> string \<Rightarrow> string \<Rightarrow> time \<Rightarrow> time \<times> lease_op \<Rightarrow> bool" where
  "leaves_lease k tok e c \<longleftrightarrow> fst c \<le> e \<and> (lease_key (snd c) = Inr k \<longrightarrow> lease_token (snd c) \<noteq> Some tok)"

lemma held_run:
  "held s k tok e \<Longrightarrow> list_all (leaves_lease k tok e) ops \<Longrightarrow> held (run_ops lease_step ops s) k tok e"
proof (induction ops arbitrary: s)
  case (Cons c ops)
  have "held (apply_op lease_step c s) k tok e"
  proof (cases "lease_step c s")
    case (Inr p)
    obtain now op u t where eq: "c = (now, op)" "p = (u, t)" by (cases c, cases p)
    with Inr obtain k' where "lease_key op = Inr k'" "cursor_effect k' now (lease_token op) s t"
      by (auto elim: lease_step_effect)
    then have "held t k tok e" using Cons.prems eq by (auto simp: leaves_lease_def intro: held_effect)
    with Inr eq show ?thesis by (simp add: apply_op_def)
  qed (use Cons.prems in \<open>simp add: apply_op_def\<close>)
  with Cons show ?case by simp
qed simp

lemma claim_holds:
  assumes "cursors_ok s" "claim_poll_lease i c token ttl now s = Inr (GRANTED, t)" "normalized_key i c = Inr k"
  shows "held t k (strip token) (now + ttl)"
proof -
  have ok: "cursors_ok t" using assms(1,2) by (auto elim!: claim_effect intro: cursor_effect_ok)
  show ?thesis
  proof (cases "find_cursor s k")
    case None
    with assms ok show ?thesis
      by (auto simp: claim_poll_lease_def res_simps normalize_lease_token_def held_def find_cursor_append split: if_splits)
  next
    case (Some row)
    with assms have t: "t = s\<lparr>cursors := update_where (\<lambda>c. cursor_key c = k)
                   (\<lambda>c. c\<lparr>cu_status := ''syncing'', cu_token := Some (strip token), cu_expires := At (now + ttl),
                          cu_updated := now\<rparr>) (cursors s)\<rparr>" and mem: "fst k \<in> set (connector_instances s)"
      by (auto simp: claim_poll_lease_def res_simps normalize_lease_token_def split: if_splits)
    have "find_cursor t k = Some (row\<lparr>cu_status := ''syncing'', cu_token := Some (strip token),
        cu_expires := At (now + ttl), cu_updated := now\<rparr>)"
      unfolding t using Some find_cursor_key [OF Some] by (subst find_cursor_rewrite) auto
    with ok mem t show ?thesis by (simp add: held_def)
  qed
qed

lemma held_locked:
  assumes "held s k tok e" "now \<le> e" "normalized_key i c = Inr k" "strip token \<noteq> []" "0 < ttl"
  shows "claim_poll_lease i c token ttl now s = Inr (LOCKED, s)"
  using assms by (auto simp: held_def claim_poll_lease_def normalize_lease_token_def lease_is_active_def split: option.splits)

lemma held_stale_finish:
  assumes "held s k tok e" "normalized_key i c = Inr k" "strip token \<noteq> tok" "strip token \<noteq> []"
      "lower (strip st) \<in> {''idle'', ''degraded'', ''failed''}"
  shows "finish_poll_lease i c token st v l now s = Inr (False, s)"
proof -
  obtain row where row: "find_cursor s k = Some row" "cu_token row = Some tok" and s: "cursors_ok s" "fst k \<in> set (connector_instances s)"
    using assms(1) by (auto simp: held_def split: option.splits)
  have "r = row" if "r \<in> set (cursors s)" "cursor_key r = k" for r
    using s(1) row(1) find_unique_key [OF _ that(1), of cursor_key] that(2) by (simp add: cursors_ok_def find_cursor_def)
  then have none: "\<forall>r\<in>set (cursors s). \<not> (cursor_key r = k \<and> cu_status r = ''syncing'' \<and> cu_token r = Some (strip token))"
    using row(2) assms(3) by auto
  then have "update_where (\<lambda>r. cursor_key r = k \<and> cu_status r = ''syncing'' \<and> cu_token r = Some (strip token)) f (cursors s) = cursors s" for f
    by (auto simp: update_where_def intro!: map_idI)
  moreover have "row_count (\<lambda>r. cursor_key r = k \<and> cu_status r = ''syncing'' \<and> cu_token r = Some (strip token)) (cursors s) = 0"
    using none by (simp add: row_count_0_iff)
  ultimately show ?thesis using assms(2,4,5) s(2)
    by (auto simp: finish_poll_lease_def normalize_lease_token_def Let_def)
qed

lemma held_finish:
  assumes "held s k tok e" "normalized_key i c = Inr k" "strip token = tok" "tok \<noteq> []"
      "lower (strip st) \<in> {''idle'', ''degraded'', ''failed''}"
  shows "\<exists>t. finish_poll_lease i c token st v l now s = Inr (True, t) \<and>
      (\<exists>row. find_cursor t k = Some row \<and> cu_status row = lower (strip st) \<and> cu_value row = normalize_client_id v \<and> cu_token row = None)"
proof -
  let ?hit = "\<lambda>r. cursor_key r = k \<and> cu_status r = ''syncing'' \<and> cu_token r = Some (strip token)"
  let ?f = "\<lambda>c. c\<lparr>cu_status := lower (strip st), cu_value := normalize_client_id v, cu_synced := normalize_client_id l, cu_updated := now,
                 cu_token := None, cu_expires := Null_stamp\<rparr>"
  obtain row where row: "find_cursor s k = Some row" "cu_token row = Some tok" "cu_status row = ''syncing''"
      and s: "cursors_ok s" "fst k \<in> set (connector_instances s)"
    using assms(1) by (auto simp: held_def split: option.splits)
  then have hit: "?hit row" and mem: "row \<in> set (cursors s)"
    using assms(3) find_cursor_key [OF row(1)] by (auto simp: find_cursor_def dest: find_SomeD)
  have "row_count ?hit (cursors s) \<le> 1"
    using s(1) by (intro row_count_unique) (simp add: cursors_ok_def)
  moreover have "row_count ?hit (cursors s) \<noteq> 0"
    using hit mem row_count_0_iff [of ?hit] by blast
  ultimately have "row_count ?hit (cursors s) = 1" by simp
  moreover have "find_cursor (s\<lparr>cursors := update_where ?hit ?f (cursors s)\<rparr>) k = Some (?f row)"
    using row(1) hit by (subst find_cursor_rewrite) auto
  ultimately show ?thesis using assms(2,4,5) assms(3) s(2)
    by (auto simp: finish_poll_lease_def normalize_lease_token_def Let_def)
qed

text \<open>
  C22. A granted poll lease is exclusive until it expires: after a claim at time \<open>now\<close> was
  granted for \<open>ttl\<close>, whatever cursor operations run at times up to \<open>now + ttl\<close>, other than a finish of
  this cursor with this token, every further claim of the cursor up to that time is answered
  \<open>LOCKED\<close> and changes nothing, an unconditional upsert of the cursor is refused, a finish with
  another token returns \<open>False\<close> and changes nothing, and the holder's own finish still succeeds.
\<close>

theorem granted_lease_is_exclusive:
  assumes "cursors_ok s" and "normalized_key i c = Inr k"
    and "claim_poll_lease i c token ttl now s = Inr (GRANTED, s1)"
    and "list_all (leaves_lease k (strip token) (now + ttl)) ops"
    and "t = run_ops lease_step ops s1"
    and "later \<le> now + ttl" and "strip token' \<noteq> []" and "strip token' \<noteq> strip token" and "0 < ttl'"
    and "lower (strip st) \<in> {''idle'', ''degraded'', ''failed''}"
  shows "claim_poll_lease i c token' ttl' later t = Inr (LOCKED, t) \<and>
    upsert_sync_cursor later i c v st l t =
      Inl (RuntimeError ''cannot overwrite sync cursor while an active poll lease is held'') \<and>
    finish_poll_lease i c token' st v l later t = Inr (False, t) \<and>
    (\<exists>u. finish_poll_lease i c token st v l later t = Inr (True, u))"
proof (intro conjI)
  have tok: "strip token \<noteq> []" using assms(3)
    by (auto simp: claim_poll_lease_def res_simps normalize_lease_token_def split: if_splits)
  have h: "held t k (strip token) (now + ttl)"
    unfolding assms(5) using assms(1-4) by (intro held_run claim_holds)
  show "claim_poll_lease i c token' ttl' later t = Inr (LOCKED, t)"
    using h assms by (intro held_locked)
  show "upsert_sync_cursor later i c v st l t =
           Inl (RuntimeError ''cannot overwrite sync cursor while an active poll lease is held'')"
    using h assms(2,6,10) by (auto simp: held_def upsert_sync_cursor_def Let_def lease_is_active_def split: option.splits)
  show "finish_poll_lease i c token' st v l later t = Inr (False, t)"
    using h assms by (intro held_stale_finish)
  show "\<exists>u. finish_poll_lease i c token st v l later t = Inr (True, u)"
    using held_finish [OF h assms(2) refl tok assms(10)] by blast
qed

definition demo_polls :: store where
  "demo_polls = empty_store\<lparr>connector_instances := [''halo-1'']\<rparr>"

definition demo_poll_ops :: "(time \<times> lease_op) list" where
  "demo_poll_ops = [(5, ClaimLease ''halo-1'' ''tickets'' ''b'' 50), (6, FinishLease ''halo-1'' ''tickets'' ''b'' ''idle'' None None)]"

theorem granted_lease_is_exclusive_witness:
  "\<exists>s1. claim_poll_lease ''halo-1'' ''tickets'' ''a'' 10 1 demo_polls = Inr (GRANTED, s1) \<and>
     claim_poll_lease ''halo-1'' ''tickets'' ''c'' 10 11 (run_ops lease_step demo_poll_ops s1)
       = Inr (LOCKED, run_ops lease_step demo_poll_ops s1) \<and>
     finish_poll_lease ''halo-1'' ''tickets'' ''c'' ''idle'' None None 11 (run_ops lease_step demo_poll_ops s1)
       = Inr (False, run_ops lease_step demo_poll_ops s1)"
proof -
  have ok: "cursors_ok demo_polls" by (simp add: cursors_ok_def demo_polls_def empty_store_def)
  have key: "normalized_key ''halo-1'' ''tickets'' = Inr (''halo-1'', ''tickets'')" by code_simp
  have "(case claim_poll_lease ''halo-1'' ''tickets'' ''a'' 10 1 demo_polls of Inr (r, s1) \<Rightarrow> r = GRANTED | Inl _ \<Rightarrow> False)"
    by code_simp
  then obtain s1 where claim: "claim_poll_lease ''halo-1'' ''tickets'' ''a'' 10 1 demo_polls = Inr (GRANTED, s1)"
    by (auto split: sum.splits)
  have ops: "list_all (leaves_lease (''halo-1'', ''tickets'') (strip ''a'') (1 + 10)) demo_poll_ops" by code_simp
  have strs: "strip ''c'' \<noteq> []" "strip ''c'' \<noteq> strip ''a''"
    "lower (strip ''idle'') \<in> {''idle'', ''degraded'', ''failed''}" by code_simp+
  note facts = granted_lease_is_exclusive [OF ok key claim ops refl _ strs(1,2) _ strs(3), of 11 10]
  show ?thesis using claim facts by simp
qed

end
