(* ===== verification/Graph_Search.thy ===== *)
theory Graph_Search
  imports Prelude
begin

text \<open>
  The two graph searches of the code, on adjacency dictionaries. \<open>dfs_visit\<close> is the recursive
  \<open>visit\<close> that \<open>workflow_designer._ensure_acyclic\<close> and \<open>supervisor._dependency_order\<close> share:
  the set \<open>visiting\<close> holds the nodes of the current call stack and is the argument \<open>path\<close>, the set
  \<open>visited\<close> is the list of finished nodes in the order they finish. \<open>reach_loop\<close> is the
  worklist of \<open>workflow_designer._reachable\<close>. Both are total: a node outside the dictionary
  raises, so the call stack holds distinct keys. The laws relate them to the transitive closure of
  the edge relation.
\<close>

record ('n, 'e) search =
  adjacency :: "('n \<times> 'n list) list"
  missing :: "'n \<Rightarrow> 'e"
  edge_check :: "'n \<Rightarrow> 'e option"
  cycle_error :: 'e

function dfs_visit :: "('n, 'e) search \<Rightarrow> 'n list \<Rightarrow> 'n \<Rightarrow> 'n list \<Rightarrow> 'e + 'n list"
  and dfs_children :: "('n, 'e) search \<Rightarrow> 'n list \<Rightarrow> 'n list \<Rightarrow> 'n list \<Rightarrow> 'e + 'n list" where
  "dfs_visit G path x order =
     (if x \<in> set path then Inl (cycle_error G)
      else if x \<in> set order then Inr order
      else (case map_of (adjacency G) x of
              None \<Rightarrow> Inl (missing G x)
            | Some children \<Rightarrow>
                rbind (dfs_children G (x # path) children order) (\<lambda>order'. Inr (order' @ [x]))))"
| "dfs_children G path [] order = Inr order"
| "dfs_children G path (c # cs) order =
     (case edge_check G c of
        Some e \<Rightarrow> Inl e
      | None \<Rightarrow> rbind (dfs_visit G path c order) (\<lambda>order'. dfs_children G path cs order'))"
  by pat_completeness auto
termination
proof (relation "measures [\<lambda>v. case v of Inl (G, path, x, order) \<Rightarrow> card (dom (map_of (adjacency G)) - set path)
                                | Inr (G, path, xs, order) \<Rightarrow> card (dom (map_of (adjacency G)) - set path),
                           \<lambda>v. case v of Inl _ \<Rightarrow> 0 | Inr (G, path, xs, order) \<Rightarrow> Suc (length xs)]", goal_cases)
  case (2 G path x order children)
  then have "dom (map_of (adjacency G)) - set (x # path) \<subset> dom (map_of (adjacency G)) - set path" by auto
  then show ?case by (simp add: psubset_card_mono finite_dom_map_of)
qed auto

text \<open>The outer loop: \<open>for node in roots: visit(node)\<close>.\<close>

fun dfs_roots :: "('n, 'e) search \<Rightarrow> 'n list \<Rightarrow> 'n list \<Rightarrow> 'e + 'n list" where
  "dfs_roots G [] order = Inr order"
| "dfs_roots G (x # xs) order = rbind (dfs_visit G [] x order) (\<lambda>order'. dfs_roots G xs order')"

text \<open>
  The worklist: \<open>pending.pop()\<close> takes the last element. A node outside the dictionary is a
  \<open>KeyError\<close>, here \<open>missing\<close>.
\<close>

function reach_loop :: "('n \<times> 'n list) list \<Rightarrow> ('n \<Rightarrow> 'e) \<Rightarrow> 'n list \<Rightarrow> 'n list \<Rightarrow> 'e + 'n list" where
  "reach_loop adj miss pending reached =
     (if pending = [] then Inr reached
      else let current = last pending; rest = butlast pending in
        if current \<in> set reached then reach_loop adj miss rest reached
        else (case map_of adj current of
                None \<Rightarrow> Inl (miss current)
              | Some children \<Rightarrow> reach_loop adj miss (rest @ children) (reached @ [current])))"
  by pat_completeness auto
termination
proof (relation "measures [\<lambda>(adj, miss, pending, reached). card (dom (map_of adj) - set reached),
                           \<lambda>(adj, miss, pending, reached). length pending]", goal_cases)
  case (3 adj miss pending reached current rest children)
  then have "dom (map_of adj) - set (reached @ [current]) \<subset> dom (map_of adj) - set reached" by auto
  then show ?case by (simp add: psubset_card_mono finite_dom_map_of)
qed auto

declare dfs_visit.simps [simp del] reach_loop.simps [simp del]

section \<open>Edges and orders\<close>

definition edges :: "('n \<times> 'n list) list \<Rightarrow> ('n \<times> 'n) set" where
  "edges adj = {(x, y). \<exists>ys. map_of adj x = Some ys \<and> y \<in> set ys}"

lemma edgesI: "map_of adj x = Some ys \<Longrightarrow> y \<in> set ys \<Longrightarrow> (x, y) \<in> edges adj"
  by (auto simp: edges_def)

text \<open>A list is in dependency order when every element comes once and after its successors.\<close>

fun ordered_from :: "('n \<times> 'n list) list \<Rightarrow> 'n list \<Rightarrow> 'n list \<Rightarrow> bool" where
  "ordered_from adj seen [] \<longleftrightarrow> True"
| "ordered_from adj seen (x # xs) \<longleftrightarrow> x \<notin> set seen \<and>
     (case map_of adj x of None \<Rightarrow> False | Some ys \<Rightarrow> set ys \<subseteq> set seen) \<and> ordered_from adj (seen @ [x]) xs"

definition dependency_ordered :: "('n \<times> 'n list) list \<Rightarrow> 'n list \<Rightarrow> bool" where
  "dependency_ordered adj xs = ordered_from adj [] xs"

lemma ordered_from_snoc:
  "ordered_from adj seen (xs @ [x]) \<longleftrightarrow> ordered_from adj seen xs \<and> x \<notin> set (seen @ xs) \<and>
     (case map_of adj x of None \<Rightarrow> False | Some ys \<Rightarrow> set ys \<subseteq> set (seen @ xs))"
  by (induction adj seen xs rule: ordered_from.induct) (auto split: option.splits)

lemma ordered_Nil [simp]: "dependency_ordered adj []"
  by (simp add: dependency_ordered_def)

lemma ordered_snoc:
  "dependency_ordered adj (xs @ [x]) \<longleftrightarrow> dependency_ordered adj xs \<and> x \<notin> set xs \<and>
     (\<exists>ys. map_of adj x = Some ys \<and> set ys \<subseteq> set xs)"
  by (auto simp: dependency_ordered_def ordered_from_snoc split: option.splits)

lemma ordered_prefix: "dependency_ordered adj (xs @ ys) \<Longrightarrow> dependency_ordered adj xs"
  by (induction ys rule: rev_induct) (auto simp: ordered_snoc simp flip: append_assoc)

lemma ordered_distinct: "dependency_ordered adj xs \<Longrightarrow> distinct xs"
  by (induction xs rule: rev_induct) (auto simp: ordered_snoc)

lemma ordered_before:
  "dependency_ordered adj zs \<Longrightarrow> zs = xs @ x # ys \<Longrightarrow> (x, y) \<in> edges adj \<Longrightarrow> y \<in> set xs"
proof (induction zs arbitrary: ys rule: rev_induct)
  case (snoc z zs)
  show ?case
  proof (cases ys rule: rev_cases)
    case Nil
    with snoc.prems show ?thesis by (auto simp: ordered_snoc edges_def)
  next
    case (snoc us u)
    with snoc.prems(2) have "zs = xs @ x # us" by simp
    moreover have "dependency_ordered adj zs" using snoc.prems(1) unfolding ordered_snoc by blast
    ultimately show ?thesis using snoc.IH snoc.prems(3) by blast
  qed
qed simp

lemma ordered_closed:
  "dependency_ordered adj zs \<Longrightarrow> x \<in> set zs \<Longrightarrow> (x, y) \<in> (edges adj)\<^sup>* \<Longrightarrow> y \<in> set zs"
proof (rotate_tac 2, induction rule: rtrancl_induct)
  case (step y z)
  then obtain xs ys where "zs = xs @ y # ys" by (meson split_list)
  with step show ?case using ordered_before by fastforce
qed

lemma ordered_no_cycle:
  assumes "dependency_ordered adj zs" "x \<in> set zs"
  shows "(x, x) \<notin> (edges adj)\<^sup>+"
proof
  assume cyc: "(x, x) \<in> (edges adj)\<^sup>+"
  have "y \<in> set zs \<longrightarrow> (y, y) \<in> (edges adj)\<^sup>+ \<longrightarrow> False" if "dependency_ordered adj zs" for y zs
    using that
  proof (induction zs arbitrary: y rule: rev_induct)
    case (snoc z zs)
    show ?case
    proof (intro impI)
      assume y: "y \<in> set (zs @ [z])" "(y, y) \<in> (edges adj)\<^sup>+"
      obtain w where w: "(y, w) \<in> edges adj" "(w, y) \<in> (edges adj)\<^sup>*"
        using y(2) by (meson tranclD)
      obtain as bs where split: "zs @ [z] = as @ y # bs" using y(1) by (meson split_list)
      have "w \<in> set as" using ordered_before [OF snoc.prems split w(1)] .
      moreover have "set as \<subseteq> set zs" using split by (cases bs rule: rev_cases) auto
      moreover have ord: "dependency_ordered adj zs" using snoc.prems by (simp add: ordered_snoc)
      ultimately have "w \<in> set zs" by blast
      moreover have "(w, w) \<in> (edges adj)\<^sup>+" using w by (meson rtrancl_into_trancl1)
      ultimately show False using snoc.IH [OF ord] by blast
    qed
  qed simp
  with assms cyc show False by blast
qed

section \<open>Depth-first search\<close>

text \<open>A search that returns has extended the order, and the order stays a dependency order.\<close>

definition extends_order :: "('n, 'e) search \<Rightarrow> 'n list \<Rightarrow> 'n list \<Rightarrow> 'n set \<Rightarrow> 'n list \<Rightarrow> bool" where
  "extends_order G path order starts order' \<longleftrightarrow>
     (\<exists>new. order' = order @ new \<and> set new \<inter> set path = {} \<and>
        (\<forall>z\<in>set new. \<exists>x\<in>starts. (x, z) \<in> (edges (adjacency G))\<^sup>*)) \<and>
     dependency_ordered (adjacency G) order' \<and> starts \<subseteq> set order'"

lemma dfs_sound:
  "dfs_visit G path x order = Inr order' \<Longrightarrow> dependency_ordered (adjacency G) order \<Longrightarrow>
     extends_order G path order {x} order'"
  "dfs_children G path xs order = Inr order' \<Longrightarrow> dependency_ordered (adjacency G) order \<Longrightarrow>
     extends_order G path order (set xs) order'"
proof (induction G path x order and G path xs order arbitrary: order' and order' rule: dfs_visit_dfs_children.induct)
  case (1 G path x order)
  show ?case
  proof (cases "x \<in> set order")
    case True
    with 1 have "order' = order" by (simp add: dfs_visit.simps split: if_splits)
    with True 1 show ?thesis by (auto simp: extends_order_def)
  next
    case False
    obtain ys ord where ys: "map_of (adjacency G) x = Some ys" "x \<notin> set path"
        "dfs_children G (x # path) ys order = Inr ord" "order' = ord @ [x]"
      using 1(2) False by (auto simp: dfs_visit.simps [of G path x] res_simps split: if_splits option.splits)
    have "extends_order G (x # path) order (set ys) ord" using 1 False ys by simp
    then obtain new where new: "ord = order @ new" "set new \<inter> set (x # path) = {}"
        "\<forall>z\<in>set new. \<exists>y\<in>set ys. (y, z) \<in> (edges (adjacency G))\<^sup>*" "dependency_ordered (adjacency G) ord" "set ys \<subseteq> set ord"
      by (auto simp: extends_order_def)
    have "(x, z) \<in> (edges (adjacency G))\<^sup>*" if z: "z \<in> set new" for z
      using new(3) z ys(1) by (meson edgesI converse_rtrancl_into_rtrancl)
    moreover have "dependency_ordered (adjacency G) order'" unfolding ys(4) ordered_snoc using new ys(1) False by auto
    ultimately show ?thesis using new ys by (auto simp: extends_order_def intro!: exI [of _ "new @ [x]"])
  qed
next
  case (2 G path order)
  then show ?case by (auto simp: extends_order_def)
next
  case (3 G path c cs order)
  then obtain ord where ord: "edge_check G c = None" "dfs_visit G path c order = Inr ord" "dfs_children G path cs ord = Inr order'"
    by (auto simp: res_simps split: option.splits)
  have a: "extends_order G path order {c} ord" using 3 ord by simp
  then have "dependency_ordered (adjacency G) ord" by (simp add: extends_order_def)
  with 3 ord have b: "extends_order G path ord (set cs) order'" by simp
  obtain n1 n2 where n: "ord = order @ n1" "order' = ord @ n2" "set n1 \<inter> set path = {}" "set n2 \<inter> set path = {}"
     "\<forall>z\<in>set n1. (c, z) \<in> (edges (adjacency G))\<^sup>*" "\<forall>z\<in>set n2. \<exists>x\<in>set cs. (x, z) \<in> (edges (adjacency G))\<^sup>*"
    using a b by (auto simp: extends_order_def)
  with a b show ?case by (auto simp: extends_order_def intro!: exI [of _ "n1 @ n2"])
qed

text \<open>
  An error names its cause, a node reachable from where the search stands: one on a cycle, one
  outside the dictionary, or one with an edge the check refuses.
\<close>

definition explained :: "('n, 'e) search \<Rightarrow> 'n set \<Rightarrow> 'e \<Rightarrow> bool" where
  "explained G starts e \<longleftrightarrow>
     (\<exists>x\<in>starts. \<exists>z. (x, z) \<in> (edges (adjacency G))\<^sup>* \<and>
        (e = cycle_error G \<and> (z, z) \<in> (edges (adjacency G))\<^sup>+ \<or>
         map_of (adjacency G) z = None \<and> e = missing G z \<or>
         (\<exists>w. (z, w) \<in> edges (adjacency G) \<and> edge_check G w = Some e)))"

lemma explained_mono:
  assumes "explained G starts e" "\<And>x. x \<in> starts \<Longrightarrow> \<exists>y\<in>starts'. (y, x) \<in> (edges (adjacency G))\<^sup>*"
  shows "explained G starts' e"
  using assms unfolding explained_def by (meson rtrancl_trans)

lemma dfs_complete:
  "dfs_visit G path x order = Inl e \<Longrightarrow> (\<forall>p\<in>set path. (p, x) \<in> (edges (adjacency G))\<^sup>+) \<Longrightarrow> explained G {x} e"
  "dfs_children G path xs order = Inl e \<Longrightarrow> path \<noteq> [] \<Longrightarrow> (\<forall>c\<in>set xs. (hd path, c) \<in> edges (adjacency G)) \<Longrightarrow>
     (\<forall>p\<in>set path. \<forall>c\<in>set xs. (p, c) \<in> (edges (adjacency G))\<^sup>+) \<Longrightarrow> explained G {hd path} e"
proof (induction G path x order and G path xs order rule: dfs_visit_dfs_children.induct)
  case (1 G path x order)
  show ?case
  proof (cases "x \<in> set path \<or> map_of (adjacency G) x = None")
    case True
    with 1(2,3) show ?thesis
      by (auto simp: dfs_visit.simps explained_def split: if_splits option.splits)
  next
    case False
    then obtain ys where ys: "map_of (adjacency G) x = Some ys" by auto
    with 1(2) False have err: "dfs_children G (x # path) ys order = Inl e" "x \<notin> set order"
      by (auto simp: dfs_visit.simps [of G path x] res_simps split: if_splits)
    have "\<forall>c\<in>set ys. (x, c) \<in> edges (adjacency G)" using ys by (auto intro: edgesI)
    with 1(3) have "\<forall>p\<in>set (x # path). \<forall>c\<in>set ys. (p, c) \<in> (edges (adjacency G))\<^sup>+"
      by (auto intro: trancl_into_trancl)
    with 1(1) False ys err show ?thesis by (auto intro: edgesI)
  qed
next
  case (2 G path order)
  then show ?case by simp
next
  case (3 G path c cs order)
  show ?case
  proof (cases "edge_check G c")
    case (Some e')
    with 3 show ?thesis by (auto simp: explained_def)
  next
    case None
    show ?thesis
    proof (cases "dfs_visit G path c order")
      case (Inl e')
      with 3 None have "explained G {c} e" by auto
      then show ?thesis using 3(5) by (auto elim: explained_mono)
    next
      case (Inr ord)
      with 3 None show ?thesis by simp
    qed
  qed
qed

lemma dfs_roots_sound:
  "dfs_roots G xs order = Inr order' \<Longrightarrow> dependency_ordered (adjacency G) order \<Longrightarrow>
     extends_order G [] order (set xs) order'"
proof (induction G xs order rule: dfs_roots.induct)
  case (2 G x xs order)
  then obtain ord where ord: "dfs_visit G [] x order = Inr ord" "dfs_roots G xs ord = Inr order'"
    by (auto simp: res_simps)
  have a: "extends_order G [] order {x} ord" using dfs_sound(1) ord(1) 2(3) .
  then have b: "extends_order G [] ord (set xs) order'" using 2 ord by (simp add: extends_order_def)
  obtain n1 n2 where "ord = order @ n1" "order' = ord @ n2"
     "\<forall>z\<in>set n1. (x, z) \<in> (edges (adjacency G))\<^sup>*" "\<forall>z\<in>set n2. \<exists>x\<in>set xs. (x, z) \<in> (edges (adjacency G))\<^sup>*"
    using a b by (auto simp: extends_order_def)
  with a b show ?case by (auto simp: extends_order_def intro!: exI [of _ "n1 @ n2"])
qed (auto simp: extends_order_def)

lemma dfs_roots_complete: "dfs_roots G xs order = Inl e \<Longrightarrow> explained G (set xs) e"
proof (induction G xs order rule: dfs_roots.induct)
  case (2 G x xs order)
  show ?case
  proof (cases "dfs_visit G [] x order")
    case (Inl e')
    with 2 have "explained G {x} e" using dfs_complete(1) [of G "[]" x order e] by simp
    then show ?thesis by (auto elim: explained_mono)
  next
    case (Inr ord)
    with 2 have "explained G (set xs) e" by simp
    then show ?thesis by (auto elim: explained_mono)
  qed
qed simp

text \<open>Every node a search adds is one of its roots or passed the check of an edge into it.\<close>

lemma dfs_checked:
  "dfs_visit G path x order = Inr order' \<Longrightarrow> z \<in> set order' - set order \<Longrightarrow> z = x \<or> edge_check G z = None"
  "dfs_children G path xs order = Inr order' \<Longrightarrow> z \<in> set order' - set order \<Longrightarrow> edge_check G z = None"
proof (induction G path x order and G path xs order arbitrary: order' and order' rule: dfs_visit_dfs_children.induct)
  case (1 G path x order)
  show ?case
  proof (cases "x \<in> set order")
    case True
    with 1(2,3) show ?thesis by (simp add: dfs_visit.simps split: if_splits)
  next
    case False
    then obtain ys ord where "map_of (adjacency G) x = Some ys" "x \<notin> set path"
        "dfs_children G (x # path) ys order = Inr ord" "order' = ord @ [x]"
      using 1(2) by (auto simp: dfs_visit.simps [of G path x] res_simps split: if_splits option.splits)
    with False 1(1) [of ys ord] 1(3) show ?thesis by auto
  qed
next
  case (3 G path c cs order)
  then obtain ord where ord: "edge_check G c = None" "dfs_visit G path c order = Inr ord" "dfs_children G path cs ord = Inr order'"
    by (auto simp: res_simps split: option.splits)
  with 3(1,2) [OF ord(1)] 3(4) show ?case by (cases "z \<in> set ord") auto
qed simp

lemma dfs_roots_checked:
  "dfs_roots G xs order = Inr order' \<Longrightarrow> z \<in> set order' - set order \<Longrightarrow> z \<in> set xs \<or> edge_check G z = None"
proof (induction G xs order rule: dfs_roots.induct)
  case (2 G x xs order)
  then obtain ord where ord: "dfs_visit G [] x order = Inr ord" "dfs_roots G xs ord = Inr order'"
    by (auto simp: res_simps)
  show ?case
  proof (cases "z \<in> set ord")
    case True
    with dfs_checked(1) [OF ord(1), of z] 2(3) show ?thesis by auto
  next
    case False
    with 2 ord show ?thesis by auto
  qed
qed simp

section \<open>Reachability\<close>

lemma reach_loop_sound:
  "reach_loop adj miss pending reached = Inr r \<Longrightarrow>
     (\<forall>x\<in>set reached. \<forall>y. (x, y) \<in> edges adj \<longrightarrow> y \<in> set reached \<union> set pending) \<Longrightarrow> distinct reached \<Longrightarrow>
     distinct r \<and> set reached \<union> set pending \<subseteq> set r \<and> (\<forall>x\<in>set r. \<forall>y. (x, y) \<in> edges adj \<longrightarrow> y \<in> set r) \<and>
     (\<forall>z\<in>set r. z \<in> set reached \<or> (\<exists>p\<in>set pending. (p, z) \<in> (edges adj)\<^sup>*))"
proof (induction adj miss pending reached rule: reach_loop.induct)
  case (1 adj miss pending reached)
  show ?case
  proof (cases pending rule: rev_cases)
    case Nil
    with 1(3-5) show ?thesis by (simp add: reach_loop.simps [of adj miss "[]"])
  next
    case (snoc rest c)
    show ?thesis
    proof (cases "c \<in> set reached")
      case True
      with 1(3) snoc have run: "reach_loop adj miss rest reached = Inr r" by (simp add: reach_loop.simps [of adj miss "rest @ [c]"])
      have "distinct r \<and> set reached \<union> set rest \<subseteq> set r \<and> (\<forall>x\<in>set r. \<forall>y. (x, y) \<in> edges adj \<longrightarrow> y \<in> set r) \<and>
         (\<forall>z\<in>set r. z \<in> set reached \<or> (\<exists>p\<in>set rest. (p, z) \<in> (edges adj)\<^sup>*))"
        by (rule 1(1)) (use run 1(4,5) snoc True in auto)
      with snoc True show ?thesis by auto
    next
      case False
      then obtain ys where ys: "map_of adj c = Some ys" "reach_loop adj miss (rest @ ys) (reached @ [c]) = Inr r"
        using 1(3) snoc by (auto simp: reach_loop.simps [of adj miss "rest @ [c]"] split: option.splits)
      have step: "(c, y) \<in> edges adj \<longleftrightarrow> y \<in> set ys" for y using ys(1) by (auto simp: edges_def)
      have IH: "distinct r \<and> set (reached @ [c]) \<union> set (rest @ ys) \<subseteq> set r \<and> (\<forall>x\<in>set r. \<forall>y. (x, y) \<in> edges adj \<longrightarrow> y \<in> set r) \<and>
        (\<forall>z\<in>set r. z \<in> set (reached @ [c]) \<or> (\<exists>p\<in>set (rest @ ys). (p, z) \<in> (edges adj)\<^sup>*))"
      proof (rule 1(2))
        show "\<forall>x\<in>set (reached @ [c]). \<forall>y. (x, y) \<in> edges adj \<longrightarrow> y \<in> set (reached @ [c]) \<union> set (rest @ ys)"
          using 1(4) snoc step by fastforce
      qed (use 1(5) ys False snoc in auto)
      have "(c, z) \<in> (edges adj)\<^sup>*" if "p \<in> set ys" "(p, z) \<in> (edges adj)\<^sup>*" for p z
        using step that by (meson converse_rtrancl_into_rtrancl)
      with IH snoc show ?thesis by auto
    qed
  qed
qed

lemma reach_loop_correct:
  assumes "reach_loop adj miss [start] [] = Inr r"
  shows "distinct r \<and> set r = {z. (start, z) \<in> (edges adj)\<^sup>*}"
proof -
  have r: "distinct r" "start \<in> set r" "\<forall>x\<in>set r. \<forall>y. (x, y) \<in> edges adj \<longrightarrow> y \<in> set r"
      "\<forall>z\<in>set r. (start, z) \<in> (edges adj)\<^sup>*"
    using reach_loop_sound [OF assms] by auto
  have "z \<in> set r" if "(start, z) \<in> (edges adj)\<^sup>*" for z
    using that r(2,3) by (induction rule: rtrancl_induct) auto
  then have "{z. (start, z) \<in> (edges adj)\<^sup>*} \<subseteq> set r" by blast
  moreover have "set r \<subseteq> {z. (start, z) \<in> (edges adj)\<^sup>*}" using r(4) by blast
  ultimately show ?thesis using r(1) by blast
qed

lemma reach_loop_total:
  assumes "\<forall>x\<in>dom (map_of adj). \<forall>y. (x, y) \<in> edges adj \<longrightarrow> y \<in> dom (map_of adj)"
    "set pending \<subseteq> dom (map_of adj)"
  shows "\<exists>r. reach_loop adj miss pending reached = Inr r"
  using assms
proof (induction adj miss pending reached rule: reach_loop.induct)
  case (1 adj miss pending reached)
  show ?case
  proof (cases pending rule: rev_cases)
    case Nil
    then show ?thesis by (simp add: reach_loop.simps [of adj miss "[]"])
  next
    case (snoc rest c)
    with 1(4) obtain ys where ys: "map_of adj c = Some ys" by auto
    with 1(3) have "set ys \<subseteq> dom (map_of adj)" by (auto simp: edges_def)
    show ?thesis
    proof (cases "c \<in> set reached")
      case True
      have "\<exists>r. reach_loop adj miss rest reached = Inr r"
        by (rule 1(1)) (use True 1(3,4) snoc in auto)
      with True snoc show ?thesis by (simp add: reach_loop.simps [of adj miss "rest @ [c]"])
    next
      case False
      have "\<exists>r. reach_loop adj miss (rest @ ys) (reached @ [c]) = Inr r"
        by (rule 1(2)) (use False 1(3,4) snoc ys \<open>set ys \<subseteq> dom (map_of adj)\<close> in auto)
      with False snoc ys show ?thesis by (simp add: reach_loop.simps [of adj miss "rest @ [c]"])
    qed
  qed
qed

end
