(* ===== verification/Workflow_Designer.thy ===== *)
theory Workflow_Designer
  imports Graph_Search Store_Model
begin

text \<open>
  The workflow graph definitions of \<open>workflow_designer.py\<close>: \<open>normalize_workflow_design\<close> with its
  field checks, \<open>_ensure_acyclic\<close>, \<open>_reachable\<close> and \<open>default_workflow_design\<close>. A node that passed
  the field checks is a record, and \<open>design_value\<close> is the dictionary the code returns for the nodes
  and edges. The code iterates over a set of node identifiers where this model has the order of
  the nodes; the laws show that the outcome does not depend on it, since acceptance is equivalent to
  a property of the graph.
\<close>

definition MAX_WORKFLOW_DESIGN_NODES :: nat where "MAX_WORKFLOW_DESIGN_NODES = 32"
definition MAX_WORKFLOW_DESIGN_EDGES :: nat where "MAX_WORKFLOW_DESIGN_EDGES = 64"
definition MAX_WORKFLOW_DESIGN_LABEL :: nat where "MAX_WORKFLOW_DESIGN_LABEL = 160"
definition MAX_WORKFLOW_DESIGN_TOOL_ID :: nat where "MAX_WORKFLOW_DESIGN_TOOL_ID = 160"
definition MAX_WORKFLOW_DESIGN_CONFIG_BYTES :: int where "MAX_WORKFLOW_DESIGN_CONFIG_BYTES = 8 * 1024"

definition NODE_TYPES :: "string list" where
  "NODE_TYPES = [''trigger'', ''action'', ''approval'', ''condition'', ''knowledge'', ''connector'', ''notification'', ''end'']"

record wf_node =
  wn_id :: string
  wn_type :: string
  wn_label :: string
  wn_tool :: "string option"
  wn_config :: pyval

section \<open>Fields\<close>

text \<open>\<open>_text\<close>: non-blank text, bounded after stripping, without control characters but tab and newline.\<close>

fun wf_text :: "pyval \<Rightarrow> string \<Rightarrow> nat \<Rightarrow> string res" where
  "wf_text (PStr value) field limit =
     (let normalized = strip value in
      rbind (raise_if (normalized = []) (WorkflowDesignError (field @ '' must be non-empty text''))) (\<lambda>_.
      rbind (raise_if (length normalized > limit)
               (WorkflowDesignError (field @ '' exceeds '' @ show_nat limit @ '' characters''))) (\<lambda>_.
      rbind (raise_if (list_ex (\<lambda>c. (of_char c :: nat) < 32 \<and> (of_char c :: nat) \<noteq> 9 \<and> (of_char c :: nat) \<noteq> 10) normalized)
               (WorkflowDesignError (field @ '' contains unsupported control characters''))) (\<lambda>_.
      Inr normalized))))"
| "wf_text _ field limit = Inl (WorkflowDesignError (field @ '' must be non-empty text''))"

definition id_head :: "char \<Rightarrow> bool" where
  "id_head c = (let n = (of_char c :: nat) in (97 \<le> n \<and> n \<le> 122) \<or> (48 \<le> n \<and> n \<le> 57))"

definition id_tail :: "char \<Rightarrow> bool" where
  "id_tail c = (id_head c \<or> c \<in> set ''_.:-'')"

text \<open>\<open>_NODE_ID\<close>, a full match.\<close>

definition NODE_ID :: "string \<Rightarrow> bool" where
  "NODE_ID t = (case t of [] \<Rightarrow> False | c # cs \<Rightarrow> id_head c \<and> length cs \<le> 63 \<and> list_all id_tail cs)"

definition wf_identifier :: "pyval \<Rightarrow> string \<Rightarrow> string res" where
  "wf_identifier value field =
     rbind (wf_text value field 64) (\<lambda>normalized.
     if NODE_ID normalized then Inr normalized
     else Inl (WorkflowDesignError (field @ '' must be a lowercase identifier'')))"

definition node_field :: "nat \<Rightarrow> string \<Rightarrow> string" where
  "node_field index name = ''workflow node '' @ show_nat index @ name"

definition edge_field :: "nat \<Rightarrow> string \<Rightarrow> string" where
  "edge_field index name = ''workflow edge '' @ show_nat index @ name"

section \<open>Nodes and edges\<close>

text \<open>One iteration of the loop over \<open>raw_nodes\<close>; \<open>node_ids\<close> are the identifiers seen before.\<close>

fun normalize_node :: "env \<Rightarrow> nat \<Rightarrow> string list \<Rightarrow> pyval \<Rightarrow> wf_node res" where
  "normalize_node E index node_ids (PDict raw) =
     rbind (raise_if (\<not> set (dkeys raw) \<subseteq> {''id'', ''type'', ''label'', ''tool_id'', ''config''})
              (WorkflowDesignError (node_field index '' contains unsupported fields''))) (\<lambda>_.
     rbind (wf_identifier (dget_or raw ''id'' PNone) (node_field index ''.id'')) (\<lambda>node_id.
     rbind (raise_if (node_id \<in> set node_ids)
              (WorkflowDesignError (''workflow node ids must be unique: '' @ node_id))) (\<lambda>_.
     rbind (case dget_or raw ''type'' PNone of
              PStr t \<Rightarrow> (if t \<in> set NODE_TYPES then Inr t
                         else Inl (WorkflowDesignError (node_field index ''.type is unsupported'')))
            | _ \<Rightarrow> Inl (WorkflowDesignError (node_field index ''.type is unsupported''))) (\<lambda>node_type.
     rbind (wf_text (dget_or raw ''label'' PNone) (node_field index ''.label'') MAX_WORKFLOW_DESIGN_LABEL) (\<lambda>label.
     rbind (case dget_or raw ''tool_id'' PNone of
              PNone \<Rightarrow> Inr None
            | t \<Rightarrow> rbind (wf_text t (node_field index ''.tool_id'') MAX_WORKFLOW_DESIGN_TOOL_ID) (\<lambda>s. Inr (Some s))) (\<lambda>tool_id.
     rbind (raise_if (\<not> is_dict (dget_or raw ''config'' (PDict [])))
              (WorkflowDesignError (node_field index ''.config must be an object''))) (\<lambda>_.
     let safe_config = redact_value E (dget_or raw ''config'' (PDict [])) in
     rbind (raise_if (int (length (json_text safe_config)) > MAX_WORKFLOW_DESIGN_CONFIG_BYTES)
              (WorkflowDesignError (node_field index ''.config is too large''))) (\<lambda>_.
     Inr \<lparr>wn_id = node_id, wn_type = node_type, wn_label = redact E label,
          wn_tool = map_option (redact E) tool_id, wn_config = safe_config\<rparr>))))))))"
| "normalize_node E index node_ids _ =
     Inl (WorkflowDesignError (node_field index '' must be an object''))"

fun normalize_nodes :: "env \<Rightarrow> nat \<Rightarrow> string list \<Rightarrow> pyval list \<Rightarrow> wf_node list res" where
  "normalize_nodes E index node_ids [] = Inr []"
| "normalize_nodes E index node_ids (raw # rest) =
     rbind (normalize_node E index node_ids raw) (\<lambda>node.
     rbind (normalize_nodes E (Suc index) (node_ids @ [wn_id node]) rest) (\<lambda>nodes. Inr (node # nodes)))"

fun normalize_edge :: "nat \<Rightarrow> string list \<Rightarrow> (string \<times> string) list \<Rightarrow> pyval \<Rightarrow> (string \<times> string) res" where
  "normalize_edge index node_ids edge_pairs (PDict raw) =
     rbind (raise_if (set (dkeys raw) \<noteq> {''from'', ''to''})
              (WorkflowDesignError (edge_field index '' must contain only from and to''))) (\<lambda>_.
     rbind (wf_identifier (dget_or raw ''from'' PNone) (edge_field index ''.from'')) (\<lambda>source.
     rbind (wf_identifier (dget_or raw ''to'' PNone) (edge_field index ''.to'')) (\<lambda>target.
     rbind (raise_if (source \<notin> set node_ids \<or> target \<notin> set node_ids)
              (WorkflowDesignError (edge_field index '' references an unknown node''))) (\<lambda>_.
     rbind (raise_if (source = target) (WorkflowDesignError ''workflow edges cannot point to the same node'')) (\<lambda>_.
     rbind (raise_if ((source, target) \<in> set edge_pairs) (WorkflowDesignError ''workflow edges must be unique'')) (\<lambda>_.
     Inr (source, target)))))))"
| "normalize_edge index node_ids edge_pairs _ =
     Inl (WorkflowDesignError (edge_field index '' must contain only from and to''))"

fun normalize_edges :: "nat \<Rightarrow> string list \<Rightarrow> (string \<times> string) list \<Rightarrow> pyval list \<Rightarrow> (string \<times> string) list res" where
  "normalize_edges index node_ids edge_pairs [] = Inr []"
| "normalize_edges index node_ids edge_pairs (raw # rest) =
     rbind (normalize_edge index node_ids edge_pairs raw) (\<lambda>e.
     rbind (normalize_edges (Suc index) node_ids (edge_pairs @ [e]) rest) (\<lambda>es. Inr (e # es)))"

section \<open>Graph checks\<close>

definition graph_adjacency :: "string list \<Rightarrow> (string \<times> string) list \<Rightarrow> (string \<times> string list) list" where
  "graph_adjacency node_ids es = map (\<lambda>i. (i, map snd (filter (\<lambda>e. fst e = i) es))) node_ids"

definition graph_reverse :: "string list \<Rightarrow> (string \<times> string list) list \<Rightarrow> (string \<times> string list) list" where
  "graph_reverse node_ids adj =
     map (\<lambda>i. (i, concat (map (\<lambda>(source, targets). map (\<lambda>_. source) (filter (\<lambda>t. t = i) targets)) adj))) node_ids"

definition ensure_acyclic :: "(string \<times> string list) list \<Rightarrow> unit res" where
  "ensure_acyclic adj =
     rbind (dfs_roots \<lparr>adjacency = adj, missing = KeyError, edge_check = (\<lambda>_. None),
              cycle_error = WorkflowDesignError ''workflow graph must not contain cycles''\<rparr> (map fst adj) []) (\<lambda>_. Inr ())"

definition reachable :: "(string \<times> string list) list \<Rightarrow> string \<Rightarrow> string list res" where
  "reachable adj start = reach_loop adj KeyError [start] []"

definition node_value :: "wf_node \<Rightarrow> pyval" where
  "node_value n = PDict [(''id'', PStr (wn_id n)), (''type'', PStr (wn_type n)), (''label'', PStr (wn_label n)),
     (''tool_id'', opt_str (wn_tool n)), (''config'', wn_config n)]"

definition edge_value :: "string \<times> string \<Rightarrow> pyval" where
  "edge_value e = PDict [(''from'', PStr (fst e)), (''to'', PStr (snd e))]"

definition design_value :: "wf_node list \<Rightarrow> (string \<times> string) list \<Rightarrow> pyval" where
  "design_value nodes es = PDict [(''format'', PStr ''wait-local-agent.workflow-design''), (''version'', PInt 1),
     (''nodes'', PList (map node_value nodes)), (''edges'', PList (map edge_value es))]"

definition count_type :: "string \<Rightarrow> wf_node list \<Rightarrow> nat" where
  "count_type t nodes = length (filter (\<lambda>n. wn_type n = t) nodes)"

definition first_of_type :: "string \<Rightarrow> wf_node list \<Rightarrow> string" where
  "first_of_type t nodes = (case find (\<lambda>n. wn_type n = t) nodes of Some n \<Rightarrow> wn_id n | None \<Rightarrow> [])"

text \<open>The checks on the whole graph, in the order of the code.\<close>

definition check_graph :: "wf_node list \<Rightarrow> (string \<times> string) list \<Rightarrow> pyval res" where
  "check_graph nodes es =
     (let node_ids = map wn_id nodes; adj = graph_adjacency node_ids es in
      rbind (ensure_acyclic adj) (\<lambda>_.
      rbind (reachable adj (first_of_type ''trigger'' nodes)) (\<lambda>reached.
      rbind (raise_if (length reached \<noteq> length node_ids)
               (WorkflowDesignError ''every workflow node must be reachable from the trigger'')) (\<lambda>_.
      rbind (reachable (graph_reverse node_ids adj) (first_of_type ''end'' nodes)) (\<lambda>leading.
      rbind (raise_if (length leading \<noteq> length node_ids)
               (WorkflowDesignError ''every workflow node must lead to the end node'')) (\<lambda>_.
      Inr (design_value nodes es)))))))"

fun normalize_workflow_design :: "env \<Rightarrow> pyval \<Rightarrow> pyval res" where
  "normalize_workflow_design E (PDict payload) =
     (let unknown = sort (remdups (filter (\<lambda>k. k \<notin> {''format'', ''version'', ''nodes'', ''edges''}) (dkeys payload))) in
      rbind (raise_if (unknown \<noteq> [])
               (WorkflowDesignError (''unsupported workflow definition fields: '' @ join '', '' unknown))) (\<lambda>_.
      rbind (raise_if (\<not> py_eq (dget_or payload ''format'' PNone) (PStr ''wait-local-agent.workflow-design''))
               (WorkflowDesignError ''workflow definition format is invalid'')) (\<lambda>_.
      rbind (raise_if (\<not> py_eq (dget_or payload ''version'' PNone) (PInt 1))
               (WorkflowDesignError ''workflow definition version is unsupported'')) (\<lambda>_.
      rbind (case dget_or payload ''nodes'' PNone of
               PList ns \<Rightarrow> (if ns = [] then Inl (WorkflowDesignError ''workflow definition nodes must be a non-empty array'')
                            else Inr ns)
             | _ \<Rightarrow> Inl (WorkflowDesignError ''workflow definition nodes must be a non-empty array'')) (\<lambda>raw_nodes.
      rbind (raise_if (length raw_nodes > MAX_WORKFLOW_DESIGN_NODES)
               (WorkflowDesignError ''workflow definition may contain at most 32 nodes'')) (\<lambda>_.
      rbind (case dget_or payload ''edges'' PNone of
               PList es \<Rightarrow> (if length es > MAX_WORKFLOW_DESIGN_EDGES
                            then Inl (WorkflowDesignError ''workflow definition may contain 0-64 edges'') else Inr es)
             | _ \<Rightarrow> Inl (WorkflowDesignError ''workflow definition may contain 0-64 edges'')) (\<lambda>raw_edges.
      rbind (normalize_nodes E 0 [] raw_nodes) (\<lambda>nodes.
      rbind (raise_if (count_type ''trigger'' nodes \<noteq> 1)
               (WorkflowDesignError ''workflow definition requires exactly one trigger node'')) (\<lambda>_.
      rbind (raise_if (count_type ''end'' nodes \<noteq> 1)
               (WorkflowDesignError ''workflow definition requires exactly one end node'')) (\<lambda>_.
      rbind (normalize_edges 0 (map wn_id nodes) [] raw_edges) (\<lambda>es.
      check_graph nodes es)))))))))))"
| "normalize_workflow_design E _ = Inl (WorkflowDesignError ''workflow definition must be an object'')"

text \<open>\<open>WorkflowTemplate\<close> (\<open>models.py\<close>).\<close>

record workflow_template =
  wt_id :: string
  wt_name :: string
  wt_trigger :: string
  wt_description :: string
  wt_action :: string
  wt_approval :: bool
  wt_risk :: string
  wt_preview :: "string list"
  wt_tool :: "string option"
  wt_schema :: pydict

definition default_nodes :: "workflow_template \<Rightarrow> wf_node list" where
  "default_nodes t =
     [\<lparr>wn_id = ''trigger'', wn_type = ''trigger'', wn_label = wt_trigger t, wn_tool = None, wn_config = PDict []\<rparr>,
      \<lparr>wn_id = ''action'', wn_type = ''action'', wn_label = wt_name t, wn_tool = wt_tool t, wn_config = PDict []\<rparr>] @
     (if wt_approval t
      then [\<lparr>wn_id = ''approval'', wn_type = ''approval'', wn_label = ''Human approval'', wn_tool = None, wn_config = PDict []\<rparr>]
      else []) @
     [\<lparr>wn_id = ''end'', wn_type = ''end'', wn_label = ''Complete'', wn_tool = None, wn_config = PDict []\<rparr>]"

definition default_edges :: "workflow_template \<Rightarrow> (string \<times> string) list" where
  "default_edges t =
     (if wt_approval t then [(''trigger'', ''action''), (''action'', ''approval''), (''approval'', ''end'')]
      else [(''trigger'', ''action''), (''action'', ''end'')])"

definition default_workflow_design :: "env \<Rightarrow> workflow_template \<Rightarrow> pyval res" where
  "default_workflow_design E t = normalize_workflow_design E (design_value (default_nodes t) (default_edges t))"

end
