(* ===== verification/Workflow_Laws.thy ===== *)
theory Workflow_Laws
  imports Workflow_Designer Redaction_Laws
begin

text \<open>
  Acceptance of a workflow design is a property of its graph: a design is accepted exactly when
  it is a directed acyclic graph in which every node lies on a path from the one trigger to the one
  end node.
\<close>

section \<open>The specification\<close>

definition flow_graph :: "wf_node list \<Rightarrow> (string \<times> string) list \<Rightarrow> bool" where
  "flow_graph nodes es \<longleftrightarrow>
     distinct (map wn_id nodes) \<and> distinct es \<and> set es \<subseteq> (wn_id ` set nodes) \<times> (wn_id ` set nodes) \<and> acyclic (set es) \<and>
     (\<exists>t e. filter (\<lambda>n. wn_type n = ''trigger'') nodes = [t] \<and> filter (\<lambda>n. wn_type n = ''end'') nodes = [e] \<and>
        (\<forall>n\<in>set nodes. (wn_id t, wn_id n) \<in> (set es)\<^sup>* \<and> (wn_id n, wn_id e) \<in> (set es)\<^sup>*))"

definition clean_text :: "nat \<Rightarrow> string \<Rightarrow> bool" where
  "clean_text limit t \<longleftrightarrow> strip t = t \<and> t \<noteq> [] \<and> length t \<le> limit \<and>
     list_all (\<lambda>c. (of_char c :: nat) \<ge> 32 \<or> (of_char c :: nat) = 9 \<or> (of_char c :: nat) = 10) t"

text \<open>A node in normal form: its fields pass the checks and redaction has nothing left to hide.\<close>

definition node_ok :: "env \<Rightarrow> wf_node \<Rightarrow> bool" where
  "node_ok E n \<longleftrightarrow> NODE_ID (wn_id n) \<and> wn_type n \<in> set NODE_TYPES \<and>
     clean_text MAX_WORKFLOW_DESIGN_LABEL (wn_label n) \<and> redact E (wn_label n) = wn_label n \<and>
     (case wn_tool n of None \<Rightarrow> True | Some t \<Rightarrow> clean_text MAX_WORKFLOW_DESIGN_TOOL_ID t \<and> redact E t = t) \<and>
     is_dict (wn_config n) \<and> redact_value E (wn_config n) = wn_config n \<and>
     int (length (json_text (wn_config n))) \<le> MAX_WORKFLOW_DESIGN_CONFIG_BYTES"

section \<open>Fields\<close>

lemma strip_id: "list_all (\<lambda>c. \<not> py_space c) t \<Longrightarrow> strip t = t"
proof (cases t)
  case (Cons c cs)
  assume a: "list_all (\<lambda>c. \<not> py_space c) t"
  have "lstrip t = t" using a Cons by (simp add: lstrip_def)
  moreover have "rstrip t = t"
  proof (cases "rev t")
    case (Cons d ds)
    then have "d \<in> set t" by (metis list.set_intros(1) set_rev)
    then have "\<not> py_space d" using a by (simp add: list_all_iff)
    then have "dropWhile py_space (rev t) = rev t" using Cons by simp
    then show ?thesis by (simp add: rstrip_def)
  qed (simp add: rstrip_def)
  ultimately show ?thesis by (simp add: strip_def)
qed simp

lemma id_char: "id_tail c \<Longrightarrow> \<not> py_space c \<and> (of_char c :: nat) \<ge> 32"
  by (auto simp: id_tail_def id_head_def py_space_def Let_def)

lemma NODE_ID_clean: assumes "NODE_ID t" shows "clean_text 64 t"
proof -
  have t: "list_all id_tail t" "t \<noteq> []" "length t \<le> 64"
    using assms by (auto simp: NODE_ID_def id_tail_def split: list.splits)
  then have "strip t = t" by (intro strip_id) (auto simp: list_all_iff dest: id_char)
  with t show ?thesis by (auto simp: clean_text_def list_all_iff dest: id_char)
qed

lemma wf_text_clean: "clean_text limit t \<Longrightarrow> wf_text (PStr t) field limit = Inr t"
  by (force simp: clean_text_def Let_def list_all_iff list_ex_iff raise_if_def)

lemma wf_identifier_id: "NODE_ID t \<Longrightarrow> wf_identifier (PStr t) field = Inr t"
  using wf_text_clean [OF NODE_ID_clean] by (simp add: wf_identifier_def)

lemma wf_identifier_Inr: "wf_identifier v field = Inr t \<Longrightarrow> NODE_ID t"
  by (auto simp: wf_identifier_def res_simps split: if_splits)

section \<open>Nodes and edges\<close>

lemma node_type_Inr:
  "(case v of PStr t \<Rightarrow> (if t \<in> set NODE_TYPES then Inr t else Inl e) | _ \<Rightarrow> Inl e) = Inr ty \<Longrightarrow> ty \<in> set NODE_TYPES"
  by (cases v) (auto split: if_splits)

lemma normalize_node_Inr:
  assumes "normalize_node E i seen raw = Inr n"
  shows "NODE_ID (wn_id n) \<and> wn_id n \<notin> set seen \<and> wn_type n \<in> set NODE_TYPES"
proof (cases raw)
  case (PDict d)
  obtain node_id ty lb tl where a: "wf_identifier (dget_or d ''id'' PNone) (node_field i ''.id'') = Inr node_id" "node_id \<notin> set seen"
      and b: "(case dget_or d ''type'' PNone of
              PStr t \<Rightarrow> (if t \<in> set NODE_TYPES then Inr t
                         else Inl (WorkflowDesignError (node_field i ''.type is unsupported'')))
            | _ \<Rightarrow> Inl (WorkflowDesignError (node_field i ''.type is unsupported''))) = Inr ty"
      and c: "Inr \<lparr>wn_id = node_id, wn_type = ty, wn_label = redact E lb, wn_tool = map_option (redact E) tl,
            wn_config = redact_value E (dget_or d ''config'' (PDict []))\<rparr> = (Inr n :: wf_node res)"
    using assms unfolding PDict normalize_node.simps Let_def by (simp only: rbind_Inr_iff raise_if_Inr_iff) blast
  from c have "wn_id n = node_id" "wn_type n = ty" by auto
  with a wf_identifier_Inr [OF a(1)] node_type_Inr [OF b] show ?thesis by simp
qed (use assms in auto)

lemma normalize_nodes_Inr:
  "normalize_nodes E i seen raws = Inr nodes \<Longrightarrow>
     length nodes = length raws \<and> distinct (map wn_id nodes) \<and> wn_id ` set nodes \<inter> set seen = {} \<and>
     (\<forall>n\<in>set nodes. NODE_ID (wn_id n) \<and> wn_type n \<in> set NODE_TYPES)"
proof (induction E i seen raws arbitrary: nodes rule: normalize_nodes.induct)
  case (2 E i seen raw rest)
  then obtain n ns where n: "normalize_node E i seen raw = Inr n" "nodes = n # ns"
      "normalize_nodes E (Suc i) (seen @ [wn_id n]) rest = Inr ns"
    by (auto simp: res_simps)
  with normalize_node_Inr [OF n(1)] 2(1) [OF n(3)] show ?case by auto
qed simp

lemma normalize_edge_Inr:
  assumes "normalize_edge i ids pairs raw = Inr e"
  shows "fst e \<in> set ids \<and> snd e \<in> set ids \<and> fst e \<noteq> snd e \<and> e \<notin> set pairs"
proof (cases raw)
  case (PDict d)
  obtain s t where "s \<in> set ids" "t \<in> set ids" "s \<noteq> t" "(s, t) \<notin> set pairs" "Inr (s, t) = (Inr e :: (string \<times> string) res)"
    using assms unfolding PDict normalize_edge.simps by (simp only: rbind_Inr_iff raise_if_Inr_iff) blast
  then show ?thesis by auto
qed (use assms in auto)

lemma normalize_edges_Inr:
  "normalize_edges i ids pairs raws = Inr es \<Longrightarrow>
     length es = length raws \<and> distinct es \<and> set es \<inter> set pairs = {} \<and> set es \<subseteq> set ids \<times> set ids"
proof (induction i ids pairs raws arbitrary: es rule: normalize_edges.induct)
  case (2 i ids pairs raw rest)
  then obtain e es' where e: "normalize_edge i ids pairs raw = Inr e" "es = e # es'"
      "normalize_edges (Suc i) ids (pairs @ [e]) rest = Inr es'"
    by (auto simp: res_simps)
  with normalize_edge_Inr [OF e(1)] 2(1) [OF e(3)] show ?case by (cases e) auto
qed simp

lemma node_value_keys: "set (dkeys (as_dict (node_value n))) \<subseteq> {''id'', ''type'', ''label'', ''tool_id'', ''config''}"
  by (simp add: node_value_def dkeys_def)

lemma normalize_node_value:
  assumes "node_ok E n"
  shows "normalize_node E i seen (node_value n) =
    (if wn_id n \<in> set seen then Inl (WorkflowDesignError (''workflow node ids must be unique: '' @ wn_id n)) else Inr n)"
proof -
  have label: "wf_text (PStr (wn_label n)) f MAX_WORKFLOW_DESIGN_LABEL = Inr (wn_label n)" for f
    using assms by (intro wf_text_clean) (simp add: node_ok_def)
  have tool: "(case opt_str (wn_tool n) of PNone \<Rightarrow> Inr None
      | t \<Rightarrow> rbind (wf_text t f MAX_WORKFLOW_DESIGN_TOOL_ID) (\<lambda>s. Inr (Some s))) = Inr (wn_tool n)" for f
    using assms wf_text_clean by (cases "wn_tool n") (auto simp: node_ok_def)
  have red: "map_option (redact E) (wn_tool n) = wn_tool n" using assms by (cases "wn_tool n") (auto simp: node_ok_def)
  show ?thesis using assms label tool red wf_identifier_id [of "wn_id n"]
    by (simp add: node_value_def dget_or_def dget_def dkeys_def node_ok_def raise_if_def Let_def)
qed

lemma normalize_nodes_value:
  "\<forall>n\<in>set nodes. node_ok E n \<Longrightarrow>
   normalize_nodes E i seen (map node_value nodes) = Inr ns \<longleftrightarrow>
     ns = nodes \<and> distinct (map wn_id nodes) \<and> wn_id ` set nodes \<inter> set seen = {}"
proof (induction nodes arbitrary: i seen ns)
  case (Cons n nodes)
  then show ?case by (auto simp: normalize_node_value res_simps)
qed auto

lemma wf_identifier_stripped: "wf_identifier (PStr s) field = Inr t \<Longrightarrow> t = strip s"
  by (auto simp: wf_identifier_def res_simps Let_def split: if_splits)

lemma normalize_edge_value:
  assumes "\<forall>i\<in>set ids. NODE_ID i" "strip (fst e) = fst e" "strip (snd e) = snd e"
  shows "normalize_edge i ids pairs (edge_value e) = Inr e' \<longleftrightarrow>
    e' = e \<and> fst e \<in> set ids \<and> snd e \<in> set ids \<and> fst e \<noteq> snd e \<and> e \<notin> set pairs"
proof -
  have keys: "set (dkeys [(''from'', PStr (fst e)), (''to'', PStr (snd e))]) = {''from'', ''to''}" by (auto simp: dkeys_def)
  have id: "wf_identifier (PStr x) f = Inr x" if "x \<in> set ids" for x f using that assms(1) wf_identifier_id by blast
  have strp: "y = fst e" if "wf_identifier (PStr (fst e)) f = Inr y" for y f
    using wf_identifier_stripped [OF that] assms(2) by simp
  have strp': "y = snd e" if "wf_identifier (PStr (snd e)) f = Inr y" for y f
    using wf_identifier_stripped [OF that] assms(3) by simp
  show ?thesis
  proof
    assume a: "normalize_edge i ids pairs (edge_value e) = Inr e'"
    then obtain s t where st: "wf_identifier (PStr (fst e)) (edge_field i ''.from'') = Inr s"
        "wf_identifier (PStr (snd e)) (edge_field i ''.to'') = Inr t" "Inr (s, t) = (Inr e' :: (string \<times> string) res)"
      unfolding edge_value_def normalize_edge.simps rbind_Inr_iff raise_if_Inr_iff
      by (auto simp: dget_or_def dget_def)
    then have "e' = e" using strp strp' by (metis prod.collapse sum.inject(2))
    then show "e' = e \<and> fst e \<in> set ids \<and> snd e \<in> set ids \<and> fst e \<noteq> snd e \<and> e \<notin> set pairs"
      using normalize_edge_Inr [OF a] by simp
  next
    assume "e' = e \<and> fst e \<in> set ids \<and> snd e \<in> set ids \<and> fst e \<noteq> snd e \<and> e \<notin> set pairs"
    then show "normalize_edge i ids pairs (edge_value e) = Inr e'"
      using id keys by (simp add: edge_value_def dget_or_def dget_def)
  qed
qed

lemma normalize_edges_value:
  "\<forall>i\<in>set ids. NODE_ID i \<Longrightarrow> \<forall>e\<in>set es. strip (fst e) = fst e \<and> strip (snd e) = snd e \<Longrightarrow>
   normalize_edges i ids pairs (map edge_value es) = Inr r \<longleftrightarrow>
     r = es \<and> distinct es \<and> set es \<inter> set pairs = {} \<and> set es \<subseteq> set ids \<times> set ids \<and> (\<forall>e\<in>set es. fst e \<noteq> snd e)"
proof (induction es arbitrary: i pairs r)
  case (Cons e es)
  then show ?case by (cases e) (auto simp: normalize_edge_value res_simps)
qed auto

section \<open>The graph\<close>

lemma map_of_graph: "map_of (map (\<lambda>i. (i, f i)) ids) k = (if k \<in> set ids then Some (f k) else None)"
  by (induction ids) auto

lemma edges_adjacency: "set es \<subseteq> set ids \<times> set ids \<Longrightarrow> edges (graph_adjacency ids es) = set es"
  by (force simp: edges_def graph_adjacency_def map_of_graph split: if_splits)

lemma dom_adjacency: "map fst (graph_adjacency ids es) = ids" "map fst (graph_reverse ids adj) = ids"
  by (simp_all add: graph_adjacency_def graph_reverse_def comp_def)

lemma edges_reverse:
  assumes "set es \<subseteq> set ids \<times> set ids"
  shows "edges (graph_reverse ids (graph_adjacency ids es)) = (set es)\<inverse>"
proof -
  let ?sources = "\<lambda>i. concat (map (\<lambda>(source, targets). map (\<lambda>_. source) (filter (\<lambda>t. t = i) targets)) (graph_adjacency ids es))"
  have "set (?sources i) = {s. (s, i) \<in> set es}" for i
  proof (intro set_eqI iffI)
    fix s assume "s \<in> set (?sources i)"
    then show "s \<in> {s. (s, i) \<in> set es}" by (auto simp: graph_adjacency_def)
  next
    fix s assume "s \<in> {s. (s, i) \<in> set es}"
    then have s: "s \<in> set ids" "i \<in> set (map snd (filter (\<lambda>e. fst e = s) es))" using assms by force+
    then have "(s, map snd (filter (\<lambda>e. fst e = s) es)) \<in> set (graph_adjacency ids es)" by (auto simp: graph_adjacency_def)
    with s(2) show "s \<in> set (?sources i)" unfolding set_concat set_map by (intro UnionI imageI) (auto simp: image_iff)
  qed
  then have "(x, y) \<in> edges (graph_reverse ids (graph_adjacency ids es)) \<longleftrightarrow> x \<in> set ids \<and> (y, x) \<in> set es" for x y
    unfolding edges_def graph_reverse_def map_of_graph by (auto split: if_splits)
  then show ?thesis using assms by auto
qed

lemma dom_map_of_keys: "dom (map_of adj) = set (map fst adj)"
  by (simp add: dom_map_of_conv_image_fst)

lemma edges_dom: "(x, y) \<in> edges adj \<Longrightarrow> x \<in> set (map fst adj)"
  by (force simp: edges_def dest: map_of_SomeD)

lemma ensure_acyclic_iff:
  assumes "edges adj \<subseteq> set (map fst adj) \<times> set (map fst adj)"
  shows "ensure_acyclic adj = (if acyclic (edges adj) then Inr ()
    else Inl (WorkflowDesignError ''workflow graph must not contain cycles''))"
proof -
  let ?G = "\<lparr>adjacency = adj, missing = KeyError, edge_check = (\<lambda>_. None),
              cycle_error = WorkflowDesignError ''workflow graph must not contain cycles''\<rparr>"
  show ?thesis
  proof (cases "dfs_roots ?G (map fst adj) []")
    case (Inr ord)
    then have "extends_order ?G [] [] (set (map fst adj)) ord" by (intro dfs_roots_sound) auto
    then have ord: "dependency_ordered adj ord" "set (map fst adj) \<subseteq> set ord" by (simp_all add: extends_order_def)
    have "acyclic (edges adj)" unfolding acyclic_def
    proof (intro allI notI)
      fix x assume cyc: "(x, x) \<in> (edges adj)\<^sup>+"
      then have "x \<in> set (map fst adj)" using edges_dom by (metis tranclD)
      then show False using ordered_no_cycle [OF ord(1)] ord(2) cyc by blast
    qed
    with Inr show ?thesis by (simp add: ensure_acyclic_def)
  next
    case (Inl e)
    then have ex: "explained ?G (set (map fst adj)) e" by (rule dfs_roots_complete)
    have "z \<in> set (map fst adj)" if "(x, z) \<in> (edges adj)\<^sup>*" "x \<in> set (map fst adj)" for x z
      using that by (induction rule: rtrancl_induct) (use assms in auto)
    then have "map_of adj z \<noteq> None" if "(x, z) \<in> (edges adj)\<^sup>*" "x \<in> set (map fst adj)" for x z
      using that dom_map_of_keys [of adj] by blast
    then have "e = WorkflowDesignError ''workflow graph must not contain cycles'' \<and> \<not> acyclic (edges adj)"
      using ex unfolding explained_def acyclic_def search.simps by (metis option.distinct(1))
    with Inl show ?thesis by (simp add: ensure_acyclic_def)
  qed
qed

lemma rtrancl_closed: "(x, z) \<in> r\<^sup>* \<Longrightarrow> r \<subseteq> A \<times> A \<Longrightarrow> x \<in> A \<Longrightarrow> z \<in> A"
  by (induction rule: rtrancl_induct) auto

text \<open>A search from a node of the graph finds every node exactly when all of them are reachable.\<close>

lemma reachable_all:
  assumes "edges adj \<subseteq> set (map fst adj) \<times> set (map fst adj)" "start \<in> set (map fst adj)" "distinct (map fst adj)"
  shows "\<exists>r. reachable adj start = Inr r \<and>
    (length r = length (map fst adj) \<longleftrightarrow> (\<forall>z\<in>set (map fst adj). (start, z) \<in> (edges adj)\<^sup>*))"
proof -
  have "\<exists>r. reach_loop adj KeyError [start] [] = Inr r"
    using assms(1,2) by (intro reach_loop_total) (auto simp: dom_map_of_keys)
  then obtain r where r: "reach_loop adj KeyError [start] [] = Inr r" by blast
  then have rs: "distinct r" "set r = {z. (start, z) \<in> (edges adj)\<^sup>*}" using reach_loop_correct [OF r] by blast+
  have sub: "set r \<subseteq> set (map fst adj)" unfolding rs(2) using rtrancl_closed [OF _ assms(1,2)] by blast
  have "length r = length (map fst adj) \<longleftrightarrow> set r = set (map fst adj)"
    using rs(1) assms(3) sub by (metis List.finite_set card_subset_eq distinct_card)
  also have "\<dots> \<longleftrightarrow> (\<forall>z\<in>set (map fst adj). (start, z) \<in> (edges adj)\<^sup>*)" using sub rs(2) by blast
  finally show ?thesis using r by (auto simp: reachable_def)
qed

lemma filter_single: "length (filter P xs) = 1 \<longleftrightarrow> (\<exists>x. filter P xs = [x])"
  by (auto simp: length_Suc_conv)

lemma first_of_type_single: "filter (\<lambda>n. wn_type n = t) nodes = [n] \<Longrightarrow> first_of_type t nodes = wn_id n \<and> n \<in> set nodes"
proof -
  assume a: "filter (\<lambda>n. wn_type n = t) nodes = [n]"
  have "find P xs = (case filter P xs of [] \<Rightarrow> None | x # _ \<Rightarrow> Some x)" for P :: "wf_node \<Rightarrow> bool" and xs by (induction xs) auto
  with a have "find (\<lambda>n. wn_type n = t) nodes = Some n" by simp
  then show ?thesis by (auto simp: first_of_type_def dest: find_SomeD)
qed

lemma check_graph_iff:
  assumes "distinct (map wn_id nodes)" "distinct es" "set es \<subseteq> (wn_id ` set nodes) \<times> (wn_id ` set nodes)"
    "count_type ''trigger'' nodes = 1" "count_type ''end'' nodes = 1"
  shows "check_graph nodes es = Inr v \<longleftrightarrow> v = design_value nodes es \<and> flow_graph nodes es"
proof -
  let ?ids = "map wn_id nodes"
  let ?adj = "graph_adjacency ?ids es"
  let ?rev = "graph_reverse ?ids ?adj"
  obtain t e where te: "filter (\<lambda>n. wn_type n = ''trigger'') nodes = [t]" "filter (\<lambda>n. wn_type n = ''end'') nodes = [e]"
    using assms(4,5) filter_single unfolding count_type_def by metis
  have first: "first_of_type ''trigger'' nodes = wn_id t" "first_of_type ''end'' nodes = wn_id e"
      "t \<in> set nodes" "e \<in> set nodes"
    using first_of_type_single te by blast+
  have sub: "set es \<subseteq> set ?ids \<times> set ?ids" using assms(3) by simp
  note ed = edges_adjacency [OF sub] edges_reverse [OF sub] dom_adjacency
  have ac: "ensure_acyclic ?adj = (if acyclic (set es) then Inr () else Inl (WorkflowDesignError ''workflow graph must not contain cycles''))"
    using ensure_acyclic_iff [of ?adj] sub by (simp add: ed)
  obtain r1 where r1: "reachable ?adj (wn_id t) = Inr r1"
      "length r1 = length ?ids \<longleftrightarrow> (\<forall>z\<in>set ?ids. (wn_id t, z) \<in> (set es)\<^sup>*)"
    using reachable_all [of ?adj "wn_id t"] assms(1) sub first(3) by (auto simp: ed)
  obtain r2 where r2: "reachable ?rev (wn_id e) = Inr r2"
      "length r2 = length ?ids \<longleftrightarrow> (\<forall>z\<in>set ?ids. (wn_id e, z) \<in> ((set es)\<inverse>)\<^sup>*)"
    using reachable_all [of ?rev "wn_id e"] assms(1) sub first(4) by (auto simp: ed)
  have "check_graph nodes es = Inr v \<longleftrightarrow> v = design_value nodes es \<and> acyclic (set es) \<and>
      length r1 = length ?ids \<and> length r2 = length ?ids"
    by (auto simp: check_graph_def Let_def first ac r1(1) r2(1) raise_if_def)
  also have "\<dots> \<longleftrightarrow> v = design_value nodes es \<and> flow_graph nodes es"
    using assms(1-3) te unfolding r1(2) r2(2) flow_graph_def rtrancl_converse by auto
  finally show ?thesis .
qed

section \<open>Properties\<close>

lemma flow_graph_count: "flow_graph nodes es \<Longrightarrow> count_type ''trigger'' nodes = 1 \<and> count_type ''end'' nodes = 1"
  by (auto simp: flow_graph_def count_type_def)

lemma flow_graph_irrefl: "flow_graph nodes es \<Longrightarrow> e \<in> set es \<Longrightarrow> fst e \<noteq> snd e"
  by (cases e) (auto simp: flow_graph_def acyclic_def)

lemma normalize_design_parts:
  assumes "normalize_workflow_design E payload = Inr v"
  obtains raw_nodes raw_edges nodes es where
    "normalize_nodes E 0 [] raw_nodes = Inr nodes" "normalize_edges 0 (map wn_id nodes) [] raw_edges = Inr es"
    "length raw_nodes \<le> MAX_WORKFLOW_DESIGN_NODES" "length raw_edges \<le> MAX_WORKFLOW_DESIGN_EDGES"
    "count_type ''trigger'' nodes = 1" "count_type ''end'' nodes = 1" "check_graph nodes es = Inr v"
proof (cases payload)
  case (PDict d)
  have edges: "length es \<le> n" if "(case x of PList es \<Rightarrow> (if n < length es then Inl e else Inr es) | _ \<Rightarrow> Inl e) = (Inr es :: pyval list res)"
    for x es n e using that by (cases x) (auto split: if_splits)
  have parts: "\<exists>raw_nodes raw_edges nodes es.
      \<not> MAX_WORKFLOW_DESIGN_NODES < length raw_nodes \<and> normalize_nodes E 0 [] raw_nodes = Inr nodes \<and>
      (case dget_or d ''edges'' PNone of
               PList es \<Rightarrow> (if length es > MAX_WORKFLOW_DESIGN_EDGES
                            then Inl (WorkflowDesignError ''workflow definition may contain 0-64 edges'') else Inr es)
             | _ \<Rightarrow> Inl (WorkflowDesignError ''workflow definition may contain 0-64 edges'')) = Inr raw_edges \<and>
      \<not> count_type ''trigger'' nodes \<noteq> 1 \<and> \<not> count_type ''end'' nodes \<noteq> 1 \<and>
      normalize_edges 0 (map wn_id nodes) [] raw_edges = Inr es \<and> check_graph nodes es = Inr v"
    using assms unfolding PDict normalize_workflow_design.simps Let_def
    by (simp only: rbind_Inr_iff raise_if_Inr_iff) blast
  then obtain raw_nodes raw_edges nodes es where
      p: "\<not> MAX_WORKFLOW_DESIGN_NODES < length raw_nodes" "normalize_nodes E 0 [] raw_nodes = Inr nodes"
      and e: "(case dget_or d ''edges'' PNone of
               PList es \<Rightarrow> (if length es > MAX_WORKFLOW_DESIGN_EDGES
                            then Inl (WorkflowDesignError ''workflow definition may contain 0-64 edges'') else Inr es)
             | _ \<Rightarrow> Inl (WorkflowDesignError ''workflow definition may contain 0-64 edges'')) = Inr raw_edges"
      and q: "\<not> count_type ''trigger'' nodes \<noteq> 1" "\<not> count_type ''end'' nodes \<noteq> 1"
        "normalize_edges 0 (map wn_id nodes) [] raw_edges = Inr es" "check_graph nodes es = Inr v"
    by blast
  show ?thesis using that [OF p(2) q(3) _ edges [OF e] _ _ q(4)] p(1) q(1,2) by simp
qed (use assms in auto)

lemma normalize_design_value:
  assumes "\<forall>n\<in>set nodes. node_ok E n" "\<forall>e\<in>set es. strip (fst e) = fst e \<and> strip (snd e) = snd e"
  shows "normalize_workflow_design E (design_value nodes es) = Inr v \<longleftrightarrow>
    v = design_value nodes es \<and> length nodes \<le> 32 \<and> length es \<le> 64 \<and> flow_graph nodes es"
proof
  assume "v = design_value nodes es \<and> length nodes \<le> 32 \<and> length es \<le> 64 \<and> flow_graph nodes es"
  then have v: "v = design_value nodes es" "length nodes \<le> 32" "length es \<le> 64" "flow_graph nodes es" by auto
  then have g: "distinct (map wn_id nodes)" "distinct es" "set es \<subseteq> (wn_id ` set nodes) \<times> (wn_id ` set nodes)"
    by (simp_all add: flow_graph_def)
  have ids: "\<forall>i\<in>set (map wn_id nodes). NODE_ID i" using assms(1) by (auto simp: node_ok_def)
  have "nodes \<noteq> []" using v(4) by (auto simp: flow_graph_def)
  moreover have "normalize_nodes E 0 [] (map node_value nodes) = Inr nodes"
    using normalize_nodes_value [OF assms(1)] g(1) by simp
  moreover have "normalize_edges 0 (map wn_id nodes) [] (map edge_value es) = Inr es"
    using normalize_edges_value [OF ids assms(2)] g flow_graph_irrefl [OF v(4)] by simp
  moreover have "check_graph nodes es = Inr v"
    using check_graph_iff g flow_graph_count [OF v(4)] v by blast
  ultimately show "normalize_workflow_design E (design_value nodes es) = Inr v"
    using v flow_graph_count [OF v(4)]
    by (simp add: design_value_def dkeys_def dget_or_def dget_def raise_if_def MAX_WORKFLOW_DESIGN_NODES_def
        MAX_WORKFLOW_DESIGN_EDGES_def)
next
  assume a: "normalize_workflow_design E (design_value nodes es) = Inr v"
  then have "\<not> MAX_WORKFLOW_DESIGN_NODES < length nodes" "\<not> MAX_WORKFLOW_DESIGN_EDGES < length es"
    and "\<exists>ns es'. normalize_nodes E 0 [] (map node_value nodes) = Inr ns \<and> count_type ''trigger'' ns = 1 \<and>
      count_type ''end'' ns = 1 \<and> normalize_edges 0 (map wn_id ns) [] (map edge_value es) = Inr es' \<and> check_graph ns es' = Inr v"
    by (auto simp: design_value_def dkeys_def dget_or_def dget_def res_simps split: if_splits)
  then obtain ns es' where p: "normalize_nodes E 0 [] (map node_value nodes) = Inr ns" "count_type ''trigger'' ns = 1"
      "count_type ''end'' ns = 1" "normalize_edges 0 (map wn_id ns) [] (map edge_value es) = Inr es'" "check_graph ns es' = Inr v"
      and b: "length nodes \<le> 32" "length es \<le> 64"
    by (auto simp: MAX_WORKFLOW_DESIGN_NODES_def MAX_WORKFLOW_DESIGN_EDGES_def)
  have ns: "ns = nodes" "distinct (map wn_id nodes)" using normalize_nodes_value [OF assms(1)] p(1) by auto
  have ids: "\<forall>i\<in>set (map wn_id nodes). NODE_ID i" using assms(1) by (auto simp: node_ok_def)
  have es: "es' = es" "distinct es" "set es \<subseteq> (wn_id ` set nodes) \<times> (wn_id ` set nodes)"
    using normalize_edges_value [OF ids assms(2)] p(4) ns by auto
  show "v = design_value nodes es \<and> length nodes \<le> 32 \<and> length es \<le> 64 \<and> flow_graph nodes es"
    using check_graph_iff [of nodes es v] p es ns b by simp
qed

text \<open>
  An accepted workflow design is a workflow: the result of \<open>normalize_workflow_design\<close>, whatever
  the payload, is a graph of at most 32 nodes with distinct identifiers and at most 64 distinct edges
  between them, acyclic, with exactly one trigger and one end node, in which every node lies on a
  path from the trigger to the end.
\<close>

theorem accepted_design_is_workflow:
  assumes "normalize_workflow_design E payload = Inr v"
  shows "\<exists>nodes es. v = design_value nodes es \<and> length nodes \<le> 32 \<and> length es \<le> 64 \<and> flow_graph nodes es"
proof -
  obtain raw_nodes raw_edges nodes es where
    n: "normalize_nodes E 0 [] raw_nodes = Inr nodes" and e: "normalize_edges 0 (map wn_id nodes) [] raw_edges = Inr es"
    and b: "length raw_nodes \<le> MAX_WORKFLOW_DESIGN_NODES" "length raw_edges \<le> MAX_WORKFLOW_DESIGN_EDGES"
    and c: "count_type ''trigger'' nodes = 1" "count_type ''end'' nodes = 1" "check_graph nodes es = Inr v"
    using assms by (rule normalize_design_parts)
  note N = normalize_nodes_Inr [OF n] and Es = normalize_edges_Inr [OF e]
  have "v = design_value nodes es \<and> flow_graph nodes es"
    using check_graph_iff [of nodes es v] N Es c by simp
  with N Es b show ?thesis
    by (intro exI [of _ nodes] exI [of _ es]) (simp add: MAX_WORKFLOW_DESIGN_NODES_def MAX_WORKFLOW_DESIGN_EDGES_def)
qed

definition demo_template :: workflow_template where
  "demo_template = \<lparr>wt_id = ''reset-password'', wt_name = ''Reset password'', wt_trigger = ''ticket.created'', wt_description = [],
     wt_action = ''identity.reset'', wt_approval = True, wt_risk = ''high'', wt_preview = [], wt_tool = Some ''reset'', wt_schema = []\<rparr>"

lemma demo_design_accepted:
  "default_workflow_design plain_env demo_template = Inr (design_value (default_nodes demo_template) (default_edges demo_template))"
  by code_simp

theorem accepted_design_is_workflow_witness:
  "\<exists>nodes es. design_value (default_nodes demo_template) (default_edges demo_template) = design_value nodes es \<and>
     length nodes \<le> 32 \<and> length es \<le> 64 \<and> flow_graph nodes es"
  by (rule accepted_design_is_workflow [OF demo_design_accepted [unfolded default_workflow_design_def]])

text \<open>
  C26. Acceptance is decided by the graph: for nodes and edges whose fields are in normal form, the
  design is accepted, and returned unchanged, exactly when it is within the bounds and a workflow
  graph in the sense of \<open>flow_graph\<close>; so the searches of the code decide that specification, and
  normalising an accepted design again changes nothing.
\<close>

theorem design_accepted_iff:
  assumes "\<forall>n\<in>set nodes. node_ok E n" "\<forall>e\<in>set es. strip (fst e) = fst e \<and> strip (snd e) = snd e"
  shows "normalize_workflow_design E (design_value nodes es) = Inr v \<longleftrightarrow>
    v = design_value nodes es \<and> length nodes \<le> 32 \<and> length es \<le> 64 \<and> flow_graph nodes es"
  using assms by (rule normalize_design_value)

theorem design_accepted_iff_witness:
  "normalize_workflow_design plain_env (design_value (default_nodes demo_template) [(''trigger'', ''action''), (''action'', ''trigger'')]) \<noteq>
     Inr (design_value (default_nodes demo_template) [(''trigger'', ''action''), (''action'', ''trigger'')])"
proof -
  have n: "\<forall>n\<in>set (default_nodes demo_template). node_ok plain_env n" by code_simp
  have e: "\<forall>e\<in>set [(''trigger'', ''action''), (''action'', ''trigger'')]. strip (fst e) = fst e \<and> strip (snd e) = snd e" by code_simp
  have "(''trigger'', ''trigger'') \<in> {(''trigger'', ''action''), (''action'', ''trigger'')}\<^sup>+"
    by (rule trancl_trans [of _ "''action''"]) auto
  then have "\<not> flow_graph (default_nodes demo_template) [(''trigger'', ''action''), (''action'', ''trigger'')]"
    by (auto simp: flow_graph_def acyclic_def)
  then show ?thesis using design_accepted_iff [OF n e] by blast
qed

text \<open>
  The default design of a template is accepted: whenever the template's texts are clean, within their
  limits and hold nothing the redaction of the code hides, \<open>default_workflow_design\<close> returns the graph it
  builds, with or without an approval step.
\<close>

theorem default_design_accepted:
  assumes "clean_text 160 (wt_trigger t)" "clean_text 160 (wt_name t)" "case wt_tool t of None \<Rightarrow> True | Some x \<Rightarrow> clean_text 160 x"
    "text_hidden (wt_trigger t)" "text_hidden (wt_name t)" "case wt_tool t of None \<Rightarrow> True | Some x \<Rightarrow> text_hidden x"
  shows "default_workflow_design (code_env digest show) t = Inr (design_value (default_nodes t) (default_edges t))"
proof -
  have texts: "NODE_ID ''trigger''" "NODE_ID ''action''" "NODE_ID ''approval''" "NODE_ID ''end''"
    "clean_text 160 ''Human approval''" "clean_text 160 ''Complete''" "int (length (json_text (PDict []))) \<le> 8192" by code_simp+
  have lit: "redact_text ''Human approval'' = ''Human approval''" "redact_text ''Complete'' = ''Complete''" by code_simp+
  have ok: "\<forall>n\<in>set (default_nodes t). node_ok (code_env digest show) n"
    using assms texts lit by (auto simp: redact_text_fixed default_nodes_def node_ok_def NODE_TYPES_def MAX_WORKFLOW_DESIGN_LABEL_def
        MAX_WORKFLOW_DESIGN_TOOL_ID_def MAX_WORKFLOW_DESIGN_CONFIG_BYTES_def split: option.splits)
  have st: "\<forall>e\<in>set (default_edges t). strip (fst e) = fst e \<and> strip (snd e) = snd e"
    using NODE_ID_clean texts(1-4) by (auto simp: default_edges_def clean_text_def)
  have ord: "dependency_ordered (graph_adjacency (map wn_id (default_nodes t)) (default_edges t)) (rev (map wn_id (default_nodes t)))"
    by (cases "wt_approval t") (simp_all add: default_nodes_def default_edges_def dependency_ordered_def graph_adjacency_def)
  let ?es = "set (default_edges t)"
  have sub: "?es \<subseteq> set (map wn_id (default_nodes t)) \<times> set (map wn_id (default_nodes t))"
    by (cases "wt_approval t") (auto simp: default_nodes_def default_edges_def)
  have "acyclic ?es" unfolding acyclic_def
  proof (intro allI notI)
    fix x assume cyc: "(x, x) \<in> ?es\<^sup>+"
    then have "x \<in> set (rev (map wn_id (default_nodes t)))" using sub by (auto dest!: tranclD)
    then show False using ordered_no_cycle [OF ord] cyc edges_adjacency [OF sub] by metis
  qed
  moreover have ta: "(''trigger'', ''action'') \<in> ?es\<^sup>*" by (rule r_into_rtrancl) (simp add: default_edges_def)
  moreover have ap: "(''action'', ''approval'') \<in> ?es\<^sup>*" "(''approval'', ''end'') \<in> ?es\<^sup>*" if "wt_approval t"
    using that by (auto simp: default_edges_def intro!: r_into_rtrancl)
  moreover have ae: "(''action'', ''end'') \<in> ?es\<^sup>*"
  proof (cases "wt_approval t")
    case True
    show ?thesis by (rule rtrancl_trans [OF ap(1) [OF True] ap(2) [OF True]])
  next
    case False
    then show ?thesis by (intro r_into_rtrancl) (simp add: default_edges_def)
  qed
  moreover have "(''trigger'', ''end'') \<in> ?es\<^sup>*" by (rule rtrancl_trans [OF ta ae])
  moreover have "(''trigger'', ''approval'') \<in> ?es\<^sup>*" if "wt_approval t" by (rule rtrancl_trans [OF ta ap(1) [OF that]])
  ultimately have ac: "acyclic ?es" and paths: "\<forall>i\<in>set (map wn_id (default_nodes t)). (''trigger'', i) \<in> ?es\<^sup>* \<and> (i, ''end'') \<in> ?es\<^sup>*"
    by (simp_all add: default_nodes_def)
  have "\<exists>x y. filter (\<lambda>n. wn_type n = ''trigger'') (default_nodes t) = [x] \<and> filter (\<lambda>n. wn_type n = ''end'') (default_nodes t) = [y] \<and>
      wn_id x = ''trigger'' \<and> wn_id y = ''end''"
    by (cases "wt_approval t") (simp_all add: default_nodes_def)
  moreover have "distinct (map wn_id (default_nodes t))" "distinct (default_edges t)"
    by (cases "wt_approval t"; simp add: default_nodes_def default_edges_def)+
  ultimately have "flow_graph (default_nodes t) (default_edges t)"
    using sub paths ac by (auto simp: flow_graph_def)
  then show ?thesis using normalize_design_value [OF ok st] unfolding default_workflow_design_def
    by (auto simp: default_nodes_def default_edges_def)
qed

theorem default_design_accepted_witness:
  "default_workflow_design (code_env id (\<lambda>_. [])) demo_template = Inr (design_value (default_nodes demo_template) (default_edges demo_template))"
proof -
  have "clean_text 160 (wt_trigger demo_template)" "clean_text 160 (wt_name demo_template)"
    "case wt_tool demo_template of None \<Rightarrow> True | Some x \<Rightarrow> clean_text 160 x"
    "text_hidden (wt_trigger demo_template)" "text_hidden (wt_name demo_template)"
    "case wt_tool demo_template of None \<Rightarrow> True | Some x \<Rightarrow> text_hidden x" by code_simp+
  then show ?thesis by (rule default_design_accepted)
qed

end
