(* ===== verification/Supervisor.thy ===== *)
theory Supervisor
  imports Workflow_Designer Client_Scope
begin

text \<open>
  Supervisor plans and bounded child delegation (\<open>supervisor.py\<close>). The runner, the \<open>AgentService\<close> behind
  the protocol \<open>SupervisorAgentRunner\<close>, is the record \<open>runner\<close>: a call sees the store and returns a
  result or raises, with the store it leaves; \<open>cancel\<close> and \<open>retry\<close> may be absent. Everything else is
  the code: field checks, selection, dependency order, resumption from completed runs, the
  cancellation target, the loop over the children with its bounded retries, and the document it
  returns.
\<close>

definition MAX_CHILD_AGENTS :: nat where "MAX_CHILD_AGENTS = 8"
definition MAX_SUPERVISOR_DEPTH :: int where "MAX_SUPERVISOR_DEPTH = 1"
definition MAX_TASK_TEXT :: int where "MAX_TASK_TEXT = 2000"
definition MAX_INPUT_KEYS :: nat where "MAX_INPUT_KEYS = 16"
definition MAX_INPUT_BYTES :: int where "MAX_INPUT_BYTES = 16000"
definition MAX_PRIOR_RESULTS :: nat where "MAX_PRIOR_RESULTS = 3"
definition MAX_RESULT_BYTES :: int where "MAX_RESULT_BYTES = 8000"
definition MAX_SUPERVISOR_RETRIES :: int where "MAX_SUPERVISOR_RETRIES = 3"

text \<open>\<open>AgentExecutionResult\<close>.\<close>

record exec_result =
  xr_run :: int
  xr_status :: string
  xr_step :: int
  xr_final :: pyval
  xr_approval :: "int option"
  xr_error :: string
  xr_agent :: string
  xr_steps :: "pydict list"
  xr_revision :: "int option"

record runner =
  rn_run :: "agent_def \<Rightarrow> string \<Rightarrow> string \<Rightarrow> pyval \<Rightarrow> pydict \<Rightarrow> role \<Rightarrow> store \<Rightarrow> exec_result res \<times> store"
  rn_retry :: "(agent_def \<Rightarrow> agent_run \<Rightarrow> string \<Rightarrow> role \<Rightarrow> pydict \<Rightarrow> store \<Rightarrow> exec_result res \<times> store) option"
  rn_cancel :: "(agent_def \<Rightarrow> agent_run \<Rightarrow> string \<Rightarrow> role \<Rightarrow> store \<Rightarrow> exec_result res \<times> store) option"

section \<open>Fields\<close>

definition sup_text :: "string \<Rightarrow> string \<Rightarrow> int \<Rightarrow> string res" where
  "sup_text value field maximum =
     (let normalized = strip value in
      rbind (raise_if (normalized = [] \<or> int (length normalized) > maximum)
        (SupervisorPlanError (field @ '' must be non-empty text of at most '' @ show_int maximum @ '' characters''))) (\<lambda>_.
      rbind (raise_if (list_ex (\<lambda>c. (of_char c :: nat) < 32) normalized)
        (SupervisorPlanError (field @ '' contains unsupported control characters''))) (\<lambda>_.
      Inr normalized)))"

text \<open>The pattern \<open>_IDENTIFIER\<close> is that of the workflow nodes.\<close>

definition sup_identifier :: "string \<Rightarrow> string \<Rightarrow> string res" where
  "sup_identifier value field =
     rbind (sup_text value field 64) (\<lambda>t.
     if NODE_ID (casefold t) then Inr (casefold t)
     else Inl (SupervisorPlanError (field @ '' must be a bounded identifier'')))"

definition retry_limit :: "int \<Rightarrow> int res" where
  "retry_limit value =
     rbind (raise_if (\<not> (0 \<le> value \<and> value \<le> MAX_SUPERVISOR_RETRIES))
       (SupervisorPlanError ''max_retries must be between 0 and 3'')) (\<lambda>_. Inr value)"

definition bounded_payload :: "env \<Rightarrow> pydict \<Rightarrow> pyval res" where
  "bounded_payload E payload =
     rbind (raise_if (length payload > MAX_INPUT_KEYS) (SupervisorPlanError ''input must contain at most 16 fields'')) (\<lambda>_.
     rbind (raise_if (list_ex (\<lambda>k. strip k = [] \<or> length k > 80) (dkeys payload))
       (SupervisorPlanError ''input field names must be non-empty text of at most 80 characters'')) (\<lambda>_.
     let safe = redact_value E (PDict payload) in
     rbind (raise_if (int (length (json_text safe)) > MAX_INPUT_BYTES)
       (SupervisorPlanError ''input must be at most 16000 bytes'')) (\<lambda>_.
     Inr safe)))"

definition bounded_final_result :: "env \<Rightarrow> pyval \<Rightarrow> pyval" where
  "bounded_final_result E value =
     (let safe = (if is_dict value then redact_value E value else PDict []) in
      if \<not> is_dict safe then PDict []
      else if int (length (json_text safe)) \<le> MAX_RESULT_BYTES then safe
      else PDict [(''truncated'', PBool True)])"

definition lineage :: "string \<Rightarrow> int \<Rightarrow> int \<Rightarrow> int option \<Rightarrow> pyval" where
  "lineage agent_id sequence attempt retry_of =
     PDict [(''supervisor_id'', PStr ''consultant-supervisor''), (''child_agent_id'', PStr agent_id),
       (''sequence'', PInt sequence), (''attempt'', PInt attempt), (''retry_of_run_id'', opt_int retry_of)]"

definition execution_summary :: "env \<Rightarrow> string \<Rightarrow> exec_result \<Rightarrow> int \<Rightarrow> int \<Rightarrow> int option \<Rightarrow> pydict" where
  "execution_summary E agent_id result sequence attempt retry_of =
     [(''agent_id'', PStr agent_id), (''run_id'', PInt (xr_run result)), (''sequence'', PInt sequence),
      (''status'', PStr (xr_status result)), (''current_step'', PInt (xr_step result)),
      (''final_result'', bounded_final_result E (xr_final result)), (''approval_id'', opt_int (xr_approval result)),
      (''error_detail'', PStr (take 500 (redact E (xr_error result)))), (''resumed'', PBool False),
      (''attempt'', PInt attempt), (''retry_of_run_id'', opt_int retry_of),
      (''lineage'', lineage agent_id sequence attempt retry_of)]"

section \<open>Selection and order\<close>

text \<open>\<open>{definition.id: definition for definition in definitions}\<close>: the last definition of an identifier wins.\<close>

definition available_definitions :: "agent_def list \<Rightarrow> (string \<times> agent_def) list" where
  "available_definitions definitions = fold (\<lambda>d acc. dset acc (ad_id d) d) definitions []"

fun select_children :: "string \<Rightarrow> (string \<times> agent_def) list \<Rightarrow> string list \<Rightarrow> agent_def list res" where
  "select_children tenant available [] = Inr []"
| "select_children tenant available (child_id # rest) =
     (case dget available child_id of
        None \<Rightarrow> Inl (SupervisorPlanError (''child agent was not found in tenant scope: '' @ child_id))
      | Some definition \<Rightarrow>
          rbind (raise_if (ad_client definition \<notin> {None, Some tenant})
            (SupervisorPlanError ''child agent is outside the tenant scope'')) (\<lambda>_.
          rbind (select_children tenant available rest) (\<lambda>ds. Inr (definition # ds))))"

text \<open>
  The checks of \<open>build_supervisor_delegation_plan\<close> up to the list \<open>children\<close>: the normalised tenant,
  task, retry limit and identifiers with the selected definitions.
\<close>

definition plan_children ::
  "string \<Rightarrow> string \<Rightarrow> string list \<Rightarrow> agent_def list \<Rightarrow> int \<Rightarrow> (string \<times> string \<times> int \<times> string list \<times> agent_def list) res" where
  "plan_children client_id task child_agent_ids definitions max_retries =
     rbind (sup_text client_id ''client_id'' 128) (\<lambda>tenant.
     rbind (sup_text task ''task'' MAX_TASK_TEXT) (\<lambda>normalized_task.
     rbind (retry_limit max_retries) (\<lambda>limit.
     rbind (raise_if (\<not> (1 \<le> length child_agent_ids \<and> length child_agent_ids \<le> MAX_CHILD_AGENTS))
       (SupervisorPlanError ''child_agent_ids must contain 1-8 items'')) (\<lambda>_.
     rbind (rmap (\<lambda>v. sup_identifier v ''child_agent_id'') child_agent_ids) (\<lambda>normalized_ids.
     rbind (raise_if (\<not> distinct normalized_ids)
       (SupervisorPlanError ''child_agent_ids must not contain duplicates'')) (\<lambda>_.
     rbind (select_children tenant (available_definitions definitions) normalized_ids) (\<lambda>children.
     Inr (tenant, normalized_task, limit, normalized_ids, children))))))))"

definition child_entry :: "string list \<Rightarrow> agent_def \<Rightarrow> pyval" where
  "child_entry normalized_ids d = PDict
     [(''id'', PStr (ad_id d)), (''name'', PStr (ad_name d)), (''enabled'', PBool (ad_enabled d)),
      (''tool_ids'', PList (map PStr (ad_tools d))),
      (''depends_on_agent_ids'', PList (map PStr (filter (\<lambda>x. x \<in> set normalized_ids) (ad_depends d)))),
      (''context_policy'', PStr ''tenant_scoped_task_and_structured_prior_results''),
      (''result_contract'', PDict [(''status'', PStr ''completed|needs_approval|failed''),
         (''evidence_refs'', PStr ''bounded opaque references''), (''summary'', PStr ''bounded text'')])]"

definition assignment_entry :: "string \<Rightarrow> nat \<Rightarrow> agent_def \<Rightarrow> pyval" where
  "assignment_entry tenant index d = PDict
     [(''sequence'', PInt (int index)), (''child_agent_id'', PStr (ad_id d)),
      (''input_contract'', PDict [(''client_id'', PStr tenant), (''task'', PStr ''bounded supervisor task''),
         (''prior_results'', PStr ''structured results from completed dependencies only'')])]"

definition build_supervisor_delegation_plan ::
  "string \<Rightarrow> string \<Rightarrow> string list \<Rightarrow> agent_def list \<Rightarrow> int \<Rightarrow> pyval res" where
  "build_supervisor_delegation_plan client_id task child_agent_ids definitions max_retries =
     rbind (plan_children client_id task child_agent_ids definitions max_retries) (\<lambda>(tenant, normalized_task, limit, ids, children).
     Inr (PDict
       [(''format'', PStr ''wait-local-agent.supervisor-delegation-plan''), (''format_version'', PInt 1),
        (''client_id'', PStr tenant),
        (''supervisor'', PDict [(''id'', PStr ''consultant-supervisor''), (''mode'', PStr ''supervisor''),
           (''max_depth'', PInt MAX_SUPERVISOR_DEPTH), (''recursion'', PStr ''disabled''), (''task'', PStr normalized_task),
           (''children'', PList (map (child_entry ids) children)), (''selection'', PStr ''explicit_child_agent_ids'')]),
        (''assignments'', PList (map (\<lambda>(i, d). assignment_entry tenant i d) (zip [1..<Suc (length children)] children))),
        (''context_policy'', PStr ''pass only bounded structured results within the blueprint tenant''),
        (''retry_policy'', PDict [(''max_retries_per_child'', PInt limit), (''retryable_statuses'', PList [PStr ''failed'']),
           (''attempts_are_lineage_bound'', PBool True)]),
        (''cancellation_policy'', PDict [(''supported'', PBool True),
           (''target'', PStr ''queued_or_approval_paused_child_run_id''), (''stops_before_next_child'', PBool True)]),
        (''delegation_started'', PBool False), (''execution_started'', PBool False),
        (''approval_requests_created'', PBool False), (''cross_tenant_context'', PBool False)]))"

definition dependency_search :: "string list \<Rightarrow> (string \<times> agent_def) list \<Rightarrow> (string, err) search" where
  "dependency_search selected definitions =
     \<lparr>adjacency = map (\<lambda>(i, d). (i, ad_depends d)) definitions,
      missing = (\<lambda>i. SupervisorPlanError (''child agent was not found in tenant scope: '' @ i)),
      edge_check = (\<lambda>i. if i \<in> set selected then None
        else Some (SupervisorPlanError (''dependency agent must be selected for supervisor execution: '' @ i))),
      cycle_error = SupervisorPlanError ''selected child agents contain a dependency cycle''\<rparr>"

definition dependency_order :: "string list \<Rightarrow> (string \<times> agent_def) list \<Rightarrow> string list res" where
  "dependency_order selected_ids definitions = dfs_roots (dependency_search selected_ids definitions) selected_ids []"

definition scoped_definition :: "agent_def \<Rightarrow> string \<Rightarrow> agent_def res" where
  "scoped_definition d client_id =
     rbind (raise_if (ad_client d \<notin> {None, Some client_id}) (SupervisorPlanError ''child agent is outside the tenant scope'')) (\<lambda>_.
     Inr (if ad_client d = None then d\<lparr>ad_client := Some client_id\<rparr> else d))"

section \<open>Stored runs\<close>

definition get_agent_run :: "int \<Rightarrow> scope_arg \<Rightarrow> store \<Rightarrow> agent_run option res" where
  "get_agent_run run_id scope s =
     rbind (client_scope_predicate scope) (\<lambda>p.
     Inr (map_option (\<lambda>r. r\<lparr>ar_client := normalize_client_id (ar_client r)\<rparr>)
       (find (\<lambda>r. ar_id r = run_id \<and> p (ar_client r)) (agent_runs s))))"

fun load_each :: "env \<Rightarrow> int list \<Rightarrow> store \<Rightarrow> string list \<Rightarrow> string \<Rightarrow> string \<Rightarrow> (string \<times> agent_def) list \<Rightarrow>
    (string \<times> pydict) list \<Rightarrow> (string \<times> pydict) list res" where
  "load_each E [] s selected entity_id client_id definitions completed = Inr completed"
| "load_each E (run_id # rest) s selected entity_id client_id definitions completed =
     rbind (get_agent_run run_id (Scope_str client_id) s) (\<lambda>found.
     case found of
       None \<Rightarrow> Inl (SupervisorPlanError ''completed child run is outside the supervisor scope'')
     | Some run \<Rightarrow>
         rbind (raise_if (ar_entity run \<noteq> entity_id \<or> ar_agent run \<notin> set selected)
           (SupervisorPlanError ''completed child run is outside the supervisor scope'')) (\<lambda>_.
         rbind (raise_if (ar_status run \<noteq> ''completed'')
           (SupervisorPlanError ''completed child run must have completed status'')) (\<lambda>_.
         case dget definitions (ar_agent run) of
           None \<Rightarrow> Inl (KeyError (ar_agent run))
         | Some definition \<Rightarrow>
             rbind (raise_if (case ar_revision run of None \<Rightarrow> False | Some v \<Rightarrow> v \<noteq> ad_version definition)
               (SupervisorPlanError ''completed child run uses an outdated agent revision'')) (\<lambda>_.
             case ar_state run of
               None \<Rightarrow> Inl (SupervisorPlanError ''completed child run state is malformed'')
             | Some state \<Rightarrow>
                 load_each E rest s selected entity_id client_id definitions
                   (dset completed (ar_agent run)
                     [(''agent_id'', PStr (ar_agent run)), (''run_id'', PInt (ar_id run)), (''status'', PStr ''completed''),
                      (''current_step'', PInt (ar_step run)),
                      (''final_result'', bounded_final_result E (dget_or (as_dict state) ''final_result'' (PDict []))),
                      (''resumed'', PBool True)])))))"

definition load_completed_runs ::
  "env \<Rightarrow> int list \<Rightarrow> store \<Rightarrow> string list \<Rightarrow> string \<Rightarrow> string \<Rightarrow> (string \<times> agent_def) list \<Rightarrow> (string \<times> pydict) list res" where
  "load_completed_runs E run_ids s selected entity_id client_id definitions =
     rbind (raise_if (length run_ids > MAX_CHILD_AGENTS \<or> list_ex (\<lambda>i. i < 1) run_ids)
       (SupervisorPlanError ''completed_run_ids must contain 0-8 positive integers'')) (\<lambda>_.
     rbind (raise_if (\<not> distinct run_ids) (SupervisorPlanError ''completed_run_ids must not contain duplicates'')) (\<lambda>_.
     load_each E run_ids s selected entity_id client_id definitions []))"

definition cancellation_target :: "int option \<Rightarrow> store \<Rightarrow> string list \<Rightarrow> string \<Rightarrow> string \<Rightarrow> agent_run option res" where
  "cancellation_target cancel_run_id s selected entity_id client_id =
     (case cancel_run_id of
        None \<Rightarrow> Inr None
      | Some i \<Rightarrow>
          rbind (raise_if (i < 1) (SupervisorPlanError ''cancel_run_id must be a positive integer'')) (\<lambda>_.
          rbind (get_agent_run i (Scope_str client_id) s) (\<lambda>found.
          case found of
            None \<Rightarrow> Inl (SupervisorPlanError ''cancellation target is outside the supervisor scope'')
          | Some run \<Rightarrow>
              rbind (raise_if (ar_entity run \<noteq> entity_id \<or> ar_agent run \<notin> set selected)
                (SupervisorPlanError ''cancellation target is outside the supervisor scope'')) (\<lambda>_.
              rbind (raise_if (ar_status run \<notin> {''queued'', ''pending_approval''})
                (SupervisorPlanError ''cancellation target must be queued or approval-paused'')) (\<lambda>_.
              Inr (Some run))))))"

section \<open>The execution loop\<close>

record sup_env =
  sv_env :: env
  sv_runner :: runner
  sv_actor :: string
  sv_role :: role
  sv_tenant :: string
  sv_entity :: string
  sv_task :: string
  sv_payload :: pyval
  sv_limit :: nat
  sv_cancel :: "agent_run option"
  sv_defs :: "(string \<times> agent_def) list"
  sv_completed :: "(string \<times> pydict) list"

record sup_state =
  ss_children :: "pydict list"
  ss_prior :: "(string \<times> pydict) list"
  ss_executed :: nat
  ss_approvals :: bool
  ss_pending :: "int option"
  ss_next :: "string option"
  ss_status :: string
  ss_store :: store

text \<open>One call of the runner's \<open>retry\<close>, with the context of the attempt.\<close>

definition retry_outcome ::
  "sup_env \<Rightarrow> agent_def \<Rightarrow> agent_run \<Rightarrow> pydict \<Rightarrow> int \<Rightarrow> store \<Rightarrow> exec_result res \<times> store" where
  "retry_outcome V d prior context n s =
     (case rn_retry (sv_runner V) of
        None \<Rightarrow> (Inl (SupervisorPlanError ''agent runtime does not support supervisor retry''), s)
      | Some f \<Rightarrow> f d prior (sv_actor V) (sv_role V)
          (dmerge context [(''attempt'', PInt n), (''retry_of_run_id'', PInt (ar_id prior))]) s)"

text \<open>
  The \<open>while result.status == "failed"\<close> loop. It returns the last result, the attempts, how many
  calls of \<open>retry\<close> returned, whether one of them asked for an approval, and the store.
\<close>

function retry_child ::
  "sup_env \<Rightarrow> agent_def \<Rightarrow> string \<Rightarrow> int \<Rightarrow> pydict \<Rightarrow> exec_result \<Rightarrow> pydict list \<Rightarrow> nat \<Rightarrow> bool \<Rightarrow> store \<Rightarrow>
   exec_result \<times> pydict list \<times> nat \<times> bool \<times> store" where
  "retry_child V d agent_id sequence context result attempts count approval s =
     (if \<not> (xr_status result = ''failed'' \<and> length attempts \<le> sv_limit V) then (result, attempts, count, approval, s)
      else let E = sv_env V; n = int (length attempts) + 1 in
        (case get_agent_run (xr_run result) (Scope_str (sv_tenant V)) s of
           Inr (Some prior) \<Rightarrow>
             (let outcome = retry_outcome V d prior context n s in
              case fst outcome of
                Inl e \<Rightarrow> (result, attempts @
                  [[(''agent_id'', PStr agent_id), (''run_id'', PInt (ar_id prior)), (''sequence'', PInt sequence), (''attempt'', PInt n),
                    (''status'', PStr ''failed''), (''error_detail'', PStr (take 500 (redact E (show_err E e)))), (''resumed'', PBool False),
                    (''retry_of_run_id'', PInt (ar_id prior)), (''lineage'', lineage agent_id sequence n (Some (ar_id prior)))]],
                  count, approval, snd outcome)
              | Inr r \<Rightarrow>
                  retry_child V d agent_id sequence context r
                    (attempts @ [execution_summary E agent_id r sequence n (Some (ar_id prior))])
                    (Suc count) (approval \<or> xr_approval r \<noteq> None) (snd outcome))
         | _ \<Rightarrow> (result, attempts @
              [[(''agent_id'', PStr agent_id), (''run_id'', PInt (xr_run result)), (''sequence'', PInt sequence), (''attempt'', PInt n),
                (''status'', PStr ''failed''), (''error_detail'', PStr ''failed child run was not found for retry''),
                (''resumed'', PBool False), (''lineage'', lineage agent_id sequence n (Some (xr_run result)))]],
              count, approval, s)))"
  by pat_completeness auto
termination
  by (relation "measure (\<lambda>(V, d, a, sq, c, r, attempts, n, ap, s). Suc (sv_limit V) - length attempts)") auto

declare retry_child.simps [simp del]

definition child_context :: "sup_env \<Rightarrow> agent_def \<Rightarrow> string \<Rightarrow> int \<Rightarrow> sup_state \<Rightarrow> pydict" where
  "child_context V d agent_id sequence st =
     [(''client_id'', PStr (sv_tenant V)), (''task'', PStr (sv_task V)), (''supervisor_id'', PStr ''consultant-supervisor''),
      (''child_agent_id'', PStr agent_id), (''sequence'', PInt sequence), (''attempt'', PInt 1),
      (''prior_results'', PList (take MAX_PRIOR_RESULTS
         (map PDict (List.map_filter (\<lambda>i. dget (ss_prior st) i) (ad_depends d)))))]"

text \<open>
  The three branches of the loop body. Each returns the state and whether the loop goes on.
\<close>

definition resume_child :: "string \<Rightarrow> int \<Rightarrow> pydict \<Rightarrow> sup_state \<Rightarrow> sup_state" where
  "resume_child agent_id sequence summary st =
     (let resumed = dmerge summary [(''sequence'', PInt sequence), (''resumed'', PBool True), (''attempt'', PInt 1),
                      (''retry_of_run_id'', PNone), (''lineage'', lineage agent_id sequence 1 None)] in
      st\<lparr>ss_children := ss_children st @ [resumed], ss_prior := dset (ss_prior st) agent_id resumed\<rparr>)"

definition cancel_child :: "sup_env \<Rightarrow> agent_def \<Rightarrow> string \<Rightarrow> int \<Rightarrow> agent_run \<Rightarrow> sup_state \<Rightarrow> sup_state" where
  "cancel_child V d agent_id sequence target st =
     (let E = sv_env V;
          outcome = (case rn_cancel (sv_runner V) of
             None \<Rightarrow> (Inl (SupervisorPlanError ''agent runtime does not support supervisor cancel''), ss_store st)
           | Some f \<Rightarrow> f d target (sv_actor V) (sv_role V) (ss_store st)) in
      case fst outcome of
        Inl e \<Rightarrow> st\<lparr>ss_children := ss_children st @
            [[(''agent_id'', PStr agent_id), (''sequence'', PInt sequence), (''status'', PStr ''failed''),
              (''error_detail'', PStr (take 500 (redact E (show_err E e)))), (''resumed'', PBool False),
              (''lineage'', lineage agent_id sequence 1 None)]],
            ss_status := ''failed'', ss_next := Some agent_id, ss_store := snd outcome\<rparr>
      | Inr r \<Rightarrow>
          (let summary = execution_summary E agent_id r sequence 1 None;
               full = dset (dset summary ''attempts'' (PList [PDict summary])) ''retry_count'' (PInt 0) in
           st\<lparr>ss_children := ss_children st @ [full], ss_executed := Suc (ss_executed st),
              ss_status := (if xr_status r = ''cancelled'' then ''cancelled'' else ''failed''), ss_next := Some agent_id,
              ss_pending := (if xr_status r = ''pending_approval'' then Some (xr_run r) else None),
              ss_approvals := (ss_approvals st \<or> xr_approval r \<noteq> None), ss_store := snd outcome\<rparr>))"

definition run_child :: "sup_env \<Rightarrow> agent_def \<Rightarrow> string \<Rightarrow> int \<Rightarrow> sup_state \<Rightarrow> sup_state \<times> bool" where
  "run_child V d agent_id sequence st =
     (let E = sv_env V; context = child_context V d agent_id sequence st;
          outcome = rn_run (sv_runner V) d (sv_entity V) (sv_actor V) (sv_payload V) context (sv_role V) (ss_store st) in
      case fst outcome of
        Inl e \<Rightarrow> (st\<lparr>ss_children := ss_children st @
            [[(''agent_id'', PStr agent_id), (''sequence'', PInt sequence), (''status'', PStr ''failed''),
              (''error_detail'', PStr (take 500 (redact E (show_err E e)))), (''resumed'', PBool False), (''attempt'', PInt 1),
              (''retry_of_run_id'', PNone), (''lineage'', lineage agent_id sequence 1 None)]],
            ss_status := ''failed'', ss_next := Some agent_id, ss_store := snd outcome\<rparr>, False)
      | Inr first \<Rightarrow>
          (case retry_child V d agent_id sequence context first [execution_summary E agent_id first sequence 1 None]
                  (Suc (ss_executed st)) (ss_approvals st \<or> xr_approval first \<noteq> None) (snd outcome) of
             (r, attempts, count, approval, s) \<Rightarrow>
               let summary = dset (dset (last attempts) ''attempts'' (PList (map PDict attempts)))
                               ''retry_count'' (PInt (int (length attempts) - 1));
                   st1 = st\<lparr>ss_children := ss_children st @ [summary], ss_executed := count, ss_approvals := approval, ss_store := s\<rparr> in
               if xr_status r = ''completed'' then (st1\<lparr>ss_prior := dset (ss_prior st1) agent_id summary\<rparr>, True)
               else (st1\<lparr>ss_status := (if xr_status r = ''cancelled'' then ''cancelled''
                                        else if xr_status r = ''pending_approval'' then ''pending_approval'' else ''failed''),
                         ss_pending := (if xr_status r = ''pending_approval'' then Some (xr_run r) else None),
                         ss_next := Some agent_id\<rparr>, False)))"

definition child_step :: "sup_env \<Rightarrow> string \<Rightarrow> int \<Rightarrow> sup_state \<Rightarrow> sup_state \<times> bool" where
  "child_step V agent_id sequence st =
     (case dget (sv_defs V) agent_id of
        None \<Rightarrow> (st, False)
      | Some d \<Rightarrow>
          (case dget (sv_completed V) agent_id of
             Some summary \<Rightarrow> (resume_child agent_id sequence summary st, True)
           | None \<Rightarrow>
               (case sv_cancel V of
                  Some target \<Rightarrow>
                    if ar_agent target = agent_id then (cancel_child V d agent_id sequence target st, False)
                    else run_child V d agent_id sequence st
                | None \<Rightarrow> run_child V d agent_id sequence st)))"

fun child_loop :: "sup_env \<Rightarrow> int \<Rightarrow> string list \<Rightarrow> sup_state \<Rightarrow> sup_state" where
  "child_loop V sequence [] st = st"
| "child_loop V sequence (agent_id # rest) st =
     (case child_step V agent_id sequence st of
        (st', True) \<Rightarrow> child_loop V (sequence + 1) rest st'
      | (st', False) \<Rightarrow> st')"

definition child_status :: "pydict \<Rightarrow> string" where
  "child_status c = (case dget c ''status'' of Some (PStr t) \<Rightarrow> t | _ \<Rightarrow> [])"

definition completed_child_runs :: "pydict list \<Rightarrow> pyval list" where
  "completed_child_runs children =
     List.map_filter (\<lambda>c. case dget c ''run_id'' of
        Some (PInt i) \<Rightarrow> if child_status c = ''completed'' then Some (PInt i) else None | _ \<Rightarrow> None) children"

definition execution_document :: "sup_env \<Rightarrow> string list \<Rightarrow> int option \<Rightarrow> sup_state \<Rightarrow> pyval" where
  "execution_document V ordered_ids cancel_run_id st = PDict
     [(''format'', PStr ''wait-local-agent.supervisor-execution''), (''format_version'', PInt 1),
      (''client_id'', PStr (sv_tenant V)), (''entity_id'', PStr (sv_entity V)), (''status'', PStr (ss_status st)),
      (''supervisor'', PDict [(''id'', PStr ''consultant-supervisor''), (''mode'', PStr ''supervisor''),
         (''max_depth'', PInt MAX_SUPERVISOR_DEPTH), (''recursion'', PStr ''disabled''), (''task'', PStr (sv_task V)),
         (''ordered_child_agent_ids'', PList (map PStr ordered_ids)),
         (''lineage_contract'', PStr ''supervisor_id, child_agent_id, sequence, attempt, and retry_of_run_id'')]),
      (''children'', PList (map PDict (ss_children st))),
      (''resumption'', PDict [(''completed_run_ids'', PList (completed_child_runs (ss_children st))),
         (''pending_run_id'', opt_int (ss_pending st)), (''next_child_agent_id'', opt_str (ss_next st))]),
      (''delegation_started'', PBool True),
      (''execution_started'', PBool (ss_executed st \<noteq> 0 \<or> sv_completed V \<noteq> [])),
      (''approval_requests_created'', PBool (ss_approvals st)),
      (''retry_policy'', PDict [(''max_retries_per_child'', PInt (int (sv_limit V))), (''retryable_statuses'', PList [PStr ''failed''])]),
      (''cancellation'', PDict [(''requested_run_id'', opt_int cancel_run_id), (''applied'', PBool (ss_status st = ''cancelled''))]),
      (''cross_tenant_context'', PBool False)]"

text \<open>The checks before the loop: they raise, and the store is as it was.\<close>

definition prepare_execution ::
  "env \<Rightarrow> runner \<Rightarrow> string \<Rightarrow> string \<Rightarrow> string \<Rightarrow> string list \<Rightarrow> agent_def list \<Rightarrow> string \<Rightarrow> role \<Rightarrow> pydict option \<Rightarrow>
   int list option \<Rightarrow> int \<Rightarrow> int option \<Rightarrow> store \<Rightarrow> (sup_env \<times> string list) res" where
  "prepare_execution E R client_id entity_id task child_agent_ids definitions actor actor_role input_payload
     completed_run_ids max_retries cancel_run_id s =
     rbind (raise_if (actor_role < TECHNICIAN) (SupervisorPlanError ''supervisor execution requires technician authority'')) (\<lambda>_.
     rbind (sup_text client_id ''client_id'' 128) (\<lambda>tenant.
     rbind (sup_text entity_id ''entity_id'' 100) (\<lambda>entity.
     rbind (sup_text task ''task'' MAX_TASK_TEXT) (\<lambda>normalized_task.
     rbind (retry_limit max_retries) (\<lambda>limit.
     rbind (bounded_payload E (case input_payload of None \<Rightarrow> [] | Some p \<Rightarrow> p)) (\<lambda>payload.
     rbind (plan_children tenant normalized_task child_agent_ids definitions limit) (\<lambda>(_, _, _, _, children).
     let selected_ids = map ad_id children; available = available_definitions definitions in
     rbind (dependency_order selected_ids available) (\<lambda>ordered_ids.
     rbind (rmap (\<lambda>d. rbind (scoped_definition d tenant) (\<lambda>x. Inr (ad_id d, x))) children) (\<lambda>scoped.
     rbind (case find (\<lambda>(i, d). \<not> ad_enabled d) scoped of
              None \<Rightarrow> Inr ()
            | Some (i, d) \<Rightarrow> Inl (SupervisorPlanError (''child agent is disabled: '' @ ad_id d))) (\<lambda>_.
     rbind (cancellation_target cancel_run_id s selected_ids entity tenant) (\<lambda>cancel.
     rbind (load_completed_runs E (case completed_run_ids of None \<Rightarrow> [] | Some l \<Rightarrow> l) s selected_ids entity tenant scoped) (\<lambda>completed.
     Inr (\<lparr>sv_env = E, sv_runner = R, sv_actor = actor, sv_role = actor_role, sv_tenant = tenant, sv_entity = entity,
           sv_task = normalized_task, sv_payload = payload, sv_limit = nat limit, sv_cancel = cancel, sv_defs = scoped,
           sv_completed = completed\<rparr>, ordered_ids)))))))))))))"

definition sup_start :: "store \<Rightarrow> sup_state" where
  "sup_start s = \<lparr>ss_children = [], ss_prior = [], ss_executed = 0, ss_approvals = False, ss_pending = None, ss_next = None,
     ss_status = ''completed'', ss_store = s\<rparr>"

definition execute_supervisor_delegation ::
  "env \<Rightarrow> runner \<Rightarrow> string \<Rightarrow> string \<Rightarrow> string \<Rightarrow> string list \<Rightarrow> agent_def list \<Rightarrow> string \<Rightarrow> role \<Rightarrow> pydict option \<Rightarrow>
   int list option \<Rightarrow> int \<Rightarrow> int option \<Rightarrow> store \<Rightarrow> (pyval \<times> store) res" where
  "execute_supervisor_delegation E R client_id entity_id task child_agent_ids definitions actor actor_role input_payload
     completed_run_ids max_retries cancel_run_id s =
     rbind (prepare_execution E R client_id entity_id task child_agent_ids definitions actor actor_role input_payload
              completed_run_ids max_retries cancel_run_id s) (\<lambda>(V, ordered_ids).
     let st = child_loop V 1 ordered_ids (sup_start s) in
     Inr (execution_document V ordered_ids cancel_run_id st, ss_store st))"

end
