(* ===== verification/Supervisor_Laws.thy ===== *)
theory Supervisor_Laws
  imports Supervisor
begin

text \<open>
  The supervisor orders the selected agents by their dependencies, runs a child only after all its
  dependencies completed, stops at the first child that did not complete, bounds the calls it makes
  of the runner, and never hands the runner a definition of another tenant.
\<close>

section \<open>Definitions by identifier\<close>

lemma available_ids: "dget (available_definitions definitions) i = Some d \<Longrightarrow> ad_id d = i \<and> d \<in> set definitions"
proof -
  have "dget (fold (\<lambda>d acc. dset acc (ad_id d) d) ds acc) i = Some d \<Longrightarrow>
      (\<forall>x. dget acc i = Some x \<longrightarrow> ad_id x = i \<and> x \<in> A) \<Longrightarrow> ad_id d = i \<and> d \<in> A \<union> set ds" for ds acc A
  proof (induction ds arbitrary: acc A)
    case (Cons y ds)
    have "\<forall>x. dget (dset acc (ad_id y) y) i = Some x \<longrightarrow> ad_id x = i \<and> x \<in> insert y A"
      using Cons.prems(2) by auto
    moreover have "dget (fold (\<lambda>d acc. dset acc (ad_id d) d) ds (dset acc (ad_id y) y)) i = Some d"
      using Cons.prems(1) by simp
    ultimately have "ad_id d = i \<and> d \<in> insert y A \<union> set ds" using Cons.IH by blast
    then show ?case by simp
  qed simp
  from this [of definitions "[]" "{}"] show "dget (available_definitions definitions) i = Some d \<Longrightarrow> ad_id d = i \<and> d \<in> set definitions"
    by (simp add: available_definitions_def dget_def)
qed

lemma map_of_depends: "map_of (map (\<lambda>(i, d). (i, ad_depends d)) defs) i = map_option ad_depends (dget defs i)"
  by (induction defs) (auto simp: dget_def)

lemma select_children_ids:
  "select_children tenant (available_definitions definitions) ids = Inr ds \<Longrightarrow>
     map ad_id ds = ids \<and> (\<forall>d\<in>set ds. dget (available_definitions definitions) (ad_id d) = Some d \<and> ad_client d \<in> {None, Some tenant})"
proof (induction ids arbitrary: ds)
  case (Cons i ids)
  then obtain d rest where "dget (available_definitions definitions) i = Some d" "ad_client d \<in> {None, Some tenant}"
      "select_children tenant (available_definitions definitions) ids = Inr rest" "ds = d # rest"
    by (auto simp: res_simps split: option.splits)
  with Cons available_ids [of definitions i d] show ?case by auto
qed simp

section \<open>The dependency order\<close>

definition dependency_edges :: "(string \<times> agent_def) list \<Rightarrow> (string \<times> string) set" where
  "dependency_edges defs = {(i, j). \<exists>d. dget defs i = Some d \<and> j \<in> set (ad_depends d)}"

lemma edges_dependency: "edges (adjacency (dependency_search sel defs)) = dependency_edges defs"
  by (auto simp: edges_def dependency_search_def map_of_depends dependency_edges_def)

lemma dependency_order_sound:
  assumes "dependency_order sel defs = Inr order"
  shows "distinct order" "set order = set sel"
    "order = xs @ x # ys \<Longrightarrow> \<exists>d. dget defs x = Some d \<and> set (ad_depends d) \<subseteq> set xs"
proof -
  let ?G = "dependency_search sel defs"
  have ex: "extends_order ?G [] [] (set sel) order"
    using assms by (intro dfs_roots_sound) (auto simp: dependency_order_def)
  then have o: "dependency_ordered (adjacency ?G) order" "set sel \<subseteq> set order" by (simp_all add: extends_order_def)
  show "distinct order" using o(1) by (rule ordered_distinct)
  have "z \<in> set sel" if "z \<in> set order" for z
    using dfs_roots_checked [OF assms [unfolded dependency_order_def], of z] that
    by (auto simp: dependency_search_def split: if_splits)
  with o(2) show "set order = set sel" by blast
  assume split: "order = xs @ x # ys"
  then have "dependency_ordered (adjacency ?G) (xs @ [x])"
    using o(1) ordered_prefix [of _ "xs @ [x]" ys] by simp
  then obtain ds where "map_of (adjacency ?G) x = Some ds" "set ds \<subseteq> set xs" by (auto simp: ordered_snoc)
  then show "\<exists>d. dget defs x = Some d \<and> set (ad_depends d) \<subseteq> set xs"
    by (auto simp: dependency_search_def map_of_depends)
qed

text \<open>
  C25. The dependency order is found exactly when there is one: the search returns an order if and only if
  every selected agent is defined and has all its dependencies selected and there is no dependency
  cycle among them; and the order lists each selected agent once, after all its dependencies.
\<close>

theorem dependency_order_correct:
  "((\<exists>order. dependency_order sel defs = Inr order) \<longleftrightarrow>
      (\<forall>i\<in>set sel. (i, i) \<notin> (dependency_edges defs)\<^sup>+ \<and> (\<exists>d. dget defs i = Some d \<and> set (ad_depends d) \<subseteq> set sel))) \<and>
   (\<forall>order. dependency_order sel defs = Inr order \<longrightarrow> distinct order \<and> set order = set sel \<and>
      (\<forall>xs x ys. order = xs @ x # ys \<longrightarrow> (\<exists>d. dget defs x = Some d \<and> set (ad_depends d) \<subseteq> set xs)))"
proof (intro conjI iffI allI impI)
  assume "\<exists>order. dependency_order sel defs = Inr order"
  then obtain order where order: "dependency_order sel defs = Inr order" by blast
  then have "extends_order (dependency_search sel defs) [] [] (set sel) order"
    by (intro dfs_roots_sound) (auto simp: dependency_order_def)
  then have ord: "dependency_ordered (adjacency (dependency_search sel defs)) order" by (simp add: extends_order_def)
  show "\<forall>i\<in>set sel. (i, i) \<notin> (dependency_edges defs)\<^sup>+ \<and> (\<exists>d. dget defs i = Some d \<and> set (ad_depends d) \<subseteq> set sel)"
  proof (intro ballI conjI)
    fix i assume i: "i \<in> set sel"
    then have "i \<in> set order" using dependency_order_sound(2) [OF order] by simp
    then show "(i, i) \<notin> (dependency_edges defs)\<^sup>+"
      using ordered_no_cycle [OF ord] unfolding edges_dependency by blast
    obtain xs ys where "order = xs @ i # ys" using \<open>i \<in> set order\<close> by (meson split_list)
    with dependency_order_sound(2,3) [OF order] show "\<exists>d. dget defs i = Some d \<and> set (ad_depends d) \<subseteq> set sel" by fastforce
  qed
next
  assume a: "\<forall>i\<in>set sel. (i, i) \<notin> (dependency_edges defs)\<^sup>+ \<and> (\<exists>d. dget defs i = Some d \<and> set (ad_depends d) \<subseteq> set sel)"
  show "\<exists>order. dependency_order sel defs = Inr order"
  proof (cases "dependency_order sel defs")
    case (Inl e)
    then obtain x z where x: "x \<in> set sel" and xz: "(x, z) \<in> (dependency_edges defs)\<^sup>*"
        and why: "(z, z) \<in> (dependency_edges defs)\<^sup>+ \<or> dget defs z = None \<or>
          (\<exists>w. (z, w) \<in> dependency_edges defs \<and> w \<notin> set sel)"
      using dfs_roots_complete [of "dependency_search sel defs" sel "[]" e]
      unfolding dependency_order_def explained_def edges_dependency
      by (auto simp: dependency_search_def map_of_depends split: if_splits)
    have "z \<in> set sel" using xz
    proof (induction rule: rtrancl_induct)
      case (step y z)
      then show ?case using a by (force simp: dependency_edges_def)
    qed (rule x)
    with a why have False by (force simp: dependency_edges_def)
    then show ?thesis ..
  qed blast
qed (use dependency_order_sound in blast)+

section \<open>One child\<close>

definition child_agent :: "pydict \<Rightarrow> string" where
  "child_agent c = (case dget c ''agent_id'' of Some (PStr t) \<Rightarrow> t | _ \<Rightarrow> [])"

lemma child_fields_dset [simp]:
  "k \<noteq> ''status'' \<Longrightarrow> child_status (dset c k v) = child_status c"
  "k \<noteq> ''agent_id'' \<Longrightarrow> child_agent (dset c k v) = child_agent c"
  by (simp_all add: child_status_def child_agent_def)

lemma child_fields_summary [simp]:
  "child_status (execution_summary E a r sq n ro) = xr_status r"
  "child_agent (execution_summary E a r sq n ro) = a"
  by (simp_all add: execution_summary_def child_status_def child_agent_def dget_def)

lemma child_agent_Cons [simp]: "child_agent ((''agent_id'', PStr a) # c) = a"
  by (simp add: child_agent_def dget_def)

lemma retry_child_attempts:
  assumes "retry_child V d a sq ctx r at n ap s = (r', at', n', ap', s')"
    "at \<noteq> []" "length at \<le> Suc (sv_limit V)" "child_agent (last at) = a" "child_status (last at) = xr_status r"
  shows "at' \<noteq> [] \<and> length at' \<le> Suc (sv_limit V) \<and> n' + length at \<le> n + length at' \<and> child_agent (last at') = a \<and>
    (xr_status r' = ''completed'' \<longrightarrow> child_status (last at') = ''completed'')"
  using assms
proof (induction V d a sq ctx r at n ap s rule: retry_child.induct)
  case (1 V d a sq ctx r at n ap s)
  show ?case
  proof (cases "xr_status r = ''failed'' \<and> length at \<le> sv_limit V")
    case False
    with 1(2-) show ?thesis by (auto simp: retry_child.simps [of V d a sq ctx r at])
  next
    case True
    show ?thesis
    proof (cases "\<exists>prior. get_agent_run (xr_run r) (Scope_str (sv_tenant V)) s = Inr (Some prior)")
      case False
      with True 1(2-) show ?thesis
        by (auto simp: retry_child.simps [of V d a sq ctx r at] Let_def split: sum.splits option.splits)
    next
      case prior: True
      then obtain prior where prior: "get_agent_run (xr_run r) (Scope_str (sv_tenant V)) s = Inr (Some prior)" by blast
      let ?out = "retry_outcome V d prior ctx (int (length at) + 1) s"
      show ?thesis
      proof (cases "fst ?out")
        case (Inl e)
        with True prior 1(2-) show ?thesis
          by (auto simp: retry_child.simps [of V d a sq ctx r at] Let_def)
      next
        case (Inr r1)
        let ?at = "at @ [execution_summary (sv_env V) a r1 sq (int (length at) + 1) (Some (ar_id prior))]"
        have run: "retry_child V d a sq ctx r1 ?at (Suc n) (ap \<or> xr_approval r1 \<noteq> None) (snd ?out) = (r', at', n', ap', s')"
          using 1(2) True prior Inr by (simp add: retry_child.simps [of V d a sq ctx r at] Let_def)
        have "at' \<noteq> [] \<and> length at' \<le> Suc (sv_limit V) \<and> n' + length ?at \<le> Suc n + length at' \<and> child_agent (last at') = a \<and>
            (xr_status r' = ''completed'' \<longrightarrow> child_status (last at') = ''completed'')"
          by (rule 1(1) [OF _ refl refl prior refl refl Inr run]) (use True in auto)
        then show ?thesis by simp
      qed
    qed
  qed
qed

text \<open>What one iteration of the loop adds, when it goes on and when it stops.\<close>

definition child_added :: "sup_env \<Rightarrow> string \<Rightarrow> sup_state \<Rightarrow> sup_state \<Rightarrow> bool \<Rightarrow> bool" where
  "child_added V a st st' go \<longleftrightarrow>
     (\<exists>c. ss_children st' = ss_children st @ [c] \<and> child_agent c = a \<and>
        (if go then child_status c = ''completed'' \<and> ss_status st' = ss_status st
         else ss_status st' \<noteq> ''completed'' \<and> ss_next st' = Some a)) \<and>
     ss_executed st' \<le> ss_executed st + Suc (sv_limit V)"

lemma run_child_added: "run_child V d a sq st = (st', go) \<Longrightarrow> child_added V a st st' go"
proof -
  assume run: "run_child V d a sq st = (st', go)"
  let ?ctx = "child_context V d a sq st"
  let ?out = "rn_run (sv_runner V) d (sv_entity V) (sv_actor V) (sv_payload V) ?ctx (sv_role V) (ss_store st)"
  show ?thesis
  proof (cases "fst ?out")
    case (Inl e)
    with run show ?thesis by (auto simp: run_child_def Let_def child_added_def)
  next
    case (Inr first)
    obtain r at n ap s where rc: "retry_child V d a sq ?ctx first [execution_summary (sv_env V) a first sq 1 None]
        (Suc (ss_executed st)) (ss_approvals st \<or> xr_approval first \<noteq> None) (snd ?out) = (r, at, n, ap, s)"
      by (metis prod_cases5)
    have at: "at \<noteq> [] \<and> length at \<le> Suc (sv_limit V) \<and>
        n + length [execution_summary (sv_env V) a first sq 1 None] \<le> Suc (ss_executed st) + length at \<and> child_agent (last at) = a \<and>
        (xr_status r = ''completed'' \<longrightarrow> child_status (last at) = ''completed'')"
      by (rule retry_child_attempts [OF rc]) auto
    show ?thesis
    proof (cases "xr_status r = ''completed''")
      case True
      with run Inr rc at show ?thesis by (auto simp: run_child_def Let_def child_added_def)
    next
      case False
      with run Inr rc at show ?thesis by (auto simp: run_child_def Let_def child_added_def split: if_splits)
    qed
  qed
qed

lemma cancel_child_added: "child_added V a st (cancel_child V d a sq target st) False"
  by (auto simp: cancel_child_def Let_def child_added_def split: sum.splits option.splits)

lemma resume_child_added:
  assumes "child_status c = ''completed''" "child_agent c = a"
  shows "child_added V a st (resume_child a sq c st) True"
  using assms by (auto simp: resume_child_def Let_def child_added_def)

text \<open>What the checks before the loop establish.\<close>

definition sup_ready :: "sup_env \<Rightarrow> string list \<Rightarrow> bool" where
  "sup_ready V order \<longleftrightarrow> distinct order \<and> length order \<le> MAX_CHILD_AGENTS \<and> sv_limit V \<le> 3 \<and>
     (\<forall>xs x ys. order = xs @ x # ys \<longrightarrow> (\<exists>d. dget (sv_defs V) x = Some d \<and> set (ad_depends d) \<subseteq> set xs)) \<and>
     (\<forall>i d. dget (sv_defs V) i = Some d \<longrightarrow> ad_client d = Some (sv_tenant V) \<and> ad_enabled d) \<and>
     (\<forall>i c. dget (sv_completed V) i = Some c \<longrightarrow> child_status c = ''completed'' \<and> child_agent c = i)"

lemma child_step_added:
  assumes "dget (sv_defs V) a = Some d" "child_step V a sq st = (st', go)"
    "\<forall>i c. dget (sv_completed V) i = Some c \<longrightarrow> child_status c = ''completed'' \<and> child_agent c = i"
  shows "child_added V a st st' go"
  using assms by (auto simp: child_step_def split: option.splits if_splits
      intro: run_child_added cancel_child_added resume_child_added)

lemma child_loop_order:
  assumes "sup_ready V (done @ rest)" "map child_agent (ss_children st) = done"
    "\<forall>c\<in>set (ss_children st). child_status c = ''completed''" "ss_status st = ''completed''"
    "ss_executed st \<le> length done * Suc (sv_limit V)"
    "st' = child_loop V sq rest st"
  shows "map child_agent (ss_children st') = take (length (ss_children st')) (done @ rest) \<and>
    (\<forall>c\<in>set (butlast (ss_children st')). child_status c = ''completed'') \<and>
    ss_executed st' \<le> length (ss_children st') * Suc (sv_limit V) \<and>
    (ss_status st' = ''completed'' \<longrightarrow> length (ss_children st') = length (done @ rest) \<and>
       (\<forall>c\<in>set (ss_children st'). child_status c = ''completed'')) \<and>
    (ss_status st' \<noteq> ''completed'' \<longrightarrow> ss_children st' \<noteq> [] \<and> ss_next st' = Some (child_agent (last (ss_children st'))))"
  using assms
proof (induction rest arbitrary: "done" sq st)
  case Nil
  then have "length (ss_children st) = length done" by (metis length_map)
  with Nil show ?case by (auto dest: in_set_butlastD)
next
  case (Cons a rest)
  obtain d where d: "dget (sv_defs V) a = Some d" using Cons.prems(1) unfolding sup_ready_def by blast
  obtain st1 go where step: "child_step V a sq st = (st1, go)" by (cases "child_step V a sq st")
  have "child_added V a st st1 go"
    using child_step_added [OF d step] Cons.prems(1) unfolding sup_ready_def by blast
  then obtain c where c: "ss_children st1 = ss_children st @ [c]" "child_agent c = a"
      "if go then child_status c = ''completed'' \<and> ss_status st1 = ss_status st else ss_status st1 \<noteq> ''completed'' \<and> ss_next st1 = Some a"
      "ss_executed st1 \<le> ss_executed st + Suc (sv_limit V)" by (auto simp: child_added_def)
  have len: "length (ss_children st) = length done" using Cons.prems(2) by (metis length_map)
  show ?case
  proof (cases go)
    case True
    have "map child_agent (ss_children st') = take (length (ss_children st')) ((done @ [a]) @ rest) \<and>
      (\<forall>c\<in>set (butlast (ss_children st')). child_status c = ''completed'') \<and>
      ss_executed st' \<le> length (ss_children st') * Suc (sv_limit V) \<and>
      (ss_status st' = ''completed'' \<longrightarrow> length (ss_children st') = length ((done @ [a]) @ rest) \<and>
       (\<forall>c\<in>set (ss_children st'). child_status c = ''completed'')) \<and>
      (ss_status st' \<noteq> ''completed'' \<longrightarrow> ss_children st' \<noteq> [] \<and> ss_next st' = Some (child_agent (last (ss_children st'))))"
    proof (rule Cons.IH)
      show "st' = child_loop V (sq + 1) rest st1" using Cons.prems(6) step True by simp
    qed (use Cons.prems c True in auto)
    then show ?thesis by simp
  next
    case False
    then have st': "st' = st1" using Cons.prems(6) step by simp
    have "map child_agent (ss_children st1) = take (length (ss_children st1)) (done @ a # rest)"
      using c Cons.prems(2) len by simp
    with False Cons.prems(3,5) c len st' show ?thesis by auto
  qed
qed

section \<open>The checks\<close>

lemma load_each_status:
  "load_each E ids s selected entity client defs acc = Inr completed \<Longrightarrow>
     (\<forall>i c. dget acc i = Some c \<longrightarrow> child_status c = ''completed'' \<and> child_agent c = i) \<Longrightarrow>
     dget completed i = Some c \<Longrightarrow> child_status c = ''completed'' \<and> child_agent c = i"
proof (induction ids arbitrary: acc)
  case (Cons r ids)
  obtain run :: agent_run and state where rest: "load_each E ids s selected entity client defs (dset acc (ar_agent run)
      [(''agent_id'', PStr (ar_agent run)), (''run_id'', PInt (ar_id run)), (''status'', PStr ''completed''),
                      (''current_step'', PInt (ar_step run)),
                      (''final_result'', bounded_final_result E (dget_or (as_dict state) ''final_result'' (PDict []))),
                      (''resumed'', PBool True)]) = Inr completed"
    using Cons.prems(1) unfolding load_each.simps by (simp only: rbind_Inr_iff case_option_Inr raise_if_Inr_iff) blast
  show ?case using Cons.prems(2,3)
    by (intro Cons.IH [OF rest]) (auto simp: child_status_def dget_Cons split: if_splits)
qed simp

lemma scoped_definition_Inr:
  "scoped_definition d tenant = Inr x \<Longrightarrow>
     ad_client x = Some tenant \<and> ad_id x = ad_id d \<and> ad_depends x = ad_depends d \<and> ad_enabled x = ad_enabled d"
  by (auto simp: scoped_definition_def res_simps)

lemma scoped_list:
  "rmap (\<lambda>d. rbind (scoped_definition d tenant) (\<lambda>x. Inr (ad_id d, x))) ds = Inr scoped \<Longrightarrow>
     map fst scoped = map ad_id ds \<and> (\<forall>i x. dget scoped i = Some x \<longrightarrow> (\<exists>d\<in>set ds. ad_id d = i \<and> ad_depends x = ad_depends d \<and>
        ad_client x = Some tenant))"
proof (induction ds arbitrary: scoped)
  case (Cons d ds)
  then obtain x rest where x: "scoped_definition d tenant = Inr x" "scoped = (ad_id d, x) # rest"
      "rmap (\<lambda>d. rbind (scoped_definition d tenant) (\<lambda>x. Inr (ad_id d, x))) ds = Inr rest"
    by (auto simp: res_simps)
  with Cons.IH [OF x(3)] scoped_definition_Inr [OF x(1)] show ?case by (auto simp: dget_Cons split: if_splits)
qed (simp add: dget_def)

lemma plan_children_Inr:
  assumes "plan_children c t ids definitions r = Inr (tenant, tsk, limit, nids, children)"
  shows "select_children tenant (available_definitions definitions) nids = Inr children \<and>
    length nids \<le> MAX_CHILD_AGENTS \<and> distinct nids"
proof -
  have "\<exists>x. select_children x (available_definitions definitions) nids = Inr children \<and> x = tenant \<and> length ids \<le> MAX_CHILD_AGENTS \<and>
      rmap (\<lambda>v. sup_identifier v ''child_agent_id'') ids = Inr nids \<and> distinct nids"
    using assms unfolding plan_children_def by (auto simp: rbind_Inr_iff raise_if_Inr_iff)
  then show ?thesis using rmap_Inr_length by fastforce
qed

lemma prepare_Inr:
  assumes "prepare_execution E R client_id entity_id task child_ids definitions actor role input completed_ids retries cancel s = Inr (V, order)"
  shows "sup_ready V order \<and> sv_runner V = R \<and> sv_tenant V = strip client_id \<and> TECHNICIAN \<le> role"
proof -
  obtain tenant entity tsk limit payload children scoped cncl completed u1 u2 u3 u4 ord and w :: unit where
      role: "\<not> role < TECHNICIAN" and ten: "sup_text client_id ''client_id'' 128 = Inr tenant"
      and lim: "retry_limit retries = Inr limit"
      and plan: "plan_children tenant tsk child_ids definitions limit = Inr (u1, u2, u3, u4, children)"
      and dep: "dependency_order (map ad_id children) (available_definitions definitions) = Inr ord" "ord = order"
      and sc: "rmap (\<lambda>d. rbind (scoped_definition d tenant) (\<lambda>x. Inr (ad_id d, x))) children = Inr scoped"
      and en: "(case find (\<lambda>(i, d). \<not> ad_enabled d) scoped of None \<Rightarrow> Inr ()
            | Some (i, d) \<Rightarrow> Inl (SupervisorPlanError (''child agent is disabled: '' @ ad_id d))) = Inr w"
      and ld: "load_completed_runs E (case completed_ids of None \<Rightarrow> [] | Some l \<Rightarrow> l) s (map ad_id children) entity tenant scoped = Inr completed"
      and V: "\<lparr>sv_env = E, sv_runner = R, sv_actor = actor, sv_role = role, sv_tenant = tenant, sv_entity = entity,
           sv_task = tsk, sv_payload = payload, sv_limit = nat limit, sv_cancel = cncl, sv_defs = scoped, sv_completed = completed\<rparr> = V"
    using assms unfolding prepare_execution_def Let_def
    by (simp only: rbind_Inr_iff raise_if_Inr_iff split_paired_Ex prod.case sum.inject prod.inject) (elim exE conjE, rule that, assumption+)
  note dep = dep(1) [unfolded dep(2)]
  have tenant: "tenant = strip client_id" using ten by (auto simp: sup_text_def Let_def res_simps)
  have limit: "nat limit \<le> 3" using lim by (auto simp: retry_limit_def res_simps MAX_SUPERVISOR_RETRIES_def)
  have ids: "select_children u1 (available_definitions definitions) u4 = Inr children" "length u4 \<le> MAX_CHILD_AGENTS" "distinct u4"
    using plan_children_Inr [OF plan] by auto
  note sel = select_children_ids [OF ids(1)]
  note scd = scoped_list [OF sc]
  have "find (\<lambda>(i, d). \<not> ad_enabled d) scoped = None" using en by (cases "find (\<lambda>(i, d). \<not> ad_enabled d) scoped") auto
  then have enabled: "ad_enabled x" if "dget scoped i = Some x" for i x
    using dget_Some_in [OF that] by (force simp: find_None_iff)
  have defs: "ad_client x = Some tenant \<and> ad_enabled x" if "dget scoped i = Some x" for i x
    using that scd enabled by blast
  have "\<exists>x. dget scoped i = Some x \<and> set (ad_depends x) \<subseteq> set xs" if split: "order = xs @ i # ys" for xs i ys
  proof -
    obtain d where d: "dget (available_definitions definitions) i = Some d" "set (ad_depends d) \<subseteq> set xs"
      using dependency_order_sound(3) [OF dep split] by blast
    have "i \<in> set (map fst scoped)" using dependency_order_sound(2) [OF dep] split scd by auto
    then obtain x where x: "dget scoped i = Some x" by (metis dget_None_iff dkeys_def not_Some_eq)
    then obtain c where "c \<in> set children" "ad_id c = i" "ad_depends x = ad_depends c" using scd by blast
    with sel d have "ad_depends x = ad_depends d" by auto
    with x d show ?thesis by auto
  qed
  moreover have "length order \<le> MAX_CHILD_AGENTS"
    using dependency_order_sound(1,2) [OF dep] sel ids(2,3) by (metis distinct_card)
  moreover have "\<forall>i c. dget completed i = Some c \<longrightarrow> child_status c = ''completed'' \<and> child_agent c = i"
  proof -
    have "load_each E (case completed_ids of None \<Rightarrow> [] | Some l \<Rightarrow> l) s (map ad_id children) entity tenant scoped [] = Inr completed"
      using ld unfolding load_completed_runs_def by (simp only: rbind_Inr_iff raise_if_Inr_iff) blast
    from load_each_status [OF this] show ?thesis by (simp add: dget_def)
  qed
  ultimately show ?thesis using V tenant limit defs role dependency_order_sound(1) [OF dep]
    by (auto simp: sup_ready_def)
qed

section \<open>Properties\<close>

text \<open>
  C24. Children run in dependency order and stop at the first that does not complete: whatever the
  runner does, the recorded children are a prefix of an order in which every agent comes after all
  its dependencies; all of them but the last completed, and all of them did when the overall
  status is \<open>completed\<close>, which then covers every selected agent; otherwise the document names the
  last child as the one to resume from. The runner is called at most four times per child and at
  most thirty-two times in all.
\<close>

theorem supervisor_respects_dependencies:
  assumes "execute_supervisor_delegation E R client_id entity_id task child_ids definitions actor role input completed_ids retries cancel s
    = Inr (doc, t)"
  shows "\<exists>V order st. doc = execution_document V order cancel st \<and> t = ss_store st \<and>
    prepare_execution E R client_id entity_id task child_ids definitions actor role input completed_ids retries cancel s = Inr (V, order) \<and>
    (\<forall>xs x ys. order = xs @ x # ys \<longrightarrow> (\<exists>d. dget (sv_defs V) x = Some d \<and> set (ad_depends d) \<subseteq> set xs)) \<and>
    map child_agent (ss_children st) = take (length (ss_children st)) order \<and>
    (\<forall>c\<in>set (butlast (ss_children st)). child_status c = ''completed'') \<and>
    (ss_status st = ''completed'' \<longrightarrow> length (ss_children st) = length order \<and> (\<forall>c\<in>set (ss_children st). child_status c = ''completed'')) \<and>
    (ss_status st \<noteq> ''completed'' \<longrightarrow> ss_next st = Some (child_agent (last (ss_children st)))) \<and>
    ss_executed st \<le> 32"
proof -
  obtain V order where p: "prepare_execution E R client_id entity_id task child_ids definitions actor role input completed_ids retries cancel s
      = Inr (V, order)" and doc: "doc = execution_document V order cancel (child_loop V 1 order (sup_start s))"
      "t = ss_store (child_loop V 1 order (sup_start s))"
    using assms by (auto simp: execute_supervisor_delegation_def res_simps Let_def)
  have ready: "sup_ready V order" using prepare_Inr [OF p] by simp
  define st where "st = child_loop V 1 order (sup_start s)"
  have loop: "map child_agent (ss_children st) = take (length (ss_children st)) ([] @ order) \<and>
    (\<forall>c\<in>set (butlast (ss_children st)). child_status c = ''completed'') \<and>
    ss_executed st \<le> length (ss_children st) * Suc (sv_limit V) \<and>
    (ss_status st = ''completed'' \<longrightarrow> length (ss_children st) = length ([] @ order) \<and>
       (\<forall>c\<in>set (ss_children st). child_status c = ''completed'')) \<and>
    (ss_status st \<noteq> ''completed'' \<longrightarrow> ss_children st \<noteq> [] \<and> ss_next st = Some (child_agent (last (ss_children st))))"
    by (rule child_loop_order [OF _ _ _ _ _ st_def]) (use ready in \<open>simp_all add: sup_start_def\<close>)
  have "length (ss_children st) = length (take (length (ss_children st)) order)" using loop by (metis append_Nil length_map)
  then have "length (ss_children st) \<le> 8" using ready by (auto simp: sup_ready_def MAX_CHILD_AGENTS_def)
  moreover have "Suc (sv_limit V) \<le> 4" using ready by (simp add: sup_ready_def)
  ultimately have "length (ss_children st) * Suc (sv_limit V) \<le> 8 * 4" by (rule mult_le_mono)
  then have "ss_executed st \<le> 32" using loop by linarith
  moreover have "\<forall>xs x ys. order = xs @ x # ys \<longrightarrow> (\<exists>d. dget (sv_defs V) x = Some d \<and> set (ad_depends d) \<subseteq> set xs)"
    using ready unfolding sup_ready_def by blast
  ultimately show ?thesis using loop doc p unfolding st_def
    by (intro exI [of _ V] exI [of _ order] exI [of _ "child_loop V 1 order (sup_start s)"]) simp
qed

text \<open>A runner that refuses every definition outside a tenant or disabled.\<close>

definition guard_runner :: "string \<Rightarrow> runner \<Rightarrow> runner" where
  "guard_runner tenant R =
     (let ok = (\<lambda>d. ad_client d = Some tenant \<and> ad_enabled d); refuse = Inl (SupervisorPlanError ''refused'') in
      \<lparr>rn_run = (\<lambda>d e a p c r s. if ok d then rn_run R d e a p c r s else (refuse, s)),
       rn_retry = map_option (\<lambda>f d p a r c s. if ok d then f d p a r c s else (refuse, s)) (rn_retry R),
       rn_cancel = map_option (\<lambda>f d p a r s. if ok d then f d p a r s else (refuse, s)) (rn_cancel R)\<rparr>)"

abbreviation guarded :: "sup_env \<Rightarrow> sup_env" where
  "guarded V \<equiv> V\<lparr>sv_runner := guard_runner (sv_tenant V) (sv_runner V)\<rparr>"

lemma guarded_calls:
  assumes "ad_client d = Some (sv_tenant V)" "ad_enabled d"
  shows "rn_run (sv_runner (guarded V)) d e a p c r s = rn_run (sv_runner V) d e a p c r s"
    "retry_outcome (guarded V) d prior ctx n s = retry_outcome V d prior ctx n s"
    "cancel_child (guarded V) d x sq target st = cancel_child V d x sq target st"
  using assms by (auto simp: guard_runner_def Let_def retry_outcome_def cancel_child_def split: option.splits sum.splits)

lemma guarded_retry:
  "ad_client d = Some (sv_tenant V) \<Longrightarrow> ad_enabled d \<Longrightarrow>
     retry_child (guarded V) d a sq ctx r at n ap s = retry_child V d a sq ctx r at n ap s"
proof (induction V d a sq ctx r at n ap s rule: retry_child.induct)
  case (1 V d a sq ctx r at n ap s)
  show ?case
  proof (cases "xr_status r = ''failed'' \<and> length at \<le> sv_limit V")
    case False
    then show ?thesis
      using retry_child.simps [of V d a sq ctx r at n ap s] retry_child.simps [of "guarded V" d a sq ctx r at n ap s] by auto
  next
    case True
    show ?thesis
      unfolding retry_child.simps [of V d a sq ctx r at n ap s] retry_child.simps [of "guarded V" d a sq ctx r at n ap s]
      using True 1 guarded_calls(2) [OF 1(2,3)]
      by (auto simp: Let_def split: sum.splits option.splits)
  qed
qed

lemma guarded_run:
  assumes "ad_client d = Some (sv_tenant V)" "ad_enabled d"
  shows "run_child (guarded V) d a sq st = run_child V d a sq st"
  using guarded_calls(1) [OF assms] guarded_retry [OF assms]
  by (simp add: run_child_def child_context_def Let_def split: sum.split)

lemma guarded_loop:
  assumes "\<forall>i d. dget (sv_defs V) i = Some d \<longrightarrow> ad_client d = Some (sv_tenant V) \<and> ad_enabled d"
  shows "child_loop (guarded V) sq order st = child_loop V sq order st"
proof (induction order arbitrary: sq st)
  case (Cons a order)
  have "child_step (guarded V) a sq st = child_step V a sq st"
    using assms guarded_run guarded_calls(3) by (auto simp: child_step_def split: option.splits)
  with Cons show ?case by (simp split: prod.splits bool.splits)
qed simp

lemma prepare_runner:
  "prepare_execution E R' client_id entity_id task child_ids definitions actor role input completed_ids retries cancel s =
   map_sum id (\<lambda>(V, order). (V\<lparr>sv_runner := R'\<rparr>, order))
     (prepare_execution E R client_id entity_id task child_ids definitions actor role input completed_ids retries cancel s)"
proof -
  have map_rbind: "map_sum id f (rbind m k) = rbind m (\<lambda>x. map_sum id f (k x))" for f k and m :: "'a res"
    by (cases m) simp_all
  have map_case: "map_sum id f (case p of (a, b, c, d, e) \<Rightarrow> g a b c d e) = (case p of (a, b, c, d, e) \<Rightarrow> map_sum id f (g a b c d e))"
    for f g and p :: "'a \<times> 'b \<times> 'c \<times> 'd \<times> 'e" by (cases p) simp
  show ?thesis unfolding prepare_execution_def Let_def by (simp add: map_rbind map_case cong: prod.case_cong)
qed

text \<open>
  C23. The supervisor stays in its tenant: for every runner, an execution is unchanged when the runner is
  replaced by one that refuses every definition that is disabled or not bound to the requested tenant;
  so no run, retry or cancellation is ever asked for such a definition.
\<close>

theorem supervisor_stays_in_tenant:
  "execute_supervisor_delegation E (guard_runner (strip client_id) R) client_id entity_id task child_ids definitions actor role input
     completed_ids retries cancel s =
   execute_supervisor_delegation E R client_id entity_id task child_ids definitions actor role input completed_ids retries cancel s"
proof (cases "prepare_execution E R client_id entity_id task child_ids definitions actor role input completed_ids retries cancel s")
  case (Inl e)
  then show ?thesis by (simp add: execute_supervisor_delegation_def prepare_runner [of E "guard_runner (strip client_id) R" _ _ _ _ _ _ _ _ _ _ _ _ R])
next
  case (Inr p)
  obtain V order where p: "p = (V, order)" by (cases p)
  have V: "sup_ready V order" "sv_runner V = R" "sv_tenant V = strip client_id" using prepare_Inr Inr p by blast+
  have "child_loop (guarded V) 1 order (sup_start s) = child_loop V 1 order (sup_start s)"
    by (rule guarded_loop) (use V(1) in \<open>unfold sup_ready_def, blast\<close>)
  then show ?thesis using Inr p V(2,3)
    by (simp add: execute_supervisor_delegation_def Let_def execution_document_def
        prepare_runner [of E "guard_runner (strip client_id) R" _ _ _ _ _ _ _ _ _ _ _ _ R])
qed

section \<open>An execution\<close>

definition demo_runner :: runner where
  "demo_runner = \<lparr>rn_run = (\<lambda>d e a p c r s. (if ad_id d = ''b''
       then Inr \<lparr>xr_run = 2, xr_status = ''pending_approval'', xr_step = 1, xr_final = PDict [], xr_approval = Some 7, xr_error = [],
         xr_agent = ad_id d, xr_steps = [], xr_revision = None\<rparr>
       else Inr \<lparr>xr_run = 1, xr_status = ''completed'', xr_step = 1, xr_final = PDict [], xr_approval = None, xr_error = [],
         xr_agent = ad_id d, xr_steps = [], xr_revision = None\<rparr>, s)),
     rn_retry = None, rn_cancel = None\<rparr>"

definition demo_child :: "string \<Rightarrow> string list \<Rightarrow> agent_def" where
  "demo_child i deps = plain_agent i deps"

definition demo_children :: "agent_def list" where
  "demo_children = [demo_child ''b'' [''a''], demo_child ''a'' []]"

definition demo_execution :: "(pyval \<times> store) res" where
  "demo_execution = execute_supervisor_delegation plain_env demo_runner ''acme'' ''t1'' ''triage'' [''b'', ''a''] demo_children
     ''op'' TECHNICIAN None None 1 None empty_store"

theorem dependency_order_correct_witness:
  "dependency_order [''b'', ''a''] (available_definitions demo_children) = Inr [''a'', ''b''] \<and>
   (\<exists>d. dget (available_definitions demo_children) ''b'' = Some d \<and> set (ad_depends d) \<subseteq> {''a''})"
proof -
  have o: "dependency_order [''b'', ''a''] (available_definitions demo_children) = Inr [''a'', ''b'']" by code_simp
  have "[''a'', ''b''] = [''a''] @ ''b'' # []" by simp
  then have "\<exists>d. dget (available_definitions demo_children) ''b'' = Some d \<and> set (ad_depends d) \<subseteq> set [''a'']"
    using dependency_order_correct [of "[''b'', ''a'']" "available_definitions demo_children"] o by blast
  with o show ?thesis by simp
qed

lemma demo_execution_stops:
  "(case demo_execution of Inr (PDict doc, t) \<Rightarrow>
      dget doc ''status'' = Some (PStr ''pending_approval'') \<and>
      (case dget doc ''children'' of Some (PList cs) \<Rightarrow> length cs = 2 | _ \<Rightarrow> False) | _ \<Rightarrow> False)"
  by code_simp

theorem supervisor_respects_dependencies_witness:
  "\<exists>doc t V order st. demo_execution = Inr (doc, t) \<and> doc = execution_document V order None st \<and> ss_executed st \<le> 32 \<and>
     map child_agent (ss_children st) = take (length (ss_children st)) order"
proof -
  obtain doc t where d: "demo_execution = Inr (doc, t)"
    using demo_execution_stops by (auto split: sum.splits)
  from supervisor_respects_dependencies [OF this [unfolded demo_execution_def]] d show ?thesis by blast
qed

end
