(* ===== verification/Scheduled_Jobs.thy ===== *)
theory Scheduled_Jobs
  imports Client_Scope
begin

text \<open>
  Scheduled jobs: the table operations of \<open>store.py\<close> and the \<open>SchedulerManager\<close> of \<open>scheduler.py\<close> that
  keeps the live scheduler in step with the table. The live scheduler is APScheduler: the record
  \<open>live_ops\<close> of the calls the code makes of it, on a state of any type. The time zone database, the
  crontab syntax APScheduler accepts and the grammar of \<open>datetime.fromisoformat\<close> are the functions of the
  record \<open>sched_lib\<close>; a timestamp without a time zone carries the instant it is when read as UTC. The field \<open>next_run_at\<close>, which \<open>_with_runtime_state\<close> copies from the live job into
  the returned value, is not represented.
\<close>

datatype iso = Bad_iso | Naive_iso time | Aware_iso time

record sched_lib =
  tz_ok :: "string \<Rightarrow> bool"
  cron_ok :: "string \<Rightarrow> string \<Rightarrow> bool"
  parse_iso :: "string \<Rightarrow> iso"

section \<open>The table\<close>

definition find_job :: "store \<Rightarrow> int \<Rightarrow> job_row option" where
  "find_job s i = find (\<lambda>j. jo_id j = i) (jobs s)"

definition scheduled_job_from_row :: "job_row \<Rightarrow> job_row" where
  "scheduled_job_from_row j = j\<lparr>jo_timezone := (if jo_timezone j = [] then ''UTC'' else jo_timezone j)\<rparr>"

definition get_scheduled_job :: "int \<Rightarrow> store \<Rightarrow> job_row option" where
  "get_scheduled_job i s = map_option scheduled_job_from_row (find_job s i)"

definition list_scheduled_jobs :: "scope_arg \<Rightarrow> store \<Rightarrow> job_row list res" where
  "list_scheduled_jobs scope s =
     rbind (client_scope_predicate scope) (\<lambda>p.
     Inr (map scheduled_job_from_row (rev (sort_key jo_id (filter (\<lambda>j. p (jo_client j)) (jobs s))))))"

definition scheduled_ticket_id_for_job :: "string \<Rightarrow> string option \<Rightarrow> pydict \<Rightarrow> string option" where
  "scheduled_ticket_id_for_job job_kind entity_id params =
     (if job_kind = ''agent'' \<and> normalize_client_id entity_id \<noteq> None then normalize_client_id entity_id
      else if job_kind \<in> {''workflow'', ''playbook''}
      then (case dget params ''ticket_id'' of Some (PStr t) \<Rightarrow> strip_or_none t | _ \<Rightarrow> None)
      else None)"

definition scheduled_target :: "string \<Rightarrow> string \<Rightarrow> string option \<Rightarrow> string" where
  "scheduled_target job_kind template_id agent_id =
     (if job_kind = ''agent''
      then ''agent '' @ (case agent_id of None \<Rightarrow> ''unknown'' | Some a \<Rightarrow> if a = [] then ''unknown'' else a)
      else if job_kind = ''report'' then ''report '' @ template_id
      else if job_kind = ''playbook'' then ''playbook '' @ template_id
      else template_id)"

definition job_persisted :: "int \<Rightarrow> store \<Rightarrow> (job_row \<times> store) res" where
  "job_persisted i s =
     (case get_scheduled_job i s of None \<Rightarrow> Inl (RuntimeError ''scheduled job was not persisted'') | Some j \<Rightarrow> Inr (j, s))"

definition create_scheduled_job ::
  "env \<Rightarrow> time \<Rightarrow> string \<Rightarrow> string \<Rightarrow> pydict \<Rightarrow> bool \<Rightarrow> string option \<Rightarrow> string \<Rightarrow> string option \<Rightarrow> string option \<Rightarrow> string \<Rightarrow>
   int option \<Rightarrow> string option \<Rightarrow> string \<Rightarrow> store \<Rightarrow> (job_row \<times> store) res" where
  "create_scheduled_job E now template_id cron params paused client_id job_kind agent_id entity_id schedule_type
     interval_seconds run_at timezone s =
     (let c = normalize_client_id client_id; target = scheduled_target job_kind template_id agent_id in
      rbind (case scheduled_ticket_id_for_job job_kind entity_id params of
               None \<Rightarrow> Inr () | Some t \<Rightarrow> require_ticket_not_quarantined s t) (\<lambda>_.
      let i = jobs_seq s + 1;
          s1 = s\<lparr>jobs_seq := i, jobs := jobs s @
            [\<lparr>jo_id = i, jo_template = template_id, jo_cron = cron, jo_params = params, jo_paused = paused, jo_created = now,
              jo_updated = now, jo_client = c, jo_kind = job_kind, jo_agent = agent_id, jo_entity = entity_id,
              jo_schedule = schedule_type, jo_interval = interval_seconds, jo_run_at = run_at, jo_timezone = timezone\<rparr>]\<rparr>;
          s2 = add_audit_row now ''scheduled_job.created'' (show_int i) (target @ '' scheduled with cron '' @ cron) c None s1;
          s3 = add_history_row E now ''scheduled_job.created'' (show_int i) (if paused then ''paused'' else ''scheduled'')
                 (target @ '' scheduled with cron '' @ cron) (PDict params) c s2
      in job_persisted i s3))"

definition update_scheduled_job_paused :: "env \<Rightarrow> time \<Rightarrow> int \<Rightarrow> bool \<Rightarrow> store \<Rightarrow> (job_row \<times> store) res" where
  "update_scheduled_job_paused E now i paused s =
     (case find_job s i of
        None \<Rightarrow> Inl (KeyError (show_int i))
      | Some row \<Rightarrow>
          let s1 = s\<lparr>jobs := update_where (\<lambda>j. jo_id j = i) (\<lambda>j. j\<lparr>jo_paused := paused, jo_updated := now\<rparr>) (jobs s)\<rparr>;
              detail = (if paused then ''paused'' else ''resumed'');
              s2 = add_audit_row now (''scheduled_job.'' @ detail) (show_int i) (jo_template row @ '' '' @ detail) (jo_client row) None s1;
              s3 = add_history_row E now (''scheduled_job.'' @ detail) (show_int i) detail (jo_template row @ '' '' @ detail)
                     (PDict (jo_params row)) (jo_client row) s2
          in job_persisted i s3)"

definition update_scheduled_job_schedule ::
  "env \<Rightarrow> time \<Rightarrow> int \<Rightarrow> string \<Rightarrow> string \<Rightarrow> int option \<Rightarrow> string option \<Rightarrow> string \<Rightarrow> store \<Rightarrow> (job_row \<times> store) res" where
  "update_scheduled_job_schedule E now i schedule_type cron interval_seconds run_at timezone s =
     (case find_job s i of
        None \<Rightarrow> Inl (KeyError (show_int i))
      | Some row \<Rightarrow>
          let s1 = s\<lparr>jobs := update_where (\<lambda>j. jo_id j = i)
                 (\<lambda>j. j\<lparr>jo_cron := cron, jo_schedule := schedule_type, jo_interval := interval_seconds, jo_run_at := run_at,
                        jo_timezone := timezone, jo_updated := now\<rparr>) (jobs s)\<rparr>;
              detail = jo_template row @ '' '' @ schedule_type @ '' schedule updated'';
              s2 = add_audit_row now ''scheduled_job.rescheduled'' (show_int i) detail (jo_client row) None s1;
              s3 = add_history_row E now ''scheduled_job.rescheduled'' (show_int i) ''rescheduled'' detail
                     (PDict [(''cron'', PStr cron), (''schedule_type'', PStr schedule_type),
                        (''interval_seconds'', opt_int interval_seconds), (''run_at'', opt_str run_at)]) (jo_client row) s2
          in job_persisted i s3)"

definition delete_scheduled_job :: "env \<Rightarrow> time \<Rightarrow> int \<Rightarrow> store \<Rightarrow> (job_row \<times> store) res" where
  "delete_scheduled_job E now i s =
     (case find_job s i of
        None \<Rightarrow> Inl (KeyError (show_int i))
      | Some row \<Rightarrow>
          let s1 = s\<lparr>jobs := filter (\<lambda>j. jo_id j \<noteq> i) (jobs s)\<rparr>;
              s2 = add_audit_row now ''scheduled_job.deleted'' (show_int i) (jo_template row @ '' removed'') (jo_client row) None s1;
              s3 = add_history_row E now ''scheduled_job.deleted'' (show_int i) ''deleted'' (jo_template row @ '' removed'')
                     (PDict (jo_params row)) (jo_client row) s2
          in Inr (scheduled_job_from_row row, s3))"

section \<open>Validation\<close>

definition validate_timezone :: "sched_lib \<Rightarrow> string \<Rightarrow> string res" where
  "validate_timezone L timezone =
     (if strip timezone = [] \<or> \<not> tz_ok L (strip timezone)
      then Inl (ValueError ''timezone must be a valid IANA timezone'') else Inr (strip timezone))"

definition validate_cron_expression :: "sched_lib \<Rightarrow> string \<Rightarrow> string \<Rightarrow> unit res" where
  "validate_cron_expression L cron timezone =
     (case validate_timezone L timezone of
        Inl e \<Rightarrow> Inl (ValueError ''invalid cron expression; expected standard 5-field crontab syntax'')
      | Inr z \<Rightarrow> raise_if (\<not> cron_ok L cron z)
                   (ValueError ''invalid cron expression; expected standard 5-field crontab syntax''))"

definition parse_run_at :: "sched_lib \<Rightarrow> string \<Rightarrow> time res" where
  "parse_run_at L run_at =
     (case parse_iso L run_at of
        Bad_iso \<Rightarrow> Inl (ValueError ''run_at must be a valid ISO-8601 timestamp'')
      | Naive_iso _ \<Rightarrow> Inl (ValueError ''run_at must include a timezone'')
      | Aware_iso t \<Rightarrow> Inr t)"

definition validate_schedule ::
  "sched_lib \<Rightarrow> time \<Rightarrow> string \<Rightarrow> string \<Rightarrow> int option \<Rightarrow> string option \<Rightarrow> string \<Rightarrow> string res" where
  "validate_schedule L now schedule_type cron interval_seconds run_at timezone =
     rbind (validate_timezone L timezone) (\<lambda>z.
     if schedule_type = ''cron'' then
       rbind (validate_cron_expression L cron z) (\<lambda>_.
       rbind (raise_if (interval_seconds \<noteq> None \<or> run_at \<noteq> None)
         (ValueError ''cron schedules cannot include interval_seconds or run_at'')) (\<lambda>_. Inr z))
     else if schedule_type = ''interval'' then
       (case interval_seconds of
          None \<Rightarrow> Inl (ValueError ''interval schedules require interval_seconds'')
        | Some n \<Rightarrow>
            rbind (raise_if (n < 1 \<or> n > 31536000) (ValueError ''interval_seconds must be between 1 and 31536000'')) (\<lambda>_.
            rbind (raise_if (cron \<noteq> [] \<or> run_at \<noteq> None)
              (ValueError ''interval schedules cannot include cron or run_at'')) (\<lambda>_. Inr z)))
     else if schedule_type = ''once'' then
       (case run_at of
          None \<Rightarrow> Inl (ValueError ''one-time schedules require run_at'')
        | Some r \<Rightarrow>
            rbind (raise_if (strip r = []) (ValueError ''one-time schedules require run_at'')) (\<lambda>_.
            rbind (raise_if (cron \<noteq> [] \<or> interval_seconds \<noteq> None)
              (ValueError ''one-time schedules cannot include cron or interval_seconds'')) (\<lambda>_.
            rbind (parse_run_at L r) (\<lambda>t.
            rbind (raise_if (t \<le> now) (ValueError ''run_at must be in the future'')) (\<lambda>_. Inr z)))))
     else Inl (ValueError ''schedule_type must be cron, interval, or once''))"

definition SCHEDULED_REPORT_TYPES :: "string list" where
  "SCHEDULED_REPORT_TYPES = [''qbr'', ''automation_opportunity'', ''recurring_service_review'']"

text \<open>\<open>_string_or_none\<close> of an optional text: the text itself, unless blank.\<close>

definition text_or_none :: "string option \<Rightarrow> string option" where
  "text_or_none v = (case v of Some t \<Rightarrow> if strip t = [] then None else Some t | None \<Rightarrow> None)"

definition validate_schedule_target :: "string \<Rightarrow> string \<Rightarrow> string option \<Rightarrow> string option \<Rightarrow> unit res" where
  "validate_schedule_target job_kind template_id agent_id entity_id =
     (if job_kind = ''workflow'' then
        raise_if (template_id = [] \<or> agent_id \<noteq> None \<or> entity_id \<noteq> None) (ValueError ''workflow schedules require template_id only'')
      else if job_kind = ''agent'' then
        raise_if (template_id \<noteq> [] \<or> text_or_none agent_id = None \<or> text_or_none entity_id = None)
          (ValueError ''agent schedules require agent_id and entity_id'')
      else if job_kind = ''report'' then
        raise_if (template_id \<notin> set SCHEDULED_REPORT_TYPES \<or> agent_id \<noteq> None \<or> entity_id \<noteq> None)
          (ValueError ''report schedules require a supported report type only'')
      else if job_kind = ''connector_poll'' then
        raise_if (template_id \<noteq> [] \<or> agent_id \<noteq> None \<or> text_or_none entity_id = None)
          (ValueError ''connector_poll schedules require entity_id only'')
      else if job_kind = ''graph_sync'' then
        raise_if (template_id \<noteq> [] \<or> agent_id \<noteq> None \<or> text_or_none entity_id = None)
          (ValueError ''graph_sync schedules require entity_id only'')
      else if job_kind = ''baseline_snapshot'' then
        raise_if (template_id \<noteq> [] \<or> agent_id \<noteq> None \<or> text_or_none entity_id = None)
          (ValueError ''baseline_snapshot schedules require entity_id only'')
      else if job_kind = ''backup'' then
        raise_if (template_id \<noteq> [] \<or> agent_id \<noteq> None \<or> entity_id \<noteq> None) (ValueError ''backup schedules require no target'')
      else if job_kind = ''playbook'' then
        raise_if (template_id = [] \<or> agent_id \<noteq> None \<or> entity_id \<noteq> None) (ValueError ''playbook schedules require playbook_id only'')
      else Inl (ValueError ''unsupported scheduled job kind''))"

section \<open>The live scheduler\<close>

datatype live_task = Retry_worker | Founder_worker | Run_job job_row

record 'q live_ops =
  lv_new :: 'q
  lv_add :: "string \<Rightarrow> live_task \<Rightarrow> 'q \<Rightarrow> 'q"
  lv_has :: "string \<Rightarrow> 'q \<Rightarrow> bool"
  lv_pause :: "string \<Rightarrow> 'q \<Rightarrow> 'q"
  lv_resume :: "string \<Rightarrow> 'q \<Rightarrow> 'q"
  lv_remove :: "string \<Rightarrow> 'q \<Rightarrow> 'q"

record 'q manager =
  mg_store :: store
  mg_enabled :: bool
  mg_started :: bool
  mg_dispatcher :: bool
  mg_founder :: bool
  mg_live :: "'q option"

definition job_identity :: "int \<Rightarrow> string" where
  "job_identity i = ''scheduled-job:'' @ show_int i"

text \<open>The trigger objects are built by the library; they are refused for the reasons modelled here.\<close>

definition schedule_trigger :: "sched_lib \<Rightarrow> job_row \<Rightarrow> unit res" where
  "schedule_trigger L j =
     (if jo_schedule j = ''interval'' then rbind (validate_timezone L (jo_timezone j)) (\<lambda>_. Inr ())
      else if jo_schedule j = ''once''
      then rbind (parse_run_at L (case jo_run_at j of None \<Rightarrow> [] | Some r \<Rightarrow> r)) (\<lambda>_.
           rbind (validate_timezone L (jo_timezone j)) (\<lambda>_. Inr ()))
      else rbind (validate_timezone L (jo_timezone j)) (\<lambda>z.
           raise_if (\<not> cron_ok L (jo_cron j) z) (ValueError ''cron'')))"

definition register_live_job :: "sched_lib \<Rightarrow> 'q live_ops \<Rightarrow> time \<Rightarrow> job_row \<Rightarrow> 'q \<Rightarrow> 'q res" where
  "register_live_job L live now j q =
     rbind (if jo_schedule j = ''once''
            then rbind (parse_run_at L (case jo_run_at j of None \<Rightarrow> [] | Some r \<Rightarrow> r)) (\<lambda>t. Inr (t \<le> now))
            else Inr False) (\<lambda>lapsed.
     if lapsed then Inr q
     else rbind (schedule_trigger L j) (\<lambda>_.
          let k = job_identity (jo_id j); q1 = lv_add live k (Run_job j) q in
          Inr (if jo_paused j then lv_pause live k q1 else q1)))"

text \<open>
  The operations of the manager. The second component is the manager afterwards, also when the first is an
  error: a store transaction that committed is not undone when the live scheduler then raises.
\<close>

definition with_live :: "('q \<Rightarrow> 'q res) \<Rightarrow> 'a \<Rightarrow> 'q manager \<Rightarrow> 'a res \<times> 'q manager" where
  "with_live f x m =
     (case mg_live m of
        None \<Rightarrow> (Inr x, m)
      | Some q \<Rightarrow> (case f q of Inl e \<Rightarrow> (Inl e, m) | Inr q' \<Rightarrow> (Inr x, m\<lparr>mg_live := Some q'\<rparr>)))"

definition store_call :: "('a \<times> store) res \<Rightarrow> ('a \<Rightarrow> 'q \<Rightarrow> 'q res) \<Rightarrow> 'q manager \<Rightarrow> 'a res \<times> 'q manager" where
  "store_call call f m =
     (case call of Inl e \<Rightarrow> (Inl e, m) | Inr (x, s) \<Rightarrow> with_live (f x) x (m\<lparr>mg_store := s\<rparr>))"

fun register_all :: "sched_lib \<Rightarrow> 'q live_ops \<Rightarrow> time \<Rightarrow> job_row list \<Rightarrow> 'q \<Rightarrow> err option \<times> 'q" where
  "register_all L live now [] q = (None, q)"
| "register_all L live now (j # js) q =
     (case register_live_job L live now j q of Inl e \<Rightarrow> (Some e, q) | Inr q' \<Rightarrow> register_all L live now js q')"

definition start_manager :: "sched_lib \<Rightarrow> 'q live_ops \<Rightarrow> time \<Rightarrow> 'q manager \<Rightarrow> unit res \<times> 'q manager" where
  "start_manager L live now m =
     (if mg_started m then (Inr (), m)
      else if \<not> mg_enabled m then (Inr (), m\<lparr>mg_started := True\<rparr>)
      else
        let q0 = lv_new live;
            q1 = (if mg_dispatcher m then lv_add live ''event-delivery-retry-worker'' Retry_worker q0 else q0);
            q2 = (if mg_founder m then lv_add live ''founder-scan-poll-worker'' Founder_worker q1 else q1) in
        case list_scheduled_jobs (Scope AllClients) (mg_store m) of
          Inl e \<Rightarrow> (Inl e, m\<lparr>mg_started := True, mg_live := Some q2\<rparr>)
        | Inr js \<Rightarrow> (case register_all L live now js q2 of
              (None, q) \<Rightarrow> (Inr (), m\<lparr>mg_started := True, mg_live := Some q\<rparr>)
            | (Some e, q) \<Rightarrow> (Inl e, m\<lparr>mg_started := True, mg_live := Some q\<rparr>)))"

definition shutdown_manager :: "'q manager \<Rightarrow> 'q manager" where
  "shutdown_manager m = m\<lparr>mg_live := None, mg_started := False\<rparr>"

text \<open>The checks of \<open>register\<close>, with the normalised time zone and the client the job is stored for.\<close>

definition register_checks ::
  "sched_lib \<Rightarrow> time \<Rightarrow> string \<Rightarrow> string \<Rightarrow> pydict \<Rightarrow> string \<Rightarrow> string option \<Rightarrow> string option \<Rightarrow> string \<Rightarrow>
   int option \<Rightarrow> string option \<Rightarrow> string \<Rightarrow> (string \<times> string option) res" where
  "register_checks L now template_id cron params job_kind agent_id entity_id schedule_type interval_seconds run_at timezone =
     (let client = (case dget params ''client_id'' of Some v \<Rightarrow> string_or_none v | None \<Rightarrow> None);
          scoped = text_or_none entity_id in
      rbind (validate_schedule L now schedule_type cron interval_seconds run_at timezone) (\<lambda>z.
      rbind (validate_schedule_target job_kind template_id agent_id entity_id) (\<lambda>_.
      rbind (raise_if (job_kind = ''backup'' \<and> client \<noteq> None) (ValueError ''backup schedules must be appliance-level'')) (\<lambda>_.
      if job_kind \<in> {''graph_sync'', ''baseline_snapshot''}
      then rbind (raise_if (client \<noteq> None \<and> client \<noteq> scoped)
             (ValueError (job_kind @ '' schedule client scope must match entity_id''))) (\<lambda>_. Inr (z, scoped))
      else Inr (z, client)))))"

definition register_job ::
  "env \<Rightarrow> sched_lib \<Rightarrow> 'q live_ops \<Rightarrow> time \<Rightarrow> string \<Rightarrow> string \<Rightarrow> pydict \<Rightarrow> string \<Rightarrow> string option \<Rightarrow> string option \<Rightarrow> string \<Rightarrow>
   int option \<Rightarrow> string option \<Rightarrow> string \<Rightarrow> 'q manager \<Rightarrow> job_row res \<times> 'q manager" where
  "register_job E L live now template_id cron params job_kind agent_id entity_id schedule_type interval_seconds run_at timezone m =
     (case register_checks L now template_id cron params job_kind agent_id entity_id schedule_type interval_seconds run_at timezone of
        Inl e \<Rightarrow> (Inl e, m)
      | Inr (z, c) \<Rightarrow>
          store_call (create_scheduled_job E now template_id cron params False c job_kind agent_id entity_id schedule_type
                        interval_seconds run_at z (mg_store m))
            (\<lambda>j. register_live_job L live now j) m)"

definition pause_job :: "env \<Rightarrow> 'q live_ops \<Rightarrow> time \<Rightarrow> int \<Rightarrow> 'q manager \<Rightarrow> job_row res \<times> 'q manager" where
  "pause_job E live now i m =
     store_call (update_scheduled_job_paused E now i True (mg_store m))
       (\<lambda>j q. Inr (if lv_has live (job_identity i) q then lv_pause live (job_identity i) q else q)) m"

definition resume_job :: "env \<Rightarrow> 'q live_ops \<Rightarrow> time \<Rightarrow> int \<Rightarrow> 'q manager \<Rightarrow> job_row res \<times> 'q manager" where
  "resume_job E live now i m =
     store_call (update_scheduled_job_paused E now i False (mg_store m))
       (\<lambda>j q. Inr (if lv_has live (job_identity i) q then lv_resume live (job_identity i) q else q)) m"

definition reschedule_job ::
  "env \<Rightarrow> sched_lib \<Rightarrow> 'q live_ops \<Rightarrow> time \<Rightarrow> int \<Rightarrow> string \<Rightarrow> string \<Rightarrow> int option \<Rightarrow> string option \<Rightarrow> string \<Rightarrow> 'q manager \<Rightarrow>
   job_row res \<times> 'q manager" where
  "reschedule_job E L live now i cron schedule_type interval_seconds run_at timezone m =
     (case get_scheduled_job i (mg_store m) of
        None \<Rightarrow> (Inl (KeyError (show_int i)), m)
      | Some existing \<Rightarrow>
          (case rbind (validate_schedule L now schedule_type cron interval_seconds run_at timezone) (\<lambda>z.
                rbind (validate_schedule_target (jo_kind existing) (jo_template existing) (jo_agent existing) (jo_entity existing))
                  (\<lambda>_. Inr z)) of
             Inl e \<Rightarrow> (Inl e, m)
           | Inr z \<Rightarrow>
               store_call (update_scheduled_job_schedule E now i schedule_type cron interval_seconds run_at z (mg_store m))
                 (\<lambda>j. register_live_job L live now j) m))"

definition remove_job :: "env \<Rightarrow> 'q live_ops \<Rightarrow> time \<Rightarrow> int \<Rightarrow> 'q manager \<Rightarrow> job_row res \<times> 'q manager" where
  "remove_job E live now i m =
     store_call (delete_scheduled_job E now i (mg_store m))
       (\<lambda>j q. Inr (if lv_has live (job_identity i) q then lv_remove live (job_identity i) q else q)) m"

definition list_jobs :: "scope_arg \<Rightarrow> 'q manager \<Rightarrow> job_row list res" where
  "list_jobs scope m = list_scheduled_jobs scope (mg_store m)"

datatype job_op =
    RegisterJob string string pydict string "string option" "string option" string "int option" "string option" string
  | PauseJob int
  | ResumeJob int
  | RescheduleJob int string string "int option" "string option" string
  | RemoveJob int

fun job_step :: "env \<Rightarrow> sched_lib \<Rightarrow> 'q live_ops \<Rightarrow> time \<times> job_op \<Rightarrow> 'q manager \<Rightarrow> job_row res \<times> 'q manager" where
  "job_step E L live (now, RegisterJob t c p k a e st n r z) m = register_job E L live now t c p k a e st n r z m"
| "job_step E L live (now, PauseJob i) m = pause_job E live now i m"
| "job_step E L live (now, ResumeJob i) m = resume_job E live now i m"
| "job_step E L live (now, RescheduleJob i c st n r z) m = reschedule_job E L live now i c st n r z m"
| "job_step E L live (now, RemoveJob i) m = remove_job E live now i m"

end
