(* ===== verification/Scheduler_Laws.thy ===== *)
theory Scheduler_Laws
  imports Scheduled_Jobs
begin

text \<open>
  The live scheduler mirrors the table of scheduled jobs, and every stored job passed the validation of its
  kind and schedule. \<open>live_ok\<close> is what is assumed of the live scheduler: a view of it as a map from
  identities to tasks with a paused flag, on which its calls act as APScheduler documents them. Resuming
  may drop a one-time job whose time has passed.
\<close>

section \<open>The table\<close>

definition jobs_inv :: "store \<Rightarrow> bool" where
  "jobs_inv s \<longleftrightarrow> distinct (map jo_id (jobs s)) \<and> (\<forall>j\<in>set (jobs s). jo_id j \<le> jobs_seq s)"

lemma find_job_id: "find_job s i = Some j \<Longrightarrow> jo_id j = i \<and> j \<in> set (jobs s)"
  by (auto simp: find_job_def dest: find_SomeD)

lemma find_job_fresh: "jobs_inv s \<Longrightarrow> find_job s (jobs_seq s + 1) = None"
  by (force simp: find_job_def find_None_iff jobs_inv_def)

lemma jobs_frame [simp]:
  "jobs (add_audit_row n e u d c a s) = jobs s" "jobs (add_history_row E n e u st m p c s) = jobs s"
  "jobs_seq (add_audit_row n e u d c a s) = jobs_seq s" "jobs_seq (add_history_row E n e u st m p c s) = jobs_seq s"
  by (simp_all add: audit_defs)

lemma jobs_inv_cong: "jobs t = jobs s \<Longrightarrow> jobs_seq t = jobs_seq s \<Longrightarrow> jobs_inv t = jobs_inv s"
  by (simp add: jobs_inv_def)

text \<open>The table after each operation, as the rows its lookup finds.\<close>

lemma job_persisted_Inr: "job_persisted i s = Inr (j, t) \<longleftrightarrow> t = s \<and> (\<exists>row. find_job s i = Some row \<and> j = scheduled_job_from_row row)"
  by (auto simp: job_persisted_def get_scheduled_job_def split: option.splits)

lemma create_job_effect:
  assumes "create_scheduled_job E now tid cron params paused client kind agent entity sch n r z s = Inr (j, t)" "jobs_inv s"
  obtains row where "j = scheduled_job_from_row row"
    "row = \<lparr>jo_id = jobs_seq s + 1, jo_template = tid, jo_cron = cron, jo_params = params, jo_paused = paused, jo_created = now,
       jo_updated = now, jo_client = normalize_client_id client, jo_kind = kind, jo_agent = agent, jo_entity = entity, jo_schedule = sch,
       jo_interval = n, jo_run_at = r, jo_timezone = z\<rparr>"
    "jobs_inv t" "\<forall>k. find_job t k = (if k = jo_id row then Some row else find_job s k)"
proof -
  let ?row = "\<lparr>jo_id = jobs_seq s + 1, jo_template = tid, jo_cron = cron, jo_params = params, jo_paused = paused, jo_created = now,
       jo_updated = now, jo_client = normalize_client_id client, jo_kind = kind, jo_agent = agent, jo_entity = entity, jo_schedule = sch,
       jo_interval = n, jo_run_at = r, jo_timezone = z\<rparr>"
  have t: "jobs t = jobs s @ [?row]" "jobs_seq t = jobs_seq s + 1" and j: "\<exists>row. find_job t (jobs_seq s + 1) = Some row \<and> j = scheduled_job_from_row row"
    using assms(1) by (auto simp: create_scheduled_job_def Let_def rbind_Inr_iff job_persisted_Inr)
  have f: "find_job t k = (if k = jo_id ?row then Some ?row else find_job s k)" for k
    using find_job_fresh [OF assms(2)] by (auto simp: find_job_def t find_append split: option.splits)
  have "jobs_inv t" using assms(2) unfolding jobs_inv_def t by force
  with f j show ?thesis by (intro that [of ?row]) auto
qed

lemma find_job_update:
  "(\<And>j. jo_id (g j) = jo_id j) \<Longrightarrow> jobs t = update_where (\<lambda>j. jo_id j = i) g (jobs s) \<Longrightarrow>
     find_job t k = (if k = i then map_option g (find_job s i) else find_job s k)"
  by (cases "find_job s k") (auto simp: find_job_def find_update_where dest: find_SomeD)

lemma jobs_inv_update:
  "(\<And>j. jo_id (g j) = jo_id j) \<Longrightarrow> jobs t = update_where (\<lambda>j. jo_id j = i) g (jobs s) \<Longrightarrow> jobs_seq t = jobs_seq s \<Longrightarrow>
     jobs_inv s \<Longrightarrow> jobs_inv t"
  by (auto simp: jobs_inv_def map_update_where)

lemma pause_effect:
  assumes "update_scheduled_job_paused E now i paused s = Inr (j, t)" "jobs_inv s"
  obtains row where "find_job s i = Some row" "j = scheduled_job_from_row (row\<lparr>jo_paused := paused, jo_updated := now\<rparr>)" "jobs_inv t"
    "\<forall>k. find_job t k = (if k = i then Some (row\<lparr>jo_paused := paused, jo_updated := now\<rparr>) else find_job s k)"
proof -
  obtain row where row: "find_job s i = Some row" using assms(1)
    by (auto simp: update_scheduled_job_paused_def split: option.splits)
  let ?g = "\<lambda>j. j\<lparr>jo_paused := paused, jo_updated := now\<rparr>"
  have t: "jobs t = update_where (\<lambda>j. jo_id j = i) ?g (jobs s)" "jobs_seq t = jobs_seq s"
      and j: "\<exists>r. find_job t i = Some r \<and> j = scheduled_job_from_row r"
    using assms(1) row by (auto simp: update_scheduled_job_paused_def Let_def job_persisted_Inr)
  have f: "find_job t k = (if k = i then Some (?g row) else find_job s k)" for k
    using find_job_update [of ?g, OF _ t(1)] row by simp
  show ?thesis using that [OF row _ jobs_inv_update [of ?g, OF _ t assms(2)] allI [OF f]] j f by simp
qed

lemma reschedule_effect:
  assumes "update_scheduled_job_schedule E now i sch cron n r z s = Inr (j, t)" "jobs_inv s"
  obtains row row' where "find_job s i = Some row" "j = scheduled_job_from_row row'" "jobs_inv t"
    "row' = row\<lparr>jo_cron := cron, jo_schedule := sch, jo_interval := n, jo_run_at := r, jo_timezone := z, jo_updated := now\<rparr>"
    "\<forall>k. find_job t k = (if k = i then Some row' else find_job s k)"
proof -
  obtain row where row: "find_job s i = Some row" using assms(1)
    by (auto simp: update_scheduled_job_schedule_def split: option.splits)
  let ?g = "\<lambda>j. j\<lparr>jo_cron := cron, jo_schedule := sch, jo_interval := n, jo_run_at := r, jo_timezone := z, jo_updated := now\<rparr>"
  have t: "jobs t = update_where (\<lambda>j. jo_id j = i) ?g (jobs s)" "jobs_seq t = jobs_seq s"
      and j: "\<exists>r. find_job t i = Some r \<and> j = scheduled_job_from_row r"
    using assms(1) row by (auto simp: update_scheduled_job_schedule_def Let_def job_persisted_Inr)
  have f: "find_job t k = (if k = i then Some (?g row) else find_job s k)" for k
    using find_job_update [of ?g, OF _ t(1)] row by simp
  show ?thesis using that [OF row _ jobs_inv_update [of ?g, OF _ t assms(2)] refl allI [OF f]] j f by simp
qed

lemma delete_effect:
  assumes "delete_scheduled_job E now i s = Inr (j, t)" "jobs_inv s"
  shows "find_job s i \<noteq> None" "jobs_inv t" "find_job t k = (if k = i then None else find_job s k)"
    "set (jobs t) \<subseteq> set (jobs s)"
proof -
  have row: "find_job s i \<noteq> None" and t: "jobs t = filter (\<lambda>j. jo_id j \<noteq> i) (jobs s)" "jobs_seq t = jobs_seq s"
    using assms(1) by (auto simp: delete_scheduled_job_def Let_def split: option.splits)
  show "find_job s i \<noteq> None" by (rule row)
  show "jobs_inv t" using assms(2) by (auto simp: jobs_inv_def t distinct_map_filter)
  have "find (\<lambda>j. jo_id j = k) (filter (\<lambda>j. jo_id j \<noteq> i) js) = (if k = i then None else find (\<lambda>j. jo_id j = k) js)" for js
    by (induction js) auto
  from this [of "jobs s"] show "find_job t k = (if k = i then None else find_job s k)" unfolding find_job_def t .
  show "set (jobs t) \<subseteq> set (jobs s)" by (auto simp: t)
qed

section \<open>Validation\<close>

text \<open>A job whose target and schedule passed validation at some time.\<close>

definition schedule_ok :: "sched_lib \<Rightarrow> job_row \<Rightarrow> bool" where
  "schedule_ok L j \<longleftrightarrow> strip (jo_timezone j) = jo_timezone j \<and> jo_timezone j \<noteq> [] \<and> tz_ok L (jo_timezone j) \<and>
     validate_schedule_target (jo_kind j) (jo_template j) (jo_agent j) (jo_entity j) = Inr () \<and>
     (jo_schedule j = ''cron'' \<and> cron_ok L (jo_cron j) (jo_timezone j) \<and> jo_interval j = None \<and> jo_run_at j = None \<or>
      jo_schedule j = ''interval'' \<and> jo_cron j = [] \<and> jo_run_at j = None \<and>
        (\<exists>n. jo_interval j = Some n \<and> 1 \<le> n \<and> n \<le> 31536000) \<or>
      jo_schedule j = ''once'' \<and> jo_cron j = [] \<and> jo_interval j = None \<and>
        (\<exists>r t. jo_run_at j = Some r \<and> parse_iso L r = Aware_iso t))"

lemma validate_timezone_Inr: "validate_timezone L tz = Inr z \<longleftrightarrow> z = strip tz \<and> z \<noteq> [] \<and> tz_ok L z"
  by (auto simp: validate_timezone_def)

lemma validate_schedule_ok:
  assumes "validate_schedule L now (jo_schedule j) (jo_cron j) (jo_interval j) (jo_run_at j) tz = Inr (jo_timezone j)"
    "validate_schedule_target (jo_kind j) (jo_template j) (jo_agent j) (jo_entity j) = Inr ()"
  shows "schedule_ok L j"
    "jo_schedule j = ''once'' \<Longrightarrow> \<exists>r t. jo_run_at j = Some r \<and> parse_iso L r = Aware_iso t \<and> now < t"
proof -
  have "strip tz = jo_timezone j" using assms(1)
    by (auto simp: validate_schedule_def validate_timezone_Inr res_simps split: if_splits option.splits)
  then have st: "strip (jo_timezone j) = jo_timezone j" by (metis strip_strip)
  show "schedule_ok L j"
    "jo_schedule j = ''once'' \<Longrightarrow> \<exists>r t. jo_run_at j = Some r \<and> parse_iso L r = Aware_iso t \<and> now < t"
  using assms st
  by (auto simp: validate_schedule_def validate_cron_expression_def validate_timezone_Inr schedule_ok_def parse_run_at_def res_simps
      split: if_splits option.splits sum.splits iso.splits)
qed

lemma schedule_ok_row: "schedule_ok L j \<Longrightarrow> scheduled_job_from_row j = j"
  by (simp add: schedule_ok_def scheduled_job_from_row_def)

lemma schedule_trigger_ok: "schedule_ok L j \<Longrightarrow> schedule_trigger L j = Inr ()"
  by (auto simp: schedule_ok_def schedule_trigger_def validate_timezone_def parse_run_at_def)

section \<open>The live scheduler\<close>

definition one_time :: "live_task \<Rightarrow> bool" where
  "one_time t = (case t of Run_job j \<Rightarrow> jo_schedule j = ''once'' | _ \<Rightarrow> False)"

definition live_ok :: "'q live_ops \<Rightarrow> ('q \<Rightarrow> string \<Rightarrow> (live_task \<times> bool) option) \<Rightarrow> bool" where
  "live_ok live view \<longleftrightarrow> view (lv_new live) = Map.empty \<and>
     (\<forall>k t q. view (lv_add live k t q) = (view q)(k \<mapsto> (t, False))) \<and>
     (\<forall>k q. lv_has live k q \<longleftrightarrow> view q k \<noteq> None) \<and>
     (\<forall>k q t p. view q k = Some (t, p) \<longrightarrow> view (lv_pause live k q) = (view q)(k \<mapsto> (t, True))) \<and>
     (\<forall>k q t p. view q k = Some (t, p) \<longrightarrow> view (lv_resume live k q) = (view q)(k \<mapsto> (t, False)) \<or>
        one_time t \<and> view (lv_resume live k q) = (view q)(k := None)) \<and>
     (\<forall>k q. view q k \<noteq> None \<longrightarrow> view (lv_remove live k q) = (view q)(k := None))"

text \<open>
  A live entry against the stored row of its identifier: it runs the job as it was stored, up to the paused flag and
  the time of the last update, and is paused when the row says so. Only a one-time job may be missing.
\<close>

definition job_core :: "job_row \<Rightarrow> job_row" where
  "job_core j = j\<lparr>jo_paused := False, jo_updated := 0\<rparr>"

definition mirrors :: "(live_task \<times> bool) option \<Rightarrow> job_row option \<Rightarrow> bool" where
  "mirrors entry row =
     (case entry of
        None \<Rightarrow> (case row of None \<Rightarrow> True | Some r \<Rightarrow> jo_schedule r = ''once'')
      | Some (t, p) \<Rightarrow>
          (case t of Run_job j \<Rightarrow> (case row of None \<Rightarrow> False
             | Some r \<Rightarrow> job_core j = job_core (scheduled_job_from_row r) \<and> p = jo_paused r)
           | _ \<Rightarrow> False))"

lemma job_core_schedule: "job_core j = job_core r \<Longrightarrow> jo_schedule j = jo_schedule r"
  by (drule arg_cong [where f = jo_schedule]) (simp add: job_core_def)

definition mirrored :: "('q \<Rightarrow> string \<Rightarrow> (live_task \<times> bool) option) \<Rightarrow> sched_lib \<Rightarrow> 'q manager \<Rightarrow> bool" where
  "mirrored view L m \<longleftrightarrow> jobs_inv (mg_store m) \<and> (\<forall>j\<in>set (jobs (mg_store m)). schedule_ok L j) \<and>
     (\<forall>q i. mg_live m = Some q \<longrightarrow> mirrors (view q (job_identity i)) (find_job (mg_store m) i))"

lemma job_identity_inj [simp]: "job_identity i = job_identity k \<longleftrightarrow> i = k"
  by (simp add: job_identity_def show_int_inj)

lemma job_identity_worker [simp]:
  "job_identity i \<noteq> ''event-delivery-retry-worker''" "job_identity i \<noteq> ''founder-scan-poll-worker''"
  by (simp_all add: job_identity_def)

text \<open>Registering a validated job that is not in the past succeeds and makes it live, paused when it is paused.\<close>

lemma register_live_ok:
  assumes "live_ok live view" "schedule_ok L j"
  obtains q' where "register_live_job L live now j q = Inr q'"
    "view q' = (view q)(job_identity (jo_id j) \<mapsto> (Run_job j, jo_paused j)) \<or> jo_schedule j = ''once'' \<and> view q' = view q \<and>
       (\<exists>r t. jo_run_at j = Some r \<and> parse_iso L r = Aware_iso t \<and> t \<le> now)"
proof -
  have add: "view (lv_add live k t q) = (view q)(k \<mapsto> (t, False))" for k t using assms(1) by (simp add: live_ok_def)
  have pause: "view (lv_pause live k (lv_add live k t q)) = (view q)(k \<mapsto> (t, True))" for k t
  proof -
    have "view (lv_add live k t q) k = Some (t, False)" using add by simp
    moreover have "view q' k = Some (t, False) \<Longrightarrow> view (lv_pause live k q') = (view q')(k \<mapsto> (t, True))" for q'
      using assms(1) unfolding live_ok_def by blast
    ultimately show ?thesis using add by simp
  qed
  have lapsed: "\<exists>b. (if jo_schedule j = ''once''
            then rbind (parse_run_at L (case jo_run_at j of None \<Rightarrow> [] | Some r \<Rightarrow> r)) (\<lambda>t. Inr (t \<le> now))
            else Inr False) = (Inr b :: bool res) \<and> (b \<longrightarrow> jo_schedule j = ''once'' \<and>
              (\<exists>r t. jo_run_at j = Some r \<and> parse_iso L r = Aware_iso t \<and> t \<le> now))"
    using assms(2) by (auto simp: schedule_ok_def parse_run_at_def)
  then obtain b where b: "(if jo_schedule j = ''once''
            then rbind (parse_run_at L (case jo_run_at j of None \<Rightarrow> [] | Some r \<Rightarrow> r)) (\<lambda>t. Inr (t \<le> now))
            else Inr False) = (Inr b :: bool res)" "b \<Longrightarrow> jo_schedule j = ''once'' \<and>
              (\<exists>r t. jo_run_at j = Some r \<and> parse_iso L r = Aware_iso t \<and> t \<le> now)" by blast
  show ?thesis
  proof (cases b)
    case True
    with b have "register_live_job L live now j q = Inr q" by (simp add: register_live_job_def)
    with b(2) True show ?thesis using that by blast
  next
    case False
    with b have "register_live_job L live now j q = Inr (if jo_paused j
        then lv_pause live (job_identity (jo_id j)) (lv_add live (job_identity (jo_id j)) (Run_job j) q)
        else lv_add live (job_identity (jo_id j)) (Run_job j) q)"
      by (simp add: register_live_job_def schedule_trigger_ok [OF assms(2)] Let_def)
    then show ?thesis by (rule that) (auto simp: pause add)
  qed
qed

section \<open>The mirror\<close>

lemma mirrors_new: "schedule_ok L r \<Longrightarrow> mirrors (Some (Run_job r, jo_paused r)) (Some r)"
  by (simp add: mirrors_def schedule_ok_row)

lemma mirrored_rows: "mirrored view L m \<Longrightarrow> find_job (mg_store m) i = Some r \<Longrightarrow> schedule_ok L r"
  by (auto simp: mirrored_def dest: find_job_id)

lemma jobs_by_find: "jobs_inv s \<Longrightarrow> j \<in> set (jobs s) \<Longrightarrow> find_job s (jo_id j) = Some j"
  unfolding find_job_def by (rule find_unique_key) (simp_all add: jobs_inv_def)

text \<open>
  How an operation keeps the mirror: the store call changes the row of one identifier, and the live call sets the
  entry of that identifier and no other.
\<close>

lemma store_call_mirrored:
  assumes m: "mirrored view L m" and call: "call = Inr (x, t) \<Longrightarrow> jobs_inv t \<and>
      (\<forall>k. find_job t k = (if k = i then row else find_job (mg_store m) k)) \<and> (\<forall>r. row = Some r \<longrightarrow> schedule_ok L r) \<and>
      (\<forall>q. mg_live m = Some q \<longrightarrow> (\<exists>q'. f x q = Inr q' \<and> (\<forall>k. k \<noteq> i \<longrightarrow> view q' (job_identity k) = view q (job_identity k)) \<and>
           mirrors (view q' (job_identity i)) row))"
    and res: "\<And>y u. call = Inr (y, u) \<Longrightarrow> y = x \<and> u = t"
  shows "mirrored view L (snd (store_call call f m))"
proof (cases call)
  case (Inl e)
  with m show ?thesis by (simp add: store_call_def)
next
  case (Inr p)
  then have p: "call = Inr (x, t)" using res by (cases p) auto
  note c = call [OF p]
  have rows: "\<forall>j\<in>set (jobs t). schedule_ok L j"
  proof
    fix j assume "j \<in> set (jobs t)"
    then have "find_job t (jo_id j) = Some j" using c jobs_by_find by blast
    then show "schedule_ok L j" using c mirrored_rows [OF m] by (metis (no_types, lifting))
  qed
  show ?thesis
  proof (cases "mg_live m")
    case None
    with p c rows show ?thesis by (simp add: store_call_def with_live_def mirrored_def)
  next
    case (Some q)
    then obtain q' where q': "f x q = Inr q'" "\<forall>k. k \<noteq> i \<longrightarrow> view q' (job_identity k) = view q (job_identity k)"
      "mirrors (view q' (job_identity i)) row" using c by blast
    have "mirrors (view q' (job_identity k)) (find_job t k)" for k
      using q' c m Some by (cases "k = i") (auto simp: mirrored_def)
    with p c rows Some q'(1) show ?thesis by (simp add: store_call_def with_live_def mirrored_def)
  qed
qed

lemma register_live_mirrors:
  assumes "live_ok live view" "schedule_ok L r" "jo_schedule r = ''once'' \<Longrightarrow> \<exists>x t. jo_run_at r = Some x \<and> parse_iso L x = Aware_iso t \<and> now < t"
  shows "\<exists>q'. register_live_job L live now r q = Inr q' \<and>
    (\<forall>k. k \<noteq> jo_id r \<longrightarrow> view q' (job_identity k) = view q (job_identity k)) \<and> mirrors (view q' (job_identity (jo_id r))) (Some r)"
proof -
  obtain q' where q': "register_live_job L live now r q = Inr q'"
    "view q' = (view q)(job_identity (jo_id r) \<mapsto> (Run_job r, jo_paused r)) \<or> jo_schedule r = ''once'' \<and> view q' = view q \<and>
       (\<exists>x t. jo_run_at r = Some x \<and> parse_iso L x = Aware_iso t \<and> t \<le> now)"
    using register_live_ok [OF assms(1,2)] by blast
  then have "view q' = (view q)(job_identity (jo_id r) \<mapsto> (Run_job r, jo_paused r))" using assms(3) by force
  with q'(1) show ?thesis using mirrors_new [OF assms(2)] by simp
qed

lemma register_checks_Inr:
  "register_checks L now t c p k a e st n r z = Inr (z', cl) \<Longrightarrow>
     validate_schedule L now st c n r z = Inr z' \<and> validate_schedule_target k t a e = Inr ()"
  by (auto simp: register_checks_def Let_def rbind_Inr_iff split: if_splits)

lemma register_mirrored:
  assumes "live_ok live view" "mirrored view L m"
  shows "mirrored view L (snd (register_job E L live now t c p k a e st n r z m))"
proof (cases "register_checks L now t c p k a e st n r z")
  case (Inl err)
  with assms(2) show ?thesis by (simp add: register_job_def)
next
  case (Inr zc)
  obtain z' cl where zc: "zc = (z', cl)" by (cases zc)
  have v: "validate_schedule L now st c n r z = Inr z'" "validate_schedule_target k t a e = Inr ()" using register_checks_Inr [OF Inr [unfolded zc]] by simp_all
  have reg: "register_job E L live now t c p k a e st n r z m =
      store_call (create_scheduled_job E now t c p False cl k a e st n r z' (mg_store m)) (\<lambda>j. register_live_job L live now j) m"
    using Inr zc by (simp add: register_job_def)
  have inv: "jobs_inv (mg_store m)" using assms(2) by (simp add: mirrored_def)
  show ?thesis
  proof (cases "create_scheduled_job E now t c p False cl k a e st n r z' (mg_store m)")
    case (Inl err)
    with reg assms(2) show ?thesis by (simp add: store_call_def)
  next
    case (Inr pr)
    obtain j u where pr: "pr = (j, u)" by (cases pr)
    obtain row where row: "j = scheduled_job_from_row row"
      "row = \<lparr>jo_id = jobs_seq (mg_store m) + 1, jo_template = t, jo_cron = c, jo_params = p, jo_paused = False, jo_created = now,
         jo_updated = now, jo_client = normalize_client_id cl, jo_kind = k, jo_agent = a, jo_entity = e, jo_schedule = st,
         jo_interval = n, jo_run_at = r, jo_timezone = z'\<rparr>"
      "jobs_inv u" "\<forall>i. find_job u i = (if i = jo_id row then Some row else find_job (mg_store m) i)"
      by (rule create_job_effect [OF Inr [unfolded pr] inv])
    have vr: "validate_schedule L now (jo_schedule row) (jo_cron row) (jo_interval row) (jo_run_at row) z = Inr (jo_timezone row)"
      "validate_schedule_target (jo_kind row) (jo_template row) (jo_agent row) (jo_entity row) = Inr ()"
      using v row(2) by simp_all
    note ok = validate_schedule_ok [OF vr]
    have j: "j = row" using row(1) schedule_ok_row [OF ok(1)] by simp
    show ?thesis unfolding reg
      by (rule store_call_mirrored [OF assms(2), where x = j and t = u and i = "jo_id row" and row = "Some row"])
        (use Inr pr row(3,4) ok(1) register_live_mirrors [OF assms(1) ok] j in auto)
  qed
qed

lemma mirrors_paused:
  assumes "live_ok live view" "schedule_ok L r" "mirrors (view q (job_identity i)) (Some r)" "r' = r\<lparr>jo_paused := b, jo_updated := now\<rparr>"
    "q' = (if lv_has live (job_identity i) q
           then (if b then lv_pause live (job_identity i) q else lv_resume live (job_identity i) q) else q)"
  shows "(\<forall>k. k \<noteq> i \<longrightarrow> view q' (job_identity k) = view q (job_identity k)) \<and> mirrors (view q' (job_identity i)) (Some r')"
proof (cases "view q (job_identity i)")
  case None
  then have "q' = q" using assms(1,5) by (simp add: live_ok_def)
  with None assms(3,4) show ?thesis by (simp add: mirrors_def)
next
  case (Some tp)
  obtain t p where tp: "tp = (t, p)" by (cases tp)
  have q': "view q' = (view q)(job_identity i \<mapsto> (t, b)) \<or> one_time t \<and> view q' = (view q)(job_identity i := None)"
    using assms(1,5) Some tp by (cases b) (auto simp: live_ok_def)
  obtain j where j: "t = Run_job j" "job_core j = job_core (scheduled_job_from_row r)"
    using assms(3) Some tp by (auto simp: mirrors_def split: live_task.splits)
  have core: "job_core (scheduled_job_from_row r') = job_core (scheduled_job_from_row r)"
    by (simp add: assms(4) job_core_def scheduled_job_from_row_def)
  have sch: "jo_schedule j = jo_schedule r" using job_core_schedule [OF j(2)] by (simp add: scheduled_job_from_row_def)
  from q' show ?thesis
  proof
    assume "view q' = (view q)(job_identity i \<mapsto> (t, b))"
    then show ?thesis using j core by (simp add: mirrors_def assms(4))
  next
    assume "one_time t \<and> view q' = (view q)(job_identity i := None)"
    then show ?thesis using j sch by (simp add: mirrors_def assms(4) one_time_def)
  qed
qed

lemma paused_mirrored:
  assumes "live_ok live view" "mirrored view L m"
  shows "mirrored view L (snd (store_call (update_scheduled_job_paused E now i b (mg_store m))
    (\<lambda>j q. Inr (if lv_has live (job_identity i) q
        then (if b then lv_pause live (job_identity i) q else lv_resume live (job_identity i) q) else q)) m))"
proof (cases "update_scheduled_job_paused E now i b (mg_store m)")
  case (Inl e)
  with assms(2) show ?thesis by (simp add: store_call_def)
next
  case (Inr pr)
  obtain j u where pr: "pr = (j, u)" by (cases pr)
  have inv: "jobs_inv (mg_store m)" using assms(2) by (simp add: mirrored_def)
  obtain r where r: "find_job (mg_store m) i = Some r" "j = scheduled_job_from_row (r\<lparr>jo_paused := b, jo_updated := now\<rparr>)" "jobs_inv u"
      "\<forall>k. find_job u k = (if k = i then Some (r\<lparr>jo_paused := b, jo_updated := now\<rparr>) else find_job (mg_store m) k)"
    by (rule pause_effect [OF Inr [unfolded pr] inv])
  have ok: "schedule_ok L r" using mirrored_rows [OF assms(2) r(1)] .
  then have ok': "schedule_ok L (r\<lparr>jo_paused := b, jo_updated := now\<rparr>)" by (simp add: schedule_ok_def)
  have mir: "mirrors (view q (job_identity i)) (Some r)" if "mg_live m = Some q" for q
    using assms(2) that r(1) unfolding mirrored_def by metis
  show ?thesis
    by (rule store_call_mirrored [OF assms(2), where x = j and t = u and i = i and row = "Some (r\<lparr>jo_paused := b, jo_updated := now\<rparr>)"])
      (use Inr pr r(3,4) ok' mirrors_paused [OF assms(1) ok mir refl refl] in auto)
qed

lemma reschedule_mirrored:
  assumes "live_ok live view" "mirrored view L m"
  shows "mirrored view L (snd (reschedule_job E L live now i c st n r z m))"
proof (cases "get_scheduled_job i (mg_store m)")
  case None
  with assms(2) show ?thesis by (simp add: reschedule_job_def)
next
  case (Some ex)
  let ?checks = "rbind (validate_schedule L now st c n r z) (\<lambda>z.
                rbind (validate_schedule_target (jo_kind ex) (jo_template ex) (jo_agent ex) (jo_entity ex)) (\<lambda>_. Inr z))"
  show ?thesis
  proof (cases ?checks)
    case (Inl e)
    with Some assms(2) show ?thesis by (simp add: reschedule_job_def)
  next
    case (Inr z')
    then have v: "validate_schedule L now st c n r z = Inr z'"
      "validate_schedule_target (jo_kind ex) (jo_template ex) (jo_agent ex) (jo_entity ex) = Inr ()" by (auto simp: rbind_Inr_iff)
    have res: "reschedule_job E L live now i c st n r z m =
        store_call (update_scheduled_job_schedule E now i st c n r z' (mg_store m)) (\<lambda>j. register_live_job L live now j) m"
      using Some Inr by (simp add: reschedule_job_def)
    have inv: "jobs_inv (mg_store m)" using assms(2) by (simp add: mirrored_def)
    show ?thesis
    proof (cases "update_scheduled_job_schedule E now i st c n r z' (mg_store m)")
      case (Inl e)
      with res assms(2) show ?thesis by (simp add: store_call_def)
    next
      case (Inr pr)
      obtain j u where pr: "pr = (j, u)" by (cases pr)
      obtain row row' where row: "find_job (mg_store m) i = Some row" "j = scheduled_job_from_row row'" "jobs_inv u"
        "row' = row\<lparr>jo_cron := c, jo_schedule := st, jo_interval := n, jo_run_at := r, jo_timezone := z', jo_updated := now\<rparr>"
        "\<forall>k. find_job u k = (if k = i then Some row' else find_job (mg_store m) k)"
        by (rule reschedule_effect [OF Inr [unfolded pr] inv])
      have vr: "validate_schedule L now (jo_schedule row') (jo_cron row') (jo_interval row') (jo_run_at row') z = Inr (jo_timezone row')"
        "validate_schedule_target (jo_kind row') (jo_template row') (jo_agent row') (jo_entity row') = Inr ()"
        using v row(1,4) Some by (auto simp: get_scheduled_job_def scheduled_job_from_row_def)
      note ok = validate_schedule_ok [OF vr]
      have j: "j = row'" using row(2) schedule_ok_row [OF ok(1)] by simp
      have id: "jo_id row' = i" using row(1,4) find_job_id by force
      show ?thesis unfolding res
        by (rule store_call_mirrored [OF assms(2), where x = j and t = u and i = i and row = "Some row'"])
          (use Inr pr row(3,5) ok(1) register_live_mirrors [OF assms(1) ok] j id in auto)
    qed
  qed
qed

lemma remove_mirrored:
  assumes "live_ok live view" "mirrored view L m"
  shows "mirrored view L (snd (remove_job E live now i m))"
proof (cases "delete_scheduled_job E now i (mg_store m)")
  case (Inl e)
  with assms(2) show ?thesis by (simp add: remove_job_def store_call_def)
next
  case (Inr pr)
  obtain j u where pr: "pr = (j, u)" by (cases pr)
  have inv: "jobs_inv (mg_store m)" using assms(2) by (simp add: mirrored_def)
  note d = delete_effect [OF Inr [unfolded pr] inv]
  have live: "(\<forall>k. k \<noteq> i \<longrightarrow> view q' (job_identity k) = view q (job_identity k)) \<and> mirrors (view q' (job_identity i)) None"
    if "q' = (if lv_has live (job_identity i) q then lv_remove live (job_identity i) q else q)" for q q'
    using assms(1) that by (cases "view q (job_identity i)") (auto simp: live_ok_def mirrors_def)
  show ?thesis unfolding remove_job_def
    by (rule store_call_mirrored [OF assms(2), where x = j and t = u and i = i and row = None])
      (use Inr pr d(2,3) live in auto)
qed

lemma job_step_mirrored:
  assumes "live_ok live view" "mirrored view L m"
  shows "mirrored view L (snd (job_step E L live c m))"
proof (cases c)
  case (Pair now op)
  show ?thesis
  proof (cases op)
    case (PauseJob i)
    show ?thesis using paused_mirrored [OF assms, of E now i True] PauseJob Pair by (simp add: pause_job_def cong: if_cong)
  next
    case (ResumeJob i)
    show ?thesis using paused_mirrored [OF assms, of E now i False] ResumeJob Pair by (simp add: resume_job_def cong: if_cong)
  qed (use Pair register_mirrored [OF assms] reschedule_mirrored [OF assms] remove_mirrored [OF assms] in auto)
qed

section \<open>Starting the scheduler\<close>

lemma register_all_mirrors:
  assumes "live_ok live view" "\<forall>j\<in>set js. schedule_ok L j" "distinct (map jo_id js)"
    "\<forall>j\<in>set js. view q (job_identity (jo_id j)) = None"
  shows "\<exists>q'. register_all L live now js q = (None, q') \<and> (\<forall>j\<in>set js. mirrors (view q' (job_identity (jo_id j))) (Some j)) \<and>
    (\<forall>i. i \<notin> jo_id ` set js \<longrightarrow> view q' (job_identity i) = view q (job_identity i))"
  using assms(2-)
proof (induction js arbitrary: q)
  case (Cons j js)
  have ok: "schedule_ok L j" using Cons.prems by simp
  obtain q1 where q1: "register_live_job L live now j q = Inr q1"
    and v: "view q1 = (view q)(job_identity (jo_id j) \<mapsto> (Run_job j, jo_paused j)) \<or> jo_schedule j = ''once'' \<and> view q1 = view q"
    by (rule register_live_ok [OF assms(1) ok, of now q]) blast
  have j: "mirrors (view q1 (job_identity (jo_id j))) (Some j)"
    using v mirrors_new [OF ok] Cons.prems(3) by (auto simp: mirrors_def)
  have other: "view q1 (job_identity i) = view q (job_identity i)" if "i \<noteq> jo_id j" for i using v that by auto
  have fresh: "\<forall>i\<in>set js. view q1 (job_identity (jo_id i)) = None"
    using Cons.prems(2,3) other by (metis image_eqI distinct.simps(2) list.set_intros(2) list.set_map list.simps(9))
  obtain q2 where q2: "register_all L live now js q1 = (None, q2)"
    "\<forall>j\<in>set js. mirrors (view q2 (job_identity (jo_id j))) (Some j)"
    "\<forall>i. i \<notin> jo_id ` set js \<longrightarrow> view q2 (job_identity i) = view q1 (job_identity i)"
    using Cons.IH [of q1] Cons.prems fresh by auto
  have "jo_id j \<notin> jo_id ` set js" using Cons.prems(2) by simp
  with q1 q2 j other show ?case by auto
qed simp

definition fresh_manager :: "store \<Rightarrow> bool \<Rightarrow> bool \<Rightarrow> 'q manager" where
  "fresh_manager s d f = \<lparr>mg_store = s, mg_enabled = True, mg_started = False, mg_dispatcher = d, mg_founder = f, mg_live = None\<rparr>"

definition jobs_ok :: "sched_lib \<Rightarrow> store \<Rightarrow> bool" where
  "jobs_ok L s \<longleftrightarrow> jobs_inv s \<and> (\<forall>j\<in>set (jobs s). schedule_ok L j)"

lemma list_scheduled_jobs_all:
  "jobs_ok L s \<Longrightarrow> list_scheduled_jobs (Scope AllClients) s = Inr (rev (sort_key jo_id (jobs s)))"
  by (auto simp: list_scheduled_jobs_def client_scope_predicate_def jobs_ok_def
      intro!: map_idI schedule_ok_row [of L])

lemma start_mirrored:
  assumes "live_ok live view" "jobs_ok L s"
  shows "\<exists>q. start_manager L live now (fresh_manager s d f) = (Inr (), (fresh_manager s d f)\<lparr>mg_started := True, mg_live := Some q\<rparr>) \<and>
    mirrored view L ((fresh_manager s d f)\<lparr>mg_started := True, mg_live := Some q\<rparr>)"
proof -
  let ?js = "rev (sort_key jo_id (jobs s))"
  define q2 where "q2 = (let q1 = (if d then lv_add live ''event-delivery-retry-worker'' Retry_worker (lv_new live) else lv_new live) in
      if f then lv_add live ''founder-scan-poll-worker'' Founder_worker q1 else q1)"
  have v: "view q2 (job_identity i) = None" for i
    using assms(1) job_identity_worker [of i] unfolding live_ok_def q2_def by (simp add: Let_def)
  have inv: "jobs_inv s" "\<forall>j\<in>set ?js. schedule_ok L j" using assms(2) by (simp_all add: jobs_ok_def)
  have dist: "distinct (map jo_id ?js)"
    using inv(1) by (simp add: jobs_inv_def distinct_map rev_map)
  obtain q where q: "register_all L live now ?js q2 = (None, q)"
    "\<forall>j\<in>set ?js. mirrors (view q (job_identity (jo_id j))) (Some j)"
    "\<forall>i. i \<notin> jo_id ` set ?js \<longrightarrow> view q (job_identity i) = view q2 (job_identity i)"
    using register_all_mirrors [OF assms(1) inv(2) dist] v by blast
  have "mirrors (view q (job_identity i)) (find_job s i)" for i
  proof (cases "find_job s i")
    case None
    then have "i \<notin> jo_id ` set ?js" by (auto simp: find_job_def find_None_iff)
    then show ?thesis using q(3) v None by (simp add: mirrors_def)
  next
    case (Some j)
    then show ?thesis using q(2) find_job_id [OF Some] by auto
  qed
  then show ?thesis
    using q(1) assms(2) list_scheduled_jobs_all [OF assms(2)]
    by (auto simp: start_manager_def fresh_manager_def mirrored_def jobs_ok_def q2_def Let_def)
qed

definition manager_run :: "env \<Rightarrow> sched_lib \<Rightarrow> 'q live_ops \<Rightarrow> (time \<times> job_op) list \<Rightarrow> 'q manager \<Rightarrow> 'q manager" where
  "manager_run E L live ops m = fold (\<lambda>c m. snd (job_step E L live c m)) ops m"

lemma run_mirrored: "live_ok live view \<Longrightarrow> mirrored view L m \<Longrightarrow> mirrored view L (manager_run E L live ops m)"
  unfolding manager_run_def by (induction ops arbitrary: m) (simp_all add: job_step_mirrored)

lemma store_call_running: "mg_live (snd (store_call call f m)) = None \<longleftrightarrow> mg_live m = None"
  by (auto simp: store_call_def with_live_def split: sum.splits option.splits)

lemma job_step_running: "mg_live (snd (job_step E L live c m)) = None \<longleftrightarrow> mg_live m = None"
proof (cases c)
  case (Pair now op)
  show ?thesis
  proof (cases op)
    case (RegisterJob t cr p k a e st n r z)
    then show ?thesis using Pair by (auto simp: register_job_def store_call_running split: sum.splits)
  next
    case (RescheduleJob i cr st n r z)
    then show ?thesis using Pair by (auto simp: reschedule_job_def store_call_running split: sum.splits option.splits)
  qed (use Pair in \<open>simp_all add: pause_job_def resume_job_def remove_job_def store_call_running\<close>)
qed

lemma run_running: "mg_live (manager_run E L live ops m) = None \<longleftrightarrow> mg_live m = None"
  unfolding manager_run_def by (induction ops arbitrary: m) (simp_all add: job_step_running)

section \<open>Properties\<close>


definition map_live :: "(string \<Rightarrow> (live_task \<times> bool) option) live_ops" where
  "map_live = \<lparr>lv_new = (\<lambda>_. None), lv_add = (\<lambda>k t q. q(k := Some (t, False))), lv_has = (\<lambda>k q. q k \<noteq> None),
     lv_pause = (\<lambda>k q. q(k := map_option (\<lambda>(t, _). (t, True)) (q k))),
     lv_resume = (\<lambda>k q. q(k := map_option (\<lambda>(t, _). (t, False)) (q k))), lv_remove = (\<lambda>k q. q(k := None))\<rparr>"

lemma map_live_ok: "live_ok map_live (\<lambda>q. q)"
  by (auto simp: live_ok_def map_live_def fun_eq_iff)

definition demo_lib :: sched_lib where
  "demo_lib = \<lparr>tz_ok = (\<lambda>z. z \<in> {''UTC'', ''Europe/Paris''}), cron_ok = (\<lambda>c z. c = ''0 3 * * *''),
     parse_iso = (\<lambda>r. if r = ''2030-01-01T00:00:00+00:00'' then Aware_iso 1893456000000000 else Bad_iso)\<rparr>"

definition demo_job_ops :: "(time \<times> job_op) list" where
  "demo_job_ops =
     [(10, RegisterJob ''triage'' ''0 3 * * *'' [] ''workflow'' None None ''cron'' None None ''UTC''),
      (11, RegisterJob [] [] [] ''backup'' None None ''interval'' (Some 3600) None ''Europe/Paris''),
      (12, RegisterJob [] [] [] ''backup'' None None ''interval'' (Some 0) None ''UTC''),
      (13, PauseJob 1), (14, RemoveJob 2), (15, ResumeJob 7)]"

definition demo_manager :: "(string \<Rightarrow> (live_task \<times> bool) option) manager" where
  "demo_manager = manager_run plain_env demo_lib map_live demo_job_ops
     (snd (start_manager demo_lib map_live 0 (fresh_manager empty_store True False)))"

lemma jobs_ok_empty: "jobs_ok L empty_store"
  by (simp add: jobs_ok_def jobs_inv_def empty_store_def)


end
