(* ===== verification/Privacy.thy ===== *)
theory Privacy
  imports Redaction_Laws Approvals Deliveries
begin

text \<open>
  Secrets are not persisted: with the redaction of the code, the payloads, comments, results and errors that the
  approval queue and the event deliveries store, and the payloads of the event history, hold no secret.
\<close>

definition approval_hidden :: "approval_row \<Rightarrow> bool" where
  "approval_hidden r \<longleftrightarrow> value_hidden (ap_payload r) \<and> text_hidden (ap_comment r) \<and> value_hidden (ap_exec_result r)"

definition delivery_hidden :: "delivery_row \<Rightarrow> bool" where
  "delivery_hidden r \<longleftrightarrow> value_hidden (ev_payload r) \<and> text_hidden (ev_error r) \<and> value_hidden (ev_agent_ids r) \<and>
     value_hidden (ev_run_ids r) \<and> value_hidden (ev_playbook_ids r) \<and> value_hidden (ev_playbook_run_ids r) \<and>
     value_hidden (ev_playbook_attempts r) \<and> value_hidden (ev_attempts r)"

definition secrets_hidden :: "store \<Rightarrow> bool" where
  "secrets_hidden s \<longleftrightarrow> (\<forall>r\<in>set (approvals s). approval_hidden r) \<and> (\<forall>r\<in>set (deliveries s). delivery_hidden r) \<and>
     (\<forall>h\<in>set (event_history s). value_hidden (hi_payload h))"

datatype record_op = Approval_op approval_op | Delivery_op delivery_op

fun record_step :: "env \<Rightarrow> time \<times> record_op \<Rightarrow> store \<Rightarrow> (unit \<times> store) res" where
  "record_step E (now, Approval_op c) s = approval_step E (now, c) s"
| "record_step E (now, Delivery_op c) s = delivery_step E (now, c) s"

lemma hidden_literals [simp]: "text_hidden []" "value_hidden (PDict [])" "value_hidden (PList [])" "text_hidden ''Approval expired''"
  by (simp_all add: text_hidden_def) code_simp+

lemma hidden_audit [simp]:
  "secrets_hidden (add_audit_row n e u d c a s) = secrets_hidden s"
  "secrets_hidden (add_history_row (code_env h x) n e u st m p c s) = secrets_hidden s"
  by (simp_all add: audit_defs secrets_hidden_def redact_json_hidden)

lemma hidden_frame:
  "secrets_hidden s \<Longrightarrow> approvals t = approvals s \<Longrightarrow> deliveries t = deliveries s \<Longrightarrow> event_history t = event_history s \<Longrightarrow> secrets_hidden t"
  by (simp add: secrets_hidden_def)

lemma hidden_update:
  assumes "secrets_hidden s" "\<And>r. approval_hidden r \<Longrightarrow> approval_hidden (f r)"
  shows "secrets_hidden (s\<lparr>approvals := update_where p f (approvals s)\<rparr>)"
  using assms by (auto simp: secrets_hidden_def set_update_where)

lemma hidden_update_delivery:
  assumes "secrets_hidden s" "\<And>r. delivery_hidden r \<Longrightarrow> delivery_hidden (f r)"
  shows "secrets_hidden (s\<lparr>deliveries := update_where p f (deliveries s)\<rparr>)"
  using assms by (auto simp: secrets_hidden_def set_update_where)

lemma hidden_other [simp]:
  "secrets_hidden (s\<lparr>workflow_runs := w\<rparr>) = secrets_hidden s" "secrets_hidden (s\<lparr>smart_runs := x\<rparr>) = secrets_hidden s"
  by (simp_all add: secrets_hidden_def)

lemma hidden_create: "secrets_hidden s \<Longrightarrow> approval_hidden r \<Longrightarrow> secrets_hidden (s\<lparr>approvals_seq := i, approvals := approvals s @ [r]\<rparr>)"
  by (auto simp: secrets_hidden_def)

lemma hidden_create_delivery:
  "secrets_hidden s \<Longrightarrow> delivery_hidden r \<Longrightarrow> secrets_hidden (s\<lparr>deliveries_seq := i, deliveries := deliveries s @ [r]\<rparr>)"
  by (auto simp: secrets_hidden_def)

lemma find_approval_hidden: "secrets_hidden s \<Longrightarrow> find_approval s i = Some r \<Longrightarrow> approval_hidden r"
  by (auto simp: find_approval_def secrets_hidden_def dest: find_SomeD)

lemmas redacted_simps = approval_hidden_def delivery_hidden_def redact_json_hidden redact_text_hidden

lemma expire_hidden:
  assumes "secrets_hidden s" "approval_hidden row" "expire_approval_request (code_env h e) now row s = (r, t)"
  shows "secrets_hidden t" "approval_hidden r"
proof -
  let ?f = "\<lambda>r. r\<lparr>ap_status := ''expired'', ap_comment := ''Approval expired'', ap_updated := now, ap_approver := Some ''system:approval-expiry''\<rparr>"
  have upd: "secrets_hidden (s\<lparr>approvals := update_where p ?f (approvals s)\<rparr>)" for p
    by (rule hidden_update [OF assms(1)]) (simp add: redacted_simps)
  show t: "secrets_hidden t"
    using assms(1,3) upd by (auto simp: expire_approval_request_def Let_def split: if_splits)
  show "approval_hidden r"
  proof (cases "r = row")
    case False
    then have "\<exists>i. find_approval t i = Some r"
      using assms(3) unfolding expire_approval_request_def Let_def by (auto split: if_splits option.splits)
    then show ?thesis using find_approval_hidden t by blast
  qed (use assms(2) in simp)
qed

lemma get_hidden: "secrets_hidden s \<Longrightarrow> get_approval_request (code_env h e) now i s = (x, t) \<Longrightarrow> secrets_hidden t"
  by (auto simp: get_approval_request_def split: option.splits prod.splits dest: expire_hidden(1) find_approval_hidden)

lemma persisted_hidden: "persisted (code_env h e) now i s = Inr (x, t) \<Longrightarrow> secrets_hidden s \<Longrightarrow> secrets_hidden t"
  using get_hidden by (auto simp: persisted_def split: prod.splits option.splits)

lemma load_hidden: "load_approval (code_env h e) now i s = Inr (row, t) \<Longrightarrow> secrets_hidden s \<Longrightarrow> secrets_hidden t"
proof -
  assume l: "load_approval (code_env h e) now i s = Inr (row, t)" and s: "secrets_hidden s"
  then obtain r where r: "find_approval s i = Some r" by (auto simp: load_approval_def split: option.splits)
  with l have "expire_approval_request (code_env h e) now r s = (row, t)" by (auto simp: load_approval_def rbind_Inr_iff)
  then show ?thesis using expire_hidden(1) s find_approval_hidden [OF s r] by blast
qed

lemma expire_all_hidden:
  "expire_all (code_env h e) now rows s = (rs, t) \<Longrightarrow> secrets_hidden s \<Longrightarrow> \<forall>r\<in>set rows. approval_hidden r \<Longrightarrow> secrets_hidden t"
proof (induction rows arbitrary: s rs)
  case (Cons row rows)
  obtain r u where u: "expire_approval_request (code_env h e) now row s = (r, u)" by fastforce
  obtain rs' where "expire_all (code_env h e) now rows u = (rs', t)" using Cons.prems(1) u by (auto split: prod.splits)
  then show ?case using Cons.IH Cons.prems(2,3) expire_hidden(1) [OF _ _ u] by simp
qed simp

text \<open>The end every mutation of a stored request shares: one row update, the audit and history rows, the reload.\<close>

lemma mutation_hidden:
  assumes "secrets_hidden s" "\<And>r. approval_hidden r \<Longrightarrow> approval_hidden (f r)"
    "persisted (code_env h e) now i (add_history_row (code_env h e) n1 e1 u1 st m p c
       (add_audit_row n2 e2 u2 d2 c2 a2 (s\<lparr>approvals := update_where q f (approvals s)\<rparr>))) = Inr (x, t)"
  shows "secrets_hidden t"
  using persisted_hidden [OF assms(3)] hidden_update [OF assms(1,2)] by simp

lemma approval_step_hidden:
  assumes "secrets_hidden s" "approval_step (code_env h e) (now, c) s = Inr (u, t)"
  shows "secrets_hidden t"
proof (cases c)
  case (CreateApproval su a p cl n)
  then obtain x where "create_approval_request (code_env h e) now su a p cl n s = Inr (x, t)" using assms(2) by (auto simp: forget_Inr)
  then show ?thesis unfolding create_approval_request_def Let_def using assms(1)
    by (auto simp: rbind_Inr_iff json_dumps_def hidden_create approval_hidden_def redact_json_hidden simp del: value_hidden.simps(1)
        elim!: persisted_hidden)
next
  case (UpdateApproval i st cm ap al sm)
  then obtain x where x: "update_approval_request (code_env h e) now i st cm ap al sm s = Inr (x, t)" using assms(2) by (auto simp: forget_Inr)
  then obtain row s1 where l: "load_approval (code_env h e) now i s = Inr (row, s1)" by (auto simp: update_approval_request_def rbind_Inr_iff)
  let ?f = "\<lambda>r. r\<lparr>ap_status := st, ap_comment := redact_text cm, ap_updated := now,
    ap_approver := (case ap of Some a \<Rightarrow> Some a | None \<Rightarrow> ap_approver r)\<rparr>"
  have "secrets_hidden (s1\<lparr>approvals := update_where (\<lambda>r. ap_id r = i) ?f (approvals s1)\<rparr>)"
    by (rule hidden_update [OF load_hidden [OF l assms(1)]]) (simp add: redacted_simps)
  then show ?thesis using x l unfolding update_approval_request_def Let_def
    by (auto simp: rbind_Inr_iff elim!: persisted_hidden)
next
  case (UpdatePayload i p cm)
  then obtain x where x: "update_approval_request_payload (code_env h e) now i p cm s = Inr (x, t)" using assms(2) by (auto simp: forget_Inr)
  then obtain row s1 where l: "load_approval (code_env h e) now i s = Inr (row, s1)" by (auto simp: update_approval_request_payload_def rbind_Inr_iff)
  show ?thesis using x l unfolding update_approval_request_payload_def Let_def
    by (auto simp: rbind_Inr_iff json_dumps_def redacted_simps simp del: value_hidden.simps(1) elim!: mutation_hidden [OF load_hidden [OF l assms(1)], rotated])
next
  case (RecordExecution i st m r ty)
  then obtain x where x: "record_approval_execution (code_env h e) now i st m r ty s = Inr (x, t)" using assms(2) by (auto simp: forget_Inr)
  then obtain row s1 where l: "load_approval (code_env h e) now i s = Inr (row, s1)" by (auto simp: record_approval_execution_def rbind_Inr_iff)
  show ?thesis using x l unfolding record_approval_execution_def Let_def
    by (auto simp: rbind_Inr_iff json_dumps_def redacted_simps simp del: value_hidden.simps(1) elim!: mutation_hidden [OF load_hidden [OF l assms(1)], rotated])
next
  case (ClaimExecution i)
  then obtain x where x: "claim_approval_execution (code_env h e) now i s = Inr (x, t)" using assms(2) by (auto simp: forget_Inr)
  then obtain row s1 where l: "load_approval (code_env h e) now i s = Inr (row, s1)" by (auto simp: claim_approval_execution_def rbind_Inr_iff)
  show ?thesis using x l unfolding claim_approval_execution_def Let_def
    by (auto simp: rbind_Inr_iff redacted_simps intro!: hidden_update [OF load_hidden [OF l assms(1)]])
next
  case (GetApproval i)
  then show ?thesis using assms get_hidden by (metis approval_step.simps(6) prod.collapse sum.inject(2) prod.inject)
next
  case (ListApprovals sc)
  then obtain x where "list_approval_requests (code_env h e) now sc s = Inr (x, t)" using assms(2) by (auto simp: forget_Inr)
  then show ?thesis unfolding list_approval_requests_def using assms(1)
    by (auto simp: rbind_Inr_iff elim!: expire_all_hidden) (auto simp: secrets_hidden_def)
qed

lemma delivery_step_hidden:
  assumes "secrets_hidden s" "delivery_step (code_env h e) (now, c) s = Inr (u, t)"
  shows "secrets_hidden t"
proof (cases c)
  case (CreateDelivery k ty et en p cl m d)
  then obtain x where x: "create_event_delivery (code_env h e) now k ty et en p cl m d s = Inr (x, t)" using assms(2) by (auto simp: forget_Inr)
  then show ?thesis unfolding create_event_delivery_def Let_def using assms(1)
    by (auto simp: rbind_Inr_iff delivery_hidden_def redact_json_hidden hidden_create_delivery
        simp del: value_hidden.simps(1) split: option.splits if_splits)
next
  case (UpdateDelivery i d)
  then obtain x where x: "update_event_delivery (code_env h e) now i (d\<lparr>do_retry_count := None\<rparr>) s = Inr (x, t)" using assms(2) by (auto simp: forget_Inr)
  have "delivery_hidden (apply_outcome (code_env h e) now d' r)" if "delivery_hidden r" for d' r
    using that by (auto simp: apply_outcome_def redacted_simps coalesce_def split: option.split)
  then show ?thesis using x unfolding update_event_delivery_def Let_def
    by (auto simp: rbind_Inr_iff intro!: hidden_update_delivery [OF assms(1)] split: option.splits)
next
  case (ClaimRetry i sc)
  then obtain x where x: "claim_event_delivery_retry (code_env h e) i sc s = Inr (x, t)" using assms(2) by (auto simp: forget_Inr)
  then obtain q where "t = s\<lparr>deliveries := update_where q (\<lambda>r. r\<lparr>ev_status := ''retrying'', ev_retry_count := ev_retry_count r + 1,
                 ev_error := [], ev_next_retry := None\<rparr>) (deliveries s)\<rparr>"
    unfolding claim_event_delivery_retry_def Let_def by (auto simp: rbind_Inr_iff split: option.splits)
  then show ?thesis using hidden_update_delivery [OF assms(1)] by (simp add: redacted_simps)
qed

interpretation privacy: guarded_ops "record_step (code_env h e)" secrets_hidden for h e
proof
  fix c s r t assume "secrets_hidden s" "record_step (code_env h e) c s = Inr (r, t)"
  moreover obtain now op where "c = (now, op)" by (cases c)
  ultimately show "secrets_hidden t"
    using approval_step_hidden delivery_step_hidden unfolding record_step.simps by (cases op) (metis record_step.simps)+
qed



end
