(* ===== verification/Net_Security.thy ===== *)
theory Net_Security
  imports Complex_Main Prelude "HOL-Library.Word"
begin

text \<open>
  The outbound HTTP policy of \<open>net_security.py\<close>: validation of operator URLs, the address policy, the
  transport that resolves a host once, checks every address and connects to the first of them, and the capped
  response stream. Addresses are words of 32 and 128 bits; the networks and the tests \<open>is_global\<close>,
  \<open>is_multicast\<close>, \<open>is_reserved\<close> and \<open>is_loopback\<close> are those of Python's \<open>ipaddress\<close> module. The URL parsers
  (\<open>httpx.URL\<close> and \<open>urlsplit\<close>) are the record \<open>url_lib\<close>, the resolver and the inner transport are arguments. An
  entry of the resolver is given by its length test, its family and the address \<open>ip_address\<close> reads from it.
\<close>

unbundle bit_operations_syntax

section \<open>Addresses\<close>

datatype ip = V4 "32 word" | V6 "128 word"

definition in_net :: "'w::len word \<Rightarrow> 'w word \<times> nat \<Rightarrow> bool" where
  "in_net a N = (a AND ((- 1) XOR drop_bit (snd N) (- 1)) = fst N)"

definition in_nets :: "'w::len word \<Rightarrow> ('w word \<times> nat) list \<Rightarrow> bool" where
  "in_nets a Ns = list_ex (in_net a) Ns"

definition PRIVATE_V4 :: "(32 word \<times> nat) list" where
  "PRIVATE_V4 =
     [(0x00000000, 8), (0x0A000000, 8), (0x7F000000, 8), (0xA9FE0000, 16), (0xAC100000, 12), (0xC0000000, 24),
      (0xC00000AA, 31), (0xC0000200, 24), (0xC0A80000, 16), (0xC6120000, 15), (0xC6336400, 24), (0xCB007100, 24),
      (0xF0000000, 4), (0xFFFFFFFF, 32)]"

definition PRIVATE_EXCEPTIONS_V4 :: "(32 word \<times> nat) list" where
  "PRIVATE_EXCEPTIONS_V4 = [(0xC0000009, 32), (0xC000000A, 32)]"

definition PUBLIC_V4 :: "32 word \<times> nat" where "PUBLIC_V4 = (0x64400000, 10)"
definition MULTICAST_V4 :: "32 word \<times> nat" where "MULTICAST_V4 = (0xE0000000, 4)"
definition RESERVED_V4 :: "32 word \<times> nat" where "RESERVED_V4 = (0xF0000000, 4)"
definition LOOPBACK_V4 :: "32 word \<times> nat" where "LOOPBACK_V4 = (0x7F000000, 8)"

definition PRIVATE_V6 :: "(128 word \<times> nat) list" where
  "PRIVATE_V6 =
     [(1, 128), (0, 128), (0xFFFF00000000, 96), (0x0064FF9B000100000000000000000000, 48),
      (0x01000000000000000000000000000000, 64), (0x20010000000000000000000000000000, 23),
      (0x20010DB8000000000000000000000000, 32), (0x20020000000000000000000000000000, 16),
      (0xFC000000000000000000000000000000, 7), (0xFE800000000000000000000000000000, 10)]"

definition PRIVATE_EXCEPTIONS_V6 :: "(128 word \<times> nat) list" where
  "PRIVATE_EXCEPTIONS_V6 =
     [(0x20010001000000000000000000000001, 128), (0x20010001000000000000000000000002, 128),
      (0x20010003000000000000000000000000, 32), (0x20010004011200000000000000000000, 48),
      (0x20010020000000000000000000000000, 28), (0x20010030000000000000000000000000, 28)]"

definition MULTICAST_V6 :: "128 word \<times> nat" where "MULTICAST_V6 = (0xFF000000000000000000000000000000, 8)"

definition RESERVED_V6 :: "(128 word \<times> nat) list" where
  "RESERVED_V6 =
     [(0, 8), (0x01000000000000000000000000000000, 8), (0x02000000000000000000000000000000, 7),
      (0x04000000000000000000000000000000, 6), (0x08000000000000000000000000000000, 5),
      (0x10000000000000000000000000000000, 4), (0x40000000000000000000000000000000, 3),
      (0x60000000000000000000000000000000, 3), (0x80000000000000000000000000000000, 3),
      (0xA0000000000000000000000000000000, 3), (0xC0000000000000000000000000000000, 3),
      (0xE0000000000000000000000000000000, 4), (0xF0000000000000000000000000000000, 5),
      (0xF8000000000000000000000000000000, 6), (0xFE000000000000000000000000000000, 9)]"

definition NAT64_NETWORKS :: "(128 word \<times> nat) list" where
  "NAT64_NETWORKS = [(0x0064FF9B000000000000000000000000, 96), (0x0064FF9B000100000000000000000000, 48)]"

definition SPECIAL_IPV6_NETWORKS :: "(128 word \<times> nat) list" where
  "SPECIAL_IPV6_NETWORKS = [(0x20020000000000000000000000000000, 16), (0x20010000000000000000000000000000, 32)]"

definition METADATA_ADDRESSES :: "ip list" where
  "METADATA_ADDRESSES = [V4 0xA9FEA9FE, V4 0xA83F8110, V6 0xFD000EC2000000000000000000000254]"

definition private_v4 :: "32 word \<Rightarrow> bool" where
  "private_v4 a \<longleftrightarrow> in_nets a PRIVATE_V4 \<and> \<not> in_nets a PRIVATE_EXCEPTIONS_V4"

definition private_v6 :: "128 word \<Rightarrow> bool" where
  "private_v6 a \<longleftrightarrow> in_nets a PRIVATE_V6 \<and> \<not> in_nets a PRIVATE_EXCEPTIONS_V6"

text \<open>\<open>IPv6Address.ipv4_mapped\<close>.\<close>

definition ipv4_mapped :: "128 word \<Rightarrow> 32 word option" where
  "ipv4_mapped a = (if drop_bit 32 a = 0xFFFF then Some (ucast a) else None)"

definition routable_v4 :: "32 word \<Rightarrow> bool" where
  "routable_v4 a \<longleftrightarrow> V4 a \<notin> set METADATA_ADDRESSES \<and> (\<not> in_net a PUBLIC_V4 \<and> \<not> private_v4 a) \<and>
     \<not> in_net a MULTICAST_V4 \<and> \<not> in_net a RESERVED_V4"

definition is_globally_routable :: "ip \<Rightarrow> bool" where
  "is_globally_routable x =
     (case x of
        V4 a \<Rightarrow> routable_v4 a
      | V6 a \<Rightarrow>
          (case ipv4_mapped a of
             Some b \<Rightarrow> routable_v4 b
           | None \<Rightarrow> V6 a \<notin> set METADATA_ADDRESSES \<and> \<not> in_nets a (NAT64_NETWORKS @ SPECIAL_IPV6_NETWORKS) \<and>
                     \<not> private_v6 a \<and> \<not> in_net a MULTICAST_V6 \<and> \<not> in_nets a RESERVED_V6))"

definition is_loopback :: "ip \<Rightarrow> bool" where
  "is_loopback x = (case x of V4 a \<Rightarrow> in_net a LOOPBACK_V4 | V6 a \<Rightarrow> a = 1)"

section \<open>Origins\<close>

record url =
  u_scheme :: string
  u_host :: string
  u_port :: "int option"

record url_lib =
  httpx_url :: "string \<Rightarrow> url option"
  has_userinfo :: "string \<Rightarrow> bool option"
  raw_host :: "url \<Rightarrow> string"
  netloc :: "url \<Rightarrow> string"

definition MAX_URL_LENGTH :: nat where "MAX_URL_LENGTH = 2048"

definition LOOPBACK_HOSTS :: "string list" where
  "LOOPBACK_HOSTS = [''localhost'', ''127.0.0.1'', ''::1'']"

definition fold_host :: "string \<Rightarrow> string" where
  "fold_host h = rstrip_char CHR ''.'' (casefold h)"

definition normalise_allowed_hosts :: "string list \<Rightarrow> string list" where
  "normalise_allowed_hosts hosts = map (\<lambda>h. fold_host (strip h)) (filter (\<lambda>h. strip h \<noteq> []) hosts)"

text \<open>The prefix the two validators share: the parsed URL, its folded scheme and host.\<close>

definition parse_origin :: "url_lib \<Rightarrow> string \<Rightarrow> url res" where
  "parse_origin U candidate =
     (if candidate = [] \<or> length candidate > MAX_URL_LENGTH then Inl (NetSecurityError ''provider origin must be bounded URL text'')
      else case httpx_url U candidate of
        None \<Rightarrow> Inl (NetSecurityError ''provider origin must be a valid HTTP(S) URL'')
      | Some p \<Rightarrow>
          rbind (raise_if (casefold (u_scheme p) \<notin> {''http'', ''https''})
            (NetSecurityError ''provider origin must use HTTP or HTTPS'')) (\<lambda>_.
          rbind (raise_if (has_userinfo U candidate \<noteq> Some False)
            (NetSecurityError ''provider origin must not contain embedded credentials'')) (\<lambda>_.
          rbind (raise_if (u_host p = []) (NetSecurityError ''provider origin must include a hostname'')) (\<lambda>_.
          Inr p))))"

definition validate_operator_url :: "url_lib \<Rightarrow> string \<Rightarrow> bool \<Rightarrow> bool \<Rightarrow> unit res" where
  "validate_operator_url U url allow_insecure_transport allow_loopback =
     rbind (parse_origin U (strip url)) (\<lambda>p.
     let loopback = fold_host (u_host p) \<in> set LOOPBACK_HOSTS in
     rbind (raise_if (loopback \<and> \<not> allow_loopback) (NetSecurityError ''loopback provider origins are disabled'')) (\<lambda>_.
     raise_if (casefold (u_scheme p) = ''http'' \<and> \<not> loopback \<and> \<not> allow_insecure_transport)
       (NetSecurityError ''non-loopback provider origins must use HTTPS'')))"

definition validate_provider_origin :: "url_lib \<Rightarrow> string list \<Rightarrow> bool \<Rightarrow> string \<Rightarrow> url res" where
  "validate_provider_origin U allowed_hosts allow_loopback url =
     (let candidate = strip url in
      rbind (parse_origin U candidate) (\<lambda>p.
      let host = fold_host (u_host p) in
      rbind (raise_if (host \<notin> set (normalise_allowed_hosts allowed_hosts))
        (NetSecurityError ''provider origin host is not allowlisted'')) (\<lambda>_.
      rbind (validate_operator_url U candidate False allow_loopback) (\<lambda>_.
      Inr (p\<lparr>u_host := host\<rparr>)))))"

section \<open>Resolution\<close>

datatype family = AF_INET | AF_INET6 | AF_other

record dns_result =
  dr_complete :: bool
  dr_family :: family
  dr_sockaddr :: bool
  dr_address :: "ip option"

definition address_from_result :: "dns_result \<Rightarrow> ip res" where
  "address_from_result r =
     rbind (raise_if (\<not> dr_complete r \<or> dr_family r = AF_other)
       (NetSecurityError ''DNS returned an unsupported address result'')) (\<lambda>_.
     rbind (raise_if (\<not> dr_sockaddr r) (NetSecurityError ''DNS returned an invalid address result'')) (\<lambda>_.
     case dr_address r of
       None \<Rightarrow> Inl (NetSecurityError ''DNS returned an invalid address'')
     | Some a \<Rightarrow>
         rbind (raise_if (dr_family r = AF_INET \<and> (case a of V4 _ \<Rightarrow> False | V6 _ \<Rightarrow> True) \<or>
                          dr_family r = AF_INET6 \<and> (case a of V6 _ \<Rightarrow> False | V4 _ \<Rightarrow> True))
           (NetSecurityError ''DNS returned an address-family mismatch'')) (\<lambda>_. Inr a)))"

text \<open>The resolver gives no list when it raises \<open>OSError\<close>.\<close>

type_synonym resolver = "string \<Rightarrow> int \<Rightarrow> dns_result list option"

fun check_addresses :: "bool \<Rightarrow> bool \<Rightarrow> ip list \<Rightarrow> unit res" where
  "check_addresses allow_loopback is_loopback_host [] = Inr ()"
| "check_addresses allow_loopback is_loopback_host (a # as) =
     rbind (if is_loopback_host
            then raise_if (\<not> allow_loopback \<or> \<not> is_loopback a)
                   (NetSecurityError ''loopback provider origin resolved outside loopback'')
            else raise_if (\<not> is_globally_routable a)
                   (NetSecurityError ''provider origin resolved to a non-routable address'')) (\<lambda>_.
     check_addresses allow_loopback is_loopback_host as)"

definition resolve_and_validate :: "resolver \<Rightarrow> string \<Rightarrow> int \<Rightarrow> bool \<Rightarrow> bool \<Rightarrow> ip list res" where
  "resolve_and_validate resolver hostname port allow_loopback is_loopback_host =
     (case resolver hostname port of
        None \<Rightarrow> Inl (NetSecurityError ''provider origin DNS resolution failed'')
      | Some results \<Rightarrow>
          rbind (raise_if (results = []) (NetSecurityError ''provider origin DNS resolution returned no addresses'')) (\<lambda>_.
          rbind (rmap address_from_result results) (\<lambda>addresses.
          rbind (check_addresses allow_loopback is_loopback_host addresses) (\<lambda>_.
          Inr addresses))))"

section \<open>Timeouts\<close>

datatype pyfloat = Fin rat | Not_finite

datatype timeout_arg = Timeout "pyfloat option" "pyfloat option" "pyfloat option" "pyfloat option" | Seconds pyfloat

record timeouts =
  to_connect :: rat
  to_read :: rat
  to_write :: rat
  to_pool :: rat

definition MAX_TIMEOUT_SECONDS :: rat where "MAX_TIMEOUT_SECONDS = 120"

definition bounded_timeout_value :: "pyfloat option \<Rightarrow> rat res" where
  "bounded_timeout_value v =
     (case v of
        Some (Fin x) \<Rightarrow> if x \<le> 0 then Inl (NetSecurityError ''connect, read, write, and pool timeouts must be bounded'') else Inr x
      | _ \<Rightarrow> Inl (NetSecurityError ''connect, read, write, and pool timeouts must be bounded''))"

definition explicit_timeout :: "timeout_arg \<Rightarrow> timeouts res" where
  "explicit_timeout t =
     (case t of
        Timeout c r w p \<Rightarrow>
          rbind (bounded_timeout_value c) (\<lambda>c. rbind (bounded_timeout_value r) (\<lambda>r.
          rbind (bounded_timeout_value w) (\<lambda>w. rbind (bounded_timeout_value p) (\<lambda>p.
          rbind (raise_if (list_ex (\<lambda>x. x > MAX_TIMEOUT_SECONDS) [c, r, w, p])
            (NetSecurityError ''HTTP timeouts must be at most 120 seconds'')) (\<lambda>_.
          Inr \<lparr>to_connect = c, to_read = r, to_write = w, to_pool = p\<rparr>)))))
      | Seconds Not_finite \<Rightarrow> Inl (NetSecurityError ''HTTP timeout must be between 0 and 120 seconds'')
      | Seconds (Fin x) \<Rightarrow>
          if x \<le> 0 \<or> x > MAX_TIMEOUT_SECONDS then Inl (NetSecurityError ''HTTP timeout must be between 0 and 120 seconds'')
          else Inr \<lparr>to_connect = x, to_read = x, to_write = x, to_pool = x\<rparr>)"

section \<open>The capped stream\<close>

text \<open>
  The inner stream yields chunks or raises; \<open>cs_inner_close\<close> and \<open>cs_transport_close\<close> are what closing the two
  inner objects raises, and \<open>cs_closes\<close> counts the calls.
\<close>

record capped =
  cs_max :: int
  cs_seen :: int
  cs_closed :: bool
  cs_inner_close :: "err option"
  cs_transport_close :: "err option"
  cs_closes :: nat

definition close_stream :: "capped \<Rightarrow> err option \<times> capped" where
  "close_stream st =
     (if cs_closed st then (None, st)
      else ((case cs_inner_close st of Some e \<Rightarrow> Some e | None \<Rightarrow> cs_transport_close st),
            st\<lparr>cs_closed := True, cs_closes := cs_closes st + 1\<rparr>))"

definition close_raising :: "err \<Rightarrow> capped \<Rightarrow> err option \<times> capped" where
  "close_raising e st = (case close_stream st of (Some e', st') \<Rightarrow> (Some e', st') | (None, st') \<Rightarrow> (Some e, st'))"

fun capped_iter :: "string res list \<Rightarrow> capped \<Rightarrow> string list \<times> err option \<times> capped" where
  "capped_iter [] st = ([], close_stream st)"
| "capped_iter (Inl e # rest) st = ([], close_raising e st)"
| "capped_iter (Inr chunk # rest) st =
     (let st1 = st\<lparr>cs_seen := cs_seen st + int (length chunk)\<rparr> in
      if cs_seen st1 > cs_max st1 then ([], close_raising (NetSecurityError ''provider response exceeds the bounded size'') st1)
      else case capped_iter rest st1 of (out, r) \<Rightarrow> (chunk # out, r))"

section \<open>The transport\<close>

record transport =
  tr_allowed :: "string list"
  tr_timeout :: timeouts
  tr_max :: int
  tr_loopback :: bool

definition pinned_transport :: "string list \<Rightarrow> timeout_arg \<Rightarrow> int \<Rightarrow> bool \<Rightarrow> transport res" where
  "pinned_transport allowed_hosts timeout max_response_bytes allow_loopback =
     rbind (raise_if (max_response_bytes \<le> 0) (NetSecurityError ''max_response_bytes must be positive'')) (\<lambda>_.
     rbind (explicit_timeout timeout) (\<lambda>t.
     Inr \<lparr>tr_allowed = allowed_hosts, tr_timeout = t, tr_max = max_response_bytes, tr_loopback = allow_loopback\<rparr>))"

definition build_pinned_client :: "string list \<Rightarrow> timeout_arg \<Rightarrow> int \<Rightarrow> bool \<Rightarrow> transport res" where
  "build_pinned_client allowed_hosts timeout max_response_bytes allow_loopback =
     rbind (explicit_timeout timeout) (\<lambda>t.
     pinned_transport allowed_hosts (Timeout (Some (Fin (to_connect t))) (Some (Fin (to_read t)))
       (Some (Fin (to_write t))) (Some (Fin (to_pool t)))) max_response_bytes allow_loopback)"

record inner_request =
  iq_address :: ip
  iq_url :: url
  iq_port :: int
  iq_host_header :: string
  iq_sni :: string
  iq_timeout :: timeouts

record inner_response =
  is_status :: int
  is_encoding :: "string option"
  is_sync :: bool
  is_chunks :: "string res list"

text \<open>\<open>str.split\<close> at a character.\<close>

fun split_char :: "char \<Rightarrow> string \<Rightarrow> string list" where
  "split_char c [] = [[]]"
| "split_char c (x # xs) =
     (if x = c then [] # split_char c xs
      else case split_char c xs of [] \<Rightarrow> [[x]] | w # ws \<Rightarrow> (x # w) # ws)"

definition encoding_refused :: "string option \<Rightarrow> bool" where
  "encoding_refused enc =
     (case enc of None \<Rightarrow> False
      | Some e \<Rightarrow> strip e = [] \<or> list_ex (\<lambda>v. casefold (strip v) \<noteq> ''identity'') (split_char CHR '','' e))"

text \<open>
  \<open>handle_request\<close>: the outcome, the requests handed to the inner transport and whether that transport was closed
  by the error path. A response is its status and the inner chunks behind the cap.
\<close>

definition handle_request ::
  "url_lib \<Rightarrow> resolver \<Rightarrow> (inner_request \<Rightarrow> inner_response res) \<Rightarrow> transport \<Rightarrow> string \<Rightarrow>
   (int \<times> string res list \<times> int) res \<times> inner_request list \<times> bool" where
  "handle_request U resolver send T url =
     (case rbind (validate_provider_origin U (tr_allowed T) (tr_loopback T) url) (\<lambda>v.
           let port = (case u_port v of Some p \<Rightarrow> p | None \<Rightarrow> if u_scheme v = ''https'' then 443 else 80) in
           rbind (resolve_and_validate resolver (raw_host U v) port (tr_loopback T) (fold_host (u_host v) \<in> set LOOPBACK_HOSTS)) (\<lambda>addresses.
           Inr \<lparr>iq_address = hd addresses, iq_url = v, iq_port = port, iq_host_header = netloc U v, iq_sni = raw_host U v,
                iq_timeout = tr_timeout T\<rparr>)) of
        Inl e \<Rightarrow> (Inl e, [], False)
      | Inr q \<Rightarrow>
          (case send q of
             Inl e \<Rightarrow> (Inl e, [q], True)
           | Inr r \<Rightarrow>
               if encoding_refused (is_encoding r)
               then (Inl (NetSecurityError ''provider response uses unsupported content encoding''), [q], True)
               else if \<not> is_sync r
               then (Inl (NetSecurityError ''provider response is not a synchronous stream''), [q], True)
               else (Inr (is_status r, is_chunks r, tr_max T), [q], False)))"

end
