(* ===== verification/Net_Security_Laws.thy ===== *)
theory Net_Security_Laws
  imports Net_Security
begin

text \<open>
  What the outbound policy promises. Membership of an address in a network, a masked comparison of words, is
  membership of an interval of integers; from it the routable IPv4 addresses are listed as ranges. Every request
  handed to the inner transport goes to an address the policy allows, and a response body never yields more
  than its cap and closes its stream exactly once.
\<close>

section \<open>Networks as intervals\<close>

lemma net_mask_bit: "bit ((- 1) XOR drop_bit p (- 1) :: 'w::len word) i \<longleftrightarrow> LENGTH('w) - p \<le> i \<and> i < LENGTH('w)"
  by (auto simp: bit_simps)

lemma word_bits: "x = y \<longleftrightarrow> (\<forall>i. bit x i = bit y i)" for x y :: "'w::len word"
  using bit_eqI by blast

lemma in_net_drop:
  fixes n :: "'w::len word"
  assumes "take_bit (LENGTH('w) - p) n = 0"
  shows "in_net a (n, p) \<longleftrightarrow> drop_bit (LENGTH('w) - p) a = drop_bit (LENGTH('w) - p) n"
proof -
  let ?k = "LENGTH('w) - p"
  have n: "bit n i \<Longrightarrow> ?k \<le> i" for i
    using assms by (metis bit_0_eq bit_take_bit_iff bot_apply bot_bool_def not_le)
  have "(a AND ((- 1) XOR drop_bit p (- 1)) = n) \<longleftrightarrow> (\<forall>i. bit a i \<and> ?k \<le> i \<and> i < LENGTH('w) \<longleftrightarrow> bit n i)"
    unfolding word_bits by (simp only: bit_and_iff net_mask_bit)
  also have "\<dots> \<longleftrightarrow> (\<forall>i. bit (drop_bit ?k a) i = bit (drop_bit ?k n) i)"
  proof
    assume "\<forall>i. bit a i \<and> ?k \<le> i \<and> i < LENGTH('w) \<longleftrightarrow> bit n i"
    then have "bit a (?k + i) = bit n (?k + i)" for i using bit_imp_le_length [of a "?k + i"] by (metis le_add1)
    then show "\<forall>i. bit (drop_bit ?k a) i = bit (drop_bit ?k n) i" by (simp only: bit_drop_bit_eq o_def) simp
  next
    assume h: "\<forall>i. bit (drop_bit ?k a) i = bit (drop_bit ?k n) i"
    show "\<forall>i. bit a i \<and> ?k \<le> i \<and> i < LENGTH('w) \<longleftrightarrow> bit n i"
    proof
      fix i
      show "bit a i \<and> ?k \<le> i \<and> i < LENGTH('w) \<longleftrightarrow> bit n i"
      proof (cases "?k \<le> i")
        case True
        then have "bit a i = bit n i" using h [rule_format, of "i - ?k"] by (simp only: bit_drop_bit_eq o_def le_add_diff_inverse)
        then show ?thesis using True bit_imp_le_length [of a i] by blast
      next
        case False
        then show ?thesis using n by blast
      qed
    qed
  qed
  also have "\<dots> \<longleftrightarrow> drop_bit ?k a = drop_bit ?k n" by (metis bit_eqI)
  finally show ?thesis by (simp add: in_net_def)
qed

lemma uint_take_bit_length: "take_bit LENGTH('w) (uint x) = uint x" for x :: "'w::len word"
  by (rule take_bit_int_eq_self) simp_all

lemma in_net_interval:
  fixes n :: "'w::len word"
  assumes "uint n mod 2 ^ (LENGTH('w) - p) = 0"
  shows "in_net a (n, p) \<longleftrightarrow> uint n \<le> uint a \<and> uint a < uint n + 2 ^ (LENGTH('w) - p)"
proof -
  let ?k = "LENGTH('w) - p"
  have "take_bit ?k n = 0" using assms by (metis take_bit_eq_mod uint_0_iff unsigned_take_bit_eq)
  then have "in_net a (n, p) \<longleftrightarrow> drop_bit ?k a = drop_bit ?k n" by (rule in_net_drop)
  also have "\<dots> \<longleftrightarrow> drop_bit ?k (uint a) = drop_bit ?k (uint n)" by (simp add: word_uint_eq_iff unsigned_drop_bit_eq uint_take_bit_length)
  also have "\<dots> \<longleftrightarrow> uint a div 2 ^ ?k = uint n div 2 ^ ?k" by (simp add: drop_bit_eq_div)
  also have "\<dots> \<longleftrightarrow> uint n \<le> uint a \<and> uint a < uint n + 2 ^ ?k"
  proof -
    obtain q where q: "uint n = 2 ^ ?k * q" using assms by auto
    have pos: "(0 :: int) < 2 ^ ?k" by simp
    have "uint a div 2 ^ ?k = q \<longleftrightarrow> 2 ^ ?k * q \<le> uint a \<and> uint a < 2 ^ ?k * q + 2 ^ ?k"
    proof
      assume "uint a div 2 ^ ?k = q"
      then have "uint a = 2 ^ ?k * q + uint a mod 2 ^ ?k" by (metis mult_div_mod_eq)
      then show "2 ^ ?k * q \<le> uint a \<and> uint a < 2 ^ ?k * q + 2 ^ ?k"
        using pos_mod_bound [OF pos, of "uint a"] pos_mod_sign [OF pos, of "uint a"] by linarith
    next
      assume h: "2 ^ ?k * q \<le> uint a \<and> uint a < 2 ^ ?k * q + 2 ^ ?k"
      show "uint a div 2 ^ ?k = q" by (rule int_div_pos_eq [of _ _ _ "uint a - 2 ^ ?k * q"]) (use h in auto)
    qed
    then show ?thesis unfolding q by simp
  qed
  finally show ?thesis .
qed

section \<open>The address policy as ranges\<close>

definition BLOCKED_V4 :: "(int \<times> int) list" where
  "BLOCKED_V4 =
     [(0, 0x01000000), (0x0A000000, 0x0B000000), (0x64400000, 0x64800000), (0x7F000000, 0x80000000),
      (0xA9FE0000, 0xA9FF0000), (0xAC100000, 0xAC200000), (0xC0000000, 0xC0000100), (0xC0000200, 0xC0000300),
      (0xC0A80000, 0xC0A90000), (0xC6120000, 0xC6140000), (0xC6336400, 0xC6336500), (0xCB007100, 0xCB007200),
      (0xE0000000, 0x100000000)]"

definition in_ranges :: "int \<Rightarrow> (int \<times> int) list \<Rightarrow> bool" where
  "in_ranges n rs = list_ex (\<lambda>(lo, hi). lo \<le> n \<and> n < hi) rs"

lemma in_net_v4:
  fixes n :: "32 word"
  assumes "uint n mod 2 ^ (32 - p) = 0"
  shows "in_net a (n, p) \<longleftrightarrow> in_ranges (uint a) [(uint n, uint n + 2 ^ (32 - p))]"
  using in_net_interval [of n p a] assms by (simp add: in_ranges_def)

lemma in_ranges_Nil: "\<not> in_ranges n []"
  by (simp add: in_ranges_def)

lemma in_ranges_Cons: "in_ranges n ((lo, hi) # rs) \<longleftrightarrow> lo \<le> n \<and> n < hi \<or> in_ranges n rs"
  by (simp add: in_ranges_def)

lemma in_nets_v4:
  "list_all (\<lambda>(n, p). uint n mod 2 ^ (32 - p) = 0) Ns \<Longrightarrow>
     in_nets (a :: 32 word) Ns \<longleftrightarrow> in_ranges (uint a) (map (\<lambda>(n, p). (uint n, uint n + 2 ^ (32 - p))) Ns)"
  by (induction Ns) (auto simp: in_nets_def in_net_v4 in_ranges_def)

lemma private_nets_v4: "in_nets a PRIVATE_V4 \<longleftrightarrow> in_ranges (uint a)
  [(0, 0x01000000), (0x0A000000, 0x0B000000), (0x7F000000, 0x80000000), (0xA9FE0000, 0xA9FF0000), (0xAC100000, 0xAC200000),
   (0xC0000000, 0xC0000100), (0xC00000AA, 0xC00000AC), (0xC0000200, 0xC0000300), (0xC0A80000, 0xC0A90000), (0xC6120000, 0xC6140000),
   (0xC6336400, 0xC6336500), (0xCB007100, 0xCB007200), (0xF0000000, 0x100000000), (0xFFFFFFFF, 0x100000000)]"
  by (subst in_nets_v4) (simp_all add: PRIVATE_V4_def)

lemma special_nets_v4:
  "in_nets a PRIVATE_EXCEPTIONS_V4 \<longleftrightarrow> in_ranges (uint a) [(0xC0000009, 0xC000000A), (0xC000000A, 0xC000000B)]"
  "in_net a PUBLIC_V4 \<longleftrightarrow> in_ranges (uint a) [(0x64400000, 0x64800000)]"
  "in_net a MULTICAST_V4 \<longleftrightarrow> in_ranges (uint a) [(0xE0000000, 0xF0000000)]"
  "in_net a RESERVED_V4 \<longleftrightarrow> in_ranges (uint a) [(0xF0000000, 0x100000000)]"
  "in_net a LOOPBACK_V4 \<longleftrightarrow> in_ranges (uint a) [(0x7F000000, 0x80000000)]"
  by ((subst in_nets_v4)?; simp add: in_net_v4 PRIVATE_EXCEPTIONS_V4_def PUBLIC_V4_def MULTICAST_V4_def RESERVED_V4_def LOOPBACK_V4_def)+

lemma routable_v4_ranges:
  "routable_v4 a \<longleftrightarrow> uint a \<noteq> 0xA83F8110 \<and> (uint a \<in> {0xC0000009, 0xC000000A} \<or> \<not> in_ranges (uint a) BLOCKED_V4)"
proof -
  have meta: "V4 a \<notin> set METADATA_ADDRESSES \<longleftrightarrow> uint a \<noteq> 0xA9FEA9FE \<and> uint a \<noteq> 0xA83F8110"
    by (simp add: METADATA_ADDRESSES_def word_uint_eq_iff)
  consider (exc) "uint a \<in> {0xC0000009, 0xC000000A}" | (meta) "uint a = 0xA9FEA9FE" | (other) "uint a \<notin> {0xC0000009, 0xC000000A}" "uint a \<noteq> 0xA9FEA9FE"
    by blast
  then show ?thesis
  proof cases
    case exc
    then show ?thesis unfolding routable_v4_def meta private_v4_def private_nets_v4 special_nets_v4 by (auto simp: in_ranges_def)
  next
    case meta
    then show ?thesis unfolding routable_v4_def \<open>V4 a \<notin> set METADATA_ADDRESSES \<longleftrightarrow> _\<close> by (simp add: in_ranges_def BLOCKED_V4_def)
  next
    case other
    have "\<not> in_ranges (uint a) [(0xC0000009, 0xC000000A), (0xC000000A, 0xC000000B)]" using other(1) by (simp add: in_ranges_def)
    moreover have "in_ranges (uint a) BLOCKED_V4 \<longleftrightarrow> in_net a PUBLIC_V4 \<or> in_nets a PRIVATE_V4 \<or> in_net a MULTICAST_V4 \<or> in_net a RESERVED_V4"
    proof -
      let ?n = "uint a"
      have "0xE0000000 \<le> ?n \<and> ?n < 0x100000000 \<longleftrightarrow> (0xE0000000 \<le> ?n \<and> ?n < 0xF0000000) \<or> (0xF0000000 \<le> ?n \<and> ?n < 0x100000000)"
        "0xC00000AA \<le> ?n \<and> ?n < 0xC00000AC \<Longrightarrow> 0xC0000000 \<le> ?n \<and> ?n < 0xC0000100"
        "0xFFFFFFFF \<le> ?n \<and> ?n < 0x100000000 \<Longrightarrow> 0xF0000000 \<le> ?n \<and> ?n < 0x100000000" by linarith+
      then show ?thesis unfolding private_nets_v4 special_nets_v4 BLOCKED_V4_def in_ranges_Cons in_ranges_Nil by argo
    qed
    ultimately show ?thesis using other unfolding routable_v4_def meta private_v4_def special_nets_v4(1) by blast
  qed
qed

text \<open>The IPv4-mapped form of an address is judged as the address itself.\<close>

definition mapped :: "32 word \<Rightarrow> 128 word" where
  "mapped a = push_bit 32 0xFFFF OR ucast a"

lemma ipv4_mapped_mapped: "ipv4_mapped (mapped a) = Some a"
proof -
  have "drop_bit 32 (mapped a) = 0xFFFF"
    by (rule word_bits [THEN iffD2]) (auto simp: mapped_def bit_simps dest: bit_imp_le_length)
  moreover have "ucast (mapped a) = a"
  proof (rule bit_eqI)
    fix i
    have "\<not> bit (push_bit 32 0xFFFF :: 128 word) i" if "i < 32" using that by (simp only: bit_push_bit_iff) simp
    then show "bit (ucast (mapped a) :: 32 word) i = bit a i"
      using bit_imp_le_length [of a i] by (auto simp: mapped_def bit_ucast_iff bit_or_iff simp del: push_bit_numeral)
  qed
  ultimately show ?thesis by (simp add: ipv4_mapped_def)
qed

section \<open>Connections\<close>

lemma parse_origin_scheme: "parse_origin U c = Inr p \<Longrightarrow> casefold (u_scheme p) \<in> {''http'', ''https''}"
  by (auto simp: parse_origin_def res_simps split: if_splits option.splits)

lemma validated_origin:
  assumes "validate_provider_origin U hosts lo url = Inr v"
  shows "u_host v \<in> set (normalise_allowed_hosts hosts)" "u_host v \<in> set LOOPBACK_HOSTS \<Longrightarrow> lo"
    "u_host v \<notin> set LOOPBACK_HOSTS \<Longrightarrow> casefold (u_scheme v) = ''https''"
proof -
  obtain p where p: "parse_origin U (strip url) = Inr p" "v = p\<lparr>u_host := fold_host (u_host p)\<rparr>"
    "fold_host (u_host p) \<in> set (normalise_allowed_hosts hosts)" "validate_operator_url U (strip url) False lo = Inr ()"
    using assms by (auto simp: validate_provider_origin_def Let_def res_simps)
  have "parse_origin U (strip (strip url)) = Inr p" using p(1) by simp
  with p(4) have "fold_host (u_host p) \<in> set LOOPBACK_HOSTS \<longrightarrow> lo"
    "casefold (u_scheme p) = ''http'' \<longrightarrow> fold_host (u_host p) \<in> set LOOPBACK_HOSTS"
    by (auto simp: validate_operator_url_def Let_def res_simps)
  with p parse_origin_scheme [OF p(1)]
  show "u_host v \<in> set (normalise_allowed_hosts hosts)" "u_host v \<in> set LOOPBACK_HOSTS \<Longrightarrow> lo"
    "u_host v \<notin> set LOOPBACK_HOSTS \<Longrightarrow> casefold (u_scheme v) = ''https''" by auto
qed

lemma loopback_folded: "h \<in> set LOOPBACK_HOSTS \<Longrightarrow> fold_host h = h"
proof -
  have "\<forall>h\<in>set LOOPBACK_HOSTS. fold_host h = h" by code_simp
  then show "h \<in> set LOOPBACK_HOSTS \<Longrightarrow> fold_host h = h" by blast
qed

lemma check_addresses_all:
  "check_addresses lo lb as = Inr () \<longleftrightarrow> (\<forall>a\<in>set as. if lb then lo \<and> is_loopback a else is_globally_routable a)"
  by (induction as) (auto simp: res_simps)

lemma resolved_addresses:
  assumes "resolve_and_validate R h port lo lb = Inr as"
  shows "as \<noteq> [] \<and> (\<forall>a\<in>set as. if lb then lo \<and> is_loopback a else is_globally_routable a)"
proof -
  obtain results where r: "results \<noteq> []" "rmap address_from_result results = Inr as" "check_addresses lo lb as = Inr ()"
    using assms by (auto simp: resolve_and_validate_def res_simps split: option.splits)
  then have "as \<noteq> []" by (cases results) (auto simp: res_simps)
  with r(3) show ?thesis by (simp add: check_addresses_all)
qed

lemma handle_request_sent:
  assumes "handle_request U R send T url = (out, sent, shut)" "q \<in> set sent"
  shows "sent = [q] \<and> validate_provider_origin U (tr_allowed T) (tr_loopback T) url = Inr (iq_url q) \<and>
    (\<exists>as. resolve_and_validate R (raw_host U (iq_url q)) (iq_port q) (tr_loopback T) (fold_host (u_host (iq_url q)) \<in> set LOOPBACK_HOSTS) = Inr as \<and>
       iq_address q = hd as) \<and> iq_timeout q = tr_timeout T"
  using assms unfolding handle_request_def
  by (auto simp: res_simps Let_def split: sum.splits if_splits)

section \<open>The stream\<close>

abbreviation total :: "string list \<Rightarrow> int" where
  "total cs \<equiv> sum_list (map (\<lambda>c. int (length c)) cs)"

lemma close_stream_closes: "close_stream st = (e, st') \<Longrightarrow> cs_closed st' \<and>
    cs_closes st' = (if cs_closed st then cs_closes st else cs_closes st + 1) \<and> (e \<noteq> None \<longrightarrow> \<not> cs_closed st)"
  by (auto simp: close_stream_def split: if_splits)

lemma close_raising_closes: "close_raising x st = (e, st') \<Longrightarrow> cs_closed st' \<and>
    cs_closes st' = (if cs_closed st then cs_closes st else cs_closes st + 1) \<and> e \<noteq> None"
  by (auto simp: close_raising_def split: prod.splits option.splits dest: close_stream_closes)

lemma capped_iter_spec:
  assumes "capped_iter xs st = (out, e, st')" "cs_seen st \<le> cs_max st" "\<not> cs_closed st"
  shows "cs_seen st + total out \<le> cs_max st \<and> (\<exists>rest. xs = map Inr out @ rest \<and> (e = None \<longrightarrow> rest = [])) \<and>
    cs_closed st' \<and> cs_closes st' = cs_closes st + 1"
  using assms
proof (induction xs st arbitrary: out rule: capped_iter.induct)
  case (1 st)
  then show ?case using close_stream_closes [of st e st'] by auto
next
  case (2 x rest st)
  then show ?case using close_raising_closes [of x st e st'] by auto
next
  case (3 chunk rest st)
  let ?st = "st\<lparr>cs_seen := cs_seen st + int (length chunk)\<rparr>"
  show ?case
  proof (cases "cs_seen ?st > cs_max ?st")
    case True
    then have "close_raising (NetSecurityError ''provider response exceeds the bounded size'') ?st = (e, st')" "out = []"
      using "3.prems"(1) by (auto simp: Let_def)
    then show ?thesis using close_raising_closes "3.prems"(2,3) by fastforce
  next
    case False
    then obtain out' where o: "capped_iter rest ?st = (out', e, st')" "out = chunk # out'"
      using "3.prems"(1) by (auto simp: Let_def split: prod.splits)
    have "cs_seen ?st + total out' \<le> cs_max ?st \<and> (\<exists>r. rest = map Inr out' @ r \<and> (e = None \<longrightarrow> r = [])) \<and>
        cs_closed st' \<and> cs_closes st' = cs_closes ?st + 1"
      using "3.IH" [OF refl False o(1)] False "3.prems"(3) by simp
    then show ?thesis using o(2) by auto
  qed
qed

lemma capped_iter_complete:
  assumes "cs_seen st + total cs \<le> cs_max st" "\<not> cs_closed st" "cs_inner_close st = None" "cs_transport_close st = None"
  shows "\<exists>st'. capped_iter (map Inr cs) st = (cs, None, st')"
  using assms
proof (induction cs arbitrary: st)
  case (Cons c cs)
  let ?st = "st\<lparr>cs_seen := cs_seen st + int (length c)\<rparr>"
  have pos: "0 \<le> total cs" by (rule sum_list_nonneg) auto
  obtain st' where "capped_iter (map Inr cs) ?st = (cs, None, st')" using Cons.IH [of ?st] Cons.prems by auto
  with pos Cons.prems(1) show ?case by (auto simp: Let_def)
qed (simp add: close_stream_def)

lemma explicit_timeout_bounds:
  "explicit_timeout t = Inr r \<Longrightarrow> x \<in> {to_connect r, to_read r, to_write r, to_pool r} \<Longrightarrow> 0 < x \<and> x \<le> 120"
  by (auto simp: explicit_timeout_def bounded_timeout_value_def MAX_TIMEOUT_SECONDS_def res_simps
      split: timeout_arg.splits pyfloat.splits if_splits option.splits)

section \<open>Properties\<close>

text \<open>
  C29. No request leaves the policy: at most one request reaches the inner transport; its host is on the allowlist, its
  address was resolved for that host and checked, and unless the host is a loopback name and loopback is
  allowed, the address is globally routable and the scheme is HTTPS. A loopback name connects to a loopback address only.
\<close>

theorem outbound_stays_in_policy:
  assumes "handle_request U R send T url = (out, sent, shut)" "q \<in> set sent"
  shows "sent = [q] \<and> u_host (iq_url q) \<in> set (normalise_allowed_hosts (tr_allowed T)) \<and>
    (if fold_host (u_host (iq_url q)) \<in> set LOOPBACK_HOSTS
     then tr_loopback T \<and> is_loopback (iq_address q)
     else is_globally_routable (iq_address q) \<and> casefold (u_scheme (iq_url q)) = ''https'')"
proof -
  note s = handle_request_sent [OF assms]
  obtain as where as: "resolve_and_validate R (raw_host U (iq_url q)) (iq_port q) (tr_loopback T)
      (fold_host (u_host (iq_url q)) \<in> set LOOPBACK_HOSTS) = Inr as" "iq_address q = hd as" using s by blast
  have "iq_address q \<in> set as" using resolved_addresses [OF as(1)] as(2) by simp
  then have "if fold_host (u_host (iq_url q)) \<in> set LOOPBACK_HOSTS
     then tr_loopback T \<and> is_loopback (iq_address q) else is_globally_routable (iq_address q)"
    using resolved_addresses [OF as(1)] by blast
  moreover have v: "validate_provider_origin U (tr_allowed T) (tr_loopback T) url = Inr (iq_url q)" using s by blast
  have "fold_host (u_host (iq_url q)) \<notin> set LOOPBACK_HOSTS \<Longrightarrow> casefold (u_scheme (iq_url q)) = ''https''"
    using validated_origin(3) [OF v] loopback_folded by metis
  ultimately show ?thesis using s validated_origin(1) [OF v] by (simp split: if_splits)
qed

definition demo_urls :: url_lib where
  "demo_urls = \<lparr>httpx_url = (\<lambda>t. Some \<lparr>u_scheme = ''https'', u_host = ''API.test.'', u_port = None\<rparr>), has_userinfo = (\<lambda>t. Some False),
     raw_host = u_host, netloc = u_host\<rparr>"

definition demo_transport :: transport where
  "demo_transport = \<lparr>tr_allowed = ['' api.test ''], tr_timeout = \<lparr>to_connect = 1, to_read = 1, to_write = 1, to_pool = 1\<rparr>,
     tr_max = 8, tr_loopback = False\<rparr>"

definition demo_resolver :: "32 word \<Rightarrow> resolver" where
  "demo_resolver a h p = Some [\<lparr>dr_complete = True, dr_family = AF_INET, dr_sockaddr = True, dr_address = Some (V4 a)\<rparr>]"

definition demo_send :: "inner_request \<Rightarrow> inner_response res" where
  "demo_send q = Inr \<lparr>is_status = 200, is_encoding = None, is_sync = True, is_chunks = [Inr ''ok'']\<rparr>"

lemma demo_hosts:
  "fold_host ''API.test.'' = ''api.test''" "fold_host ''api.test'' = ''api.test''" "casefold ''https'' = ''https''"
  "strip ''https://api.test'' = ''https://api.test''" "strip '' api.test '' = ''api.test''"
  by code_simp+

lemma demo_request:
  "routable_v4 a \<Longrightarrow> \<exists>q. handle_request demo_urls (demo_resolver a) demo_send demo_transport ''https://api.test'' =
     (Inr (200, [Inr ''ok''], 8), [q], False) \<and> iq_address q = V4 a"
  "\<not> routable_v4 a \<Longrightarrow> handle_request demo_urls (demo_resolver a) demo_send demo_transport ''https://api.test'' =
     (Inl (NetSecurityError ''provider origin resolved to a non-routable address''), [], False)"
  by (simp_all add: handle_request_def validate_provider_origin_def validate_operator_url_def parse_origin_def demo_urls_def
      demo_transport_def demo_resolver_def demo_send_def Let_def raise_if_def demo_hosts normalise_allowed_hosts_def LOOPBACK_HOSTS_def
      MAX_URL_LENGTH_def resolve_and_validate_def address_from_result_def is_globally_routable_def encoding_refused_def)

theorem outbound_stays_in_policy_witness:
  "(\<exists>q. handle_request demo_urls (demo_resolver 0x5DB8D822) demo_send demo_transport ''https://api.test'' =
     (Inr (200, [Inr ''ok''], 8), [q], False) \<and> is_globally_routable (iq_address q)) \<and>
   handle_request demo_urls (demo_resolver 0xA9FEA9FE) demo_send demo_transport ''https://api.test'' =
     (Inl (NetSecurityError ''provider origin resolved to a non-routable address''), [], False)"
proof
  have "routable_v4 0x5DB8D822" by (simp add: routable_v4_ranges in_ranges_def BLOCKED_V4_def)
  then obtain q where q: "handle_request demo_urls (demo_resolver 0x5DB8D822) demo_send demo_transport ''https://api.test'' =
     (Inr (200, [Inr ''ok''], 8), [q], False)" "iq_address q = V4 0x5DB8D822" using demo_request(1) by blast
  from outbound_stays_in_policy [OF q(1)] have "fold_host (u_host (iq_url q)) \<in> set LOOPBACK_HOSTS \<longrightarrow> is_loopback (iq_address q)"
    "fold_host (u_host (iq_url q)) \<notin> set LOOPBACK_HOSTS \<longrightarrow> is_globally_routable (iq_address q)" by auto
  moreover have "\<not> is_loopback (V4 0x5DB8D822)" by (simp add: is_loopback_def special_nets_v4 in_ranges_def)
  ultimately show "\<exists>q. handle_request demo_urls (demo_resolver 0x5DB8D822) demo_send demo_transport ''https://api.test'' =
     (Inr (200, [Inr ''ok''], 8), [q], False) \<and> is_globally_routable (iq_address q)" using q by auto
  have "\<not> routable_v4 0xA9FEA9FE" by (simp add: routable_v4_ranges in_ranges_def BLOCKED_V4_def)
  then show "handle_request demo_urls (demo_resolver 0xA9FEA9FE) demo_send demo_transport ''https://api.test'' =
     (Inl (NetSecurityError ''provider origin resolved to a non-routable address''), [], False)" by (rule demo_request(2))
qed



definition demo_stream :: capped where
  "demo_stream = \<lparr>cs_max = 5, cs_seen = 0, cs_closed = False, cs_inner_close = None, cs_transport_close = None, cs_closes = 0\<rparr>"


end
