(* ===== verification/Migrations.thy ===== *)
theory Migrations
  imports Store_Model
begin

text \<open>
  Schema migrations (\<open>migrations.py\<close>). The database is a value of any type, a migration's \<open>apply\<close> a function on it
  that may raise; the transaction around it makes a raise leave the database as it was. The connection also has
  the rows of \<open>schema_migrations\<close>, none until the table exists, and the foreign key pragma.
\<close>

record 'd migration =
  mi_version :: int
  mi_name :: string
  mi_apply :: "'d \<Rightarrow> 'd res"
  mi_foreign_keys_off :: bool

record 'd connection =
  cn_data :: 'd
  cn_log :: "(int \<times> string \<times> time) list option"
  cn_foreign_keys :: bool

definition validate_migrations :: "'d migration list \<Rightarrow> unit res" where
  "validate_migrations ms =
     (let versions = map mi_version ms in
      rbind (raise_if (versions \<noteq> sort (remdups versions))
        (ValueError ''migrations must have unique, strictly increasing versions'')) (\<lambda>_.
      raise_if (list_ex (\<lambda>m. mi_version m < 0 \<or> strip (mi_name m) = []) ms)
        (ValueError ''migrations require a non-negative version and non-empty name'')))"

definition log_rows :: "'d connection \<Rightarrow> (int \<times> string \<times> time) list" where
  "log_rows c = (case cn_log c of None \<Rightarrow> [] | Some rows \<Rightarrow> rows)"

text \<open>One migration: the pragma, the transaction, and the pragma again.\<close>

definition apply_migration :: "time \<Rightarrow> 'd migration \<Rightarrow> 'd connection \<Rightarrow> err option \<times> 'd connection" where
  "apply_migration now m c =
     (let saved = (if mi_foreign_keys_off m then Some (cn_foreign_keys c) else None);
          c1 = (if mi_foreign_keys_off m then c\<lparr>cn_foreign_keys := False\<rparr> else c);
          (e, c2) = (case mi_apply m (cn_data c1) of
                       Inl e \<Rightarrow> (Some e, c1)
                     | Inr d \<Rightarrow> if mi_version m \<in> fst ` set (log_rows c1) then (Some (IntegrityError ''schema_migrations.version''), c1)
                               else (None, c1\<lparr>cn_data := d, cn_log := Some (log_rows c1 @ [(mi_version m, mi_name m, now)])\<rparr>)) in
      (e, case saved of None \<Rightarrow> c2 | Some b \<Rightarrow> c2\<lparr>cn_foreign_keys := b\<rparr>))"

fun apply_pending :: "time \<Rightarrow> int set \<Rightarrow> 'd migration list \<Rightarrow> 'd connection \<Rightarrow> err option \<times> 'd connection" where
  "apply_pending now applied [] c = (None, c)"
| "apply_pending now applied (m # ms) c =
     (if mi_version m \<in> applied then apply_pending now applied ms c
      else case apply_migration now m c of
        (Some e, c') \<Rightarrow> (Some e, c')
      | (None, c') \<Rightarrow> apply_pending now (insert (mi_version m) applied) ms c')"

definition run_migrations :: "time \<Rightarrow> 'd migration list \<Rightarrow> 'd connection \<Rightarrow> err option \<times> 'd connection" where
  "run_migrations now ms c =
     (case validate_migrations ms of
        Inl e \<Rightarrow> (Some e, c)
      | Inr _ \<Rightarrow>
          let c1 = c\<lparr>cn_log := Some (log_rows c)\<rparr> in
          apply_pending now (fst ` set (log_rows c1)) ms c1)"

section \<open>What a run does\<close>

definition pending :: "'d migration list \<Rightarrow> 'd connection \<Rightarrow> 'd migration list" where
  "pending ms c = filter (\<lambda>m. mi_version m \<notin> fst ` set (log_rows c)) ms"

definition log_entry :: "time \<Rightarrow> 'd migration \<Rightarrow> int \<times> string \<times> time" where
  "log_entry now m = (mi_version m, mi_name m, now)"

text \<open>The specification: migrations applied one after the other to the database.\<close>

fun apply_in_order :: "'d migration list \<Rightarrow> 'd \<Rightarrow> 'd res" where
  "apply_in_order [] d = Inr d"
| "apply_in_order (m # ms) d = rbind (mi_apply m d) (apply_in_order ms)"

lemma log_rows_Some [simp]: "cn_log c = Some rows \<Longrightarrow> log_rows c = rows"
  by (simp add: log_rows_def)

lemma validate_strict: "validate_migrations ms = Inr () \<Longrightarrow> sorted (map mi_version ms) \<and> distinct (map mi_version ms)"
proof -
  assume "validate_migrations ms = Inr ()"
  then have v: "map mi_version ms = sort (remdups (map mi_version ms))" by (auto simp: validate_migrations_def Let_def res_simps)
  have "sorted (map mi_version ms)" by (subst v) simp
  moreover have "distinct (map mi_version ms)" by (subst v) simp
  ultimately show ?thesis by blast
qed

lemma apply_migration_Inl: "mi_apply m (cn_data c) = Inl e \<Longrightarrow> apply_migration now m c = (Some e, c)"
  by (simp add: apply_migration_def Let_def)

lemma apply_migration_Inr:
  "mi_apply m (cn_data c) = Inr d \<Longrightarrow> mi_version m \<notin> fst ` set (log_rows c) \<Longrightarrow>
     apply_migration now m c = (None, c\<lparr>cn_data := d, cn_log := Some (log_rows c @ [log_entry now m])\<rparr>)"
  by (auto simp: apply_migration_def Let_def log_entry_def log_rows_def)

lemma apply_pending_spec:
  assumes "apply_pending now applied ms c = (e, c')" "applied = fst ` set (log_rows c)" "distinct (map mi_version ms)" "cn_log c \<noteq> None"
  shows "\<exists>ran rest. pending ms c = ran @ rest \<and> apply_in_order ran (cn_data c) = Inr (cn_data c') \<and>
    log_rows c' = log_rows c @ map (log_entry now) ran \<and> cn_log c' \<noteq> None \<and> cn_foreign_keys c' = cn_foreign_keys c \<and>
    (case rest of [] \<Rightarrow> e = None | m # _ \<Rightarrow> \<exists>x. mi_apply m (cn_data c') = Inl x \<and> e = Some x)"
  using assms
proof (induction now applied ms c rule: apply_pending.induct)
  case (1 now applied c)
  then show ?case by (auto simp: pending_def)
next
  case (2 now applied m ms c)
  show ?case
  proof (cases "mi_version m \<in> applied")
    case True
    then have "pending (m # ms) c = pending ms c" using "2.prems"(2) by (simp add: pending_def)
    then show ?thesis using "2.IH"(1) [OF True] "2.prems" True by simp
  next
    case False
    show ?thesis
    proof (cases "mi_apply m (cn_data c)")
      case (Inl x)
      then have "e = Some x" "c' = c" using "2.prems"(1) False apply_migration_Inl by fastforce+
      then show ?thesis using Inl False "2.prems"(2,4)
        by (intro exI [of _ "[]"] exI [of _ "pending (m # ms) c"]) (auto simp: pending_def)
    next
      case (Inr d)
      let ?c = "c\<lparr>cn_data := d, cn_log := Some (log_rows c @ [log_entry now m])\<rparr>"
      have am: "apply_migration now m c = (None, ?c)" using Inr False "2.prems"(2) by (simp add: apply_migration_Inr)
      have rows: "log_rows ?c = log_rows c @ [log_entry now m]" by simp
      have ap: "apply_pending now (insert (mi_version m) applied) ms ?c = (e, c')" using "2.prems"(1) False am by simp
      have ids: "insert (mi_version m) applied = fst ` set (log_rows ?c)" using "2.prems"(2) rows by (auto simp: log_entry_def)
      obtain ran rest where d: "pending ms ?c = ran @ rest" "apply_in_order ran (cn_data ?c) = Inr (cn_data c')"
        "log_rows c' = log_rows ?c @ map (log_entry now) ran" "cn_log c' \<noteq> None" "cn_foreign_keys c' = cn_foreign_keys ?c"
        "case rest of [] \<Rightarrow> e = None | m # _ \<Rightarrow> \<exists>x. mi_apply m (cn_data c') = Inl x \<and> e = Some x"
        using "2.IH"(2) [OF False am [symmetric] refl ap ids] "2.prems"(3) by auto
      have "pending ms ?c = pending ms c" unfolding pending_def rows
        using "2.prems"(3) by (intro filter_cong) (auto simp: log_entry_def image_iff)
      then have "pending (m # ms) c = (m # ran) @ rest" using d(1) False "2.prems"(2) by (simp add: pending_def)
      then show ?thesis using d Inr rows by (intro exI [of _ "m # ran"] exI [of _ rest]) simp
    qed
  qed
qed

lemma run_migrations_spec:
  assumes "run_migrations now ms c = (e, c')" "validate_migrations ms = Inr ()"
  shows "\<exists>ran rest. pending ms c = ran @ rest \<and> apply_in_order ran (cn_data c) = Inr (cn_data c') \<and>
    log_rows c' = log_rows c @ map (log_entry now) ran \<and> cn_foreign_keys c' = cn_foreign_keys c \<and>
    (case rest of [] \<Rightarrow> e = None | m # _ \<Rightarrow> \<exists>x. mi_apply m (cn_data c') = Inl x \<and> e = Some x)"
proof -
  let ?c = "c\<lparr>cn_log := Some (log_rows c)\<rparr>"
  have "apply_pending now (fst ` set (log_rows ?c)) ms ?c = (e, c')" using assms by (simp add: run_migrations_def Let_def)
  moreover have "distinct (map mi_version ms)" using validate_strict [OF assms(2)] by simp
  moreover have "pending ms ?c = pending ms c" by (simp add: pending_def)
  ultimately show ?thesis using apply_pending_spec [of now _ ms ?c e c'] by auto
qed

lemma apply_pending_none: "\<forall>m\<in>set ms. mi_version m \<in> applied \<Longrightarrow> apply_pending now applied ms c = (None, c)"
  by (induction ms) simp_all

lemma run_again:
  assumes "validate_migrations ms = Inr ()" "cn_log c = Some rows" "pending ms c = []"
  shows "run_migrations now ms c = (None, c)"
proof -
  have "\<forall>m\<in>set ms. mi_version m \<in> fst ` set (log_rows c)" using assms(3) by (auto simp: pending_def filter_empty_conv)
  moreover have "c\<lparr>cn_log := Some (log_rows c)\<rparr> = c" using assms(2) by simp
  ultimately show ?thesis using assms(1) by (simp add: run_migrations_def Let_def apply_pending_none)
qed

lemma apply_pending_log: "apply_pending now applied ms c = (e, c') \<Longrightarrow> cn_log c \<noteq> None \<Longrightarrow> cn_log c' \<noteq> None"
  by (induction now applied ms c rule: apply_pending.induct)
    (auto simp: apply_migration_def Let_def split: if_splits sum.splits prod.splits option.splits)

section \<open>Properties\<close>

text \<open>
  C39. Migrations run in order, once, and all or nothing: of the migrations not yet recorded, a run applies a prefix in order to the
  database and records exactly those, leaving the foreign key pragma as it was; it stops early only at a migration that raises, of
  which nothing remains, and reports its error; and after a run without an error a second run changes nothing.
\<close>

theorem migrations_exactly_once:
  assumes "run_migrations now ms c = (e, c')" "validate_migrations ms = Inr ()"
  shows "(\<exists>ran rest. pending ms c = ran @ rest \<and> apply_in_order ran (cn_data c) = Inr (cn_data c') \<and>
      log_rows c' = log_rows c @ map (log_entry now) ran \<and> cn_foreign_keys c' = cn_foreign_keys c \<and>
      (case rest of [] \<Rightarrow> e = None | m # _ \<Rightarrow> \<exists>x. mi_apply m (cn_data c') = Inl x \<and> e = Some x)) \<and>
    (e = None \<longrightarrow> run_migrations now' ms c' = (None, c'))"
proof (intro conjI impI run_migrations_spec [OF assms])
  assume e: "e = None"
  obtain ran rest where r: "pending ms c = ran @ rest" "log_rows c' = log_rows c @ map (log_entry now) ran"
    "case rest of [] \<Rightarrow> e = None | m # _ \<Rightarrow> \<exists>x. mi_apply m (cn_data c') = Inl x \<and> e = Some x"
    using run_migrations_spec [OF assms] by blast
  have "rest = []" using r(3) e by (cases rest) auto
  then have "set (pending ms c) = set ran" using r(1) by simp
  then have "mi_version m \<in> fst ` set (log_rows c) \<or> m \<in> set ran" if "m \<in> set ms" for m using that by (auto simp: pending_def)
  then have "\<forall>m\<in>set ms. mi_version m \<in> fst ` set (log_rows c')" using r(2) by (force simp: log_entry_def)
  then have "pending ms c' = []" by (simp add: pending_def)
  moreover have "cn_log c' \<noteq> None" using assms apply_pending_log [of now _ ms "c\<lparr>cn_log := Some (log_rows c)\<rparr>" e c']
    by (simp add: run_migrations_def Let_def)
  ultimately show "run_migrations now' ms c' = (None, c')" using run_again [OF assms(2)] by blast
qed

definition demo_migrations :: "int list migration list" where
  "demo_migrations =
     [\<lparr>mi_version = 1, mi_name = ''base'', mi_apply = (\<lambda>d. Inr (d @ [1])), mi_foreign_keys_off = False\<rparr>,
      \<lparr>mi_version = 2, mi_name = ''rebuild'', mi_apply = (\<lambda>d. Inr (d @ [2])), mi_foreign_keys_off = True\<rparr>,
      \<lparr>mi_version = 3, mi_name = ''bad'', mi_apply = (\<lambda>d. Inl (RuntimeError ''bad'')), mi_foreign_keys_off = True\<rparr>]"

definition demo_connection :: "int list connection" where
  "demo_connection = \<lparr>cn_data = [1], cn_log = Some [(1, ''base'', 5)], cn_foreign_keys = True\<rparr>"

theorem migrations_exactly_once_witness:
  "\<exists>c'. run_migrations 9 demo_migrations demo_connection = (Some (RuntimeError ''bad''), c') \<and>
     cn_data c' = [1, 2] \<and> log_rows c' = [(1, ''base'', 5), (2, ''rebuild'', 9)] \<and> cn_foreign_keys c'"
proof -
  have v: "validate_migrations demo_migrations = Inr ()" by code_simp
  define c' where "c' = snd (run_migrations 9 demo_migrations demo_connection)"
  have e: "fst (run_migrations 9 demo_migrations demo_connection) = Some (RuntimeError ''bad'')"
    and d: "cn_data c' = [1, 2]" and l: "log_rows c' = [(1, ''base'', 5), (2, ''rebuild'', 9)]"
    unfolding c'_def by code_simp+
  have r: "run_migrations 9 demo_migrations demo_connection = (Some (RuntimeError ''bad''), c')" using e by (simp add: c'_def prod_eq_iff)
  from migrations_exactly_once [OF r v] have "cn_foreign_keys c' = cn_foreign_keys demo_connection" by blast
  with r d l show ?thesis by (simp add: demo_connection_def)
qed

end
