(* ===== verification/License.thy ===== *)
theory License
  imports Json
begin

text \<open>
  Offline licenses (\<open>license_v2.py\<close>). A byte string is a list of characters, one per byte. Base64url decoding, the date
  rules and the canonical JSON text are written out; \<open>json.loads\<close> on UTF-8 bytes and the Ed25519 check are arguments:
  \<open>loads\<close> gives nothing when the bytes are not UTF-8 or not JSON, and \<open>ed_verify key signature message\<close> is false when
  the key is malformed or the signature does not match.
\<close>

section \<open>Base64url\<close>

definition b64_value :: "char \<Rightarrow> nat option" where
  "b64_value c = (let n = (of_char c :: nat) in
     if 65 \<le> n \<and> n \<le> 90 then Some (n - 65) else if 97 \<le> n \<and> n \<le> 122 then Some (n - 71)
     else if 48 \<le> n \<and> n \<le> 57 then Some (n + 4) else if n = 45 then Some 62 else if n = 95 then Some 63 else None)"

fun b64_decode :: "nat list \<Rightarrow> string option" where
  "b64_decode [] = Some []"
| "b64_decode [a] = None"
| "b64_decode [a, b] = Some [char_of (a * 4 + b div 16)]"
| "b64_decode [a, b, c] = Some [char_of (a * 4 + b div 16), char_of (b mod 16 * 16 + c div 4)]"
| "b64_decode (a # b # c # d # rest) =
     map_option (\<lambda>bs. char_of (a * 4 + b div 16) # char_of (b mod 16 * 16 + c div 4) # char_of (c mod 4 * 64 + d) # bs) (b64_decode rest)"

definition decode_base64url :: "string \<Rightarrow> string \<Rightarrow> string res" where
  "decode_base64url value label =
     (if value = [] \<or> CHR ''='' \<in> set value \<or> list_ex (\<lambda>c. b64_value c = None) value
      then Inl (ValueError (label @ '' must be unpadded base64url''))
      else case b64_decode (map (\<lambda>c. the (b64_value c)) value) of
        None \<Rightarrow> Inl (ValueError (label @ '' must be valid base64url''))
      | Some bs \<Rightarrow> Inr bs)"

section \<open>Dates\<close>

type_synonym date = "int \<times> int \<times> int"

definition leap_year :: "int \<Rightarrow> bool" where
  "leap_year y \<longleftrightarrow> y mod 4 = 0 \<and> (y mod 100 \<noteq> 0 \<or> y mod 400 = 0)"

definition days_in_month :: "int \<Rightarrow> int \<Rightarrow> int" where
  "days_in_month y m = (if m = 2 then (if leap_year y then 29 else 28) else if m \<in> {4, 6, 9, 11} then 30 else 31)"

text \<open>\<open>_DATE_RE\<close> and \<open>date.fromisoformat\<close>.\<close>

definition date_shape :: "string \<Rightarrow> bool" where
  "date_shape s \<longleftrightarrow> length s = 10 \<and> list_all is_digit (take 4 s) \<and> s ! 4 = CHR ''-'' \<and> list_all is_digit (take 2 (drop 5 s)) \<and>
     s ! 7 = CHR ''-'' \<and> list_all is_digit (take 2 (drop 8 s))"

definition date_fromisoformat :: "string \<Rightarrow> date option" where
  "date_fromisoformat s =
     (let y = int (digits_value (take 4 s)); m = int (digits_value (take 2 (drop 5 s))); d = int (digits_value (take 2 (drop 8 s))) in
      if 1 \<le> y \<and> 1 \<le> m \<and> m \<le> 12 \<and> 1 \<le> d \<and> d \<le> days_in_month y m then Some (y, m, d) else None)"

definition date_less :: "date \<Rightarrow> date \<Rightarrow> bool" where
  "date_less a b \<longleftrightarrow> (case (a, b) of ((y, m, d), (y', m', d')) \<Rightarrow> y < y' \<or> y = y' \<and> (m < m' \<or> m = m' \<and> d < d'))"

section \<open>Canonical text\<close>

text \<open>\<open>json.dumps(..., sort_keys=True, separators=(",", ":"), ensure_ascii=False)\<close>, and UTF-8.\<close>

definition raw_char :: "char \<Rightarrow> string" where
  "raw_char c = (let n = (of_char c :: nat) in if 32 \<le> n \<and> n \<noteq> 34 \<and> n \<noteq> 92 then [c] else json_char c)"

definition raw_string :: "string \<Rightarrow> string" where
  "raw_string s = char_of (34 :: nat) # concat (map raw_char s) @ [char_of (34 :: nat)]"

primrec raw_text :: "pyval \<Rightarrow> string" where
  "raw_text PNone = ''null''"
| "raw_text (PBool b) = (if b then ''true'' else ''false'')"
| "raw_text (PInt i) = show_int i"
| "raw_text (PStr s) = raw_string s"
| "raw_text (PList xs) = ''['' @ join '','' (map raw_text xs) @ '']''"
| "raw_text (PDict d) = ''{'' @ join '','' (map (\<lambda>(k, t). raw_string k @ '':'' @ t) (sort_key fst (map (map_prod id raw_text) d))) @ ''}''"

definition utf8_char :: "char \<Rightarrow> string" where
  "utf8_char c = (let n = (of_char c :: nat) in if n < 128 then [c] else [char_of (192 + n div 64), char_of (128 + n mod 64)])"

definition utf8 :: "string \<Rightarrow> string" where
  "utf8 s = concat (map utf8_char s)"

section \<open>Verification\<close>

definition LICENSE_KEYS :: "string list" where
  "LICENSE_KEYS = [''v'', ''customer_id'', ''expires'', ''packs'', ''max_managed_clients'', ''edition'']"

record license =
  li_customer :: string
  li_edition :: string
  li_expires :: string
  li_max :: "int option"
  li_packs :: "string list"

definition canonical_payload :: "license \<Rightarrow> pydict" where
  "canonical_payload l =
     [(''customer_id'', PStr (li_customer l)), (''edition'', PStr (li_edition l)), (''expires'', PStr (li_expires l)),
      (''max_managed_clients'', opt_int (li_max l)), (''packs'', PList (map PStr (li_packs l))), (''v'', PInt 2)]"

definition canonical_bytes :: "license \<Rightarrow> string" where
  "canonical_bytes l = utf8 (raw_text (PDict (canonical_payload l)))"

definition decode_json :: "(string \<Rightarrow> pyval option) \<Rightarrow> string \<Rightarrow> string \<Rightarrow> pydict res" where
  "decode_json loads value label =
     rbind (decode_base64url value label) (\<lambda>raw.
     case loads raw of
       Some (PDict d) \<Rightarrow> Inr d
     | _ \<Rightarrow> Inl (ValueError (label @ '' must contain a JSON object'')))"

definition non_empty_string :: "pydict \<Rightarrow> string \<Rightarrow> string res" where
  "non_empty_string payload key =
     (case dget payload key of
        Some (PStr s) \<Rightarrow> if strip s = [] then Inl (ValueError (key @ '' must be a non-empty string'')) else Inr s
      | _ \<Rightarrow> Inl (ValueError (key @ '' must be a non-empty string'')))"

definition pack_list :: "pyval \<Rightarrow> string list res" where
  "pack_list v =
     (case v of
        PList xs \<Rightarrow>
          if list_ex (\<lambda>x. case x of PStr s \<Rightarrow> strip s = [] | _ \<Rightarrow> True) xs
          then Inl (ValueError ''packs must be a list of non-empty strings'')
          else Inr (map (\<lambda>x. case x of PStr s \<Rightarrow> s | _ \<Rightarrow> []) xs)
      | _ \<Rightarrow> Inl (ValueError ''packs must be a list of non-empty strings''))"

definition max_clients :: "pyval \<Rightarrow> int option res" where
  "max_clients v =
     (case v of
        PNone \<Rightarrow> Inr None
      | PInt i \<Rightarrow> if i < 0 then Inl (ValueError ''max_managed_clients must be a non-negative integer or null'') else Inr (Some i)
      | _ \<Rightarrow> Inl (ValueError ''max_managed_clients must be a non-negative integer or null''))"

fun try_keys :: "(string \<Rightarrow> string \<Rightarrow> string \<Rightarrow> bool) \<Rightarrow> string list \<Rightarrow> string \<Rightarrow> string \<Rightarrow> bool" where
  "try_keys ed_verify [] signature message = False"
| "try_keys ed_verify (k # ks) signature message =
     (case decode_base64url k ''public key'' of
        Inl _ \<Rightarrow> try_keys ed_verify ks signature message
      | Inr key \<Rightarrow> if ed_verify key signature message then True else try_keys ed_verify ks signature message)"

definition verify_license_v2 ::
  "(string \<Rightarrow> pyval option) \<Rightarrow> (string \<Rightarrow> string \<Rightarrow> string \<Rightarrow> bool) \<Rightarrow> string \<Rightarrow> string \<Rightarrow> string list \<Rightarrow> date \<Rightarrow> license res" where
  "verify_license_v2 loads ed_verify payload_b64 sig_b64 pubkeys today =
     rbind (decode_json loads payload_b64 ''payload'') (\<lambda>payload.
     rbind (raise_if (set (dkeys payload) \<noteq> set LICENSE_KEYS)
       (ValueError ''license payload fields do not match the public spec'')) (\<lambda>_.
     rbind (raise_if (dget payload ''v'' \<noteq> Some (PInt 2)) (ValueError ''license payload version must be 2'')) (\<lambda>_.
     rbind (non_empty_string payload ''customer_id'') (\<lambda>customer_id.
     rbind (non_empty_string payload ''expires'') (\<lambda>expires.
     rbind (raise_if (\<not> date_shape expires) (ValueError ''expires must be a YYYY-MM-DD date'')) (\<lambda>_.
     case date_fromisoformat expires of
       None \<Rightarrow> Inl (ValueError ''expires must be a valid YYYY-MM-DD date'')
     | Some expires_date \<Rightarrow>
         rbind (raise_if (date_less expires_date today) (ValueError ''license has expired'')) (\<lambda>_.
         rbind (pack_list (dget_or payload ''packs'' PNone)) (\<lambda>packs.
         rbind (max_clients (dget_or payload ''max_managed_clients'' PNone)) (\<lambda>max_managed_clients.
         rbind (non_empty_string payload ''edition'') (\<lambda>edition.
         let l = \<lparr>li_customer = customer_id, li_edition = edition, li_expires = expires, li_max = max_managed_clients, li_packs = packs\<rparr> in
         rbind (decode_base64url sig_b64 ''signature'') (\<lambda>signature.
         if try_keys ed_verify pubkeys signature (canonical_bytes l) then Inr l
         else Inl (InvalidSignature ''no pinned license key verified the payload''))))))))))))"

end
