(* ===== verification/License_Laws.thy ===== *)
theory License_Laws
  imports License
begin

text \<open>
  What a verified license means: some pinned key signed the bytes of exactly the license that is returned, and the license is
  well formed and not expired. The canonical bytes determine the license, so a signature cannot be reused for another;
  base64url decoding inverts the encoding.
\<close>

section \<open>Base64url round trip\<close>

text \<open>The unpadded base64url encoding of RFC 4648.\<close>

definition b64_char :: "nat \<Rightarrow> char" where
  "b64_char n = char_of (if n < 26 then n + 65 else if n < 52 then n + 71 else if n < 62 then n - 4 else if n = 62 then 45 else 95)"

fun b64_sextets :: "nat list \<Rightarrow> nat list" where
  "b64_sextets [] = []"
| "b64_sextets [x] = [x div 4, x mod 4 * 16]"
| "b64_sextets [x, y] = [x div 4, x mod 4 * 16 + y div 16, y mod 16 * 4]"
| "b64_sextets (x # y # z # rest) = x div 4 # (x mod 4 * 16 + y div 16) # (y mod 16 * 4 + z div 64) # z mod 64 # b64_sextets rest"

definition encode_base64url :: "string \<Rightarrow> string" where
  "encode_base64url bs = map b64_char (b64_sextets (map of_char bs))"

lemma b64_value_char: "n < 64 \<Longrightarrow> b64_value (b64_char n) = Some n"
  by (auto simp: b64_value_def b64_char_def Let_def)

lemma b64_value_pad: "b64_value CHR ''='' = None"
  by code_simp

lemma b64_sextets_small: "\<forall>x\<in>set xs. x < 256 \<Longrightarrow> \<forall>s\<in>set (b64_sextets xs). s < 64"
  by (induction xs rule: b64_sextets.induct) auto

lemma pack_unpack: "r < k \<Longrightarrow> (q * k + r) div k = q \<and> (q * k + r) mod k = (r :: nat)"
  by simp

lemma byte_parts:
  fixes x y z :: nat
  assumes "x < 256" "y < 256" "z < 256"
  shows "x div 4 * 4 + (x mod 4 * 16 + y div 16) div 16 = x"
    "(x mod 4 * 16 + y div 16) mod 16 * 16 + (y mod 16 * 4 + z div 64) div 4 = y"
    "(y mod 16 * 4 + z div 64) mod 4 * 64 + z mod 64 = z"
    "x div 4 * 4 + (x mod 4 * 16) div 16 = x"
    "(x mod 4 * 16 + y div 16) mod 16 * 16 + (y mod 16 * 4) div 4 = y"
proof -
  have "y div 16 < 16" "z div 64 < 4" using assms by (auto simp: less_mult_imp_div_less)
  note p = pack_unpack [OF this(1)] pack_unpack [OF this(2)]
  show "x div 4 * 4 + (x mod 4 * 16 + y div 16) div 16 = x" "x div 4 * 4 + (x mod 4 * 16) div 16 = x" using p by simp_all
  show "(x mod 4 * 16 + y div 16) mod 16 * 16 + (y mod 16 * 4 + z div 64) div 4 = y"
    "(x mod 4 * 16 + y div 16) mod 16 * 16 + (y mod 16 * 4) div 4 = y" using p by simp_all
  show "(y mod 16 * 4 + z div 64) mod 4 * 64 + z mod 64 = z" using p by simp
qed

lemma b64_decode_sextets:
  "\<forall>x\<in>set xs. x < 256 \<Longrightarrow> b64_decode (b64_sextets xs) = Some (map char_of xs)"
proof (induction xs rule: b64_sextets.induct)
  case (4 x y z rest)
  then have "x < 256" "y < 256" "z < 256" "b64_decode (b64_sextets rest) = Some (map char_of rest)" by auto
  then show ?case by (simp only: b64_sextets.simps b64_decode.simps byte_parts option.map list.map)
next
  case (3 x y)
  then have "x < 256" "y < 256" by auto
  then show ?case by (simp only: b64_sextets.simps b64_decode.simps byte_parts list.map)
next
  case (2 x)
  then have "x < 256" by auto
  then show ?case by (simp only: b64_sextets.simps b64_decode.simps byte_parts list.map)
qed simp

lemma decode_encode_base64url: "bs \<noteq> [] \<Longrightarrow> decode_base64url (encode_base64url bs) label = Inr bs"
proof -
  assume bs: "bs \<noteq> []"
  let ?xs = "map of_char bs :: nat list"
  have small: "\<forall>x\<in>set ?xs. x < 256" by auto
  have vals: "map (\<lambda>c. the (b64_value c)) (encode_base64url bs) = b64_sextets ?xs"
    unfolding encode_base64url_def map_map using b64_sextets_small [OF small] b64_value_char by (intro map_idI) auto
  have ok: "\<forall>c\<in>set (encode_base64url bs). b64_value c \<noteq> None"
    using b64_sextets_small [OF small] b64_value_char by (auto simp: encode_base64url_def)
  have "encode_base64url bs \<noteq> []" using bs by (cases "?xs" rule: b64_sextets.cases) (auto simp: encode_base64url_def)
  moreover have "CHR ''='' \<notin> set (encode_base64url bs)" using ok b64_value_pad by blast
  moreover have "\<not> list_ex (\<lambda>c. b64_value c = None) (encode_base64url bs)" using ok by (simp add: list_ex_iff)
  moreover have "b64_decode (b64_sextets ?xs) = Some bs" using b64_decode_sextets [OF small] by (simp add: o_def)
  ultimately show ?thesis by (simp add: decode_base64url_def vals)
qed

section \<open>The canonical text determines the license\<close>

text \<open>A character is read back from its escape, and from its bytes, whatever follows.\<close>

definition hex_value :: "char \<Rightarrow> nat" where
  "hex_value c = (let n = (of_char c :: nat) in if n < 58 then n - 48 else n - 87)"

definition escape_codes :: "(nat \<times> nat) list" where
  "escape_codes = [(110, 10), (114, 13), (116, 9), (102, 12), (98, 8), (34, 34), (92, 92)]"

fun read_char :: "string \<Rightarrow> (char \<times> string) option" where
  "read_char (c # s) =
     (if (of_char c :: nat) \<noteq> 92 then Some (c, s)
      else case s of
        e # t \<Rightarrow>
          (case map_of escape_codes (of_char e) of
             Some n \<Rightarrow> Some (char_of n, t)
           | None \<Rightarrow> (case t of _ # _ # a # b # u \<Rightarrow> Some (char_of (hex_value a * 16 + hex_value b), u) | _ \<Rightarrow> None))
      | [] \<Rightarrow> None)"
| "read_char [] = None"

lemma hex_value_digit: "n < 16 \<Longrightarrow> hex_value (hex_digit n) = n"
  by (auto simp: hex_value_def hex_digit_def Let_def)

lemma read_raw_char: "read_char (raw_char c @ s) = Some (c, s)"
proof -
  define n where "n = (of_char c :: nat)"
  have c: "c = char_of n" "n < 256" by (simp_all add: n_def)
  have hex: "hex_value (hex_digit (n div 16)) * 16 + hex_value (hex_digit (n mod 16)) = n" if "n < 32"
    using that by (simp add: hex_value_digit)
  consider "32 \<le> n" "n \<noteq> 34" "n \<noteq> 92" | "n = 34" | "n = 92" | "n = 10" | "n = 13" | "n = 9" | "n = 12" | "n = 8"
    | "n < 32" "n \<notin> {8, 9, 10, 12, 13}" by fastforce
  then show ?thesis by cases (simp_all add: raw_char_def json_char_def escape_codes_def c Let_def hex)
qed

lemma raw_char_quote: "raw_char c \<noteq> [] \<and> (of_char (hd (raw_char c)) :: nat) \<noteq> 34"
  by (auto simp: raw_char_def json_char_def Let_def)

lemma raw_chars_prefix:
  "concat (map raw_char s) @ char_of (34 :: nat) # x = concat (map raw_char t) @ char_of (34 :: nat) # y \<Longrightarrow> s = t \<and> x = y"
proof (induction s arbitrary: t)
  case Nil
  show ?case
  proof (cases t)
    case (Cons d t')
    then have "(of_char (hd (raw_char d)) :: nat) = 34" using Nil raw_char_quote [of d] by (cases "raw_char d") auto
    then show ?thesis using raw_char_quote by blast
  qed (use Nil in simp)
next
  case (Cons c s)
  show ?case
  proof (cases t)
    case Nil
    then have "(of_char (hd (raw_char c)) :: nat) = 34" using Cons.prems raw_char_quote [of c] by (cases "raw_char c") auto
    then show ?thesis using raw_char_quote by blast
  next
    case (Cons d t')
    let ?X = "concat (map raw_char s) @ char_of (34 :: nat) # x" and ?Y = "concat (map raw_char t') @ char_of (34 :: nat) # y"
    have "raw_char c @ ?X = raw_char d @ ?Y" using Cons.prems Cons by simp
    then have "c = d \<and> ?X = ?Y" using read_raw_char by (metis option.inject prod.inject)
    then show ?thesis using Cons.IH Cons by blast
  qed
qed

lemma raw_string_prefix: "raw_string s @ x = raw_string t @ y \<Longrightarrow> s = t \<and> x = y"
  unfolding raw_string_def append_Cons append_assoc append_Nil list.inject by (rule raw_chars_prefix) blast

fun pack_text :: "string list \<Rightarrow> string" where
  "pack_text [] = []"
| "pack_text [p] = raw_string p"
| "pack_text (p # q # ps) = raw_string p @ CHR '','' # pack_text (q # ps)"

lemma join_packs: "join '','' (map raw_text (map PStr ps)) = pack_text ps"
  by (induction ps rule: pack_text.induct) simp_all

lemma raw_string_hd: "\<exists>s'. raw_string s = char_of (34 :: nat) # s'"
  by (simp add: raw_string_def)

lemma pack_text_hd: "ps \<noteq> [] \<Longrightarrow> \<exists>s'. pack_text ps = char_of (34 :: nat) # s'"
  using raw_string_hd by (cases ps rule: pack_text.cases) (simp_all, metis append_Cons)

lemma quote_differs: "char_of (34 :: nat) \<noteq> CHR '']''" "char_of (34 :: nat) \<noteq> CHR '',''"
  by code_simp+

lemma pack_text_prefix: "pack_text ps @ CHR '']'' # x = pack_text qs @ CHR '']'' # y \<Longrightarrow> ps = qs \<and> x = y"
proof (induction ps arbitrary: qs rule: pack_text.induct)
  case 1
  then show ?case using pack_text_hd [of qs] quote_differs by (cases "qs = []") auto
next
  case (2 p)
  then show ?case
  proof (cases qs rule: pack_text.cases)
    case 1
    then show ?thesis using 2 raw_string_hd [of p] quote_differs by auto
  next
    case (2 q)
    then show ?thesis using \<open>pack_text [p] @ _ = _\<close> raw_string_prefix [of p _ q] by auto
  next
    case (3 q r qs')
    then show ?thesis using \<open>pack_text [p] @ _ = _\<close> raw_string_prefix [of p _ q] by auto
  qed
next
  case (3 p p' ps)
  then show ?case
  proof (cases qs rule: pack_text.cases)
    case 1
    then show ?thesis using 3 raw_string_hd [of p] quote_differs by auto
  next
    case (2 q)
    then show ?thesis using "3.prems" raw_string_prefix [of p _ q] by auto
  next
    case c: (3 q r qs')
    then have "raw_string p @ CHR '','' # pack_text (p' # ps) @ CHR '']'' # x = raw_string q @ CHR '','' # pack_text (r # qs') @ CHR '']'' # y"
      using "3.prems" by simp
    then have "p = q \<and> pack_text (p' # ps) @ CHR '']'' # x = pack_text (r # qs') @ CHR '']'' # y" using raw_string_prefix by blast
    then show ?thesis using "3.IH" c by blast
  qed
qed

lemma show_int_chars: "CHR '','' \<notin> set (show_int i) \<and> hd (show_int i) \<noteq> CHR ''n'' \<and> show_int i \<noteq> []"
proof -
  have d: "c \<in> set (show_nat n) \<Longrightarrow> 48 \<le> (of_char c :: nat) \<and> (of_char c :: nat) \<le> 57" for c n
  proof (induction n arbitrary: c rule: show_nat.induct)
    case (1 n)
    have k: "k < 10 \<Longrightarrow> (of_char (char_of (48 + k :: nat)) :: nat) = 48 + k" for k :: nat by simp
    show ?case using 1 k by (subst (asm) show_nat.simps) (auto split: if_splits)
  qed
  have n: "show_nat n \<noteq> []" for n using show_nat_head by blast
  have "c \<in> set (show_nat n) \<Longrightarrow> c \<noteq> CHR '','' \<and> c \<noteq> CHR ''n''" for c n using d [of c n] by auto
  then have "CHR '','' \<notin> set (show_nat k)" "hd (show_nat k) \<noteq> CHR ''n''" for k using n hd_in_set by blast+
  then show ?thesis using n by (auto simp: show_int_def)
qed

lemma comma_prefix: "CHR '','' \<notin> set a \<Longrightarrow> CHR '','' \<notin> set b \<Longrightarrow> a @ CHR '','' # x = b @ CHR '','' # y \<Longrightarrow> a = b \<and> x = y"
proof (induction a arbitrary: b)
  case Nil
  then show ?case by (cases b) auto
next
  case (Cons c a)
  then show ?case by (cases b) auto
qed

lemma max_text_prefix:
  assumes "raw_text (opt_int m) @ CHR '','' # x = raw_text (opt_int n) @ CHR '','' # y"
  shows "m = n \<and> x = y"
proof -
  have "CHR '','' \<notin> set (raw_text (opt_int k))" for k by (cases k) (simp_all add: show_int_chars)
  then have eq: "raw_text (opt_int m) = raw_text (opt_int n) \<and> x = y" using comma_prefix assms by blast
  have "show_int i \<noteq> ''null''" for i using show_int_chars [of i] by auto
  then show ?thesis using eq by (cases m; cases n) (auto simp: show_int_inj)
qed

text \<open>The text of one field, and of the rest of the payload after it.\<close>

definition string_field :: "string \<Rightarrow> string \<Rightarrow> string \<Rightarrow> string" where
  "string_field k s rest = raw_string k @ '':'' @ raw_string s @ '','' @ rest"

definition max_field :: "int option \<Rightarrow> string \<Rightarrow> string" where
  "max_field m rest = raw_string ''max_managed_clients'' @ '':'' @ raw_text (opt_int m) @ '','' @ rest"

definition packs_field :: "string list \<Rightarrow> string" where
  "packs_field ps = raw_string ''packs'' @ '':['' @ pack_text ps @ '']'' @ '','' @ raw_string ''v'' @ '':2}''"

lemma field_inj:
  "string_field k s x = string_field k t y \<Longrightarrow> s = t \<and> x = y"
  "max_field m x = max_field n y \<Longrightarrow> m = n \<and> x = y"
  "packs_field ps = packs_field qs \<Longrightarrow> ps = qs"
  unfolding string_field_def max_field_def packs_field_def same_append_eq
  using raw_string_prefix [of s "'','' @ x" t "'','' @ y"] max_text_prefix [of m x n y] pack_text_prefix [of ps _ qs] by auto

lemma canonical_text:
  "raw_text (PDict (canonical_payload l)) =
     ''{'' @ string_field ''customer_id'' (li_customer l) (string_field ''edition'' (li_edition l)
       (string_field ''expires'' (li_expires l) (max_field (li_max l) (packs_field (li_packs l)))))"
proof -
  let ?rows = "map (map_prod id raw_text) (canonical_payload l)"
  have "map fst ?rows = [''customer_id'', ''edition'', ''expires'', ''max_managed_clients'', ''packs'', ''v'']"
    by (simp add: canonical_payload_def)
  moreover have "sorted [''customer_id'', ''edition'', ''expires'', ''max_managed_clients'', ''packs'', ''v'']" by code_simp
  ultimately have "sort_key fst ?rows = ?rows" by (intro sort_key_id_if_sorted) (simp only:)
  moreover have "show_int 2 = ''2''" by code_simp
  ultimately show ?thesis using join_packs [of "li_packs l"]
    by (simp add: canonical_payload_def string_field_def max_field_def packs_field_def o_def)
qed

lemma canonical_text_inj:
  assumes "raw_text (PDict (canonical_payload l)) = raw_text (PDict (canonical_payload m))"
  shows "l = (m :: license)"
proof -
  note eq = assms [unfolded canonical_text same_append_eq]
  note 1 = field_inj(1) [OF eq]
  note 2 = field_inj(1) [OF conjunct2 [OF 1]]
  note 3 = field_inj(1) [OF conjunct2 [OF 2]]
  note 4 = field_inj(2) [OF conjunct2 [OF 3]]
  show ?thesis using 1 2 3 4 field_inj(3) [OF conjunct2 [OF 4]] by simp
qed

text \<open>UTF-8.\<close>

fun read_utf8 :: "string \<Rightarrow> (char \<times> string) option" where
  "read_utf8 (c # s) =
     (if (of_char c :: nat) < 128 then Some (c, s)
      else case s of d # t \<Rightarrow> Some (char_of ((of_char c - 192) * 64 + (of_char d - 128) :: nat), t) | [] \<Rightarrow> None)"
| "read_utf8 [] = None"

lemma read_utf8_char: "read_utf8 (utf8_char c @ s) = Some (c, s)"
proof -
  define n where "n = (of_char c :: nat)"
  have c: "c = char_of n" "n < 256" by (simp_all add: n_def)
  have "n div 64 < 4" "n mod 64 < 64" using c(2) by (auto simp: less_mult_imp_div_less)
  then show ?thesis unfolding utf8_char_def Let_def n_def [symmetric] c(1) using c(2) by (simp add: of_char_of)
qed

lemma utf8_inj: "utf8 s = utf8 t \<Longrightarrow> s = t"
proof (induction s arbitrary: t)
  case Nil
  then show ?case by (cases t) (auto simp: utf8_def utf8_char_def Let_def split: if_splits)
next
  case (Cons c s)
  then obtain d t' where t: "t = d # t'" by (cases t) (auto simp: utf8_def utf8_char_def Let_def split: if_splits)
  have "utf8_char c @ utf8 s = utf8_char d @ utf8 t'" using Cons.prems t by (simp add: utf8_def)
  then have "c = d \<and> utf8 s = utf8 t'" using read_utf8_char by (metis option.inject prod.inject)
  then show ?case using Cons.IH t by blast
qed

lemma canonical_bytes_inj: "canonical_bytes l = canonical_bytes m \<Longrightarrow> l = (m :: license)"
  unfolding canonical_bytes_def by (drule utf8_inj) (rule canonical_text_inj)

section \<open>Verification\<close>

lemma try_keys_True:
  "try_keys ed ks sg msg \<Longrightarrow> \<exists>k\<in>set ks. \<exists>key. decode_base64url k ''public key'' = Inr key \<and> ed key sg msg"
  by (induction ed ks sg msg rule: try_keys.induct) (auto split: sum.splits if_splits)

lemma non_empty_string_Inr: "non_empty_string d k = Inr s \<longleftrightarrow> dget d k = Some (PStr s) \<and> strip s \<noteq> []"
  by (auto simp: non_empty_string_def split: option.splits pyval.splits if_splits)

lemma pack_list_Inr: "pack_list v = Inr ps \<Longrightarrow> \<forall>p\<in>set ps. strip p \<noteq> []"
proof -
  assume "pack_list v = Inr ps"
  then obtain xs where xs: "\<not> list_ex (\<lambda>x. case x of PStr s \<Rightarrow> strip s = [] | _ \<Rightarrow> True) xs"
    "ps = map (\<lambda>x. case x of PStr s \<Rightarrow> s | _ \<Rightarrow> []) xs" by (auto simp: pack_list_def split: pyval.splits if_splits)
  then have "\<exists>s. x = PStr s \<and> strip s \<noteq> []" if "x \<in> set xs" for x using that by (cases x) (auto simp: list_ex_iff)
  then show ?thesis using xs(2) by fastforce
qed

lemma max_clients_Inr: "max_clients v = Inr m \<Longrightarrow> v = opt_int m \<and> (case m of None \<Rightarrow> True | Some n \<Rightarrow> 0 \<le> n)"
  by (auto simp: max_clients_def split: pyval.splits if_splits)

text \<open>
  C37. A license is accepted only when one of the pinned keys signed it: the signature of some pinned key on the canonical bytes of the
  returned license verifies, the date of expiry is a real date not before today, and the customer, edition and packs are
  non-empty texts and the client limit is absent or not negative.
\<close>

theorem license_is_signed:
  assumes "verify_license_v2 loads ed_verify payload_b64 sig_b64 pubkeys today = Inr l"
  shows "(\<exists>k\<in>set pubkeys. \<exists>key sg. decode_base64url k ''public key'' = Inr key \<and> decode_base64url sig_b64 ''signature'' = Inr sg \<and>
      ed_verify key sg (canonical_bytes l)) \<and>
    (\<exists>d. date_fromisoformat (li_expires l) = Some d \<and> \<not> date_less d today) \<and>
    strip (li_customer l) \<noteq> [] \<and> strip (li_edition l) \<noteq> [] \<and> (\<forall>p\<in>set (li_packs l). strip p \<noteq> []) \<and>
    (case li_max l of None \<Rightarrow> True | Some n \<Rightarrow> 0 \<le> n)"
proof -
  obtain payload customer expires d packs mx edition sg where
    c: "non_empty_string payload ''customer_id'' = Inr customer" and
    d: "date_fromisoformat expires = Some d" "\<not> date_less d today" and p: "pack_list (dget_or payload ''packs'' PNone) = Inr packs" and
    m: "max_clients (dget_or payload ''max_managed_clients'' PNone) = Inr mx" and e: "non_empty_string payload ''edition'' = Inr edition" and
    s: "decode_base64url sig_b64 ''signature'' = Inr sg" and
    l: "l = \<lparr>li_customer = customer, li_edition = edition, li_expires = expires, li_max = mx, li_packs = packs\<rparr>" and
    k: "try_keys ed_verify pubkeys sg (canonical_bytes l)"
    using assms unfolding verify_license_v2_def Let_def
    by (auto simp: rbind_Inr_iff raise_if_Inr_iff split: option.splits if_splits)
  show ?thesis using try_keys_True [OF k] s c e d pack_list_Inr [OF p] max_clients_Inr [OF m] l
    by (auto simp: non_empty_string_Inr)
qed

definition demo_license :: license where
  "demo_license = \<lparr>li_customer = ''acme'', li_edition = ''pro'', li_expires = ''2028-02-29'', li_max = Some 3, li_packs = [''psa'']\<rparr>"

definition demo_check :: "string \<Rightarrow> string \<Rightarrow> string \<Rightarrow> bool" where
  "demo_check key sg msg \<longleftrightarrow> key = ''C'' \<and> sg = ''B'' \<and> msg = canonical_bytes demo_license"

lemma demo_verified:
  "verify_license_v2 (\<lambda>_. Some (PDict (rev (canonical_payload demo_license)))) demo_check ''QQ'' ''Qg'' [''!'', ''Qw''] (2028, 2, 29) = Inr demo_license"
proof -
  have "try_keys demo_check [''!'', ''Qw''] ''B'' (canonical_bytes demo_license)"
  proof -
    have "decode_base64url ''!'' ''public key'' = Inl (ValueError (''public key'' @ '' must be unpadded base64url''))"
      "decode_base64url ''Qw'' ''public key'' = Inr ''C''" by code_simp+
    then show ?thesis by (simp add: demo_check_def)
  qed
  moreover have "decode_base64url ''QQ'' ''payload'' = Inr ''A''" "decode_base64url ''Qg'' ''signature'' = Inr ''B''" by code_simp+
  moreover have "date_shape ''2028-02-29''" "date_fromisoformat ''2028-02-29'' = Some (2028, 2, 29)" by code_simp+
  moreover have "strip ''acme'' \<noteq> []" "strip ''pro'' \<noteq> []" "strip ''2028-02-29'' \<noteq> []" "strip ''psa'' \<noteq> []" by code_simp+
  ultimately show ?thesis
    by (simp add: verify_license_v2_def decode_json_def canonical_payload_def demo_license_def dkeys_def LICENSE_KEYS_def
        non_empty_string_def dget_def dget_or_def raise_if_def pack_list_def max_clients_def date_less_def insert_commute)
qed

theorem license_is_signed_witness:
  "(\<exists>key sg. demo_check key sg (canonical_bytes demo_license)) \<and> (\<exists>d. date_fromisoformat (li_expires demo_license) = Some d \<and> \<not> date_less d (2028, 2, 29))"
  using license_is_signed [OF demo_verified] by blast

text \<open>
  The signed bytes determine the license: two licenses with the same canonical bytes are the same license, so no signature
  serves for a license other than the one it was made for.
\<close>

theorem signature_binds_license:
  "canonical_bytes l = canonical_bytes m \<longleftrightarrow> l = (m :: license)"
  using canonical_bytes_inj by blast

text \<open>
  C38. Base64url round trip: decoding the unpadded base64url encoding of any non-empty byte string returns that byte string.
\<close>

theorem base64url_round_trip:
  assumes "bs \<noteq> []"
  shows "decode_base64url (encode_base64url bs) label = Inr bs"
  using assms by (rule decode_encode_base64url)

theorem base64url_round_trip_witness:
  "encode_base64url ''Man'' = ''TWFu'' \<and> decode_base64url (encode_base64url ''Man'') [] = Inr ''Man''"
proof
  show "encode_base64url ''Man'' = ''TWFu''" by code_simp
qed (rule base64url_round_trip, simp)

end
