(* ===== verification/Governance.thy ===== *)
theory Governance
  imports Json
begin

text \<open>
  The governance review of generated artifacts (\<open>governance.py\<close>). Findings accumulate in the order of the code; a finding is a
  dictionary with its severity, code and message.
\<close>

definition MAX_GOVERNANCE_INPUT_BYTES :: int where "MAX_GOVERNANCE_INPUT_BYTES = 100000"
definition MAX_GOVERNANCE_CONNECTORS :: nat where "MAX_GOVERNANCE_CONNECTORS = 16"

section \<open>The review\<close>

definition finding :: "string \<Rightarrow> string \<Rightarrow> string \<Rightarrow> pyval \<Rightarrow> pydict" where
  "finding severity code message component_id =
     [(''severity'', PStr severity), (''code'', PStr code), (''message'', PStr message)] @
     (case component_id of PStr c \<Rightarrow> if c \<noteq> [] then [(''component_id'', PStr c)] else [] | _ \<Rightarrow> [])"

definition mapping_list :: "pyval \<Rightarrow> string \<Rightarrow> pydict list res" where
  "mapping_list v field =
     (case v of
        PList xs \<Rightarrow>
          if list_ex (\<lambda>x. \<not> is_dict x) xs then Inl (GovernanceValidationError (field @ '' must contain objects''))
          else Inr (map as_dict xs)
      | _ \<Rightarrow> Inl (GovernanceValidationError (field @ '' must be an array'')))"

definition safe_host :: "pyval \<Rightarrow> pyval" where
  "safe_host v =
     (case v of
        PStr h \<Rightarrow> if h = [] \<or> char_of (10 :: nat) \<in> set h \<or> char_of (13 :: nat) \<in> set h then PNone else PStr (take 253 h)
      | _ \<Rightarrow> PNone)"

definition write_action :: "pydict \<Rightarrow> bool" where
  "write_action a \<longleftrightarrow> upper (py_str (dget_or a ''method'' (PStr []))) \<notin> {''GET'', ''HEAD''}"

definition get :: "pydict \<Rightarrow> string \<Rightarrow> pyval" where
  "get d k = dget_or d k PNone"

definition review_connector :: "pydict \<Rightarrow> pydict list \<Rightarrow> (pydict \<times> pydict list) res" where
  "review_connector artifact findings =
     (case get artifact ''connector_id'' of
        PStr connector_id \<Rightarrow>
          if strip connector_id = [] then Inl (GovernanceValidationError ''connector artifact connector_id is required'') else
          rbind (mapping_list (dget_or artifact ''actions'' (PList [])) (''connector.'' @ connector_id @ ''.actions'')) (\<lambda>actions.
          rbind (mapping_list (dget_or artifact ''authentication'' (PList [])) (''connector.'' @ connector_id @ ''.authentication'')) (\<lambda>authentication.
          let f1 = (if get artifact ''credentials_included'' = PBool True
                    then findings @ [finding ''high'' ''credential_material_present'' ''Connector artifacts must not contain credentials.'' (PStr connector_id)]
                    else findings);
              f2 = (if authentication \<noteq> []
                    then f1 @ [finding ''medium'' ''authentication_review_required''
                                 ''Authentication scheme and tenant consent require operator review.'' (PStr connector_id)] else f1);
              writes = map (\<lambda>a. PStr (py_str (get a ''id''))) (filter write_action actions);
              f3 = (if writes \<noteq> []
                    then f2 @ [finding ''high'' ''write_approval_boundary_required''
                                 ''Non-read connector actions require an explicit approval boundary before use.'' (PStr connector_id)] else f2)
          in Inr ([(''connector_id'', PStr connector_id), (''host'', safe_host (get artifact ''host'')),
                   (''action_count'', PInt (int (length actions))), (''write_action_ids'', PList writes),
                   (''authentication_types'', PList (map (\<lambda>a. get a ''type'') authentication)),
                   (''review_status'', PStr (if authentication \<noteq> [] \<or> writes \<noteq> [] then ''needs_review'' else ''reviewed_read_only''))], f3)))
      | _ \<Rightarrow> Inl (GovernanceValidationError ''connector artifact connector_id is required''))"

fun review_connectors :: "pydict list \<Rightarrow> pydict list \<Rightarrow> (pydict list \<times> pydict list) res" where
  "review_connectors [] findings = Inr ([], findings)"
| "review_connectors (a # as) findings =
     rbind (review_connector a findings) (\<lambda>(summary, f1).
     rbind (review_connectors as f1) (\<lambda>(summaries, f2). Inr (summary # summaries, f2)))"

definition finding_code :: "pydict \<Rightarrow> string" where
  "finding_code f = py_str (get f ''code'')"

definition system_connector :: "pydict \<Rightarrow> bool" where
  "system_connector c \<longleftrightarrow> py_eq (get c ''kind'') (PStr ''system_connector'')"

definition policy_mapping :: "pydict list \<Rightarrow> pydict list \<Rightarrow> pydict list \<Rightarrow> pyval list" where
  "policy_mapping findings components connectors =
     (let codes = map finding_code findings in
      [PDict [(''policy_id'', PStr ''no_credentials_in_artifacts''),
         (''status'', PStr (if ''credential_material_present'' \<in> set codes then ''fail'' else ''pass'')),
         (''evidence'', PStr ''credentials_included is false for every reviewed connector'')],
       PDict [(''policy_id'', PStr ''approval_for_state_changes''),
         (''status'', PStr (if ''write_approval_boundary_required'' \<in> set codes then ''needs_review'' else ''pass'')),
         (''evidence'', PStr ''non-read connector actions are identified for approval review'')],
       PDict [(''policy_id'', PStr ''tenant_scoped_external_access''),
         (''status'', PStr (if list_ex system_connector components then ''needs_review'' else ''pass'')),
         (''evidence'', PStr (show_int (int (length connectors)) @ '' connector artifact(s) and architecture boundaries reviewed''))],
       PDict [(''policy_id'', PStr ''deployment_requires_human_approval''), (''status'', PStr ''pass''),
         (''evidence'', PStr ''governance evaluation never starts deployment'')]])"

definition has_severity :: "string \<Rightarrow> pydict \<Rightarrow> bool" where
  "has_severity s f \<longleftrightarrow> py_eq (get f ''severity'') (PStr s)"

definition architecture_findings :: "pydict \<Rightarrow> pydict list \<Rightarrow> pydict list \<Rightarrow> pydict list" where
  "architecture_findings architecture components open_items =
     (if \<not> py_eq (get architecture ''readiness'') (PStr ''ready'')
      then [finding ''medium'' ''architecture_review_required'' ''The architecture contains unresolved design or binding items.'' PNone] else []) @
     (if open_items \<noteq> []
      then [finding ''medium'' ''open_items_present'' (show_int (int (length open_items)) @ '' architecture review item(s) remain open.'') PNone] else []) @
     map (\<lambda>c. finding ''medium'' ''external_boundary_review''
                ''External system access requires an explicit connector, tenant, and permission review.'' (get c ''id''))
       (filter system_connector components)"

definition evaluate_solution_governance :: "pydict \<Rightarrow> pydict list option \<Rightarrow> pydict res" where
  "evaluate_solution_governance architecture connector_artifacts =
     (let connectors = (case connector_artifacts of None \<Rightarrow> [] | Some cs \<Rightarrow> cs) in
      rbind (raise_if (int (length (json_text (PDict architecture))) + int (length (json_text (PList (map PDict connectors)))) > MAX_GOVERNANCE_INPUT_BYTES)
        (GovernanceValidationError ''governance input exceeds 100000 bytes'')) (\<lambda>_.
      case string_or_none (get architecture ''client_id'') of
        None \<Rightarrow> Inl (GovernanceValidationError ''architecture.client_id is required'')
      | Some client_id \<Rightarrow>
      rbind (mapping_list (dget_or architecture ''components'' (PList [])) ''architecture.components'') (\<lambda>components.
      rbind (mapping_list (dget_or architecture ''open_items'' (PList [])) ''architecture.open_items'') (\<lambda>open_items.
      rbind (raise_if (length connectors > MAX_GOVERNANCE_CONNECTORS)
        (GovernanceValidationError ''connector_artifacts may contain at most 16 items'')) (\<lambda>_.
      rbind (review_connectors connectors (architecture_findings architecture components open_items)) (\<lambda>(summary, findings).
      Inr [(''client_id'', PStr client_id), (''status'', PStr (if findings \<noteq> [] then ''needs_review'' else ''pass'')),
           (''finding_counts'', PDict [(''high'', PInt (int (length (filter (has_severity ''high'') findings)))),
              (''medium'', PInt (int (length (filter (has_severity ''medium'') findings)))), (''info'', PInt 0)]),
           (''findings'', PList (map PDict findings)), (''connectors'', PList (map PDict summary)),
           (''policy_mapping'', PList (policy_mapping findings components summary)),
           (''authorization_changed'', PBool False), (''execution_started'', PBool False), (''deployment_started'', PBool False)]))))))"

end
