(* ===== verification/Governance_Laws.thy ===== *)
theory Governance_Laws
  imports Governance
begin

text \<open>
  What the governance review decides: exactly the inputs it accepts, when it passes, and what each policy status
  and count says about the reviewed artifacts.
\<close>

section \<open>The accepted inputs\<close>

definition objects :: "pyval \<Rightarrow> bool" where
  "objects v \<longleftrightarrow> (case v of PList xs \<Rightarrow> list_all is_dict xs | _ \<Rightarrow> False)"

definition items :: "pydict \<Rightarrow> string \<Rightarrow> pydict list" where
  "items d k = (case dget_or d k (PList []) of PList xs \<Rightarrow> map as_dict xs | _ \<Rightarrow> [])"

definition named :: "pyval \<Rightarrow> bool" where
  "named v \<longleftrightarrow> (case v of PStr s \<Rightarrow> strip s \<noteq> [] | _ \<Rightarrow> False)"

definition artifact_ok :: "pydict \<Rightarrow> bool" where
  "artifact_ok a \<longleftrightarrow> named (get a ''connector_id'') \<and> objects (dget_or a ''actions'' (PList [])) \<and> objects (dget_or a ''authentication'' (PList []))"

definition review_input_ok :: "pydict \<Rightarrow> pydict list \<Rightarrow> bool" where
  "review_input_ok architecture cs \<longleftrightarrow>
     int (length (json_text (PDict architecture))) + int (length (json_text (PList (map PDict cs)))) \<le> MAX_GOVERNANCE_INPUT_BYTES \<and>
     length cs \<le> MAX_GOVERNANCE_CONNECTORS \<and> named (get architecture ''client_id'') \<and>
     objects (dget_or architecture ''components'' (PList [])) \<and> objects (dget_or architecture ''open_items'' (PList [])) \<and> list_all artifact_ok cs"

definition writes :: "pydict \<Rightarrow> bool" where
  "writes a \<longleftrightarrow> list_ex write_action (items a ''actions'')"

definition carries_credentials :: "pydict \<Rightarrow> bool" where
  "carries_credentials a \<longleftrightarrow> get a ''credentials_included'' = PBool True"

definition artifact_clean :: "pydict \<Rightarrow> bool" where
  "artifact_clean a \<longleftrightarrow> \<not> carries_credentials a \<and> items a ''authentication'' = [] \<and> \<not> writes a"

text \<open>The status entry of a policy in a report.\<close>

definition policy_status :: "pydict \<Rightarrow> string \<Rightarrow> pyval option" where
  "policy_status report p =
     (case find (\<lambda>e. get e ''policy_id'' = PStr p) (items report ''policy_mapping'') of None \<Rightarrow> None | Some e \<Rightarrow> dget e ''status'')"

section \<open>One artifact\<close>

lemma mapping_list_iff: "mapping_list (dget_or d k (PList [])) field = Inr xs \<longleftrightarrow> objects (dget_or d k (PList [])) \<and> xs = items d k"
  by (auto simp: mapping_list_def objects_def items_def list_ex_iff list_all_iff split: pyval.splits if_splits)

text \<open>The findings an artifact adds.\<close>

definition artifact_findings :: "pydict \<Rightarrow> pydict list" where
  "artifact_findings a =
     (if carries_credentials a
      then [finding ''high'' ''credential_material_present'' ''Connector artifacts must not contain credentials.'' (get a ''connector_id'')] else []) @
     (if items a ''authentication'' \<noteq> []
      then [finding ''medium'' ''authentication_review_required'' ''Authentication scheme and tenant consent require operator review.'' (get a ''connector_id'')]
      else []) @
     (if writes a
      then [finding ''high'' ''write_approval_boundary_required''
              ''Non-read connector actions require an explicit approval boundary before use.'' (get a ''connector_id'')] else [])"

lemma review_connector_iff:
  "(\<exists>s. review_connector a fs = Inr (s, fs')) \<longleftrightarrow> artifact_ok a \<and> fs' = fs @ artifact_findings a"
proof (cases "get a ''connector_id''")
  case (PStr c)
  have w: "writes a \<longleftrightarrow> filter write_action (items a ''actions'') \<noteq> []"
    by (simp add: writes_def list_ex_iff filter_empty_conv)
  show ?thesis
    unfolding review_connector_def artifact_ok_def artifact_findings_def PStr w carries_credentials_def named_def Let_def
    by (cases "strip c = []") (auto simp: rbind_Inr_iff mapping_list_iff)
qed (simp_all add: review_connector_def artifact_ok_def named_def)

lemma review_connectors_iff:
  "(\<exists>ss. review_connectors cs fs = Inr (ss, fs')) \<longleftrightarrow> list_all artifact_ok cs \<and> fs' = fs @ concat (map artifact_findings cs)"
proof (induction cs arbitrary: fs fs')
  case (Cons a cs)
  have "(\<exists>ss. review_connectors (a # cs) fs = Inr (ss, fs')) \<longleftrightarrow>
    (\<exists>f1. (\<exists>s. review_connector a fs = Inr (s, f1)) \<and> (\<exists>ss. review_connectors cs f1 = Inr (ss, fs')))"
    by (auto simp: rbind_Inr_iff split_paired_Ex)
  also have "\<dots> \<longleftrightarrow> artifact_ok a \<and> list_all artifact_ok cs \<and> fs' = (fs @ artifact_findings a) @ concat (map artifact_findings cs)"
    unfolding review_connector_iff Cons.IH by auto
  finally show ?case by simp
qed auto

lemma review_connectors_length: "review_connectors cs fs = Inr (ss, fs') \<Longrightarrow> length ss = length cs"
  by (induction cs arbitrary: fs ss) (auto simp: rbind_Inr_iff split_paired_Ex)

section \<open>Codes and severities of the findings\<close>

lemma get_finding [simp]:
  "get (finding s c m i) ''severity'' = PStr s" "get (finding s c m i) ''code'' = PStr c"
  by (simp_all add: finding_def get_def dget_or_def dget_def)

lemma finding_code_finding [simp]: "finding_code (finding s c m i) = c"
  by (simp add: finding_code_def py_str_def)

lemma has_severity_finding [simp]: "has_severity s' (finding s c m i) \<longleftrightarrow> s' = s"
  by (auto simp: has_severity_def)

definition all_findings :: "pydict \<Rightarrow> pydict list \<Rightarrow> pydict list" where
  "all_findings architecture cs =
     architecture_findings architecture (items architecture ''components'') (items architecture ''open_items'') @ concat (map artifact_findings cs)"

lemma architecture_codes: "f \<in> set (architecture_findings a cs os) \<Longrightarrow>
  finding_code f \<in> {''architecture_review_required'', ''open_items_present'', ''external_boundary_review''} \<and> has_severity ''medium'' f \<and> \<not> has_severity ''high'' f"
  by (auto simp: architecture_findings_def split: if_splits)

lemma artifact_finding_codes:
  "''credential_material_present'' \<in> finding_code ` set (artifact_findings a) \<longleftrightarrow> carries_credentials a"
  "''write_approval_boundary_required'' \<in> finding_code ` set (artifact_findings a) \<longleftrightarrow> writes a"
  by (auto simp: artifact_findings_def image_Un)

lemma artifact_severities: "f \<in> set (artifact_findings a) \<Longrightarrow> has_severity ''high'' f \<longleftrightarrow> \<not> has_severity ''medium'' f"
  by (auto simp: artifact_findings_def split: if_splits)

lemma credential_code: "''credential_material_present'' \<in> set (map finding_code (all_findings d cs)) \<longleftrightarrow> list_ex carries_credentials cs"
  using architecture_codes artifact_finding_codes(1) by (fastforce simp: all_findings_def list_ex_iff)

lemma write_code: "''write_approval_boundary_required'' \<in> set (map finding_code (all_findings d cs)) \<longleftrightarrow> list_ex writes cs"
  using architecture_codes artifact_finding_codes(2) by (fastforce simp: all_findings_def list_ex_iff)

lemma all_findings_severity: "f \<in> set (all_findings d cs) \<Longrightarrow> has_severity ''high'' f \<longleftrightarrow> \<not> has_severity ''medium'' f"
  using architecture_codes artifact_severities by (fastforce simp: all_findings_def)

lemma artifact_findings_empty: "artifact_findings a = [] \<longleftrightarrow> artifact_clean a"
  by (simp add: artifact_findings_def artifact_clean_def)

lemma all_findings_empty: "all_findings d cs = [] \<longleftrightarrow>
  py_eq (get d ''readiness'') (PStr ''ready'') \<and> items d ''open_items'' = [] \<and> \<not> list_ex system_connector (items d ''components'') \<and> list_all artifact_clean cs"
  by (auto simp: all_findings_def architecture_findings_def artifact_findings_empty list_ex_iff list_all_iff filter_empty_conv)

lemma severity_counts: "length (filter (has_severity ''high'') (all_findings d cs)) + length (filter (has_severity ''medium'') (all_findings d cs)) =
  length (all_findings d cs)"
proof -
  have "filter (has_severity ''medium'') (all_findings d cs) = filter (\<lambda>f. \<not> has_severity ''high'' f) (all_findings d cs)"
    using all_findings_severity by (intro filter_cong) auto
  then show ?thesis by (simp add: sum_length_filter_compl)
qed

section \<open>The report\<close>

definition report :: "pydict \<Rightarrow> pydict list \<Rightarrow> pydict list \<Rightarrow> pydict" where
  "report d cs summary = (let fs = all_findings d cs in
     [(''client_id'', get d ''client_id''), (''status'', PStr (if fs \<noteq> [] then ''needs_review'' else ''pass'')),
      (''finding_counts'', PDict [(''high'', PInt (int (length (filter (has_severity ''high'') fs)))),
         (''medium'', PInt (int (length (filter (has_severity ''medium'') fs)))), (''info'', PInt 0)]),
      (''findings'', PList (map PDict fs)), (''connectors'', PList (map PDict summary)),
      (''policy_mapping'', PList (policy_mapping fs (items d ''components'') summary)),
      (''authorization_changed'', PBool False), (''execution_started'', PBool False), (''deployment_started'', PBool False)])"

lemma string_or_none_named: "string_or_none v = Some s \<longleftrightarrow> named v \<and> v = PStr s"
  by (cases v) (auto simp: named_def)

lemma evaluate_iff:
  "evaluate_solution_governance d (Some cs) = Inr r \<longleftrightarrow>
     review_input_ok d cs \<and>
     (\<exists>summary. review_connectors cs (architecture_findings d (items d ''components'') (items d ''open_items'')) = Inr (summary, all_findings d cs) \<and>
        r = report d cs summary)" (is "?L \<longleftrightarrow> ?R")
proof
  assume ?L
  then obtain client summary fs where c: "string_or_none (get d ''client_id'') = Some client"
    and s: "\<not> int (length (json_text (PDict d))) + int (length (json_text (PList (map PDict cs)))) > MAX_GOVERNANCE_INPUT_BYTES"
      "\<not> length cs > MAX_GOVERNANCE_CONNECTORS"
    and o: "objects (dget_or d ''components'' (PList []))" "objects (dget_or d ''open_items'' (PList []))"
    and v: "review_connectors cs (architecture_findings d (items d ''components'') (items d ''open_items'')) = Inr (summary, fs)"
    and r: "r = [(''client_id'', PStr client), (''status'', PStr (if fs \<noteq> [] then ''needs_review'' else ''pass'')),
      (''finding_counts'', PDict [(''high'', PInt (int (length (filter (has_severity ''high'') fs)))),
         (''medium'', PInt (int (length (filter (has_severity ''medium'') fs)))), (''info'', PInt 0)]),
      (''findings'', PList (map PDict fs)), (''connectors'', PList (map PDict summary)),
      (''policy_mapping'', PList (policy_mapping fs (items d ''components'') summary)),
      (''authorization_changed'', PBool False), (''execution_started'', PBool False), (''deployment_started'', PBool False)]"
    unfolding evaluate_solution_governance_def Let_def
    by (simp only: option.case rbind_Inr_iff raise_if_Inr_iff case_option_Inr split_paired_Ex prod.case sum.inject mapping_list_iff) blast
  have "list_all artifact_ok cs \<and> fs = all_findings d cs" using review_connectors_iff v unfolding all_findings_def by blast
  then show ?R using c s o v r by (auto simp: review_input_ok_def report_def Let_def string_or_none_named)
next
  assume R: ?R
  then obtain summary where "review_connectors cs (architecture_findings d (items d ''components'') (items d ''open_items'')) = Inr (summary, all_findings d cs)"
    and "r = report d cs summary" by blast
  moreover obtain client where "get d ''client_id'' = PStr client" "string_or_none (get d ''client_id'') = Some client"
    using R string_or_none_named by (auto simp: review_input_ok_def named_def split: pyval.splits)
  ultimately show ?L using R unfolding evaluate_solution_governance_def Let_def review_input_ok_def report_def
    by (auto simp: rbind_Inr_iff raise_if_Inr_iff mapping_list_iff)
qed

lemma evaluate_accepts_iff: "(\<exists>r. evaluate_solution_governance d (Some cs) = Inr r) \<longleftrightarrow> review_input_ok d cs"
  using review_connectors_iff [of cs] unfolding evaluate_iff review_input_ok_def all_findings_def by blast

lemma report_fields:
  "dget (report d cs summary) ''status'' = Some (PStr (if all_findings d cs \<noteq> [] then ''needs_review'' else ''pass''))"
  "dget (report d cs summary) ''findings'' = Some (PList (map PDict (all_findings d cs)))"
  "dget (report d cs summary) ''finding_counts'' = Some (PDict [(''high'', PInt (int (length (filter (has_severity ''high'') (all_findings d cs))))),
     (''medium'', PInt (int (length (filter (has_severity ''medium'') (all_findings d cs))))), (''info'', PInt 0)])"
  "dget (report d cs summary) ''authorization_changed'' = Some (PBool False)"
  "dget (report d cs summary) ''execution_started'' = Some (PBool False)"
  "dget (report d cs summary) ''deployment_started'' = Some (PBool False)"
  by (simp_all add: report_def Let_def dget_def)

lemma report_policies:
  "policy_status (report d cs summary) ''no_credentials_in_artifacts'' = Some (PStr (if list_ex carries_credentials cs then ''fail'' else ''pass''))"
  "policy_status (report d cs summary) ''approval_for_state_changes'' = Some (PStr (if list_ex writes cs then ''needs_review'' else ''pass''))"
  "policy_status (report d cs summary) ''tenant_scoped_external_access'' =
     Some (PStr (if list_ex system_connector (items d ''components'') then ''needs_review'' else ''pass''))"
proof -
  have "items (report d cs summary) ''policy_mapping'' = map as_dict (policy_mapping (all_findings d cs) (items d ''components'') summary)"
    by (simp add: items_def report_def Let_def dget_or_def dget_def)
  then show
    "policy_status (report d cs summary) ''no_credentials_in_artifacts'' = Some (PStr (if list_ex carries_credentials cs then ''fail'' else ''pass''))"
    "policy_status (report d cs summary) ''approval_for_state_changes'' = Some (PStr (if list_ex writes cs then ''needs_review'' else ''pass''))"
    "policy_status (report d cs summary) ''tenant_scoped_external_access'' =
       Some (PStr (if list_ex system_connector (items d ''components'') then ''needs_review'' else ''pass''))"
    using credential_code [of d cs] write_code [of d cs]
    by (simp_all add: policy_status_def policy_mapping_def Let_def get_def dget_or_def dget_def)
qed


definition demo_architecture :: pydict where
  "demo_architecture = [(''client_id'', PStr ''c1''), (''readiness'', PStr ''ready'')]"

definition demo_artifact :: pydict where
  "demo_artifact = [(''connector_id'', PStr ''k''), (''actions'', PList [PDict [(''id'', PStr ''a''), (''method'', PStr ''post'')]])]"


end
