(* ===== verification/Smart_Actions.thy ===== *)
theory Smart_Actions
  imports Approvals
begin

text \<open>
  The service that invokes smart actions (\<open>smart_actions.py\<close>, class \<open>SmartActionService\<close>, with the registry and the store
  methods behind it). An action is its manifest and its \<open>run\<close>: any function of the context, the payload and the store that
  returns a result or raises, with the store it leaves. An action that needs approval is first run as a draft; its payload is
  stored with an approval request, and the action is run again, with \<open>_approval_completed\<close> set, when the request is approved.

  The execution recorder (\<open>observability.py\<close>) is best effort and runs beside the service: it is a function on the table of
  executions, which nothing here reads. The test for a correlation id (\<open>diagnostics.py\<close>) and the provider labels are fields of
  the record \<open>service\<close>.
\<close>

section \<open>Actions and the registry\<close>

record manifest =
  mf_id :: string
  mf_title :: string
  mf_description :: string
  mf_requires_approval :: bool
  mf_required_role :: string
  mf_expiry :: int

record action_result =
  rs_status :: string
  rs_output :: pydict
  rs_evidence :: "pyval list"
  rs_error :: string
  rs_run :: "int option"
  rs_approval :: "int option"

record action_context =
  cx_actor :: string
  cx_client :: "string option"

record action =
  ac_manifest :: manifest
  ac_run :: "action_context \<Rightarrow> pydict \<Rightarrow> store \<Rightarrow> action_result res \<times> store"

type_synonym registry = "(string \<times> action) list"

record service =
  sm_env :: env
  sm_registry :: registry
  sm_recorder :: "execution \<Rightarrow> execution list \<Rightarrow> execution list"
  sm_metadata :: pydict
  sm_valid_correlation :: "string \<Rightarrow> bool"

definition register_action :: "registry \<Rightarrow> action \<Rightarrow> registry res" where
  "register_action reg a =
     (let m = ac_manifest a; action_id = lower (strip (mf_id m)) in
      rbind (raise_if (action_id \<noteq> mf_id m) (ValueError ''smart action id must be lowercase id text'')) (\<lambda>_.
      rbind (raise_if (dget reg action_id \<noteq> None) (ValueError (''smart action '' @ action_id @ '' is already registered''))) (\<lambda>_.
      rbind (raise_if (mf_requires_approval m \<and> (mf_expiry m < 1 \<or> mf_expiry m > MAX_APPROVAL_EXPIRY_SECONDS))
        (ValueError ''approval expiry must be between 1 and 2592000 seconds'')) (\<lambda>_.
      Inr (dset reg action_id a)))))"

definition registry_get :: "registry \<Rightarrow> string \<Rightarrow> action res" where
  "registry_get reg action_id =
     (case dget reg (lower (strip action_id)) of
        None \<Rightarrow> Inl (KeyError (''smart action '' @ action_id @ '' is not registered''))
      | Some a \<Rightarrow> Inr a)"

definition list_manifests :: "registry \<Rightarrow> manifest list" where
  "list_manifests reg = map (\<lambda>(k, a). ac_manifest a) (sort_key fst reg)"

section \<open>Results\<close>

definition failed :: "string \<Rightarrow> action_result" where
  "failed detail = \<lparr>rs_status = ''failed'', rs_output = [], rs_evidence = [], rs_error = detail, rs_run = None, rs_approval = None\<rparr>"

definition redact_result :: "env \<Rightarrow> action_result \<Rightarrow> action_result" where
  "redact_result E r = r\<lparr>rs_output := as_dict (redact_value E (PDict (rs_output r))), rs_evidence := as_list (redact_value E (PList (rs_evidence r)))\<rparr>"

definition result_with_run :: "action_result \<Rightarrow> int \<Rightarrow> action_result" where
  "result_with_run r run_id = r\<lparr>rs_run := Some run_id\<rparr>"

definition stored_action_status :: "string \<Rightarrow> string" where
  "stored_action_status status = (if status \<in> {''success'', ''failed'', ''provider_not_configured'', ''rejected''} then status else ''failed'')"

text \<open>The result a stored run stands for; \<open>_json_object\<close> and \<open>_json_list\<close> read its columns.\<close>

definition json_objects :: "pyval \<Rightarrow> pyval list" where
  "json_objects v = filter is_dict (as_list v)"

definition stored_result :: "smart_run_row \<Rightarrow> string \<Rightarrow> string \<Rightarrow> int \<Rightarrow> action_result" where
  "stored_result run status detail approval_id =
     \<lparr>rs_status = status, rs_output = as_dict (sr_output run), rs_evidence = json_objects (sr_evidence run), rs_error = detail,
      rs_run = Some (sr_id run), rs_approval = Some approval_id\<rparr>"

definition payload_digest :: "env \<Rightarrow> pydict \<Rightarrow> string" where
  "payload_digest E payload = sha256 E (json_text (PDict payload))"

definition effective_client_id :: "store \<Rightarrow> pydict \<Rightarrow> string option \<Rightarrow> string option" where
  "effective_client_id s payload client_id =
     (case normalize_client_id client_id of
        Some c \<Rightarrow> Some c
      | None \<Rightarrow> (case str_field payload ''ticket_id'' of None \<Rightarrow> None | Some t \<Rightarrow> (case ticket_client s t of None \<Rightarrow> None | Some c \<Rightarrow> c)))"

definition required_role :: "manifest \<Rightarrow> role" where
  "required_role m = (if lower (strip (mf_required_role m)) = ''admin'' then ADMIN else TECHNICIAN)"

definition require_action_role :: "manifest \<Rightarrow> role option \<Rightarrow> unit res" where
  "require_action_role m approver_role =
     raise_if (case approver_role of None \<Rightarrow> True | Some r \<Rightarrow> r < required_role m)
       (PermissionError (mf_id m @ '' approval requires '' @ (if required_role m = ADMIN then ''admin'' else ''technician'') @ '' authority''))"

section \<open>Stored runs\<close>

definition create_smart_action_run ::
  "env \<Rightarrow> time \<Rightarrow> string \<Rightarrow> string \<Rightarrow> string \<Rightarrow> string \<Rightarrow> pydict \<Rightarrow> pyval list \<Rightarrow> int option \<Rightarrow> string option \<Rightarrow> string \<Rightarrow> store \<Rightarrow>
   smart_run_row \<times> store" where
  "create_smart_action_run E now action_id actor status digest output evidence approval_id client_id error_detail s =
     (let i = smart_runs_seq s + 1;
          row = \<lparr>sr_id = i, sr_action = action_id, sr_actor = actor, sr_status = status, sr_digest = digest, sr_output = json_dumps E output,
                 sr_evidence = redact_value E (PList evidence), sr_approval = approval_id, sr_created = now, sr_updated = now,
                 sr_client = normalize_client_id client_id, sr_error = redact E error_detail\<rparr>
      in (row, s\<lparr>smart_runs_seq := i, smart_runs := smart_runs s @ [row]\<rparr>))"

text \<open>The rows \<open>create_pending_smart_action\<close> writes in its transaction.\<close>

definition insert_pending ::
  "env \<Rightarrow> time \<Rightarrow> string \<Rightarrow> string \<Rightarrow> string \<Rightarrow> pydict \<Rightarrow> pyval list \<Rightarrow> pydict \<Rightarrow> string option \<Rightarrow> time \<Rightarrow> store \<Rightarrow> smart_run_row \<times> store" where
  "insert_pending E now action_id actor digest output evidence approval_payload c expires s =
     (let i = smart_runs_seq s + 1; subject = show_int i; action_type = ''smart_action:'' @ action_id;
          pj = json_dumps E (if dget approval_payload ''run_id'' = None then dset approval_payload ''run_id'' (PInt i) else approval_payload);
          a = approvals_seq s + 1;
          run = \<lparr>sr_id = i, sr_action = action_id, sr_actor = actor, sr_status = ''pending_approval'', sr_digest = digest,
                 sr_output = json_dumps E output, sr_evidence = redact_value E (PList evidence), sr_approval = Some a, sr_created = now,
                 sr_updated = now, sr_client = c, sr_error = []\<rparr>;
          s1 = s\<lparr>smart_runs_seq := i, smart_runs := smart_runs s @ [run], approvals_seq := a, approvals := approvals s @
                 [\<lparr>ap_id = a, ap_subject = subject, ap_action = action_type, ap_payload = pj, ap_status = ''pending'',
                   ap_comment = [], ap_created = now, ap_updated = now, ap_exec_status = ''not_started'',
                   ap_exec_message = [], ap_executed = None, ap_exec_result = PDict [], ap_client = c,
                   ap_approver = None, ap_expires = At expires\<rparr>]\<rparr>;
          s2 = add_audit_row now ''approval.requested'' subject (action_type @ '' approval requested'') c None s1;
          s3 = add_history_row E now ''approval.requested'' subject ''pending''
                 (action_type @ '' waiting for technician approval'') (redact_value E pj) c s2
      in (run, add_audit_row now ''smart_action.invoked'' subject (action_id @ '' pending approval'') c None s3))"

definition create_pending_smart_action ::
  "env \<Rightarrow> time \<Rightarrow> string \<Rightarrow> string \<Rightarrow> string \<Rightarrow> pydict \<Rightarrow> pyval list \<Rightarrow> pydict \<Rightarrow> string option \<Rightarrow> int \<Rightarrow> store \<Rightarrow>
   ((smart_run_row \<times> approval_row) \<times> store) res" where
  "create_pending_smart_action E now action_id actor digest output evidence approval_payload client_id expires_in s =
     rbind (approval_expiry_at now expires_in) (\<lambda>expires.
     rbind (check_ticket (ticket_id_from_payload approval_payload) s) (\<lambda>_.
     let (run, s1) = insert_pending E now action_id actor digest output evidence approval_payload (normalize_client_id client_id) expires s in
     case get_approval_request E now (approvals_seq s1) s1 of
       (None, t) \<Rightarrow> Inl (RuntimeError ''pending smart action was not persisted'')
     | (Some approval, t) \<Rightarrow> Inr ((run, approval), t)))"

definition find_smart_run :: "store \<Rightarrow> int \<Rightarrow> smart_run_row option" where
  "find_smart_run s i = find (\<lambda>r. sr_id r = i) (smart_runs s)"

definition complete_smart_action_run ::
  "env \<Rightarrow> time \<Rightarrow> int \<Rightarrow> string \<Rightarrow> pydict \<Rightarrow> pyval list \<Rightarrow> int option \<Rightarrow> string option \<Rightarrow> string \<Rightarrow> bool \<Rightarrow> store \<Rightarrow> (smart_run_row \<times> store) res" where
  "complete_smart_action_run E now run_id status output evidence approval_id approver_id error_detail capability s =
     (case find_smart_run s run_id of
        None \<Rightarrow> Inl (KeyError (show_int run_id))
      | Some current \<Rightarrow>
          rbind (raise_if (\<not> capability) (PermissionError ''smart-action runs must be completed through SmartActionService'')) (\<lambda>_.
          rbind (raise_if (sr_status current \<noteq> ''pending_approval'') (PermissionError ''smart action run has already completed'')) (\<lambda>_.
          rbind (raise_if (status \<notin> {''success'', ''provider_not_configured'', ''failed'', ''rejected''})
            (ValueError ''invalid smart action run completion status'')) (\<lambda>_.
          rbind (raise_if (approval_id = None \<or> sr_approval current \<noteq> approval_id \<or> approver_id = None \<or> approver_id = Some [])
            (PermissionError ''smart action completion requires its linked approval and approver'')) (\<lambda>_.
          case find_approval s (the approval_id) of
            None \<Rightarrow> Inl (PermissionError ''smart action completion requires a linked smart-action approval'')
          | Some approval \<Rightarrow>
          rbind (raise_if (\<not> starts_with (ap_action approval) ''smart_action:'')
            (PermissionError ''smart action completion requires a linked smart-action approval'')) (\<lambda>_.
          rbind (raise_if (ap_status approval \<notin> {''approved'', ''rejected''})
            (PermissionError ''smart action completion requires a completed approval'')) (\<lambda>_.
          rbind (raise_if (ap_approver approval \<noteq> approver_id) (PermissionError ''smart action completion requires the approval approver'')) (\<lambda>_.
          let f = (\<lambda>r. r\<lparr>sr_status := status, sr_output := json_dumps E output, sr_evidence := redact_value E (PList evidence),
                         sr_error := redact E error_detail, sr_updated := now\<rparr>)
          in Inr (f current, s\<lparr>smart_runs := update_where (\<lambda>r. sr_id r = run_id) f (smart_runs s)\<rparr>)))))))))"

text \<open>The run of an approval: the last one that names it.\<close>

definition run_of_approval :: "store \<Rightarrow> int \<Rightarrow> smart_run_row option" where
  "run_of_approval s approval_id = find (\<lambda>r. sr_approval r = Some approval_id) (rev (sort_key sr_id (smart_runs s)))"

section \<open>Recording\<close>

definition record_execution :: "service \<Rightarrow> execution \<Rightarrow> store \<Rightarrow> store" where
  "record_execution V x s =
     s\<lparr>executions := sm_recorder V (x\<lparr>ex_correlation := (case ex_correlation x of
          Some c \<Rightarrow> if sm_valid_correlation V c then Some c else None | None \<Rightarrow> None)\<rparr>) (executions s)\<rparr>"

definition record_action ::
  "service \<Rightarrow> string \<Rightarrow> int \<Rightarrow> pydict \<Rightarrow> action_result \<Rightarrow> string \<Rightarrow> string option \<Rightarrow> string \<Rightarrow> string \<Rightarrow> string option \<Rightarrow> store \<Rightarrow> store" where
  "record_action V action_id run_id payload result actor client_id trigger step_kind correlation s =
     record_execution V \<lparr>ex_kind = ''smart_action'', ex_source = run_id, ex_actor = actor, ex_status = rs_status result, ex_trigger = trigger,
       ex_client = client_id, ex_correlation = correlation, ex_metadata = sm_metadata V,
       ex_steps = [\<lparr>sp_kind = step_kind, sp_name = action_id, sp_status = rs_status result, sp_input = PDict payload,
                     sp_output = PDict (rs_output result), sp_error = rs_error result\<rparr>],
       ex_evidence = (if rs_evidence result = [] then PNone else redact_value (sm_env V) (PList (rs_evidence result)))\<rparr> s"

definition safe_run :: "env \<Rightarrow> action \<Rightarrow> action_context \<Rightarrow> pydict \<Rightarrow> store \<Rightarrow> action_result \<times> store" where
  "safe_run E a ctx payload s =
     (case ac_run a ctx payload s of (Inr r, t) \<Rightarrow> (r, t) | (Inl e, t) \<Rightarrow> (failed (''action failed: '' @ show_err E e), t))"

section \<open>Invocation\<close>

definition persist_result ::
  "service \<Rightarrow> time \<Rightarrow> string \<Rightarrow> string \<Rightarrow> string \<Rightarrow> action_result \<Rightarrow> bool \<Rightarrow> string option \<Rightarrow> pydict \<Rightarrow> string option \<Rightarrow> store \<Rightarrow> action_result \<times> store" where
  "persist_result V now action_id actor digest result confirm client_id payload correlation s =
     (let E = sm_env V; safe_result = redact_result E result;
          (run, s1) = create_smart_action_run E now action_id actor (rs_status result) digest (rs_output safe_result) (rs_evidence safe_result)
                        None client_id (rs_error safe_result) s;
          subject = show_int (sr_id run);
          s2 = add_audit_event E now ''smart_action.invoked'' subject
                 (action_id @ '' status='' @ rs_status result @ '' confirmed='' @ (if confirm then ''True'' else ''False'')) client_id None s1;
          s3 = add_audit_event E now ''smart_action.completed'' subject (action_id @ '' '' @ rs_status result) client_id None s2;
          s4 = record_action V action_id (sr_id run) payload safe_result actor client_id ''invoke'' ''smart_action.invoke'' correlation s3
      in (result_with_run safe_result (sr_id run), s4))"

text \<open>The answer to a call without an actor.\<close>

definition refuse_actor ::
  "service \<Rightarrow> time \<Rightarrow> string \<Rightarrow> string \<Rightarrow> string option \<Rightarrow> pydict \<Rightarrow> string option \<Rightarrow> store \<Rightarrow> action_result \<times> store" where
  "refuse_actor V now action_id digest client_id payload correlation s =
     (let E = sm_env V; result = (failed ''actor is required'')\<lparr>rs_status := ''not_authorized''\<rparr>;
          (run, s1) = create_smart_action_run E now action_id [] (rs_status result) digest [] [] None client_id (rs_error result) s;
          subject = show_int (sr_id run);
          s2 = add_audit_event E now ''smart_action.invoked'' subject (action_id @ '' unauthorized'') client_id None s1;
          s3 = add_audit_event E now ''smart_action.completed'' subject (action_id @ '' not_authorized'') client_id None s2;
          s4 = record_action V action_id (sr_id run) payload result [] client_id ''invoke'' ''smart_action.invoke'' correlation s3
      in (result_with_run result (sr_id run), s4))"

text \<open>The branch for an action that needs approval: draft, then a pending run and its request.\<close>

definition request_approval ::
  "service \<Rightarrow> time \<Rightarrow> action \<Rightarrow> string \<Rightarrow> string \<Rightarrow> bool \<Rightarrow> string option \<Rightarrow> int \<Rightarrow> pydict \<Rightarrow> string option \<Rightarrow> store \<Rightarrow> action_result res \<times> store" where
  "request_approval V now action actor digest confirm client_id expiry payload correlation s =
     (let E = sm_env V; action_id = mf_id (ac_manifest action);
          (draft, s1) = safe_run E action \<lparr>cx_actor = actor, cx_client = client_id\<rparr> payload s in
      if rs_status draft \<noteq> ''success''
      then let (r, t) = persist_result V now action_id actor digest draft confirm client_id payload correlation s1 in (Inr r, t)
      else
        let pending_output = as_dict (redact_value E (PDict (dset (rs_output draft) ''approval_required'' (PBool True)))) in
        sbind (tx (create_pending_smart_action E now action_id actor digest pending_output (rs_evidence draft)
                     [(''action_id'', PStr action_id), (''payload'', PDict payload)] client_id expiry s1) s1) (\<lambda>(run, approval) t.
        let r = \<lparr>rs_status = ''pending_approval'', rs_output = pending_output, rs_evidence = rs_evidence draft, rs_error = [],
                 rs_run = None, rs_approval = Some (ap_id approval)\<rparr>
        in (Inr (result_with_run r (sr_id run)),
            record_action V action_id (sr_id run) payload r actor client_id ''invoke'' ''smart_action.invoke'' correlation t)))"

definition invoke ::
  "service \<Rightarrow> time \<Rightarrow> string \<Rightarrow> pydict \<Rightarrow> string option \<Rightarrow> bool \<Rightarrow> string option \<Rightarrow> int option \<Rightarrow> bool \<Rightarrow> string option \<Rightarrow> store \<Rightarrow>
   action_result res \<times> store" where
  "invoke V now action_id payload actor confirm client_id approval_expiry require_approval correlation s =
     (if dget payload ''_approval_completed'' \<noteq> None
      then (Inl (ValueError ''reserved payload field '_approval_completed' is not permitted''), s)
      else case registry_get (sm_registry V) action_id of
        Inl e \<Rightarrow> (Inl e, s)
      | Inr action \<Rightarrow>
      let E = sm_env V; m = ac_manifest action in
      if (case approval_expiry of None \<Rightarrow> False | Some n \<Rightarrow> n < 1 \<or> n > MAX_APPROVAL_EXPIRY_SECONDS)
      then (Inl (ValueError ''approval expiry must be between 1 and 2592000 seconds''), s)
      else
        let expiry = (case approval_expiry of None \<Rightarrow> mf_expiry m | Some n \<Rightarrow> min n (mf_expiry m));
            digest = payload_digest E payload in
        case check_ticket (str_field payload ''ticket_id'') s of
          Inl e \<Rightarrow> (Inl e, s)
        | Inr _ \<Rightarrow>
        let client = effective_client_id s payload client_id; who = (case actor of None \<Rightarrow> [] | Some a \<Rightarrow> a) in
        if strip who = []
        then let (r, t) = refuse_actor V now (mf_id m) digest client payload correlation s in (Inr r, t)
        else if mf_requires_approval m \<or> require_approval
        then request_approval V now action who digest confirm client expiry payload correlation s
        else
          let (result, s1) = safe_run E action \<lparr>cx_actor = who, cx_client = client\<rparr> payload s;
              (r, t) = persist_result V now (mf_id m) who digest result confirm client payload correlation s1
          in (Inr r, t))"

section \<open>Completion of approvals\<close>

definition approver_checks :: "string option \<Rightarrow> role option \<Rightarrow> smart_run_row \<Rightarrow> unit res" where
  "approver_checks approver approver_role run =
     rbind (raise_if (case approver of None \<Rightarrow> True | Some a \<Rightarrow> strip a = []) (PermissionError ''approver is required'')) (\<lambda>_.
     rbind (raise_if (case approver_role of None \<Rightarrow> True | Some r \<Rightarrow> r < TECHNICIAN)
       (PermissionError ''approver must have technician or admin authority'')) (\<lambda>_.
     raise_if (approver = Some (sr_actor run)) (PermissionError ''requesting actor cannot approve its own smart action'')))"

definition complete_expired :: "service \<Rightarrow> approval_row \<Rightarrow> smart_run_row \<Rightarrow> string \<Rightarrow> store \<Rightarrow> action_result option res \<times> store" where
  "complete_expired V approval run action_id s =
     (let r = stored_result run ''rejected'' ''approval expired'' (ap_id approval)
      in (Inr (Some r), record_action V action_id (sr_id run)
            [(''approval_id'', PInt (ap_id approval)), (''approval_status'', PStr (ap_status approval))] r (sr_actor run) (ap_client approval)
            ''approval_expiry'' ''smart_action.approval_expired'' None s))"

definition complete_rejected ::
  "service \<Rightarrow> time \<Rightarrow> approval_row \<Rightarrow> smart_run_row \<Rightarrow> string \<Rightarrow> string option \<Rightarrow> store \<Rightarrow> action_result option res \<times> store" where
  "complete_rejected V now approval run action_id approver s =
     (let E = sm_env V; i = ap_id approval in
      sbind (tx (complete_smart_action_run E now (sr_id run) ''rejected'' (as_dict (sr_output run)) (json_objects (sr_evidence run))
                   (Some i) approver [] True s) s) (\<lambda>_ s1.
      let s2 = add_audit_event E now ''smart_action.completed'' (show_int (sr_id run)) (action_id @ '' rejected'') (ap_client approval) approver s1;
          r = stored_result run ''rejected'' [] i
      in (Inr (Some r), record_action V action_id (sr_id run)
            [(''approval_id'', PInt i), (''approval_status'', PStr (ap_status approval))] r (sr_actor run) (ap_client approval)
            ''approval_completion'' ''smart_action.approval_completed'' None s2)))"

text \<open>The stored payload of the request, marked as approved.\<close>

definition approved_payload :: "approval_row \<Rightarrow> pydict option" where
  "approved_payload approval =
     (case dget (as_dict (ap_payload approval)) ''payload'' of
        Some (PDict p) \<Rightarrow> Some (dset p ''_approval_completed'' (PBool True)) | _ \<Rightarrow> None)"

definition run_approved :: "service \<Rightarrow> approval_row \<Rightarrow> smart_run_row \<Rightarrow> string \<Rightarrow> action option \<Rightarrow> store \<Rightarrow> action_result \<times> store" where
  "run_approved V approval run action_id action s =
     (case approved_payload approval of
        None \<Rightarrow> (failed ''smart action approval payload is malformed'', s)
      | Some payload \<Rightarrow>
          (case action of
             None \<Rightarrow> (failed (''smart action '' @ action_id @ '' is not registered''), s)
           | Some a \<Rightarrow> safe_run (sm_env V) a \<lparr>cx_actor = sr_actor run, cx_client = ap_client approval\<rparr> payload s))"

definition complete_approved ::
  "service \<Rightarrow> time \<Rightarrow> approval_row \<Rightarrow> smart_run_row \<Rightarrow> string \<Rightarrow> string option \<Rightarrow> action option \<Rightarrow> store \<Rightarrow> action_result option res \<times> store" where
  "complete_approved V now approval run action_id approver action s =
     (let E = sm_env V; i = ap_id approval;
          (result, s1) = run_approved V approval run action_id action s;
          marked = (if rs_status result = ''success''
                    then \<lparr>rs_status = rs_status result, rs_output = dset (rs_output result) ''approved'' (PBool True),
                          rs_evidence = rs_evidence result, rs_error = rs_error result, rs_run = None, rs_approval = None\<rparr> else result);
          r = redact_result E marked in
      sbind (tx (complete_smart_action_run E now (sr_id run) (rs_status r) (rs_output r) (rs_evidence r) (Some i) approver (rs_error r) True s1) s1)
      (\<lambda>_ s2.
      let s3 = add_audit_event E now ''smart_action.completed'' (show_int (sr_id run)) (action_id @ '' '' @ rs_status r) (ap_client approval) approver s2;
          final = r\<lparr>rs_run := None, rs_approval := Some i\<rparr>
      in (Inr (Some (result_with_run final (sr_id run))),
          record_action V action_id (sr_id run) [(''approval_id'', PInt i), (''approval_status'', PStr (ap_status approval))] final
            (sr_actor run) (ap_client approval) ''approval_completion'' ''smart_action.approval_completed'' None s3)))"

definition complete_approval ::
  "service \<Rightarrow> time \<Rightarrow> int \<Rightarrow> string option \<Rightarrow> role option \<Rightarrow> store \<Rightarrow> action_result option res \<times> store" where
  "complete_approval V now approval_id approver approver_role s =
     (case get_approval_request (sm_env V) now approval_id s of
        (None, s1) \<Rightarrow> (Inr None, s1)
      | (Some approval, s1) \<Rightarrow>
        if \<not> starts_with (ap_action approval) ''smart_action:'' then (Inr None, s1)
        else case run_of_approval s1 approval_id of
          None \<Rightarrow> (Inl (KeyError (''smart action run for approval '' @ show_int approval_id @ '' not found'')), s1)
        | Some run \<Rightarrow>
        if check_ticket (ticket_id_from_payload (as_dict (ap_payload approval))) s1 \<noteq> Inr () then (Inr None, s1)
        else case approver_checks approver approver_role run of
          Inl e \<Rightarrow> (Inl e, s1)
        | Inr _ \<Rightarrow>
        let action_id = drop 13 (ap_action approval) in
        if ap_status approval = ''expired'' then complete_expired V approval run action_id s1
        else if ap_status approval = ''rejected'' then complete_rejected V now approval run action_id approver s1
        else if ap_status approval \<noteq> ''approved'' then (Inr (Some (stored_result run ''pending_approval'' [] approval_id)), s1)
        else if sr_status run \<noteq> ''pending_approval''
        then (Inr (Some (stored_result run (stored_action_status (sr_status run)) [] approval_id)), s1)
        else
          let action = (case registry_get (sm_registry V) action_id of Inl _ \<Rightarrow> None | Inr a \<Rightarrow> Some a) in
          case (case action of None \<Rightarrow> Inr () | Some a \<Rightarrow> require_action_role (ac_manifest a) approver_role) of
            Inl e \<Rightarrow> (Inl e, s1)
          | Inr _ \<Rightarrow> complete_approved V now approval run action_id approver action s1)"

definition update_approval ::
  "service \<Rightarrow> time \<Rightarrow> int \<Rightarrow> string \<Rightarrow> string \<Rightarrow> string option \<Rightarrow> role option \<Rightarrow> store \<Rightarrow> approval_row res \<times> store" where
  "update_approval V now approval_id status comment approver approver_role s =
     (let E = sm_env V in
      case get_approval_request E now approval_id s of
        (None, s1) \<Rightarrow> (Inl (KeyError (show_int approval_id)), s1)
      | (Some approval, s1) \<Rightarrow>
        case check_ticket (ticket_id_from_payload (as_dict (ap_payload approval))) s1 of
          Inl e \<Rightarrow> (Inl e, s1)
        | Inr _ \<Rightarrow>
        if \<not> starts_with (ap_action approval) ''smart_action:''
        then tx (update_approval_request E now approval_id status comment approver False False s1) s1
        else case rbind (raise_if (case approver of None \<Rightarrow> True | Some a \<Rightarrow> strip a = []) (PermissionError ''approver is required'')) (\<lambda>_.
                  rbind (raise_if (case approver_role of None \<Rightarrow> True | Some r \<Rightarrow> r < TECHNICIAN)
                    (PermissionError ''approver must have technician or admin authority'')) (\<lambda>_.
                  if status = ''approved''
                  then case registry_get (sm_registry V) (drop 13 (ap_action approval)) of
                         Inl _ \<Rightarrow> Inr () | Inr a \<Rightarrow> require_action_role (ac_manifest a) approver_role
                  else Inr ())) of
          Inl e \<Rightarrow> (Inl e, s1)
        | Inr _ \<Rightarrow>
        sbind (tx (update_approval_request E now approval_id status comment approver False True s1) s1) (\<lambda>updated s2.
        sbind (complete_approval V now approval_id approver approver_role s2) (\<lambda>_ s3.
        case get_approval_request E now approval_id s3 of
          (Some r, s4) \<Rightarrow> (Inr r, s4)
        | (None, s4) \<Rightarrow> (Inr updated, s4))))"

end
