(* ===== verification/Agents.thy ===== *)
theory Agents
  imports Smart_Actions Supervisor Event_Dispatch
begin

text \<open>
  Agent definitions (\<open>agents.py\<close>, class \<open>AgentService\<close>, with the store methods behind it): the checks a definition must
  pass, its execution window, its creation and update with a revision for each version, and the definition a stored run was
  started with. A definition row holds what the code reads back from it. Execution timeouts are whole seconds, and the
  time zone database is the field \<open>al_zone\<close> of the record \<open>agent_lib\<close>: the minutes of the day in a known zone.
\<close>

definition MAX_AGENT_STEPS :: nat where "MAX_AGENT_STEPS = 8"
definition MAX_AGENT_TIMEOUT_SECONDS :: int where "MAX_AGENT_TIMEOUT_SECONDS = 120"
definition MAX_AGENT_RETRIES :: int where "MAX_AGENT_RETRIES = 3"
definition MAX_STEP_RETRIES :: int where "MAX_STEP_RETRIES = 3"
definition MAX_CONTEXT_SOURCES :: nat where "MAX_CONTEXT_SOURCES = 3"
definition MAX_APPROVAL_RULES :: nat where "MAX_APPROVAL_RULES = MAX_AGENT_STEPS"
definition MAX_APPROVAL_RULE_VALUES :: nat where "MAX_APPROVAL_RULE_VALUES = MAX_AGENT_STEPS"

definition FAILURE_POLICY_MODES :: "string list" where
  "FAILURE_POLICY_MODES = [''stop'', ''retry'', ''fallback'', ''human_input'', ''technician_escalation'', ''blocked'']"

definition SUPPORTED_AGENT_TRIGGERS :: "string list" where
  "SUPPORTED_AGENT_TRIGGERS = [''manual'', ''scheduled'', ''event'']"

definition SUPPORTED_ENTITY_TYPE :: string where "SUPPORTED_ENTITY_TYPE = ''ticket''"

definition EVENT_FILTER_FIELDS :: "string list" where
  "EVENT_FILTER_FIELDS = [''event_type'', ''client_id'', ''priority'', ''status'', ''ticket_id'', ''workflow_template_id'', ''workflow_run_id'']"

definition SUPPORTED_CONTEXT_SOURCES :: "string list" where
  "SUPPORTED_CONTEXT_SOURCES = [''ticket'', ''client'', ''knowledge'']"

definition APPROVAL_RULE_FIELDS :: "string list" where
  "APPROVAL_RULE_FIELDS = [''priority'', ''status'', ''actor_role'']"

fun role_label :: "role \<Rightarrow> string" where
  "role_label END_USER = ''end_user''"
| "role_label VIEWER = ''viewer''"
| "role_label TECHNICIAN = ''technician''"
| "role_label ADMIN = ''admin''"

definition APPROVAL_RULE_ROLE_VALUES :: "string list" where
  "APPROVAL_RULE_ROLE_VALUES = map role_label [END_USER, VIEWER, TECHNICIAN, ADMIN]"

record agent_source =
  sc_title :: string
  sc_path :: string
  sc_excerpt :: string
  sc_authority :: string
  sc_document :: pyval
  sc_chunk :: pyval

text \<open>
  What the service calls outside this component: the smart actions, the time zones, the clock of a run (the microseconds
  elapsed at its n-th reading), the JSON reader, the retrieval of knowledge (\<open>retrieval.py\<close>), and the provider's \<open>select_next_tool\<close>, absent when no
  provider is configured or it has no such method.
\<close>

record agent_lib =
  al_service :: service
  al_zone :: "string \<Rightarrow> (time \<Rightarrow> int) res"
  al_elapsed :: "nat \<Rightarrow> int"
  al_loads :: "string \<Rightarrow> pyval option"
  al_retrieve :: "ticket_row \<Rightarrow> store \<Rightarrow> agent_source list res"
  al_select :: "(string \<Rightarrow> ticket_row \<Rightarrow> agent_source list \<Rightarrow> pydict list \<Rightarrow> pydict \<Rightarrow> string list \<Rightarrow> pyval res) option"

abbreviation agent_error :: "string \<Rightarrow> err + 'a" where
  "agent_error m \<equiv> Inl (AgentDefinitionError m)"

abbreviation refuse_if :: "bool \<Rightarrow> string \<Rightarrow> err + unit" where
  "refuse_if c m \<equiv> raise_if c (AgentDefinitionError m)"

text \<open>A loop that checks each element.\<close>

fun check_all :: "('a \<Rightarrow> 'e + unit) \<Rightarrow> 'a list \<Rightarrow> 'e + unit" where
  "check_all f [] = Inr ()"
| "check_all f (x # xs) = rbind (f x) (\<lambda>_. check_all f xs)"

definition comma_sorted :: "string list \<Rightarrow> string" where
  "comma_sorted xs = join '', '' (sort (remdups xs))"

section \<open>Checks of a definition\<close>

definition validate_event_filters :: "pydict \<Rightarrow> unit res" where
  "validate_event_filters filters =
     (let unknown = filter (\<lambda>k. k \<notin> set EVENT_FILTER_FIELDS) (dkeys filters) in
      rbind (refuse_if (unknown \<noteq> []) (''unsupported event filter fields: '' @ comma_sorted unknown)) (\<lambda>_.
      rbind (refuse_if (case dget filters ''event_type'' of Some (PStr t) \<Rightarrow> t \<notin> set SUPPORTED_EVENT_TYPES | _ \<Rightarrow> True)
        ''event filters require a supported event_type'') (\<lambda>_.
      check_all (\<lambda>(k, v). refuse_if (k \<noteq> ''event_type'' \<and> string_or_none v = None)
        (''event filter '' @ k @ '' must be a non-empty string'')) filters)))"

definition validate_context_sources :: "string list \<Rightarrow> unit res" where
  "validate_context_sources sources =
     rbind (refuse_if (length sources > MAX_CONTEXT_SOURCES) ''context_sources must contain 0-3 sources'') (\<lambda>_.
     rbind (refuse_if (list_ex (\<lambda>x. strip x = []) sources) ''context_sources must contain non-empty strings'') (\<lambda>_.
     rbind (refuse_if (\<not> distinct sources) ''context_sources must not contain duplicates'') (\<lambda>_.
     let unknown = filter (\<lambda>x. x \<notin> set SUPPORTED_CONTEXT_SOURCES) sources in
     refuse_if (unknown \<noteq> []) (''unsupported context sources: '' @ comma_sorted unknown))))"

text \<open>One value, one condition and one rule of an approval policy.\<close>

definition rule_value :: "string \<Rightarrow> pyval \<Rightarrow> string res" where
  "rule_value field v =
     (case string_or_none v of
        None \<Rightarrow> agent_error (''approval rule '' @ field @ '' values must be non-empty strings of at most 40 characters'')
      | Some s \<Rightarrow>
          rbind (refuse_if (length (strip s) > 40)
            (''approval rule '' @ field @ '' values must be non-empty strings of at most 40 characters'')) (\<lambda>_.
          let value = casefold (strip s) in
          rbind (refuse_if (field = ''actor_role'' \<and> value \<notin> set APPROVAL_RULE_ROLE_VALUES)
            (''approval rule actor_role values must be one of: '' @ comma_sorted APPROVAL_RULE_ROLE_VALUES)) (\<lambda>_. Inr value)))"

fun add_new :: "'a list \<Rightarrow> 'a list \<Rightarrow> 'a list" where
  "add_new seen [] = seen"
| "add_new seen (x # xs) = add_new (if x \<in> set seen then seen else seen @ [x]) xs"

definition rule_condition :: "string \<Rightarrow> pyval \<Rightarrow> string list res" where
  "rule_condition field raw =
     (case raw of
        PList (x # xs) \<Rightarrow>
          rbind (refuse_if (length (x # xs) > MAX_APPROVAL_RULE_VALUES) (''approval rule '' @ field @ '' must contain 1-8 values'')) (\<lambda>_.
          rbind (rmap (rule_value field) (x # xs)) (\<lambda>values. Inr (add_new [] values)))
      | _ \<Rightarrow> agent_error (''approval rule '' @ field @ '' must contain 1-8 values''))"

type_synonym approval_rule = "string \<times> (string \<times> string list) list"

definition normalize_rule :: "string list option \<Rightarrow> string list \<Rightarrow> pyval \<Rightarrow> approval_rule res" where
  "normalize_rule enabled seen rule =
     rbind (refuse_if (\<not> is_dict rule \<or> list_ex (\<lambda>k. k \<notin> {''tool_id'', ''when''}) (dkeys (as_dict rule)))
       ''approval rules may only contain tool_id and when'') (\<lambda>_.
     case string_or_none (dget_or (as_dict rule) ''tool_id'' PNone) of
       None \<Rightarrow> agent_error ''approval rule tool_id must be a non-empty string''
     | Some raw \<Rightarrow>
     let tool_id = strip raw in
     rbind (refuse_if (case enabled of None \<Rightarrow> False | Some ts \<Rightarrow> tool_id \<notin> set ts) (''approval rule tool must be enabled: '' @ tool_id)) (\<lambda>_.
     rbind (refuse_if (tool_id \<in> set seen) (''approval rules must not duplicate tool: '' @ tool_id)) (\<lambda>_.
     case dget_or (as_dict rule) ''when'' PNone of
       PDict (c # cs) \<Rightarrow>
         let conditions = c # cs; unknown = filter (\<lambda>k. k \<notin> set APPROVAL_RULE_FIELDS) (dkeys conditions) in
         rbind (refuse_if (unknown \<noteq> []) (''unsupported approval rule fields: '' @ comma_sorted unknown)) (\<lambda>_.
         rbind (rmap (\<lambda>(f, v). rbind (rule_condition f v) (\<lambda>vs. Inr (f, vs))) conditions) (\<lambda>normalized.
         Inr (tool_id, normalized)))
     | _ \<Rightarrow> agent_error ''approval rule when must contain at least one condition'')))"

fun normalize_rules :: "string list option \<Rightarrow> string list \<Rightarrow> pyval list \<Rightarrow> approval_rule list res" where
  "normalize_rules enabled seen [] = Inr []"
| "normalize_rules enabled seen (r # rs) =
     rbind (normalize_rule enabled seen r) (\<lambda>x.
     rbind (normalize_rules enabled (fst x # seen) rs) (\<lambda>xs. Inr (x # xs)))"

definition normalize_approval_rules :: "string list option \<Rightarrow> pyval list \<Rightarrow> approval_rule list res" where
  "normalize_approval_rules enabled rules =
     rbind (refuse_if (length rules > MAX_APPROVAL_RULES) ''approval_rules must contain 0-8 rules'') (\<lambda>_.
     normalize_rules enabled [] rules)"

definition conditions_value :: "(string \<times> string list) list \<Rightarrow> pyval" where
  "conditions_value cs = PDict (map (\<lambda>(f, vs). (f, PList (map PStr vs))) cs)"

definition rule_document :: "approval_rule \<Rightarrow> pyval" where
  "rule_document r = PDict [(''tool_id'', PStr (fst r)), (''when'', conditions_value (snd r))]"

section \<open>Failure policies\<close>

definition validate_failure_policy :: "string list \<Rightarrow> string list \<Rightarrow> pydict \<Rightarrow> (string \<times> string) option res" where
  "validate_failure_policy configured enabled step =
     (case dget_or step ''failure_policy'' PNone of
        PNone \<Rightarrow> Inr None
      | PDict policy \<Rightarrow>
          rbind (refuse_if (list_ex (\<lambda>k. k \<notin> {''mode'', ''max_retries'', ''fallback_tool_id''}) (dkeys policy))
            ''failure_policy may only contain mode, max_retries, and fallback_tool_id'') (\<lambda>_.
          (case (dget_or step ''tool_id'' PNone, dget_or policy ''mode'' (PStr ''stop'')) of
             (PStr tool_id, PStr mode) \<Rightarrow>
               rbind (refuse_if (mode \<notin> set FAILURE_POLICY_MODES)
                 ''failure_policy mode must be one of stop, retry, fallback, human_input, technician_escalation, or blocked'') (\<lambda>_.
               (case dget_or policy ''max_retries'' (PInt 0) of
                  PInt max_retries \<Rightarrow>
                    rbind (refuse_if (max_retries < 0 \<or> max_retries > MAX_STEP_RETRIES) ''failure_policy max_retries must be between 0 and 3'') (\<lambda>_.
                    let fallback = dget_or policy ''fallback_tool_id'' PNone in
                    rbind (refuse_if (fallback \<noteq> PNone \<and> string_or_none fallback = None)
                      ''failure_policy fallback_tool_id must be a non-empty string'') (\<lambda>_.
                    rbind (refuse_if (mode = ''retry'' \<and> max_retries < 1) ''retry failure_policy requires max_retries between 1 and 3'') (\<lambda>_.
                    rbind (refuse_if (mode \<noteq> ''retry'' \<and> max_retries \<noteq> 0) ''failure_policy max_retries is only valid for retry mode'') (\<lambda>_.
                    if mode = ''fallback''
                    then (case fallback of
                            PStr f \<Rightarrow>
                              rbind (refuse_if (f = tool_id) ''failure_policy fallback_tool_id must differ from tool_id'') (\<lambda>_.
                              rbind (refuse_if (f \<notin> set enabled \<or> f \<notin> set configured)
                                ''failure_policy fallback_tool_id must be another configured enabled tool'') (\<lambda>_.
                              Inr (Some (tool_id, f))))
                          | _ \<Rightarrow> agent_error ''fallback failure_policy requires fallback_tool_id'')
                    else rbind (refuse_if (fallback \<noteq> PNone) ''fallback_tool_id is only valid for fallback mode'') (\<lambda>_. Inr None)))))
                | _ \<Rightarrow> agent_error ''failure_policy max_retries must be between 0 and 3''))
           | _ \<Rightarrow> agent_error ''failure_policy mode must be one of stop, retry, fallback, human_input, technician_escalation, or blocked''))
      | _ \<Rightarrow> agent_error ''failure_policy must be an object'')"

text \<open>The recursive \<open>visit\<close>: follow the fallbacks until one has none or repeats.\<close>

function fallback_cycle :: "(string \<times> string) list \<Rightarrow> string list \<Rightarrow> string \<Rightarrow> bool" where
  "fallback_cycle graph path x =
     (case dget graph x of
        None \<Rightarrow> False
      | Some y \<Rightarrow> if x \<in> set path then True else fallback_cycle graph (x # path) y)"
  by pat_completeness auto
termination
proof (relation "measure (\<lambda>(graph, path, x). card (set (dkeys graph) - set path))", goal_cases)
  case (2 graph path x y)
  then have "x \<in> set (dkeys graph)" using dget_None_iff [of graph x] by auto
  with 2 have "set (dkeys graph) - set (x # path) \<subset> set (dkeys graph) - set path" by auto
  then show ?case by (simp add: psubset_card_mono)
qed simp

declare fallback_cycle.simps [simp del]

definition fallback_graph :: "(string \<times> string) option list \<Rightarrow> (string \<times> string) list" where
  "fallback_graph es = foldl (\<lambda>g e. case e of None \<Rightarrow> g | Some (a, b) \<Rightarrow> dset g a b) [] es"

definition string_values :: "pyval list \<Rightarrow> string list" where
  "string_values vs = concat (map (\<lambda>v. case v of PStr x \<Rightarrow> [x] | _ \<Rightarrow> []) vs)"

definition step_tools :: "pydict list \<Rightarrow> string list" where
  "step_tools steps = string_values (map (\<lambda>st. dget_or st ''tool_id'' PNone) steps)"

definition validate_failure_policies :: "pydict list \<Rightarrow> string list \<Rightarrow> unit res" where
  "validate_failure_policies steps enabled =
     rbind (rmap (validate_failure_policy (step_tools steps) enabled) steps) (\<lambda>es.
     let graph = fallback_graph es in
     refuse_if (list_ex (fallback_cycle graph []) (dkeys graph)) ''failure_policy fallback cycle detected'')"

section \<open>Execution windows\<close>

text \<open>\<open>strptime(value, "%H:%M")\<close>: one or two digits on each side of the colon, within range.\<close>

definition clock_field :: "nat \<Rightarrow> string \<Rightarrow> nat option" where
  "clock_field limit s = (if s \<noteq> [] \<and> length s \<le> 2 \<and> list_all is_digit s \<and> digits_value s \<le> limit then Some (digits_value s) else None)"

definition parse_clock :: "string \<Rightarrow> (nat \<times> nat) option" where
  "parse_clock s =
     (case partition_char (CHR '':'') s of (h, found, m) \<Rightarrow>
        if \<not> found then None
        else case (clock_field 23 h, clock_field 59 m) of (Some a, Some b) \<Rightarrow> Some (a, b) | _ \<Rightarrow> None)"

definition window_minutes :: "string \<Rightarrow> int res" where
  "window_minutes value =
     (case parse_clock value of None \<Rightarrow> Inl (ValueError ''time data does not match format'') | Some (h, m) \<Rightarrow> Inr (int h * 60 + int m))"

definition normalized_window_value :: "string option \<Rightarrow> string \<Rightarrow> string res" where
  "normalized_window_value value field =
     (case value of
        None \<Rightarrow> agent_error (field @ '' must use HH:MM format'')
      | Some v \<Rightarrow>
          let t = strip v in
          rbind (refuse_if (length t \<noteq> 5 \<or> t ! 2 \<noteq> CHR '':'' \<or> parse_clock t = None) (field @ '' must use HH:MM format'')) (\<lambda>_. Inr t))"

definition normalized_execution_window ::
  "agent_lib \<Rightarrow> string option \<Rightarrow> string option \<Rightarrow> string \<Rightarrow> (string option \<times> string option \<times> string) res" where
  "normalized_execution_window L start end_time zone =
     rbind (refuse_if ((start = None) \<noteq> (end_time = None)) ''execution_window_start and execution_window_end must be provided together'') (\<lambda>_.
     rbind (refuse_if (strip zone = []) ''execution_window_timezone must be a valid IANA timezone'') (\<lambda>_.
     rbind (case al_zone L (strip zone) of
              Inl (KeyError e) \<Rightarrow> agent_error ''execution_window_timezone must be a valid IANA timezone''
            | Inl e \<Rightarrow> Inl e | Inr _ \<Rightarrow> Inr ()) (\<lambda>_.
     if start = None \<and> end_time = None then Inr (None, None, strip zone)
     else rbind (normalized_window_value start ''execution_window_start'') (\<lambda>a.
          rbind (normalized_window_value end_time ''execution_window_end'') (\<lambda>b.
          rbind (refuse_if (a = b) ''execution window start and end must differ'') (\<lambda>_.
          Inr (Some a, Some b, strip zone)))))))"

definition execution_window_open :: "agent_lib \<Rightarrow> time \<Rightarrow> agent_def \<Rightarrow> bool res" where
  "execution_window_open L now d =
     (case ad_window_start d of
        None \<Rightarrow> Inr True
      | Some start_text \<Rightarrow>
          case rbind (al_zone L (ad_window_zone d)) (\<lambda>minutes_of.
               rbind (window_minutes start_text) (\<lambda>start.
               rbind (case ad_window_end d of None \<Rightarrow> Inl (TypeError ''strptime() argument 1 must be str'') | Some e \<Rightarrow> window_minutes e) (\<lambda>end_time.
               Inr (minutes_of, start, end_time)))) of
            Inl e \<Rightarrow> agent_error ''agent execution window is invalid''
          | Inr (minutes_of, start, end_time) \<Rightarrow>
              let current = minutes_of now in
              Inr (if start < end_time then start \<le> current \<and> current < end_time else current \<ge> start \<or> current < end_time))"

section \<open>Stored definitions\<close>

definition find_agent :: "store \<Rightarrow> string \<Rightarrow> agent_def option" where
  "find_agent s i = find (\<lambda>d. ad_id d = i) (agent_defs s)"

definition get_agent_definition :: "string \<Rightarrow> string option \<Rightarrow> store \<Rightarrow> agent_def option" where
  "get_agent_definition agent_id client_id s =
     (case normalize_client_id client_id of
        None \<Rightarrow> find_agent s agent_id
      | Some c \<Rightarrow> find (\<lambda>d. ad_id d = agent_id \<and> ad_client d = Some c) (agent_defs s))"

text \<open>The columns of a definition as they are read back: JSON columns redacted, blank texts null.\<close>

definition redacted_strings :: "env \<Rightarrow> string list \<Rightarrow> string list" where
  "redacted_strings E xs = string_values (as_list (redact_value E (PList (map PStr xs))))"

definition redacted_dicts :: "env \<Rightarrow> pydict list \<Rightarrow> pydict list" where
  "redacted_dicts E ds = map as_dict (as_list (redact_value E (PList (map PDict ds))))"

definition optional_text :: "string option \<Rightarrow> string option" where
  "optional_text v = (case v of Some [] \<Rightarrow> None | _ \<Rightarrow> v)"

definition agent_row :: "env \<Rightarrow> agent_def \<Rightarrow> agent_def" where
  "agent_row E d = d\<lparr>ad_filters := as_dict (json_dumps E (ad_filters d)), ad_tools := redacted_strings E (ad_tools d),
     ad_steps := redacted_dicts E (ad_steps d), ad_client := normalize_client_id (ad_client d), ad_depends := redacted_strings E (ad_depends d),
     ad_window_start := optional_text (ad_window_start d), ad_window_end := optional_text (ad_window_end d),
     ad_window_zone := (if ad_window_zone d = [] then ''UTC'' else ad_window_zone d), ad_context := redacted_strings E (ad_context d),
     ad_approval_tools := redacted_strings E (ad_approval_tools d), ad_approval_rules := as_list (redact_value E (PList (ad_approval_rules d)))\<rparr>"

definition agent_snapshot :: "env \<Rightarrow> agent_def \<Rightarrow> pyval" where
  "agent_snapshot E d = redact_value E (PDict
     [(''name'', PStr (ad_name d)), (''description'', PStr (ad_description d)), (''enabled'', PBool (ad_enabled d)), (''trigger'', PStr (ad_trigger d)),
      (''entity_type'', PStr (ad_entity_type d)), (''filters'', PDict (ad_filters d)), (''enabled_tools'', PList (map PStr (ad_tools d))),
      (''steps'', PList (map PDict (ad_steps d))), (''max_steps'', PInt (ad_max_steps d)), (''execution_timeout_seconds'', PInt (ad_timeout d)),
      (''client_id'', opt_str (ad_client d)), (''run_once_per_entity'', PBool (ad_run_once d)),
      (''depends_on_agent_ids'', PList (map PStr (ad_depends d))), (''execution_window_start'', opt_str (ad_window_start d)),
      (''execution_window_end'', opt_str (ad_window_end d)), (''execution_window_timezone'', PStr (ad_window_zone d)),
      (''context_sources'', PList (map PStr (ad_context d))), (''approval_expiry_seconds'', opt_int (ad_expiry d)),
      (''result_aware'', PBool (ad_result_aware d)), (''approval_required_tools'', PList (map PStr (ad_approval_tools d))),
      (''approval_rules'', PList (ad_approval_rules d))])"

definition insert_agent_revision :: "env \<Rightarrow> agent_def \<Rightarrow> store \<Rightarrow> store res" where
  "insert_agent_revision E d s =
     rbind (raise_if (list_ex (\<lambda>r. rv_agent r = ad_id d \<and> rv_version r = ad_version d) (revisions s))
       (IntegrityError ''UNIQUE constraint failed: agent_definition_revisions.agent_id, agent_definition_revisions.version'')) (\<lambda>_.
     Inr (s\<lparr>revisions := revisions s @ [\<lparr>rv_agent = ad_id d, rv_version = ad_version d, rv_definition = agent_snapshot E d,
       rv_created = ad_updated d, rv_client = normalize_client_id (ad_client d)\<rparr>]\<rparr>))"

definition create_agent_definition :: "env \<Rightarrow> time \<Rightarrow> agent_def \<Rightarrow> store \<Rightarrow> (agent_def \<times> store) res" where
  "create_agent_definition E now d s =
     rbind (raise_if (find_agent s (ad_id d) \<noteq> None) (IntegrityError ''UNIQUE constraint failed: agent_definitions.id'')) (\<lambda>_.
     let s1 = s\<lparr>agent_defs := agent_defs s @ [agent_row E d]\<rparr>;
         s2 = add_audit_row now ''agent.created'' (ad_id d) (''agent '' @ ad_name d @ '' created'') (ad_client d) None s1 in
     rbind (insert_agent_revision E d s2) (\<lambda>s3.
     case get_agent_definition (ad_id d) None s3 of
       None \<Rightarrow> Inl (RuntimeError ''agent definition was not persisted'')
     | Some r \<Rightarrow> Inr (r, s3)))"

definition update_agent_definition :: "env \<Rightarrow> time \<Rightarrow> agent_def \<Rightarrow> store \<Rightarrow> (agent_def \<times> store) res" where
  "update_agent_definition E now d s =
     rbind (raise_if (row_count (\<lambda>r. ad_id r = ad_id d) (agent_defs s) \<noteq> 1) (KeyError (ad_id d))) (\<lambda>_.
     let s1 = s\<lparr>agent_defs := update_where (\<lambda>r. ad_id r = ad_id d) (\<lambda>r. (agent_row E d)\<lparr>ad_created := ad_created r\<rparr>) (agent_defs s)\<rparr>;
         s2 = add_audit_row now ''agent.updated'' (ad_id d)
                (''agent '' @ ad_name d @ '' updated to version '' @ show_int (ad_version d)) (ad_client d) None s1 in
     rbind (insert_agent_revision E d s2) (\<lambda>s3.
     case get_agent_definition (ad_id d) None s3 of
       None \<Rightarrow> Inl (RuntimeError ''agent definition was not persisted'')
     | Some r \<Rightarrow> Inr (r, s3)))"

definition get_agent_definition_revision :: "env \<Rightarrow> string \<Rightarrow> int \<Rightarrow> string option \<Rightarrow> store \<Rightarrow> revision_row option" where
  "get_agent_definition_revision E agent_id version client_id s =
     map_option (\<lambda>r. r\<lparr>rv_definition := redact_value E (rv_definition r), rv_client := normalize_client_id (rv_client r)\<rparr>)
       (find (\<lambda>r. rv_agent r = agent_id \<and> rv_version r = version \<and>
          (case normalize_client_id client_id of None \<Rightarrow> True | Some c \<Rightarrow> rv_client r = Some c)) (revisions s))"

section \<open>Dependencies\<close>

text \<open>
  The dictionary of dependencies of all definitions, with the new ones for this agent. A node outside the dictionary has
  no dependencies (\<open>graph.get(node, [])\<close>), which the entries added at the end say.
\<close>

definition dependency_graph :: "string \<Rightarrow> string list \<Rightarrow> store \<Rightarrow> (string \<times> string list) list" where
  "dependency_graph agent_id deps s =
     (let graph = dset (foldl (\<lambda>g d. dset g (ad_id d) (ad_depends d)) [] (list_agent_definitions s)) agent_id deps
      in graph @ map (\<lambda>x. (x, [])) (concat (map snd graph)))"

definition validate_dependencies :: "string \<Rightarrow> string list \<Rightarrow> string option \<Rightarrow> store \<Rightarrow> unit res" where
  "validate_dependencies agent_id deps client_id s =
     rbind (refuse_if (length deps > MAX_AGENT_STEPS) ''depends_on_agent_ids must contain 0-8 agents'') (\<lambda>_.
     rbind (refuse_if (list_ex (\<lambda>x. strip x = []) deps) ''depends_on_agent_ids must contain non-empty strings'') (\<lambda>_.
     rbind (refuse_if (\<not> distinct deps) ''depends_on_agent_ids must not contain duplicates'') (\<lambda>_.
     rbind (check_all (\<lambda>x.
              rbind (refuse_if (x = agent_id) ''an agent cannot depend on itself'') (\<lambda>_.
              case get_agent_definition x None s of
                None \<Rightarrow> agent_error (''dependency agent not found: '' @ x)
              | Some d \<Rightarrow> refuse_if (ad_client d \<noteq> None \<and> ad_client d \<noteq> normalize_client_id client_id)
                           ''dependency agent is outside the tenant scope'')) deps) (\<lambda>_.
     rbind (dfs_visit \<lparr>adjacency = dependency_graph agent_id deps s, missing = (\<lambda>x. KeyError x), edge_check = (\<lambda>_. None),
              cycle_error = AgentDefinitionError ''agent dependency cycle detected''\<rparr> [] agent_id []) (\<lambda>_. Inr ())))))"

section \<open>The whole definition\<close>

text \<open>The checks of \<open>_validate_definition\<close>, on the definition they are given as.\<close>

definition validate_step :: "string list \<Rightarrow> pydict \<Rightarrow> unit res" where
  "validate_step enabled step =
     rbind (refuse_if (list_ex (\<lambda>k. k \<notin> {''tool_id'', ''payload'', ''failure_policy''}) (dkeys step))
       ''agent steps may only contain tool_id, payload, and failure_policy'') (\<lambda>_.
     rbind (refuse_if (case dget_or step ''tool_id'' PNone of PStr t \<Rightarrow> t \<notin> set enabled | _ \<Rightarrow> True)
       ''every step tool_id must be an enabled tool'') (\<lambda>_.
     refuse_if (\<not> is_dict (dget_or step ''payload'' (PDict []))) ''agent step payload must be an object''))"

definition validate_definition :: "agent_lib \<Rightarrow> agent_def \<Rightarrow> store \<Rightarrow> unit res" where
  "validate_definition L d s =
     rbind (refuse_if (strip (ad_name d) = [] \<or> length (strip (ad_name d)) > 120) ''name must contain 1-120 characters'') (\<lambda>_.
     rbind (refuse_if (int (length (ad_description d)) > 4000) ''description is too long'') (\<lambda>_.
     rbind (refuse_if (ad_trigger d \<notin> set SUPPORTED_AGENT_TRIGGERS) ''only manual, scheduled, or event agents are supported'') (\<lambda>_.
     rbind (refuse_if (ad_entity_type d \<noteq> SUPPORTED_ENTITY_TYPE) ''only ticket agents are supported in this slice'') (\<lambda>_.
     rbind (if ad_trigger d = ''event'' then validate_event_filters (ad_filters d)
            else refuse_if (ad_filters d \<noteq> []) ''filters are reserved for event-triggered agents'') (\<lambda>_.
     rbind (validate_dependencies (ad_id d) (ad_depends d) (ad_client d) s) (\<lambda>_.
     rbind (refuse_if (ad_tools d = [] \<or> length (ad_tools d) > MAX_AGENT_STEPS) ''enabled_tools must contain 1-8 tools'') (\<lambda>_.
     rbind (refuse_if (\<not> distinct (ad_tools d)) ''enabled_tools must not contain duplicates'') (\<lambda>_.
     let available = map mf_id (list_manifests (sm_registry (al_service L)));
         unknown = filter (\<lambda>t. t \<notin> set available) (ad_tools d) in
     rbind (refuse_if (unknown \<noteq> []) (''unknown tools: '' @ comma_sorted unknown)) (\<lambda>_.
     rbind (refuse_if (length (ad_approval_tools d) > MAX_AGENT_STEPS) ''approval_required_tools must contain 0-8 tools'') (\<lambda>_.
     rbind (refuse_if (list_ex (\<lambda>t. strip t = []) (ad_approval_tools d)) ''approval_required_tools must contain non-empty strings'') (\<lambda>_.
     rbind (refuse_if (\<not> distinct (ad_approval_tools d)) ''approval_required_tools must not contain duplicates'') (\<lambda>_.
     let outside = filter (\<lambda>t. t \<notin> set (ad_tools d)) (ad_approval_tools d) in
     rbind (refuse_if (outside \<noteq> []) (''approval_required_tools must be enabled tools: '' @ comma_sorted outside)) (\<lambda>_.
     rbind (normalize_approval_rules (Some (ad_tools d)) (ad_approval_rules d)) (\<lambda>_.
     rbind (refuse_if (ad_steps d = [] \<or> length (ad_steps d) > MAX_AGENT_STEPS) ''steps must contain 1-8 steps'') (\<lambda>_.
     rbind (refuse_if (ad_max_steps d < 1 \<or> ad_max_steps d > int MAX_AGENT_STEPS \<or> int (length (ad_steps d)) > ad_max_steps d)
       ''max_steps must be between 1 and 8 and cover steps'') (\<lambda>_.
     rbind (refuse_if (ad_timeout d \<le> 0 \<or> ad_timeout d > MAX_AGENT_TIMEOUT_SECONDS) ''execution_timeout_seconds must be between 0 and 120'') (\<lambda>_.
     rbind (normalized_execution_window L (ad_window_start d) (ad_window_end d) (ad_window_zone d)) (\<lambda>_.
     rbind (validate_context_sources (ad_context d)) (\<lambda>_.
     rbind (refuse_if (case ad_expiry d of None \<Rightarrow> False | Some n \<Rightarrow> n < 1 \<or> n > MAX_APPROVAL_EXPIRY_SECONDS)
       ''approval_expiry_seconds must be between 1 and 2592000 seconds'') (\<lambda>_.
     rbind (check_all (validate_step (ad_tools d)) (ad_steps d)) (\<lambda>_.
     validate_failure_policies (ad_steps d) (ad_tools d))))))))))))))))))))))"

text \<open>
  Creation and update. The argument \<open>d\<close> carries the fields of the request; the identifier, version, dates and normalised texts
  are filled in here.
\<close>

definition normalized_definition :: "agent_lib \<Rightarrow> agent_def \<Rightarrow> agent_def res" where
  "normalized_definition L d =
     rbind (normalized_execution_window L (ad_window_start d) (ad_window_end d) (ad_window_zone d)) (\<lambda>(start, end_time, zone).
     rbind (normalize_approval_rules None (ad_approval_rules d)) (\<lambda>rules.
     let E = sm_env (al_service L) in
     Inr (d\<lparr>ad_name := strip (ad_name d), ad_description := strip (ad_description d),
            ad_filters := as_dict (redact_value E (PDict (ad_filters d))), ad_steps := redacted_dicts E (ad_steps d),
            ad_window_start := start, ad_window_end := end_time, ad_window_zone := zone, ad_approval_rules := map rule_document rules\<rparr>)))"

definition create_agent :: "agent_lib \<Rightarrow> time \<Rightarrow> string \<Rightarrow> agent_def \<Rightarrow> store \<Rightarrow> (agent_def \<times> store) res" where
  "create_agent L now agent_id request s =
     (let d = request\<lparr>ad_id := agent_id, ad_version := 1, ad_created := now, ad_updated := now\<rparr> in
      rbind (validate_definition L d s) (\<lambda>_.
      rbind (normalized_definition L d) (\<lambda>n.
      create_agent_definition (sm_env (al_service L)) now (n\<lparr>ad_client := normalize_client_id (ad_client n)\<rparr>) s)))"

definition update_agent :: "agent_lib \<Rightarrow> time \<Rightarrow> agent_def \<Rightarrow> agent_def \<Rightarrow> store \<Rightarrow> (agent_def \<times> store) res" where
  "update_agent L now existing request s =
     (let d = request\<lparr>ad_id := ad_id existing, ad_client := ad_client existing, ad_version := ad_version existing + 1,
                      ad_created := ad_created existing, ad_updated := now\<rparr> in
      rbind (validate_definition L d s) (\<lambda>_.
      rbind (normalized_definition L d) (\<lambda>n.
      update_agent_definition (sm_env (al_service L)) now n s)))"

end
