(* ===== verification/Smart_Action_Laws.thy ===== *)
theory Smart_Action_Laws
  imports Smart_Actions
begin

text \<open>
  The approval gate of the smart actions. An action sees \<open>_approval_completed\<close> only when its request has been approved, its run
  is still pending, and the caller is an authorised approver other than the actor that asked for it. The law is stated with
  a guard around every action of the registry: replacing each call that the guard forbids by an error changes nothing the
  service does, so no such call is made.
\<close>

section \<open>Guarded actions\<close>

type_synonym call_guard = "action \<Rightarrow> action_context \<Rightarrow> pydict \<Rightarrow> store \<Rightarrow> bool"

definition guard_action :: "call_guard \<Rightarrow> action \<Rightarrow> action" where
  "guard_action P a = a\<lparr>ac_run := (\<lambda>ctx payload s. if P a ctx payload s then ac_run a ctx payload s else (Inl (RuntimeError ''call not permitted''), s))\<rparr>"

definition guard_service :: "call_guard \<Rightarrow> service \<Rightarrow> service" where
  "guard_service P V = V\<lparr>sm_registry := map (map_prod id (guard_action P)) (sm_registry V)\<rparr>"

definition unmarked :: call_guard where
  "unmarked a ctx payload s \<longleftrightarrow> dget payload ''_approval_completed'' = None"

text \<open>The calls an approver may cause.\<close>

definition approved_call :: "service \<Rightarrow> string option \<Rightarrow> role option \<Rightarrow> call_guard" where
  "approved_call V approver approver_role a ctx payload s \<longleftrightarrow>
     (\<exists>r run who role. approver = Some who \<and> approver_role = Some role \<and>
        r \<in> set (approvals s) \<and> ap_status r = ''approved'' \<and> starts_with (ap_action r) ''smart_action:'' \<and>
        registry_get (sm_registry V) (drop 13 (ap_action r)) = Inr a \<and>
        approved_payload (approval_view (sm_env V) r) = Some payload \<and>
        run \<in> set (smart_runs s) \<and> sr_approval run = Some (ap_id r) \<and> sr_status run = ''pending_approval'' \<and>
        ctx = \<lparr>cx_actor = sr_actor run, cx_client = ap_client r\<rparr> \<and>
        strip who \<noteq> [] \<and> who \<noteq> sr_actor run \<and> TECHNICIAN \<le> role \<and> required_role (ac_manifest a) \<le> role)"

lemma guard_service_sel [simp]:
  "sm_env (guard_service P V) = sm_env V" "sm_recorder (guard_service P V) = sm_recorder V"
  "sm_metadata (guard_service P V) = sm_metadata V" "sm_valid_correlation (guard_service P V) = sm_valid_correlation V"
  by (simp_all add: guard_service_def)

lemma guard_action_manifest [simp]: "ac_manifest (guard_action P a) = ac_manifest a"
  by (simp add: guard_action_def)

lemma registry_get_guard [simp]: "registry_get (sm_registry (guard_service P V)) i = map_sum id (guard_action P) (registry_get (sm_registry V) i)"
proof -
  have "dget (map (map_prod id (guard_action P)) d) k = map_option (guard_action P) (dget d k)" for d k
    by (induction d) (auto simp: dget_def)
  then show ?thesis by (auto simp: registry_get_def guard_service_def split: option.split)
qed

lemma record_guard [simp]:
  "record_action (guard_service P V) = record_action V" "persist_result (guard_service P V) = persist_result V"
  "refuse_actor (guard_service P V) = refuse_actor V" "complete_expired (guard_service P V) = complete_expired V"
  "complete_rejected (guard_service P V) = complete_rejected V"
proof -
  show r: "record_action (guard_service P V) = record_action V"
    by (intro ext) (simp add: record_action_def record_execution_def cong: option.case_cong)
  show "persist_result (guard_service P V) = persist_result V" by (intro ext) (simp add: persist_result_def r Let_def)
  show "refuse_actor (guard_service P V) = refuse_actor V" by (intro ext) (simp add: refuse_actor_def r Let_def)
  show "complete_expired (guard_service P V) = complete_expired V" by (intro ext) (simp add: complete_expired_def r Let_def)
  show "complete_rejected (guard_service P V) = complete_rejected V" by (intro ext) (simp add: complete_rejected_def r Let_def)
qed

lemma safe_run_guard: "P a ctx payload s \<Longrightarrow> safe_run E (guard_action P a) ctx payload s = safe_run E a ctx payload s"
  by (simp add: safe_run_def guard_action_def)

section \<open>Invocation makes only unmarked calls\<close>

lemma request_approval_guard:
  "P a \<lparr>cx_actor = actor, cx_client = client\<rparr> payload s \<Longrightarrow>
   request_approval (guard_service P V) now (guard_action P a) actor digest confirm client expiry payload corr s =
   request_approval V now a actor digest confirm client expiry payload corr s"
  by (simp add: request_approval_def safe_run_guard Let_def cong: if_cong)

text \<open>The one call an invocation makes: the registered action, with the unmarked payload, for its actor and client.\<close>

lemma invoke_guard_call:
  assumes "\<And>a who. dget payload ''_approval_completed'' = None \<Longrightarrow> registry_get (sm_registry V) i = Inr a \<Longrightarrow> actor = Some who \<Longrightarrow>
      P a \<lparr>cx_actor = who, cx_client = effective_client_id s payload client\<rparr> payload s"
  shows "invoke (guard_service P V) now i payload actor confirm client expiry req corr s = invoke V now i payload actor confirm client expiry req corr s"
proof (cases "registry_get (sm_registry V) i")
  case (Inr a)
  show ?thesis
  proof (cases actor)
    case None
    then show ?thesis by (simp add: invoke_def Inr Let_def strip_Nil cong: if_cong sum.case_cong option.case_cong)
  next
    case (Some who)
    show ?thesis
    proof (cases "dget payload ''_approval_completed'' = None")
      case True
      note P = assms [OF True Inr Some]
      show ?thesis using True
        by (simp add: invoke_def Inr Some Let_def request_approval_guard [of P, OF P] safe_run_guard [of P, OF P] cong: if_cong sum.case_cong option.case_cong)
    qed (simp add: invoke_def)
  qed
qed (simp add: invoke_def)

lemma invoke_guard: "invoke (guard_service unmarked V) now i payload actor confirm client expiry req corr s =
  invoke V now i payload actor confirm client expiry req corr s"
  by (rule invoke_guard_call) (simp add: unmarked_def)

section \<open>Completion makes only approved calls\<close>

lemma find_approval_id: "find_approval s i = Some r \<Longrightarrow> r \<in> set (approvals s) \<and> ap_id r = i"
  unfolding find_approval_def by (drule find_SomeD) simp

lemma get_approval_request_stored:
  assumes "get_approval_request E now i s = (Some v, t)"
  shows "\<exists>r. find_approval t i = Some r \<and> v = approval_view E r"
proof -
  obtain row where row: "find_approval s i = Some row" and v: "(case expire_approval_request E now row s of (r, t) \<Rightarrow> (Some (approval_view E r), t)) = (Some v, t)"
    using assms by (auto simp: get_approval_request_def split: option.splits)
  have i: "ap_id row = i" using find_approval_id [OF row] by simp
  show ?thesis
  proof (cases "ap_status row \<noteq> ''pending'' \<or> \<not> approval_expired now (ap_expires row)")
    case True
    then show ?thesis using v row by (simp add: expire_approval_request_def)
  next
    case False
    define up where "up = update_where (\<lambda>r. ap_id r = i \<and> ap_status r = ''pending'')
      (\<lambda>r. r\<lparr>ap_status := ''expired'', ap_comment := ''Approval expired'', ap_updated := now, ap_approver := Some ''system:approval-expiry''\<rparr>) (approvals s)"
    have "find (\<lambda>r. ap_id r = i) up \<noteq> None" unfolding up_def using row
      by (subst find_update_where) (auto simp: find_approval_def)
    then obtain r where r: "find (\<lambda>r. ap_id r = i) up = Some r" by blast
    have "approvals (snd (expire_approval_request E now row s)) = up"
      using False by (simp add: expire_approval_request_def Let_def audit_defs up_def i)
    moreover have "fst (expire_approval_request E now row s) = r"
      using False r by (simp add: expire_approval_request_def Let_def audit_defs up_def i find_approval_def)
    ultimately show ?thesis using v r by (auto simp: find_approval_def split: prod.splits)
  qed
qed

lemma run_of_approval_stored: "run_of_approval s i = Some run \<Longrightarrow> run \<in> set (smart_runs s) \<and> sr_approval run = Some i"
  unfolding run_of_approval_def by (drule find_SomeD) simp

lemma approver_checks_Inr:
  "approver_checks approver rl run = Inr u \<Longrightarrow>
   \<exists>who role. approver = Some who \<and> rl = Some role \<and> strip who \<noteq> [] \<and> who \<noteq> sr_actor run \<and> TECHNICIAN \<le> role"
  by (auto simp: approver_checks_def res_simps not_less split: option.splits)

lemma complete_approved_guard:
  assumes "find_approval s i = Some r" "ap_status r = ''approved''" "starts_with (ap_action r) ''smart_action:''"
    and "run_of_approval s i = Some run" "sr_status run = ''pending_approval''" "approver_checks approver rl run = Inr u"
    and "act = (case registry_get (sm_registry V) (drop 13 (ap_action r)) of Inl _ \<Rightarrow> None | Inr a \<Rightarrow> Some a)"
    and "(case act of None \<Rightarrow> Inr () | Some a \<Rightarrow> require_action_role (ac_manifest a) rl) = Inr w"
  shows "complete_approved (guard_service (approved_call V approver rl) V) now (approval_view (sm_env V) r) run action_id approver
      (map_option (guard_action (approved_call V approver rl)) act) s =
    complete_approved V now (approval_view (sm_env V) r) run action_id approver act s"
proof -
  let ?P = "approved_call V approver rl"
  have "approved_call V approver rl a \<lparr>cx_actor = sr_actor run, cx_client = ap_client (approval_view (sm_env V) r)\<rparr> p s"
    if "act = Some a" "approved_payload (approval_view (sm_env V) r) = Some p" for a p
  proof -
    obtain who role where w: "approver = Some who" "rl = Some role" "strip who \<noteq> []" "who \<noteq> sr_actor run" "TECHNICIAN \<le> role"
      using approver_checks_Inr [OF assms(6)] by blast
    have "registry_get (sm_registry V) (drop 13 (ap_action r)) = Inr a" using that(1) assms(7) by (auto split: sum.splits)
    moreover have "required_role (ac_manifest a) \<le> role" using assms(8) that(1) w(2) by (simp add: require_action_role_def raise_if_Inr_iff not_less)
    moreover have "r \<in> set (approvals s)" "ap_id r = i" using find_approval_id [OF assms(1)] by auto
    moreover have "run \<in> set (smart_runs s)" "sr_approval run = Some i" using run_of_approval_stored [OF assms(4)] by auto
    moreover have "ap_client (approval_view (sm_env V) r) = ap_client r" by (simp add: approval_view_def)
    ultimately show ?thesis unfolding approved_call_def using that(2) w assms(2,3,5) by (intro exI [of _ r] exI [of _ run] exI [of _ who] exI [of _ role]) simp
  qed
  then have "run_approved (guard_service ?P V) (approval_view (sm_env V) r) run action_id (map_option (guard_action ?P) act) s =
      run_approved V (approval_view (sm_env V) r) run action_id act s"
    by (auto simp: run_approved_def safe_run_guard split: option.split)
  then show ?thesis by (simp add: complete_approved_def Let_def)
qed

lemma complete_approval_guard:
  "complete_approval (guard_service (approved_call V approver rl) V) now i approver rl s = complete_approval V now i approver rl s"
proof -
  let ?P = "approved_call V approver rl"
  have act: "(case map_sum id (guard_action ?P) x of Inl e \<Rightarrow> None | Inr a \<Rightarrow> Some a) =
      map_option (guard_action ?P) (case x of Inl e \<Rightarrow> None | Inr a \<Rightarrow> Some a)" for x :: "action res"
    by (cases x) auto
  have role: "(case x of None \<Rightarrow> Inr () | Some a \<Rightarrow> ((\<lambda>a. require_action_role (ac_manifest a) rl) \<circ> guard_action ?P) a) =
      (case x of None \<Rightarrow> Inr () | Some a \<Rightarrow> require_action_role (ac_manifest a) rl)" for x :: "action option"
    by (cases x) auto
  obtain v s1 where g: "get_approval_request (sm_env V) now i s = (v, s1)" by (cases "get_approval_request (sm_env V) now i s")
  show ?thesis
  proof (cases v)
    case None
    then show ?thesis by (simp add: complete_approval_def g)
  next
    case (Some approval)
    obtain r where r: "find_approval s1 i = Some r" "approval = approval_view (sm_env V) r"
      using get_approval_request_stored g Some by blast
    have sel: "ap_status approval = ap_status r" "ap_action approval = ap_action r" by (simp_all add: r(2) approval_view_def)
    note d = complete_approval_def g Some sel
    show ?thesis
    proof (cases "starts_with (ap_action r) ''smart_action:''")
      case sm: True
      show ?thesis
      proof (cases "run_of_approval s1 i")
        case run: (Some run)
        show ?thesis
        proof (cases "approver_checks approver rl run")
          case ok: (Inr u)
          let ?act = "case registry_get (sm_registry V) (drop 13 (ap_action r)) of Inl _ \<Rightarrow> None | Inr a \<Rightarrow> Some a"
          show ?thesis
          proof (cases "ap_status r = ''approved'' \<and> sr_status run = ''pending_approval''")
            case st: True
            show ?thesis
            proof (cases "case ?act of None \<Rightarrow> Inr () | Some a \<Rightarrow> require_action_role (ac_manifest a) rl")
              case (Inl e)
              then show ?thesis using sm run ok st by (simp add: d act role Let_def cong: if_cong)
            next
              case (Inr w)
              have "complete_approved (guard_service ?P V) now approval run (drop 13 (ap_action r)) approver (map_option (guard_action ?P) ?act) s1 =
                  complete_approved V now approval run (drop 13 (ap_action r)) approver ?act s1"
                unfolding r(2) using st by (intro complete_approved_guard [OF r(1) _ sm run _ ok refl Inr]) simp_all
              then show ?thesis using sm run ok st Inr by (simp add: d act role Let_def cong: if_cong)
            qed
          next
            case False
            then show ?thesis using sm run ok by (auto simp: d Let_def)
          qed
        qed (use sm run in \<open>simp add: d Let_def cong: if_cong\<close>)
      qed (use sm in \<open>simp add: d\<close>)
    qed (simp add: d)
  qed
qed

lemma update_approval_guard:
  "update_approval (guard_service (approved_call V approver rl) V) now i status comment approver rl s = update_approval V now i status comment approver rl s"
proof -
  have "(case map_sum id (guard_action (approved_call V approver rl)) x of Inl e \<Rightarrow> Inr () | Inr a \<Rightarrow> require_action_role (ac_manifest a) rl) =
      (case x of Inl e \<Rightarrow> Inr () | Inr a \<Rightarrow> require_action_role (ac_manifest a) rl)" for x :: "action res"
    by (cases x) auto
  then show ?thesis unfolding update_approval_def by (simp only: guard_service_sel registry_get_guard complete_approval_guard)
qed

section \<open>Runs only move forward\<close>

text \<open>
  The identifiers of the runs are distinct and within the sequence, as are the requests they are linked to.
\<close>

definition smart_inv :: "store \<Rightarrow> bool" where
  "smart_inv s \<longleftrightarrow> distinct (map sr_id (smart_runs s)) \<and> (\<forall>r\<in>set (smart_runs s). sr_id r \<le> smart_runs_seq s) \<and>
     (\<forall>r\<in>set (smart_runs s). case sr_approval r of None \<Rightarrow> True | Some a \<Rightarrow> a \<le> approvals_seq s) \<and>
     (\<forall>r\<in>set (smart_runs s). \<forall>r'\<in>set (smart_runs s). sr_approval r \<noteq> None \<longrightarrow> sr_approval r = sr_approval r' \<longrightarrow> r = r')"

lemma smart_inv_iff:
  "smart_inv s \<longleftrightarrow> distinct (map sr_id (smart_runs s)) \<and> (\<forall>r\<in>set (smart_runs s). sr_id r \<le> smart_runs_seq s) \<and>
     (\<forall>r\<in>set (smart_runs s). \<forall>a. sr_approval r = Some a \<longrightarrow> a \<le> approvals_seq s) \<and>
     (\<forall>r\<in>set (smart_runs s). \<forall>r'\<in>set (smart_runs s). sr_approval r \<noteq> None \<longrightarrow> sr_approval r = sr_approval r' \<longrightarrow> r = r')"
proof -
  have "(case x of None \<Rightarrow> True | Some a \<Rightarrow> a \<le> n) \<longleftrightarrow> (\<forall>a. x = Some a \<longrightarrow> a \<le> n)" for x :: "int option" and n by (cases x) auto
  then show ?thesis unfolding smart_inv_def by simp
qed

text \<open>What every operation does to the runs: it keeps the invariant, and a run that is no longer pending keeps its row.\<close>

definition smart_evolves :: "store \<Rightarrow> store \<Rightarrow> bool" where
  "smart_evolves s t \<longleftrightarrow> (smart_inv s \<longrightarrow> smart_inv t \<and>
     (\<forall>r\<in>set (smart_runs s). sr_status r \<noteq> ''pending_approval'' \<longrightarrow> r \<in> set (smart_runs t)))"

lemma smart_evolves_refl [simp]: "smart_evolves s s"
  by (simp add: smart_evolves_def)

lemma smart_evolves_trans: "smart_evolves s t \<Longrightarrow> smart_evolves t u \<Longrightarrow> smart_evolves s u"
  by (auto simp: smart_evolves_def)

lemma smart_evolves_same: "smart_runs t = smart_runs s \<Longrightarrow> smart_runs_seq t = smart_runs_seq s \<Longrightarrow> approvals_seq s \<le> approvals_seq t \<Longrightarrow> smart_evolves s t"
  unfolding smart_evolves_def smart_inv_iff by (auto dest: order_trans)

lemma smart_evolves_append:
  assumes "smart_runs t = smart_runs s @ [row]" "smart_runs_seq t = smart_runs_seq s + 1" "sr_id row = smart_runs_seq s + 1"
    and "approvals_seq s \<le> approvals_seq t" "\<And>a. sr_approval row = Some a \<Longrightarrow> approvals_seq s < a \<and> a \<le> approvals_seq t"
  shows "smart_evolves s t"
proof -
  have "smart_inv t" if i: "smart_inv s"
  proof -
    have old: "sr_id r \<le> smart_runs_seq s" "\<And>a. sr_approval r = Some a \<Longrightarrow> a \<le> approvals_seq s" if "r \<in> set (smart_runs s)" for r
      using i that unfolding smart_inv_iff by auto
    have new: "sr_approval row \<noteq> sr_approval r" if "r \<in> set (smart_runs s)" "sr_approval row \<noteq> None" for r
      using old(2) [OF that(1)] assms(5) that(2) by (metis linorder_not_le option.exhaust)
    have "sr_id row \<notin> sr_id ` set (smart_runs s)" using old(1) assms(3) by fastforce
    then have "distinct (map sr_id (smart_runs t))" using i unfolding smart_inv_iff assms(1) by simp
    moreover have "\<forall>r\<in>set (smart_runs t). sr_id r \<le> smart_runs_seq t" using old(1) assms(1-3) by fastforce
    moreover have "\<forall>r\<in>set (smart_runs t). \<forall>a. sr_approval r = Some a \<longrightarrow> a \<le> approvals_seq t"
      using old(2) assms(1,4,5) by (auto dest: order_trans)
    moreover have "\<forall>r\<in>set (smart_runs s). \<forall>r'\<in>set (smart_runs s). sr_approval r \<noteq> None \<longrightarrow> sr_approval r = sr_approval r' \<longrightarrow> r = r'"
      using i unfolding smart_inv_iff by blast
    ultimately show ?thesis unfolding smart_inv_iff using new assms(1) by (metis Un_iff empty_iff empty_set insert_iff list.simps(15) set_append)
  qed
  then show ?thesis by (simp add: smart_evolves_def assms(1))
qed

lemma smart_evolves_update:
  assumes "smart_runs t = update_where p f (smart_runs s)" "smart_runs_seq t = smart_runs_seq s" "approvals_seq t = approvals_seq s"
    and "\<And>r. sr_id (f r) = sr_id r \<and> sr_approval (f r) = sr_approval r"
    and "\<And>r. smart_inv s \<Longrightarrow> r \<in> set (smart_runs s) \<Longrightarrow> p r \<Longrightarrow> sr_status r = ''pending_approval''"
  shows "smart_evolves s t"
proof -
  have ids: "map sr_id (smart_runs t) = map sr_id (smart_runs s)" unfolding assms(1) using assms(4) by (simp add: map_update_where)
  have "smart_inv t" if i: "smart_inv s"
  proof -
    have "r = r'" if m: "r \<in> set (smart_runs t)" "r' \<in> set (smart_runs t)" "sr_approval r \<noteq> None" "sr_approval r = sr_approval r'" for r r'
    proof -
      obtain q q' where q: "q \<in> set (smart_runs s)" "q' \<in> set (smart_runs s)" "r = (if p q then f q else q)" "r' = (if p q' then f q' else q')"
        using m(1,2) unfolding assms(1) set_update_where by blast
      then have "sr_approval r = sr_approval q" "sr_approval r' = sr_approval q'" using assms(4) by auto
      then have "q = q'" using i q(1,2) m(3,4) unfolding smart_inv_iff by metis
      then show ?thesis using q(3,4) by simp
    qed
    moreover have "\<forall>r\<in>set (smart_runs t). sr_id r \<le> smart_runs_seq t \<and> (\<forall>a. sr_approval r = Some a \<longrightarrow> a \<le> approvals_seq t)"
      using i assms(2-4) unfolding assms(1) smart_inv_iff by auto
    ultimately show ?thesis using i unfolding smart_inv_iff ids by auto
  qed
  moreover have "r \<in> set (smart_runs t)" if "smart_inv s" "r \<in> set (smart_runs s)" "sr_status r \<noteq> ''pending_approval''" for r
  proof -
    have "(if p r then f r else r) \<in> set (smart_runs t)" unfolding assms(1) set_update_where using that(2) by (rule imageI)
    moreover have "\<not> p r" using assms(5) that by blast
    ultimately show ?thesis by simp
  qed
  ultimately show ?thesis by (auto simp: smart_evolves_def)
qed

lemma smart_expire: "smart_evolves s (snd (expire_approval_request E now row s))"
proof (cases "ap_status row \<noteq> ''pending'' \<or> \<not> approval_expired now (ap_expires row)")
  case False
  show ?thesis
  proof (cases "starts_with (ap_action row) ''smart_action:''")
    case True
    show ?thesis
      by (rule smart_evolves_update [where p = "\<lambda>x. sr_approval x = Some (ap_id row) \<and> sr_status x = ''pending_approval''"
            and f = "\<lambda>x. x\<lparr>sr_status := ''rejected'', sr_updated := now\<rparr>"])
        (use False True in \<open>simp_all add: expire_approval_request_def Let_def audit_defs\<close>)
  qed (use False in \<open>auto intro!: smart_evolves_same simp: expire_approval_request_def Let_def audit_defs\<close>)
qed (simp add: expire_approval_request_def)

lemma smart_get: "smart_evolves s (snd (get_approval_request E now i s))"
  using smart_expire [of s E now] by (auto simp: get_approval_request_def split: option.split prod.split) (metis snd_conv)

lemma smart_get': "get_approval_request E now i s = (v, t) \<Longrightarrow> smart_evolves s t"
  using smart_get [of s E now i] by simp

lemma smart_expire_all: "smart_evolves s (snd (expire_all E now rows s))"
proof (induction rows arbitrary: s)
  case (Cons row rows)
  have "smart_evolves s (snd (expire_approval_request E now row s))" by (rule smart_expire)
  also note Cons
  finally (smart_evolves_trans) show ?case by (simp add: case_prod_beta)
qed simp

lemma smart_load: "load_approval E now i s = Inr (row, t) \<Longrightarrow> smart_evolves s t"
  using smart_expire [of s E now] by (auto simp: load_approval_def res_simps split: option.splits) (metis snd_conv)

lemma smart_persisted: "persisted E now i s = Inr (r, t) \<Longrightarrow> smart_evolves s t"
  by (auto simp: persisted_def split: prod.splits option.splits intro: smart_get')

lemma smart_reload:
  assumes "load_approval E now i s = Inr (row, s1)" "smart_runs u = smart_runs s1" "smart_runs_seq u = smart_runs_seq s1"
    "approvals_seq u = approvals_seq s1" "persisted E now i u = Inr (r, t)"
  shows "smart_evolves s t"
proof -
  have "smart_evolves s1 u" using assms(2-4) by (simp add: smart_evolves_same)
  then show ?thesis using smart_evolves_trans smart_load [OF assms(1)] smart_persisted [OF assms(5)] by blast
qed

lemma smart_update_approval_request:
  assumes "update_approval_request E now i st c ap al sm s = Inr (r, t)" shows "smart_evolves s t"
proof -
  from assms obtain row s1 u where "load_approval E now i s = Inr (row, s1)" "persisted E now i u = Inr (r, t)"
    "smart_runs u = smart_runs s1" "smart_runs_seq u = smart_runs_seq s1" "approvals_seq u = approvals_seq s1"
    by (clarsimp simp: update_approval_request_def res_simps Let_def audit_defs)
  then show ?thesis by (intro smart_reload)
qed

lemma smart_approval_step: "approval_step E (now, c) s = Inr (w, t) \<Longrightarrow> smart_evolves s t"
proof (cases c)
  case (CreateApproval sub a p cl n)
  moreover assume "approval_step E (now, c) s = Inr (w, t)"
  ultimately obtain r u where u: "persisted E now (approvals_seq s + 1) u = Inr (r, t)" "smart_runs u = smart_runs s"
    "smart_runs_seq u = smart_runs_seq s" "approvals_seq u = approvals_seq s + 1"
    by (clarsimp simp: create_approval_request_def res_simps Let_def audit_defs)
  then have "smart_evolves s u" by (simp add: smart_evolves_same)
  then show ?thesis using smart_persisted [OF u(1)] smart_evolves_trans by blast
next
  case (UpdateApproval i st cm ap al sm)
  moreover assume "approval_step E (now, c) s = Inr (w, t)"
  ultimately show ?thesis by (auto simp: res_simps intro: smart_update_approval_request)
next
  case (UpdatePayload i p cm)
  moreover assume "approval_step E (now, c) s = Inr (w, t)"
  ultimately obtain r row s1 u where "load_approval E now i s = Inr (row, s1)" "persisted E now i u = Inr (r, t)"
    "smart_runs u = smart_runs s1" "smart_runs_seq u = smart_runs_seq s1" "approvals_seq u = approvals_seq s1"
    by (clarsimp simp: update_approval_request_payload_def res_simps Let_def audit_defs)
  then show ?thesis by (intro smart_reload)
next
  case (RecordExecution i st m v ty)
  moreover assume "approval_step E (now, c) s = Inr (w, t)"
  ultimately obtain r row s1 u where "load_approval E now i s = Inr (row, s1)" "persisted E now i u = Inr (r, t)"
    "smart_runs u = smart_runs s1" "smart_runs_seq u = smart_runs_seq s1" "approvals_seq u = approvals_seq s1"
    by (clarsimp simp: record_approval_execution_def res_simps Let_def audit_defs)
  then show ?thesis by (intro smart_reload)
next
  case (ClaimExecution i)
  moreover assume "approval_step E (now, c) s = Inr (w, t)"
  ultimately obtain row s1 where l: "load_approval E now i s = Inr (row, s1)" and "smart_runs t = smart_runs s1"
    "smart_runs_seq t = smart_runs_seq s1" "approvals_seq t = approvals_seq s1"
    by (clarsimp simp: claim_approval_execution_def res_simps Let_def)
  then show ?thesis using smart_load [OF l] smart_evolves_same [of t s1] smart_evolves_trans by simp
next
  case (GetApproval i)
  moreover assume "approval_step E (now, c) s = Inr (w, t)"
  ultimately show ?thesis using smart_get [of s E now i] by auto
next
  case (ListApprovals sc)
  moreover assume "approval_step E (now, c) s = Inr (w, t)"
  ultimately obtain rs p where "expire_all E now (rev (sort_key ap_id (filter (\<lambda>r. p (ap_client r)) (approvals s)))) s = (rs, t)"
    by (auto simp: list_approval_requests_def res_simps)
  then show ?thesis using smart_expire_all by (metis snd_conv)
qed

section \<open>The service keeps the runs\<close>

text \<open>
  What the law needs of the registered actions: they leave the approval requests and the runs alone. The actions of
  \<open>smart_actions.py\<close> use the store of their context to read tickets and assets and to add ticket notes only.
\<close>

definition keeps_records :: "service \<Rightarrow> bool" where
  "keeps_records V \<longleftrightarrow> (\<forall>(k, a)\<in>set (sm_registry V). \<forall>ctx p s. let t = snd (ac_run a ctx p s) in
     smart_runs t = smart_runs s \<and> smart_runs_seq t = smart_runs_seq s \<and> approvals t = approvals s \<and> approvals_seq t = approvals_seq s)"

lemma safe_run_keeps:
  assumes "keeps_records V" "registry_get (sm_registry V) i = Inr a" "safe_run E a ctx p s = (r, t)"
  shows "smart_runs t = smart_runs s \<and> smart_runs_seq t = smart_runs_seq s \<and> approvals t = approvals s \<and> approvals_seq t = approvals_seq s"
proof -
  obtain k where "(k, a) \<in> set (sm_registry V)" using assms(2) by (auto simp: registry_get_def split: option.splits dest: dget_Some_in)
  then have "let t = snd (ac_run a ctx p s) in smart_runs t = smart_runs s \<and> smart_runs_seq t = smart_runs_seq s \<and>
      approvals t = approvals s \<and> approvals_seq t = approvals_seq s"
    using assms(1) unfolding keeps_records_def by blast
  moreover have "t = snd (ac_run a ctx p s)" using assms(3) by (auto simp: safe_run_def split: prod.splits sum.splits)
  ultimately show ?thesis by (simp add: Let_def)
qed

lemma record_action_frame [frame]:
  "smart_runs (record_action V a i p r c cl tr st co s) = smart_runs s" "smart_runs_seq (record_action V a i p r c cl tr st co s) = smart_runs_seq s"
  "approvals_seq (record_action V a i p r c cl tr st co s) = approvals_seq s" "approvals (record_action V a i p r c cl tr st co s) = approvals s"
  by (simp_all add: record_action_def record_execution_def)

lemma audit_frame [frame]:
  "smart_runs (add_audit_event E now ty su de cl ap s) = smart_runs s" "smart_runs_seq (add_audit_event E now ty su de cl ap s) = smart_runs_seq s"
  "approvals_seq (add_audit_event E now ty su de cl ap s) = approvals_seq s" "approvals (add_audit_event E now ty su de cl ap s) = approvals s"
  by (simp_all add: audit_defs)

lemma persist_result_evolves: "persist_result V now a ac d res co cl p cr s = (r, t) \<Longrightarrow> smart_evolves s t"
  by (rule smart_evolves_append) (auto simp: persist_result_def create_smart_action_run_def Let_def frame)

lemma refuse_actor_evolves: "refuse_actor V now a d cl p cr s = (r, t) \<Longrightarrow> smart_evolves s t"
  by (rule smart_evolves_append) (auto simp: refuse_actor_def create_smart_action_run_def Let_def frame)

lemma insert_pending_evolves: "insert_pending E now a ac d out ev p c x s = (run, t) \<Longrightarrow> smart_evolves s t"
  by (rule smart_evolves_append) (auto simp: insert_pending_def Let_def audit_defs)

lemma create_pending_evolves:
  assumes "create_pending_smart_action E now a ac d out ev p cl n s = Inr (x, t)" shows "smart_evolves s t"
proof -
  from assms obtain e where r: "(let (run, s1) = insert_pending E now a ac d out ev p (normalize_client_id cl) e s in
     case get_approval_request E now (approvals_seq s1) s1 of
       (None, t) \<Rightarrow> Inl (RuntimeError ''pending smart action was not persisted'')
     | (Some approval, t) \<Rightarrow> Inr ((run, approval), t)) = Inr (x, t)"
    unfolding create_pending_smart_action_def by (simp only: rbind_Inr_iff) blast
  obtain run u where i: "insert_pending E now a ac d out ev p (normalize_client_id cl) e s = (run, u)" by fastforce
  obtain v w where g: "get_approval_request E now (approvals_seq u) u = (v, w)" by fastforce
  have "w = t" using r by (cases v) (simp_all add: i g)
  then show ?thesis using insert_pending_evolves [OF i] smart_get' [OF g] smart_evolves_trans by blast
qed

lemma sbind_tx_evolves:
  assumes "sbind (tx c s) f = (x, t)" "\<And>y u. c = Inr (y, u) \<Longrightarrow> smart_evolves s u" "\<And>y u x t. c = Inr (y, u) \<Longrightarrow> f y u = (x, t) \<Longrightarrow> smart_evolves u t"
  shows "smart_evolves s t"
proof (cases c)
  case (Inr p)
  then obtain y u where "c = Inr (y, u)" by (cases p) simp
  then show ?thesis using assms smart_evolves_trans by (metis sbind_simps(2) tx_simps(2))
qed (use assms(1) in simp)

lemma smart_record: "smart_evolves s t \<Longrightarrow> smart_evolves s (record_action V a i p r c cl tr st co t)"
  by (rule smart_evolves_trans, assumption, rule smart_evolves_same) (simp_all add: frame)

lemma smart_audit: "smart_evolves s t \<Longrightarrow> smart_evolves s (add_audit_event E now ty su de cl ap t)"
  by (rule smart_evolves_trans, assumption, rule smart_evolves_same) (simp_all add: frame)

lemma smart_safe_run:
  "keeps_records V \<Longrightarrow> registry_get (sm_registry V) i = Inr a \<Longrightarrow> safe_run E a ctx p s = (r, t) \<Longrightarrow> smart_evolves s t"
  by (drule safe_run_keeps) (auto intro: smart_evolves_same)

lemma invoke_evolves:
  assumes "keeps_records V" "invoke V now i p actor co cl ex rq cr s = (x, t)"
  shows "smart_evolves s t"
proof (cases "registry_get (sm_registry V) i")
  case (Inr a)
  note run = smart_safe_run [OF assms(1) Inr]
  have "smart_evolves s u" if "request_approval V now a ac d co c n p cr s = (y, u)" for ac d c n y u
  proof -
    obtain draft s1 where d: "safe_run (sm_env V) a \<lparr>cx_actor = ac, cx_client = c\<rparr> p s = (draft, s1)" by fastforce
    have "smart_evolves s1 u"
    proof (cases "rs_status draft = ''success''")
      case True
      show ?thesis using that
        by (auto simp: request_approval_def d True Let_def intro!: smart_record elim!: sbind_tx_evolves intro: create_pending_evolves)
    next
      case False
      then show ?thesis using that
        by (auto simp: request_approval_def d Let_def split: prod.splits intro: persist_result_evolves)
    qed
    then show ?thesis using run [OF d] smart_evolves_trans by blast
  qed
  moreover have "smart_evolves s u" if "safe_run E a ctx p s = (r, s1)" "persist_result V now m w d r co c p cr s1 = (y, u)" for E ctx r s1 m w d c y u
    using run [OF that(1)] persist_result_evolves [OF that(2)] smart_evolves_trans by blast
  ultimately show ?thesis using assms(2) refuse_actor_evolves
    by (auto simp: invoke_def Inr Let_def split: if_splits option.splits sum.splits prod.splits)
qed (use assms(2) in \<open>auto simp: invoke_def split: if_splits\<close>)

text \<open>Completing a run: it was pending, it is linked to the request, and afterwards it has the given status.\<close>

lemma complete_run_Inr:
  assumes "complete_smart_action_run E now i st out ev ap who e cap s = Inr (x, t)"
  shows "\<exists>cur f. find_smart_run s i = Some cur \<and> sr_status cur = ''pending_approval'' \<and> st \<noteq> ''pending_approval'' \<and> sr_approval cur = ap \<and>
    (\<forall>r. sr_id (f r) = sr_id r \<and> sr_approval (f r) = sr_approval r \<and> sr_status (f r) = st) \<and>
    t = s\<lparr>smart_runs := update_where (\<lambda>r. sr_id r = i) f (smart_runs s)\<rparr>"
proof -
  let ?f = "\<lambda>r. r\<lparr>sr_status := st, sr_output := json_dumps E out, sr_evidence := redact_value E (PList ev), sr_error := redact E e, sr_updated := now\<rparr>"
  from assms obtain cur where "find_smart_run s i = Some cur" "sr_status cur = ''pending_approval''"
    "st \<in> {''success'', ''provider_not_configured'', ''failed'', ''rejected''}" "sr_approval cur = ap"
    "t = s\<lparr>smart_runs := update_where (\<lambda>r. sr_id r = i) ?f (smart_runs s)\<rparr>"
    unfolding complete_smart_action_run_def by (auto simp: case_option_Inr res_simps Let_def)
  then show ?thesis by (intro exI [of _ cur] exI [of _ ?f]) auto
qed

lemma find_smart_run_unique: "smart_inv s \<Longrightarrow> find_smart_run s i = Some cur \<Longrightarrow> r \<in> set (smart_runs s) \<Longrightarrow> sr_id r = i \<Longrightarrow> r = cur"
  unfolding smart_inv_iff find_smart_run_def using find_unique_key [of sr_id "smart_runs s" r] by auto

lemma complete_run_evolves:
  assumes "complete_smart_action_run E now i st out ev ap who e cap s = Inr (x, t)" shows "smart_evolves s t"
proof -
  obtain cur f where c: "find_smart_run s i = Some cur" "sr_status cur = ''pending_approval''"
    and f: "\<forall>r. sr_id (f r) = sr_id r \<and> sr_approval (f r) = sr_approval r \<and> sr_status (f r) = st"
    and t: "t = s\<lparr>smart_runs := update_where (\<lambda>r. sr_id r = i) f (smart_runs s)\<rparr>"
    using complete_run_Inr [OF assms] by blast
  have "sr_status r = ''pending_approval''" if "smart_inv s" "r \<in> set (smart_runs s)" "sr_id r = i" for r
    using find_smart_run_unique [OF that(1) c(1) that(2,3)] c(2) by simp
  then show ?thesis using f by (intro smart_evolves_update [where p = "\<lambda>r. sr_id r = i" and f = f]) (auto simp: t)
qed

lemma complete_approved_evolves:
  assumes "keeps_records V" "\<And>a. act = Some a \<Longrightarrow> registry_get (sm_registry V) i = Inr a"
    and "complete_approved V now approval run action_id approver act s = (x, t)"
  shows "smart_evolves s t"
proof -
  obtain r s1 where r: "run_approved V approval run action_id act s = (r, s1)" by fastforce
  have "smart_evolves s s1"
    using r assms(2) smart_safe_run [OF assms(1)] by (auto simp: run_approved_def split: option.splits)
  moreover have "smart_evolves s1 t" using assms(3)
    by (auto simp: complete_approved_def r Let_def intro!: smart_record smart_audit elim!: sbind_tx_evolves intro: complete_run_evolves)
  ultimately show ?thesis by (rule smart_evolves_trans)
qed

lemma complete_approval_evolves:
  assumes "keeps_records V" "complete_approval V now i approver rl s = (x, t)"
  shows "smart_evolves s t"
proof -
  obtain v s1 where g: "get_approval_request (sm_env V) now i s = (v, s1)" by fastforce
  have e: "smart_evolves s1 u" if "complete_expired V ap run a s1 = (y, u)" for ap run a y u
    using that by (auto simp: complete_expired_def Let_def intro!: smart_record)
  have r: "smart_evolves s1 u" if "complete_rejected V now ap run a who s1 = (y, u)" for ap run a who y u
    using that by (auto simp: complete_rejected_def Let_def intro!: smart_record smart_audit elim!: sbind_tx_evolves intro: complete_run_evolves)
  have n: "smart_evolves s1 u" if "complete_approved V now ap run a who None s1 = (y, u)" for ap run a who y u
    using that by (intro complete_approved_evolves [OF assms(1), where act = None]) auto
  have o: "smart_evolves s1 u" if "registry_get (sm_registry V) k = Inr b" "complete_approved V now ap run a who (Some b) s1 = (y, u)" for k b ap run a who y u
    using that by (intro complete_approved_evolves [OF assms(1), where act = "Some b"]) auto
  have "smart_evolves s1 t"
    using assms(2) e r n o
    by (auto simp: complete_approval_def g Let_def split: option.splits if_splits sum.splits)
  then show ?thesis using smart_get' [OF g] smart_evolves_trans by blast
qed

lemma update_approval_evolves:
  assumes "keeps_records V" "update_approval V now i st c approver rl s = (x, t)"
  shows "smart_evolves s t"
proof -
  obtain v s1 where g: "get_approval_request (sm_env V) now i s = (v, s1)" by fastforce
  have "smart_evolves s1 t"
  proof (cases v)
    case (Some approval)
    have tail: "smart_evolves u w" if "sbind (complete_approval V now i approver rl u) (\<lambda>_ s3.
        case get_approval_request (sm_env V) now i s3 of (Some r, s4) \<Rightarrow> (Inr r, s4) | (None, s4) \<Rightarrow> (Inr upd, s4)) = (y, w)" for u upd y w
    proof -
      obtain z s3 where z: "complete_approval V now i approver rl u = (z, s3)" by fastforce
      obtain q s4 where q: "get_approval_request (sm_env V) now i s3 = (q, s4)" by fastforce
      have "w = s3 \<or> w = s4" using that by (cases z; cases q) (auto simp: z q)
      then show ?thesis using complete_approval_evolves [OF assms(1) z] smart_get' [OF q] smart_evolves_trans by blast
    qed
    have body: "smart_evolves s1 w" if "sbind (tx (update_approval_request (sm_env V) now i st c approver False True s1) s1) (\<lambda>updated s2.
        sbind (complete_approval V now i approver rl s2) (\<lambda>_ s3.
        case get_approval_request (sm_env V) now i s3 of (Some r, s4) \<Rightarrow> (Inr r, s4) | (None, s4) \<Rightarrow> (Inr updated, s4))) = (y, w)" for y w
      using that tail smart_update_approval_request by (elim sbind_tx_evolves) blast+
    have other: "smart_evolves s1 w" if "tx (update_approval_request (sm_env V) now i st c approver False False s1) s1 = (y, w)" for y w
      using that smart_update_approval_request
      by (cases "update_approval_request (sm_env V) now i st c approver False False s1") (auto simp: tx_def)
    show ?thesis using assms(2) body other
      by (simp add: update_approval_def g Some Let_def split: if_splits sum.splits)
  qed (use assms(2) in \<open>simp add: update_approval_def g\<close>)
  then show ?thesis using smart_get' [OF g] smart_evolves_trans by blast
qed

section \<open>Sequences of operations\<close>

datatype smart_op =
    Invoke string pydict "string option" bool "string option" "int option" bool "string option"
  | Complete int "string option" "role option"
  | Decide int string string "string option" "role option"
  | Approval approval_op

fun smart_step :: "service \<Rightarrow> time \<times> smart_op \<Rightarrow> store \<Rightarrow> store" where
  "smart_step V (now, Invoke i p a co cl ex rq cr) s = snd (invoke V now i p a co cl ex rq cr s)"
| "smart_step V (now, Complete i a r) s = snd (complete_approval V now i a r s)"
| "smart_step V (now, Decide i st c a r) s = snd (update_approval V now i st c a r s)"
| "smart_step V (now, Approval c) s = apply_op (approval_step (sm_env V)) (now, c) s"

lemma smart_step_evolves: "keeps_records V \<Longrightarrow> smart_evolves s (smart_step V c s)"
proof (induction c)
  case (Pair now d)
  note k = Pair
  show ?case
  proof (cases d)
    case (Approval x)
    then show ?thesis using smart_approval_step by (auto simp: apply_op_def split: sum.split)
  qed (auto intro: invoke_evolves [OF k] complete_approval_evolves [OF k] update_approval_evolves [OF k] surjective_pairing)
qed

lemma smart_run_evolves: "keeps_records V \<Longrightarrow> smart_evolves s (fold (smart_step V) ops s)"
proof (induction ops arbitrary: s)
  case (Cons c ops)
  then show ?case using smart_step_evolves smart_evolves_trans by (metis fold_simps(2))
qed simp

section \<open>An approved action runs once\<close>

text \<open>A service whose actions must not be called.\<close>

definition no_call :: call_guard where
  "no_call a ctx payload s \<longleftrightarrow> False"

lemma run_of_approval_unique:
  assumes "smart_inv s" "run \<in> set (smart_runs s)" "sr_approval run = Some i" shows "run_of_approval s i = Some run"
proof -
  have "run_of_approval s i \<noteq> None" using assms(2,3) by (auto simp: run_of_approval_def find_None_iff)
  then obtain r where r: "run_of_approval s i = Some r" by blast
  have "r \<in> set (smart_runs s)" "sr_approval r = Some i" using run_of_approval_stored [OF r] by auto
  then have "r = run" using assms unfolding smart_inv_iff by (metis option.distinct(1))
  then show ?thesis using r by simp
qed

lemma settled_no_call:
  assumes "smart_inv s" "run \<in> set (smart_runs s)" "sr_approval run = Some i" "sr_status run \<noteq> ''pending_approval''"
  shows "complete_approval (guard_service P V) now i approver rl s = complete_approval V now i approver rl s"
proof -
  obtain v s1 where g: "get_approval_request (sm_env V) now i s = (v, s1)" by fastforce
  have "smart_inv s1" "run \<in> set (smart_runs s1)" using smart_get' [OF g] assms by (auto simp: smart_evolves_def)
  then have r: "run_of_approval s1 i = Some run" using run_of_approval_unique assms(3) by blast
  show ?thesis using assms(4) by (cases v) (simp_all add: complete_approval_def g r Let_def cong: if_cong split: sum.split)
qed

lemma get_approval_approved:
  assumes "find_approval s i = Some a" "ap_status a = ''approved''"
  shows "get_approval_request E now i s = (Some (approval_view E a), s)"
  using assms by (simp add: get_approval_request_def expire_approval_request_def)

lemma completion_settles:
  assumes "keeps_records V" "smart_inv s" "find_approval s i = Some a" "ap_status a = ''approved''"
    and "complete_approval V now i approver rl s = (Inr (Some r), t)"
  shows "\<exists>run\<in>set (smart_runs t). sr_approval run = Some i \<and> sr_status run \<noteq> ''pending_approval''"
proof -
  note g = get_approval_approved [OF assms(3,4), of "sm_env V" now]
  have a: "ap_id (approval_view (sm_env V) a) = i" "ap_status (approval_view (sm_env V) a) = ''approved''"
    using find_approval_id [OF assms(3)] assms(4) by (simp_all add: approval_view_def)
  obtain run where run: "run_of_approval s i = Some run"
    using assms(5) a(2) by (auto simp: complete_approval_def g split: if_splits option.splits)
  note st = run_of_approval_stored [OF run]
  show ?thesis
  proof (cases "sr_status run = ''pending_approval''")
    case False
    have "run \<in> set (smart_runs t)" using complete_approval_evolves [OF assms(1,5)] assms(2) st False by (auto simp: smart_evolves_def)
    then show ?thesis using st False by blast
  next
    case True
    obtain act k where "complete_approved V now (approval_view (sm_env V) a) run k approver act s = (Inr (Some r), t)"
      using assms(5) a(2) True by (auto simp: complete_approval_def g run Let_def split: if_splits sum.splits)
    then obtain res s1 st' out ev e u x where c: "complete_smart_action_run (sm_env V) now (sr_id run) st' out ev (Some i) approver e True s1 = Inr (x, u)"
      and t: "smart_runs t = smart_runs u"
      by (auto simp: complete_approved_def Let_def a(1) sbind_Inr_iff tx_Inr_iff frame split: prod.splits)
    obtain cur f where "find_smart_run s1 (sr_id run) = Some cur" "st' \<noteq> ''pending_approval''" "sr_approval cur = Some i"
      "sr_approval (f cur) = sr_approval cur" "sr_status (f cur) = st'"
      "u = s1\<lparr>smart_runs := update_where (\<lambda>r. sr_id r = sr_id run) f (smart_runs s1)\<rparr>"
      using complete_run_Inr [OF c] by blast
    moreover from this have "f cur \<in> set (smart_runs u)"
      by (auto simp: find_smart_run_def set_update_where dest!: find_SomeD intro!: image_eqI [of _ _ cur])
    ultimately show ?thesis unfolding t by (intro bexI [where x = "f cur"]) simp_all
  qed
qed

text \<open>
  C10. The approval gate: no sequence of calls into the service runs an action as approved without an approval. An invocation never
  passes \<open>_approval_completed\<close> to an action; completing or deciding an approval runs an action only for a stored request that is
  approved, with the payload and tenant stored in it, for a run that is still pending, and at the hands of a named approver who
  has the role the action requires and is not the actor that asked for it.
\<close>

theorem approved_actions_need_approval:
  "invoke (guard_service unmarked V) now action payload actor confirm client expiry require correlation s =
     invoke V now action payload actor confirm client expiry require correlation s \<and>
   complete_approval (guard_service (approved_call V approver rl) V) now i approver rl s = complete_approval V now i approver rl s \<and>
   update_approval (guard_service (approved_call V approver rl) V) now i status comment approver rl s =
     update_approval V now i status comment approver rl s"
  by (intro conjI invoke_guard complete_approval_guard update_approval_guard)

text \<open>
  C11. An approved action runs once: when the completion of an approved request has returned, then after every further sequence of
  invocations, completions, decisions and approval operations its run is still settled and completing the request again calls no
  action, whoever asks. The hypothesis on the registered actions is that they leave the requests and the runs alone.
\<close>

theorem approved_action_runs_once:
  assumes "keeps_records V" "smart_inv s" "find_approval s i = Some a" "ap_status a = ''approved''"
    and "complete_approval V now i approver rl s = (Inr (Some r), t)"
  shows "\<exists>run\<in>set (smart_runs (fold (smart_step V) ops t)). sr_approval run = Some i \<and> sr_status run \<noteq> ''pending_approval'' \<and>
    complete_approval (guard_service no_call V) now' i approver' rl' (fold (smart_step V) ops t) =
      complete_approval V now' i approver' rl' (fold (smart_step V) ops t)"
proof -
  obtain run where run: "run \<in> set (smart_runs t)" "sr_approval run = Some i" "sr_status run \<noteq> ''pending_approval''"
    using completion_settles [OF assms] by blast
  have "smart_inv t" using complete_approval_evolves [OF assms(1,5)] assms(2) by (simp add: smart_evolves_def)
  then have "smart_inv (fold (smart_step V) ops t)" "run \<in> set (smart_runs (fold (smart_step V) ops t))"
    using smart_run_evolves [OF assms(1), of t ops] run by (auto simp: smart_evolves_def)
  then show ?thesis using run settled_no_call by blast
qed

section \<open>A worked request\<close>

definition demo_action :: action where
  "demo_action = \<lparr>ac_manifest = \<lparr>mf_id = ''note'', mf_title = [], mf_description = [], mf_requires_approval = True, mf_required_role = ''technician'',
     mf_expiry = 3600\<rparr>, ac_run = (\<lambda>ctx p s. (Inr \<lparr>rs_status = ''success'', rs_output = [(''n'', PInt (int (length p)))], rs_evidence = [], rs_error = [],
       rs_run = None, rs_approval = None\<rparr>, s))\<rparr>"

definition demo_service :: service where
  "demo_service = \<lparr>sm_env = plain_env, sm_registry = [(''note'', demo_action)], sm_recorder = (\<lambda>x xs. x # xs), sm_metadata = [],
     sm_valid_correlation = (\<lambda>c. True)\<rparr>"

text \<open>The request of \<open>alice\<close>, and the same request approved by \<open>bob\<close>.\<close>

definition demo_requested :: store where
  "demo_requested = snd (invoke demo_service 10 ''note'' [] (Some ''alice'') False None None False None empty_store)"

definition demo_approved :: store where
  "demo_approved = (case update_approval_request plain_env 20 1 ''approved'' [] (Some ''bob'') False True demo_requested of Inr (_, t) \<Rightarrow> t | Inl _ \<Rightarrow> demo_requested)"

lemma demo_keeps: "keeps_records demo_service"
  by (simp add: keeps_records_def demo_service_def demo_action_def)

lemma demo_completion: "complete_approval demo_service 30 1 (Some ''bob'') (Some TECHNICIAN) demo_approved =
  (Inr (Some \<lparr>rs_status = ''success'', rs_output = [(''n'', PInt 1), (''approved'', PBool True)], rs_evidence = [], rs_error = [], rs_run = Some 1,
    rs_approval = Some 1\<rparr>), snd (complete_approval demo_service 30 1 (Some ''bob'') (Some TECHNICIAN) demo_approved))"
proof -
  have "fst (complete_approval demo_service 30 1 (Some ''bob'') (Some TECHNICIAN) demo_approved) =
    Inr (Some \<lparr>rs_status = ''success'', rs_output = [(''n'', PInt 1), (''approved'', PBool True)], rs_evidence = [], rs_error = [], rs_run = Some 1,
      rs_approval = Some 1\<rparr>)" by code_simp
  then show ?thesis by (metis surjective_pairing)
qed

theorem approved_action_runs_once_witness:
  "\<exists>run\<in>set (smart_runs (snd (complete_approval demo_service 30 1 (Some ''bob'') (Some TECHNICIAN) demo_approved))).
     sr_approval run = Some 1 \<and> sr_status run \<noteq> ''pending_approval''"
proof -
  have "smart_inv demo_approved" by code_simp
  moreover have "map_option ap_status (find_approval demo_approved 1) = Some ''approved''" by code_simp
  from this obtain a where a: "find_approval demo_approved 1 = Some a" "ap_status a = ''approved''" by blast
  ultimately obtain run where "run \<in> set (smart_runs (fold (smart_step demo_service) [] (snd (complete_approval demo_service 30 1 (Some ''bob'')
      (Some TECHNICIAN) demo_approved))))" "sr_approval run = Some 1" "sr_status run \<noteq> ''pending_approval''"
    using approved_action_runs_once [OF demo_keeps _ a demo_completion, where ops = "[]" and now' = 40 and approver' = None and rl' = None] by blast
  then show ?thesis by (intro bexI [where x = run]) simp_all
qed

text \<open>
  The approver is compared only after the action has run: when \<open>alice\<close> decides her own request the approval is stored although the
  completion is refused, and each later completion by \<open>bob\<close> then runs the action, is refused, and leaves the run pending.
\<close>

definition demo_self_approved :: store where
  "demo_self_approved = snd (update_approval demo_service 20 1 ''approved'' [] (Some ''alice'') (Some TECHNICIAN) demo_requested)"

lemma self_approval_sticks:
  "fst (update_approval demo_service 20 1 ''approved'' [] (Some ''alice'') (Some TECHNICIAN) demo_requested) =
     Inl (PermissionError ''requesting actor cannot approve its own smart action'') \<and>
   map_option ap_status (find_approval demo_self_approved 1) = Some ''approved''"
  by code_simp

lemma foreign_completion_reruns:
  "fst (complete_approval demo_service 30 1 (Some ''bob'') (Some TECHNICIAN) demo_self_approved) =
     Inl (PermissionError ''smart action completion requires the approval approver'') \<and>
   map sr_status (smart_runs (snd (complete_approval demo_service 30 1 (Some ''bob'') (Some TECHNICIAN) demo_self_approved))) = [''pending_approval'']"
  by code_simp

text \<open>A rejection settles the run, so a later completion of the same request raises instead of returning the rejected result.\<close>

definition demo_rejected :: store where
  "demo_rejected = snd (update_approval demo_service 20 1 ''rejected'' [] (Some ''bob'') (Some TECHNICIAN) demo_requested)"

lemma rejected_request_cannot_complete:
  "map sr_status (smart_runs demo_rejected) = [''rejected''] \<and>
   fst (complete_approval demo_service 30 1 (Some ''bob'') (Some TECHNICIAN) demo_rejected) = Inl (PermissionError ''smart action run has already completed'')"
  by code_simp

end
