(* ===== verification/Agent_Laws.thy ===== *)
theory Agent_Laws
  imports Agent_Runs Smart_Action_Laws
begin

text \<open>
  Laws of the agent executions. Confinement: a run calls only the enabled tools of its definition, for its actor and tenant and
  never as approved. Boundedness: it ends with a recorded status after a bounded number of calls, whatever the actions return.
\<close>

section \<open>Confinement\<close>

definition guard_lib :: "call_guard \<Rightarrow> agent_lib \<Rightarrow> agent_lib" where
  "guard_lib P L = L\<lparr>al_service := guard_service P (al_service L)\<rparr>"

text \<open>The calls a run of \<open>d\<close> for \<open>actor\<close> may make.\<close>

definition confined :: "service \<Rightarrow> agent_def \<Rightarrow> string \<Rightarrow> call_guard" where
  "confined V d actor a ctx payload s \<longleftrightarrow>
     list_ex (\<lambda>t. registry_get (sm_registry V) t = Inr a) (ad_tools d) \<and> dget payload ''_approval_completed'' = None \<and>
     cx_actor ctx = actor \<and> (case normalize_client_id (ad_client d) of None \<Rightarrow> True | Some c \<Rightarrow> cx_client ctx = Some c)"

lemmas branch_cong = if_cong option.case_cong sum.case_cong pyval.case_cong

lemma guard_lib_sel [simp]:
  "al_service (guard_lib P L) = guard_service P (al_service L)" "al_zone (guard_lib P L) = al_zone L" "al_elapsed (guard_lib P L) = al_elapsed L"
  "al_loads (guard_lib P L) = al_loads L" "al_retrieve (guard_lib P L) = al_retrieve L" "al_select (guard_lib P L) = al_select L"
  by (simp_all add: guard_lib_def)

lemma list_manifests_guard [simp]: "list_manifests (sm_registry (guard_service P V)) = list_manifests (sm_registry V)"
proof -
  have "sort_key fst (map (map_prod id (guard_action P)) xs) = map (map_prod id (guard_action P)) (sort_key fst xs)" for xs :: registry
  proof -
    have "insort_key fst (map_prod id (guard_action P) x) (map (map_prod id (guard_action P)) ys) =
        map (map_prod id (guard_action P)) (insort_key fst x ys)" for x and ys :: registry
      by (induction ys) auto
    then show ?thesis by (induction xs) simp_all
  qed
  then show ?thesis by (simp add: list_manifests_def guard_service_def case_prod_beta comp_def)
qed

lemma record_execution_guard [simp]: "record_execution (guard_service P V) = record_execution V"
  by (intro ext) (simp add: record_execution_def cong: option.case_cong)

lemma correlation_guard [simp]: "correlation_of (guard_service P V) = correlation_of V" "correlated (guard_service P V) = correlated V"
  by (intro ext; simp add: correlation_of_def correlated_def cong: option.case_cong pyval.case_cong)+

lemma lib_guard [simp]:
  "finish (guard_lib P L) = finish L" "input_object (guard_lib P L) = input_object L" "build_context (guard_lib P L) = build_context L"
  "execution_window_open (guard_lib P L) = execution_window_open L"
  "select_result_aware_step (guard_lib P L) = select_result_aware_step L" "definition_for_run (guard_lib P L) = definition_for_run L"
proof -
  show "finish (guard_lib P L) = finish L" by (intro ext) (simp add: finish_def Let_def cong: if_cong)
  show "input_object (guard_lib P L) = input_object L" by (intro ext) (simp add: input_object_def cong: pyval.case_cong)
  have "knowledge_context (guard_lib P L) = knowledge_context L" by (intro ext) (simp add: knowledge_context_def)
  then show "build_context (guard_lib P L) = build_context L" by (intro ext) (simp add: build_context_def cong: option.case_cong if_cong)
  show "execution_window_open (guard_lib P L) = execution_window_open L" by (intro ext) (simp add: execution_window_open_def cong: branch_cong)
  have "model_next_tool_id (guard_lib P L) = model_next_tool_id L" by (intro ext) (simp add: model_next_tool_id_def cong: branch_cong)
  then show "select_result_aware_step (guard_lib P L) = select_result_aware_step L" 
    unfolding select_result_aware_step_def by (intro ext) (simp only: guard_lib_sel list_manifests_guard)
  show "definition_for_run (guard_lib P L) = definition_for_run L" by (intro ext) (simp add: definition_for_run_def cong: branch_cong)
qed

text \<open>One step: the tool is enabled, so every attempt is a confined call.\<close>

definition guard_step :: "call_guard \<Rightarrow> step_context \<Rightarrow> step_context" where
  "guard_step P C = C\<lparr>st_lib := guard_lib P (st_lib C)\<rparr>"

lemma effective_client_confined:
  "case normalize_client_id c of None \<Rightarrow> True | Some x \<Rightarrow> effective_client_id s p c = Some x"
  by (auto simp: effective_client_id_def split: option.split)

lemma attempt_once_guard:
  assumes "st_tool C \<in> set (ad_tools (st_def C))"
  shows "attempt_once (guard_step (confined (al_service (st_lib C)) (st_def C) (st_actor C)) C) k s = attempt_once C k s"
proof -
  let ?P = "confined (al_service (st_lib C)) (st_def C) (st_actor C)"
  have i: "invoke (guard_service ?P (al_service (st_lib C))) now (st_tool C) p (Some (st_actor C)) cf (ad_client (st_def C)) ex rq co s =
      invoke (al_service (st_lib C)) now (st_tool C) p (Some (st_actor C)) cf (ad_client (st_def C)) ex rq co s" for now p cf ex rq co
  proof (rule invoke_guard_call)
    fix a who
    assume "dget p ''_approval_completed'' = None" "registry_get (sm_registry (al_service (st_lib C))) (st_tool C) = Inr a" "Some (st_actor C) = Some who"
    then show "?P a \<lparr>cx_actor = who, cx_client = effective_client_id s p (ad_client (st_def C))\<rparr> p s"
      using assms effective_client_confined [where c = "ad_client (st_def C)" and s = s and p = p] by (auto simp: confined_def list_ex_iff split: option.splits)
  qed
  have p: "step_payload (guard_step ?P C) = step_payload C" by (simp add: step_payload_def guard_step_def Let_def cong: if_cong)
  have "step_document (guard_step ?P C) k pol pl r = step_document C k pol pl r" for pol pl r by (simp add: step_document_def guard_step_def)
  then have d: "attempt_outcome (guard_step ?P C) k pol pl x = attempt_outcome C k pol pl x" for pol pl x
    by (simp add: attempt_outcome_def guard_step_def cong: sum.case_cong if_cong)
  show ?thesis unfolding attempt_once_def Let_def p d by (simp add: guard_step_def i cong: sum.case_cong)
qed

lemma attempts_guard:
  assumes "st_tool C \<in> set (ad_tools (st_def C))"
  shows "attempts (guard_step (confined (al_service (st_lib C)) (st_def C) (st_actor C)) C) k records s = attempts C k records s"
  using assms
proof (induction C k records s rule: attempts.induct)
  case (1 C k records s)
  let ?G = "guard_step (confined (al_service (st_lib C)) (st_def C) (st_actor C)) C"
  have p: "st_policy ?G = st_policy C" by (simp add: guard_step_def)
  show ?case
  proof (subst (1 2) attempts.simps, unfold p attempt_once_guard [OF 1(2)], rule sbind_cong [OF refl])
    fix x u
    assume a: "attempt_once C k s = (Inr x, u)"
    obtain step r where x: "x = (step, r)" by (cases x)
    have "attempts ?G (k + 1) (records @ [step]) u = attempts C (k + 1) (records @ [step]) u"
      if "rs_status r \<notin> {''success'', ''pending_approval''}" "fp_mode (st_policy C) = ''retry'' \<and> int k < fp_retries (st_policy C)"
      by (rule 1(1) [OF a x [symmetric] refl refl that 1(2)])
    then show "(case x of (step, r) \<Rightarrow> \<lambda>t. let recs = records @ [step]; policy = st_policy C in
        if rs_status r \<in> {''success'', ''pending_approval''} then (Inr (recs, r, None), t)
        else if fp_mode policy = ''retry'' \<and> int k < fp_retries policy then attempts ?G (k + 1) recs t
        else if fp_mode policy = ''fallback'' then (Inr (recs, r, Some (Fallback (case fp_fallback policy of None \<Rightarrow> ''None'' | Some f \<Rightarrow> f))), t)
        else if fp_mode policy \<noteq> ''stop'' then (Inr (recs, r, Some (Terminal (fp_mode policy))), t)
        else (Inr (recs, r, None), t)) u =
      (case x of (step, r) \<Rightarrow> \<lambda>t. let recs = records @ [step]; policy = st_policy C in
        if rs_status r \<in> {''success'', ''pending_approval''} then (Inr (recs, r, None), t)
        else if fp_mode policy = ''retry'' \<and> int k < fp_retries policy then attempts C (k + 1) recs t
        else if fp_mode policy = ''fallback'' then (Inr (recs, r, Some (Fallback (case fp_fallback policy of None \<Rightarrow> ''None'' | Some f \<Rightarrow> f))), t)
        else if fp_mode policy \<noteq> ''stop'' then (Inr (recs, r, Some (Terminal (fp_mode policy))), t)
        else (Inr (recs, r, None), t)) u"
      unfolding x by (simp add: Let_def)
  qed
qed

definition guard_loop :: "call_guard \<Rightarrow> loop_context \<Rightarrow> loop_context" where
  "guard_loop P C = C\<lparr>lc_lib := guard_lib P (lc_lib C)\<rparr>"

lemma guard_loop_sel [simp]:
  "lc_lib (guard_loop P C) = guard_lib P (lc_lib C)" "lc_now (guard_loop P C) = lc_now C" "lc_def (guard_loop P C) = lc_def C"
  "lc_actor (guard_loop P C) = lc_actor C" "lc_role (guard_loop P C) = lc_role C" "lc_input (guard_loop P C) = lc_input C"
  by (simp_all add: guard_loop_def)

lemma loop_guard [simp]:
  "timed_out (guard_loop P C) = timed_out C" "loop_finish (guard_loop P C) = loop_finish C" "loop_fail (guard_loop P C) = loop_fail C"
  "executable_step (guard_loop P C) = executable_step C"
proof -
  show "loop_finish (guard_loop P C) = loop_finish C" by (intro ext) (simp add: loop_finish_def)
  then show "loop_fail (guard_loop P C) = loop_fail C" by (intro ext) (simp add: loop_fail_def)
qed (intro ext; simp add: timed_out_def executable_step_def cong: pyval.case_cong)+

abbreviation confined_loop :: "loop_context \<Rightarrow> loop_context" where
  "confined_loop C \<equiv> guard_loop (confined (al_service (lc_lib C)) (lc_def C) (lc_actor C)) C"

lemma step_attempts_guard:
  assumes "executable_step C step = Inr (t, p)"
  shows "attempts (step_of (confined_loop C) run step t p state i c) 0 [] s = attempts (step_of C run step t p state i c) 0 [] s"
proof -
  have "t \<in> set (ad_tools (lc_def C))" using assms by (auto simp: executable_step_def split: pyval.splits if_splits)
  then show ?thesis using attempts_guard [of "step_of C run step t p state i c" 0 "[]" s] by (simp add: step_of_def guard_step_def)
qed

text \<open>What the fixed loop does after the attempts of a step, with the rest of the loop as a parameter.\<close>

definition fixed_after ::
  "((nat \<times> pydict) list \<Rightarrow> string list \<Rightarrow> agent_run \<Rightarrow> pydict list \<Rightarrow> pydict \<Rightarrow> store \<Rightarrow> exec_result res \<times> store) \<Rightarrow>
   loop_context \<Rightarrow> nat \<Rightarrow> string \<Rightarrow> (nat \<times> pydict) list \<Rightarrow> string list \<Rightarrow> agent_run \<Rightarrow> pydict list \<Rightarrow> pydict \<Rightarrow>
   pydict list \<times> action_result \<times> directive option \<Rightarrow> store \<Rightarrow> exec_result res \<times> store" where
  "fixed_after rest C index tool_id queue attempted run steps state = (\<lambda>(records, r, dir) s1.
     let steps1 = steps @ records; state1 = with_step (lc_env C) state tool_id r steps1; tried = tool_id # attempted in
     if rs_status r = ''pending_approval''
     then loop_finish C run ''pending_approval'' (int index) (dset state1 ''pending_approval_step'' (PInt (int (length steps1) - 1))) s1
     else if rs_status r = ''success''
     then let state2 = dset state1 ''pending_approval_step'' PNone in
          sbind (tx (update_agent_run (lc_env C) (lc_now C) (ar_id run) ''queued'' (int index + 1) state2 s1) s1) (\<lambda>run1 s2.
          rest queue tried run1 steps1 state2 s2)
     else case dir of
       Some (Fallback f) \<Rightarrow>
         (case find (\<lambda>(i, step). has_tool f step) (enumerate 0 (ad_steps (lc_def C))) of
            None \<Rightarrow> loop_finish C run ''failed'' (int index) (blocked_fallback state1 f '' was already attempted or unavailable'') s1
          | Some next_step \<Rightarrow>
              if f \<in> set tried then loop_finish C run ''failed'' (int index) (blocked_fallback state1 f '' was already attempted or unavailable'') s1
              else let state2 = fallback_state state1 tool_id f in
                   sbind (tx (update_agent_run (lc_env C) (lc_now C) (ar_id run) ''queued'' (int index) state2 s1) s1) (\<lambda>run1 s2.
                   rest (next_step # queue) tried run1 steps1 state2 s2))
     | _ \<Rightarrow> loop_finish C run ''failed'' (int index) (terminal_state state1 dir) s1)"

lemma fixed_loop_step:
  "fixed_loop C n ((index, configured) # queue) attempted run steps state s =
     (if timed_out C n then loop_fail C run (int index) state ''agent execution timed out'' s
      else case executable_step C configured of
        Inl detail \<Rightarrow> loop_fail C run (int index) state detail s
      | Inr (tool_id, payload) \<Rightarrow>
          if tool_id \<in> set attempted then fixed_loop C (n + 1) queue attempted run steps state s
          else sbind (attempts (step_of C run configured tool_id payload state (int index) None) 0 [] s)
                 (fixed_after (fixed_loop C (n + 1)) C index tool_id queue attempted run steps state))"
  unfolding fixed_loop.simps(2) fixed_after_def by (rule refl)

lemma fixed_after_cong:
  assumes "rest queue (t # attempted) = rest' queue (t # attempted)"
    and "\<And>next_step. next_step \<in> set (enumerate 0 (ad_steps (lc_def C))) \<Longrightarrow> rest (next_step # queue) (t # attempted) = rest' (next_step # queue) (t # attempted)"
  shows "fixed_after rest C index t queue attempted run steps state = fixed_after rest' C index t queue attempted run steps state"
proof -
  have "rest (next_step # queue) (t # attempted) = rest' (next_step # queue) (t # attempted)"
    if "find P (enumerate 0 (ad_steps (lc_def C))) = Some next_step" for P next_step
    using find_SomeD [OF that] by (intro assms(2)) simp
  then show ?thesis unfolding fixed_after_def Let_def assms(1) by (intro ext) (simp cong: option.case_cong if_cong directive.case_cong split: prod.split)
qed

lemma fixed_after_guard [simp]: "fixed_after rest (guard_loop P C) = fixed_after rest C"
  unfolding fixed_after_def loop_guard guard_loop_sel guard_lib_sel guard_service_sel by (rule refl)

lemma fixed_loop_guard: "fixed_loop (confined_loop C) n queue attempted run steps state s = fixed_loop C n queue attempted run steps state s"
proof (induction "(card (open_tools C queue attempted), length queue)" arbitrary: n queue attempted run steps state s rule: wf_induct_rule [OF wf_lex_prod [OF wf_less_than wf_less_than]])
  case (1 queue attempted n run steps state s)
  show ?case
  proof (cases queue)
    case Nil
    then show ?thesis by (simp add: fixed_loop.simps)
  next
    case (Cons x rest)
    obtain index configured where q: "queue = (index, configured) # rest" using Cons by (cases x) auto
    show ?thesis
    proof (cases "executable_step C configured")
      case (Inl detail)
      then show ?thesis by (simp add: q fixed_loop_step)
    next
      case (Inr y)
      obtain t p where e: "executable_step C configured = Inr (t, p)" using Inr by (cases y) auto
      have skip: "fixed_loop (confined_loop C) (n + 1) rest attempted run steps state s = fixed_loop C (n + 1) rest attempted run steps state s"
        using open_tools_skip [of C rest attempted index configured] by (intro 1) (auto simp: q)
      have go: "fixed_loop (confined_loop C) (n + 1) queue' (t # attempted) = fixed_loop C (n + 1) queue' (t # attempted)"
        if "t \<notin> set attempted" "set queue' \<subseteq> set rest \<union> set (enumerate 0 (ad_steps (lc_def C)))" for queue'
        using open_tools_less [OF e that, of index] by (intro ext 1) (simp add: q)
      have "fixed_after (fixed_loop (confined_loop C) (n + 1)) C index t rest attempted run steps state =
          fixed_after (fixed_loop C (n + 1)) C index t rest attempted run steps state" if "t \<notin> set attempted"
        by (rule fixed_after_cong; rule go [OF that]) auto
      then show ?thesis unfolding q fixed_loop_step loop_guard fixed_after_guard e sum.case prod.case step_attempts_guard [OF e] skip
        by (simp cong: if_cong)
    qed
  qed
qed

text \<open>The same for the result-aware loop.\<close>

definition aware_after ::
  "(pydict option \<Rightarrow> agent_run \<Rightarrow> pydict list \<Rightarrow> pydict \<Rightarrow> store \<Rightarrow> exec_result res \<times> store) \<Rightarrow>
   loop_context \<Rightarrow> string \<Rightarrow> agent_run \<Rightarrow> pydict list \<Rightarrow> pydict \<Rightarrow>
   pydict list \<times> action_result \<times> directive option \<Rightarrow> store \<Rightarrow> exec_result res \<times> store" where
  "aware_after rest C tool_id run steps state = (\<lambda>(records, r, dir) s1.
     let d = lc_def C; ordinal = int (length steps); steps1 = steps @ records; state1 = with_step (lc_env C) state tool_id r steps1 in
     if rs_status r = ''pending_approval''
     then loop_finish C run ''pending_approval'' ordinal (dset state1 ''pending_approval_step'' (PInt (int (length steps1) - 1))) s1
     else if rs_status r = ''success''
     then let state2 = dset state1 ''pending_approval_step'' PNone in
          sbind (tx (update_agent_run (lc_env C) (lc_now C) (ar_id run) ''queued'' (int (length steps1)) state2 s1) s1) (\<lambda>run1 s2.
          rest None run1 steps1 state2 s2)
     else case dir of
       Some (Fallback f) \<Rightarrow>
         if int (length steps1) \<ge> ad_max_steps d
         then loop_finish C run ''failed'' ordinal (blocked_fallback state1 f '' exceeded the bounded step limit'') s1
         else (case find (has_tool f) (ad_steps d) of
            None \<Rightarrow> loop_finish C run ''failed'' ordinal (blocked_fallback state1 f '' was already attempted or unavailable'') s1
          | Some next_step \<Rightarrow>
              if list_ex (has_tool f) steps1
              then loop_finish C run ''failed'' ordinal (blocked_fallback state1 f '' was already attempted or unavailable'') s1
              else let state2 = fallback_state state1 tool_id f in
                   sbind (tx (update_agent_run (lc_env C) (lc_now C) (ar_id run) ''queued'' (int (length steps1)) state2 s1) s1) (\<lambda>run1 s2.
                   rest (Some next_step) run1 steps1 state2 s2))
     | _ \<Rightarrow> loop_finish C run ''failed'' ordinal (terminal_state state1 dir) s1)"

lemma aware_loop_step:
  "aware_loop C n fallback run steps state s =
     (let d = lc_def C; ordinal = int (length steps) in
      if ordinal \<ge> ad_max_steps d then loop_finish C run ''completed'' ordinal state s
      else if timed_out C n then loop_fail C run ordinal state ''agent execution timed out'' s
      else case (case fallback of Some st \<Rightarrow> Inr (Some st, ''deterministic-fallback'')
                 | None \<Rightarrow> select_result_aware_step (lc_lib C) d (ar_entity run) steps s) of
        Inl e \<Rightarrow> (Inl e, s)
      | Inr (None, mode) \<Rightarrow>
          loop_finish C run ''completed'' ordinal (dset state ''continuation'' (PDict [(''status'', PStr ''complete''), (''selection_mode'', PStr mode),
            (''reason'', PStr ''no remaining approved tool matched the bounded run'')])) s
      | Inr (Some configured, mode) \<Rightarrow>
      (case executable_step C configured of
         Inl detail \<Rightarrow> loop_fail C run ordinal state detail s
       | Inr (tool_id, payload) \<Rightarrow>
          sbind (attempts (step_of C run configured tool_id payload state ordinal (Some (PDict [(''selection_mode'', PStr mode),
                   (''reason'', PStr ''selected from the remaining reviewed tool catalog''),
                   (''lineage'', continuation_lineage (lc_env C) (if steps = [] then None else Some (last steps)))]))) 0 [] s)
            (aware_after (aware_loop C (n + 1)) C tool_id run steps state)))"
  unfolding aware_loop.simps [of C n] aware_after_def Let_def by (rule refl)

lemma aware_after_guard [simp]: "aware_after rest (guard_loop P C) = aware_after rest C"
  unfolding aware_after_def loop_guard guard_loop_sel guard_lib_sel guard_service_sel by (rule refl)

lemma aware_after_cong:
  assumes "\<And>fb run1 steps1. length steps < length steps1 \<Longrightarrow> rest fb run1 steps1 = rest' fb run1 steps1" "records \<noteq> []"
  shows "aware_after rest C t run steps state (records, r, dir) = aware_after rest' C t run steps state (records, r, dir)"
proof -
  have "rest fb run1 (steps @ records) = rest' fb run1 (steps @ records)" for fb run1 using assms by (intro assms(1)) simp
  then show ?thesis unfolding aware_after_def Let_def by (intro ext) (simp cong: option.case_cong if_cong directive.case_cong)
qed

lemma aware_loop_guard: "aware_loop (confined_loop C) n fallback run steps state s = aware_loop C n fallback run steps state s"
proof (induction "nat (ad_max_steps (lc_def C) - int (length steps))" arbitrary: n fallback run steps state s rule: less_induct)
  case (less steps n fallback run state s)
  have go: "sbind (attempts X 0 [] s) (aware_after (aware_loop (confined_loop C) (n + 1)) C t run steps state) =
      sbind (attempts X 0 [] s) (aware_after (aware_loop C (n + 1)) C t run steps state)" if "\<not> int (length steps) \<ge> ad_max_steps (lc_def C)" for X t
  proof (rule sbind_cong [OF refl])
    fix x u
    assume a: "attempts X 0 [] s = (Inr x, u)"
    obtain records r dir where x: "x = (records, r, dir)" by (cases x) auto
    have "records \<noteq> []" using attempts_extend [OF a [unfolded x]] by auto
    then have "aware_after (aware_loop (confined_loop C) (n + 1)) C t run steps state (records, r, dir) =
        aware_after (aware_loop C (n + 1)) C t run steps state (records, r, dir)"
      using that by (intro aware_after_cong ext less) auto
    then show "aware_after (aware_loop (confined_loop C) (n + 1)) C t run steps state x u = aware_after (aware_loop C (n + 1)) C t run steps state x u"
      by (simp only: x)
  qed
  show ?case
    unfolding aware_loop_step [of _ n] Let_def loop_guard guard_loop_sel lib_guard guard_lib_sel guard_service_sel aware_after_guard
    using go by (cases "steps = []") (auto simp: step_attempts_guard simp del: One_nat_def add_Suc_right split: sum.split option.split)
qed

lemma continue_run_guard:
  "continue_run (guard_lib (confined (al_service L) d actor) L) now d run actor start_step state actor_role =
     continue_run L now d run actor start_step state actor_role"
proof (rule ext)
  fix s
  let ?C = "\<lparr>lc_lib = L, lc_now = now, lc_def = d, lc_actor = actor, lc_role = actor_role, lc_input = input_object L (dget_or state ''input'' PNone)\<rparr>"
  have g: "\<lparr>lc_lib = guard_lib P L, lc_now = now, lc_def = d, lc_actor = actor, lc_role = actor_role, lc_input = input_object L (dget_or state ''input'' PNone)\<rparr> =
      guard_loop P ?C" for P by (simp add: guard_loop_def)
  show "continue_run (guard_lib (confined (al_service L) d actor) L) now d run actor start_step state actor_role s =
      continue_run L now d run actor start_step state actor_role s"
    unfolding continue_run_def lib_guard g using fixed_loop_guard [of ?C] aware_loop_guard [of ?C] by (simp add: Let_def)
qed

lemma run_agent_guard:
  "run_agent (guard_lib (confined (al_service L) d actor) L) now d entity_id actor input ctx retries retry_of r correlation s =
     run_agent L now d entity_id actor input ctx retries retry_of r correlation s"
  unfolding run_agent_def run_checks_def Let_def lib_guard guard_lib_sel guard_service_sel correlation_guard continue_run_guard by (rule refl)

text \<open>
  C18. Agent runs are confined: starting or retrying an agent calls no smart action other than the enabled tools of its definition, always as
  the actor of the run, in the tenant of the definition when it has one, and never marked as approved. Replacing every other
  call by an error changes nothing the run does, with any actions, any model choosing the steps and any stored state.
\<close>

theorem agent_calls_are_confined:
  "run_agent (guard_lib (confined (al_service L) d actor) L) now d entity_id actor input supervisor retries retry_of actor_role correlation s =
     run_agent L now d entity_id actor input supervisor retries retry_of actor_role correlation s \<and>
   retry_agent (guard_lib (confined (al_service L) d actor) L) now d run actor actor_role supervisor correlation s =
     retry_agent L now d run actor actor_role supervisor correlation s"
  unfolding retry_agent_def lib_guard run_agent_guard by (intro conjI refl)

end
