(* ===== verification/Agent_Types.thy ===== *)
theory Agent_Types
  imports Agent_Runs Redaction_Laws
begin

text \<open>
  The definitions the agent service stores. \<open>agent_wf\<close> states the limits every stored definition is within; creation and update
  keep it, although what they store is the redacted form of what they checked, because redaction keeps the shape of a value. The
  revisions of a definition are its versions, each exactly once.
\<close>

section \<open>What redaction keeps\<close>

fun is_str :: "pyval \<Rightarrow> bool" where
  "is_str (PStr _) = True"
| "is_str _ = False"

lemma is_str_iff: "is_str v \<longleftrightarrow> (\<exists>t. v = PStr t)"
  by (cases v) auto

text \<open>The value of the retries in a step: absent, a text, or a number from 0 to 3.\<close>

definition retry_value_ok :: "pyval option \<Rightarrow> bool" where
  "retry_value_ok v \<longleftrightarrow> (case v of None \<Rightarrow> True | Some (PStr _) \<Rightarrow> True | Some (PInt n) \<Rightarrow> 0 \<le> n \<and> n \<le> MAX_STEP_RETRIES | _ \<Rightarrow> False)"

definition step_policy_ok :: "pydict \<Rightarrow> bool" where
  "step_policy_ok st \<longleftrightarrow> (case dget st ''failure_policy'' of
     None \<Rightarrow> True | Some PNone \<Rightarrow> True | Some (PStr _) \<Rightarrow> True | Some (PDict p) \<Rightarrow> retry_value_ok (dget p ''max_retries'') | _ \<Rightarrow> False)"

lemma step_policy_retries: "step_policy_ok st \<Longrightarrow> 0 \<le> fp_retries (step_failure_policy st) \<and> fp_retries (step_failure_policy st) \<le> MAX_STEP_RETRIES"
  by (auto simp: step_policy_ok_def step_failure_policy_def dget_or_def retry_value_ok_def MAX_STEP_RETRIES_def split: option.splits pyval.splits)

lemma validated_policy: "validate_failure_policy configured enabled st = Inr e \<Longrightarrow> step_policy_ok st"
  by (auto simp: validate_failure_policy_def step_policy_ok_def retry_value_ok_def dget_or_def res_simps split: option.splits pyval.splits)

locale shape_keeping =
  fixes E :: env
  assumes redact_list: "redact_value E (PList xs) = PList (map (redact_value E) xs)"
    and redact_dict: "\<exists>f. redact_value E (PDict d) = PDict (map (\<lambda>(k, v). (k, f k v)) d) \<and> (\<forall>k v. f k v = redact_value E v \<or> is_str (f k v))"
    and redact_str: "is_str (redact_value E (PStr t))"
    and redact_int: "redact_value E (PInt i) = PInt i"
    and redact_none: "redact_value E PNone = PNone"
begin

lemma redacted_strings_length: "length (redacted_strings E xs) = length xs"
proof -
  have "string_values vs = map (\<lambda>v. case v of PStr x \<Rightarrow> x | _ \<Rightarrow> []) vs" if "list_all is_str vs" for vs
    using that by (induction vs) (auto simp: string_values_def is_str_iff)
  moreover have "list_all is_str (map (redact_value E) (map PStr xs))" by (simp add: list_all_iff redact_str)
  ultimately show ?thesis by (simp add: redacted_strings_def redact_list)
qed

lemma redacted_dicts_map: "redacted_dicts E ds = map (\<lambda>d. as_dict (redact_value E (PDict d))) ds"
  by (simp add: redacted_dicts_def redact_list)

lemma redacted_dicts_length: "length (redacted_dicts E ds) = length ds"
  by (simp add: redacted_dicts_map)

lemma redacted_field:
  obtains "dget (as_dict (redact_value E (PDict d))) k = map_option (redact_value E) (dget d k)" | t where "dget (as_dict (redact_value E (PDict d))) k = Some (PStr t)" "dget d k \<noteq> None"
proof -
  obtain f where f: "redact_value E (PDict d) = PDict (map (\<lambda>(k, v). (k, f k v)) d)" "\<And>k v. f k v = redact_value E v \<or> is_str (f k v)"
    using redact_dict by metis
  have "dget (map (\<lambda>(k, v). (k, f k v)) d) k = map_option (f k) (dget d k)"
    by (induction d) (auto simp: dget_Cons, simp add: dget_def)
  then show thesis using f that by (cases "dget d k") (auto simp: is_str_iff)
qed

lemma redacted_step_policy:
  assumes "step_policy_ok st" shows "step_policy_ok (as_dict (redact_value E (PDict st)))"
proof (rule redacted_field [of st "''failure_policy''"])
  assume f: "dget (as_dict (redact_value E (PDict st))) ''failure_policy'' = map_option (redact_value E) (dget st ''failure_policy'')"
  show ?thesis
  proof (cases "\<exists>p. dget st ''failure_policy'' = Some (PDict p)")
    case True
    then obtain p where p: "dget st ''failure_policy'' = Some (PDict p)" by blast
    obtain q where q: "redact_value E (PDict p) = PDict q" using redact_dict by metis
    have "retry_value_ok (dget p ''max_retries'')" using assms p by (simp add: step_policy_ok_def)
    moreover have "retry_value_ok (map_option (redact_value E) v)" if "retry_value_ok v" for v
    proof (cases v)
      case (Some w)
      show ?thesis using that redact_str [of "case w of PStr t \<Rightarrow> t"] unfolding Some is_str_iff
        by (cases w) (auto simp: retry_value_ok_def redact_int)
    qed (simp add: retry_value_ok_def)
    moreover have "retry_value_ok (Some (PStr t))" for t by (simp add: retry_value_ok_def)
    ultimately have "retry_value_ok (dget q ''max_retries'')"
      using redacted_field [of p "''max_retries''"] unfolding q as_dict.simps by metis
    then show ?thesis using f p q by (simp add: step_policy_ok_def)
  next
    case False
    show ?thesis
    proof (cases "dget st ''failure_policy''")
      case (Some w)
      then show ?thesis using assms f False redact_none redact_str [of "case w of PStr t \<Rightarrow> t"] unfolding is_str_iff
        by (cases w) (auto simp: step_policy_ok_def)
    qed (use f in \<open>simp add: step_policy_ok_def\<close>)
  qed
qed (simp add: step_policy_ok_def)

end

section \<open>Well-formed definitions\<close>

definition window_ok :: "string option \<Rightarrow> string option \<Rightarrow> bool" where
  "window_ok a b \<longleftrightarrow> (case (a, b) of
     (None, None) \<Rightarrow> True
   | (Some x, Some y) \<Rightarrow> x \<noteq> y \<and> length x = 5 \<and> length y = 5 \<and> parse_clock x \<noteq> None \<and> parse_clock y \<noteq> None
   | _ \<Rightarrow> False)"

definition agent_wf :: "agent_def \<Rightarrow> bool" where
  "agent_wf d \<longleftrightarrow>
     ad_name d \<noteq> [] \<and> length (ad_name d) \<le> 120 \<and> length (ad_description d) \<le> 4000 \<and>
     ad_trigger d \<in> set SUPPORTED_AGENT_TRIGGERS \<and> ad_entity_type d = SUPPORTED_ENTITY_TYPE \<and>
     ad_tools d \<noteq> [] \<and> length (ad_tools d) \<le> MAX_AGENT_STEPS \<and> length (ad_approval_tools d) \<le> MAX_AGENT_STEPS \<and>
     length (ad_approval_rules d) \<le> MAX_APPROVAL_RULES \<and> length (ad_depends d) \<le> MAX_AGENT_STEPS \<and> length (ad_context d) \<le> MAX_CONTEXT_SOURCES \<and>
     ad_steps d \<noteq> [] \<and> int (length (ad_steps d)) \<le> ad_max_steps d \<and> ad_max_steps d \<le> int MAX_AGENT_STEPS \<and>
     0 < ad_timeout d \<and> ad_timeout d \<le> MAX_AGENT_TIMEOUT_SECONDS \<and>
     (case ad_expiry d of None \<Rightarrow> True | Some n \<Rightarrow> 1 \<le> n \<and> n \<le> MAX_APPROVAL_EXPIRY_SECONDS) \<and>
     window_ok (ad_window_start d) (ad_window_end d) \<and> list_all step_policy_ok (ad_steps d)"

lemma normalize_rules_length: "normalize_rules e seen rs = Inr xs \<Longrightarrow> length xs = length rs"
  by (induction e seen rs arbitrary: xs rule: normalize_rules.induct) (auto simp: res_simps)

lemma normalized_window:
  assumes "normalized_execution_window L a b z = Inr (x, y, w)" shows "window_ok x y"
proof -
  have v: "length t = 5 \<and> parse_clock t \<noteq> None" if "normalized_window_value o' f = Inr t" for o' f t
    using that by (auto simp: normalized_window_value_def Let_def res_simps split: option.splits)
  show ?thesis
  proof (cases "a = None \<and> b = None")
    case True
    then show ?thesis using assms by (auto simp: normalized_execution_window_def res_simps window_ok_def)
  next
    case False
    then show ?thesis using assms v unfolding normalized_execution_window_def
      by (simp only: rbind_Inr_iff raise_if_Inr_iff if_False) (fastforce simp: window_ok_def)
  qed
qed

lemma check_policies: "validate_failure_policies steps tools = Inr u \<Longrightarrow> list_all step_policy_ok steps"
  unfolding list_all_iff validate_failure_policies_def rbind_Inr_iff
  by (elim exE conjE) (auto simp: list_all2_conv_all_nth in_set_conv_nth dest!: rmap_Inr_list_all2, metis validated_policy)

text \<open>What the checks of a definition and its normalisation give.\<close>

lemma validated_definition:
  assumes "validate_definition L d s = Inr u" "normalized_definition L d = Inr n"
  shows "agent_wf (n\<lparr>ad_steps := ad_steps d\<rparr>)" "ad_steps n = redacted_dicts (sm_env (al_service L)) (ad_steps d)"
    "ad_id n = ad_id d" "ad_version n = ad_version d"
proof -
  obtain a b z rules where w: "normalized_execution_window L (ad_window_start d) (ad_window_end d) (ad_window_zone d) = Inr (a, b, z)"
    and r: "normalize_approval_rules None (ad_approval_rules d) = Inr rules"
    and n: "n = d\<lparr>ad_name := strip (ad_name d), ad_description := strip (ad_description d),
            ad_filters := as_dict (redact_value (sm_env (al_service L)) (PDict (ad_filters d))), ad_steps := redacted_dicts (sm_env (al_service L)) (ad_steps d),
            ad_window_start := a, ad_window_end := b, ad_window_zone := z, ad_approval_rules := map rule_document rules\<rparr>"
    using assms(2) unfolding normalized_definition_def Let_def by (auto simp: rbind_Inr_iff)
  have "length rules \<le> MAX_APPROVAL_RULES"
    using r normalize_rules_length by (fastforce simp: normalize_approval_rules_def res_simps)
  moreover have "length (ad_depends d) \<le> MAX_AGENT_STEPS" if "validate_dependencies (ad_id d) (ad_depends d) (ad_client d) s = Inr u" for u
    using that unfolding validate_dependencies_def by (simp only: rbind_Inr_iff raise_if_Inr_iff) simp
  moreover have "length (ad_context d) \<le> MAX_CONTEXT_SOURCES" if "validate_context_sources (ad_context d) = Inr u" for u
    using that unfolding validate_context_sources_def by (simp only: rbind_Inr_iff raise_if_Inr_iff) simp
  ultimately show "agent_wf (n\<lparr>ad_steps := ad_steps d\<rparr>)"
    using assms(1) normalized_window [OF w] check_policies [of "ad_steps d" "ad_tools d"] length_strip_le [of "ad_description d"]
    unfolding validate_definition_def Let_def rbind_Inr_iff raise_if_Inr_iff
    by (elim exE conjE) (simp add: agent_wf_def n split: option.splits)
  show "ad_steps n = redacted_dicts (sm_env (al_service L)) (ad_steps d)" "ad_id n = ad_id d" "ad_version n = ad_version d"
    by (simp_all add: n)
qed

lemma optional_text_window: "window_ok a b \<Longrightarrow> window_ok (optional_text a) (optional_text b)"
  by (auto simp: window_ok_def optional_text_def split: option.splits list.splits)

context shape_keeping begin

lemma redacted_steps: "list_all step_policy_ok steps \<Longrightarrow> list_all step_policy_ok (redacted_dicts E steps)"
  by (auto simp: redacted_dicts_map list_all_iff redacted_step_policy)

lemma agent_row_wf: "agent_wf d \<Longrightarrow> agent_wf (agent_row E d)"
  using redacted_strings_length [of "ad_tools d"] redacted_strings_length [of "ad_approval_tools d"] redacted_strings_length [of "ad_depends d"]
    redacted_strings_length [of "ad_context d"] redacted_dicts_length [of "ad_steps d"]
  by (auto simp: agent_wf_def agent_row_def redacted_steps optional_text_window redact_list)

lemma redacted_steps_wf: "agent_wf (n\<lparr>ad_steps := steps\<rparr>) \<Longrightarrow> ad_steps n = redacted_dicts E steps \<Longrightarrow> agent_wf n"
  using redacted_dicts_length [of steps] by (auto simp: agent_wf_def redacted_steps)

end

section \<open>The stored definitions\<close>

datatype agent_op = Create_agent string agent_def | Update_agent string agent_def

text \<open>One request at a time: a creation, or an update of the stored definition with that identifier.\<close>

definition agent_step :: "agent_lib \<Rightarrow> time \<times> agent_op \<Rightarrow> store \<Rightarrow> (agent_def \<times> store) res" where
  "agent_step L c s =
     (case c of
        (now, Create_agent i request) \<Rightarrow> create_agent L now i request s
      | (now, Update_agent i request) \<Rightarrow>
          (case get_agent_definition i None s of
             None \<Rightarrow> Inl (KeyError i)
           | Some existing \<Rightarrow> update_agent L now existing request s))"

definition agent_versions :: "store \<Rightarrow> string \<Rightarrow> int list" where
  "agent_versions s i = map rv_version (filter (\<lambda>r. rv_agent r = i) (revisions s))"

text \<open>Definitions are well-formed and unique, and the revisions of each are its versions from the first on.\<close>

definition agents_ok :: "store \<Rightarrow> bool" where
  "agents_ok s \<longleftrightarrow> distinct (map ad_id (agent_defs s)) \<and>
     (\<forall>d\<in>set (agent_defs s). agent_wf d \<and> 1 \<le> ad_version d \<and> agent_versions s (ad_id d) = [1..ad_version d]) \<and>
     (\<forall>r\<in>set (revisions s). rv_agent r \<in> ad_id ` set (agent_defs s))"

lemma agents_okI:
  assumes "distinct (map ad_id (agent_defs s))" "\<And>d. d \<in> set (agent_defs s) \<Longrightarrow> agent_wf d \<and> 1 \<le> ad_version d \<and> agent_versions s (ad_id d) = [1..ad_version d]"
    "\<And>r. r \<in> set (revisions s) \<Longrightarrow> rv_agent r \<in> ad_id ` set (agent_defs s)"
  shows "agents_ok s"
  using assms by (simp add: agents_ok_def)

lemma agent_row_sel [simp]: "ad_id (agent_row E d) = ad_id d" "ad_version (agent_row E d) = ad_version d"
  by (simp_all add: agent_row_def)

lemma create_definition_Inr:
  assumes "create_agent_definition E now d s = Inr (x, t)"
  shows "find_agent s (ad_id d) = None" "agent_defs t = agent_defs s @ [agent_row E d]"
    "\<exists>r. revisions t = revisions s @ [r] \<and> rv_agent r = ad_id d \<and> rv_version r = ad_version d"
  using assms unfolding create_agent_definition_def Let_def
  by (auto simp: res_simps insert_agent_revision_def add_audit_row_def split: option.splits)

lemma update_definition_Inr:
  assumes "update_agent_definition E now d s = Inr (x, t)"
  shows "agent_defs t = update_where (\<lambda>r. ad_id r = ad_id d) (\<lambda>r. (agent_row E d)\<lparr>ad_created := ad_created r\<rparr>) (agent_defs s)"
    "\<exists>r. revisions t = revisions s @ [r] \<and> rv_agent r = ad_id d \<and> rv_version r = ad_version d"
  using assms unfolding update_agent_definition_def Let_def
  by (auto simp: res_simps insert_agent_revision_def add_audit_row_def split: option.splits)

lemma find_agent_None: "find_agent s i = None \<longleftrightarrow> i \<notin> ad_id ` set (agent_defs s)"
  by (auto simp: find_agent_def find_None_iff)

lemma agent_versions_append: "revisions t = revisions s @ [r] \<Longrightarrow>
    agent_versions t i = agent_versions s i @ (if rv_agent r = i then [rv_version r] else [])"
  by (simp add: agent_versions_def)

lemma agent_versions_none: "agents_ok s \<Longrightarrow> i \<notin> ad_id ` set (agent_defs s) \<Longrightarrow> agent_versions s i = []"
  by (auto simp: agents_ok_def agent_versions_def filter_empty_conv)

lemma create_agent_ok:
  assumes E: "shape_keeping (sm_env (al_service L))" and s: "agents_ok s" and c: "create_agent L now i request s = Inr (x, t)"
  shows "agents_ok t"
proof -
  let ?E = "sm_env (al_service L)" and ?d = "request\<lparr>ad_id := i, ad_version := 1, ad_created := now, ad_updated := now\<rparr>"
  obtain u n where v: "validate_definition L ?d s = Inr u" "normalized_definition L ?d = Inr n"
    and st: "create_agent_definition ?E now (n\<lparr>ad_client := normalize_client_id (ad_client n)\<rparr>) s = Inr (x, t)"
    using c unfolding create_agent_def Let_def by (auto simp: rbind_Inr_iff)
  note w = validated_definition [OF v]
  let ?n = "n\<lparr>ad_client := normalize_client_id (ad_client n)\<rparr>"
  have n: "ad_id ?n = i" "ad_version ?n = 1" using w(3,4) by simp_all
  have "agent_wf n" by (rule shape_keeping.redacted_steps_wf [OF E w(1,2)])
  then have wf: "agent_wf (agent_row ?E ?n)" by (intro shape_keeping.agent_row_wf [OF E]) (simp add: agent_wf_def)
  note t = create_definition_Inr [OF st, unfolded n]
  obtain r where r: "revisions t = revisions s @ [r]" "rv_agent r = i" "rv_version r = 1" using t(3) by blast
  have new: "i \<notin> ad_id ` set (agent_defs s)" using t(1) find_agent_None by blast
  show ?thesis
  proof (rule agents_okI)
    show "distinct (map ad_id (agent_defs t))" using s new n by (simp add: t(2) agents_ok_def)
    show "agent_wf d \<and> 1 \<le> ad_version d \<and> agent_versions t (ad_id d) = [1..ad_version d]" if "d \<in> set (agent_defs t)" for d
    proof (cases "d \<in> set (agent_defs s)")
      case True
      then have "ad_id d \<noteq> i" using new by auto
      then show ?thesis using True s r by (simp add: agent_versions_append [OF r(1)] agents_ok_def)
    next
      case False
      then have "d = agent_row ?E ?n" using that by (simp add: t(2))
      then show ?thesis using wf n r agent_versions_none [OF s new] by (simp add: agent_versions_append [OF r(1)])
    qed
    show "rv_agent q \<in> ad_id ` set (agent_defs t)" if "q \<in> set (revisions t)" for q
      using that s r n by (auto simp: t(2) agents_ok_def)
  qed
qed

lemma update_agent_ok:
  assumes E: "shape_keeping (sm_env (al_service L))" and s: "agents_ok s" and e: "get_agent_definition i None s = Some existing"
    and c: "update_agent L now existing request s = Inr (x, t)"
  shows "agents_ok t"
proof -
  let ?E = "sm_env (al_service L)" and ?d = "request\<lparr>ad_id := ad_id existing, ad_client := ad_client existing, ad_version := ad_version existing + 1,
                      ad_created := ad_created existing, ad_updated := now\<rparr>"
  obtain u n where v: "validate_definition L ?d s = Inr u" "normalized_definition L ?d = Inr n"
    and st: "update_agent_definition ?E now n s = Inr (x, t)"
    using c unfolding update_agent_def Let_def by (auto simp: rbind_Inr_iff)
  note w = validated_definition [OF v]
  have ex: "existing \<in> set (agent_defs s)" "ad_id existing = i"
    using e by (auto simp: get_agent_definition_def find_agent_def normalize_None dest: find_SomeD split: option.splits)
  then have old: "agent_versions s i = [1..ad_version existing]" "1 \<le> ad_version existing" using s by (auto simp: agents_ok_def)
  have n: "ad_id n = i" "ad_version n = ad_version existing + 1" using w(3,4) ex by simp_all
  have wf: "agent_wf (agent_row ?E n)" by (intro shape_keeping.agent_row_wf [OF E] shape_keeping.redacted_steps_wf [OF E w(1,2)])
  note t = update_definition_Inr [OF st, unfolded n]
  obtain r where r: "revisions t = revisions s @ [r]" "rv_agent r = i" "rv_version r = ad_version existing + 1" using t(2) by blast
  have ids: "map ad_id (agent_defs t) = map ad_id (agent_defs s)" unfolding t(1) by (rule map_update_where) (simp add: n)
  then have id_set: "ad_id ` set (agent_defs t) = ad_id ` set (agent_defs s)" by (metis list.set_map)
  show ?thesis
  proof (rule agents_okI)
    show "distinct (map ad_id (agent_defs t))" using s by (simp add: ids agents_ok_def)
    show "agent_wf d \<and> 1 \<le> ad_version d \<and> agent_versions t (ad_id d) = [1..ad_version d]" if d: "d \<in> set (agent_defs t)" for d
    proof (cases "ad_id d = i")
      case True
      obtain d0 where d0: "d = (if ad_id d0 = i then (agent_row ?E n)\<lparr>ad_created := ad_created d0\<rparr> else d0)"
        using d unfolding t(1) set_update_where by blast
      then have "d = (agent_row ?E n)\<lparr>ad_created := ad_created d0\<rparr>" using True by (cases "ad_id d0 = i") simp_all
      then show ?thesis using wf n r old by (simp add: agent_versions_append [OF r(1)] agent_wf_def upto_rec2)
    next
      case False
      then have "d \<in> set (agent_defs s)" using d n unfolding t(1) set_update_where by (auto split: if_splits)
      then show ?thesis using False s r by (simp add: agent_versions_append [OF r(1)] agents_ok_def)
    qed
    show "rv_agent q \<in> ad_id ` set (agent_defs t)" if "q \<in> set (revisions t)" for q
      using that s r imageI [OF ex(1), of ad_id] ex(2) by (auto simp: id_set agents_ok_def)
  qed
qed

lemma agent_step_ok:
  assumes "shape_keeping (sm_env (al_service L))" "agents_ok s" "agent_step L c s = Inr (x, t)"
  shows "agents_ok t"
proof -
  obtain now op where c: "c = (now, op)" by (cases c)
  show ?thesis using assms(3) create_agent_ok [OF assms(1,2)] update_agent_ok [OF assms(1,2)] unfolding c agent_step_def
    by (cases op) (auto split: option.splits)
qed

section \<open>The redaction of the code\<close>

lemma redact_mapping_map: "redact_mapping d = map (\<lambda>(k, v). (k, if is_sensitive_key k then PStr REDACTED else redact_json v)) d"
  by (induction d) auto

lemma redact_list_map: "redact_list xs = map redact_json xs"
  by (induction xs) auto

interpretation redaction: shape_keeping "code_env h e" for h e
proof unfold_locales
  fix d
  show "\<exists>f. redact_value (code_env h e) (PDict d) = PDict (map (\<lambda>(k, v). (k, f k v)) d) \<and>
      (\<forall>k v. f k v = redact_value (code_env h e) v \<or> is_str (f k v))"
    by (rule exI [of _ "\<lambda>k v. if is_sensitive_key k then PStr REDACTED else redact_json v"]) (simp add: redact_mapping_map)
qed (simp_all add: redact_list_map)

text \<open>The service with the redaction of the code.\<close>

definition code_lib :: "(string \<Rightarrow> string) \<Rightarrow> (err \<Rightarrow> string) \<Rightarrow> agent_lib \<Rightarrow> agent_lib" where
  "code_lib h e L = L\<lparr>al_service := (al_service L)\<lparr>sm_env := code_env h e\<rparr>\<rparr>"

interpretation agents: guarded_ops "agent_step (code_lib h e L)" agents_ok for h e L
proof
  fix c s r t
  assume "agents_ok s" "agent_step (code_lib h e L) c s = Inr (r, t)"
  moreover have "shape_keeping (sm_env (al_service (code_lib h e L)))" by (simp add: code_lib_def redaction.shape_keeping_axioms)
  ultimately show "agents_ok t" by (rule agent_step_ok [rotated])
qed

text \<open>
  C20. Stored agent definitions stay well-formed: after every sequence of creations and updates, refused ones included, each stored
  definition is within the limits of the service (1 to 8 steps covered by its step limit, at most 3 retries a step, a timeout of at most
  two minutes, a proper execution window, bounded texts, tools, rules and dependencies), although the store keeps a redacted form
  of what was checked; identifiers are unique; and the revisions kept for a definition are exactly its versions, from 1 to the current one.
\<close>

theorem agent_definitions_well_formed:
  assumes "agents_ok s" shows "agents_ok (run_ops (agent_step (code_lib digest show L)) ops s)"
  by (rule agents.run_ops_keeps [OF assms])

definition demo_tools :: registry where
  "demo_tools = [(''read'', \<lparr>ac_manifest = \<lparr>mf_id = ''read'', mf_title = ''Read'', mf_description = [], mf_requires_approval = False,
     mf_required_role = ''technician'', mf_expiry = 60\<rparr>, ac_run = (\<lambda>ctx p s. (Inr (failed []), s))\<rparr>)]"

definition demo_agents :: agent_lib where
  "demo_agents = \<lparr>al_service = \<lparr>sm_env = plain_env, sm_registry = demo_tools, sm_recorder = (\<lambda>x xs. xs), sm_metadata = [], sm_valid_correlation = (\<lambda>c. True)\<rparr>,
     al_zone = (\<lambda>z. Inr (\<lambda>t. t mod 1440)), al_elapsed = (\<lambda>n. 0), al_loads = (\<lambda>t. None), al_retrieve = (\<lambda>k s. Inr []), al_select = None\<rparr>"

definition demo_agent_request :: agent_def where
  "demo_agent_request = (plain_agent ''x'' [])\<lparr>ad_tools := [''read''], ad_steps := [[(''tool_id'', PStr ''read''),
     (''failure_policy'', PDict [(''mode'', PStr ''retry''), (''max_retries'', PInt 2)])]], ad_max_steps := 1\<rparr>"

lemma demo_agent_created: "length (agent_defs (run_ops (agent_step (code_lib id (\<lambda>_. []) demo_agents)) [(1, Create_agent ''a'' demo_agent_request)] empty_store)) = 1"
proof -
  let ?L = "code_lib id (\<lambda>_. []) demo_agents" and ?d = "demo_agent_request\<lparr>ad_id := ''a'', ad_version := 1, ad_created := 1, ad_updated := 1\<rparr>"
  have v: "validate_definition ?L ?d empty_store = Inr ()" by code_simp
  have "\<not> isl (normalized_definition ?L ?d)" by code_simp
  then obtain n where nd: "normalized_definition ?L ?d = Inr n" by (cases "normalized_definition ?L ?d") simp_all
  have n: "normalize_client_id None = None" by code_simp
  have "\<exists>x t. create_agent_definition E now d empty_store = Inr (x, t) \<and> length (agent_defs t) = 1" for E now d
    by (simp add: create_agent_definition_def insert_agent_revision_def find_agent_def get_agent_definition_def n add_audit_row_def Let_def empty_store_def)
  then obtain x t where "create_agent_definition (sm_env (al_service ?L)) 1 (n\<lparr>ad_client := normalize_client_id (ad_client n)\<rparr>) empty_store = Inr (x, t)" "length (agent_defs t) = 1"
    by blast
  then show ?thesis using nd v by (simp add: agent_step_def create_agent_def Let_def apply_op_def)
qed

lemma agent_definitions_well_formed_witness:
  "agents_ok (run_ops (agent_step (code_lib id (\<lambda>_. []) demo_agents)) [(1, Create_agent ''a'' demo_agent_request)] empty_store) \<and>
   length (agent_defs (run_ops (agent_step (code_lib id (\<lambda>_. []) demo_agents)) [(1, Create_agent ''a'' demo_agent_request)] empty_store)) = 1"
proof
  have o: "agents_ok empty_store" by (simp add: agents_ok_def empty_store_def)
  show "agents_ok (run_ops (agent_step (code_lib id (\<lambda>_. []) demo_agents)) [(1, Create_agent ''a'' demo_agent_request)] empty_store)"
    by (rule agent_definitions_well_formed [OF o])
qed (rule demo_agent_created)

end
