(* ===== verification/Agent_Bounds.thy ===== *)
theory Agent_Bounds
  imports Agent_Laws Agent_Types
begin

text \<open>
  How much a run of an agent does. Each attempt of a step invokes its tool once; the fixed loop attempts a tool once and the
  result-aware loop stops at the step limit, so the invocations of a run are bounded by the limits of its definition. A run that
  returns has recorded the status it reports.
\<close>

section \<open>Invocations\<close>

text \<open>Every invocation stores at most one run of a smart action.\<close>

definition adds :: "nat \<Rightarrow> store \<Rightarrow> store \<Rightarrow> bool" where
  "adds n s t \<longleftrightarrow> length (smart_runs t) \<le> length (smart_runs s) + n"

lemma adds_trans: "adds m s t \<Longrightarrow> adds n t u \<Longrightarrow> adds (m + n) s u"
  by (simp add: adds_def)

lemma adds_mono: "adds m s t \<Longrightarrow> m \<le> n \<Longrightarrow> adds n s t"
  by (simp add: adds_def)

lemma adds_same: "smart_runs t = smart_runs s \<Longrightarrow> adds n s t"
  by (simp add: adds_def)

lemma get_approval_adds: "get_approval_request E now i s = (v, t) \<Longrightarrow> adds 0 s t"
  by (auto simp: get_approval_request_def expire_approval_request_def Let_def audit_defs adds_def length_update_where split: option.splits if_splits)

lemma create_pending_adds:
  assumes "create_pending_smart_action E now a ac d out ev p cl n s = Inr (x, t)" shows "adds 1 s t"
proof -
  from assms obtain e where r: "(let (run, s1) = insert_pending E now a ac d out ev p (normalize_client_id cl) e s in
     case get_approval_request E now (approvals_seq s1) s1 of
       (None, t) \<Rightarrow> Inl (RuntimeError ''pending smart action was not persisted'')
     | (Some approval, t) \<Rightarrow> Inr ((run, approval), t)) = Inr (x, t)"
    unfolding create_pending_smart_action_def by (simp only: rbind_Inr_iff) blast
  obtain run u where i: "insert_pending E now a ac d out ev p (normalize_client_id cl) e s = (run, u)" by fastforce
  obtain v w where g: "get_approval_request E now (approvals_seq u) u = (v, w)" by fastforce
  have "w = t" using r by (cases v) (simp_all add: i g)
  moreover have "adds 1 s u" using i by (auto simp: insert_pending_def Let_def audit_defs adds_def)
  ultimately show ?thesis using get_approval_adds [OF g] by (simp add: adds_def)
qed

lemma persist_result_adds: "persist_result V now a ac d res co cl p cr s = (r, t) \<Longrightarrow> adds 1 s t"
  by (auto simp: persist_result_def create_smart_action_run_def Let_def frame adds_def)

lemma refuse_actor_adds: "refuse_actor V now a d cl p cr s = (r, t) \<Longrightarrow> adds 1 s t"
  by (auto simp: refuse_actor_def create_smart_action_run_def Let_def frame adds_def)

lemma request_approval_adds:
  assumes k: "keeps_records V" "registry_get (sm_registry V) i = Inr a" and "request_approval V now a ac d co c n p cr s = (y, u)"
  shows "adds 1 s u"
proof -
  obtain draft s1 where d: "safe_run (sm_env V) a \<lparr>cx_actor = ac, cx_client = c\<rparr> p s = (draft, s1)" by fastforce
  have "adds 1 s1 u"
  proof (cases "rs_status draft = ''success''")
    case True
    let ?c = "create_pending_smart_action (sm_env V) now (mf_id (ac_manifest a)) ac d (as_dict (redact_value (sm_env V)
      (PDict (dset (rs_output draft) ''approval_required'' (PBool True))))) (rs_evidence draft)
      [(''action_id'', PStr (mf_id (ac_manifest a))), (''payload'', PDict p)] c n s1"
    show ?thesis
    proof (cases ?c)
      case (Inl e)
      then show ?thesis using assms(3) by (simp add: request_approval_def d True Let_def adds_same)
    next
      case (Inr w)
      then show ?thesis using assms(3) create_pending_adds [of _ now _ ac d _ _ _ c n s1]
        by (cases w) (auto simp: request_approval_def d True Let_def adds_def frame)
    qed
  next
    case False
    then show ?thesis using assms(3)
      by (auto simp: request_approval_def d Let_def split: prod.splits dest: persist_result_adds)
  qed
  then show ?thesis using safe_run_keeps [OF k d] by (simp add: adds_def)
qed

lemma invoke_adds:
  assumes "keeps_records V" "invoke V now i p actor co cl ex rq cr s = (x, t)"
  shows "adds 1 s t"
proof (cases "registry_get (sm_registry V) i")
  case (Inr a)
  have "adds 1 s u" if "safe_run E a ctx p s = (r, s1)" "persist_result V now m w d r co c p cr s1 = (y, u)" for E ctx r s1 m w d c y u
    using safe_run_keeps [OF assms(1) Inr that(1)] persist_result_adds [OF that(2)] by (simp add: adds_def)
  then show ?thesis using assms(2) refuse_actor_adds request_approval_adds [OF assms(1) Inr]
    by (auto simp: invoke_def Inr Let_def adds_same split: if_splits option.splits sum.splits prod.splits)
qed (use assms(2) in \<open>auto simp: invoke_def adds_same split: if_splits\<close>)

lemma attempt_once_adds:
  assumes "keeps_records (al_service (st_lib C))" "attempt_once C k s = (x, t)" shows "adds 1 s t"
proof (cases "approval_policy_for_ticket (st_def C) (st_tool C) (ar_entity (st_run C)) (st_role C) s")
  case (Inl e)
  then show ?thesis using assms(2) by (simp add: attempt_once_def Let_def adds_same)
next
  case (Inr policy)
  let ?i = "invoke (al_service (st_lib C)) (st_now C) (st_tool C) (step_payload C) (Some (st_actor C)) False (ad_client (st_def C))
    (ad_expiry (st_def C)) (policy \<noteq> None) (correlation_of (al_service (st_lib C)) (st_state C)) s"
  have "t = snd ?i" using assms(2) Inr by (auto simp: attempt_once_def attempt_outcome_def Let_def split: sum.splits)
  then show ?thesis using invoke_adds [OF assms(1)] by (metis prod.collapse)
qed

text \<open>The attempts of a step: one more than the retries at most, and one for each record.\<close>

definition attempts_bounded :: "step_context \<Rightarrow> nat \<Rightarrow> pydict list \<Rightarrow> store \<Rightarrow> (pydict list \<times> action_result \<times> directive option) res \<times> store \<Rightarrow> bool" where
  "attempts_bounded C k records s w \<longleftrightarrow> adds (Suc (nat (fp_retries (st_policy C) - int k))) s (snd w) \<and>
     (\<forall>recs r dir. fst w = Inr (recs, r, dir) \<longrightarrow> adds (length recs - length records) s (snd w) \<and>
        length recs \<le> length records + Suc (nat (fp_retries (st_policy C) - int k)))"

lemma attempts_bound:
  assumes "keeps_records (al_service (st_lib C))"
  shows "attempts_bounded C k records s (attempts C k records s)"
  using assms
proof (induction C k records s rule: attempts.induct)
  case (1 C k records s)
  let ?n = "fp_retries (st_policy C)" and ?o = "attempts C k records s"
  obtain y u where p: "attempt_once C k s = (y, u)" by fastforce
  have u: "adds 1 s u" using attempt_once_adds [OF 1(2) p] .
  show ?case
  proof (cases y)
    case (Inl e)
    then show ?thesis using u by (subst attempts.simps) (simp add: p attempts_bounded_def adds_def)
  next
    case (Inr z)
    obtain step q where z: "z = (step, q)" by (cases z)
    note a = p [unfolded Inr z]
    show ?thesis
    proof (cases "rs_status q \<notin> {''success'', ''pending_approval''} \<and> fp_mode (st_policy C) = ''retry'' \<and> int k < ?n")
      case True
      have "?o = attempts C (k + 1) (records @ [step]) u" using True by (subst attempts.simps) (simp add: a Let_def)
      then have b: "attempts_bounded C (k + 1) (records @ [step]) u ?o" using 1(1) [OF a refl refl refl _ _ 1(2)] True by simp
      have k: "int k < ?n" using True by simp
      have n: "nat (?n - int k) = Suc (nat (?n - int (k + 1)))" using k by arith
      have "length (records @ [step]) < length recs" if "fst ?o = Inr (recs, r, dir)" for recs r dir
        using attempts_extend [of C "k + 1" "records @ [step]" u recs r dir "snd ?o"] that \<open>?o = attempts C (k + 1) (records @ [step]) u\<close> by (metis prod.collapse)
      then show ?thesis using b u unfolding attempts_bounded_def n adds_def by fastforce
    next
      case False
      then have "snd ?o = u \<and> (\<forall>recs r dir. fst ?o = Inr (recs, r, dir) \<longrightarrow> recs = records @ [step])"
        by (subst (1 2) attempts.simps) (auto simp: a Let_def)
      then show ?thesis using u by (auto simp: attempts_bounded_def adds_def)
    qed
  qed
qed

section \<open>The recorded result\<close>

definition run_statuses :: "string set" where
  "run_statuses = {''completed'', ''failed'', ''pending_approval''}"

text \<open>The result reports a status the run has in the store.\<close>

definition reported :: "int \<Rightarrow> exec_result \<Rightarrow> store \<Rightarrow> bool" where
  "reported i r t \<longleftrightarrow> xr_run r = i \<and> xr_status r \<in> run_statuses \<and> (\<exists>run\<in>set (agent_runs t). ar_id run = i \<and> ar_status run = xr_status r)"

definition run_ends :: "nat \<Rightarrow> int \<Rightarrow> store \<Rightarrow> exec_result res \<times> store \<Rightarrow> bool" where
  "run_ends n i s w \<longleftrightarrow> adds n s (snd w) \<and> (\<forall>r. fst w = Inr r \<longrightarrow> reported i r (snd w))"

lemma run_ends_Inl: "adds n s t \<Longrightarrow> run_ends n i s (Inl e, t)"
  by (simp add: run_ends_def)

lemma run_ends_later: "adds m s u \<Longrightarrow> run_ends n i u w \<Longrightarrow> m + n \<le> k \<Longrightarrow> run_ends k i s w"
  unfolding run_ends_def by (meson adds_mono adds_trans)

lemma update_agent_run_Inr:
  assumes "update_agent_run E now i st k state s = Inr (run, t)"
  shows "smart_runs t = smart_runs s" "ar_id run = i" "ar_status run = st" "\<exists>r\<in>set (agent_runs t). ar_id r = i \<and> ar_status r = st"
proof -
  let ?f = "\<lambda>r. r\<lparr>ar_status := st, ar_step := k, ar_state := Some (json_dumps E state), ar_finished := now\<rparr>"
  let ?s = "s\<lparr>agent_runs := update_where (\<lambda>r. ar_id r = i) ?f (agent_runs s)\<rparr>"
  have t: "t = ?s" and g: "get_agent_run i (Scope AllClients) ?s = Inr (Some run)"
    using assms by (auto simp: update_agent_run_def Let_def res_simps split: option.splits)
  then obtain r where r: "find (\<lambda>r. ar_id r = i) (agent_runs ?s) = Some r" "run = r\<lparr>ar_client := normalize_client_id (ar_client r)\<rparr>"
    by (auto simp: get_agent_run_def res_simps client_scope_predicate_def)
  then have m: "r \<in> set (agent_runs ?s)" "ar_id r = i" using find_SomeD [OF r(1)] by simp_all
  from m(1) obtain r0 where "r = (if ar_id r0 = i then ?f r0 else r0)" by (auto simp: set_update_where simp del: if_image_distrib)
  then have "ar_status r = st" using m(2) by (cases "ar_id r0 = i") simp_all
  then show "ar_id run = i" "ar_status run = st" "\<exists>r\<in>set (agent_runs t). ar_id r = i \<and> ar_status r = st"
    using m r(2) unfolding t by (simp, simp, blast)
  show "smart_runs t = smart_runs s" by (simp add: t)
qed

lemma agent_result_Inr: "agent_result E run = Inr r \<Longrightarrow> xr_run r = ar_id run \<and> xr_status r = ar_status run"
  by (auto simp: agent_result_def Let_def res_simps)

lemma recorded_frame [frame]:
  "smart_runs (record_execution V x s) = smart_runs s" "agent_runs (record_execution V x s) = agent_runs s"
  "agent_runs (add_audit_event E now ty su de cl ap s) = agent_runs s"
  by (simp_all add: record_execution_def audit_defs)

lemma finish_ends:
  assumes "status \<in> run_statuses" shows "run_ends 0 (ar_id run) s (finish L now d run status k state actor s)"
proof -
  let ?E = "sm_env (al_service L)"
  let ?r = "as_dict (redact_value ?E (PDict state))"
  let ?u = "update_agent_run ?E now (ar_id run) status k (dset ?r ''final_result'' (normalized_final_result ?E ?r status)) s"
  show ?thesis
  proof (cases ?u)
    case (Inl e)
    then show ?thesis by (simp add: finish_def Let_def run_ends_Inl adds_same)
  next
    case (Inr z)
    obtain final s1 where z: "z = (final, s1)" by (cases z)
    note u = update_agent_run_Inr [OF Inr [unfolded z]]
    obtain t where t: "finish L now d run status k state actor s = (agent_result ?E final, t)" "smart_runs t = smart_runs s1" "agent_runs t = agent_runs s1"
      by (simp add: finish_def Let_def Inr z frame)
    show ?thesis unfolding t(1) using u t(2,3) assms agent_result_Inr by (fastforce simp: run_ends_def adds_def reported_def)
  qed
qed

lemma loop_ends:
  "status \<in> run_statuses \<Longrightarrow> run_ends n (ar_id run) s (loop_finish C run status k state s)"
  "run_ends n (ar_id run) s (loop_fail C run k state detail s)"
proof -
  show f: "status \<in> run_statuses \<Longrightarrow> run_ends n (ar_id run) s (loop_finish C run status k state s)" for status state
    unfolding loop_finish_def by (rule run_ends_later [of 0, OF _ finish_ends]) (simp_all add: adds_def)
  show "run_ends n (ar_id run) s (loop_fail C run k state detail s)"
    unfolding loop_fail_def by (rule f) (simp add: run_statuses_def)
qed

lemma update_continue:
  assumes "\<And>run1 s2. ar_id run1 = ar_id run \<Longrightarrow> run_ends n (ar_id run) s2 (f run1 s2)"
  shows "run_ends n (ar_id run) s (sbind (tx (update_agent_run E now (ar_id run) st k state s) s) f)"
proof (cases "update_agent_run E now (ar_id run) st k state s")
  case (Inr z)
  obtain run1 s2 where z: "z = (run1, s2)" by (cases z)
  note u = update_agent_run_Inr [OF Inr [unfolded z]]
  then have "adds 0 s s2" by (simp add: adds_same)
  then show ?thesis using run_ends_later [OF _ assms [of run1 s2]] u by (simp add: Inr z)
qed (simp add: run_ends_Inl adds_same)

section \<open>The loops\<close>

text \<open>No step retries more often than \<open>R\<close>.\<close>

definition retries_within :: "nat \<Rightarrow> pydict list \<Rightarrow> bool" where
  "retries_within R steps \<longleftrightarrow> (\<forall>st\<in>set steps. fp_retries (step_failure_policy st) \<le> int R)"

lemma step_attempts_bound:
  assumes "keeps_records (al_service (lc_lib C))" "fp_retries (step_failure_policy step) \<le> int R" "attempts (step_of C run step t p state i c) 0 [] s = (x, u)"
  shows "adds (Suc R) s u" "x = Inr (recs, r, dir) \<Longrightarrow> adds (length recs) s u \<and> recs \<noteq> [] \<and> length recs \<le> Suc R"
  using attempts_bound [of "step_of C run step t p state i c" 0 "[]" s] attempts_extend [of "step_of C run step t p state i c" 0 "[]" s recs r dir u] assms
  by (auto simp: attempts_bounded_def step_of_def intro: adds_mono)

lemma run_ends_sbind:
  assumes "p = (x, u)" "adds m s u" "\<And>y. x = Inr y \<Longrightarrow> run_ends n i u (f y u)"
  shows "run_ends (m + n) i s (sbind p f)"
proof (cases x)
  case (Inl e)
  then show ?thesis using assms by (simp add: run_ends_Inl adds_mono)
next
  case (Inr y)
  then show ?thesis using assms run_ends_later [of m s u n i] by simp
qed

lemma fixed_after_ends:
  assumes "\<And>queue' run1 steps1 state2 s2. set queue' \<subseteq> set queue \<union> set (enumerate 0 (ad_steps (lc_def C))) \<Longrightarrow> ar_id run1 = ar_id run \<Longrightarrow>
      run_ends n (ar_id run) s2 (rest queue' (t # attempted) run1 steps1 state2 s2)"
  shows "run_ends n (ar_id run) s (fixed_after rest C index t queue attempted run steps state x s)"
proof -
  obtain records r dir where x: "x = (records, r, dir)" by (cases x)
  have in_steps: "(a, b) \<in> set (enumerate 0 (ad_steps (lc_def C)))" if "find P (enumerate 0 (ad_steps (lc_def C))) = Some (a, b)" for P a b
    using find_SomeD [OF that] by simp
  show ?thesis unfolding x fixed_after_def prod.case Let_def
    by (auto simp: run_statuses_def split: option.split directive.split dest: in_steps intro!: loop_ends update_continue assms)
qed

lemma fixed_loop_ends:
  assumes k: "keeps_records (al_service (lc_lib C))" and R: "retries_within R (ad_steps (lc_def C))" "retries_within R (map snd queue)"
  shows "run_ends (Suc R * card (open_tools C queue attempted)) (ar_id run) s (fixed_loop C n queue attempted run steps state s)"
  using R(2)
proof (induction "(card (open_tools C queue attempted), length queue)" arbitrary: n queue attempted run steps state s rule: wf_induct_rule [OF wf_lex_prod [OF wf_less_than wf_less_than]])
  case (1 queue attempted n run steps state s)
  show ?case
  proof (cases queue)
    case Nil
    then show ?thesis by (simp add: fixed_loop.simps loop_ends run_statuses_def)
  next
    case (Cons x rest)
    obtain index configured where q: "queue = (index, configured) # rest" using Cons by (cases x) auto
    show ?thesis
    proof (cases "executable_step C configured")
      case (Inl detail)
      then show ?thesis by (simp add: q fixed_loop_step loop_ends)
    next
      case (Inr y)
      obtain t p where e: "executable_step C configured = Inr (t, p)" using Inr by (cases y) auto
      have le: "card (open_tools C rest attempted) \<le> card (open_tools C queue attempted)"
        unfolding q by (rule open_tools_skip)
      have skip: "run_ends (Suc R * card (open_tools C queue attempted)) (ar_id run) s (fixed_loop C (n + 1) rest attempted run steps state s)"
      proof (rule run_ends_later [OF _ 1(1)])
        show "adds 0 s s" by (simp add: adds_def)
        show "((card (open_tools C rest attempted), length rest), card (open_tools C queue attempted), length queue) \<in> less_than <*lex*> less_than"
          using le by (auto simp: q le_less)
        show "0 + Suc R * card (open_tools C rest attempted) \<le> Suc R * card (open_tools C queue attempted)"
          by (simp only: add_0 mult_le_mono2 [OF le])
      qed (use 1(2) in \<open>simp add: q retries_within_def\<close>)
      have go: "run_ends (Suc R * (card (open_tools C queue attempted) - 1)) (ar_id run) s2 (fixed_loop C (n + 1) queue' (t # attempted) run1 steps1 state2 s2)"
        if "t \<notin> set attempted" "set queue' \<subseteq> set rest \<union> set (enumerate 0 (ad_steps (lc_def C)))" "ar_id run1 = ar_id run" for queue' run1 steps1 state2 s2
      proof (rule run_ends_later [OF _ 1(1) [where run = run1, unfolded that(3)]])
        have less: "card (open_tools C queue' (t # attempted)) < card (open_tools C queue attempted)"
          using open_tools_less [OF e that(1,2), of index] by (simp add: q)
        then show "((card (open_tools C queue' (t # attempted)), length queue'), card (open_tools C queue attempted), length queue) \<in> less_than <*lex*> less_than"
          by simp
        show "0 + Suc R * card (open_tools C queue' (t # attempted)) \<le> Suc R * (card (open_tools C queue attempted) - 1)"
          by (simp only: add_0) (rule mult_le_mono2, use less in simp)
        have "set (map snd queue') \<subseteq> set (map snd rest) \<union> set (ad_steps (lc_def C))"
          using image_mono [OF that(2), of snd] by (simp add: image_Un) (metis list.set_map map_snd_enumerate)
        then show "retries_within R (map snd queue')" using 1(2) assms(2) unfolding retries_within_def q list.map list.set snd_conv by blast
      qed (simp add: adds_def)
      have "run_ends (Suc R * card (open_tools C queue attempted)) (ar_id run) s
          (sbind (attempts (step_of C run configured t p state (int index) None) 0 [] s) (fixed_after (fixed_loop C (n + 1)) C index t rest attempted run steps state))"
        if t: "t \<notin> set attempted"
      proof -
        obtain x u where a: "attempts (step_of C run configured t p state (int index) None) 0 [] s = (x, u)" by fastforce
        have "card (open_tools C rest (t # attempted)) < card (open_tools C queue attempted)" using open_tools_less [OF e t, of rest rest index] by (simp add: q)
        then have "Suc R + Suc R * (card (open_tools C queue attempted) - 1) = Suc R * card (open_tools C queue attempted)"
          by (cases "card (open_tools C queue attempted)") (simp_all del: card_eq_0_iff)
        moreover have "run_ends (Suc R + Suc R * (card (open_tools C queue attempted) - 1)) (ar_id run) s
          (sbind (attempts (step_of C run configured t p state (int index) None) 0 [] s) (fixed_after (fixed_loop C (n + 1)) C index t rest attempted run steps state))"
          using 1(2) by (intro run_ends_sbind [OF a] step_attempts_bound(1) [OF k _ a] fixed_after_ends go [OF t]) (auto simp: q retries_within_def)
        ultimately show ?thesis by simp
      qed
      then show ?thesis using skip by (simp add: q fixed_loop_step e loop_ends)
    qed
  qed
qed

lemma aware_after_ends:
  assumes "\<And>fb run1 state2 s2. ar_id run1 = ar_id run \<Longrightarrow> case fb of None \<Rightarrow> True | Some st \<Rightarrow> st \<in> set (ad_steps (lc_def C)) \<Longrightarrow>
      run_ends n (ar_id run) s2 (rest fb run1 (steps @ records) state2 s2)"
  shows "run_ends n (ar_id run) s (aware_after rest C t run steps state (records, r, dir) s)"
proof -
  have in_steps: "st \<in> set (ad_steps (lc_def C))" if "find P (ad_steps (lc_def C)) = Some st" for P st
    using find_SomeD [OF that] by simp
  show ?thesis unfolding aware_after_def prod.case Let_def
    by (auto simp: run_statuses_def split: option.split directive.split dest: in_steps intro!: loop_ends update_continue assms)
qed

lemma selected_step:
  assumes "select_result_aware_step L d e steps s = Inr (Some st, mode)" shows "st \<in> set (ad_steps d)"
proof -
  let ?cs = "filter (\<lambda>st. case dget_or st ''tool_id'' PNone of PStr t \<Rightarrow> t \<in> set (ad_tools d) \<and> t \<notin> set (step_tools steps) | _ \<Rightarrow> False) (ad_steps d)"
  have ne: "?cs \<noteq> []" using assms by (auto simp: select_result_aware_step_def Let_def)
  from assms obtain selected where
    "(case (case selected of None \<Rightarrow> None | Some t \<Rightarrow> if t = [] then None else find (has_tool t) ?cs) of
        Some st \<Rightarrow> Inr (Some st, ''model'')
      | None \<Rightarrow> Inr (Some (hd ?cs), if selected = None then ''deterministic-fallback'' else ''deterministic-rejected-model'')) = (Inr (Some st, mode) :: _ res)"
    unfolding select_result_aware_step_def Let_def if_not_P [OF ne] rbind_Inr_iff by blast
  then have "st = hd ?cs \<or> (\<exists>P. find P ?cs = Some st)" by (auto split: option.splits if_splits)
  then have "st \<in> set ?cs"
  proof
    assume "st = hd ?cs"
    then show ?thesis using hd_in_set [OF ne] by (simp only:)
  next
    assume "\<exists>P. find P ?cs = Some st"
    then show ?thesis by (elim exE) (drule find_SomeD, erule conjunct1)
  qed
  then show ?thesis by simp
qed

text \<open>The invocations left to the result-aware loop; the last step may exceed the limit by its retries.\<close>

definition aware_budget :: "loop_context \<Rightarrow> nat \<Rightarrow> pydict list \<Rightarrow> nat" where
  "aware_budget C R steps = (if int (length steps) \<ge> ad_max_steps (lc_def C) then 0 else nat (ad_max_steps (lc_def C) - int (length steps)) + R)"

lemma aware_loop_ends:
  assumes k: "keeps_records (al_service (lc_lib C))" and R: "retries_within R (ad_steps (lc_def C))"
    and "case fallback of None \<Rightarrow> True | Some st \<Rightarrow> st \<in> set (ad_steps (lc_def C))"
  shows "run_ends (aware_budget C R steps) (ar_id run) s (aware_loop C n fallback run steps state s)"
  using assms(3)
proof (induction "nat (ad_max_steps (lc_def C) - int (length steps))" arbitrary: n fallback run steps state s rule: less_induct)
  case (less steps n fallback run state s)
  have go: "run_ends (aware_budget C R steps) (ar_id run) s
      (sbind (attempts (step_of C run step t p state i c) 0 [] s) (aware_after (aware_loop C (n + 1)) C t run steps state))"
    if step: "step \<in> set (ad_steps (lc_def C))" and lt: "\<not> int (length steps) \<ge> ad_max_steps (lc_def C)" for step t p i c
  proof -
    have r: "fp_retries (step_failure_policy step) \<le> int R" using R step by (simp add: retries_within_def)
    obtain x u where a: "attempts (step_of C run step t p state i c) 0 [] s = (x, u)" by fastforce
    show ?thesis
    proof (cases x)
      case (Inl e)
      have "Suc R \<le> aware_budget C R steps" using lt by (simp add: aware_budget_def)
      then show ?thesis using step_attempts_bound(1) [OF k r a] by (simp add: a Inl run_ends_Inl adds_mono)
    next
      case (Inr y)
      obtain records q dir where y: "y = (records, q, dir)" by (cases y) auto
      note b = step_attempts_bound(2) [OF k r a, OF Inr [unfolded y]]
      let ?m = "aware_budget C R (steps @ records)"
      have "run_ends ?m (ar_id run) u (aware_after (aware_loop C (n + 1)) C t run steps state (records, q, dir) u)"
      proof (rule aware_after_ends)
        fix fb and run1 :: agent_run and state2 s2
        assume run1: "ar_id run1 = ar_id run" and fb: "case fb of None \<Rightarrow> True | Some st \<Rightarrow> st \<in> set (ad_steps (lc_def C))"
        show "run_ends ?m (ar_id run) s2 (aware_loop C (n + 1) fb run1 (steps @ records) state2 s2)"
          using less(1) [of "steps @ records" fb run1 s2 "n + 1" state2, OF _ fb] b lt by (simp add: run1)
      qed
      then have "run_ends (length records + ?m) (ar_id run) s (sbind (attempts (step_of C run step t p state i c) 0 [] s)
          (aware_after (aware_loop C (n + 1)) C t run steps state))"
        using b by (intro run_ends_sbind [OF a]) (auto simp: Inr y)
      moreover have "length records + ?m \<le> aware_budget C R steps" using b lt by (auto simp: aware_budget_def)
      ultimately show ?thesis unfolding run_ends_def using adds_mono by blast
    qed
  qed
  let ?sel = "case fallback of Some st \<Rightarrow> Inr (Some st, ''deterministic-fallback'') | None \<Rightarrow> select_result_aware_step (lc_lib C) (lc_def C) (ar_entity run) steps s"
  show ?case
  proof (cases "int (length steps) \<ge> ad_max_steps (lc_def C) \<or> timed_out C n")
    case True
    then show ?thesis unfolding aware_loop_step [of C n] Let_def by (auto simp: run_statuses_def intro!: loop_ends)
  next
    case False
    show ?thesis
    proof (cases "\<exists>st mode t p. ?sel = Inr (Some st, mode) \<and> executable_step C st = Inr (t, p)")
      case True
      then obtain st mode t p where sel: "?sel = Inr (Some st, mode)" and e: "executable_step C st = Inr (t, p)" by blast
      have "st \<in> set (ad_steps (lc_def C))" using sel less(2) by (auto split: option.splits dest: selected_step)
      then show ?thesis unfolding aware_loop_step [of C n] Let_def sel sum.case prod.case option.case e
        using go [of st t p] False by simp
    next
      case none: False
      then show ?thesis using False unfolding aware_loop_step [of C n] Let_def
        by (auto simp: run_statuses_def adds_same simp del: not_ex split: sum.split option.split intro!: loop_ends run_ends_Inl)
    qed
  qed
qed

section \<open>A run\<close>

abbreviation max_calls :: nat where
  "max_calls \<equiv> MAX_AGENT_STEPS * (nat MAX_STEP_RETRIES + 1)"

lemma agent_wf_retries: "agent_wf d \<Longrightarrow> retries_within (nat MAX_STEP_RETRIES) (ad_steps d)"
  using step_policy_retries by (fastforce simp: agent_wf_def retries_within_def list_all_iff MAX_STEP_RETRIES_def)

lemma open_tools_start:
  assumes "set queue \<subseteq> set (enumerate 0 (ad_steps (lc_def C)))" shows "card (open_tools C queue []) \<le> length (ad_steps (lc_def C))"
proof -
  have "set (map snd queue) \<subseteq> set (ad_steps (lc_def C))"
    using image_mono [OF assms, of snd] by (simp only: set_map [symmetric] map_snd_enumerate)
  then have "open_tools C queue [] \<subseteq> set (step_tools (ad_steps (lc_def C)))" unfolding open_tools_def subset_iff Diff_iff Un_iff step_tools_iff by blast
  then have "card (open_tools C queue []) \<le> card (set (step_tools (ad_steps (lc_def C))))" by (intro card_mono) simp_all
  also have "\<dots> \<le> length (step_tools (ad_steps (lc_def C)))" by (rule card_length)
  also have "\<dots> \<le> length (ad_steps (lc_def C))"
  proof -
    have "length (string_values vs) \<le> length vs" for vs by (induction vs) (auto simp: string_values_def split: pyval.split)
    then show ?thesis by (metis length_map step_tools_def)
  qed
  finally show ?thesis .
qed

lemma continue_run_ends:
  assumes k: "keeps_records (al_service L)" and wf: "agent_wf d"
  shows "run_ends max_calls (ar_id run) s (continue_run L now d run actor start_step state actor_role s)"
proof -
  let ?C = "\<lparr>lc_lib = L, lc_now = now, lc_def = d, lc_actor = actor, lc_role = actor_role, lc_input = input_object L (dget_or state ''input'' PNone)\<rparr>"
  let ?R = "nat MAX_STEP_RETRIES"
  have k': "keeps_records (al_service (lc_lib ?C))" and r: "retries_within ?R (ad_steps (lc_def ?C))" using k agent_wf_retries [OF wf] by simp_all
  have same: "adds 0 s s" by (simp add: adds_def)
  show ?thesis
  proof (cases "ad_result_aware d")
    case True
    have "aware_budget ?C ?R (state_steps state) \<le> max_calls"
      using wf by (auto simp: aware_budget_def agent_wf_def MAX_AGENT_STEPS_def MAX_STEP_RETRIES_def)
    then show ?thesis using run_ends_later [OF same aware_loop_ends [OF k' r, of None]] True by (simp add: continue_run_def Let_def)
  next
    case False
    let ?q = "drop (nat start_step) (take (nat (min (int (length (ad_steps d))) (ad_max_steps d))) (enumerate 0 (ad_steps d)))"
    have q: "set ?q \<subseteq> set (enumerate 0 (ad_steps d))" by (meson set_drop_subset set_take_subset subset_trans)
    then have "set (map snd ?q) \<subseteq> set (ad_steps d)" using image_mono [OF q, of snd] by (simp only: set_map [symmetric] map_snd_enumerate)
    then have r': "retries_within ?R (map snd ?q)" using r by (auto simp: retries_within_def)
    have "card (open_tools ?C ?q []) \<le> MAX_AGENT_STEPS" using open_tools_start [of ?q ?C] q wf by (simp add: agent_wf_def)
    then have "Suc ?R * card (open_tools ?C ?q []) \<le> max_calls" by (metis Suc_eq_plus1 mult.commute mult_le_mono2)
    then show ?thesis using run_ends_later [OF same fixed_loop_ends [OF k' r r']] False by (simp add: continue_run_def Let_def)
  qed
qed

text \<open>
  C19. A run of an agent is bounded and honest: started from a well-formed definition it returns or raises after at most 32 invocations
  of smart actions (8 steps with 3 retries each), whatever the actions, the model that selects steps and the configured
  fallbacks do; and when it returns, the status it reports is completed, failed or pending approval, and is the one
  stored for the new run.
\<close>

theorem agent_run_bounded:
  assumes "keeps_records (al_service L)" "agent_wf d"
    and "run_agent L now d entity_id actor input supervisor retries retry_of actor_role correlation s = (x, t)"
  shows "length (smart_runs t) \<le> length (smart_runs s) + 32 \<and> (\<forall>r. x = Inr r \<longrightarrow> reported (agent_runs_seq s + 1) r t)"
proof -
  have m: "max_calls = 32" by (simp add: MAX_AGENT_STEPS_def MAX_STEP_RETRIES_def)
  have new: "ar_id run = agent_runs_seq s + 1 \<and> smart_runs u = smart_runs s"
    if "create_agent_run E now a e actor st k state rev c s = Inr (run, u)" for E a e st k state rev c run u
    using that by (auto simp: create_agent_run_def Let_def res_simps add_audit_row_def)
  have "run_ends max_calls (agent_runs_seq s + 1) s (x, t)"
  proof (cases "rbind (run_checks L now d entity_id s) (\<lambda>_. build_context L d entity_id s)")
    case (Inl e)
    then have "x = Inl e" "t = s" using assms(3) by (auto simp: run_agent_def Let_def)
    then show ?thesis by (simp add: run_ends_Inl adds_same)
  next
    case (Inr cx)
    let ?create = "\<lambda>st. create_agent_run (sm_env (al_service L)) now (ad_id d) entity_id actor ''queued'' 0 st (Some (ad_version d)) (normalize_client_id (ad_client d)) s"
    have "\<exists>st. run_agent L now d entity_id actor input supervisor retries retry_of actor_role correlation s =
        sbind (tx (?create st) s) (\<lambda>run s1. continue_run L now d run actor 0 st actor_role s1)"
      unfolding run_agent_def Let_def Inr sum.case by (rule exI) (rule refl)
    then obtain st where st: "sbind (tx (?create st) s) (\<lambda>run s1. continue_run L now d run actor 0 st actor_role s1) = (x, t)"
      using assms(3) by metis
    show ?thesis
    proof (cases "?create st")
      case (Inl e)
      then have "x = Inl e" "t = s" using st by auto
      then show ?thesis by (simp add: run_ends_Inl adds_same)
    next
      case (Inr z)
      obtain run u where z: "z = (run, u)" by (cases z)
      have "adds 0 s u" using new [OF Inr [unfolded z]] by (simp add: adds_same)
      then show ?thesis using st new [OF Inr [unfolded z]] run_ends_later [OF _ continue_run_ends [OF assms(1,2)]]
        by (simp add: Inr z) (metis add_0 order_refl)
    qed
  qed
  then show ?thesis unfolding run_ends_def adds_def m by simp
qed

definition ok_agents :: agent_lib where
  "ok_agents = demo_agents\<lparr>al_service := (al_service demo_agents)\<lparr>sm_registry := [(''read'', \<lparr>ac_manifest = ac_manifest (snd (hd demo_tools)),
     ac_run = (\<lambda>ctx p s. (Inr ((failed [])\<lparr>rs_status := ''success''\<rparr>), s))\<rparr>)]\<rparr>\<rparr>"

definition ok_request :: agent_def where
  "ok_request = demo_agent_request\<lparr>ad_steps := [[(''tool_id'', PStr ''read'')]]\<rparr>"

definition demo_agent_run :: "exec_result res \<times> store" where
  "demo_agent_run = run_agent ok_agents 5 ok_request ''t1'' ''ann'' [] [] 0 None None None (empty_store\<lparr>tickets := [plain_ticket ''t1'' None]\<rparr>)"

lemma agent_run_bounded_witness:
  "length (smart_runs (snd demo_agent_run)) = 1 \<and> length (smart_runs (snd demo_agent_run)) \<le> 32 \<and>
   (\<exists>r. fst demo_agent_run = Inr r \<and> reported 1 r (snd demo_agent_run))"
proof -
  let ?s = "empty_store\<lparr>tickets := [plain_ticket ''t1'' None]\<rparr>"
  have "keeps_records (al_service ok_agents)" by (simp add: keeps_records_def ok_agents_def Let_def)
  moreover have "agent_wf ok_request" by code_simp
  ultimately have b: "length (smart_runs (snd demo_agent_run)) \<le> length (smart_runs ?s) + 32 \<and>
      (\<forall>r. fst demo_agent_run = Inr r \<longrightarrow> reported (agent_runs_seq ?s + 1) r (snd demo_agent_run))"
    by (rule agent_run_bounded) (simp add: demo_agent_run_def)
  have "length (smart_runs (snd demo_agent_run)) = 1 \<and> \<not> isl (fst demo_agent_run)" by code_simp
  moreover have "agent_runs_seq ?s + 1 = 1" "smart_runs ?s = []" by (simp_all add: empty_store_def)
  ultimately show ?thesis using b by (cases "fst demo_agent_run") auto
qed

text \<open>The classifier looks for the word 'timeout', which the loops do not use when they record a run that timed out.\<close>

lemma timeout_classified_as_failure:
  "exception_lineage ''failed'' ''agent execution timed out'' None = lineage_entry ''execution_failure'' True ''technician_review_or_retry''"
  by code_simp

end
