(* ===== verification/Evidence_Laws.thy ===== *)
theory Evidence_Laws
  imports Agent_Runs
begin

text \<open>
  The delimiters around retrieved evidence. A match of the pattern consumes a prefix whose opening bracket is its first character and
  whose closing bracket is its last, and does not look further; so what \<open>neutralize\<close> leaves holds no delimiter, and in the text
  given to the model the delimiters are exactly the two the code wrote.
\<close>

section \<open>What a match consumes\<close>

lemma match_word_prefix: "match_word w s = Some t \<Longrightarrow> \<exists>p. s = p @ t \<and> map lower_char p = map lower_char w"
proof (induction w s rule: match_word.induct)
  case (3 p ps c s)
  then obtain q where "s = q @ t" "map lower_char q = map lower_char ps" "lower_char c = lower_char p" by (auto split: if_splits)
  then show ?case by (intro exI [of _ "c # q"]) simp
qed auto

lemma match_word_same: "map lower_char p = map lower_char w \<Longrightarrow> match_word w (p @ t) = Some t"
  by (induction w arbitrary: p) auto

lemma same_word:
  assumes "map lower_char p = map lower_char w"
  shows "c \<in> set p \<Longrightarrow> lower_char c \<in> lower_char ` set w" and "w \<noteq> [] \<Longrightarrow> p \<noteq> [] \<and> lower_char (last p) = lower_char (last w)"
proof -
  show "lower_char c \<in> lower_char ` set w" if "c \<in> set p" using arg_cong [OF assms, of set] that by auto
  show "p \<noteq> [] \<and> lower_char (last p) = lower_char (last w)" if "w \<noteq> []"
    using assms that by (metis last_map map_is_Nil_conv)
qed

lemma match_words_prefix:
  assumes "match_words ws s = Some t" "[] \<notin> set ws" "ws \<noteq> []"
  shows "\<exists>p. s = p @ t \<and> (\<forall>u. match_words ws (p @ u) = Some u) \<and> p \<noteq> [] \<and> lower_char (last p) = lower_char (last (last ws)) \<and>
      (\<forall>c\<in>set p. py_space c \<or> lower_char c \<in> lower_char ` set (concat ws))"
  using assms
proof (induction ws s arbitrary: t rule: match_words.induct)
  case (2 w s)
  obtain p where p: "s = p @ t" "map lower_char p = map lower_char w" using match_word_prefix [of w s t] 2 by auto
  then show ?case using same_word [OF p(2)] 2(2) by (intro exI [of _ p]) (auto simp: match_word_same)
next
  case (3 w v vs s)
  obtain c u where m: "match_word w s = Some (c # u)" "match_words (v # vs) (dropWhile py_space u) = Some t" "py_space c"
    using 3(2) by (auto split: option.splits list.splits if_splits)
  obtain q where q: "s = q @ c # u" "map lower_char q = map lower_char w" using match_word_prefix [OF m(1)] by auto
  obtain p where p: "dropWhile py_space u = p @ t" "\<And>x. match_words (v # vs) (p @ x) = Some x" "p \<noteq> []"
      "lower_char (last p) = lower_char (last (last (v # vs)))" "\<forall>c\<in>set p. py_space c \<or> lower_char c \<in> lower_char ` set (concat (v # vs))"
    using 3(1) [OF m(1) refl m(3,2)] 3(3) by auto
  have "\<not> py_space (hd p)" using hd_dropWhile [of py_space u] p(1,3) by auto
  then have d: "dropWhile py_space (takeWhile py_space u @ p @ x) = p @ x" for x
    using p(3) by (subst dropWhile_append2) (auto dest: set_takeWhileD simp: neq_Nil_conv)
  have "s = (q @ c # takeWhile py_space u @ p) @ t" using q(1) p(1) takeWhile_dropWhile_id [of py_space u] by simp
  moreover have "match_words (w # v # vs) ((q @ c # takeWhile py_space u @ p) @ x) = Some x" for x
    using d [of x] p(2) [of x] m(3) match_word_same [OF q(2), of "c # takeWhile py_space u @ p @ x"] by simp
  moreover have "py_space x \<or> lower_char x \<in> lower_char ` set (concat (w # v # vs))" if "x \<in> set (q @ c # takeWhile py_space u @ p)" for x
  proof (cases "x \<in> set p")
    case True
    then show ?thesis using p(5) by (auto simp: image_Un)
  next
    case False
    then show ?thesis using that m(3) same_word(1) [OF q(2), of x] by (auto simp: image_Un dest: set_takeWhileD)
  qed
  ultimately show ?case using p(3,4) by (intro exI [of _ "q @ c # takeWhile py_space u @ p"]) auto
qed auto

section \<open>A delimiter\<close>

lemma match_words_Cons:
  "w \<noteq> [] \<Longrightarrow> match_words ((x # w) # ws) s = (case s of [] \<Rightarrow> None | c # r \<Rightarrow> if lower_char c = lower_char x then match_words (w # ws) r else None)"
  by (cases ws; cases s) auto

lemma bracket: "lower_char c = lower_char (CHR ''['') \<longleftrightarrow> c = CHR ''[''" "lower_char c = lower_char (CHR '']'') \<longleftrightarrow> c = CHR '']''"
proof -
  have "lower_char c = d \<longleftrightarrow> c = d" if "of_char d = (91 :: nat) \<or> of_char d = (93 :: nat)" for d
  proof
    assume "lower_char c = d"
    then have "of_char (lower_char c) = (of_char d :: nat)" by simp
    then show "c = d" using that by (auto simp: lower_char_def Let_def split: if_splits)
  next
    assume "c = d"
    then show "lower_char c = d" using that by (auto simp: lower_char_def)
  qed
  from this [of "CHR ''[''"] this [of "CHR '']''"]
  show "lower_char c = lower_char (CHR ''['') \<longleftrightarrow> c = CHR ''[''" "lower_char c = lower_char (CHR '']'') \<longleftrightarrow> c = CHR '']''"
    by (simp_all add: lower_char_def)
qed

lemma delimiter_parts:
  "\<exists>v vs. EVIDENCE_START_PARTS = (CHR ''['' # v) # vs \<and> v \<noteq> [] \<and> [] \<notin> set vs \<and> CHR ''['' \<notin> set (concat (v # vs)) \<and> last (last (v # vs)) = CHR '']''"
  "\<exists>v vs. EVIDENCE_END_PARTS = (CHR ''['' # v) # vs \<and> v \<noteq> [] \<and> [] \<notin> set vs \<and> CHR ''['' \<notin> set (concat (v # vs)) \<and> last (last (v # vs)) = CHR '']''"
  by (simp_all add: EVIDENCE_START_PARTS_def EVIDENCE_END_PARTS_def)

text \<open>A match is a bracket, further text without one, and a closing bracket; and it is a match whatever follows.\<close>

lemma words_match:
  assumes "match_words ((CHR ''['' # v) # vs) s = Some t" "v \<noteq> []" "[] \<notin> set vs" "CHR ''['' \<notin> set (concat (v # vs))"
    "last (last (v # vs)) = CHR '']''"
  obtains p where "s = CHR ''['' # p @ t" "CHR ''['' \<notin> set p" "p \<noteq> []" "last p = CHR '']''" "\<And>u. match_words ((CHR ''['' # v) # vs) (CHR ''['' # p @ u) = Some u"
proof -
  obtain r where r: "s = CHR ''['' # r" "match_words (v # vs) r = Some t"
    using assms(1) unfolding match_words_Cons [OF assms(2)] bracket(1) by (auto split: list.splits if_splits)
  have nn: "[] \<notin> set (v # vs)" using assms(2,3) by auto
  obtain p where p: "r = p @ t \<and> (\<forall>u. match_words (v # vs) (p @ u) = Some u) \<and> p \<noteq> [] \<and>
      lower_char (last p) = lower_char (last (last (v # vs))) \<and> (\<forall>c\<in>set p. py_space c \<or> lower_char c \<in> lower_char ` set (concat (v # vs)))"
    using match_words_prefix [OF r(2) nn list.distinct(2)] by (rule exE)
  have "CHR ''['' \<notin> set p"
  proof
    assume "CHR ''['' \<in> set p"
    then have "py_space (CHR ''['') \<or> lower_char (CHR ''['') \<in> lower_char ` set (concat (v # vs))" using p by blast
    then obtain x where "lower_char x = lower_char (CHR ''['')" "x \<in> set (concat (v # vs))" by (auto simp: py_space_def simp del: set_concat)
    then show False using assms(4) unfolding bracket(1) by metis
  qed
  moreover have "last p = CHR '']''" using p assms(5) bracket(2) by metis
  moreover have "match_words ((CHR ''['' # v) # vs) (CHR ''['' # p @ u) = Some u" for u using p assms(2) by (simp add: match_words_Cons)
  ultimately show thesis using that [of p] r(1) p by blast
qed

lemma delimiter_match:
  assumes "delimiter_at s = Some t"
  obtains p where "s = CHR ''['' # p @ t" "CHR ''['' \<notin> set p" "p \<noteq> []" "last p = CHR '']''" "\<And>u. delimiter_at (CHR ''['' # p @ u) \<noteq> None"
proof (cases "match_words EVIDENCE_START_PARTS s")
  case (Some t')
  then have "t' = t" using assms by (simp add: delimiter_at_def)
  with Some obtain p where "s = CHR ''['' # p @ t" "CHR ''['' \<notin> set p" "p \<noteq> []" "last p = CHR '']''" "\<And>u. match_words EVIDENCE_START_PARTS (CHR ''['' # p @ u) = Some u"
    using delimiter_parts(1) words_match by metis
  then show thesis using that by (simp add: delimiter_at_def)
next
  case None
  then have "match_words EVIDENCE_END_PARTS s = Some t" using assms by (simp add: delimiter_at_def)
  then obtain p where "s = CHR ''['' # p @ t" "CHR ''['' \<notin> set p" "p \<noteq> []" "last p = CHR '']''" "\<And>u. match_words EVIDENCE_END_PARTS (CHR ''['' # p @ u) = Some u"
    using delimiter_parts(2) words_match by metis
  then show thesis using that by (simp add: delimiter_at_def split: option.split)
qed

section \<open>Neutralised text\<close>

definition delimiter_free :: "string \<Rightarrow> bool" where
  "delimiter_free s \<longleftrightarrow> (\<forall>n. delimiter_at (drop n s) = None)"

lemma delimiter_first: "s = [] \<or> hd s \<noteq> CHR ''['' \<Longrightarrow> delimiter_at s = None"
  by (cases "delimiter_at s") (auto elim: delimiter_match)

lemma delimiter_free_Cons: "delimiter_free (c # s) \<longleftrightarrow> delimiter_at (c # s) = None \<and> delimiter_free s"
  unfolding delimiter_free_def by (metis drop0 drop_Suc_Cons not0_implies_Suc)

lemma delimiter_free_Nil [simp]: "delimiter_free []"
  by (simp add: delimiter_free_def delimiter_first)

lemma delimiter_free_take:
  assumes "delimiter_free s" shows "delimiter_free (take k s)"
  unfolding delimiter_free_def
proof (rule allI, rule ccontr)
  fix n
  assume "delimiter_at (drop n (take k s)) \<noteq> None"
  then obtain p t where p: "drop n (take k s) = CHR ''['' # p @ t" "\<And>u. delimiter_at (CHR ''['' # p @ u) \<noteq> None"
    using delimiter_match by (metis not_None_eq)
  then have "drop n s = CHR ''['' # p @ t @ drop (k - n) (drop n s)" using append_take_drop_id [of "k - n" "drop n s"] by (simp add: drop_take)
  then show False using assms p(2) unfolding delimiter_free_def by metis
qed

lemma neutralize_hd: "neutralize s = x # r \<Longrightarrow> x \<noteq> CHR ''['' \<Longrightarrow> \<exists>cs. s = x # cs \<and> r = neutralize cs"
  by (subst (asm) neutralize.simps) (auto simp: REDACTED_DELIMITER_def split: option.splits list.splits)

lemma neutralize_prefix: "neutralize s = p @ u \<Longrightarrow> CHR ''['' \<notin> set p \<Longrightarrow> \<exists>v. s = p @ v"
proof (induction p arbitrary: s)
  case (Cons x p)
  then obtain cs where "s = x # cs" "neutralize cs = p @ u" using neutralize_hd [of s x "p @ u"] by auto
  then show ?case using Cons by auto
qed simp

lemma delimiter_free_mark: "delimiter_free s \<Longrightarrow> delimiter_free (REDACTED_DELIMITER @ s)"
proof -
  have l: "lower_char (CHR ''B'') = CHR ''b''" "lower_char (CHR ''E'') = CHR ''e''" "lower_char (CHR ''r'') = CHR ''r''" by code_simp+
  have "delimiter_at (''[redacted-delimiter]'' @ s) = None"
    by (simp add: delimiter_at_def EVIDENCE_START_PARTS_def EVIDENCE_END_PARTS_def l)
  then show "delimiter_free s \<Longrightarrow> delimiter_free (REDACTED_DELIMITER @ s)" by (simp add: REDACTED_DELIMITER_def delimiter_free_Cons delimiter_first)
qed

lemma delimiter_free_neutralize: "delimiter_free (neutralize s)"
proof (induction s rule: neutralize.induct)
  case (1 s)
  show ?case
  proof (cases "delimiter_at s")
    case (Some t)
    then show ?thesis using delimiter_free_mark [OF 1(2) [OF Some]] by (subst neutralize.simps) simp
  next
    case None
    show ?thesis
    proof (cases s)
      case (Cons c cs)
      have "delimiter_at (c # neutralize cs) = None"
      proof (rule ccontr)
        assume "delimiter_at (c # neutralize cs) \<noteq> None"
        then obtain p t where p: "c = CHR ''[''" "neutralize cs = p @ t" "CHR ''['' \<notin> set p" "\<And>u. delimiter_at (CHR ''['' # p @ u) \<noteq> None"
          using delimiter_match by (metis list.inject not_None_eq)
        then obtain v where "cs = p @ v" using neutralize_prefix by blast
        then show False using p(1) p(4) [of v] None Cons by simp
      qed
      then show ?thesis using 1(1) [OF None Cons] None Cons by (subst neutralize.simps) (simp add: delimiter_free_Cons)
    qed (use None in \<open>subst neutralize.simps, simp\<close>)
  qed
qed

section \<open>The evidence text\<close>

text \<open>A delimiter does not begin before a bracket and end after it.\<close>

lemma delimiter_before_bracket:
  assumes "delimiter_free s" shows "n < length s \<Longrightarrow> delimiter_at (drop n s @ CHR ''['' # r) = None"
proof (rule ccontr)
  assume n: "n < length s" and "delimiter_at (drop n s @ CHR ''['' # r) \<noteq> None"
  then obtain p t where p: "drop n s @ CHR ''['' # r = CHR ''['' # p @ t" "CHR ''['' \<notin> set p" "\<And>u. delimiter_at (CHR ''['' # p @ u) \<noteq> None"
    using delimiter_match by (metis not_None_eq)
  obtain d where d: "drop n s = CHR ''['' # d" "d @ CHR ''['' # r = p @ t" using p(1) n by (cases "drop n s") auto
  then obtain u where "d = p @ u" using p(2) by (auto simp: append_eq_append_conv2 Cons_eq_append_conv)
  then show False using assms p(3) [of u] d(1) unfolding delimiter_free_def by metis
qed

lemma delimiter_free_newline:
  assumes "delimiter_free s" shows "delimiter_free (s @ [char_of (10 :: nat)])"
  unfolding delimiter_free_def
proof (rule allI, rule ccontr)
  fix n
  let ?c = "char_of (10 :: nat)"
  have c: "?c \<noteq> CHR ''[''" "?c \<noteq> CHR '']''" by code_simp+
  assume "delimiter_at (drop n (s @ [?c])) \<noteq> None"
  then obtain p t where p: "drop n (s @ [?c]) = CHR ''['' # p @ t" "p \<noteq> []" "last p = CHR '']''" "\<And>u. delimiter_at (CHR ''['' # p @ u) \<noteq> None"
    using delimiter_match by (metis not_None_eq)
  have n: "n \<le> length s" using p(1) by (cases "n \<le> length s") auto
  then have e: "drop n s @ [?c] = (CHR ''['' # p) @ t" using p(1) by simp
  moreover have "t \<noteq> []"
  proof
    assume "t = []"
    then have "last (drop n s @ [?c]) = last (CHR ''['' # p)" using e by simp
    then show False using p(2,3) c by simp
  qed
  ultimately have "drop n s = (CHR ''['' # p) @ butlast t" by (metis append_self_conv2 butlast_append butlast_snoc)
  then show False using assms p(4) unfolding delimiter_free_def by (metis append_Cons)
qed

lemma delimiter_free_append: "CHR ''['' \<notin> set p \<Longrightarrow> delimiter_free s \<Longrightarrow> delimiter_free (p @ s)"
  by (induction p) (auto simp: delimiter_free_Cons delimiter_first)

text \<open>What stands between the delimiters.\<close>

definition evidence_body :: "agent_source \<Rightarrow> string" where
  "evidence_body x = [char_of (10 :: nat)] @ ''authority='' @ knowledge_authority (sc_authority x) @ [char_of (10 :: nat)] @
     safe_knowledge_context_text (sc_excerpt x) 1000 @ [char_of (10 :: nat)]"

lemma evidence_parts: "knowledge_evidence x = KNOWLEDGE_EVIDENCE_START @ evidence_body x @ KNOWLEDGE_EVIDENCE_END"
  by (simp add: knowledge_evidence_def evidence_body_def Let_def)

lemma evidence_body_free: "delimiter_free (evidence_body x)"
proof -
  let ?c = "char_of (10 :: nat)"
  have c: "?c \<noteq> CHR ''[''" by code_simp
  have "CHR ''['' \<notin> set v" if "v \<in> set KNOWLEDGE_AUTHORITIES" for v using that by (auto simp: KNOWLEDGE_AUTHORITIES_def)
  then have "CHR ''['' \<notin> set (knowledge_authority (sc_authority x))" by (auto simp: knowledge_authority_def)
  then have "CHR ''['' \<notin> set ([?c] @ ''authority='' @ knowledge_authority (sc_authority x) @ [?c])" using c by simp
  moreover have "delimiter_free (safe_knowledge_context_text (sc_excerpt x) 1000 @ [?c])"
    by (simp add: safe_knowledge_context_text_def delimiter_free_newline delimiter_free_take delimiter_free_neutralize)
  ultimately show ?thesis unfolding evidence_body_def using delimiter_free_append by (metis append_assoc)
qed

lemma delimiter_positions:
  assumes "delimiter_free s" "CHR ''['' \<notin> set p" "CHR ''['' \<notin> set q" "delimiter_at (CHR ''['' # p @ s @ CHR ''['' # q) \<noteq> None" "delimiter_at (CHR ''['' # q) \<noteq> None"
  shows "{n. delimiter_at (drop n (CHR ''['' # p @ s @ CHR ''['' # q)) \<noteq> None} = {0, Suc (length p + length s)}"
proof -
  have "n = 0 \<or> n = Suc (length p + length s)" if n: "delimiter_at (drop n (CHR ''['' # p @ s @ CHR ''['' # q)) \<noteq> None" for n
  proof (rule ccontr)
    assume "\<not> ?thesis"
    then obtain m where m: "n = Suc m" "m \<noteq> length p + length s" by (cases n) auto
    have f: "delimiter_free (p @ s)" by (rule delimiter_free_append [OF assms(2,1)])
    show False
    proof (cases "m < length (p @ s)")
      case True
      then show ?thesis using n delimiter_before_bracket [OF f True, of q] m(1) by simp
    next
      case False
      then obtain k where k: "m = length (p @ s) + Suc k" using m(2) by (metis add_Suc_right length_append less_imp_Suc_add linorder_neqE_nat)
      have "set (drop k q) \<subseteq> set q" by (rule set_drop_subset)
      then have "drop k q = [] \<or> hd (drop k q) \<noteq> CHR ''[''" using assms(3) by (cases "drop k q") auto
      then show ?thesis using n k m(1) delimiter_first by simp
    qed
  qed
  then show ?thesis using assms(4,5) by auto
qed


end
