(* ===== verification/Workflows.thy ===== *)
theory Workflows
  imports Smart_Actions Workflow_Designer
begin

text \<open>
  Workflow templates and their runs (\<open>workflows.py\<close>, with the \<open>workflow_runs\<close> table of \<open>store.py\<close> and \<open>classify_ticket\<close> of
  \<open>services.py\<close>). A run validates and redacts its input, calls the smart action the template names, or asks for approval when the
  template needs one and names no action, and stores a row linked to the approval request it waits for. The tool executor is the
  smart action service of \<open>Smart_Actions\<close>; the template override (a published custom workflow) is an argument.

  The payload of a workflow is a JSON object, so the branches that refuse other Python values do not arise.
\<close>

section \<open>The templates\<close>

definition TICKET_TEMPLATES :: "workflow_template list" where
  "TICKET_TEMPLATES =
    [\<lparr>wt_id = ''ticket-triage'', wt_name = ''Ticket Triage'', wt_trigger = ''ticket.created'',
      wt_description = ''Classify the ticket and prepare a technician-readable summary.'',
      wt_action = ''ticket.triage'', wt_approval = False, wt_risk = ''low'', wt_preview = [''classification'', ''summary''],
      wt_tool = None, wt_schema = []\<rparr>,
     \<lparr>wt_id = ''assign-technician'', wt_name = ''Assign Technician'', wt_trigger = ''ticket.unassigned'',
      wt_description = ''Draft an assignment based on priority, workload placeholders, and skills.'',
      wt_action = ''ticket.assign'', wt_approval = True, wt_risk = ''medium'', wt_preview = [''ticket_id'', ''technician_id'', ''team_id''],
      wt_tool = None, wt_schema = []\<rparr>,
     \<lparr>wt_id = ''inactive-ticket-follow-up'', wt_name = ''Inactive Ticket Follow-up'', wt_trigger = ''schedule.daily'',
      wt_description = ''Prepare an approval-gated follow-up for a stale ticket. The default is a local ticket note; configured communication adapters may be selected explicitly.'',
      wt_action = ''ticket.follow_up'', wt_approval = True, wt_risk = ''medium'', wt_preview = [''ticket_id'', ''message''],
      wt_tool = Some ''communication-send'', wt_schema = [(''type'', PStr ''object''), (''properties'', PDict [(''channel'', PStr ''ticket_note, email, teams, slack, or sms (default: ticket_note)''), (''recipient'', PStr ''required for non-ticket channels''), (''subject'', PStr ''optional subject for email, Teams, or Slack''), (''body'', PStr ''optional follow-up body; a deterministic local draft is used when omitted'')])]\<rparr>,
     \<lparr>wt_id = ''p1-alert'', wt_name = ''P1 Alert'', wt_trigger = ''ticket.priority_changed'',
      wt_description = ''Prepare an approval-gated internal alert. The default is a local ticket note; configured communication adapters may be selected explicitly.'',
      wt_action = ''ticket.alert'', wt_approval = True, wt_risk = ''high'', wt_preview = [''ticket_id'', ''priority'', ''message''],
      wt_tool = Some ''communication-send'', wt_schema = [(''type'', PStr ''object''), (''properties'', PDict [(''channel'', PStr ''ticket_note, email, teams, slack, or sms (default: ticket_note)''), (''recipient'', PStr ''required for non-ticket channels''), (''subject'', PStr ''optional subject for email, Teams, or Slack''), (''body'', PStr ''optional alert body; a deterministic local alert is used when omitted'')])]\<rparr>,
     \<lparr>wt_id = ''documentation-assisted-response'', wt_name = ''Documentation-assisted Response'', wt_trigger = ''ticket.created'',
      wt_description = ''Use tenant-scoped local knowledge to draft a cited client-safe response and deliver it through the existing approval-gated communication boundary.'',
      wt_action = ''ticket.draft_response'', wt_approval = True, wt_risk = ''medium'', wt_preview = [''ticket_id'', ''response'', ''sources''],
      wt_tool = Some ''documentation-assisted-response'', wt_schema = [(''type'', PStr ''object''), (''properties'', PDict [(''channel'', PStr ''ticket_note, email, teams, slack, or sms (default: ticket_note)''), (''recipient'', PStr ''required for non-ticket channels''), (''subject'', PStr ''optional subject for email, Teams, or Slack''), (''response'', PStr ''optional operator-edited response; local/provider draft is used when omitted'')])]\<rparr>,
     \<lparr>wt_id = ''l1-resolution-review'', wt_name = ''L1 Resolution Review'', wt_trigger = ''ticket.created'',
      wt_description = ''Draft a cited, technician-facing L1 resolution suggestion from local knowledge; no ticket mutation is performed.'',
      wt_action = ''ticket.l1_resolution'', wt_approval = False, wt_risk = ''low'', wt_preview = [''ticket_id'', ''suggestion'', ''citations''],
      wt_tool = Some ''suggest-resolution'', wt_schema = []\<rparr>,
     \<lparr>wt_id = ''ticket-quality-review'', wt_name = ''Ticket Quality Review'', wt_trigger = ''ticket.created'',
      wt_description = ''Check required ticket fields and controlled priority/status values.'',
      wt_action = ''ticket.quality'', wt_approval = False, wt_risk = ''low'', wt_preview = [''ticket_id'', ''quality_score'', ''issues''],
      wt_tool = Some ''ticket-quality'', wt_schema = []\<rparr>,
     \<lparr>wt_id = ''ticket-sentiment-review'', wt_name = ''Ticket Sentiment Review'', wt_trigger = ''ticket.updated'',
      wt_description = ''Assess customer-facing language and flag bounded escalation signals.'',
      wt_action = ''ticket.sentiment'', wt_approval = False, wt_risk = ''low'', wt_preview = [''ticket_id'', ''sentiment'', ''score'', ''escalation_signal''],
      wt_tool = Some ''ticket-sentiment'', wt_schema = []\<rparr>,
     \<lparr>wt_id = ''ticket-escalation-review'', wt_name = ''Ticket Escalation Review'', wt_trigger = ''ticket.priority_changed'',
      wt_description = ''Recommend a bounded urgency and next step without changing the ticket.'',
      wt_action = ''ticket.escalation'', wt_approval = False, wt_risk = ''low'', wt_preview = [''ticket_id'', ''urgency'', ''recommendation''],
      wt_tool = Some ''ticket-escalation'', wt_schema = []\<rparr>,
     \<lparr>wt_id = ''security-alert-review'', wt_name = ''Security Alert Review'', wt_trigger = ''ticket.created'',
      wt_description = ''Detect bounded security-alert indicators and route the ticket to human security handling without taking side effects.'',
      wt_action = ''ticket.security_alert'', wt_approval = False, wt_risk = ''low'', wt_preview = [''ticket_id'', ''security_signal'', ''severity'', ''indicators'', ''recommendation''],
      wt_tool = Some ''security-alert-assessment'', wt_schema = []\<rparr>]"

definition REVIEW_TEMPLATES :: "workflow_template list" where
  "REVIEW_TEMPLATES =
    [\<lparr>wt_id = ''similar-ticket-review'', wt_name = ''Similar Ticket Review'', wt_trigger = ''ticket.created'',
      wt_description = ''Rank local tickets by deterministic subject and body overlap for technician review.'',
      wt_action = ''ticket.similar'', wt_approval = False, wt_risk = ''low'', wt_preview = [''ticket_id'', ''matches''],
      wt_tool = Some ''find-similar-tickets'', wt_schema = []\<rparr>,
     \<lparr>wt_id = ''duplicate-ticket-review'', wt_name = ''Duplicate Ticket Review'', wt_trigger = ''ticket.created'',
      wt_description = ''Find deterministic local candidate duplicates for technician review; this workflow never merges or closes tickets.'',
      wt_action = ''ticket.duplicate_review'', wt_approval = False, wt_risk = ''low'', wt_preview = [''ticket_id'', ''matches''],
      wt_tool = Some ''find-similar-tickets'', wt_schema = []\<rparr>,
     \<lparr>wt_id = ''technician-dispatch-review'', wt_name = ''Technician Dispatch Review'', wt_trigger = ''ticket.unassigned'',
      wt_description = ''Draft a workload-aware technician recommendation for human approval; the workflow never assigns a technician by itself.'',
      wt_action = ''ticket.assign'', wt_approval = True, wt_risk = ''medium'', wt_preview = [''ticket_id'', ''recommendation'', ''approved''],
      wt_tool = Some ''dispatch-suggestion'', wt_schema = []\<rparr>,
     \<lparr>wt_id = ''ticket-sla-risk-review'', wt_name = ''Ticket SLA Risk Review'', wt_trigger = ''schedule.daily'',
      wt_description = ''Compare ticket age with explicit operator-supplied thresholds and report evidence-backed SLA risk without inferring a vendor contract.'',
      wt_action = ''ticket.sla_assessment'', wt_approval = False, wt_risk = ''low'', wt_preview = [''ticket_id'', ''assessment'', ''evidence_status''],
      wt_tool = Some ''ticket-sla-assessment'', wt_schema = [(''type'', PStr ''object''), (''required'', PList [PStr ''thresholds_minutes'']), (''properties'', PDict [(''thresholds_minutes'', PStr ''object of priority to positive minutes'')])]\<rparr>,
     \<lparr>wt_id = ''stale-ticket-sweep-review'', wt_name = ''Stale Ticket Sweep Review'', wt_trigger = ''schedule.daily'',
      wt_description = ''Find open local tickets older than an explicit threshold; missing timestamps are excluded and reported.'',
      wt_action = ''ticket.stale_sweep'', wt_approval = False, wt_risk = ''low'', wt_preview = [''tickets'', ''count'', ''excluded_missing_timestamp''],
      wt_tool = Some ''stale-ticket-sweep'', wt_schema = [(''type'', PStr ''object''), (''required'', PList [PStr ''stale_after_minutes'']), (''properties'', PDict [(''stale_after_minutes'', PStr ''positive integer'')])]\<rparr>,
     \<lparr>wt_id = ''recurring-service-review'', wt_name = ''Recurring Service Review'', wt_trigger = ''schedule.monthly'',
      wt_description = ''Review a client-scoped local service posture, explicit follow-up candidates, lifecycle evidence, and automation activity without changing records.'',
      wt_action = ''client.recurring_service_review'', wt_approval = False, wt_risk = ''low'', wt_preview = [''client_id'', ''period_start'', ''period_end'', ''follow_up_candidates'', ''evidence_status''],
      wt_tool = Some ''recurring-service-review'', wt_schema = [(''type'', PStr ''object''), (''required'', PList [PStr ''period_start'', PStr ''period_end'']), (''properties'', PDict [(''period_start'', PStr ''inclusive ISO date''), (''period_end'', PStr ''inclusive ISO date''), (''follow_up_after_days'', PStr ''integer from 1 to 90'')])]\<rparr>]"

definition M365_TEMPLATES :: "workflow_template list" where
  "M365_TEMPLATES =
    [\<lparr>wt_id = ''m365-user-onboarding-review'', wt_name = ''Microsoft 365 User Onboarding Review'', wt_trigger = ''ticket.created'',
      wt_description = ''Prepare a tenant-scoped Microsoft 365 user creation request from a ticket; the existing admin approval and local-vault credential path remains required.'',
      wt_action = ''m365.user_onboarding'', wt_approval = True, wt_risk = ''high'', wt_preview = [''user_principal_name'', ''display_name'', ''mail_nickname'', ''approval_required''],
      wt_tool = Some ''m365-user-onboarding'', wt_schema = [(''type'', PStr ''object''), (''required'', PList [PStr ''user_principal_name'', PStr ''display_name'', PStr ''mail_nickname'', PStr ''temporary_vault_name'']), (''properties'', PDict [(''user_principal_name'', PStr ''string''), (''display_name'', PStr ''string''), (''mail_nickname'', PStr ''string''), (''temporary_vault_name'', PStr ''local vault key name''), (''account_enabled'', PStr ''boolean''), (''force_change_password_next_sign_in'', PStr ''boolean'')])]\<rparr>,
     \<lparr>wt_id = ''m365-user-offboarding-review'', wt_name = ''Microsoft 365 User Offboarding Review'', wt_trigger = ''ticket.updated'',
      wt_description = ''Prepare a tenant-scoped Microsoft 365 disable-and-revoke request; the existing admin approval and partial-failure reporting remain required.'',
      wt_action = ''m365.user_offboarding'', wt_approval = True, wt_risk = ''high'', wt_preview = [''user_identity'', ''user_id'', ''approval_required''],
      wt_tool = Some ''m365-user-offboarding'', wt_schema = [(''type'', PStr ''object''), (''required'', PList [PStr ''user_identity'', PStr ''user_id'']), (''properties'', PDict [(''user_identity'', PStr ''string''), (''user_id'', PStr ''immutable directory ID'')])]\<rparr>,
     \<lparr>wt_id = ''m365-password-reset-review'', wt_name = ''Microsoft 365 Password Reset Review'', wt_trigger = ''ticket.updated'',
      wt_description = ''Prepare an approval-gated Microsoft 365 password reset using a temporary credential reference held in WAIT's local encrypted vault.'',
      wt_action = ''m365.password_reset'', wt_approval = True, wt_risk = ''high'', wt_preview = [''user_identity'', ''temporary_vault_name'', ''approval_required''],
      wt_tool = Some ''m365-password-reset'', wt_schema = [(''type'', PStr ''object''), (''required'', PList [PStr ''user_identity'', PStr ''temporary_vault_name'']), (''properties'', PDict [(''user_identity'', PStr ''string''), (''temporary_vault_name'', PStr ''local vault key name''), (''force_change_password_next_sign_in'', PStr ''boolean''), (''force_change_password_next_sign_in_with_mfa'', PStr ''boolean'')])]\<rparr>,
     \<lparr>wt_id = ''m365-authentication-method-removal-review'', wt_name = ''Microsoft 365 Authentication Method Removal Review'', wt_trigger = ''ticket.updated'',
      wt_description = ''Prepare an approval-gated removal of one explicitly identified Microsoft 365 authentication method; broad MFA reset operations are not performed.'',
      wt_action = ''m365.authentication_method_removal'', wt_approval = True, wt_risk = ''high'', wt_preview = [''user_identity'', ''method_type'', ''method_id'', ''approval_required''],
      wt_tool = Some ''m365-authentication-method-remove'', wt_schema = [(''type'', PStr ''object''), (''required'', PList [PStr ''user_identity'', PStr ''method_type'', PStr ''method_id'']), (''properties'', PDict [(''user_identity'', PStr ''string''), (''method_type'', PStr ''fido2, microsoft_authenticator, phone, or software_oath''), (''method_id'', PStr ''immutable authentication method ID'')])]\<rparr>,
     \<lparr>wt_id = ''m365-license-request-review'', wt_name = ''Microsoft 365 License Request Review'', wt_trigger = ''ticket.created'',
      wt_description = ''Prepare an approval-gated Microsoft 365 license add or removal request using immutable user and SKU IDs.'',
      wt_action = ''m365.license_request'', wt_approval = True, wt_risk = ''high'', wt_preview = [''operation'', ''user_id'', ''sku_ids'', ''approval_required''],
      wt_tool = Some ''m365-license-change'', wt_schema = [(''type'', PStr ''object''), (''required'', PList [PStr ''user_id'', PStr ''sku_ids'', PStr ''operation'']), (''properties'', PDict [(''user_id'', PStr ''immutable directory ID''), (''sku_ids'', PStr ''array of immutable license SKU IDs''), (''operation'', PStr ''add or remove'')])]\<rparr>]"

definition EVIDENCE_TEMPLATES :: "workflow_template list" where
  "EVIDENCE_TEMPLATES =
    [\<lparr>wt_id = ''m365-compliance-review'', wt_name = ''Microsoft 365 Compliance Review'', wt_trigger = ''schedule.daily'',
      wt_description = ''Read tenant-scoped managed-device and license evidence and identify observed attention items; no regulatory compliance claim or write is inferred.'',
      wt_action = ''m365.compliance_review'', wt_approval = False, wt_risk = ''low'', wt_preview = [''device_count'', ''license_count'', ''findings'', ''connector_status''],
      wt_tool = Some ''m365-compliance-review'', wt_schema = [(''type'', PStr ''object''), (''properties'', PDict [(''limit'', PStr ''integer from 1 to 50 (default: 50)'')])]\<rparr>,
     \<lparr>wt_id = ''m365-inactive-license-review'', wt_name = ''Microsoft 365 Inactive-License Review'', wt_trigger = ''schedule.daily'',
      wt_description = ''Read disabled-user license assignments through Microsoft Graph and report review candidates without proposing license reclamation.'',
      wt_action = ''m365.inactive_license_review'', wt_approval = False, wt_risk = ''low'', wt_preview = [''user_count'', ''inactive_user_count'', ''findings'', ''connector_status''],
      wt_tool = Some ''m365-inactive-license-review'', wt_schema = [(''type'', PStr ''object''), (''properties'', PDict [(''limit'', PStr ''integer from 1 to 50 (default: 50)'')])]\<rparr>,
     \<lparr>wt_id = ''software-inventory-review'', wt_name = ''Software Inventory Review'', wt_trigger = ''schedule.daily'',
      wt_description = ''Read one explicitly mapped N-sight software inventory through the existing RMM boundary; no software is installed, removed, or classified as vulnerable.'',
      wt_action = ''rmm.software_inventory_review'', wt_approval = False, wt_risk = ''low'', wt_preview = [''device_id'', ''software'', ''count'', ''source''],
      wt_tool = Some ''nsight-software-inventory'', wt_schema = [(''type'', PStr ''object''), (''required'', PList [PStr ''device_id'']), (''properties'', PDict [(''device_id'', PStr ''mapped N-sight device identifier'')])]\<rparr>]"

definition WORKFLOW_TEMPLATES :: "workflow_template list" where
  "WORKFLOW_TEMPLATES = TICKET_TEMPLATES @ REVIEW_TEMPLATES @ M365_TEMPLATES @ EVIDENCE_TEMPLATES"

definition get_workflow_template :: "string \<Rightarrow> workflow_template option" where
  "get_workflow_template template_id = find (\<lambda>t. wt_id t = template_id) WORKFLOW_TEMPLATES"

section \<open>The input\<close>

definition MAX_WORKFLOW_PAYLOAD_FIELDS :: nat where
  "MAX_WORKFLOW_PAYLOAD_FIELDS = 16"

definition MAX_WORKFLOW_PAYLOAD_BYTES :: nat where
  "MAX_WORKFLOW_PAYLOAD_BYTES = 8000"

text \<open>\<open>isinstance(v, int)\<close> that is not a boolean, within bounds.\<close>

fun int_within :: "(int \<Rightarrow> bool) \<Rightarrow> pyval \<Rightarrow> bool" where
  "int_within p (PInt i) = p i"
| "int_within p _ = False"

fun strings_of :: "pyval \<Rightarrow> string list" where
  "strings_of (PList xs) = concat (map (\<lambda>v. case v of PStr t \<Rightarrow> [t] | _ \<Rightarrow> []) xs)"
| "strings_of _ = []"

definition missing_fields :: "workflow_template \<Rightarrow> pydict \<Rightarrow> string list" where
  "missing_fields t payload = filter (\<lambda>f. dget payload f = None) (strings_of (dget_or (wt_schema t) ''required'' (PList [])))"

text \<open>The rules of the individual templates.\<close>

definition template_input_rule :: "workflow_template \<Rightarrow> pydict \<Rightarrow> unit res" where
  "template_input_rule t payload =
     (if wt_id t = ''ticket-sla-risk-review''
      then case dget_or payload ''thresholds_minutes'' PNone of
             PDict thresholds \<Rightarrow>
               raise_if (thresholds = [] \<or> list_ex (\<lambda>(priority, minutes). strip priority = [] \<or> \<not> int_within (\<lambda>i. 0 < i) minutes) thresholds)
                 (ValueError ''thresholds_minutes must map priorities to positive minutes'')
           | _ \<Rightarrow> Inl (ValueError ''thresholds_minutes must map priorities to positive minutes'')
      else if wt_id t = ''stale-ticket-sweep-review''
      then raise_if (\<not> int_within (\<lambda>i. 0 < i) (dget_or payload ''stale_after_minutes'' PNone))
             (ValueError ''stale_after_minutes must be a positive integer'')
      else if wt_id t = ''recurring-service-review''
      then raise_if (\<not> int_within (\<lambda>i. 1 \<le> i \<and> i \<le> 90) (dget_or payload ''follow_up_after_days'' (PInt 14)))
             (ValueError ''follow_up_after_days must be an integer between 1 and 90'')
      else if wt_id t \<in> {''m365-compliance-review'', ''m365-inactive-license-review''}
      then raise_if (\<not> int_within (\<lambda>i. 1 \<le> i \<and> i \<le> 50) (dget_or payload ''limit'' (PInt 50)))
             (ValueError ''limit must be an integer between 1 and 50'')
      else Inr ())"

definition bounded_workflow_payload :: "env \<Rightarrow> workflow_template \<Rightarrow> pydict \<Rightarrow> pydict res" where
  "bounded_workflow_payload E t payload =
     rbind (raise_if (length payload > MAX_WORKFLOW_PAYLOAD_FIELDS) (ValueError ''workflow payload may contain at most 16 fields'')) (\<lambda>_.
     let safe_payload = as_dict (redact_value E (PDict payload)) in
     rbind (raise_if (length (json_text (PDict safe_payload)) > MAX_WORKFLOW_PAYLOAD_BYTES)
       (ValueError ''workflow payload must be at most 8000 bytes'')) (\<lambda>_.
     let missing = missing_fields t safe_payload in
     rbind (raise_if (missing \<noteq> []) (ValueError (''workflow payload is missing required field(s): '' @ join '', '' missing))) (\<lambda>_.
     rbind (template_input_rule t safe_payload) (\<lambda>_.
     Inr safe_payload))))"

definition validate_workflow_input :: "env \<Rightarrow> string \<Rightarrow> pydict \<Rightarrow> pydict res" where
  "validate_workflow_input E template_id payload =
     (case get_workflow_template template_id of
        None \<Rightarrow> Inl (KeyError template_id)
      | Some t \<Rightarrow> bounded_workflow_payload E t payload)"

section \<open>Stored runs\<close>

text \<open>\<open>WorkflowRun\<close>; a run that was not stored has no identifier and blank timestamps.\<close>

record workflow_run =
  wo_id :: "int option"
  wo_template :: string
  wo_ticket :: string
  wo_status :: string
  wo_message :: string
  wo_approval :: "int option"
  wo_created :: stamp
  wo_updated :: stamp
  wo_client :: "string option"
  wo_version :: "int option"

definition run_from_row :: "workflow_run_row \<Rightarrow> workflow_run" where
  "run_from_row w = \<lparr>wo_id = Some (wr_id w), wo_template = wr_template w, wo_ticket = wr_ticket w, wo_status = wr_status w,
     wo_message = wr_message w, wo_approval = wr_approval w, wo_created = At (wr_created w), wo_updated = At (wr_updated w),
     wo_client = wr_client w, wo_version = wr_version w\<rparr>"

definition get_workflow_run :: "int \<Rightarrow> scope_arg \<Rightarrow> store \<Rightarrow> workflow_run_row option res" where
  "get_workflow_run run_id scope s =
     rbind (client_scope_predicate scope) (\<lambda>p. Inr (find (\<lambda>w. wr_id w = run_id \<and> p (wr_client w)) (workflow_runs s)))"

definition list_workflow_runs :: "scope_arg \<Rightarrow> store \<Rightarrow> workflow_run_row list res" where
  "list_workflow_runs scope s =
     rbind (client_scope_predicate scope) (\<lambda>p. Inr (rev (sort_key wr_id (filter (\<lambda>w. p (wr_client w)) (workflow_runs s)))))"

definition create_workflow_run ::
  "env \<Rightarrow> time \<Rightarrow> string \<Rightarrow> string \<Rightarrow> string \<Rightarrow> string \<Rightarrow> int option \<Rightarrow> string option \<Rightarrow> int option \<Rightarrow> store \<Rightarrow>
   (workflow_run_row \<times> store) res" where
  "create_workflow_run E now template_id ticket_id status message approval_id client_id version s =
     rbind (require_ticket_not_quarantined s ticket_id) (\<lambda>_.
     let i = workflow_runs_seq s + 1; c = normalize_client_id client_id;
         s1 = s\<lparr>workflow_runs_seq := i, workflow_runs := workflow_runs s @
                [\<lparr>wr_id = i, wr_template = template_id, wr_ticket = ticket_id, wr_status = status, wr_message = message,
                  wr_approval = approval_id, wr_created = now, wr_updated = now, wr_client = c, wr_version = version\<rparr>]\<rparr>;
         s2 = add_audit_row now ''workflow.run_created'' ticket_id message c None s1;
         s3 = add_history_row E now ''workflow.execution'' ticket_id status message
                (PDict [(''template_id'', PStr template_id), (''ticket_id'', PStr ticket_id), (''approval_request_id'', opt_int approval_id),
                        (''template_version'', opt_int version)]) None s2
     in rbind (get_workflow_run i (Scope AllClients) s3) (\<lambda>found.
        case found of None \<Rightarrow> Inl (RuntimeError ''workflow run was not persisted'') | Some w \<Rightarrow> Inr (w, s3)))"

section \<open>Running a template\<close>

text \<open>The arguments of \<open>run_workflow_template\<close> beside the store and the tool executor.\<close>

record workflow_request =
  wq_template :: string
  wq_ticket :: string
  wq_client :: "string option"
  wq_actor :: string
  wq_trigger :: string
  wq_override :: "workflow_template option"
  wq_instructions :: string
  wq_version :: "int option"
  wq_payload :: pydict
  wq_correlation :: "string option"

definition classify_ticket :: "string \<Rightarrow> string \<Rightarrow> string" where
  "classify_ticket subject body =
     (let t = lower (subject @ '' '' @ body) in
      if contains ''mfa'' t \<or> contains ''password'' t \<or> contains ''sign-in'' t then ''identity-access''
      else if contains ''mailbox'' t \<or> contains ''distribution'' t then ''collaboration-change''
      else if contains ''disk'' t \<or> contains ''printer'' t then ''endpoint-triage''
      else ''general-service-desk'')"

definition workflow_message :: "env \<Rightarrow> workflow_template \<Rightarrow> ticket_row \<Rightarrow> action_result option \<Rightarrow> string" where
  "workflow_message E t ticket tool_result =
     (case tool_result of
        Some r \<Rightarrow>
          if rs_status r = ''success'' then ''Completed '' @ lower (wt_name t) @ '' for '' @ tk_id ticket @ ''.''
          else if rs_status r = ''pending_approval''
          then ''Prepared '' @ lower (wt_name t) @ '' for '' @ tk_id ticket @ ''; approval required before execution.''
          else let detail = strip (redact E (rs_error r)) in
            wt_name t @ '' for '' @ tk_id ticket @ '' '' @ rs_status r @ (if detail = [] then ''.'' else '': '' @ detail)
      | None \<Rightarrow>
          if wt_id t = ''ticket-triage''
          then ''Classified '' @ tk_id ticket @ '' as '' @ classify_ticket (tk_subject ticket) (tk_body ticket) @ ''.''
          else if wt_id t = ''assign-technician''
          then ''Drafted technician assignment for '' @ tk_id ticket @ ''; approval required before PSA update.''
          else if wt_id t = ''inactive-ticket-follow-up''
          then ''Drafted inactive ticket follow-up for '' @ tk_id ticket @ ''; approval required before sending.''
          else if wt_id t = ''p1-alert''
          then ''Prepared priority alert for '' @ tk_id ticket @ ''; approval required before notification.''
          else ''Drafted documentation-assisted response for '' @ tk_id ticket @ ''; approval required before posting.'')"

text \<open>The payload of the tool: the input, the defaults of the two message templates, and the ticket.\<close>

definition dset_default :: "pydict \<Rightarrow> string \<Rightarrow> pyval \<Rightarrow> pydict" where
  "dset_default d k v = (if dget d k = None then dset d k v else d)"

definition tool_payload :: "workflow_template \<Rightarrow> ticket_row \<Rightarrow> pydict \<Rightarrow> pydict" where
  "tool_payload t ticket payload =
     (let body = (if wt_id t = ''p1-alert''
                  then ''P1 alert for ticket \"'' @ tk_subject ticket @ ''\". Review and acknowledge this urgent ticket.''
                  else ''Following up on inactive ticket \"'' @ tk_subject ticket @
                       ''\". Please reply with an update or let us know if assistance is still needed.'');
          p = (if wt_id t \<in> {''inactive-ticket-follow-up'', ''p1-alert''}
               then dset_default (dset_default payload ''channel'' (PStr ''ticket_note'')) ''body'' (PStr body) else payload)
      in dset p ''ticket_id'' (PStr (tk_id ticket)))"

definition run_template_tool ::
  "service option \<Rightarrow> time \<Rightarrow> workflow_template \<Rightarrow> ticket_row \<Rightarrow> string \<Rightarrow> string option \<Rightarrow> pydict \<Rightarrow> string option \<Rightarrow> store \<Rightarrow>
   action_result option res \<times> store" where
  "run_template_tool executor now t ticket actor client_id payload correlation s =
     (case wt_tool t of
        None \<Rightarrow> (Inr None, s)
      | Some tool \<Rightarrow>
          (case executor of
             None \<Rightarrow> (Inl (RuntimeError (''workflow tool '' @ tool @ '' is not configured'')), s)
           | Some X \<Rightarrow>
               sbind (invoke X now tool (tool_payload t ticket payload) (Some (if actor = [] then ''workflow'' else actor)) False client_id
                        None False correlation s) (\<lambda>r u. (Inr (Some r), u))))"

definition workflow_status_for_tool :: "action_result \<Rightarrow> string" where
  "workflow_status_for_tool r =
     (if rs_status r = ''success'' then ''completed'' else if rs_status r = ''pending_approval'' then ''pending_approval'' else ''failed'')"

definition record_workflow_execution :: "service \<Rightarrow> workflow_run_row \<Rightarrow> string \<Rightarrow> string \<Rightarrow> string option \<Rightarrow> store \<Rightarrow> store" where
  "record_workflow_execution V run actor trigger correlation s =
     record_execution V \<lparr>ex_kind = ''workflow'', ex_source = wr_id run, ex_actor = actor, ex_status = wr_status run, ex_trigger = trigger,
       ex_client = wr_client run, ex_correlation = correlation, ex_metadata = [],
       ex_steps = [\<lparr>sp_kind = ''workflow.template'', sp_name = wr_template run, sp_status = wr_status run,
                     sp_input = PDict [(''template_id'', PStr (wr_template run)), (''ticket_id'', PStr (wr_ticket run))],
                     sp_output = PDict [(''message'', PStr (wr_message run)), (''approval_request_id'', opt_int (wr_approval run)),
                                        (''template_version'', opt_int (wr_version run))], sp_error = []\<rparr>],
       ex_evidence = PNone\<rparr> s"

text \<open>The answer for a quarantined ticket, which is not stored.\<close>

definition quarantined_run :: "workflow_template \<Rightarrow> ticket_row \<Rightarrow> int option \<Rightarrow> workflow_run" where
  "quarantined_run t ticket version =
     \<lparr>wo_id = None, wo_template = wt_id t, wo_ticket = tk_id ticket, wo_status = ''failed'',
      wo_message = ''ticket is quarantined pending client mapping'', wo_approval = None, wo_created = Blank_stamp, wo_updated = Blank_stamp,
      wo_client = tk_client ticket, wo_version = version\<rparr>"

text \<open>The status of the run and the request it waits for: the tool's, or a request of the run's own.\<close>

definition settle_workflow ::
  "env \<Rightarrow> time \<Rightarrow> workflow_template \<Rightarrow> ticket_row \<Rightarrow> string option \<Rightarrow> string \<Rightarrow> action_result option \<Rightarrow> store \<Rightarrow>
   (string \<times> int option) res \<times> store" where
  "settle_workflow E now t ticket client_id message tool_result s =
     (case tool_result of
        Some r \<Rightarrow> (Inr (workflow_status_for_tool r, rs_approval r), s)
      | None \<Rightarrow>
          if wt_approval t
          then sbind (tx (create_approval_request E now (tk_id ticket) (wt_action t)
                            [(''template_id'', PStr (wt_id t)), (''ticket_id'', PStr (tk_id ticket)), (''message'', PStr message)]
                            client_id DEFAULT_APPROVAL_EXPIRY_SECONDS s) s)
                 (\<lambda>approval u. (Inr (''pending_approval'', Some (ap_id approval)), u))
          else (Inr (''completed'', None), s))"

definition run_workflow_template ::
  "service \<Rightarrow> service option \<Rightarrow> time \<Rightarrow> workflow_request \<Rightarrow> store \<Rightarrow> workflow_run res \<times> store" where
  "run_workflow_template V executor now q s =
     (case (case wq_override q of Some t \<Rightarrow> Some t | None \<Rightarrow> get_workflow_template (wq_template q)) of
        None \<Rightarrow> (Inl (KeyError (wq_template q)), s)
      | Some t \<Rightarrow>
      let E = sm_env V; client = normalize_client_id (wq_client q) in
      case get_ticket (wq_ticket q) (client_scope_of client) s of
        Inl e \<Rightarrow> (Inl e, s)
      | Inr None \<Rightarrow> (Inl (LookupError (wq_ticket q)), s)
      | Inr (Some ticket) \<Rightarrow>
      if tk_client ticket = Some QUARANTINE_CLIENT_ID then (Inr (quarantined_run t ticket (wq_version q)), s)
      else
        let effective = (if client \<noteq> None then client else tk_client ticket) in
        case bounded_workflow_payload E t (wq_payload q) of
          Inl e \<Rightarrow> (Inl e, s)
        | Inr payload \<Rightarrow>
        sbind (run_template_tool executor now t ticket (wq_actor q) effective payload (wq_correlation q) s) (\<lambda>tool_result s1.
        let base = workflow_message E t ticket tool_result; extra = strip (redact E (wq_instructions q));
            message = (if extra = [] then base else base @ '' Operator instructions: '' @ extra) in
        sbind (settle_workflow E now t ticket effective message tool_result s1) (\<lambda>(status, approval) s2.
        sbind (tx (create_workflow_run E now (wt_id t) (tk_id ticket) status message approval effective (wq_version q) s2) s2) (\<lambda>run s3.
        (Inr (run_from_row run), record_workflow_execution V run (wq_actor q) (wq_trigger q) (wq_correlation q) s3)))))"

end
