(* ===== verification/Workflow_Links.thy ===== *)
theory Workflow_Links
  imports Workflows Smart_Action_Laws Approval_Laws
begin

text \<open>
  The link between a workflow run and the approval request it waits for: the run carries the status that request has, pending while
  it is pending, approved or rejected as it was decided, and rejected once it has expired. The operations on requests and the calls of
  the smart action service keep it.
\<close>

section \<open>The link\<close>

definition linked_status :: "string \<Rightarrow> string" where
  "linked_status status = (if status = ''expired'' then ''rejected'' else workflow_status_for_approval status)"

definition link_ok :: "store \<Rightarrow> workflow_run_row \<Rightarrow> bool" where
  "link_ok s w \<longleftrightarrow> (case wr_approval w of None \<Rightarrow> True
     | Some a \<Rightarrow> \<exists>r\<in>set (approvals s). ap_id r = a \<and> wr_status w = linked_status (ap_status r))"

definition run_ids_ok :: "store \<Rightarrow> bool" where
  "run_ids_ok s \<longleftrightarrow> distinct (map wr_id (workflow_runs s)) \<and> (\<forall>w\<in>set (workflow_runs s). wr_id w \<le> workflow_runs_seq s)"

definition workflow_inv :: "store \<Rightarrow> bool" where
  "workflow_inv s \<longleftrightarrow> approvals_inv s \<and> run_ids_ok s \<and> (\<forall>w\<in>set (workflow_runs s). link_ok s w)"

lemma link_ok_Some: "link_ok s w \<Longrightarrow> wr_approval w = Some a \<Longrightarrow> \<exists>r\<in>set (approvals s). ap_id r = a \<and> wr_status w = linked_status (ap_status r)"
  by (simp add: link_ok_def)

lemma link_okI: "(\<And>a. wr_approval w = Some a \<Longrightarrow> \<exists>r\<in>set (approvals s). ap_id r = a \<and> wr_status w = linked_status (ap_status r)) \<Longrightarrow> link_ok s w"
  by (simp add: link_ok_def split: option.split)

text \<open>The three shapes of change: none, new requests, and an update of the request \<open>i\<close> with the runs linked to it.\<close>

lemma workflow_inv_same:
  "workflow_inv s \<Longrightarrow> approvals t = approvals s \<Longrightarrow> approvals_seq t = approvals_seq s \<Longrightarrow> workflow_runs t = workflow_runs s \<Longrightarrow>
   workflow_runs_seq t = workflow_runs_seq s \<Longrightarrow> workflow_inv t"
  by (simp add: workflow_inv_def approvals_inv_def run_ids_ok_def link_ok_def cong: option.case_cong)

lemma workflow_inv_request:
  assumes "workflow_inv s" "approvals t = approvals s @ [row]" "approvals_seq t = approvals_seq s + 1" "ap_id row = approvals_seq s + 1"
    "ap_status row = ''pending''" "workflow_runs t = workflow_runs s" "workflow_runs_seq t = workflow_runs_seq s"
  shows "workflow_inv t"
proof -
  have "run_ids_ok t" using assms(1,6,7) by (simp add: workflow_inv_def run_ids_ok_def)
  have "approvals_inv s" using assms(1) by (simp add: workflow_inv_def)
  then have "approvals_inv t" using assms(2-5) by (fastforce simp: approvals_inv_def APPROVAL_STATUSES_def)
  moreover have "link_ok t w" if "w \<in> set (workflow_runs t)" for w
  proof (rule link_okI)
    fix a assume "wr_approval w = Some a"
    then show "\<exists>r\<in>set (approvals t). ap_id r = a \<and> wr_status w = linked_status (ap_status r)"
      using assms(1,6) that link_ok_Some [of s w a] unfolding assms(2) by (auto simp: workflow_inv_def)
  qed
  ultimately show ?thesis using \<open>run_ids_ok t\<close> by (simp add: workflow_inv_def)
qed

lemma workflow_inv_update:
  assumes "workflow_inv s" "approvals_inv t"
    and "approvals t = update_where p f (approvals s)" "workflow_runs t = update_where (\<lambda>w. wr_approval w = Some i) g (workflow_runs s)"
    and "\<And>r. ap_id (f r) = ap_id r" "\<And>w. wr_approval (g w) = wr_approval w \<and> wr_id (g w) = wr_id w"
    and "\<And>r. r \<in> set (approvals s) \<Longrightarrow> ap_id r \<noteq> i \<Longrightarrow> \<not> p r"
    and "\<And>r w. r \<in> set (approvals s) \<Longrightarrow> ap_id r = i \<Longrightarrow> wr_status (g w) = linked_status (ap_status (if p r then f r else r))"
    and "workflow_runs_seq t = workflow_runs_seq s"
  shows "workflow_inv t"
proof -
  have "run_ids_ok t" using assms(1,6,9) unfolding assms(4) workflow_inv_def run_ids_ok_def by (auto simp: map_update_where set_update_where)
  have "link_ok t w" if w: "w \<in> set (workflow_runs t)" for w
  proof (rule link_okI)
    fix a assume a: "wr_approval w = Some a"
    obtain v where v: "v \<in> set (workflow_runs s)" "w = (if wr_approval v = Some i then g v else v)"
      using w unfolding assms(4) set_update_where by blast
    have va: "wr_approval v = Some a" using a v(2) assms(6) by (simp split: if_splits)
    obtain r where r: "r \<in> set (approvals s)" "ap_id r = a" "wr_status v = linked_status (ap_status r)"
      using link_ok_Some [OF _ va] assms(1) v(1) by (auto simp: workflow_inv_def)
    let ?r = "if p r then f r else r"
    have "?r \<in> set (approvals t)" unfolding assms(3) set_update_where using r(1) by (rule imageI)
    moreover have "ap_id ?r = a" using r(2) assms(5) by simp
    moreover have "wr_status w = linked_status (ap_status ?r)"
    proof (cases "a = i")
      case True
      then have "w = g v" using v(2) va by simp
      then show ?thesis using assms(8) [of r v] r(1,2) True by simp
    next
      case False
      then have "w = v" "\<not> p r" using v(2) va r(1,2) assms(7) [of r] by auto
      then show ?thesis using r(3) by simp
    qed
    ultimately show "\<exists>r\<in>set (approvals t). ap_id r = a \<and> wr_status w = linked_status (ap_status r)" by blast
  qed
  then show ?thesis using assms(2) \<open>run_ids_ok t\<close> by (simp add: workflow_inv_def)
qed

text \<open>An update of requests that keeps their status and leaves the runs alone.\<close>

lemma workflow_inv_row:
  assumes "workflow_inv s" "approvals_inv t" "approvals t = update_where p f (approvals s)" "workflow_runs t = workflow_runs s"
    and "\<And>r. ap_id (f r) = ap_id r \<and> ap_status (f r) = ap_status r" "workflow_runs_seq t = workflow_runs_seq s"
  shows "workflow_inv t"
proof -
  have "run_ids_ok t" using assms(1,4,6) by (simp add: workflow_inv_def run_ids_ok_def)
  have "link_ok t w" if w: "w \<in> set (workflow_runs t)" for w
  proof (rule link_okI)
    fix a assume a: "wr_approval w = Some a"
    obtain r where r: "r \<in> set (approvals s)" "ap_id r = a" "wr_status w = linked_status (ap_status r)"
      using link_ok_Some [OF _ a] assms(1,4) w by (auto simp: workflow_inv_def)
    have "(if p r then f r else r) \<in> set (approvals t)" unfolding assms(3) set_update_where using r(1) by (rule imageI)
    then show "\<exists>r\<in>set (approvals t). ap_id r = a \<and> wr_status w = linked_status (ap_status r)"
      using r(2,3) assms(5) by (intro bexI [where x = "if p r then f r else r"]) auto
  qed
  then show ?thesis using assms(2) \<open>run_ids_ok t\<close> by (simp add: workflow_inv_def)
qed

section \<open>Expiry and the operations on requests\<close>

lemma runs_frame [simp]:
  "workflow_runs (add_audit_row n e u d c a s) = workflow_runs s" "workflow_runs (add_history_row E n e u st m p c s) = workflow_runs s"
  "workflow_runs_seq (add_audit_row n e u d c a s) = workflow_runs_seq s" "workflow_runs_seq (add_history_row E n e u st m p c s) = workflow_runs_seq s"
  by (simp_all add: add_audit_row_def add_history_row_def)

text \<open>A row that is about to be expired: the stored request it came from is pending or has expired since.\<close>

definition expirable :: "approval_row \<Rightarrow> store \<Rightarrow> bool" where
  "expirable row s \<longleftrightarrow> same_expiry row s \<and>
     (\<forall>r\<in>set (approvals s). ap_id r = ap_id row \<longrightarrow> ap_status row = ''pending'' \<longrightarrow> ap_status r \<in> {''pending'', ''expired''})"

lemma workflow_expire:
  assumes "expire_approval_request E now row s = (r', t)" "workflow_inv s" "expirable row s"
  shows "workflow_inv t \<and> (\<forall>x. expirable x s \<longrightarrow> expirable x t)"
  using assms(1)
proof (cases rule: expire_cases)
  case same
  then show ?thesis using assms(2) by simp
next
  case gone
  have "same_expiry row s" using assms(3) by (simp add: expirable_def)
  note ev = expire_evolves [OF assms(1) this, of "{}"]
  have inv: "approvals_inv t" using ev evolves_inv assms(2) by (auto simp: workflow_inv_def)
  have runs: "workflow_runs t = update_where (\<lambda>w. wr_approval w = Some (ap_id row))
      (\<lambda>w. w\<lparr>wr_status := ''rejected'', wr_updated := now\<rparr>) (workflow_runs s)" "workflow_runs_seq t = workflow_runs_seq s"
    using assms(1) gone(1,2) by (auto simp: expire_approval_request_def Let_def split: if_splits)
  have "workflow_inv t"
  proof (rule workflow_inv_update [OF assms(2) inv gone(3) runs(1) _ _ _ _ runs(2)])
    fix r w assume "r \<in> set (approvals s)" "ap_id r = ap_id row"
    then have "ap_status r = ''pending'' \<or> ap_status r = ''expired''" using assms(3) gone(1) by (simp add: expirable_def)
    then show "wr_status (w\<lparr>wr_status := ''rejected'', wr_updated := now\<rparr>) =
        linked_status (ap_status (if ap_id r = ap_id row \<and> ap_status r = ''pending''
          then r\<lparr>ap_status := ''expired'', ap_comment := ''Approval expired'', ap_updated := now,
                ap_approver := Some ''system:approval-expiry''\<rparr> else r))"
      using \<open>ap_id r = ap_id row\<close> by (auto simp: linked_status_def)
  qed simp_all
  moreover have "expirable x t" if "expirable x s" for x
    using that ev gone(3) unfolding expirable_def by (auto simp: set_update_where)
  ultimately show ?thesis by blast
qed

lemma stored_expirable:
  assumes "workflow_inv s" "row \<in> set (approvals s)" shows "expirable row s"
proof -
  have i: "approvals_inv s" using assms(1) by (simp add: workflow_inv_def)
  then have "r = row" if "r \<in> set (approvals s)" "ap_id r = ap_id row" for r
    using that assms(2) by (auto simp: approvals_inv_def distinct_map inj_on_def)
  then show ?thesis using inv_same_expiry [OF i assms(2)] by (auto simp: expirable_def)
qed

lemma workflow_get: "get_approval_request E now i s = (v, t) \<Longrightarrow> workflow_inv s \<Longrightarrow> workflow_inv t"
  by (auto simp: get_approval_request_def split: option.splits prod.splits
      dest!: find_approval_in workflow_expire intro: stored_expirable)

lemma workflow_expire_all:
  "expire_all E now rows s = (rs, t) \<Longrightarrow> workflow_inv s \<Longrightarrow> (\<And>r. r \<in> set rows \<Longrightarrow> expirable r s) \<Longrightarrow> workflow_inv t"
proof (induction E now rows s arbitrary: rs t rule: expire_all.induct)
  case (2 E now row rows s)
  from 2(2) obtain r' u rs' where e: "expire_approval_request E now row s = (r', u)"
    and r: "expire_all E now rows u = (rs', t)" by (auto split: prod.splits)
  note x = workflow_expire [OF e 2(3) 2(4) [OF list.set_intros(1)]]
  show ?case by (rule 2(1) [OF e [symmetric] r]) (use x 2(4) in auto)
qed simp

lemma workflow_persisted: "persisted E now i s = Inr (r, t) \<Longrightarrow> workflow_inv s \<Longrightarrow> workflow_inv t"
  by (auto simp: persisted_def split: prod.splits option.splits intro: workflow_get)

lemma workflow_load: "load_approval E now i s = Inr (row, t) \<Longrightarrow> workflow_inv s \<Longrightarrow> workflow_inv t"
  by (auto simp: load_approval_def res_simps case_option_Inr dest!: workflow_expire find_approval_in intro: stored_expirable)

text \<open>The shared shape: load, update the row, reload.\<close>

lemma workflow_row_op:
  assumes "workflow_inv s" "load_approval E now i s = Inr (row, s1)" "approvals_inv u"
    "approvals u = update_where p f (approvals s1)" "workflow_runs u = workflow_runs s1" "workflow_runs_seq u = workflow_runs_seq s1"
    "\<And>r. ap_id (f r) = ap_id r \<and> ap_status (f r) = ap_status r" "persisted E now i u = Inr (r, t)"
  shows "workflow_inv t"
  using workflow_persisted [OF assms(8)] workflow_inv_row [OF workflow_load [OF assms(2,1)] assms(3,4,5,7,6)] by blast

lemma workflow_update_request:
  assumes "workflow_inv s" "update_approval_request E now i st c ap al sm s = Inr (r, t)" shows "workflow_inv t"
proof -
  let ?f = "\<lambda>r. r\<lparr>ap_status := st, ap_comment := redact E c, ap_updated := now,
          ap_approver := (case ap of Some a \<Rightarrow> Some a | None \<Rightarrow> ap_approver r)\<rparr>"
  from assms(2) obtain row s1 u where l: "load_approval E now i s = Inr (row, s1)"
    and p: "persisted E now i u = Inr (r, t)"
    and g: "st \<in> {''pending'', ''approved'', ''rejected''}"
    and u: "approvals u = update_where (\<lambda>r. ap_id r = i) ?f (approvals s1)" "approvals_seq u = approvals_seq s1"
      "workflow_runs u = update_where (\<lambda>w. wr_approval w = Some i)
         (\<lambda>w. w\<lparr>wr_status := workflow_status_for_approval st, wr_updated := now\<rparr>) (workflow_runs s1)" "workflow_runs_seq u = workflow_runs_seq s1"
    by (clarsimp simp: update_approval_request_def res_simps Let_def)
  have s1: "workflow_inv s1" using workflow_load [OF l assms(1)] .
  then have "approvals_inv u" using g unfolding approvals_inv_def workflow_inv_def u(1,2)
    by (auto simp: map_update_where set_update_where APPROVAL_STATUSES_def)
  from s1 this u(1,3) have "workflow_inv u"
    by (rule workflow_inv_update) (use g u(4) in \<open>auto simp: linked_status_def\<close>)
  then show ?thesis using workflow_persisted [OF p] by blast
qed

lemma approvals_inv_update:
  "approvals_inv s \<Longrightarrow> approvals u = update_where p f (approvals s) \<Longrightarrow> approvals_seq u = approvals_seq s \<Longrightarrow>
   (\<And>r. ap_id (f r) = ap_id r \<and> ap_status (f r) = ap_status r) \<Longrightarrow> approvals_inv u"
  by (auto simp: approvals_inv_def map_update_where set_update_where)

lemma workflow_create_request:
  assumes "workflow_inv s" "create_approval_request E now sub a p cl n s = Inr (r, t)" shows "workflow_inv t"
proof -
  from assms(2) obtain u row where u: "persisted E now (approvals_seq s + 1) u = Inr (r, t)" "approvals u = approvals s @ [row]"
    "approvals_seq u = approvals_seq s + 1" "ap_id row = approvals_seq s + 1" "ap_status row = ''pending''" "workflow_runs u = workflow_runs s"
    "workflow_runs_seq u = workflow_runs_seq s"
    by (clarsimp simp: create_approval_request_def res_simps Let_def)
  then show ?thesis using workflow_persisted [OF u(1)] workflow_inv_request [OF assms(1) u(2-7)] by blast
qed

lemma workflow_approval_step: "approval_step E (now, c) s = Inr (w, t) \<Longrightarrow> workflow_inv s \<Longrightarrow> workflow_inv t"
proof (cases c)
  case (CreateApproval sub a p cl n)
  moreover assume "approval_step E (now, c) s = Inr (w, t)" "workflow_inv s"
  ultimately show ?thesis by (auto simp: forget_Inr intro: workflow_create_request)
next
  case (UpdateApproval i st cm ap al sm)
  moreover assume "approval_step E (now, c) s = Inr (w, t)" "workflow_inv s"
  ultimately show ?thesis by (auto simp: forget_Inr intro: workflow_update_request)
next
  case (UpdatePayload i p cm)
  moreover assume "approval_step E (now, c) s = Inr (w, t)" and inv: "workflow_inv s"
  ultimately obtain r row s1 u where l: "load_approval E now i s = Inr (row, s1)" and q: "persisted E now i u = Inr (r, t)"
    and u: "approvals u = update_where (\<lambda>r. ap_id r = i)
        (\<lambda>r. r\<lparr>ap_payload := json_dumps E p, ap_comment := redact E cm, ap_updated := now\<rparr>) (approvals s1)"
      "workflow_runs u = workflow_runs s1" "approvals_seq u = approvals_seq s1" "workflow_runs_seq u = workflow_runs_seq s1"
    by (clarsimp simp: forget_Inr update_approval_request_payload_def res_simps Let_def)
  have "approvals_inv u" using workflow_load [OF l inv] by (intro approvals_inv_update [OF _ u(1,3)]) (auto simp: workflow_inv_def)
  then show ?thesis by (rule workflow_row_op [OF inv l _ u(1,2,4) _ q]) simp
next
  case (RecordExecution i st m v ty)
  moreover assume "approval_step E (now, c) s = Inr (w, t)" and inv: "workflow_inv s"
  ultimately obtain r row s1 u where l: "load_approval E now i s = Inr (row, s1)" and q: "persisted E now i u = Inr (r, t)"
    and u: "approvals u = update_where (\<lambda>r. ap_id r = i)
        (\<lambda>r. r\<lparr>ap_exec_status := st, ap_exec_message := m, ap_executed := Some now,
               ap_exec_result := json_dumps E v, ap_updated := now\<rparr>) (approvals s1)"
      "workflow_runs u = workflow_runs s1" "approvals_seq u = approvals_seq s1" "workflow_runs_seq u = workflow_runs_seq s1"
    by (clarsimp simp: forget_Inr record_approval_execution_def res_simps Let_def)
  have "approvals_inv u" using workflow_load [OF l inv] by (intro approvals_inv_update [OF _ u(1,3)]) (auto simp: workflow_inv_def)
  then show ?thesis by (rule workflow_row_op [OF inv l _ u(1,2,4) _ q]) simp
next
  case (ClaimExecution i)
  moreover assume "approval_step E (now, c) s = Inr (w, t)" and inv: "workflow_inv s"
  ultimately obtain row s1 p f where l: "load_approval E now i s = Inr (row, s1)"
    and u: "approvals t = update_where p f (approvals s1)" "workflow_runs t = workflow_runs s1" "approvals_seq t = approvals_seq s1"
      "workflow_runs_seq t = workflow_runs_seq s1" "\<And>r. ap_id (f r) = ap_id r \<and> ap_status (f r) = ap_status r"
    by (clarsimp simp: forget_Inr claim_approval_execution_def res_simps Let_def)
  have "approvals_inv t" using workflow_load [OF l inv] by (intro approvals_inv_update [OF _ u(1,3,5)]) (auto simp: workflow_inv_def)
  then show ?thesis by (rule workflow_inv_row [OF workflow_load [OF l inv] _ u(1,2,5,4)])
next
  case (GetApproval i)
  moreover assume "approval_step E (now, c) s = Inr (w, t)" "workflow_inv s"
  ultimately show ?thesis using workflow_get [OF surjective_pairing] by auto
next
  case (ListApprovals sc)
  moreover assume "approval_step E (now, c) s = Inr (w, t)" and inv: "workflow_inv s"
  ultimately obtain rs p where "expire_all E now (rev (sort_key ap_id (filter (\<lambda>r. p (ap_client r)) (approvals s)))) s = (rs, t)"
    by (auto simp: forget_Inr list_approval_requests_def res_simps)
  then show ?thesis using inv by (rule workflow_expire_all) (use stored_expirable [OF inv] in auto)
qed

section \<open>The smart action service\<close>

text \<open>
  The registered actions leave the requests and the runs alone and name no request in their results; a request is named by the
  service alone.
\<close>

definition keeps_workflows :: "service \<Rightarrow> bool" where
  "keeps_workflows V \<longleftrightarrow> keeps_records V \<and> (\<forall>(k, a)\<in>set (sm_registry V). \<forall>ctx p s.
     workflow_runs (snd (ac_run a ctx p s)) = workflow_runs s \<and> workflow_runs_seq (snd (ac_run a ctx p s)) = workflow_runs_seq s \<and>
     (case fst (ac_run a ctx p s) of Inl e \<Rightarrow> True | Inr r \<Rightarrow> rs_approval r = None))"

lemma workflow_safe_run:
  assumes "keeps_workflows V" "registry_get (sm_registry V) i = Inr a" "safe_run E a ctx p s = (r, t)"
  shows "rs_approval r = None \<and> workflow_runs_seq t = workflow_runs_seq s \<and> workflow_runs t = workflow_runs s \<and> approvals t = approvals s \<and>
    approvals_seq t = approvals_seq s"
proof -
  obtain k where "(k, a) \<in> set (sm_registry V)" using assms(2) by (auto simp: registry_get_def split: option.splits dest: dget_Some_in)
  then have "workflow_runs (snd (ac_run a ctx p s)) = workflow_runs s" "workflow_runs_seq (snd (ac_run a ctx p s)) = workflow_runs_seq s"
    "case fst (ac_run a ctx p s) of Inl e \<Rightarrow> True | Inr r \<Rightarrow> rs_approval r = None" using assms(1) unfolding keeps_workflows_def by blast+
  moreover have "keeps_records V" using assms(1) by (simp add: keeps_workflows_def)
  ultimately show ?thesis using safe_run_keeps [OF _ assms(2,3)] assms(3)
    by (auto simp: safe_run_def failed_def split: prod.splits sum.splits)
qed

lemma workflow_safe_run_inv:
  "keeps_workflows V \<Longrightarrow> registry_get (sm_registry V) i = Inr a \<Longrightarrow> safe_run E a ctx p s = (r, t) \<Longrightarrow> workflow_inv s \<Longrightarrow> workflow_inv t"
  by (drule (2) workflow_safe_run) (auto intro: workflow_inv_same)

lemma record_runs_frame [frame]:
  "workflow_runs (record_action V a i p r c cl tr st co s) = workflow_runs s"
  "workflow_runs_seq (record_action V a i p r c cl tr st co s) = workflow_runs_seq s"
  "workflow_runs (add_audit_event E now ty su de cl ap s) = workflow_runs s"
  "workflow_runs_seq (add_audit_event E now ty su de cl ap s) = workflow_runs_seq s"
  by (simp_all add: record_action_def record_execution_def audit_defs)

lemma persist_result_frame:
  assumes "persist_result V now a ac d res co cl p cr s = (r, t)"
  shows "approvals t = approvals s \<and> approvals_seq t = approvals_seq s \<and> workflow_runs t = workflow_runs s \<and>
    workflow_runs_seq t = workflow_runs_seq s \<and> rs_approval r = rs_approval res"
  using assms by (auto simp: persist_result_def create_smart_action_run_def Let_def frame redact_result_def result_with_run_def)

lemma refuse_actor_frame:
  assumes "refuse_actor V now a d cl p cr s = (r, t)"
  shows "approvals t = approvals s \<and> approvals_seq t = approvals_seq s \<and> workflow_runs t = workflow_runs s \<and>
    workflow_runs_seq t = workflow_runs_seq s \<and> rs_approval r = None"
  using assms by (auto simp: refuse_actor_def create_smart_action_run_def Let_def frame result_with_run_def failed_def)

text \<open>A pending action: its request is new and pending when the call returns.\<close>

definition waits_for :: "store \<Rightarrow> int \<Rightarrow> bool" where
  "waits_for s a \<longleftrightarrow> (\<exists>r\<in>set (approvals s). ap_id r = a \<and> ap_status r = ''pending'')"

lemma seconds_after: "approval_expiry_at now n = Inr e \<Longrightarrow> now < e"
  by (auto simp: approval_expiry_at_def res_simps seconds_def)

lemma get_fresh_request:
  assumes "find_approval u i = Some row" "ap_expires row = At e" "now < e"
  shows "get_approval_request E now i u = (Some (approval_view E row), u)"
  using assms by (simp add: get_approval_request_def expire_approval_request_def)

lemma find_appended:
  "approvals_inv s \<Longrightarrow> approvals u = approvals s @ [row] \<Longrightarrow> ap_id row = approvals_seq s + 1 \<Longrightarrow> find_approval u (approvals_seq s + 1) = Some row"
proof -
  assume inv: "approvals_inv s" and u: "approvals u = approvals s @ [row]" "ap_id row = approvals_seq s + 1"
  have "find (\<lambda>r. ap_id r = approvals_seq s + 1) (approvals s) = None" using inv by (fastforce simp: find_None_iff approvals_inv_def)
  then show ?thesis using u by (simp add: find_approval_def find_append)
qed

lemma insert_pending_shape:
  assumes "insert_pending E now a ac d out ev p c x s = (run, u)"
  shows "\<exists>row. approvals u = approvals s @ [row] \<and> approvals_seq u = approvals_seq s + 1 \<and> ap_id row = approvals_seq s + 1 \<and>
    ap_status row = ''pending'' \<and> ap_expires row = At x \<and> workflow_runs u = workflow_runs s \<and> workflow_runs_seq u = workflow_runs_seq s"
  using assms by (auto simp: insert_pending_def Let_def audit_defs)

lemma create_pending_workflow:
  assumes "workflow_inv s" "create_pending_smart_action E now a ac d out ev p cl n s = Inr ((run, ap), t)"
  shows "workflow_inv t \<and> waits_for t (ap_id ap) \<and> workflow_runs t = workflow_runs s \<and> workflow_runs_seq t = workflow_runs_seq s"
proof -
  obtain e where e: "approval_expiry_at now n = Inr e"
    and r: "(let (run, s1) = insert_pending E now a ac d out ev p (normalize_client_id cl) e s in
     case get_approval_request E now (approvals_seq s1) s1 of
       (None, t) \<Rightarrow> Inl (RuntimeError ''pending smart action was not persisted'')
     | (Some approval, t) \<Rightarrow> Inr ((run, approval), t)) = Inr ((run, ap), t)"
    using assms(2) unfolding create_pending_smart_action_def by (simp only: rbind_Inr_iff) blast
  obtain run' u where i: "insert_pending E now a ac d out ev p (normalize_client_id cl) e s = (run', u)" by fastforce
  obtain row where u: "approvals u = approvals s @ [row]" "approvals_seq u = approvals_seq s + 1" "ap_id row = approvals_seq s + 1"
    "ap_status row = ''pending''" "ap_expires row = At e" "workflow_runs u = workflow_runs s" "workflow_runs_seq u = workflow_runs_seq s"
    using insert_pending_shape [OF i] by blast
  have "find_approval u (approvals_seq u) = Some row"
    unfolding u(2) using assms(1) u(1,3) by (intro find_appended) (auto simp: workflow_inv_def)
  from get_fresh_request [OF this u(5) seconds_after [OF e]] have "ap = approval_view E row" "t = u" using r i by simp_all
  moreover have "workflow_inv u" using workflow_inv_request [OF assms(1) u(1-4,6,7)] .
  ultimately show ?thesis using u by (auto simp: waits_for_def approval_view_def)
qed

text \<open>What an invocation does to the link: a result names a request only when it is pending, and the request then is.\<close>

definition tool_links :: "action_result \<Rightarrow> store \<Rightarrow> bool" where
  "tool_links r t \<longleftrightarrow> (\<forall>a. rs_approval r = Some a \<longrightarrow> rs_status r = ''pending_approval'' \<and> waits_for t a)"

lemma workflow_request_approval:
  assumes "keeps_workflows V" "registry_get (sm_registry V) i = Inr a" "workflow_inv s"
    and "request_approval V now a who d co cl n p cr s = (x, t)"
  shows "workflow_inv t \<and> workflow_runs t = workflow_runs s \<and> workflow_runs_seq t = workflow_runs_seq s \<and> (\<forall>r. x = Inr r \<longrightarrow> tool_links r t)"
proof -
  obtain draft s1 where dr: "safe_run (sm_env V) a \<lparr>cx_actor = who, cx_client = cl\<rparr> p s = (draft, s1)" by fastforce
  note k = workflow_safe_run [OF assms(1,2) dr]
  have s1: "workflow_inv s1" using workflow_safe_run_inv [OF assms(1,2) dr assms(3)] .
  show ?thesis
  proof (cases "rs_status draft = ''success''")
    case False
    obtain r u where r: "persist_result V now (mf_id (ac_manifest a)) who d draft co cl p cr s1 = (r, u)" by fastforce
    have "x = Inr r" "t = u" using assms(4) False by (simp_all add: request_approval_def dr r Let_def)
    then show ?thesis using persist_result_frame [OF r] k workflow_inv_same [OF s1] by (simp add: tool_links_def)
  next
    case True
    let ?out = "as_dict (redact_value (sm_env V) (PDict (dset (rs_output draft) ''approval_required'' (PBool True))))"
    let ?c = "create_pending_smart_action (sm_env V) now (mf_id (ac_manifest a)) who d ?out (rs_evidence draft)
      [(''action_id'', PStr (mf_id (ac_manifest a))), (''payload'', PDict p)] cl n s1"
    show ?thesis
    proof (cases ?c)
      case (Inl e)
      then show ?thesis using assms(4) True s1 k by (auto simp: request_approval_def dr Let_def)
    next
      case (Inr q)
      obtain run ap u where q: "q = ((run, ap), u)" by (metis surj_pair)
      note c = create_pending_workflow [OF s1 Inr [unfolded q]]
      have "workflow_inv t" "workflow_runs t = workflow_runs u" "workflow_runs_seq t = workflow_runs_seq u" "approvals t = approvals u"
        using assms(4) True c workflow_inv_same [of u t] by (auto simp: request_approval_def dr Let_def Inr [unfolded q] frame)
      moreover have "tool_links r t" if "x = Inr r" for r
        using assms(4) True c that \<open>approvals t = approvals u\<close>
        by (auto simp: request_approval_def dr Let_def Inr [unfolded q] tool_links_def waits_for_def result_with_run_def)
      ultimately show ?thesis using c k by simp
    qed
  qed
qed

lemma workflow_invoke:
  assumes "keeps_workflows V" "workflow_inv s" "invoke V now i p actor co cl ex rq cr s = (x, t)"
  shows "workflow_inv t \<and> workflow_runs t = workflow_runs s \<and> workflow_runs_seq t = workflow_runs_seq s \<and> (\<forall>r. x = Inr r \<longrightarrow> tool_links r t)"
proof (cases "registry_get (sm_registry V) i")
  case (Inr a)
  note req = workflow_request_approval [OF assms(1) Inr assms(2)]
  have direct: "workflow_inv u \<and> workflow_runs u = workflow_runs s \<and> workflow_runs_seq u = workflow_runs_seq s \<and> tool_links y u"
    if "safe_run E a ctx p s = (r, s1)" "persist_result V now m w d r co c p cr s1 = (y, u)" for E ctx r s1 m w d c y u
    using workflow_safe_run [OF assms(1) Inr that(1)] persist_result_frame [OF that(2)]
      workflow_inv_same [OF assms(2)] by (simp add: tool_links_def)
  have refused: "workflow_inv u \<and> workflow_runs u = workflow_runs s \<and> workflow_runs_seq u = workflow_runs_seq s \<and> tool_links y u"
    if "refuse_actor V now m d c p cr s = (y, u)" for m d c y u
    using refuse_actor_frame [OF that] workflow_inv_same [OF assms(2)] by (simp add: tool_links_def)
  show ?thesis using assms(3) req direct refused assms(2)
    by (auto simp: invoke_def Inr Let_def split: if_splits option.splits sum.splits prod.splits)
qed (use assms(2,3) in \<open>auto simp: invoke_def split: if_splits\<close>)

lemma workflow_complete_run: "complete_smart_action_run E now i st out ev ap who e cap s = Inr (x, t) \<Longrightarrow> workflow_inv s \<Longrightarrow> workflow_inv t"
  by (drule complete_run_Inr) (auto intro: workflow_inv_same)

lemma workflow_sbind_tx:
  assumes "sbind (tx c s) f = (x, t)" "workflow_inv s" "\<And>y u. c = Inr (y, u) \<Longrightarrow> workflow_inv u"
    and "\<And>y u x t. workflow_inv u \<Longrightarrow> f y u = (x, t) \<Longrightarrow> workflow_inv t"
  shows "workflow_inv t"
proof (cases c)
  case (Inr p)
  then obtain y u where "c = Inr (y, u)" by (cases p) simp
  then show ?thesis using assms by auto
qed (use assms(1,2) in simp)

lemma workflow_framed:
  "workflow_inv s \<Longrightarrow> workflow_inv (record_action V a i p r c cl tr st co s)" "workflow_inv s \<Longrightarrow> workflow_inv (add_audit_event E now ty su de cl ap s)"
  by (rule workflow_inv_same [of s]; simp add: frame)+

lemma workflow_complete_approved:
  assumes "keeps_workflows V" "\<And>a. act = Some a \<Longrightarrow> registry_get (sm_registry V) i = Inr a" "workflow_inv s"
    and "complete_approved V now approval run action_id approver act s = (x, t)"
  shows "workflow_inv t"
proof -
  obtain r s1 where r: "run_approved V approval run action_id act s = (r, s1)" by fastforce
  have "workflow_inv s1"
    using r assms(2,3) workflow_safe_run_inv [OF assms(1)] by (auto simp: run_approved_def split: option.splits)
  with assms(4) show ?thesis
    by (auto simp: complete_approved_def r Let_def intro!: workflow_framed elim!: workflow_sbind_tx intro: workflow_complete_run)
qed

lemma workflow_complete_approval:
  assumes "keeps_workflows V" "complete_approval V now i approver rl s = (x, t)" "workflow_inv s"
  shows "workflow_inv t"
proof -
  obtain v s1 where g: "get_approval_request (sm_env V) now i s = (v, s1)" by fastforce
  have s1: "workflow_inv s1" using workflow_get [OF g assms(3)] .
  have e: "workflow_inv u" if "complete_expired V ap run a s1 = (y, u)" for ap run a y u
    using that s1 by (auto simp: complete_expired_def Let_def intro!: workflow_framed)
  have r: "workflow_inv u" if "complete_rejected V now ap run a who s1 = (y, u)" for ap run a who y u
    using that s1 by (auto simp: complete_rejected_def Let_def intro!: workflow_framed elim!: workflow_sbind_tx intro: workflow_complete_run)
  have n: "workflow_inv u" if "complete_approved V now ap run a who None s1 = (y, u)" for ap run a who y u
    using that by (intro workflow_complete_approved [OF assms(1) _ s1, where act = None]) auto
  have o: "workflow_inv u" if "registry_get (sm_registry V) k = Inr b" "complete_approved V now ap run a who (Some b) s1 = (y, u)" for k b ap run a who y u
    using that by (intro workflow_complete_approved [OF assms(1) _ s1, where act = "Some b"]) auto
  show ?thesis
    using assms(2) e r n o s1
    by (auto simp: complete_approval_def g Let_def split: option.splits if_splits sum.splits)
qed

lemma workflow_update_approval:
  assumes "keeps_workflows V" "update_approval V now i st c approver rl s = (x, t)" "workflow_inv s"
  shows "workflow_inv t"
proof -
  obtain v s1 where g: "get_approval_request (sm_env V) now i s = (v, s1)" by fastforce
  have s1: "workflow_inv s1" using workflow_get [OF g assms(3)] .
  show ?thesis
  proof (cases v)
    case (Some approval)
    have tail: "workflow_inv w" if "sbind (complete_approval V now i approver rl u) (\<lambda>_ s3.
        case get_approval_request (sm_env V) now i s3 of (Some r, s4) \<Rightarrow> (Inr r, s4) | (None, s4) \<Rightarrow> (Inr upd, s4)) = (y, w)" "workflow_inv u" for u upd y w
    proof -
      obtain z s3 where z: "complete_approval V now i approver rl u = (z, s3)" by fastforce
      obtain q s4 where q: "get_approval_request (sm_env V) now i s3 = (q, s4)" by fastforce
      have "w = s3 \<or> w = s4" using that(1) by (cases z; cases q) (auto simp: z q)
      then show ?thesis using workflow_complete_approval [OF assms(1) z that(2)] workflow_get [OF q] by blast
    qed
    have body: "workflow_inv w" if "sbind (tx (update_approval_request (sm_env V) now i st c approver False True s1) s1) (\<lambda>updated s2.
        sbind (complete_approval V now i approver rl s2) (\<lambda>_ s3.
        case get_approval_request (sm_env V) now i s3 of (Some r, s4) \<Rightarrow> (Inr r, s4) | (None, s4) \<Rightarrow> (Inr updated, s4))) = (y, w)" for y w
      using that tail workflow_update_request [OF s1] s1 by (elim workflow_sbind_tx) blast+
    have other: "workflow_inv w" if "tx (update_approval_request (sm_env V) now i st c approver False False s1) s1 = (y, w)" for y w
      using that workflow_update_request [OF s1] s1
      by (cases "update_approval_request (sm_env V) now i st c approver False False s1") (auto simp: tx_def)
    show ?thesis using assms(2) body other s1
      by (simp add: update_approval_def g Some Let_def split: if_splits sum.splits)
  qed (use assms(2) s1 in \<open>simp add: update_approval_def g\<close>)
qed

lemma workflow_smart_step: "keeps_workflows V \<Longrightarrow> workflow_inv s \<Longrightarrow> workflow_inv (smart_step V (now, d) s)"
proof (cases d)
  case (Approval x)
  moreover assume "workflow_inv s"
  ultimately show ?thesis using workflow_approval_step by (auto simp: apply_op_def split: sum.split)
next
  case (Invoke i p a co cl ex rq cr)
  moreover assume "keeps_workflows V" "workflow_inv s"
  ultimately show ?thesis using workflow_invoke [OF _ _ surjective_pairing] by simp
next
  case (Complete i a r)
  moreover assume "keeps_workflows V" "workflow_inv s"
  ultimately show ?thesis using workflow_complete_approval [OF _ surjective_pairing] by simp
next
  case (Decide i st c a r)
  moreover assume "keeps_workflows V" "workflow_inv s"
  ultimately show ?thesis using workflow_update_approval [OF _ surjective_pairing] by simp
qed

end
