(* ===== verification/Workflow_Run_Laws.thy ===== *)
theory Workflow_Run_Laws
  imports Workflow_Links
begin

text \<open>
  The runs of workflow templates keep the link between runs and requests, and what each run stores.
\<close>

section \<open>Running a template\<close>

lemma create_run_Inr:
  assumes "workflow_inv s" "create_workflow_run E now tp tk st m ap cl v s = Inr (w, t)"
  shows "w = \<lparr>wr_id = workflow_runs_seq s + 1, wr_template = tp, wr_ticket = tk, wr_status = st, wr_message = m, wr_approval = ap,
      wr_created = now, wr_updated = now, wr_client = normalize_client_id cl, wr_version = v\<rparr> \<and>
    workflow_runs t = workflow_runs s @ [w] \<and> workflow_runs_seq t = workflow_runs_seq s + 1 \<and> approvals t = approvals s \<and>
    approvals_seq t = approvals_seq s"
proof -
  let ?w = "\<lparr>wr_id = workflow_runs_seq s + 1, wr_template = tp, wr_ticket = tk, wr_status = st, wr_message = m, wr_approval = ap,
      wr_created = now, wr_updated = now, wr_client = normalize_client_id cl, wr_version = v\<rparr>"
  have "find (\<lambda>w. wr_id w = workflow_runs_seq s + 1) (workflow_runs s) = None"
    using assms(1) by (fastforce simp: find_None_iff workflow_inv_def run_ids_ok_def)
  then show ?thesis using assms(2)
    by (auto simp: create_workflow_run_def res_simps Let_def get_workflow_run_def client_scope_predicate_def find_append split: option.splits)
qed

definition run_links :: "string \<Rightarrow> int option \<Rightarrow> store \<Rightarrow> bool" where
  "run_links st ap s \<longleftrightarrow> (\<forall>a. ap = Some a \<longrightarrow> st = ''pending_approval'' \<and> waits_for s a)"

lemma create_run_inv:
  assumes "workflow_inv s" "create_workflow_run E now tp tk st m ap cl v s = Inr (w, t)" "run_links st ap s"
  shows "workflow_inv t"
proof -
  note c = create_run_Inr [OF assms(1,2)]
  have "link_ok t x" if x: "x \<in> set (workflow_runs t)" for x
  proof (cases "x = w")
    case True
    show ?thesis
    proof (rule link_okI)
      fix a assume "wr_approval x = Some a"
      then have "ap = Some a" "wr_status x = st" using c True by (metis workflow_run_row.select_convs(6), metis workflow_run_row.select_convs(4))
      moreover from this obtain r where "r \<in> set (approvals s)" "ap_id r = a" "ap_status r = ''pending''" "st = ''pending_approval''"
        using assms(3) by (auto simp: run_links_def waits_for_def)
      ultimately show "\<exists>r\<in>set (approvals t). ap_id r = a \<and> wr_status x = linked_status (ap_status r)"
        using c by (intro bexI [of _ r]) (auto simp: linked_status_def workflow_status_for_approval_def)
    qed
  next
    case False
    then have "link_ok s x" using x c assms(1) by (auto simp: workflow_inv_def)
    then show ?thesis using c by (simp add: link_ok_def cong: option.case_cong)
  qed
  moreover have "run_ids_ok t" using assms(1) c unfolding workflow_inv_def run_ids_ok_def by force
  moreover have "approvals_inv t" using assms(1) c by (simp add: workflow_inv_def approvals_inv_def)
  ultimately show ?thesis by (simp add: workflow_inv_def)
qed

lemma workflow_tool:
  assumes "\<And>X. executor = Some X \<Longrightarrow> keeps_workflows X" "workflow_inv s" "run_template_tool executor now tp ticket actor cl p cr s = (x, t)"
  shows "workflow_inv t \<and> workflow_runs t = workflow_runs s \<and> workflow_runs_seq t = workflow_runs_seq s \<and>
    (\<forall>r. x = Inr (Some r) \<longrightarrow> tool_links r t) \<and> (x = Inr None \<longrightarrow> wt_tool tp = None)"
proof (cases "wt_tool tp = None \<or> executor = None")
  case True
  then show ?thesis using assms(2,3) by (cases "wt_tool tp") (auto simp: run_template_tool_def)
next
  case False
  then obtain tool X where f: "wt_tool tp = Some tool" "executor = Some X" by auto
  obtain y u where i: "invoke X now tool (tool_payload tp ticket p) (Some (if actor = [] then ''workflow'' else actor)) False cl None False cr s = (y, u)"
    by fastforce
  have "x = (case y of Inl e \<Rightarrow> Inl e | Inr r \<Rightarrow> Inr (Some r)) \<and> t = u"
    using assms(3) i by (cases y) (simp_all add: run_template_tool_def f)
  then show ?thesis using workflow_invoke [OF assms(1) [OF f(2)] assms(2) i] by (cases y) auto
qed

lemma create_request_waits:
  assumes "workflow_inv s" "create_approval_request E now sub a p cl n s = Inr (r, t)"
  shows "workflow_inv t \<and> waits_for t (ap_id r) \<and> workflow_runs t = workflow_runs s \<and> workflow_runs_seq t = workflow_runs_seq s"
proof -
  from assms(2) obtain e u row where e: "approval_expiry_at now n = Inr e" and u: "persisted E now (approvals_seq s + 1) u = Inr (r, t)"
    "approvals u = approvals s @ [row]" "ap_id row = approvals_seq s + 1" "ap_status row = ''pending''" "ap_expires row = At e"
    "workflow_runs u = workflow_runs s" "workflow_runs_seq u = workflow_runs_seq s"
    by (clarsimp simp: create_approval_request_def res_simps Let_def)
  have "find_approval u (approvals_seq s + 1) = Some row" using assms(1) u(2,3) by (intro find_appended) (auto simp: workflow_inv_def)
  from get_fresh_request [OF this u(5) seconds_after [OF e]] have "r = approval_view E row" "t = u" using u(1) by (simp_all add: persisted_def)
  moreover from this have "waits_for t (ap_id r)" using u(2-4) by (auto simp: waits_for_def approval_view_def)
  ultimately show ?thesis using workflow_create_request [OF assms] u(6,7) by blast
qed

lemma workflow_settle:
  assumes "workflow_inv s" "\<And>r. tool_result = Some r \<Longrightarrow> tool_links r s" "settle_workflow E now tp ticket cl m tool_result s = (x, t)"
  shows "workflow_inv t \<and> workflow_runs t = workflow_runs s \<and> workflow_runs_seq t = workflow_runs_seq s \<and>
    (\<forall>st ap. x = Inr (st, ap) \<longrightarrow> run_links st ap t \<and> (tool_result = None \<longrightarrow> wt_approval tp \<longrightarrow> ap \<noteq> None) \<and>
       (st = ''completed'' \<longrightarrow> (case tool_result of None \<Rightarrow> \<not> wt_approval tp | Some r \<Rightarrow> rs_status r = ''success'')))"
proof (cases tool_result)
  case (Some r)
  then have "x = Inr (workflow_status_for_tool r, rs_approval r) \<and> t = s" using assms(3) by (auto simp: settle_workflow_def)
  then show ?thesis using assms(1) assms(2) [OF Some] Some
    by (auto simp: tool_links_def run_links_def workflow_status_for_tool_def split: if_splits)
next
  case None
  show ?thesis
  proof (cases "wt_approval tp")
    case False
    then show ?thesis using assms(1,3) None by (auto simp: settle_workflow_def run_links_def)
  next
    case True
    let ?c = "create_approval_request E now (tk_id ticket) (wt_action tp)
      [(''template_id'', PStr (wt_id tp)), (''ticket_id'', PStr (tk_id ticket)), (''message'', PStr m)] cl DEFAULT_APPROVAL_EXPIRY_SECONDS s"
    show ?thesis
    proof (cases ?c)
      case (Inl e)
      then show ?thesis using assms(1,3) None True by (auto simp: settle_workflow_def)
    next
      case (Inr q)
      obtain r u where q: "q = (r, u)" by fastforce
      have "x = Inr (''pending_approval'', Some (ap_id r)) \<and> t = u" using assms(3) None True by (auto simp: settle_workflow_def Inr q)
      then show ?thesis using create_request_waits [OF assms(1) Inr [unfolded q]] by (auto simp: run_links_def)
    qed
  qed
qed

lemma record_workflow_frame:
  "approvals (record_workflow_execution V w a tr c s) = approvals s" "approvals_seq (record_workflow_execution V w a tr c s) = approvals_seq s"
  "workflow_runs (record_workflow_execution V w a tr c s) = workflow_runs s"
  "workflow_runs_seq (record_workflow_execution V w a tr c s) = workflow_runs_seq s"
  by (simp_all add: record_workflow_execution_def record_execution_def)

text \<open>The three steps after the checks, whatever they return.\<close>

definition workflow_tail ::
  "service \<Rightarrow> service option \<Rightarrow> time \<Rightarrow> workflow_request \<Rightarrow> workflow_template \<Rightarrow> ticket_row \<Rightarrow> string option \<Rightarrow> pydict \<Rightarrow> store \<Rightarrow>
   workflow_run res \<times> store" where
  "workflow_tail V executor now q tp ticket effective payload s =
     sbind (run_template_tool executor now tp ticket (wq_actor q) effective payload (wq_correlation q) s) (\<lambda>tool_result s1.
     let base = workflow_message (sm_env V) tp ticket tool_result; extra = strip (redact (sm_env V) (wq_instructions q));
         message = (if extra = [] then base else base @ '' Operator instructions: '' @ extra) in
     sbind (settle_workflow (sm_env V) now tp ticket effective message tool_result s1) (\<lambda>(status, approval) s2.
     sbind (tx (create_workflow_run (sm_env V) now (wt_id tp) (tk_id ticket) status message approval effective (wq_version q) s2) s2) (\<lambda>run s3.
     (Inr (run_from_row run), record_workflow_execution V run (wq_actor q) (wq_trigger q) (wq_correlation q) s3))))"

definition run_of_ticket :: "workflow_template \<Rightarrow> string \<Rightarrow> string option \<Rightarrow> store \<Rightarrow> store \<Rightarrow> workflow_run \<Rightarrow> bool" where
  "run_of_ticket tp ticket_id cl s t r \<longleftrightarrow> (\<exists>w. workflow_runs t = workflow_runs s @ [w] \<and> r = run_from_row w \<and> wr_id w = workflow_runs_seq s + 1 \<and>
     wr_template w = wt_id tp \<and> wr_ticket w = ticket_id \<and> wr_client w = cl \<and>
     (case wr_approval w of None \<Rightarrow> wt_approval tp \<longrightarrow> wt_tool tp \<noteq> None | Some a \<Rightarrow> wr_status w = ''pending_approval'' \<and> waits_for t a) \<and>
     (wr_status w = ''completed'' \<longrightarrow> wt_approval tp \<longrightarrow> wt_tool tp \<noteq> None))"

lemma workflow_tail_inv:
  assumes "\<And>X. executor = Some X \<Longrightarrow> keeps_workflows X" "workflow_inv s" "workflow_tail V executor now q tp ticket cl p s = (x, t)"
  shows "workflow_inv t \<and> (\<forall>r. x = Inr r \<longrightarrow> run_of_ticket tp (tk_id ticket) (normalize_client_id cl) s t r)"
proof -
  obtain y s1 where y: "run_template_tool executor now tp ticket (wq_actor q) cl p (wq_correlation q) s = (y, s1)" by fastforce
  note tool = workflow_tool [OF assms(1,2) y]
  show ?thesis
  proof (cases y)
    case (Inl e)
    then show ?thesis using assms(3) tool by (auto simp: workflow_tail_def y)
  next
    case (Inr res)
    let ?base = "workflow_message (sm_env V) tp ticket res"
    let ?m = "if strip (redact (sm_env V) (wq_instructions q)) = [] then ?base
      else ?base @ '' Operator instructions: '' @ strip (redact (sm_env V) (wq_instructions q))"
    obtain z s2 where z: "settle_workflow (sm_env V) now tp ticket cl ?m res s1 = (z, s2)" by fastforce
    have "tool_links r s1" if "res = Some r" for r using tool Inr that by simp
    note settle = workflow_settle [OF conjunct1 [OF tool] this z]
    show ?thesis
    proof (cases z)
      case (Inl e)
      then show ?thesis using assms(3) settle by (auto simp: workflow_tail_def y Inr z Let_def)
    next
      case z': (Inr sa)
      obtain st ap where sa: "sa = (st, ap)" by fastforce
      let ?c = "create_workflow_run (sm_env V) now (wt_id tp) (tk_id ticket) st ?m ap cl (wq_version q) s2"
      show ?thesis
      proof (cases ?c)
        case (Inl e)
        then show ?thesis using assms(3) settle by (auto simp: workflow_tail_def y Inr z z' sa Let_def)
      next
        case c: (Inr wu)
        obtain w u where wu: "wu = (w, u)" by fastforce
        have links: "run_links st ap s2" using settle z' sa by blast
        have inv2: "workflow_inv s2" using settle by blast
        note inv = create_run_inv [OF inv2 c [unfolded wu] links] and row = create_run_Inr [OF inv2 c [unfolded wu]]
        have x: "x = Inr (run_from_row w)" and t: "t = record_workflow_execution V w (wq_actor q) (wq_trigger q) (wq_correlation q) u"
          using assms(3) by (auto simp: workflow_tail_def y Inr z z' sa Let_def c wu)
        have "workflow_inv t" using inv workflow_inv_same by (simp add: t record_workflow_frame)
        moreover have "workflow_runs t = workflow_runs s @ [w]" "approvals t = approvals s2" "workflow_runs_seq s2 = workflow_runs_seq s"
          using row tool settle by (simp_all add: t record_workflow_frame)
        moreover have "res = None \<longrightarrow> wt_tool tp = None" using tool Inr by simp
        moreover have "wt_tool tp = None \<longrightarrow> res = None" using y Inr by (auto simp: run_template_tool_def)
        ultimately show ?thesis using row settle z' sa x links
          by (auto simp: run_of_ticket_def run_links_def waits_for_def split: option.splits)
      qed
    qed
  qed
qed

text \<open>The checks before: a result is the unstored answer for a quarantined ticket, or comes from the steps above.\<close>

lemma run_template_cases:
  assumes "run_workflow_template V executor now q s = (x, t)"
  obtains (refused) e where "x = Inl e" "t = s"
  | (quarantined) tp ticket where "ticket \<in> set (tickets s)" "tk_id ticket = wq_ticket q" "tk_client ticket = Some QUARANTINE_CLIENT_ID"
      "x = Inr (quarantined_run tp ticket (wq_version q))" "t = s"
  | (run) tp ticket cl p where "ticket \<in> set (tickets s)" "tk_id ticket = wq_ticket q" "tk_client ticket \<noteq> Some QUARANTINE_CLIENT_ID"
      "case wq_override q of Some o' \<Rightarrow> tp = o' | None \<Rightarrow> get_workflow_template (wq_template q) = Some tp"
      "normalize_client_id cl = normalize_client_id (tk_client ticket)" "bounded_workflow_payload (sm_env V) tp (wq_payload q) = Inr p"
      "workflow_tail V executor now q tp ticket cl p s = (x, t)" "normalize_client_id (wq_client q) \<noteq> None \<longrightarrow> cl = normalize_client_id (wq_client q)"
proof -
  let ?tp = "case wq_override q of Some t \<Rightarrow> Some t | None \<Rightarrow> get_workflow_template (wq_template q)"
  show thesis
  proof (cases ?tp)
    case None
    then show thesis using assms refused [of "KeyError (wq_template q)"] by (auto simp: run_workflow_template_def split: option.splits)
  next
    case (Some tp)
    then have tp: "case wq_override q of Some o' \<Rightarrow> tp = o' | None \<Rightarrow> get_workflow_template (wq_template q) = Some tp"
      by (auto split: option.splits)
    let ?cl = "normalize_client_id (wq_client q)"
    note d = run_workflow_template_def Some Let_def
    show thesis
    proof (cases "get_ticket (wq_ticket q) (client_scope_of ?cl) s")
      case (Inl e)
      then show thesis using assms refused [of e] by (auto simp: d)
    next
      case got: (Inr found)
      show thesis
      proof (cases found)
        case None
        then show thesis using assms got refused [of "LookupError (wq_ticket q)"] by (auto simp: d)
      next
        case tk: (Some ticket)
        obtain sp where sp: "client_scope_predicate (client_scope_of ?cl) = Inr sp" "find (\<lambda>t. tk_id t = wq_ticket q \<and> sp (tk_client t)) (tickets s) = Some ticket"
          using got tk by (auto simp: get_ticket_def res_simps)
        have t: "ticket \<in> set (tickets s)" "tk_id ticket = wq_ticket q" "sp (tk_client ticket)" using find_SomeD [OF sp(2)] by auto
        show thesis
        proof (cases "tk_client ticket = Some QUARANTINE_CLIENT_ID")
          case True
          then have "(Inr (quarantined_run tp ticket (wq_version q)), s) = (x, t)" using assms by (simp only: d got tk option.case sum.case if_True simp_thms)
          then show thesis using quarantined [OF t(1,2) True, of tp] by simp
        next
          case False
          let ?eff = "if ?cl \<noteq> None then ?cl else tk_client ticket"
          have eff: "normalize_client_id ?eff = normalize_client_id (tk_client ticket)"
            using sp(1) t(3) by (auto simp: client_scope_of_def client_scope_predicate_def normalize_client_id_def strip_or_none_def Let_def split: option.splits if_splits)
          show thesis
          proof (cases "bounded_workflow_payload (sm_env V) tp (wq_payload q)")
            case (Inl e)
            then show thesis using assms False refused [of e] by (auto simp: d got tk)
          next
            case p: (Inr p)
            have "workflow_tail V executor now q tp ticket ?eff p s = (x, t)"
              using assms False by (simp only: d got tk p workflow_tail_def option.case sum.case if_False)
            then show thesis by (rule run [OF t(1,2) False tp eff p]) simp
          qed
        qed
      qed
    qed
  qed
qed

datatype workflow_op = RunTemplate bool workflow_request | ServiceCall smart_op

fun workflow_step :: "service \<Rightarrow> time \<times> workflow_op \<Rightarrow> store \<Rightarrow> store" where
  "workflow_step V (now, RunTemplate tools q) s = snd (run_workflow_template V (if tools then Some V else None) now q s)"
| "workflow_step V (now, ServiceCall c) s = smart_step V (now, c) s"

lemma workflow_step_inv: "keeps_workflows V \<Longrightarrow> workflow_inv s \<Longrightarrow> workflow_inv (workflow_step V c s)"
proof (induction c)
  case (Pair now d)
  show ?case
  proof (cases d)
    case (RunTemplate tools q)
    obtain x t where r: "run_workflow_template V (if tools then Some V else None) now q s = (x, t)" by fastforce
    have k: "\<And>X. (if tools then Some V else None) = Some X \<Longrightarrow> keeps_workflows X" using Pair by (auto split: if_splits)
    from r have "workflow_inv t"
      by (cases rule: run_template_cases) (use Pair workflow_tail_inv [OF k] in auto)
    then show ?thesis by (simp add: RunTemplate r)
  next
    case (ServiceCall c)
    then show ?thesis using workflow_smart_step Pair by simp
  qed
qed

lemma workflow_steps_inv: "keeps_workflows V \<Longrightarrow> workflow_inv s \<Longrightarrow> workflow_inv (fold (workflow_step V) ops s)"
  by (induction ops arbitrary: s) (auto intro: workflow_step_inv)

text \<open>
  C12. A workflow run follows the request it waits for. Under every sequence of workflow runs, operations on approval requests and calls
  of the smart action service, a stored run linked to a request has the status of that stored request: approved when it is approved,
  rejected when it is rejected or has expired, and pending approval otherwise. The registered actions must leave the tables of requests
  and runs alone.
\<close>

theorem workflow_runs_follow_approvals:
  assumes "keeps_workflows V" "workflow_inv s"
    and "w \<in> set (workflow_runs (fold (workflow_step V) ops s))" "wr_approval w = Some a"
  shows "\<exists>r\<in>set (approvals (fold (workflow_step V) ops s)). ap_id r = a \<and>
    wr_status w = (if ap_status r = ''approved'' then ''approved'' else if ap_status r \<in> {''rejected'', ''expired''} then ''rejected'' else ''pending_approval'')"
proof -
  have "link_ok (fold (workflow_step V) ops s) w" using workflow_steps_inv [OF assms(1,2)] assms(3) by (simp add: workflow_inv_def)
  then obtain r where "r \<in> set (approvals (fold (workflow_step V) ops s))" "ap_id r = a" "wr_status w = linked_status (ap_status r)"
    using link_ok_Some assms(4) by blast
  then show ?thesis by (intro bexI [of _ r]) (auto simp: linked_status_def workflow_status_for_approval_def)
qed


section \<open>A worked run\<close>

definition demo_workflow :: "string \<Rightarrow> string \<Rightarrow> workflow_request" where
  "demo_workflow template ticket = \<lparr>wq_template = template, wq_ticket = ticket, wq_client = None, wq_actor = ''alice'', wq_trigger = ''workflow'',
     wq_override = None, wq_instructions = [], wq_version = None, wq_payload = [], wq_correlation = None\<rparr>"

definition demo_desk :: store where
  "demo_desk = empty_store\<lparr>tickets := [plain_ticket ''T1'' (Some ''acme''), plain_ticket ''T2'' (Some QUARANTINE_CLIENT_ID)]\<rparr>"

definition demo_workflow_ops :: "(time \<times> workflow_op) list" where
  "demo_workflow_ops = [(10, RunTemplate False (demo_workflow ''assign-technician'' ''T1'')),
     (20, ServiceCall (Decide 1 ''approved'' [] (Some ''bob'') (Some TECHNICIAN)))]"

lemma demo_keeps_workflows: "keeps_workflows demo_service"
  using demo_keeps by (simp add: keeps_workflows_def demo_service_def demo_action_def)

lemma demo_desk_inv: "workflow_inv demo_desk"
  by (simp add: workflow_inv_def approvals_inv_def run_ids_ok_def demo_desk_def empty_store_def)

theorem workflow_runs_follow_approvals_witness:
  "map wr_status (workflow_runs (fold (workflow_step demo_service) demo_workflow_ops demo_desk)) = [''approved''] \<and>
   (\<exists>r\<in>set (approvals (fold (workflow_step demo_service) demo_workflow_ops demo_desk)). ap_id r = 1 \<and> ap_status r = ''approved'')"
proof -
  let ?t = "fold (workflow_step demo_service) demo_workflow_ops demo_desk"
  have st: "map (\<lambda>w. (wr_approval w, wr_status w)) (workflow_runs ?t) = [(Some 1, ''approved'')]" by code_simp
  then obtain w where w: "workflow_runs ?t = [w]" "wr_approval w = Some 1" "wr_status w = ''approved''" by auto
  have "w \<in> set (workflow_runs ?t)" by (simp add: w(1))
  from workflow_runs_follow_approvals [OF demo_keeps_workflows demo_desk_inv this w(2)]
  obtain r where "r \<in> set (approvals ?t)" "ap_id r = 1" "wr_status w = (if ap_status r = ''approved'' then ''approved''
      else if ap_status r \<in> {''rejected'', ''expired''} then ''rejected'' else ''pending_approval'')" by blast
  then show ?thesis using w by (auto split: if_splits)
qed


end
