(* ===== verification/Scheduled_Runs.thy ===== *)
theory Scheduled_Runs
  imports Scheduled_Jobs Workflows Agent_Runs Event_Dispatch
begin

text \<open>
  What the scheduler does when a job is due (\<open>SchedulerManager._run_job\<close> and the methods it calls, \<open>scheduler.py\<close>, with the
  \<open>backup_runs\<close> table of \<open>store.py\<close>). Workflow templates, agents and the event dispatcher are the modelled ones. The
  fields of \<open>job_env\<close> are the collaborators the manager was built with: playbooks, the report builders, the connector poller, the two
  environment runners, the backup writer and the founder scan; each is any function of the store that returns a result or raises, and
  leaves a store. A coroutine runs to its end before the next one starts; the log lines are not modelled.
\<close>

section \<open>The collaborators\<close>

record founder_env =
  fo_safe :: bool
  fo_config :: "store \<Rightarrow> bool"
  fo_candidates :: "store \<Rightarrow> (pyval \<times> string \<times> string) list"
  fo_advance :: "string \<Rightarrow> string \<Rightarrow> store \<Rightarrow> string option res \<times> store"

type_synonym scoped_runner = "string \<Rightarrow> store \<Rightarrow> string res \<times> store"

record job_env =
  je_base :: service
  je_sched :: sched_lib
  je_tools :: "service option"
  je_agents :: "agent_lib option"
  je_dispatcher :: "runtime option"
  je_playbook :: "string \<Rightarrow> string option \<Rightarrow> string option \<Rightarrow> pydict \<Rightarrow> (workflow_run \<Rightarrow> store \<Rightarrow> store) \<Rightarrow> store \<Rightarrow> (string \<times> string) res \<times> store"
  je_date :: "string \<Rightarrow> int option"
  je_iso :: "int \<Rightarrow> string"
  je_today :: "string \<Rightarrow> int"
  je_report :: "string \<Rightarrow> string \<Rightarrow> string \<Rightarrow> string \<Rightarrow> int option \<Rightarrow> store \<Rightarrow> int res \<times> store"
  je_poller :: "scoped_runner option"
  je_graph :: "scoped_runner option"
  je_baseline :: "scoped_runner option"
  je_backup :: "(string \<times> nat res) res option"
  je_directory :: string
  je_prune :: "int \<Rightarrow> string \<Rightarrow> int res"
  je_founder :: "founder_env option"

definition job_audit :: "job_env \<Rightarrow> time \<Rightarrow> string \<Rightarrow> string \<Rightarrow> string \<Rightarrow> string option \<Rightarrow> store \<Rightarrow> store" where
  "job_audit B now event subject detail client s = add_audit_event (sm_env (je_base B)) now event subject detail client None s"

text \<open>\<open>type(exc).__name__\<close>.\<close>

fun err_class :: "err \<Rightarrow> string" where
  "err_class (ValueError _) = ''ValueError''"
| "err_class (KeyError _) = ''KeyError''"
| "err_class (LookupError _) = ''LookupError''"
| "err_class (TypeError _) = ''TypeError''"
| "err_class (RuntimeError _) = ''RuntimeError''"
| "err_class (PermissionError _) = ''PermissionError''"
| "err_class (IntegrityError _) = ''IntegrityError''"
| "err_class (HTTPException _ _) = ''HTTPException''"
| "err_class (PrincipalInvariantError _) = ''PrincipalInvariantError''"
| "err_class (QuarantinedTicketError _) = ''QuarantinedTicketError''"
| "err_class (SupervisorPlanError _) = ''SupervisorPlanError''"
| "err_class (WorkflowDesignError _) = ''WorkflowDesignError''"
| "err_class (EventDispatchError _) = ''EventDispatchError''"
| "err_class (GovernanceValidationError _) = ''GovernanceValidationError''"
| "err_class (AgentDefinitionError _) = ''AgentDefinitionError''"
| "err_class (NetSecurityError _) = ''NetSecurityError''"
| "err_class (SecretVaultError _) = ''SecretVaultError''"
| "err_class (InvalidSignature _) = ''InvalidSignature''"

definition is_quarantined_ticket :: "store \<Rightarrow> string option \<Rightarrow> bool" where
  "is_quarantined_ticket s ticket_id =
     (case ticket_id of
        None \<Rightarrow> False
      | Some t \<Rightarrow> t \<noteq> [] \<and>
          (case get_ticket t (Scope AllClients) s of Inr (Some k) \<Rightarrow> tk_client k = Some QUARANTINE_CLIENT_ID | _ \<Rightarrow> False))"

text \<open>\<open>_dispatch_completion\<close>: a failure to dispatch is recorded and never undoes the finished run.\<close>

definition dispatch_completion ::
  "job_env \<Rightarrow> time \<Rightarrow> int option \<Rightarrow> string option \<Rightarrow> string option \<Rightarrow> string \<Rightarrow> string option \<Rightarrow> string \<Rightarrow> store \<Rightarrow> store" where
  "dispatch_completion B now run_id ticket_id template_id status client actor s =
     (case (je_dispatcher B, run_id, ticket_id, template_id) of
        (Some R, Some i, Some ticket, Some template) \<Rightarrow>
          if status \<noteq> ''completed'' then s
          else
            (case dispatch (sm_env (je_base B)) R now ''workflow.completed'' ''ticket'' ticket
                    [(''workflow_run_id'', PStr (show_int i)), (''workflow_template_id'', PStr template), (''status'', PStr ''completed'')]
                    (''workflow-completed:'' @ show_int i) client actor DEFAULT_EVENT_MAX_RETRIES DEFAULT_EVENT_RETRY_DELAY_SECONDS s of
               (Inr d, t) \<Rightarrow> job_audit B now ''workflow.completion_dispatched'' (show_int i)
                   (''workflow completion dispatched to '' @ show_nat (length (dr_agents d)) @ '' agent(s)'') client t
             | (Inl e, t) \<Rightarrow> job_audit B now ''workflow.completion_dispatch_failed'' (show_int i)
                   (redact (sm_env (je_base B)) (''workflow completion dispatch failed: '' @ show_err (sm_env (je_base B)) e)) client t)
      | _ \<Rightarrow> s)"

definition run_completed :: "job_env \<Rightarrow> time \<Rightarrow> workflow_run \<Rightarrow> store \<Rightarrow> store" where
  "run_completed B now r s =
     dispatch_completion B now (wo_id r) (Some (wo_ticket r)) (Some (wo_template r)) (wo_status r) (wo_client r) ''scheduler'' s"

text \<open>The \<open>try\<close> around the work of a job: a failure is recorded and raised again.\<close>

definition recorded_run ::
  "job_env \<Rightarrow> time \<Rightarrow> job_row \<Rightarrow> string option \<Rightarrow> (err \<Rightarrow> string) \<Rightarrow> 'a res \<times> store \<Rightarrow> ('a \<Rightarrow> store \<Rightarrow> unit res \<times> store) \<Rightarrow> unit res \<times> store" where
  "recorded_run B now j client detail p f =
     (case fst p of
        Inl e \<Rightarrow> (Inl e, job_audit B now ''scheduled_job.trigger_failed'' (show_int (jo_id j)) (detail e) client (snd p))
      | Inr x \<Rightarrow> f x (snd p))"

definition job_triggered :: "job_env \<Rightarrow> time \<Rightarrow> job_row \<Rightarrow> string \<Rightarrow> string option \<Rightarrow> store \<Rightarrow> store" where
  "job_triggered B now j detail client s = job_audit B now ''scheduled_job.triggered'' (show_int (jo_id j)) detail client s"

definition input_dict :: "string \<Rightarrow> pydict \<Rightarrow> pydict res" where
  "input_dict message params = (case dget_or params ''input'' (PDict []) of PDict d \<Rightarrow> Inr d | _ \<Rightarrow> Inl (ValueError message))"

section \<open>Workflows, playbooks and agents\<close>

definition required_ticket_id :: "pydict \<Rightarrow> string res" where
  "required_ticket_id params =
     (case string_or_none (dget_or params ''ticket_id'' PNone) of
        None \<Rightarrow> Inl (ValueError ''scheduled job params must include ticket_id'') | Some t \<Rightarrow> Inr t)"

definition run_workflow_job :: "job_env \<Rightarrow> time \<Rightarrow> job_row \<Rightarrow> pydict \<Rightarrow> string option \<Rightarrow> store \<Rightarrow> unit res \<times> store" where
  "run_workflow_job B now j params client s =
     (case required_ticket_id params of
        Inl e \<Rightarrow> (Inl e, s)
      | Inr ticket_id \<Rightarrow>
          recorded_run B now j client (\<lambda>e. jo_template j @ '' failed: '' @ show_err (sm_env (je_base B)) e)
            (case input_dict ''scheduled workflow input must be an object'' params of
               Inl e \<Rightarrow> (Inl e, s)
             | Inr input \<Rightarrow>
                 run_workflow_template (je_base B) (je_tools B) now
                   \<lparr>wq_template = jo_template j, wq_ticket = ticket_id, wq_client = client, wq_actor = ''scheduler'', wq_trigger = ''scheduler'',
                    wq_override = None, wq_instructions = [], wq_version = None, wq_payload = input, wq_correlation = None\<rparr> s)
            (\<lambda>run t. case wo_id run of
               None \<Rightarrow> (Inr (), t)
             | Some i \<Rightarrow> (Inr (), run_completed B now run
                   (job_triggered B now j (jo_template j @ '' created workflow run '' @ show_int i) client t))))"

definition run_playbook_job :: "job_env \<Rightarrow> time \<Rightarrow> job_row \<Rightarrow> pydict \<Rightarrow> string option \<Rightarrow> store \<Rightarrow> unit res \<times> store" where
  "run_playbook_job B now j params client s =
     (let E = sm_env (je_base B); ticket_id = string_or_none (dget_or params ''ticket_id'' PNone) in
      if is_quarantined_ticket s ticket_id then (Inr (), s)
      else recorded_run B now j client (\<lambda>e. ''playbook '' @ jo_template j @ '' failed: '' @ redact E (show_err E e))
             (case input_dict ''scheduled playbook input must be an object'' params of
                Inl e \<Rightarrow> (Inl e, s)
              | Inr input \<Rightarrow> je_playbook B (jo_template j) ticket_id client input (run_completed B now) s)
             (\<lambda>(run_id, status) t. (Inr (), job_triggered B now j
                (''playbook '' @ jo_template j @ '' created run '' @ run_id @ '' ('' @ status @ '')'') client t)))"

text \<open>What the checks of \<open>_run_agent_job\<close> deliver: the service, the scoped definition, the input and whether the window is open.\<close>

definition agent_job_checks ::
  "job_env \<Rightarrow> time \<Rightarrow> job_row \<Rightarrow> pydict \<Rightarrow> string option \<Rightarrow> store \<Rightarrow> (agent_lib \<times> agent_def \<times> string \<times> pydict \<times> bool) res" where
  "agent_job_checks B now j params client s =
     (case je_agents B of
        None \<Rightarrow> Inl (RuntimeError ''scheduled agent execution is not configured'')
      | Some L \<Rightarrow>
      case (jo_agent j, jo_entity j) of
        (Some agent_id, Some entity_id) \<Rightarrow>
          (case get_agent_definition agent_id None s of
             None \<Rightarrow> Inl (LookupError ''scheduled agent definition not found'')
           | Some d \<Rightarrow>
               rbind (raise_if (ad_trigger d \<noteq> ''scheduled'') (ValueError ''scheduled agent definition has the wrong trigger'')) (\<lambda>_.
               rbind (raise_if (ad_client d \<noteq> None \<and> ad_client d \<noteq> client)
                 (PermissionError ''scheduled agent is outside the schedule tenant scope'')) (\<lambda>_.
               let d' = (if ad_client d = None \<and> client \<noteq> None then d\<lparr>ad_client := client\<rparr> else d) in
               rbind (input_dict ''scheduled agent input must be an object'' params) (\<lambda>input.
               rbind (execution_window_open L now d') (\<lambda>window.
               Inr (L, d', entity_id, input, window))))))
      | _ \<Rightarrow> Inl (ValueError ''scheduled agent is missing agent_id or entity_id''))"

definition run_agent_job :: "job_env \<Rightarrow> time \<Rightarrow> job_row \<Rightarrow> pydict \<Rightarrow> string option \<Rightarrow> store \<Rightarrow> unit res \<times> store" where
  "run_agent_job B now j params client s =
     (let E = sm_env (je_base B); name = (case jo_agent j of None \<Rightarrow> ''None'' | Some a \<Rightarrow> a);
          detail = (\<lambda>e. ''agent '' @ name @ '' failed: '' @ show_err E e) in
      if is_quarantined_ticket s (jo_entity j) then (Inr (), s)
      else recorded_run B now j client detail (agent_job_checks B now j params client s, s) (\<lambda>(L, d, entity_id, input, window) t.
        if \<not> window
        then (Inr (), job_audit B now ''scheduled_job.window_closed'' (show_int (jo_id j)) (''agent '' @ name @ '' execution window is closed'') client t)
        else recorded_run B now j client detail (run_agent L now d entity_id ''scheduler'' input [] 0 None None None t) (\<lambda>r u.
          let v = job_triggered B now j (''agent '' @ name @ '' created agent run '' @ show_int (xr_run r) @ '' ('' @ xr_status r @ '')'') client u
          in (Inr (), if xr_status r = ''completed''
                      then dispatch_completion B now (Some (xr_run r)) (jo_entity j) (jo_agent j) (xr_status r) client ''scheduler'' v else v))))"

section \<open>Reports\<close>

definition scheduled_follow_up_after_days :: "pydict \<Rightarrow> int res" where
  "scheduled_follow_up_after_days params =
     (case dget_or params ''follow_up_after_days'' (PInt 14) of
        PInt i \<Rightarrow> if 1 \<le> i \<and> i \<le> 90 then Inr i else Inl (ValueError ''follow_up_after_days must be an integer between 1 and 90'')
      | _ \<Rightarrow> Inl (ValueError ''follow_up_after_days must be an integer between 1 and 90''))"

definition scheduled_report_period :: "job_env \<Rightarrow> pydict \<Rightarrow> string \<Rightarrow> (string \<times> string) res" where
  "scheduled_report_period B params timezone =
     (case dget_or params ''period_days'' PNone of
        PNone \<Rightarrow>
          (case (dget_or params ''period_start'' PNone, dget_or params ''period_end'' PNone) of
             (PStr a, PStr b) \<Rightarrow>
               (case (je_date B a, je_date B b) of
                  (Some start, Some finish_day) \<Rightarrow>
                    rbind (raise_if (finish_day < start) (ValueError ''scheduled report period_end must be on or after period_start'')) (\<lambda>_.
                    rbind (raise_if (finish_day - start > 365) (ValueError ''scheduled report period cannot exceed 366 days'')) (\<lambda>_.
                    Inr (je_iso B start, je_iso B finish_day)))
                | _ \<Rightarrow> Inl (ValueError ''scheduled report period must use ISO dates''))
           | _ \<Rightarrow> Inl (ValueError ''scheduled report params require period_days or period_start and period_end''))
      | v \<Rightarrow>
          rbind (raise_if (\<not> int_within (\<lambda>i. 1 \<le> i \<and> i \<le> 366) v) (ValueError ''period_days must be an integer between 1 and 366'')) (\<lambda>_.
          rbind (validate_timezone (je_sched B) timezone) (\<lambda>z.
          let today = je_today B z; n = (case as_int v of Some i \<Rightarrow> i | None \<Rightarrow> 1)
          in Inr (je_iso B (today - (n - 1)), je_iso B today))))"

definition run_report_job :: "job_env \<Rightarrow> time \<Rightarrow> job_row \<Rightarrow> pydict \<Rightarrow> string option \<Rightarrow> store \<Rightarrow> unit res \<times> store" where
  "run_report_job B now j params client s =
     (let E = sm_env (je_base B) in
      recorded_run B now j client (\<lambda>e. jo_template j @ '' report failed: '' @ redact E (show_err E e))
        (case client of
           None \<Rightarrow> (Inl (ValueError ''scheduled report params must include client_id''), s)
         | Some c \<Rightarrow>
             (case rbind (raise_if (jo_template j \<notin> set SCHEDULED_REPORT_TYPES)
                      (ValueError ''scheduled report type must be qbr, automation_opportunity, or recurring_service_review'')) (\<lambda>_.
                    rbind (scheduled_report_period B params (jo_timezone j)) (\<lambda>(a, b).
                    rbind (raise_if (je_tools B = None) (RuntimeError ''scheduled report execution is not configured'')) (\<lambda>_.
                    rbind (if jo_template j = ''recurring_service_review''
                           then rbind (scheduled_follow_up_after_days params) (\<lambda>n. Inr (Some n)) else Inr None) (\<lambda>follow_up.
                    Inr (a, b, follow_up))))) of
                Inl e \<Rightarrow> (Inl e, s)
              | Inr (a, b, follow_up) \<Rightarrow> je_report B (jo_template j) c a b follow_up s))
        (\<lambda>report t. (Inr (), job_triggered B now j (jo_template j @ '' created report '' @ show_int report) client t)))"

section \<open>The isolated jobs\<close>

definition run_connector_poll_job :: "job_env \<Rightarrow> time \<Rightarrow> job_row \<Rightarrow> store \<Rightarrow> unit res \<times> store" where
  "run_connector_poll_job B now j s =
     (case (je_poller B, jo_entity j) of
        (Some poll, Some entity_id) \<Rightarrow>
          (case poll entity_id s of
             (Inl e, t) \<Rightarrow> (Inr (), job_audit B now ''scheduled_job.connector_poll'' entity_id ''scheduled sync -> failed'' None t)
           | (Inr status, t) \<Rightarrow> (Inr (), job_audit B now ''scheduled_job.connector_poll'' entity_id (''scheduled sync -> '' @ status) None t))
      | _ \<Rightarrow> (Inr (), s))"

text \<open>The shared shape of \<open>_run_graph_sync_job\<close> and \<open>_run_baseline_snapshot_job\<close>.\<close>

definition run_scoped_job ::
  "job_env \<Rightarrow> time \<Rightarrow> job_row \<Rightarrow> scoped_runner option \<Rightarrow> string \<Rightarrow> string \<Rightarrow> (string \<Rightarrow> string) \<Rightarrow> store \<Rightarrow> unit res \<times> store" where
  "run_scoped_job B now j runner event label done_text s =
     (case (runner, text_or_none (jo_entity j)) of
        (Some run, Some client) \<Rightarrow>
          (case run client s of
             (Inl e, t) \<Rightarrow> (Inr (), job_audit B now event (show_int (jo_id j))
                 (label @ '' -> failed: '' @ err_class e @ '': provider request failed'') (Some client) t)
           | (Inr x, t) \<Rightarrow> (Inr (), job_audit B now event (show_int (jo_id j)) (label @ '' -> completed ('' @ done_text x @ '')'') (Some client) t))
      | _ \<Rightarrow> (Inr (), s))"

definition run_graph_sync_job :: "job_env \<Rightarrow> time \<Rightarrow> job_row \<Rightarrow> store \<Rightarrow> unit res \<times> store" where
  "run_graph_sync_job B now j s =
     run_scoped_job B now j (je_graph B) ''scheduled_job.graph_sync'' ''scheduled environment sync'' (\<lambda>x. x) s"

definition run_baseline_snapshot_job :: "job_env \<Rightarrow> time \<Rightarrow> job_row \<Rightarrow> store \<Rightarrow> unit res \<times> store" where
  "run_baseline_snapshot_job B now j s =
     run_scoped_job B now j (je_baseline B) ''scheduled_job.baseline_snapshot'' ''scheduled baseline snapshot'' (\<lambda>x. ''version '' @ x) s"

definition add_backup_run :: "time \<Rightarrow> string \<Rightarrow> string \<Rightarrow> int option \<Rightarrow> string \<Rightarrow> store \<Rightarrow> (backup_row \<times> store) res" where
  "add_backup_run now status destination size_bytes failure s =
     rbind (raise_if (status \<notin> {''succeeded'', ''failed''}) (ValueError ''backup status must be succeeded or failed'')) (\<lambda>_.
     rbind (raise_if (case size_bytes of None \<Rightarrow> False | Some n \<Rightarrow> n < 0) (ValueError ''backup size_bytes must be non-negative'')) (\<lambda>_.
     let f = (if failure \<in> {[], ''backup creation failed'', ''retention pruning failed''} then failure else ''backup operation failed'');
         i = backup_runs_seq s + 1;
         row = \<lparr>bk_id = i, bk_started = now, bk_finished = now, bk_status = status, bk_destination = destination, bk_size = size_bytes,
                 bk_failure = take 512 f\<rparr>
     in Inr (row, s\<lparr>backup_runs_seq := i, backup_runs := backup_runs s @ [row]\<rparr>)))"

definition backup_retention_count :: "store \<Rightarrow> int" where
  "backup_retention_count s =
     (case dget (app_config s) ''backup.retention_count'' of
        None \<Rightarrow> 7
      | Some raw \<Rightarrow> (case parse_int raw of None \<Rightarrow> 7 | Some v \<Rightarrow> if 1 \<le> v \<and> v \<le> 1000 then v else 7))"

definition run_backup :: "job_env \<Rightarrow> time \<Rightarrow> string \<Rightarrow> string \<Rightarrow> string \<Rightarrow> store \<Rightarrow> backup_row res \<times> store" where
  "run_backup B now event subject prefix s =
     (let (status, destination, size, failure) =
            (case je_backup B of
               Some (Inr (path, Inr n)) \<Rightarrow>
                 (''succeeded'', path, Some (int n),
                  case je_prune B (backup_retention_count s) path of
                    Inl e \<Rightarrow> ''retention pruning failed'' | Inr failures \<Rightarrow> if failures \<noteq> 0 then ''retention pruning failed'' else [])
             | Some (Inr (path, Inl e)) \<Rightarrow> (''failed'', path, None, ''backup creation failed'')
             | _ \<Rightarrow> (''failed'', je_directory B, None, ''backup creation failed''))
      in sbind (tx (add_backup_run now status destination size failure s) s) (\<lambda>row t.
         (Inr row, job_audit B now event subject
            (prefix @ '' -> '' @ status @ (if failure = [] then [] else '': '' @ failure)) None t)))"

definition run_backup_job :: "job_env \<Rightarrow> time \<Rightarrow> job_row \<Rightarrow> store \<Rightarrow> unit res \<times> store" where
  "run_backup_job B now j s =
     sbind (run_backup B now ''scheduled_job.backup'' (show_int (jo_id j)) ''scheduled backup'' s) (\<lambda>_ t. (Inr (), t))"

section \<open>A due job\<close>

definition job_client :: "job_row \<Rightarrow> string option" where
  "job_client j = (case string_or_none (dget_or (jo_params j) ''client_id'' PNone) of Some c \<Rightarrow> Some c | None \<Rightarrow> jo_client j)"

definition job_ticket :: "job_row \<Rightarrow> string option" where
  "job_ticket j = (if jo_kind j = ''agent'' then jo_entity j else string_or_none (dget_or (jo_params j) ''ticket_id'' PNone))"

definition run_job :: "job_env \<Rightarrow> time \<Rightarrow> job_row \<Rightarrow> store \<Rightarrow> unit res \<times> store" where
  "run_job B now j s =
     (if jo_kind j = ''backup'' then run_backup_job B now j s
      else if jo_kind j = ''connector_poll'' then run_connector_poll_job B now j s
      else if jo_kind j = ''graph_sync'' then run_graph_sync_job B now j s
      else if jo_kind j = ''baseline_snapshot'' then run_baseline_snapshot_job B now j s
      else
        let params = jo_params j; client = job_client j in
        if is_quarantined_ticket s (job_ticket j) then (Inr (), s)
        else if jo_kind j = ''playbook'' then run_playbook_job B now j params client s
        else if jo_kind j = ''agent'' then run_agent_job B now j params client s
        else if jo_kind j = ''report'' then run_report_job B now j params client s
        else run_workflow_job B now j params client s)"

section \<open>The founder scan and the live tasks\<close>

definition founder_poll_due :: "sched_lib \<Rightarrow> pyval \<Rightarrow> time \<Rightarrow> bool" where
  "founder_poll_due L value now =
     (case string_or_none value of
        None \<Rightarrow> True
      | Some t \<Rightarrow> (case parse_iso L t of Bad_iso \<Rightarrow> True | Naive_iso at_time \<Rightarrow> at_time \<le> now | Aware_iso at_time \<Rightarrow> at_time \<le> now))"

definition run_founder_poll :: "job_env \<Rightarrow> time \<Rightarrow> store \<Rightarrow> unit res \<times> store" where
  "run_founder_poll B now s =
     (case je_founder B of
        None \<Rightarrow> (Inr (), s)
      | Some F \<Rightarrow>
          if fo_safe F \<or> \<not> fo_config F s then (Inr (), s)
          else
            (case find (\<lambda>(next_attempt, _). founder_poll_due (je_sched B) next_attempt now) (fo_candidates F s) of
               None \<Rightarrow> (Inr (), s)
             | Some (_, artifact_id, scan_id) \<Rightarrow>
                 sbind (fo_advance F artifact_id scan_id s) (\<lambda>outcome t.
                   (Inr (), case outcome of None \<Rightarrow> t
                            | Some status \<Rightarrow> job_audit B now ''founder.polling_advanced'' artifact_id (''founder scan polling -> '' @ status) None t))))"

text \<open>What a live task does when it fires.\<close>

fun live_tick :: "job_env \<Rightarrow> time \<Rightarrow> live_task \<Rightarrow> store \<Rightarrow> unit res \<times> store" where
  "live_tick B now Retry_worker s =
     (case je_dispatcher B of
        None \<Rightarrow> (Inr (), s)
      | Some R \<Rightarrow> sbind (retry_due (sm_env (je_base B)) R now s) (\<lambda>_ t. (Inr (), t)))"
| "live_tick B now Founder_worker s = run_founder_poll B now s"
| "live_tick B now (Run_job j) s = run_job B now j s"

end
