(* ===== verification/Scheduled_Run_Laws.thy ===== *)
theory Scheduled_Run_Laws
  imports Scheduled_Runs Agent_Laws
begin

text \<open>
  Due jobs: a failure is recorded for the job and raised again, the isolated kinds never raise, a quarantined ticket stops a job before it
  does anything, and a scheduled agent stays in the tenant of its schedule.
\<close>

section \<open>Failures are recorded\<close>

definition failure_recorded :: "job_row \<Rightarrow> string option \<Rightarrow> store \<Rightarrow> bool" where
  "failure_recorded j client t \<longleftrightarrow> audit_events t \<noteq> [] \<and> au_type (last (audit_events t)) = ''scheduled_job.trigger_failed'' \<and>
     au_subject (last (audit_events t)) = show_int (jo_id j) \<and> au_client (last (audit_events t)) = normalize_client_id client"

lemma recorded_run_Inl:
  assumes "fst (recorded_run B now j client detail p f) = Inl e"
    and "\<And>x. fst p = Inr x \<Longrightarrow> fst (f x (snd p)) = Inl e \<Longrightarrow> failure_recorded j client (snd (f x (snd p)))"
  shows "failure_recorded j client (snd (recorded_run B now j client detail p f))"
proof (cases "fst p")
  case (Inl e')
  then show ?thesis by (simp add: recorded_run_def failure_recorded_def job_audit_def audit_defs)
qed (use assms in \<open>simp add: recorded_run_def\<close>)

lemma workflow_job_Inl:
  assumes "fst (run_workflow_job B now j params client s) = Inl e"
  shows "if string_or_none (dget_or params ''ticket_id'' PNone) = None then snd (run_workflow_job B now j params client s) = s
    else failure_recorded j client (snd (run_workflow_job B now j params client s))"
proof (cases "string_or_none (dget_or params ''ticket_id'' PNone)")
  case None
  then show ?thesis by (simp add: run_workflow_job_def required_ticket_id_def)
next
  case (Some ticket)
  then show ?thesis using assms
    by (auto simp: run_workflow_job_def required_ticket_id_def intro!: recorded_run_Inl split: option.splits)
qed

lemma playbook_job_Inl:
  "fst (run_playbook_job B now j params client s) = Inl e \<Longrightarrow> failure_recorded j client (snd (run_playbook_job B now j params client s))"
  by (auto simp: run_playbook_job_def Let_def intro!: recorded_run_Inl split: if_splits)

lemma agent_job_Inl:
  "fst (run_agent_job B now j params client s) = Inl e \<Longrightarrow> failure_recorded j client (snd (run_agent_job B now j params client s))"
  by (auto simp: run_agent_job_def Let_def intro!: recorded_run_Inl split: if_splits)

lemma report_job_Inl:
  "fst (run_report_job B now j params client s) = Inl e \<Longrightarrow> failure_recorded j client (snd (run_report_job B now j params client s))"
  unfolding run_report_job_def Let_def by (erule recorded_run_Inl) simp

lemma isolated_jobs:
  "fst (run_connector_poll_job B now j s) = Inr ()" "fst (run_graph_sync_job B now j s) = Inr ()"
  "fst (run_baseline_snapshot_job B now j s) = Inr ()" "fst (run_backup_job B now j s) = Inr ()"
proof -
  show "fst (run_connector_poll_job B now j s) = Inr ()"
    by (auto simp: run_connector_poll_job_def split: option.split sum.split prod.split)
  show "fst (run_graph_sync_job B now j s) = Inr ()" "fst (run_baseline_snapshot_job B now j s) = Inr ()"
    by (auto simp: run_graph_sync_job_def run_baseline_snapshot_job_def run_scoped_job_def split: option.split sum.split prod.split)
  have ok: "\<not> isl (add_backup_run now st d n f s)" if "st = ''succeeded'' \<or> st = ''failed''" "case n of None \<Rightarrow> True | Some k \<Rightarrow> 0 \<le> k" for st d n f s
    using that by (auto simp: add_backup_run_def Let_def raise_if_def split: option.splits)
  have closes: "fst (sbind (sbind (tx r s) (\<lambda>row t. (Inr row, g row t))) (\<lambda>_ t. (Inr (), t))) = Inr ()" if "\<not> isl r" for r :: "(backup_row \<times> store) res" and g
    using that by (cases r) auto
  show "fst (run_backup_job B now j s) = Inr ()"
  proof (cases "je_backup B")
    case None
    then show ?thesis by (simp add: run_backup_job_def run_backup_def closes ok)
  next
    case (Some b)
    then show ?thesis
      by (cases b; cases "snd (projr b)") (auto simp: run_backup_job_def run_backup_def closes ok split: prod.splits)
  qed
qed

section \<open>A scheduled agent stays in its tenant\<close>

text \<open>The definition a due agent job runs: the stored one, if it is scheduled and not bound to another tenant, in the tenant of the job.\<close>

definition scheduled_agent :: "job_row \<Rightarrow> string option \<Rightarrow> store \<Rightarrow> agent_def option" where
  "scheduled_agent j client s =
     (case jo_agent j of
        None \<Rightarrow> None
      | Some i \<Rightarrow> (case find_agent s i of
            None \<Rightarrow> None
          | Some d \<Rightarrow> if ad_trigger d = ''scheduled'' \<and> (ad_client d = None \<or> ad_client d = client) then Some (d\<lparr>ad_client := client\<rparr>) else None))"

definition scheduled_guard :: "agent_lib \<Rightarrow> job_row \<Rightarrow> store \<Rightarrow> call_guard" where
  "scheduled_guard L j s a ctx payload u \<longleftrightarrow>
     (case scheduled_agent j (job_client j) s of None \<Rightarrow> False | Some d \<Rightarrow> confined (al_service L) d ''scheduler'' a ctx payload u)"

lemma agents_field:
  "dispatch_completion (B\<lparr>je_agents := x\<rparr>) = dispatch_completion B" "job_audit (B\<lparr>je_agents := x\<rparr>) = job_audit B"
  "job_triggered (B\<lparr>je_agents := x\<rparr>) = job_triggered B" "run_backup_job (B\<lparr>je_agents := x\<rparr>) = run_backup_job B"
  "run_connector_poll_job (B\<lparr>je_agents := x\<rparr>) = run_connector_poll_job B" "run_graph_sync_job (B\<lparr>je_agents := x\<rparr>) = run_graph_sync_job B"
  "run_baseline_snapshot_job (B\<lparr>je_agents := x\<rparr>) = run_baseline_snapshot_job B" "run_report_job (B\<lparr>je_agents := x\<rparr>) = run_report_job B"
  "run_playbook_job (B\<lparr>je_agents := x\<rparr>) = run_playbook_job B" "run_workflow_job (B\<lparr>je_agents := x\<rparr>) = run_workflow_job B"
proof -
  show a: "job_audit (B\<lparr>je_agents := x\<rparr>) = job_audit B" by (intro ext) (simp add: job_audit_def)
  show d: "dispatch_completion (B\<lparr>je_agents := x\<rparr>) = dispatch_completion B"
    by (intro ext) (simp add: dispatch_completion_def a cong: branch_cong prod.case_cong)
  show t: "job_triggered (B\<lparr>je_agents := x\<rparr>) = job_triggered B" by (intro ext) (simp add: job_triggered_def a)
  have c: "run_completed (B\<lparr>je_agents := x\<rparr>) = run_completed B" by (intro ext) (simp add: run_completed_def d)
  have r: "recorded_run (B\<lparr>je_agents := x\<rparr>) = recorded_run B" by (intro ext) (simp add: recorded_run_def a cong: branch_cong prod.case_cong)
  have sc: "run_scoped_job (B\<lparr>je_agents := x\<rparr>) = run_scoped_job B" by (intro ext) (simp add: run_scoped_job_def a cong: branch_cong prod.case_cong)
  have b: "run_backup (B\<lparr>je_agents := x\<rparr>) = run_backup B" by (intro ext) (simp add: run_backup_def a cong: branch_cong prod.case_cong)
  have p: "scheduled_report_period (B\<lparr>je_agents := x\<rparr>) = scheduled_report_period B"
    by (intro ext) (simp add: scheduled_report_period_def cong: branch_cong prod.case_cong)
  show "run_backup_job (B\<lparr>je_agents := x\<rparr>) = run_backup_job B" by (intro ext) (simp add: run_backup_job_def b)
  show "run_connector_poll_job (B\<lparr>je_agents := x\<rparr>) = run_connector_poll_job B"
    by (intro ext) (simp add: run_connector_poll_job_def a cong: branch_cong prod.case_cong)
  show "run_graph_sync_job (B\<lparr>je_agents := x\<rparr>) = run_graph_sync_job B" by (intro ext) (simp add: run_graph_sync_job_def sc)
  show "run_baseline_snapshot_job (B\<lparr>je_agents := x\<rparr>) = run_baseline_snapshot_job B" by (intro ext) (simp add: run_baseline_snapshot_job_def sc)
  show "run_report_job (B\<lparr>je_agents := x\<rparr>) = run_report_job B" by (intro ext) (simp add: run_report_job_def p r t cong: branch_cong prod.case_cong)
  show "run_playbook_job (B\<lparr>je_agents := x\<rparr>) = run_playbook_job B" by (intro ext) (simp add: run_playbook_job_def r t c cong: branch_cong prod.case_cong)
  show "run_workflow_job (B\<lparr>je_agents := x\<rparr>) = run_workflow_job B"
    by (intro ext) (simp add: run_workflow_job_def r t c cong: branch_cong prod.case_cong)
qed

lemma recorded_run_field: "recorded_run (B\<lparr>je_agents := x\<rparr>) = recorded_run B"
  by (intro ext) (simp add: recorded_run_def agents_field cong: branch_cong prod.case_cong)

lemma map_sum_rbind: "map_sum id g (rbind m f) = rbind m (\<lambda>x. map_sum id g (f x))"
  by (cases m) simp_all

lemma agent_checks_guard:
  "agent_job_checks (B\<lparr>je_agents := Some (guard_lib P L)\<rparr>) now j params client s =
     map_sum id (\<lambda>(K, r). (guard_lib P L, r)) (agent_job_checks (B\<lparr>je_agents := Some L\<rparr>) now j params client s)"
  by (simp add: agent_job_checks_def lib_guard Let_def map_sum_rbind split: option.split)

lemma agent_checks_Inr:
  assumes "agent_job_checks (B\<lparr>je_agents := Some L\<rparr>) now j params client s = Inr (K, d, i, p, w)"
  shows "K = L \<and> scheduled_agent j client s = Some d"
  using assms by (auto simp: agent_job_checks_def scheduled_agent_def get_agent_definition_def normalize_client_id_def res_simps Let_def
      split: option.splits if_splits)

lemma agent_job_guard:
  "run_agent_job (B\<lparr>je_agents := Some (guard_lib (scheduled_guard L j s) L)\<rparr>) now j params (job_client j) s =
   run_agent_job (B\<lparr>je_agents := Some L\<rparr>) now j params (job_client j) s"
proof (cases "agent_job_checks (B\<lparr>je_agents := Some L\<rparr>) now j params (job_client j) s")
  case (Inl e)
  then show ?thesis by (simp add: run_agent_job_def agent_checks_guard Let_def recorded_run_def agents_field)
next
  case (Inr q)
  obtain K d i p w where q: "q = (K, d, i, p, w)" by (cases q) auto
  have k: "K = L" "scheduled_agent j (job_client j) s = Some d" using agent_checks_Inr [OF Inr [unfolded q]] by simp_all
  have "scheduled_guard L j s = confined (al_service L) d ''scheduler''"
    by (intro ext) (simp add: scheduled_guard_def k)
  then have "run_agent (guard_lib (scheduled_guard L j s) L) now d i ''scheduler'' p [] 0 None None None t =
      run_agent L now d i ''scheduler'' p [] 0 None None None t" for t by (simp add: run_agent_guard)
  then show ?thesis
    by (simp add: run_agent_job_def agent_checks_guard Inr q k Let_def recorded_run_def agents_field cong: branch_cong prod.case_cong)
qed


text \<open>
  A scheduled agent stays in the tenant of its schedule. A due job calls a smart action of the agent service only for the stored
  definition it names, which has the trigger scheduled and is bound to no other tenant than the job's; the action is an enabled tool of
  that definition, called as the scheduler, in the tenant of the job when it has one, and never marked as approved.
\<close>

theorem scheduled_agent_confined:
  "run_job (B\<lparr>je_agents := Some (guard_lib (scheduled_guard L j s) L)\<rparr>) now j s = run_job (B\<lparr>je_agents := Some L\<rparr>) now j s"
  unfolding run_job_def Let_def agents_field agent_job_guard by (rule refl)

end
