(* ===== verification/Playbook_Catalog.thy ===== *)
theory Playbook_Catalog
  imports Workflows
begin

text \<open>
  The built-in playbooks (\<open>MSP_PLAYBOOKS\<close> of \<open>msp_playbooks.py\<close>): compositions of workflow templates and reports, with the inputs each
  step needs and the evidence the playbook leaves. A tuple of the code is a list; a field the constructor leaves out is \<open>None\<close>.
\<close>

record playbook_step =
  pk_id :: string
  pk_name :: string
  pk_kind :: string
  pk_description :: string
  pk_template :: "string option"
  pk_report :: "string option"
  pk_inputs :: "string list"

record playbook =
  pd_id :: string
  pd_name :: string
  pd_version :: int
  pd_trigger :: string
  pd_description :: string
  pd_risk :: string
  pd_steps :: "playbook_step list"
  pd_evidence :: "string list"
  pd_local :: bool

definition playbook_workflow_step :: "string \<Rightarrow> string \<Rightarrow> string \<Rightarrow> string \<Rightarrow> string list \<Rightarrow> playbook_step" where
  "playbook_workflow_step step_id name template_id description required =
     \<lparr>pk_id = step_id, pk_name = name, pk_kind = ''workflow'', pk_description = description, pk_template = Some template_id,
      pk_report = None, pk_inputs = required\<rparr>"

definition playbook_report_step :: "string \<Rightarrow> string \<Rightarrow> string \<Rightarrow> string \<Rightarrow> playbook_step" where
  "playbook_report_step step_id name report_type description =
     \<lparr>pk_id = step_id, pk_name = name, pk_kind = ''report'', pk_description = description, pk_template = None,
      pk_report = Some report_type, pk_inputs = [''period_start'', ''period_end'']\<rparr>"

definition TICKET_PLAYBOOKS :: "playbook list" where
  "TICKET_PLAYBOOKS =
    [\<lparr>pd_id = ''ticket-intake-review'', pd_name = ''Ticket Intake Review'', pd_version = 1, pd_trigger = ''ticket.created'',
      pd_description = ''Run bounded triage, quality, sentiment, duplicate, security, and escalation reviews.'',
      pd_risk = ''low'', pd_steps =
       [playbook_workflow_step ''triage'' ''Triage'' ''ticket-triage'' ''Classify and summarize the ticket.'' [],
        playbook_workflow_step ''quality'' ''Quality'' ''ticket-quality-review'' ''Check required ticket fields.'' [],
        playbook_workflow_step ''sentiment'' ''Sentiment'' ''ticket-sentiment-review'' ''Assess customer-facing language.'' [],
        playbook_workflow_step ''duplicates'' ''Duplicate candidates'' ''duplicate-ticket-review'' ''Find local duplicate candidates.'' [],
        playbook_workflow_step ''security'' ''Security alert'' ''security-alert-review'' ''Assess bounded security indicators.'' [],
        playbook_workflow_step ''escalation'' ''Escalation'' ''ticket-escalation-review'' ''Recommend bounded urgency.'' []],
      pd_evidence = [''workflow_run_ids'', ''local_ticket_records'', ''review_outputs''], pd_local = True\<rparr>,
     \<lparr>pd_id = ''resolution-review'', pd_name = ''Resolution Review'', pd_version = 1, pd_trigger = ''ticket.created'',
      pd_description = ''Prepare an L1 resolution and, when requested, a cited response for approval.'',
      pd_risk = ''medium'', pd_steps =
       [playbook_workflow_step ''triage'' ''Triage'' ''ticket-triage'' ''Classify the ticket before resolution review.'' [],
        playbook_workflow_step ''l1'' ''L1 resolution'' ''l1-resolution-review'' ''Draft a technician-facing resolution.'' [],
        playbook_workflow_step ''response'' ''Documentation response'' ''documentation-assisted-response'' ''Prepare a cited response and stop for approval before delivery.'' []],
      pd_evidence = [''workflow_run_ids'', ''citations'', ''approval_request_id''], pd_local = True\<rparr>,
     \<lparr>pd_id = ''dispatch-review'', pd_name = ''Dispatch Review'', pd_version = 1, pd_trigger = ''ticket.unassigned'',
      pd_description = ''Prepare a workload-aware technician recommendation for human approval.'',
      pd_risk = ''medium'', pd_steps =
       [playbook_workflow_step ''dispatch'' ''Dispatch recommendation'' ''technician-dispatch-review'' ''Draft a bounded assignment recommendation.'' []],
      pd_evidence = [''workflow_run_ids'', ''approval_request_id'', ''recommendation''], pd_local = True\<rparr>,
     \<lparr>pd_id = ''stale-sla-review'', pd_name = ''Stale and SLA Review'', pd_version = 1, pd_trigger = ''schedule.daily'',
      pd_description = ''Run stale-ticket and explicit-threshold SLA-risk reviews without inferring vendor contracts.'',
      pd_risk = ''low'', pd_steps =
       [playbook_workflow_step ''stale'' ''Stale ticket sweep'' ''stale-ticket-sweep-review'' ''Find open tickets past an explicit age.'' [''stale_after_minutes''],
        playbook_workflow_step ''sla'' ''SLA risk'' ''ticket-sla-risk-review'' ''Compare age with operator-supplied thresholds.'' [''thresholds_minutes'']],
      pd_evidence = [''workflow_run_ids'', ''explicit_thresholds'', ''excluded_missing_timestamps''], pd_local = True\<rparr>,
     \<lparr>pd_id = ''security-response-review'', pd_name = ''Security Response Review'', pd_version = 1, pd_trigger = ''ticket.created'',
      pd_description = ''Assess security indicators, then prepare an approval-gated internal alert if needed.'',
      pd_risk = ''high'', pd_steps =
       [playbook_workflow_step ''assessment'' ''Security assessment'' ''security-alert-review'' ''Assess indicators without side effects.'' [],
        playbook_workflow_step ''alert'' ''Internal alert'' ''p1-alert'' ''Prepare an approval-gated internal alert.'' []],
      pd_evidence = [''workflow_run_ids'', ''security_indicators'', ''approval_request_id''], pd_local = True\<rparr>]"

definition ACCOUNT_PLAYBOOKS :: "playbook list" where
  "ACCOUNT_PLAYBOOKS =
    [\<lparr>pd_id = ''m365-onboarding-review'', pd_name = ''Microsoft 365 Onboarding Review'', pd_version = 1, pd_trigger = ''ticket.created'',
      pd_description = ''Prepare tenant-scoped user onboarding and stop before any approval-gated license change.'',
      pd_risk = ''high'', pd_steps =
       [playbook_workflow_step ''user'' ''User creation'' ''m365-user-onboarding-review'' ''Prepare the tenant-scoped user request.'' [''user_principal_name'', ''display_name'', ''mail_nickname'', ''temporary_vault_name''],
        playbook_workflow_step ''license'' ''License request'' ''m365-license-request-review'' ''Prepare an immutable-SKU license request after approval.'' [''user_id'', ''sku_ids'', ''operation'']],
      pd_evidence = [''workflow_run_ids'', ''approval_request_id'', ''tenant_scope''], pd_local = True\<rparr>,
     \<lparr>pd_id = ''m365-offboarding-review'', pd_name = ''Microsoft 365 Offboarding Review'', pd_version = 1, pd_trigger = ''ticket.updated'',
      pd_description = ''Prepare a tenant-scoped disable-and-revoke request; no broad MFA reset is inferred.'',
      pd_risk = ''high'', pd_steps =
       [playbook_workflow_step ''offboarding'' ''User offboarding'' ''m365-user-offboarding-review'' ''Prepare a bounded disable-and-revoke request.'' [''user_identity'', ''user_id'']],
      pd_evidence = [''workflow_run_ids'', ''approval_request_id'', ''partial_failure_state''], pd_local = True\<rparr>,
     \<lparr>pd_id = ''inactive-ticket-follow-up-review'', pd_name = ''Inactive Ticket Follow-up Review'', pd_version = 1, pd_trigger = ''schedule.daily'',
      pd_description = ''Identify a stale local ticket using an explicit age threshold, then prepare an approval-gated follow-up without sending it automatically.'',
      pd_risk = ''medium'', pd_steps =
       [playbook_workflow_step ''stale'' ''Stale ticket check'' ''stale-ticket-sweep-review'' ''Check the ticket against the operator-supplied stale threshold.'' [''stale_after_minutes''],
        playbook_workflow_step ''follow-up'' ''Inactive ticket follow-up'' ''inactive-ticket-follow-up'' ''Prepare a local note or explicitly selected communication for approval.'' [''channel'']],
      pd_evidence = [''workflow_run_ids'', ''stale_threshold'', ''approval_request_id''], pd_local = True\<rparr>,
     \<lparr>pd_id = ''m365-password-reset-review'', pd_name = ''Microsoft 365 Password Reset Review'', pd_version = 1, pd_trigger = ''ticket.updated'',
      pd_description = ''Prepare a tenant-scoped Microsoft 365 password reset using a local vault reference; execution remains approval-gated.'',
      pd_risk = ''high'', pd_steps =
       [playbook_workflow_step ''password-reset'' ''Password reset'' ''m365-password-reset-review'' ''Prepare the bounded password reset request without exposing the temporary credential.'' [''user_identity'', ''temporary_vault_name'']],
      pd_evidence = [''workflow_run_ids'', ''approval_request_id'', ''tenant_scope''], pd_local = True\<rparr>,
     \<lparr>pd_id = ''m365-authentication-method-review'', pd_name = ''Microsoft 365 Authentication Method Review'', pd_version = 1, pd_trigger = ''ticket.updated'',
      pd_description = ''Prepare removal of one explicitly identified Microsoft 365 authentication method; broad MFA reset is not inferred.'',
      pd_risk = ''high'', pd_steps =
       [playbook_workflow_step ''method-removal'' ''Authentication method removal'' ''m365-authentication-method-removal-review'' ''Prepare an immutable-method-ID removal request for approval.'' [''user_identity'', ''method_type'', ''method_id'']],
      pd_evidence = [''workflow_run_ids'', ''approval_request_id'', ''explicit_method_id''], pd_local = True\<rparr>,
     \<lparr>pd_id = ''m365-license-review'', pd_name = ''Microsoft 365 License Review'', pd_version = 1, pd_trigger = ''ticket.created'',
      pd_description = ''Prepare a tenant-scoped Microsoft 365 license add or removal request from immutable user and SKU identifiers.'',
      pd_risk = ''high'', pd_steps =
       [playbook_workflow_step ''license-request'' ''License request'' ''m365-license-request-review'' ''Prepare the explicit license operation for approval.'' [''user_id'', ''sku_ids'', ''operation'']],
      pd_evidence = [''workflow_run_ids'', ''approval_request_id'', ''immutable_sku_ids''], pd_local = True\<rparr>]"

definition REVIEW_PLAYBOOKS :: "playbook list" where
  "REVIEW_PLAYBOOKS =
    [\<lparr>pd_id = ''m365-compliance-review'', pd_name = ''Microsoft 365 Compliance Review'', pd_version = 1, pd_trigger = ''schedule.daily'',
      pd_description = ''Review bounded tenant-scoped Microsoft Graph device and license evidence; observed attention items are reported without claiming regulatory compliance.'',
      pd_risk = ''low'', pd_steps =
       [playbook_workflow_step ''compliance'' ''M365 compliance evidence'' ''m365-compliance-review'' ''Read managed-device and tenant-license evidence through the existing Graph boundary.'' []],
      pd_evidence = [''workflow_run_ids'', ''connector_read_evidence'', ''observed_findings''], pd_local = True\<rparr>,
     \<lparr>pd_id = ''software-inventory-review'', pd_name = ''Software Inventory Review'', pd_version = 1, pd_trigger = ''schedule.daily'',
      pd_description = ''Read an explicitly mapped N-sight software inventory through the existing tenant-scoped RMM adapter; no remediation or vulnerability claim is inferred.'',
      pd_risk = ''low'', pd_steps =
       [playbook_workflow_step ''inventory'' ''Software inventory'' ''software-inventory-review'' ''Read the bounded software inventory for one mapped device.'' [''device_id'']],
      pd_evidence = [''workflow_run_ids'', ''rmm_software_inventory'', ''mapped_device_scope''], pd_local = True\<rparr>,
     \<lparr>pd_id = ''m365-inactive-license-review'', pd_name = ''Microsoft 365 Inactive-License Review'', pd_version = 1, pd_trigger = ''schedule.daily'',
      pd_description = ''Review observed license assignments for disabled Microsoft 365 users; reclamation is never inferred or executed.'',
      pd_risk = ''low'', pd_steps =
       [playbook_workflow_step ''inactive-licenses'' ''Inactive license assignments'' ''m365-inactive-license-review'' ''Read disabled-user license assignments through the existing Graph boundary.'' []],
      pd_evidence = [''workflow_run_ids'', ''connector_read_evidence'', ''observed_findings''], pd_local = True\<rparr>,
     \<lparr>pd_id = ''qbr-review'', pd_name = ''Quarterly Business Review'', pd_version = 1, pd_trigger = ''schedule.monthly'',
      pd_description = ''Build a client-scoped QBR from stored ticket and execution evidence; estimates stay labeled.'',
      pd_risk = ''low'', pd_steps =
       [playbook_report_step ''qbr'' ''QBR report'' ''qbr'' ''Persist a local evidence-backed QBR.''],
      pd_evidence = [''report_id'', ''ticket_records'', ''execution_records'', ''estimate_labels''], pd_local = True\<rparr>,
     \<lparr>pd_id = ''automation-opportunity-review'', pd_name = ''Automation Opportunity Review'', pd_version = 1, pd_trigger = ''schedule.monthly'',
      pd_description = ''Rank repeated successful local actions as review candidates without enabling automation.'',
      pd_risk = ''low'', pd_steps =
       [playbook_report_step ''automation'' ''Automation opportunities'' ''automation_opportunity'' ''Persist a local candidate report.''],
      pd_evidence = [''report_id'', ''successful_action_records'', ''estimate_labels''], pd_local = True\<rparr>,
     \<lparr>pd_id = ''recurring-service-review'', pd_name = ''Recurring Service Review'', pd_version = 1, pd_trigger = ''schedule.monthly'',
      pd_description = ''Build a client-scoped recurring service review with explicit follow-up thresholds.'',
      pd_risk = ''low'', pd_steps =
       [playbook_report_step ''service'' ''Service review'' ''recurring_service_review'' ''Persist a local service posture report.''],
      pd_evidence = [''report_id'', ''ticket_records'', ''lifecycle_evidence'', ''follow_up_threshold''], pd_local = True\<rparr>]"

definition MSP_PLAYBOOKS :: "playbook list" where
  "MSP_PLAYBOOKS = TICKET_PLAYBOOKS @ ACCOUNT_PLAYBOOKS @ REVIEW_PLAYBOOKS"

definition get_msp_playbook :: "string \<Rightarrow> playbook option" where
  "get_msp_playbook playbook_id = find (\<lambda>p. pd_id p = playbook_id) MSP_PLAYBOOKS"

text \<open>\<open>playbook_view\<close>, the fields in the order of the dataclasses.\<close>

definition step_view :: "playbook_step \<Rightarrow> pyval" where
  "step_view k = PDict [(''id'', PStr (pk_id k)), (''name'', PStr (pk_name k)), (''kind'', PStr (pk_kind k)),
     (''description'', PStr (pk_description k)), (''workflow_template_id'', opt_str (pk_template k)), (''report_type'', opt_str (pk_report k)),
     (''required_inputs'', PList (map PStr (pk_inputs k)))]"

definition playbook_view :: "playbook \<Rightarrow> pydict" where
  "playbook_view p = [(''id'', PStr (pd_id p)), (''name'', PStr (pd_name p)), (''version'', PInt (pd_version p)), (''trigger'', PStr (pd_trigger p)),
     (''description'', PStr (pd_description p)), (''risk_level'', PStr (pd_risk p)), (''steps'', PList (map step_view (pd_steps p))),
     (''output_evidence'', PList (map PStr (pd_evidence p))), (''local_fixture'', PBool (pd_local p))]"

end
