(* ===== verification/Playbooks.thy ===== *)
theory Playbooks
  imports Playbook_Catalog Event_Dispatch
begin

text \<open>
  Published playbooks (\<open>msp_playbooks.py\<close> and the playbook tables of \<open>store.py\<close>): a definition is parsed against the supported
  catalog, stored with a revision for every version, updated, restored, subscribed to events, and resolved again to run.

  A JSON column holds the value of its text, and two columns are equal as texts when \<open>json_text\<close> of their values is. The identifiers
  \<open>uuid4\<close> draws are arguments. An operation of the store is given the column \<open>_json_dumps_value\<close> makes of the definition.
\<close>

section \<open>Parsing\<close>

definition REPORT_TYPES :: "string list" where
  "REPORT_TYPES = [''ticket_intelligence'', ''approval_execution'', ''connector_health'', ''audit_export'', ''qbr'', ''automation_opportunity'',
     ''recurring_service_review'', ''founder_preflight'', ''developer_handoff'', ''collector_bundle'', ''investor_evidence'',
     ''license_entitlement'', ''appliance_hardening'', ''restore_evidence'']"

definition bounded_text :: "env \<Rightarrow> pyval \<Rightarrow> string \<Rightarrow> nat \<Rightarrow> string res" where
  "bounded_text E v field limit =
     (case v of
        PStr t \<Rightarrow>
          if strip t = [] then Inl (ValueError (field @ '' must be a non-empty string''))
          else let normalized = redact E (strip t) in
            if length normalized > limit then Inl (ValueError (field @ '' must be at most '' @ show_nat limit @ '' characters'')) else Inr normalized
      | _ \<Rightarrow> Inl (ValueError (field @ '' must be a non-empty string'')))"

definition bounded_string_list :: "env \<Rightarrow> pyval \<Rightarrow> string \<Rightarrow> string list res" where
  "bounded_string_list E v field =
     (case v of
        PList xs \<Rightarrow>
          rbind (raise_if (length xs > 16) (ValueError (field @ '' must be a list of at most 16 strings''))) (\<lambda>_.
          rbind (rmap (\<lambda>x. bounded_text E x field 120) xs) (\<lambda>r.
          rbind (raise_if (\<not> distinct r) (ValueError (field @ '' must not contain duplicates''))) (\<lambda>_.
          Inr r)))
      | _ \<Rightarrow> Inl (ValueError (field @ '' must be a list of at most 16 strings'')))"

definition parse_step :: "env \<Rightarrow> string list \<Rightarrow> pyval \<Rightarrow> playbook_step res" where
  "parse_step E seen raw =
     (case raw of
        PDict d \<Rightarrow>
          rbind (bounded_text E (dget_or d ''id'' PNone) ''step id'' 80) (\<lambda>i.
          rbind (raise_if (i \<in> set seen) (ValueError (''duplicate playbook step id: '' @ i))) (\<lambda>_.
          rbind (bounded_text E (dget_or d ''name'' PNone) (''step '' @ i @ '' name'') 120) (\<lambda>name.
          rbind (bounded_text E (dget_or d ''kind'' PNone) (''step '' @ i @ '' kind'') 20) (\<lambda>kind.
          rbind (bounded_text E (dget_or d ''description'' PNone) (''step '' @ i @ '' description'') 1000) (\<lambda>description.
          rbind (bounded_string_list E (dget_or d ''required_inputs'' (PList [])) (''step '' @ i @ '' required_inputs'')) (\<lambda>required.
          let step = \<lparr>pk_id = i, pk_name = name, pk_kind = kind, pk_description = description, pk_template = None, pk_report = None,
                      pk_inputs = required\<rparr> in
          if kind = ''workflow''
          then rbind (bounded_text E (dget_or d ''workflow_template_id'' PNone) (''step '' @ i @ '' workflow_template_id'') 120) (\<lambda>template.
               rbind (raise_if (get_workflow_template template = None) (ValueError (''unsupported workflow template: '' @ template))) (\<lambda>_.
               Inr (step\<lparr>pk_template := Some template\<rparr>)))
          else if kind = ''report''
          then rbind (bounded_text E (dget_or d ''report_type'' PNone) (''step '' @ i @ '' report_type'') 80) (\<lambda>report.
               rbind (raise_if (report \<notin> set REPORT_TYPES) (ValueError (''unsupported report type: '' @ report))) (\<lambda>_.
               Inr (step\<lparr>pk_report := Some report\<rparr>)))
          else Inl (ValueError ''playbook step kind must be workflow or report'')))))))
      | _ \<Rightarrow> Inl (ValueError ''each playbook step must be an object''))"

fun parse_steps :: "env \<Rightarrow> string list \<Rightarrow> pyval list \<Rightarrow> playbook_step list res" where
  "parse_steps E seen [] = Inr []"
| "parse_steps E seen (raw # rest) =
     rbind (parse_step E seen raw) (\<lambda>k. rbind (parse_steps E (pk_id k # seen) rest) (\<lambda>ks. Inr (k # ks)))"

definition parse_msp_playbook_definition :: "env \<Rightarrow> pydict \<Rightarrow> string \<Rightarrow> int \<Rightarrow> playbook res" where
  "parse_msp_playbook_definition E payload playbook_id version =
     rbind (bounded_text E (PStr playbook_id) ''playbook_id'' 120) (\<lambda>safe_id.
     rbind (bounded_text E (dget_or payload ''name'' PNone) ''name'' 120) (\<lambda>name.
     rbind (bounded_text E (dget_or payload ''trigger'' PNone) ''trigger'' 120) (\<lambda>trigger.
     rbind (bounded_text E (dget_or payload ''description'' PNone) ''description'' 2000) (\<lambda>description.
     rbind (bounded_text E (dget_or payload ''risk_level'' PNone) ''risk_level'' 20) (\<lambda>risk.
     rbind (raise_if (risk \<notin> {''low'', ''medium'', ''high''}) (ValueError ''risk_level must be low, medium, or high'')) (\<lambda>_.
     let raw_steps = dget_or payload ''steps'' PNone in
     rbind (raise_if (\<not> (case raw_steps of PList xs \<Rightarrow> 1 \<le> length xs \<and> length xs \<le> 12 | _ \<Rightarrow> False))
       (ValueError ''steps must contain between 1 and 12 items'')) (\<lambda>_.
     rbind (parse_steps E [] (as_list raw_steps)) (\<lambda>steps.
     rbind (bounded_string_list E (dget_or payload ''output_evidence'' PNone) ''output_evidence'') (\<lambda>evidence.
     rbind (raise_if (evidence = []) (ValueError ''output_evidence must contain at least one item'')) (\<lambda>_.
     Inr \<lparr>pd_id = safe_id, pd_name = name, pd_version = version, pd_trigger = trigger, pd_description = description, pd_risk = risk,
          pd_steps = steps, pd_evidence = evidence, pd_local = truthy (dget_or payload ''local_fixture'' (PBool True))\<rparr>))))))))))"

text \<open>\<open>_json_object\<close> of a column.\<close>

definition json_object :: "pyval \<Rightarrow> pydict res" where
  "json_object v = (case v of PDict d \<Rightarrow> Inr d | _ \<Rightarrow> Inl (ValueError ''stored MSP playbook JSON must be an object''))"

section \<open>The tables of entries and revisions\<close>

text \<open>The column made of a view: \<open>asdict\<close> keeps the tuples of steps and evidence, and \<open>redact_value\<close> does not enter a tuple.\<close>

definition view_column :: "env \<Rightarrow> pydict \<Rightarrow> pyval" where
  "view_column E d = PDict (concat (map (\<lambda>(k, v). case v of PList _ \<Rightarrow> [(k, v)] | _ \<Rightarrow> as_dict (redact_value E (PDict [(k, v)]))) d))"

definition gallery_text :: "env \<Rightarrow> string \<Rightarrow> string \<Rightarrow> nat \<Rightarrow> string res" where
  "gallery_text E v field limit =
     (let normalized = redact E (strip v) in
      rbind (raise_if (normalized = []) (ValueError (''template gallery '' @ field @ '' must not be empty''))) (\<lambda>_.
      rbind (raise_if (length normalized > limit)
        (ValueError (''template gallery '' @ field @ '' must be at most '' @ show_nat limit @ '' characters''))) (\<lambda>_.
      Inr normalized)))"

definition entry_from_row :: "env \<Rightarrow> playbook_entry \<Rightarrow> playbook_entry" where
  "entry_from_row E en = en\<lparr>en_definition := redact_value E (en_definition en), en_provenance := redact E (en_provenance en),
     en_client := normalize_client_id (en_client en)\<rparr>"

definition revision_from_row :: "env \<Rightarrow> playbook_revision \<Rightarrow> playbook_revision" where
  "revision_from_row E r = r\<lparr>pv_snapshot := redact_value E (pv_snapshot r), pv_client := normalize_client_id (pv_client r)\<rparr>"

definition entry_in_scope :: "string option \<Rightarrow> playbook_entry \<Rightarrow> bool" where
  "entry_in_scope client en \<longleftrightarrow> (case normalize_client_id client of None \<Rightarrow> True | Some c \<Rightarrow> en_client en = Some c)"

definition get_msp_playbook_entry :: "env \<Rightarrow> string \<Rightarrow> string option \<Rightarrow> store \<Rightarrow> playbook_entry option" where
  "get_msp_playbook_entry E i client s =
     map_option (entry_from_row E) (find (\<lambda>en. en_id en = i \<and> entry_in_scope client en) (playbook_entries s))"

definition list_msp_playbook_entries :: "env \<Rightarrow> string option \<Rightarrow> store \<Rightarrow> playbook_entry list" where
  "list_msp_playbook_entries E client s =
     map (entry_from_row E) (sort_key (\<lambda>en. (en_source en, en_id en)) (filter (entry_in_scope client) (playbook_entries s)))"

definition playbook_snapshot :: "env \<Rightarrow> pyval \<Rightarrow> string \<Rightarrow> bool \<Rightarrow> pyval" where
  "playbook_snapshot E definition provenance enabled =
     redact_value E (PDict [(''definition'', PDict (as_dict definition)), (''provenance'', PStr provenance), (''enabled'', PBool enabled)])"

definition insert_msp_playbook_revision :: "string \<Rightarrow> int \<Rightarrow> pyval \<Rightarrow> time \<Rightarrow> string option \<Rightarrow> store \<Rightarrow> store res" where
  "insert_msp_playbook_revision i version snapshot now client s =
     rbind (raise_if (\<exists>r\<in>set (playbook_revisions s). pv_playbook r = i \<and> pv_version r = version)
       (IntegrityError ''UNIQUE constraint failed: msp_playbook_revisions.playbook_id, msp_playbook_revisions.version'')) (\<lambda>_.
     Inr (s\<lparr>playbook_revisions := playbook_revisions s @
       [\<lparr>pv_playbook = i, pv_version = version, pv_snapshot = snapshot, pv_created = now, pv_client = normalize_client_id client\<rparr>]\<rparr>))"

definition persisted_entry :: "env \<Rightarrow> string \<Rightarrow> string option \<Rightarrow> store \<Rightarrow> (playbook_entry \<times> store) res" where
  "persisted_entry E i client s =
     (case get_msp_playbook_entry E i client s of
        None \<Rightarrow> Inl (RuntimeError ''MSP playbook entry was not persisted'') | Some en \<Rightarrow> Inr (en, s))"

definition create_msp_playbook_entry ::
  "env \<Rightarrow> time \<Rightarrow> string \<Rightarrow> string \<Rightarrow> pyval \<Rightarrow> string \<Rightarrow> string option \<Rightarrow> bool \<Rightarrow> store \<Rightarrow> (playbook_entry \<times> store) res" where
  "create_msp_playbook_entry E now i source column provenance client_id enabled s =
     rbind (gallery_text E source ''source_playbook_id'' 120) (\<lambda>safe_source.
     rbind (gallery_text E provenance ''provenance'' 1000) (\<lambda>safe_provenance.
     let client = normalize_client_id client_id in
     rbind (raise_if (\<exists>en\<in>set (playbook_entries s). en_id en = i) (IntegrityError ''UNIQUE constraint failed: msp_playbook_entries.id'')) (\<lambda>_.
     rbind (insert_msp_playbook_revision i 1 (playbook_snapshot E column safe_provenance enabled) now client
       (s\<lparr>playbook_entries := playbook_entries s @
          [\<lparr>en_id = i, en_source = safe_source, en_definition = column, en_provenance = safe_provenance, en_enabled = enabled, en_version = 1,
            en_created = now, en_updated = now, en_client = client\<rparr>]\<rparr>)) (\<lambda>s1.
     persisted_entry E i client
       (add_audit_row now ''msp.playbook_entry.created'' i (''source '' @ safe_source @ '' added as MSP playbook version 1'') client None s1)))))"

definition update_msp_playbook_entry ::
  "env \<Rightarrow> time \<Rightarrow> string \<Rightarrow> pyval option \<Rightarrow> string option \<Rightarrow> bool option \<Rightarrow> string option \<Rightarrow> bool \<Rightarrow> store \<Rightarrow>
   (playbook_entry \<times> store) res" where
  "update_msp_playbook_entry E now i column provenance enabled client_id force s =
     (case get_msp_playbook_entry E i client_id s of
        None \<Rightarrow> Inl (KeyError i)
      | Some existing \<Rightarrow>
          let definition = (case column of None \<Rightarrow> en_definition existing | Some c \<Rightarrow> c) in
          rbind (case provenance of None \<Rightarrow> Inr (en_provenance existing) | Some p \<Rightarrow> gallery_text E p ''provenance'' 1000) (\<lambda>prov.
          let on = (case enabled of None \<Rightarrow> en_enabled existing | Some b \<Rightarrow> b) in
          if \<not> force \<and> json_text definition = json_text (en_definition existing) \<and> prov = en_provenance existing \<and> on = en_enabled existing
          then Inr (existing, s)
          else
            let version = en_version existing + 1; client = normalize_client_id (en_client existing) in
            rbind (insert_msp_playbook_revision i version (playbook_snapshot E definition prov on) now client
              (s\<lparr>playbook_entries := update_where (\<lambda>en. en_id en = i)
                 (\<lambda>en. en\<lparr>en_definition := definition, en_provenance := prov, en_enabled := on, en_version := version, en_updated := now\<rparr>)
                 (playbook_entries s)\<rparr>)) (\<lambda>s1.
            persisted_entry E i client
              (add_audit_row now ''msp.playbook_entry.updated'' i (''MSP playbook updated to version '' @ show_int version) client None s1))))"

definition get_msp_playbook_revision :: "env \<Rightarrow> string \<Rightarrow> int \<Rightarrow> string option \<Rightarrow> store \<Rightarrow> playbook_revision option" where
  "get_msp_playbook_revision E i version client s =
     (case get_msp_playbook_entry E i client s of
        None \<Rightarrow> None
      | Some _ \<Rightarrow> map_option (revision_from_row E) (find (\<lambda>r. pv_playbook r = i \<and> pv_version r = version) (playbook_revisions s)))"

definition list_msp_playbook_revisions :: "env \<Rightarrow> string \<Rightarrow> string option \<Rightarrow> store \<Rightarrow> playbook_revision list" where
  "list_msp_playbook_revisions E i client s =
     (case get_msp_playbook_entry E i client s of
        None \<Rightarrow> []
      | Some _ \<Rightarrow> map (revision_from_row E) (rev (sort_key pv_version (filter (\<lambda>r. pv_playbook r = i) (playbook_revisions s)))))"

definition restore_msp_playbook_revision ::
  "env \<Rightarrow> time \<Rightarrow> string \<Rightarrow> int \<Rightarrow> string option \<Rightarrow> store \<Rightarrow> (playbook_entry \<times> store) res" where
  "restore_msp_playbook_revision E now i version client s =
     (case get_msp_playbook_entry E i client s of
        None \<Rightarrow> Inl (KeyError i)
      | Some existing \<Rightarrow>
      case get_msp_playbook_revision E i version (en_client existing) s of
        None \<Rightarrow> Inl (KeyError (i @ '':'' @ show_int version))
      | Some r \<Rightarrow>
          let snapshot = as_dict (pv_snapshot r) in
          case dget_or snapshot ''definition'' PNone of
            PDict d \<Rightarrow>
              update_msp_playbook_entry E now i (Some (redact_value E (PDict d)))
                (case dget_or snapshot ''provenance'' PNone of PStr p \<Rightarrow> Some p | _ \<Rightarrow> None)
                (case dget_or snapshot ''enabled'' PNone of PBool b \<Rightarrow> Some b | _ \<Rightarrow> None) (en_client existing) False s
          | _ \<Rightarrow> Inl (ValueError ''MSP playbook revision has no definition''))"

section \<open>Publishing and resolving\<close>

definition publish_msp_playbook ::
  "env \<Rightarrow> time \<Rightarrow> string \<Rightarrow> string \<Rightarrow> string \<Rightarrow> string option \<Rightarrow> pydict option \<Rightarrow> bool \<Rightarrow> store \<Rightarrow> (playbook_entry \<times> store) res" where
  "publish_msp_playbook E now i source provenance client definition enabled s =
     rbind (case definition of
              Some d \<Rightarrow> Inr d
            | None \<Rightarrow> (case get_msp_playbook source of None \<Rightarrow> Inl (KeyError source) | Some p \<Rightarrow> Inr (playbook_view p))) (\<lambda>d.
     rbind (parse_msp_playbook_definition E d source 1) (\<lambda>parsed.
     create_msp_playbook_entry E now i source (view_column E (playbook_view parsed)) provenance client enabled s))"

definition update_msp_playbook ::
  "env \<Rightarrow> time \<Rightarrow> string \<Rightarrow> string option \<Rightarrow> pydict option \<Rightarrow> string option \<Rightarrow> bool option \<Rightarrow> store \<Rightarrow> (playbook_entry \<times> store) res" where
  "update_msp_playbook E now i client definition provenance enabled s =
     (case get_msp_playbook_entry E i client s of
        None \<Rightarrow> Inl (KeyError i)
      | Some en \<Rightarrow>
          rbind (case definition of None \<Rightarrow> json_object (en_definition en) | Some d \<Rightarrow> Inr d) (\<lambda>d.
          rbind (parse_msp_playbook_definition E d (en_source en) (en_version en + 1)) (\<lambda>parsed.
          update_msp_playbook_entry E now i (Some (view_column E (playbook_view parsed))) provenance enabled (en_client en) False s)))"

definition resolve_msp_playbook :: "env \<Rightarrow> string \<Rightarrow> string option \<Rightarrow> store \<Rightarrow> playbook res" where
  "resolve_msp_playbook E playbook_id client s =
     (case get_msp_playbook playbook_id of
        Some p \<Rightarrow> Inr p
      | None \<Rightarrow>
          (case get_msp_playbook_entry E playbook_id client s of
             None \<Rightarrow> Inl (KeyError playbook_id)
           | Some en \<Rightarrow>
               rbind (raise_if (\<not> en_enabled en) (PermissionError ''MSP playbook is disabled'')) (\<lambda>_.
               rbind (json_object (en_definition en)) (\<lambda>d.
               parse_msp_playbook_definition E d (en_id en) (en_version en)))))"

text \<open>\<open>msp_playbook_revision_diff\<close>.\<close>

definition revision_diff :: "playbook_revision \<Rightarrow> playbook_revision \<Rightarrow> pydict res" where
  "revision_diff left right =
     rbind (json_object (pv_snapshot left)) (\<lambda>l.
     rbind (json_object (pv_snapshot right)) (\<lambda>r.
     Inr [(''playbook_id'', PStr (pv_playbook left)), (''from_version'', PInt (pv_version left)), (''to_version'', PInt (pv_version right)),
          (''changed_fields'', PList (map PStr (filter (\<lambda>k. \<not> py_eq (dget_or l k PNone) (dget_or r k PNone))
             [''definition'', ''provenance'', ''enabled'']))),
          (''from'', PDict l), (''to'', PDict r)]))"

section \<open>Subscriptions\<close>

definition MAX_PLAYBOOK_SUBSCRIPTION_FIELDS :: nat where
  "MAX_PLAYBOOK_SUBSCRIPTION_FIELDS = 16"

fun mapping_fields :: "env \<Rightarrow> pydict \<Rightarrow> pydict \<Rightarrow> pydict res" where
  "mapping_fields E done_fields [] = Inr done_fields"
| "mapping_fields E done_fields ((target, source) # rest) =
     rbind (raise_if (\<not> (case source of PStr _ \<Rightarrow> True | _ \<Rightarrow> False)) (ValueError ''input_mapping keys and values must be strings'')) (\<lambda>_.
     rbind (bounded_text E (PStr target) ''input_mapping target'' 120) (\<lambda>t.
     rbind (bounded_text E source ''input_mapping source'' 120) (\<lambda>v.
     rbind (raise_if (t \<in> set (dkeys done_fields)) (ValueError ''input_mapping contains duplicate targets'')) (\<lambda>_.
     mapping_fields E (done_fields @ [(t, PStr v)]) rest))))"

definition subscription_mapping :: "env \<Rightarrow> pydict option \<Rightarrow> pydict res" where
  "subscription_mapping E v =
     (let raw = (case v of None \<Rightarrow> [] | Some d \<Rightarrow> d) in
      rbind (raise_if (length raw > MAX_PLAYBOOK_SUBSCRIPTION_FIELDS) (ValueError ''input_mapping may contain at most 16 fields'')) (\<lambda>_.
      mapping_fields E [] raw))"

definition get_msp_playbook_subscription :: "env \<Rightarrow> string \<Rightarrow> scope_arg \<Rightarrow> store \<Rightarrow> subscription_row option res" where
  "get_msp_playbook_subscription E i scope s =
     rbind (client_scope_predicate scope) (\<lambda>p.
     Inr (map_option (subscription_from_row E) (find (\<lambda>x. su_id x = i \<and> p (Some (su_client x))) (subscriptions s))))"

definition persisted_subscription :: "env \<Rightarrow> string \<Rightarrow> string \<Rightarrow> store \<Rightarrow> (subscription_row \<times> store) res" where
  "persisted_subscription E i client s =
     rbind (get_msp_playbook_subscription E i (Scope_str client) s) (\<lambda>x.
     case x of None \<Rightarrow> Inl (RuntimeError ''MSP playbook subscription was not persisted'') | Some y \<Rightarrow> Inr (y, s))"

text \<open>\<open>Store.create_msp_playbook_subscription\<close>, then the function of the same name that checks what is subscribed.\<close>

definition store_subscription ::
  "env \<Rightarrow> time \<Rightarrow> string \<Rightarrow> string \<Rightarrow> string \<Rightarrow> string \<Rightarrow> pydict \<Rightarrow> bool \<Rightarrow> store \<Rightarrow> (subscription_row \<times> store) res" where
  "store_subscription E now i playbook_id event_type client_id mapping enabled s =
     rbind (gallery_text E playbook_id ''playbook_id'' 120) (\<lambda>p.
     rbind (gallery_text E event_type ''event_type'' 120) (\<lambda>ev.
     case normalize_client_id (Some client_id) of
       None \<Rightarrow> Inl (ValueError ''MSP playbook subscriptions require a client scope'')
     | Some c \<Rightarrow>
         rbind (raise_if (\<exists>x\<in>set (subscriptions s). su_id x = i \<or> su_playbook x = p \<and> su_event x = ev \<and> su_client x = c)
           (ValueError ''an identical MSP playbook subscription already exists'')) (\<lambda>_.
         persisted_subscription E i c
           (add_audit_row now ''msp.playbook_subscription.created'' i (p @ '' subscribed to '' @ ev) (Some c) None
              (s\<lparr>subscriptions := subscriptions s @
                 [\<lparr>su_id = i, su_playbook = p, su_event = ev, su_client = c, su_mapping = as_dict (redact_value E (PDict mapping)),
                   su_enabled = enabled, su_created = now, su_updated = now\<rparr>]\<rparr>)))))"

definition create_msp_playbook_subscription ::
  "env \<Rightarrow> time \<Rightarrow> string \<Rightarrow> string \<Rightarrow> string \<Rightarrow> string \<Rightarrow> pydict option \<Rightarrow> bool \<Rightarrow> store \<Rightarrow> (subscription_row \<times> store) res" where
  "create_msp_playbook_subscription E now i playbook_id event_type client_id input_mapping enabled s =
     rbind (resolve_msp_playbook E playbook_id (Some client_id) s) (\<lambda>playbook.
     rbind (bounded_text E (PStr event_type) ''event_type'' 120) (\<lambda>ev.
     rbind (raise_if (ev \<notin> set SUPPORTED_EVENT_TYPES) (ValueError ''event_type is not supported by the event dispatcher'')) (\<lambda>_.
     rbind (raise_if (pd_trigger playbook \<noteq> ev)
       (ValueError (''event_type must match the playbook trigger ('' @ pd_trigger playbook @ '')''))) (\<lambda>_.
     rbind (raise_if (\<exists>k\<in>set (pd_steps playbook). pk_kind k \<noteq> ''workflow'')
       (ValueError ''event-triggered subscriptions support workflow playbooks only'')) (\<lambda>_.
     rbind (bounded_text E (PStr client_id) ''client_id'' 128) (\<lambda>client.
     rbind (subscription_mapping E input_mapping) (\<lambda>mapping.
     store_subscription E now i playbook_id ev client mapping enabled s)))))))"

definition update_msp_playbook_subscription ::
  "env \<Rightarrow> time \<Rightarrow> string \<Rightarrow> string \<Rightarrow> pydict option \<Rightarrow> bool option \<Rightarrow> store \<Rightarrow> (subscription_row \<times> store) res" where
  "update_msp_playbook_subscription E now i client_id input_mapping enabled s =
     rbind (get_msp_playbook_subscription E i (Scope_str client_id) s) (\<lambda>found.
     case found of
       None \<Rightarrow> Inl (KeyError i)
     | Some existing \<Rightarrow>
         rbind (case input_mapping of None \<Rightarrow> Inr (su_mapping existing)
                | Some m \<Rightarrow> rbind (subscription_mapping E (Some m)) (\<lambda>d. Inr (as_dict (redact_value E (PDict d))))) (\<lambda>mapping.
         let on = (case enabled of None \<Rightarrow> su_enabled existing | Some b \<Rightarrow> b); c = su_client existing in
         if json_text (PDict mapping) = json_text (PDict (su_mapping existing)) \<and> on = su_enabled existing then Inr (existing, s)
         else persisted_subscription E i c
           (add_audit_row now ''msp.playbook_subscription.updated'' i (''MSP playbook subscription enabled='' @ py_str (PBool on)) (Some c) None
              (s\<lparr>subscriptions := update_where (\<lambda>x. su_id x = i \<and> su_client x = c)
                 (\<lambda>x. x\<lparr>su_mapping := mapping, su_enabled := on, su_updated := now\<rparr>) (subscriptions s)\<rparr>))))"

end
