(* ===== verification/Reports.thy ===== *)
theory Reports
  imports Client_Scope
begin

text \<open>
  Stored reports (\<open>reports/service.py\<close> and the \<open>reports\<close> table of \<open>store.py\<close>): creating one with its audit record, and reading them within
  a client. What a report says is a JSON value and its metadata; the identifier \<open>uuid4\<close> draws is an argument.
\<close>

definition save_report :: "report_row \<Rightarrow> store \<Rightarrow> store" where
  "save_report r s =
     (if \<exists>x\<in>set (reports s). rp_id x = rp_id r then s\<lparr>reports := update_where (\<lambda>x. rp_id x = rp_id r) (\<lambda>_. r) (reports s)\<rparr>
      else s\<lparr>reports := reports s @ [r]\<rparr>)"

text \<open>\<open>_metadata_evidence_status\<close>; a list or a dictionary cannot be looked up in a set.\<close>

definition metadata_evidence_status :: "pydict \<Rightarrow> string res" where
  "metadata_evidence_status metadata =
     (case dget_or metadata ''evidence_status'' (PStr ''not_run'') of
        PStr v \<Rightarrow> Inr (if v \<in> {''not_run'', ''no_evidence'', ''partial'', ''completed''} then v else ''not_run'')
      | PList _ \<Rightarrow> Inl (TypeError ''unhashable type: list'')
      | PDict _ \<Rightarrow> Inl (TypeError ''unhashable type: dict'')
      | _ \<Rightarrow> Inr ''not_run'')"

text \<open>\<open>ReportService.create_report\<close> without an explicit evidence status.\<close>

definition create_report ::
  "env \<Rightarrow> time \<Rightarrow> string \<Rightarrow> string \<Rightarrow> string \<Rightarrow> pyval \<Rightarrow> string \<Rightarrow> string \<Rightarrow> string \<Rightarrow> pydict \<Rightarrow> store \<Rightarrow> report_row res \<times> store" where
  "create_report E now i report_type title sections created_by client_id project_id metadata s =
     (case metadata_evidence_status metadata of
        Inl e \<Rightarrow> (Inl e, s)
      | Inr status \<Rightarrow>
          let r = \<lparr>rp_id = i, rp_type = report_type, rp_title = title, rp_created = now, rp_created_by = created_by, rp_client = client_id,
                   rp_project = project_id, rp_sections = sections, rp_metadata = metadata, rp_evidence = status\<rparr>
          in (Inr r, add_audit_event E now ''report.created'' i (report_type @ '': '' @ title)
                       (if client_id = [] then None else Some client_id) None (save_report r s)))"

text \<open>\<open>ReportService.get_report\<close> and \<open>list_reports\<close>; empty text does not restrict.\<close>

definition get_report :: "string \<Rightarrow> string option \<Rightarrow> store \<Rightarrow> report_row option" where
  "get_report i client s =
     (case find (\<lambda>r. rp_id r = i) (reports s) of
        None \<Rightarrow> None
      | Some r \<Rightarrow> if normalize_client_id client \<noteq> None \<and> normalize_client_id (Some (rp_client r)) \<noteq> normalize_client_id client then None else Some r)"

definition list_reports :: "string \<Rightarrow> string \<Rightarrow> string \<Rightarrow> store \<Rightarrow> report_row list" where
  "list_reports report_type client_id project_id s =
     sort_key (\<lambda>r. (- rp_created r, rp_id r)) (filter (\<lambda>r. (report_type = [] \<or> rp_type r = report_type) \<and>
       (client_id = [] \<or> rp_client r = client_id) \<and> (project_id = [] \<or> rp_project r = project_id)) (reports s))"

end
