(* ===== verification/Playbook_Runs.thy ===== *)
theory Playbook_Runs
  imports Playbooks Reports Scheduled_Runs
begin

text \<open>
  Previews and runs of playbooks (\<open>msp_playbooks.py\<close>), and the runs the dispatcher and the scheduler start. The fields of
  \<open>playbook_env\<close> are the collaborators: the smart action service that runs the tools, the builders of \<open>reports/msp.py\<close>, which read the store and
  give the sections and the metadata of a report (with the estimates of the registered actions), ISO dates, and the identifiers \<open>uuid4\<close> draws.
\<close>

record playbook_env =
  px_base :: service
  px_tools :: "service option"
  px_date :: "string \<Rightarrow> int option"
  px_builder :: "string \<Rightarrow> string \<Rightarrow> string \<Rightarrow> string \<Rightarrow> int option \<Rightarrow> store \<Rightarrow> (pyval \<times> pydict) res"
  px_fresh :: "store \<Rightarrow> string"

definition px_env :: "playbook_env \<Rightarrow> env" where
  "px_env X = sm_env (px_base X)"

section \<open>The input of a run\<close>

definition MAX_PLAYBOOK_PAYLOAD_FIELDS :: nat where
  "MAX_PLAYBOOK_PAYLOAD_FIELDS = 24"

definition MAX_PLAYBOOK_PAYLOAD_BYTES :: nat where
  "MAX_PLAYBOOK_PAYLOAD_BYTES = 12000"

definition bounded_playbook_payload :: "env \<Rightarrow> pydict \<Rightarrow> pydict res" where
  "bounded_playbook_payload E payload =
     rbind (raise_if (length payload > MAX_PLAYBOOK_PAYLOAD_FIELDS) (ValueError ''playbook input may contain at most 24 fields'')) (\<lambda>_.
     let safe = as_dict (redact_value E (PDict payload)) in
     rbind (raise_if (length (json_text (PDict safe)) > MAX_PLAYBOOK_PAYLOAD_BYTES) (ValueError ''playbook input must be at most 12000 bytes'')) (\<lambda>_.
     Inr safe))"

text \<open>\<open>_validate_scope_and_ticket\<close>: the tenant the run works for. An empty identifier counts as none.\<close>

definition validate_scope_and_ticket :: "playbook \<Rightarrow> string option \<Rightarrow> string option \<Rightarrow> store \<Rightarrow> string option res" where
  "validate_scope_and_ticket p ticket_id client_id s =
     (let client = normalize_client_id client_id in
      rbind (raise_if ((\<exists>k\<in>set (pd_steps p). pk_kind k = ''workflow'') \<and> (ticket_id = None \<or> ticket_id = Some []))
        (ValueError ''this playbook requires ticket_id'')) (\<lambda>_.
      case ticket_id of
        Some (c # cs) \<Rightarrow>
          rbind (get_ticket (c # cs) (client_scope_of client) s) (\<lambda>found.
          case found of
            None \<Rightarrow> Inl (LookupError (c # cs))
          | Some ticket \<Rightarrow>
              rbind (raise_if (client \<noteq> None \<and> tk_client ticket \<noteq> client) (LookupError (c # cs))) (\<lambda>_.
              Inr (if client \<noteq> None then client else tk_client ticket)))
      | _ \<Rightarrow> (case client of None \<Rightarrow> Inl (ValueError ''report playbooks require client_id'') | Some n \<Rightarrow> Inr (Some n))))"

definition validate_report_input :: "playbook_env \<Rightarrow> playbook_step \<Rightarrow> pydict \<Rightarrow> unit res" where
  "validate_report_input X k payload =
     (case (dget_or payload ''period_start'' PNone, dget_or payload ''period_end'' PNone) of
        (PStr a, PStr b) \<Rightarrow>
          (case (px_date X a, px_date X b) of
             (Some start, Some finish_day) \<Rightarrow>
               rbind (raise_if (start > finish_day) (ValueError ''period_start must not be after period_end'')) (\<lambda>_.
               raise_if (pk_report k = Some ''recurring_service_review'' \<and>
                         \<not> int_within (\<lambda>i. 1 \<le> i \<and> i \<le> 90) (dget_or payload ''follow_up_after_days'' (PInt 14)))
                 (ValueError ''follow_up_after_days must be an integer between 1 and 90''))
           | _ \<Rightarrow> Inl (ValueError ''period_start and period_end must be ISO dates''))
      | _ \<Rightarrow> Inl (ValueError (''playbook step '' @ pk_id k @ '' requires period_start and period_end'')))"

definition preview_step :: "playbook_env \<Rightarrow> playbook \<Rightarrow> pydict \<Rightarrow> playbook_step \<Rightarrow> pydict res" where
  "preview_step X p payload k =
     (if pk_kind k = ''workflow''
      then (case pk_template k of
              None \<Rightarrow> Inl (ValueError (''playbook step '' @ pk_id k @ '' has no workflow template''))
            | Some template \<Rightarrow>
                rbind (validate_workflow_input (px_env X) template payload) (\<lambda>_.
                case get_workflow_template template of
                  None \<Rightarrow> Inl (KeyError template)
                | Some t \<Rightarrow>
                    Inr [(''id'', PStr (pk_id k)), (''name'', PStr (pk_name k)), (''kind'', PStr (pk_kind k)),
                         (''workflow_template_id'', PStr template), (''approval_required'', PBool (wt_approval t)),
                         (''risk_level'', PStr (wt_risk t)), (''tool_id'', opt_str (wt_tool t)),
                         (''required_inputs'', PList (map PStr (pk_inputs k))), (''status'', PStr ''planned'')]))
      else rbind (validate_report_input X k payload) (\<lambda>_.
           Inr [(''id'', PStr (pk_id k)), (''name'', PStr (pk_name k)), (''kind'', PStr (pk_kind k)),
                (''report_type'', opt_str (pk_report k)), (''approval_required'', PBool False), (''risk_level'', PStr (pd_risk p)),
                (''required_inputs'', PList (map PStr (pk_inputs k))), (''status'', PStr ''planned'')]))"

definition preview_steps :: "playbook_env \<Rightarrow> playbook \<Rightarrow> pydict \<Rightarrow> pydict list res" where
  "preview_steps X p payload = rmap (preview_step X p payload) (pd_steps p)"

section \<open>What a call returns\<close>

datatype step_result =
    Workflow_result string string int "int option" string
  | Report_result string string string string string
  | Error_result "string option" string

fun result_id :: "step_result \<Rightarrow> string option" where
  "result_id (Workflow_result i st run approval message) = Some i"
| "result_id (Report_result i kind report report_type evidence) = Some i"
| "result_id (Error_result i message) = i"

fun result_status :: "step_result \<Rightarrow> string" where
  "result_status (Workflow_result i st run approval message) = st"
| "result_status (Report_result i kind report report_type evidence) = ''completed''"
| "result_status (Error_result i message) = ''failed''"

record playbook_result =
  po_run :: "string option"
  po_started :: bool
  po_mode :: string
  po_playbook :: string
  po_version :: int
  po_evidence :: "string list"
  po_ticket :: "string option"
  po_client :: "string option"
  po_status :: string
  po_stopped :: "string option"
  po_steps :: "step_result list"
  po_unsupported :: "string list"

definition unsupported_playbook_outputs :: "string list" where
  "unsupported_playbook_outputs = [''live_provider_success'', ''vendor_sla_compliance'', ''measured_time_savings'', ''automatic_ticket_merge_or_close'']"

definition empty_playbook_result :: "playbook \<Rightarrow> string option \<Rightarrow> string option \<Rightarrow> playbook_result" where
  "empty_playbook_result p ticket_id client_id =
     \<lparr>po_run = None, po_started = False, po_mode = ''skipped_quarantine'', po_playbook = pd_id p, po_version = pd_version p,
      po_evidence = pd_evidence p, po_ticket = ticket_id, po_client = client_id, po_status = ''skipped'', po_stopped = None, po_steps = [],
      po_unsupported = unsupported_playbook_outputs\<rparr>"

datatype preview = Skipped playbook_result | Preview pydict

definition preview_msp_playbook ::
  "playbook_env \<Rightarrow> string \<Rightarrow> string option \<Rightarrow> string option \<Rightarrow> pydict \<Rightarrow> store \<Rightarrow> preview res" where
  "preview_msp_playbook X playbook_id ticket_id client_id input s =
     rbind (resolve_msp_playbook (px_env X) playbook_id client_id s) (\<lambda>p.
     rbind (bounded_playbook_payload (px_env X) input) (\<lambda>payload.
     rbind (validate_scope_and_ticket p ticket_id client_id s) (\<lambda>client.
     rbind (if ticket_id = None \<or> ticket_id = Some [] then Inr None
            else get_ticket (case ticket_id of None \<Rightarrow> [] | Some t \<Rightarrow> t)
                   (case client of None \<Rightarrow> Scope AllClients | Some c \<Rightarrow> if c = [] then Scope AllClients else Scope_str c) s) (\<lambda>found.
     if (case found of None \<Rightarrow> False | Some ticket \<Rightarrow> tk_client ticket = Some QUARANTINE_CLIENT_ID)
     then Inr (Skipped (empty_playbook_result p ticket_id client))
     else
       rbind (preview_steps X p payload) (\<lambda>steps.
       Inr (Preview [(''format'', PStr ''wait-local-agent.msp-playbook-preview''), (''format_version'', PInt 1), (''execution_started'', PBool False),
         (''execution_mode'', PStr ''preview''), (''playbook'', PDict (playbook_view p)), (''ticket_id'', opt_str ticket_id),
         (''client_id'', opt_str client), (''input'', PDict payload), (''steps'', PList (map PDict steps)),
         (''approval_required'', PBool (list_ex (\<lambda>d. truthy (dget_or d ''approval_required'' PNone)) steps)),
         (''unsupported'', PList (map PStr unsupported_playbook_outputs))]))))))"

section \<open>Running\<close>

text \<open>The arguments of \<open>run_msp_playbook\<close>; \<open>pc_on_run\<close> is the callback for a finished workflow run.\<close>

record playbook_call =
  pc_playbook :: string
  pc_ticket :: "string option"
  pc_client :: "string option"
  pc_actor :: string
  pc_trigger :: string
  pc_input :: pydict
  pc_on_run :: "workflow_run \<Rightarrow> store \<Rightarrow> unit res \<times> store"

text \<open>The dash of a report title, as the bytes of its UTF-8 encoding.\<close>

definition title_dash :: string where
  "title_dash = map char_of [32, 226, 128, 148, 32 :: nat]"

definition run_report_step ::
  "playbook_env \<Rightarrow> time \<Rightarrow> playbook_step \<Rightarrow> pydict \<Rightarrow> string option \<Rightarrow> string \<Rightarrow> store \<Rightarrow> report_row res \<times> store" where
  "run_report_step X now k payload client_id actor s =
     (case (client_id, pk_report k) of
        (Some client, Some report) \<Rightarrow>
          (case rbind (validate_report_input X k payload) (\<lambda>_.
                let a = py_str (dget_or payload ''period_start'' PNone); b = py_str (dget_or payload ''period_end'' PNone) in
                rbind (raise_if (report \<notin> set REPORT_TYPES) (ValueError (report @ '' is not a valid ReportType''))) (\<lambda>_.
                if report = ''qbr''
                then rbind (px_builder X ''qbr'' client a b None s) (\<lambda>(sections, metadata).
                     Inr (sections, metadata, ''Quarterly business review'' @ title_dash @ client))
                else if report = ''automation_opportunity''
                then rbind (px_builder X ''automation_opportunity'' client a b None s) (\<lambda>(sections, metadata).
                     Inr (sections, metadata, ''Automation opportunities'' @ title_dash @ client))
                else (case dget_or payload ''follow_up_after_days'' (PInt 14) of
                        PInt days \<Rightarrow>
                          rbind (px_builder X ''recurring_service_review'' client a b (Some days) s) (\<lambda>(sections, metadata).
                          Inr (sections, metadata, ''Recurring service review'' @ title_dash @ client))
                      | _ \<Rightarrow> Inl (ValueError ''follow_up_after_days must be an integer between 1 and 90'')))) of
             Inl e \<Rightarrow> (Inl e, s)
           | Inr (sections, metadata, title) \<Rightarrow>
               create_report (px_env X) now (px_fresh X s) report title sections (if actor = [] then ''playbook'' else actor) client [] metadata s)
      | _ \<Rightarrow> (Inl (ValueError (''playbook step '' @ pk_id k @ '' requires a client scope and report type'')), s))"

text \<open>One step: its result, or none for a quarantined ticket.\<close>

definition run_playbook_step ::
  "playbook_env \<Rightarrow> time \<Rightarrow> playbook \<Rightarrow> playbook_call \<Rightarrow> string option \<Rightarrow> pydict \<Rightarrow> playbook_step \<Rightarrow> store \<Rightarrow> step_result option res \<times> store" where
  "run_playbook_step X now p c client payload k s =
     (if pk_kind k = ''workflow''
      then (case (pc_ticket c, pk_template k) of
              (Some ticket, Some template) \<Rightarrow>
                sbind (run_workflow_template (px_base X) (px_tools X) now
                         \<lparr>wq_template = template, wq_ticket = ticket, wq_client = client, wq_actor = pc_actor c, wq_trigger = pc_trigger c,
                          wq_override = None, wq_instructions = [], wq_version = Some (pd_version p), wq_payload = payload,
                          wq_correlation = None\<rparr> s) (\<lambda>run t.
                case wo_id run of
                  None \<Rightarrow> (Inr None, t)
                | Some i \<Rightarrow> sbind (pc_on_run c run t) (\<lambda>_ u.
                    (Inr (Some (Workflow_result (pk_id k) (wo_status run) i (wo_approval run) (redact (px_env X) (wo_message run)))), u)))
            | _ \<Rightarrow> (Inl (ValueError (''playbook step '' @ pk_id k @ '' requires a ticket'')), s))
      else sbind (run_report_step X now k payload client (pc_actor c) s) (\<lambda>r t.
           (Inr (Some (Report_result (pk_id k) (pk_kind k) (rp_id r) (rp_type r) (rp_evidence r))), t)))"

datatype steps_end = Ended | Halted string string | Raised err | Quarantined_end

fun run_playbook_steps ::
  "playbook_env \<Rightarrow> time \<Rightarrow> playbook \<Rightarrow> playbook_call \<Rightarrow> string option \<Rightarrow> pydict \<Rightarrow> playbook_step list \<Rightarrow> step_result list \<Rightarrow> store \<Rightarrow>
   steps_end \<times> step_result list \<times> store" where
  "run_playbook_steps X now p c client payload [] rs s = (Ended, rs, s)"
| "run_playbook_steps X now p c client payload (k # ks) rs s =
     (case run_playbook_step X now p c client payload k s of
        (Inl e, t) \<Rightarrow> (Raised e, rs, t)
      | (Inr None, t) \<Rightarrow> (Quarantined_end, rs, t)
      | (Inr (Some r), t) \<Rightarrow>
          if result_status r \<noteq> ''completed'' then (Halted (result_status r) (pk_id k), rs @ [r], t)
          else run_playbook_steps X now p c client payload ks (rs @ [r]) t)"

text \<open>The status, the step it stopped after and the results, from how the loop ended.\<close>

definition error_text :: "env \<Rightarrow> err \<Rightarrow> string" where
  "error_text E e = (let m = take 240 (redact E (show_err E e)) in if m = [] then err_class e else m)"

fun steps_outcome :: "env \<Rightarrow> playbook \<Rightarrow> steps_end \<Rightarrow> step_result list \<Rightarrow> string \<times> string option \<times> step_result list" where
  "steps_outcome E p (Halted status step_id) rs = (status, Some step_id, rs)"
| "steps_outcome E p (Raised e) rs =
     (let stopped = (if length rs < length (pd_steps p) then Some (pk_id (pd_steps p ! length rs)) else None)
      in (''failed'', stopped, rs @ [Error_result stopped (error_text E e)]))"
| "steps_outcome E p _ rs = (''completed'', None, rs)"

definition playbook_checks :: "playbook_env \<Rightarrow> playbook_call \<Rightarrow> store \<Rightarrow> (playbook \<times> pydict \<times> string option) res" where
  "playbook_checks X c s =
     rbind (resolve_msp_playbook (px_env X) (pc_playbook c) (pc_client c) s) (\<lambda>p.
     rbind (bounded_playbook_payload (px_env X) (pc_input c)) (\<lambda>payload.
     rbind (validate_scope_and_ticket p (pc_ticket c) (pc_client c) s) (\<lambda>client.
     rbind (preview_steps X p payload) (\<lambda>_.
     Inr (p, payload, client)))))"

definition playbook_subject :: "playbook \<Rightarrow> string option \<Rightarrow> string option \<Rightarrow> string" where
  "playbook_subject p ticket_id client =
     pd_id p @ '':'' @ (case ticket_id of Some (a # as) \<Rightarrow> a # as
        | _ \<Rightarrow> (case client of Some (a # as) \<Rightarrow> a # as | _ \<Rightarrow> ''scope''))"

definition playbook_run_id :: "playbook_env \<Rightarrow> store \<Rightarrow> string" where
  "playbook_run_id X s = ''playbook-'' @ px_fresh X s"

definition playbook_audit :: "playbook_env \<Rightarrow> time \<Rightarrow> string \<Rightarrow> playbook \<Rightarrow> string \<Rightarrow> string option \<Rightarrow> string option \<Rightarrow> string \<Rightarrow> store \<Rightarrow> store" where
  "playbook_audit X now event p run_id ticket_id client suffix s =
     add_audit_event (px_env X) now event (playbook_subject p ticket_id client)
       (pd_id p @ '' version '' @ show_int (pd_version p) @ '' run '' @ run_id @ suffix) client None s"

definition run_msp_playbook :: "playbook_env \<Rightarrow> time \<Rightarrow> playbook_call \<Rightarrow> store \<Rightarrow> playbook_result res \<times> store" where
  "run_msp_playbook X now c s =
     (case playbook_checks X c s of
        Inl e \<Rightarrow> (Inl e, s)
      | Inr (p, payload, client) \<Rightarrow>
          let run_id = playbook_run_id X s;
              s1 = playbook_audit X now ''msp.playbook.started'' p run_id (pc_ticket c) client [] s;
              (ending, rs, s2) = run_playbook_steps X now p c client payload (pd_steps p) [] s1
          in if ending = Quarantined_end then (Inr (empty_playbook_result p (pc_ticket c) client), s2)
             else
               let (status, stopped, results) = steps_outcome (px_env X) p ending rs;
                   event = (if status = ''completed'' then ''msp.playbook.completed'' else ''msp.playbook.stopped'')
               in (Inr \<lparr>po_run = Some run_id, po_started = True, po_mode = ''controlled_local'', po_playbook = pd_id p,
                        po_version = pd_version p, po_evidence = pd_evidence p, po_ticket = pc_ticket c, po_client = client,
                        po_status = status, po_stopped = stopped, po_steps = results, po_unsupported = unsupported_playbook_outputs\<rparr>,
                   playbook_audit X now event p run_id (pc_ticket c) client ('' status='' @ status) s2))"

section \<open>The callers\<close>

text \<open>\<open>str(result["run_id"])\<close> and the status, as the dispatcher and the scheduler read the result.\<close>

definition run_and_status :: "playbook_result res \<times> store \<Rightarrow> (string \<times> string) res \<times> store" where
  "run_and_status w = sbind w (\<lambda>r t. (Inr (case po_run r of None \<Rightarrow> ''None'' | Some i \<Rightarrow> i, po_status r), t))"

definition dispatched_playbook ::
  "playbook_env \<Rightarrow> time \<Rightarrow> subscription_row \<Rightarrow> string \<Rightarrow> string \<Rightarrow> string \<Rightarrow> string \<Rightarrow> pydict \<Rightarrow> store \<Rightarrow> (string \<times> string) res \<times> store" where
  "dispatched_playbook X now sub entity client actor trigger payload s =
     run_and_status (run_msp_playbook X now
       \<lparr>pc_playbook = su_playbook sub, pc_ticket = Some entity, pc_client = Some client, pc_actor = actor, pc_trigger = trigger,
        pc_input = payload, pc_on_run = (\<lambda>r t. (Inr (), t))\<rparr> s)"

definition scheduled_playbook ::
  "playbook_env \<Rightarrow> time \<Rightarrow> string \<Rightarrow> string option \<Rightarrow> string option \<Rightarrow> pydict \<Rightarrow> (workflow_run \<Rightarrow> store \<Rightarrow> store) \<Rightarrow> store \<Rightarrow>
   (string \<times> string) res \<times> store" where
  "scheduled_playbook X now playbook_id ticket_id client input on_run s =
     run_and_status (run_msp_playbook X now
       \<lparr>pc_playbook = playbook_id, pc_ticket = ticket_id, pc_client = client, pc_actor = ''scheduler'', pc_trigger = ''scheduler'',
        pc_input = input, pc_on_run = (\<lambda>r t. (Inr (), on_run r t))\<rparr> s)"

end
