(* ===== verification/Playbook_Laws.thy ===== *)
theory Playbook_Laws
  imports Playbook_Runs Redaction_Laws
begin

text \<open>
  Published playbooks: a playbook that parses is stable under the filters of its text, so that storing, reading and parsing it again gives it
  back; and every entry has exactly one revision for each of its versions, the last one of its content.
\<close>

section \<open>Stable text\<close>

definition trimmed :: "string \<Rightarrow> bool" where
  "trimmed s \<longleftrightarrow> s \<noteq> [] \<and> \<not> py_space (hd s) \<and> \<not> py_space (last s)"

lemma trimmed_strip: "trimmed s \<Longrightarrow> strip s = s"
  by (cases s rule: rev_cases) (auto simp: trimmed_def strip_def lstrip_fix rstrip_append_nonspace)

lemma strip_trimmed: "strip s \<noteq> [] \<Longrightarrow> trimmed (strip s)"
proof -
  assume n: "strip s \<noteq> []"
  have "lstrip (strip s) = strip s" by (simp add: strip_def lstrip_rstrip_lstrip)
  then have h: "\<not> py_space (hd (strip s))" using n dropWhile_hd [of py_space "strip s"] by (simp add: lstrip_def)
  have "rev (strip s) = dropWhile py_space (rev (lstrip s))" by (simp add: strip_def rstrip_def)
  then have "\<not> py_space (hd (rev (strip s)))" using n dropWhile_hd [of py_space "rev (lstrip s)"] by (metis rev_is_Nil_conv)
  then show ?thesis using n h by (simp add: trimmed_def hd_rev)
qed

text \<open>What a filter of text has to promise for a second pass to change nothing, with the filter of the code as its provider.\<close>

locale text_filter =
  fixes filter_text :: "string \<Rightarrow> string"
  assumes again: "filter_text (filter_text s) = filter_text s"
    and keeps_trimmed: "trimmed s \<Longrightarrow> trimmed (filter_text s)"
begin

lemma filtered_strip: "strip s \<noteq> [] \<Longrightarrow> strip (filter_text (strip s)) = filter_text (strip s) \<and> filter_text (strip s) \<noteq> []"
  using keeps_trimmed [OF strip_trimmed [of s]] trimmed_strip by (auto simp: trimmed_def)

lemma filtered_twice: "strip s \<noteq> [] \<Longrightarrow> filter_text (strip (filter_text (strip s))) = filter_text (strip s)"
  using filtered_strip again by simp

end

lemma mark_ends: "REDACTED \<noteq> []" "\<not> py_space (hd REDACTED)" "\<not> py_space (last REDACTED)"
  by code_simp+

lemma sub_secrets_ends:
  "s \<noteq> [] \<Longrightarrow> sub_secrets p s \<noteq> [] \<and> hd (sub_secrets p s) = hd s \<and> (\<not> py_space (last s) \<longrightarrow> \<not> py_space (last (sub_secrets p s)))"
proof (induction p s rule: sub_secrets.induct)
  case (2 p c cs)
  show ?case
  proof (cases "secret_at p (c # cs)")
    case None
    then show ?thesis using "2.IH"(1) by (cases cs) auto
  next
    case (Some x)
    obtain g v r where x: "x = (g, v, r)" by (cases x)
    have m: "c # cs = g @ v @ r" "secret_head g" "v \<noteq> []" using Some x by (simp_all add: secret_at_iff)
    have g: "g \<noteq> []" "hd g = c" using secret_head_chars [OF m(2)] m(1) by (auto, metis hd_append2 list.sel(1))
    have e: "sub_secrets p (c # cs) = g @ REDACTED @ sub_secrets (Some (last v)) r" using Some x by simp
    show ?thesis
    proof (cases "r = []")
      case True
      then show ?thesis unfolding e using g mark_ends by simp
    next
      case False
      have "last (c # cs) = last r" unfolding m(1) using False m(3) by simp
      then show ?thesis unfolding e using g "2.IH"(2) [OF Some x [symmetric] refl False] by simp
    qed
  qed
qed simp

lemma sub_aws_ends: "trimmed s \<Longrightarrow> trimmed (sub_aws p s)"
proof -
  have *: "s \<noteq> [] \<Longrightarrow> sub_aws p s \<noteq> [] \<and> (\<not> py_space (hd s) \<longrightarrow> \<not> py_space (hd (sub_aws p s))) \<and>
    (\<not> py_space (last s) \<longrightarrow> \<not> py_space (last (sub_aws p s)))" for s p
  proof (induction p s rule: sub_aws.induct)
    case (2 p c cs)
    show ?case
    proof (cases "aws_at p (c # cs)")
      case False
      then show ?thesis using "2.IH"(2) [OF False] by (cases cs) auto
    next
      case True
      show ?thesis
      proof (cases "drop 19 cs = []")
        case False
        then have "last (c # cs) = last (drop 19 cs)" by (cases cs) auto
        then show ?thesis using "2.IH"(1) [OF True False] True mark_ends by simp
      qed (use True mark_ends in simp)
    qed
  qed simp
  assume "trimmed s"
  then show ?thesis using * by (simp add: trimmed_def)
qed

lemma redact_trimmed: "trimmed s \<Longrightarrow> trimmed (redact_text s)"
  unfolding redact_text_def by (rule sub_aws_ends) (use sub_secrets_ends [of s None] in \<open>simp add: trimmed_def\<close>)

interpretation redaction: text_filter redact_text
  by unfold_locales (simp_all add: redact_trimmed redact_text_fixed redact_text_hidden)

section \<open>Stable playbooks\<close>

text \<open>A text within its limit that the filters leave alone.\<close>

definition clean :: "nat \<Rightarrow> string \<Rightarrow> bool" where
  "clean n t \<longleftrightarrow> trimmed t \<and> text_hidden t \<and> length t \<le> n"

lemma bounded_text_clean: "bounded_text (code_env h e) v f n = Inr t \<Longrightarrow> clean n t"
  using redact_trimmed [OF strip_trimmed]
  by (auto simp: bounded_text_def Let_def clean_def redact_text_hidden split: pyval.splits if_splits)

lemma clean_bounded_text: "clean n t \<Longrightarrow> bounded_text (code_env h e) (PStr t) f n = Inr t"
  using redact_text_fixed [of t] by (auto simp: bounded_text_def Let_def clean_def trimmed_strip trimmed_def)

definition clean_list :: "string list \<Rightarrow> bool" where
  "clean_list ts \<longleftrightarrow> length ts \<le> 16 \<and> list_all (clean 120) ts \<and> distinct ts"

lemma bounded_list_clean: "bounded_string_list (code_env h e) v f = Inr ts \<Longrightarrow> clean_list ts"
  by (auto simp: bounded_string_list_def clean_list_def res_simps list_all_iff split: pyval.splits
      dest: rmap_Inr_length rmap_Inr_set bounded_text_clean)

lemma clean_bounded_list: "clean_list ts \<Longrightarrow> bounded_string_list (code_env h e) (PList (map PStr ts)) f = Inr ts"
proof -
  assume c: "clean_list ts"
  have "rmap (\<lambda>x. bounded_text (code_env h e) x f 120) (map PStr us) = Inr us" if "list_all (clean 120) us" for us
    using that by (induction us) (simp_all add: clean_bounded_text)
  then show ?thesis using c by (simp add: bounded_string_list_def clean_list_def)
qed

definition step_ok :: "playbook_step \<Rightarrow> bool" where
  "step_ok k \<longleftrightarrow> clean 80 (pk_id k) \<and> clean 120 (pk_name k) \<and> clean 20 (pk_kind k) \<and> clean 1000 (pk_description k) \<and> clean_list (pk_inputs k) \<and>
     (pk_kind k = ''workflow'' \<and> pk_report k = None \<and>
        (\<exists>t. pk_template k = Some t \<and> clean 120 t \<and> get_workflow_template t \<noteq> None) \<or>
      pk_kind k = ''report'' \<and> pk_template k = None \<and> (\<exists>r. pk_report k = Some r \<and> clean 80 r \<and> r \<in> set REPORT_TYPES))"

definition playbook_ok :: "playbook \<Rightarrow> bool" where
  "playbook_ok p \<longleftrightarrow> clean 120 (pd_id p) \<and> clean 120 (pd_name p) \<and> clean 120 (pd_trigger p) \<and> clean 2000 (pd_description p) \<and>
     clean 20 (pd_risk p) \<and> pd_risk p \<in> {''low'', ''medium'', ''high''} \<and> 1 \<le> length (pd_steps p) \<and> length (pd_steps p) \<le> 12 \<and>
     list_all step_ok (pd_steps p) \<and> distinct (map pk_id (pd_steps p)) \<and> clean_list (pd_evidence p) \<and> pd_evidence p \<noteq> []"

lemma parse_step_ok: "parse_step (code_env h e) seen raw = Inr k \<Longrightarrow> step_ok k \<and> pk_id k \<notin> set seen"
  by (auto simp: parse_step_def res_simps Let_def step_ok_def split: pyval.splits if_splits dest: bounded_text_clean bounded_list_clean)

lemma parse_steps_ok:
  "parse_steps (code_env h e) seen raws = Inr ks \<Longrightarrow>
   length ks = length raws \<and> list_all step_ok ks \<and> distinct (map pk_id ks) \<and> set (map pk_id ks) \<inter> set seen = {}"
proof (induction raws arbitrary: seen ks)
  case (Cons raw raws)
  then obtain k rest where k: "parse_step (code_env h e) seen raw = Inr k" "parse_steps (code_env h e) (pk_id k # seen) raws = Inr rest" "ks = k # rest"
    by (auto simp: res_simps)
  from parse_step_ok [OF k(1)] Cons.IH [OF k(2)] show ?case by (auto simp: k(3))
qed simp

lemma parse_playbook_ok:
  assumes "parse_msp_playbook_definition (code_env h e) d i v = Inr p"
  shows "playbook_ok p \<and> pd_version p = v \<and> bounded_text (code_env h e) (PStr i) ''playbook_id'' 120 = Inr (pd_id p)"
  using assms
  by (auto simp: parse_msp_playbook_definition_def res_simps Let_def playbook_ok_def dest: bounded_text_clean bounded_list_clean parse_steps_ok
      split: pyval.splits)

text \<open>A stable playbook is what its own view parses to, under any stable identifier and any version.\<close>

lemma dget_or_Cons: "dget_or ((k', v') # d) k v = (if k = k' then v' else dget_or d k v)" "dget_or [] k v = v"
  by (simp_all add: dget_or_def dget_def)

lemma parse_step_view: "step_ok k \<Longrightarrow> pk_id k \<notin> set seen \<Longrightarrow> parse_step (code_env h e) seen (step_view k) = Inr k"
  by (auto simp: parse_step_def step_view_def step_ok_def dget_or_Cons clean_bounded_text clean_bounded_list Let_def)

lemma parse_steps_view:
  "list_all step_ok ks \<Longrightarrow> distinct (map pk_id ks) \<Longrightarrow> set (map pk_id ks) \<inter> set seen = {} \<Longrightarrow>
   parse_steps (code_env h e) seen (map step_view ks) = Inr ks"
proof (induction ks arbitrary: seen)
  case (Cons k ks)
  then have "parse_steps (code_env h e) (pk_id k # seen) (map step_view ks) = Inr ks" by (intro Cons.IH) auto
  then show ?case using Cons.prems by (auto simp: parse_step_view)
qed simp

lemma parse_playbook_view:
  assumes "playbook_ok p" "clean 120 i"
  shows "parse_msp_playbook_definition (code_env h e) (playbook_view p) i v = Inr (p\<lparr>pd_id := i, pd_version := v\<rparr>)"
proof -
  have "parse_steps (code_env h e) [] (map step_view (pd_steps p)) = Inr (pd_steps p)" using assms(1) by (intro parse_steps_view) (auto simp: playbook_ok_def)
  then show ?thesis using assms
    by (auto simp: parse_msp_playbook_definition_def playbook_view_def playbook_ok_def dget_or_Cons clean_bounded_text clean_bounded_list Let_def)
qed

section \<open>Storing and resolving\<close>

lemma plain_keys:
  "\<not> is_sensitive_key ''id''" "\<not> is_sensitive_key ''name''" "\<not> is_sensitive_key ''version''" "\<not> is_sensitive_key ''trigger''" "\<not> is_sensitive_key ''description''"
  "\<not> is_sensitive_key ''risk_level''" "\<not> is_sensitive_key ''steps''" "\<not> is_sensitive_key ''output_evidence''" "\<not> is_sensitive_key ''local_fixture''" "\<not> is_sensitive_key ''kind''"
  "\<not> is_sensitive_key ''workflow_template_id''" "\<not> is_sensitive_key ''report_type''" "\<not> is_sensitive_key ''required_inputs''"
  by code_simp+

lemma clean_hidden: "clean n t \<Longrightarrow> text_hidden t"
  by (simp add: clean_def)

lemma clean_list_hidden: "clean_list ts \<Longrightarrow> list_all (value_hidden \<circ> PStr) ts"
  by (auto simp: clean_list_def list_all_iff clean_def)

lemma step_view_hidden: "step_ok k \<Longrightarrow> value_hidden (step_view k)"
  by (auto simp: step_view_def step_ok_def plain_keys clean_hidden clean_list_hidden list.pred_map)

lemma playbook_view_hidden: "playbook_ok p \<Longrightarrow> value_hidden (PDict (playbook_view p))"
proof -
  assume p: "playbook_ok p"
  then have "list_all value_hidden (map step_view (pd_steps p))" by (auto simp: playbook_ok_def list_all_iff step_view_hidden)
  moreover have "list_all value_hidden (map PStr (pd_evidence p))" using p clean_list_hidden by (simp add: playbook_ok_def list.pred_map)
  moreover have "text_hidden (pd_id p) \<and> text_hidden (pd_name p) \<and> text_hidden (pd_trigger p) \<and> text_hidden (pd_description p) \<and>
      text_hidden (pd_risk p)"
    using p unfolding playbook_ok_def by (blast dest: clean_hidden)
  ultimately show ?thesis by (simp add: playbook_view_def plain_keys)
qed

lemma view_column_hidden: "value_hidden (PDict d) \<Longrightarrow> view_column (code_env h e) d = PDict d"
proof -
  assume v: "value_hidden (PDict d)"
  have "(case w of PList _ \<Rightarrow> [(k, w)] | _ \<Rightarrow> as_dict (redact_json (PDict [(k, w)]))) = [(k, w)]" if "(k, w) \<in> set d" for k w
  proof -
    have "value_hidden (PDict [(k, w)])" using v that by (auto simp: list_all_iff)
    from redact_json_fixed(1) [OF this] show ?thesis by (auto split: pyval.split)
  qed
  then have "concat (map (\<lambda>(k, v). case v of PList _ \<Rightarrow> [(k, v)] | _ \<Rightarrow> as_dict (redact_json (PDict [(k, v)]))) d) = d"
    by (induction d) auto
  then show ?thesis unfolding view_column_def code_env_simps by simp
qed

text \<open>What creating an entry stores and returns.\<close>

lemma create_entry_Inr:
  assumes "create_msp_playbook_entry E now i source column provenance client enabled s = Inr (en, t)"
  obtains row where "playbook_entries t = playbook_entries s @ [row]" "\<forall>x\<in>set (playbook_entries s). en_id x \<noteq> i" "en_id row = i"
    "en_definition row = column" "en_enabled row = enabled" "en_version row = 1" "en_client row = normalize_client_id client" "en = entry_from_row E row"
    "playbook_revisions t = playbook_revisions s @ [\<lparr>pv_playbook = i, pv_version = 1,
       pv_snapshot = playbook_snapshot E (en_definition row) (en_provenance row) (en_enabled row), pv_created = now, pv_client = normalize_client_id client\<rparr>]"
    "\<forall>r\<in>set (playbook_revisions s). pv_playbook r = i \<longrightarrow> pv_version r \<noteq> 1"
proof -
  obtain src prov u where c: "\<not> (\<exists>x\<in>set (playbook_entries s). en_id x = i)"
    and u: "insert_msp_playbook_revision i 1 (playbook_snapshot E column prov enabled) now (normalize_client_id client)
       (s\<lparr>playbook_entries := playbook_entries s @
          [\<lparr>en_id = i, en_source = src, en_definition = column, en_provenance = prov, en_enabled = enabled, en_version = 1,
            en_created = now, en_updated = now, en_client = normalize_client_id client\<rparr>]\<rparr>) = Inr u" (is "?ins = _")
    and r: "persisted_entry E i (normalize_client_id client) (add_audit_row now ''msp.playbook_entry.created'' i
       (''source '' @ src @ '' added as MSP playbook version 1'') (normalize_client_id client) None u) = Inr (en, t)"
    using assms unfolding create_msp_playbook_entry_def rbind_Inr_iff raise_if_Inr_iff Let_def by blast
  let ?row = "\<lparr>en_id = i, en_source = src, en_definition = column, en_provenance = prov, en_enabled = enabled, en_version = 1,
            en_created = now, en_updated = now, en_client = normalize_client_id client\<rparr>"
  have u': "playbook_entries u = playbook_entries s @ [?row]" "playbook_revisions u = playbook_revisions s @ [\<lparr>pv_playbook = i, pv_version = 1,
       pv_snapshot = playbook_snapshot E column prov enabled, pv_created = now, pv_client = normalize_client_id client\<rparr>]"
    "\<forall>r\<in>set (playbook_revisions s). pv_playbook r = i \<longrightarrow> pv_version r \<noteq> 1"
    using u by (auto simp: insert_msp_playbook_revision_def res_simps)
  have "find (\<lambda>x. en_id x = i \<and> entry_in_scope (normalize_client_id client) x) (playbook_entries s) = None" using c by (auto simp: find_None_iff)
  then have "en = entry_from_row E ?row" "playbook_entries t = playbook_entries u" "playbook_revisions t = playbook_revisions u"
    using r u'(1) by (auto simp: persisted_entry_def get_msp_playbook_entry_def find_append add_audit_row_def entry_in_scope_def split: option.splits)
  then show thesis using u' c by (intro that [of ?row]) auto
qed

lemma get_entry_appended:
  assumes "playbook_entries t = es @ [row]" "\<forall>x\<in>set es. en_id x \<noteq> i" "en_id row = i"
  shows "get_msp_playbook_entry E i client t = (if entry_in_scope client row then Some (entry_from_row E row) else None)"
proof -
  have "find (\<lambda>x. en_id x = i \<and> entry_in_scope client x) es = None" using assms(2) by (auto simp: find_None_iff)
  then show ?thesis using assms(1,3) by (simp add: get_msp_playbook_entry_def find_append)
qed

text \<open>
  C16. A published playbook is the playbook that runs. When publishing returns, the definition given, or the built-in one it names, parsed, and
  resolving the new entry in its tenant gives exactly the parsed playbook under the entry's identifier, although its text has by then been
  filtered, stored, filtered again on reading and parsed a second time. A disabled entry is refused, and for any other tenant there is no
  such playbook. The identifier must be new to the catalog and one the filter leaves alone, as those \<open>uuid4\<close> makes are.
\<close>

theorem published_playbook_resolves:
  assumes "publish_msp_playbook (code_env digest shown) now i source provenance client definition enabled s = Inr (en, t)"
    and "get_msp_playbook i = None" "bounded_text (code_env digest shown) (PStr i) ''playbook_id'' 120 = Inr i"
  shows "\<exists>d p. (case definition of Some given \<Rightarrow> d = given | None \<Rightarrow> \<exists>b. get_msp_playbook source = Some b \<and> d = playbook_view b) \<and>
     parse_msp_playbook_definition (code_env digest shown) d source 1 = Inr p \<and>
     resolve_msp_playbook (code_env digest shown) i client t =
       (if enabled then Inr (p\<lparr>pd_id := i\<rparr>) else Inl (PermissionError ''MSP playbook is disabled'')) \<and>
     (\<forall>other. normalize_client_id other \<noteq> None \<and> normalize_client_id other \<noteq> normalize_client_id client \<longrightarrow>
        resolve_msp_playbook (code_env digest shown) i other t = Inl (KeyError i))"
proof -
  let ?E = "code_env digest shown"
  obtain d p where d: "case definition of Some given \<Rightarrow> d = given | None \<Rightarrow> \<exists>b. get_msp_playbook source = Some b \<and> d = playbook_view b"
    and p: "parse_msp_playbook_definition ?E d source 1 = Inr p"
    and c: "create_msp_playbook_entry ?E now i source (view_column ?E (playbook_view p)) provenance client enabled s = Inr (en, t)"
    using assms(1) by (auto simp: publish_msp_playbook_def res_simps split: option.splits)
  note ok = parse_playbook_ok [OF p]
  have col: "view_column ?E (playbook_view p) = PDict (playbook_view p)" "redact_mapping (playbook_view p) = playbook_view p"
    using view_column_hidden redact_json_fixed(2) playbook_view_hidden ok by blast+
  have same: "p\<lparr>pd_id := i, pd_version := 1\<rparr> = p\<lparr>pd_id := i\<rparr>" using ok by (cases p) simp
  obtain row where row: "playbook_entries t = playbook_entries s @ [row]" "\<forall>x\<in>set (playbook_entries s). en_id x \<noteq> i" "en_id row = i"
    "en_definition row = PDict (playbook_view p)" "en_enabled row = enabled" "en_version row = 1" "en_client row = normalize_client_id client"
    using c unfolding col by (rule create_entry_Inr)
  note get = get_entry_appended [OF row(1-3), where E = ?E]
  have clean: "clean 120 i" using bounded_text_clean [OF assms(3)] .
  have "resolve_msp_playbook ?E i client t = (if enabled then Inr (p\<lparr>pd_id := i\<rparr>) else Inl (PermissionError ''MSP playbook is disabled''))"
    using parse_playbook_view [OF conjunct1 [OF ok] clean, where v = 1 and h = digest and e = shown]
    by (auto simp: same resolve_msp_playbook_def assms(2) get entry_in_scope_def row entry_from_row_def col(2) json_object_def split: option.splits)
  moreover have "resolve_msp_playbook ?E i other t = Inl (KeyError i)"
    if "normalize_client_id other \<noteq> None" "normalize_client_id other \<noteq> normalize_client_id client" for other
    using that by (auto simp: resolve_msp_playbook_def assms(2) get entry_in_scope_def row split: option.splits)
  ultimately show ?thesis using d p by blast
qed

definition demo_code_env :: env where
  "demo_code_env = code_env (\<lambda>s. s) (\<lambda>e. ''error'')"

definition demo_definition :: pydict where
  "demo_definition = [(''name'', PStr '' a ''), (''trigger'', PStr ''t''), (''description'', PStr ''key=b''), (''risk_level'', PStr ''low''),
     (''steps'', PList [PDict [(''id'', PStr ''1''), (''name'', PStr ''s''), (''kind'', PStr ''report''), (''description'', PStr ''d''),
        (''report_type'', PStr ''qbr'')]]), (''output_evidence'', PList [PStr ''e''])]"

definition demo_publish :: "(playbook_entry \<times> store) res" where
  "demo_publish = publish_msp_playbook demo_code_env 10 ''p-1'' ''own'' ''me'' (Some ''acme'') (Some demo_definition) True empty_store"

theorem published_playbook_resolves_witness:
  "case demo_publish of Inl _ \<Rightarrow> False
   | Inr (en, t) \<Rightarrow> (\<exists>p. resolve_msp_playbook demo_code_env ''p-1'' (Some ''acme'') t = Inr p \<and> pd_id p = ''p-1'') \<and>
       resolve_msp_playbook demo_code_env ''p-1'' (Some ''other'') t = Inl (KeyError ''p-1'')"
proof -
  have "\<not> isl (parse_msp_playbook_definition demo_code_env demo_definition ''own'' 1)" by code_simp
  then obtain q where q: "parse_msp_playbook_definition demo_code_env demo_definition ''own'' 1 = Inr q"
    by (cases "parse_msp_playbook_definition demo_code_env demo_definition ''own'' 1") simp_all
  have g: "gallery_text demo_code_env ''own'' ''source_playbook_id'' 120 = Inr ''own''" "gallery_text demo_code_env ''me'' ''provenance'' 1000 = Inr ''me''"
    by code_simp+
  have acme: "normalize_client_id (Some ''acme'') = Some ''acme''" by code_simp
  have "\<exists>en t. demo_publish = Inr (en, t)"
    by (simp add: demo_publish_def publish_msp_playbook_def q create_msp_playbook_entry_def g insert_msp_playbook_revision_def persisted_entry_def
        get_msp_playbook_entry_def entry_in_scope_def add_audit_row_def empty_store_def Let_def acme)
  then obtain en t where p: "demo_publish = Inr (en, t)" by blast
  have n: "normalize_client_id (Some ''other'') \<noteq> None" "normalize_client_id (Some ''other'') \<noteq> normalize_client_id (Some ''acme'')"
    by code_simp+
  have i: "get_msp_playbook ''p-1'' = None" "bounded_text demo_code_env (PStr ''p-1'') ''playbook_id'' 120 = Inr ''p-1''"
    by code_simp+
  from published_playbook_resolves [OF p [unfolded demo_publish_def demo_code_env_def] i(1) i(2) [unfolded demo_code_env_def]] n
  show ?thesis unfolding p demo_code_env_def by auto
qed

section \<open>Versions\<close>

text \<open>
  An entry of version \<open>n\<close> has the revisions 1 to \<open>n\<close>, once each and in order, the last of them of its content.
\<close>

definition revisions_of :: "string \<Rightarrow> store \<Rightarrow> playbook_revision list" where
  "revisions_of i s = filter (\<lambda>r. pv_playbook r = i) (playbook_revisions s)"

definition entry_versioned :: "env \<Rightarrow> store \<Rightarrow> playbook_entry \<Rightarrow> bool" where
  "entry_versioned E s en \<longleftrightarrow> 1 \<le> en_version en \<and> map pv_version (revisions_of (en_id en) s) = [1..en_version en] \<and>
     pv_snapshot (last (revisions_of (en_id en) s)) = playbook_snapshot E (en_definition en) (en_provenance en) (en_enabled en)"

definition versions_ok :: "env \<Rightarrow> store \<Rightarrow> bool" where
  "versions_ok E s \<longleftrightarrow> distinct (map en_id (playbook_entries s)) \<and> (\<forall>en\<in>set (playbook_entries s). entry_versioned E s en) \<and>
     (\<forall>r\<in>set (playbook_revisions s). pv_playbook r \<in> en_id ` set (playbook_entries s))"

lemma versions_ok_same:
  "versions_ok E s \<Longrightarrow> playbook_entries t = playbook_entries s \<Longrightarrow> playbook_revisions t = playbook_revisions s \<Longrightarrow> versions_ok E t"
  by (simp add: versions_ok_def entry_versioned_def revisions_of_def)

lemma create_entry_versions:
  assumes "versions_ok E s" "create_msp_playbook_entry E now i source column provenance client enabled s = Inr (en, t)"
  shows "versions_ok E t"
  using assms(2)
proof (rule create_entry_Inr)
  fix row
  assume t: "playbook_entries t = playbook_entries s @ [row]" "\<forall>x\<in>set (playbook_entries s). en_id x \<noteq> i" "en_id row = i" "en_version row = 1"
    "playbook_revisions t = playbook_revisions s @ [\<lparr>pv_playbook = i, pv_version = 1,
       pv_snapshot = playbook_snapshot E (en_definition row) (en_provenance row) (en_enabled row), pv_created = now, pv_client = normalize_client_id client\<rparr>]"
  have "\<forall>r\<in>set (playbook_revisions s). pv_playbook r \<noteq> i" using assms(1) t(2) unfolding versions_ok_def by fastforce
  then have "revisions_of i s = []" by (auto simp: revisions_of_def filter_empty_conv)
  then show "versions_ok E t" using assms(1) t
    by (auto simp: versions_ok_def entry_versioned_def revisions_of_def)
qed

text \<open>What an update of an entry does: nothing, or one more version with its revision. The unique constraint never fires.\<close>

lemma update_entry_cases:
  assumes "versions_ok E s" "update_msp_playbook_entry E now i column provenance enabled client force s = Inr (en, t)"
  obtains (same) "t = s"
  | (next_version) old row where "old \<in> set (playbook_entries s)" "en_id old = i" "en_id row = i" "en_version row = en_version old + 1"
      "playbook_entries t = update_where (\<lambda>x. en_id x = i) (\<lambda>_. row) (playbook_entries s)"
      "playbook_revisions t = playbook_revisions s @ [\<lparr>pv_playbook = i, pv_version = en_version row,
         pv_snapshot = playbook_snapshot E (en_definition row) (en_provenance row) (en_enabled row), pv_created = now, pv_client = normalize_client_id (en_client old)\<rparr>]"
proof -
  obtain old where old: "find (\<lambda>x. en_id x = i \<and> entry_in_scope client x) (playbook_entries s) = Some old"
    using assms(2) by (auto simp: update_msp_playbook_entry_def get_msp_playbook_entry_def split: option.splits)
  then have o: "old \<in> set (playbook_entries s)" "en_id old = i" by (auto dest: find_SomeD)
  let ?old = "entry_from_row E old"
  let ?d = "case column of None \<Rightarrow> en_definition ?old | Some c \<Rightarrow> c" and ?on = "case enabled of None \<Rightarrow> en_enabled ?old | Some b \<Rightarrow> b"
  obtain prov where body: "(if \<not> force \<and> json_text ?d = json_text (en_definition ?old) \<and> prov = en_provenance ?old \<and> ?on = en_enabled ?old then Inr (?old, s)
      else rbind (insert_msp_playbook_revision i (en_version ?old + 1) (playbook_snapshot E ?d prov ?on) now (normalize_client_id (en_client ?old))
              (s\<lparr>playbook_entries := update_where (\<lambda>en. en_id en = i)
                 (\<lambda>en. en\<lparr>en_definition := ?d, en_provenance := prov, en_enabled := ?on, en_version := en_version ?old + 1, en_updated := now\<rparr>)
                 (playbook_entries s)\<rparr>)) (\<lambda>s1.
            persisted_entry E i (normalize_client_id (en_client ?old))
              (add_audit_row now ''msp.playbook_entry.updated'' i (''MSP playbook updated to version '' @ show_int (en_version ?old + 1))
                 (normalize_client_id (en_client ?old)) None s1))) = Inr (en, t)"
    using iffD1 [OF rbind_Inr_iff assms(2) [unfolded update_msp_playbook_entry_def get_msp_playbook_entry_def old option.map option.case Let_def]]
    by blast
  show thesis
  proof (cases "\<not> force \<and> json_text ?d = json_text (en_definition ?old) \<and> prov = en_provenance ?old \<and> ?on = en_enabled ?old")
    case True
    then show thesis using body same by simp
  next
    case False
    let ?row = "old\<lparr>en_definition := ?d, en_provenance := prov, en_enabled := ?on, en_version := en_version old + 1, en_updated := now\<rparr>"
    have "distinct (map en_id (playbook_entries s))" using assms(1) by (simp add: versions_ok_def)
    then have only: "x = old" if "x \<in> set (playbook_entries s)" "en_id x = i" for x using that o by (metis inj_onD distinct_map)
    have "update_where (\<lambda>en. en_id en = i) (\<lambda>en. en\<lparr>en_definition := ?d, en_provenance := prov, en_enabled := ?on, en_version := en_version old + 1,
        en_updated := now\<rparr>) (playbook_entries s) = update_where (\<lambda>en. en_id en = i) (\<lambda>_. ?row) (playbook_entries s)"
      unfolding update_where_def using only by (intro map_cong) auto
    then show thesis using body False o
      by (intro next_version [of old ?row])
        (auto simp: entry_from_row_def insert_msp_playbook_revision_def persisted_entry_def res_simps add_audit_row_def split: option.splits)
  qed
qed

lemma update_entry_versions:
  assumes "versions_ok E s" "update_msp_playbook_entry E now i column provenance enabled client force s = Inr (en, t)"
  shows "versions_ok E t"
  using assms
proof (cases rule: update_entry_cases)
  case (next_version old row)
  have v: "entry_versioned E s old" using assms(1) next_version(1) by (simp add: versions_ok_def)
  then have "[1..en_version old + 1] = [1..en_version old] @ [en_version old + 1]" by (simp add: entry_versioned_def upto_rec2)
  then have "entry_versioned E t row" using v next_version by (simp add: entry_versioned_def revisions_of_def)
  moreover have "entry_versioned E t x" if "x \<in> set (playbook_entries s)" "en_id x \<noteq> i" for x
    using assms(1) that next_version(6) by (auto simp: versions_ok_def entry_versioned_def revisions_of_def)
  moreover have "map en_id (playbook_entries t) = map en_id (playbook_entries s)"
    unfolding next_version(5) update_where_def using next_version(3) by auto
  moreover have "en_id ` set (playbook_entries t) = en_id ` set (playbook_entries s)" using \<open>map en_id (playbook_entries t) = _\<close> by (metis list.set_map)
  ultimately show ?thesis using assms(1) next_version(1,2)
    unfolding versions_ok_def next_version(6) by (auto simp: next_version(5) set_update_where)
qed (use assms(1) in simp)

datatype entry_op =
    Publish_entry string string string "string option" "pydict option" bool
  | Update_entry string "string option" "pydict option" "string option" "bool option"
  | Store_update string "pyval option" "string option" "bool option" "string option" bool
  | Restore_entry string int "string option"

fun entry_step :: "env \<Rightarrow> time \<times> entry_op \<Rightarrow> store \<Rightarrow> (playbook_entry \<times> store) res" where
  "entry_step E (now, Publish_entry i source p c d b) s = publish_msp_playbook E now i source p c d b s"
| "entry_step E (now, Update_entry i c d p b) s = update_msp_playbook E now i c d p b s"
| "entry_step E (now, Store_update i column p b c force) s = update_msp_playbook_entry E now i column p b c force s"
| "entry_step E (now, Restore_entry i version c) s = restore_msp_playbook_revision E now i version c s"

lemma entry_step_versions: "versions_ok E s \<Longrightarrow> entry_step E op s = Inr (en, t) \<Longrightarrow> versions_ok E t"
proof (cases op)
  case (Pair now c)
  assume inv: "versions_ok E s" and st: "entry_step E op s = Inr (en, t)"
  show ?thesis
  proof (cases c)
    case (Publish_entry i source p cl d b)
    then show ?thesis using st inv Pair by (auto simp: publish_msp_playbook_def res_simps dest: create_entry_versions)
  next
    case (Update_entry i cl d p b)
    then show ?thesis using st inv Pair by (auto simp: update_msp_playbook_def res_simps split: option.splits dest: update_entry_versions)
  next
    case (Store_update i column p b cl force)
    then show ?thesis using st inv Pair update_entry_versions by simp
  next
    case (Restore_entry i version cl)
    then show ?thesis using st inv Pair
      by (auto simp: restore_msp_playbook_revision_def Let_def split: option.splits pyval.splits dest: update_entry_versions)
  qed
qed

interpretation entry_tables: guarded_ops "entry_step E" "versions_ok E" for E
  by unfold_locales (rule entry_step_versions)

lemma revision_found:
  assumes "versions_ok E t" "en \<in> set (playbook_entries t)"
  shows "get_msp_playbook_revision E (en_id en) v None t \<noteq> None \<longleftrightarrow> 1 \<le> v \<and> v \<le> en_version en"
proof -
  have "find (\<lambda>x. en_id x = en_id en \<and> entry_in_scope None x) (playbook_entries t) = Some en"
    using assms find_unique_key [of en_id "playbook_entries t" en] by (simp add: versions_ok_def entry_in_scope_def normalize_client_id_def)
  then have "get_msp_playbook_revision E (en_id en) v None t \<noteq> None \<longleftrightarrow> v \<in> set (map pv_version (revisions_of (en_id en) t))"
    by (auto simp: get_msp_playbook_revision_def get_msp_playbook_entry_def find_None_iff revisions_of_def)
  also have "map pv_version (revisions_of (en_id en) t) = [1..en_version en]"
    using assms unfolding versions_ok_def entry_versioned_def by blast
  finally show ?thesis by simp
qed

text \<open>
  C17. The history of a published playbook is complete. Under every sequence of publications, updates, restorations and direct updates of
  entries, an entry of version n has exactly the revisions 1 to n, once each and in that order; the last one is the snapshot of what the entry
  holds; and exactly these versions are found when a revision is asked for, so each of them can be restored.
\<close>

theorem playbook_history_complete:
  assumes "versions_ok E s" "en \<in> set (playbook_entries (run_ops (entry_step E) ops s))"
  shows "let t = run_ops (entry_step E) ops s in
     map pv_version (revisions_of (en_id en) t) = [1..en_version en] \<and>
     pv_snapshot (last (revisions_of (en_id en) t)) = playbook_snapshot E (en_definition en) (en_provenance en) (en_enabled en) \<and>
     (\<forall>v. get_msp_playbook_revision E (en_id en) v None t \<noteq> None \<longleftrightarrow> 1 \<le> v \<and> v \<le> en_version en)"
proof -
  have inv: "versions_ok E (run_ops (entry_step E) ops s)" using entry_tables.run_ops_keeps [OF assms(1)] .
  then show ?thesis using revision_found [OF inv assms(2)] assms(2) unfolding versions_ok_def entry_versioned_def Let_def by blast
qed

definition demo_entry_ops :: "(time \<times> entry_op) list" where
  "demo_entry_ops = [(1, Publish_entry ''p-1'' ''own'' ''me'' (Some ''acme'') (Some demo_definition) True),
     (2, Update_entry ''p-1'' (Some ''acme'') None None (Some False)), (3, Restore_entry ''p-1'' 1 None)]"

theorem playbook_history_complete_witness:
  "map en_version (playbook_entries (run_ops (entry_step plain_env) demo_entry_ops empty_store)) = [3] \<and>
   map pv_version (revisions_of ''p-1'' (run_ops (entry_step plain_env) demo_entry_ops empty_store)) = [1, 2, 3]"
proof -
  let ?t = "run_ops (entry_step plain_env) demo_entry_ops empty_store"
  have e: "map (\<lambda>en. (en_id en, en_version en)) (playbook_entries ?t) = [(''p-1'', 3)]" by code_simp
  then obtain en where en: "playbook_entries ?t = [en]" "en_id en = ''p-1''" "en_version en = 3" by auto
  have "versions_ok plain_env empty_store" by (simp add: versions_ok_def empty_store_def)
  then show ?thesis using playbook_history_complete [of plain_env empty_store en demo_entry_ops] en by (simp add: Let_def upto_rec1)
qed

end
