(* ===== verification/Playbook_Run_Laws.thy ===== *)
theory Playbook_Run_Laws
  imports Playbook_Runs Workflow_Run_Laws
begin

text \<open>
  Runs of playbooks: the steps run in order up to the first that is not completed, a refused call writes nothing, and the results of workflow
  steps are the runs the store holds.
\<close>

section \<open>The order of the steps\<close>

lemma step_result_id: "run_playbook_step X now p c cl pl k s = (Inr (Some r), t) \<Longrightarrow> result_id r = Some (pk_id k)"
  by (auto simp: run_playbook_step_def sbind_def split: if_splits option.splits sum.splits prod.splits)

text \<open>How the loop ended, against the results it has added.\<close>

fun ended_as :: "playbook_step list \<Rightarrow> steps_end \<Rightarrow> step_result list \<Rightarrow> bool" where
  "ended_as ks Ended new \<longleftrightarrow> length new = length ks \<and> (\<forall>x\<in>set new. result_status x = ''completed'')"
| "ended_as ks (Halted st i) new \<longleftrightarrow> new \<noteq> [] \<and> st = result_status (last new) \<and> st \<noteq> ''completed'' \<and> i = pk_id (ks ! (length new - 1)) \<and>
     (\<forall>x\<in>set (butlast new). result_status x = ''completed'')"
| "ended_as ks (Raised e) new \<longleftrightarrow> length new < length ks \<and> (\<forall>x\<in>set new. result_status x = ''completed'')"
| "ended_as ks Quarantined_end new \<longleftrightarrow> length new < length ks"

definition in_order :: "playbook_step list \<Rightarrow> step_result list \<Rightarrow> bool" where
  "in_order ks new \<longleftrightarrow> length new \<le> length ks \<and> map result_id new = map (\<lambda>k. Some (pk_id k)) (take (length new) ks)"

lemma ended_as_Cons: "ended_as ks ending new \<Longrightarrow> result_status r = ''completed'' \<Longrightarrow> ended_as (k # ks) ending (r # new)"
  by (cases ending) (auto simp: nth_Cons')

lemma in_order_Cons: "in_order ks new \<Longrightarrow> result_id r = Some (pk_id k) \<Longrightarrow> in_order (k # ks) (r # new)"
  by (simp add: in_order_def)

lemma steps_in_order:
  "run_playbook_steps X now p c cl pl ks rs s = (ending, rs', t) \<Longrightarrow> \<exists>new. rs' = rs @ new \<and> in_order ks new \<and> ended_as ks ending new"
proof (induction ks arbitrary: rs s)
  case Nil
  then show ?case by (intro exI [of _ "[]"]) (auto simp: in_order_def)
next
  case (Cons k ks)
  obtain y u where y: "run_playbook_step X now p c cl pl k s = (y, u)" by fastforce
  consider (raised) e where "y = Inl e" | (quarantined) "y = Inr None" | (result) r where "y = Inr (Some r)"
    by (cases y) auto
  then show ?case
  proof cases
    case (result r)
    have i: "result_id r = Some (pk_id k)" using step_result_id y result by blast
    show ?thesis
    proof (cases "result_status r = ''completed''")
      case True
      then have "run_playbook_steps X now p c cl pl ks (rs @ [r]) u = (ending, rs', t)" using Cons.prems by (simp add: y result)
      from Cons.IH [OF this] obtain new where "rs' = rs @ r # new" "in_order ks new" "ended_as ks ending new" by auto
      then show ?thesis using ended_as_Cons [OF _ True] in_order_Cons [OF _ i] by blast
    next
      case False
      then have "ending = Halted (result_status r) (pk_id k)" "rs' = rs @ [r]" using Cons.prems by (simp_all add: y result)
      then show ?thesis using False i by (intro exI [of _ "[r]"]) (simp add: in_order_def)
    qed
  qed (use Cons.prems in \<open>auto simp: y in_order_def intro!: exI [of _ "[]"]\<close>)
qed

lemma resolved_has_steps: "resolve_msp_playbook E i client s = Inr p \<Longrightarrow> pd_steps p \<noteq> []"
proof -
  have built_in: "list_all (\<lambda>p. pd_steps p \<noteq> []) MSP_PLAYBOOKS" by code_simp
  have parsed: "parse_msp_playbook_definition E d j v = Inr p \<Longrightarrow> pd_steps p \<noteq> []" for d j v
  proof -
    have len: "parse_steps E seen raws = Inr ks \<Longrightarrow> length ks = length raws" for seen raws ks
      by (induction raws arbitrary: seen ks) (auto simp: res_simps)
    assume "parse_msp_playbook_definition E d j v = Inr p"
    then show ?thesis by (auto simp: parse_msp_playbook_definition_def res_simps Let_def split: pyval.splits dest!: len)
  qed
  assume "resolve_msp_playbook E i client s = Inr p"
  then show ?thesis
    using built_in parsed by (auto simp: resolve_msp_playbook_def get_msp_playbook_def res_simps list_all_iff split: option.splits dest: find_SomeD)
qed

definition stopped_right :: "playbook \<Rightarrow> string \<times> string option \<times> step_result list \<Rightarrow> bool" where
  "stopped_right p out = (case out of (status, stopped, steps) \<Rightarrow>
     steps \<noteq> [] \<and> length steps \<le> length (pd_steps p) \<and> map result_id steps = map (\<lambda>k. Some (pk_id k)) (take (length steps) (pd_steps p)) \<and>
     (\<forall>x\<in>set (butlast steps). result_status x = ''completed'') \<and> status = result_status (last steps) \<and>
     (if status = ''completed'' then length steps = length (pd_steps p) \<and> stopped = None
      else stopped = Some (pk_id (pd_steps p ! (length steps - 1)))))"

lemma outcome_right:
  assumes "in_order (pd_steps p) rs" "ended_as (pd_steps p) ending rs" "pd_steps p \<noteq> []" "ending \<noteq> Quarantined_end"
  shows "stopped_right p (steps_outcome E p ending rs)"
proof (cases ending)
  case Ended
  then have "rs \<noteq> []" "\<forall>x\<in>set rs. result_status x = ''completed''" using assms(2,3) by auto
  then show ?thesis using Ended assms(1,2) by (auto simp: stopped_right_def in_order_def dest: in_set_butlastD)
next
  case (Halted st i)
  then show ?thesis using assms(1,2) by (auto simp: stopped_right_def in_order_def)
next
  case (Raised e)
  then show ?thesis using assms(1,2) by (auto simp: stopped_right_def in_order_def take_Suc_conv_app_nth Let_def)
qed (use assms(4) in simp)

text \<open>The parts of a run that passed its checks.\<close>

lemma run_playbook_cases:
  assumes "run_msp_playbook X now c s = (x, t)"
  obtains (refused) e where "x = Inl e" "t = s"
  | (skipped) p pl client rs where "playbook_checks X c s = Inr (p, pl, client)" "x = Inr (empty_playbook_result p (pc_ticket c) client)"
      "run_playbook_steps X now p c client pl (pd_steps p) []
         (playbook_audit X now ''msp.playbook.started'' p (playbook_run_id X s) (pc_ticket c) client [] s) = (Quarantined_end, rs, t)"
  | (ran) p pl client ending rs u r event suffix where "playbook_checks X c s = Inr (p, pl, client)" "x = Inr r"
      "run_playbook_steps X now p c client pl (pd_steps p) []
         (playbook_audit X now ''msp.playbook.started'' p (playbook_run_id X s) (pc_ticket c) client [] s) = (ending, rs, u)"
      "ending \<noteq> Quarantined_end" "(po_status r, po_stopped r, po_steps r) = steps_outcome (px_env X) p ending rs"
      "po_run r = Some (playbook_run_id X s)" "po_ticket r = pc_ticket c" "po_client r = client"
      "t = playbook_audit X now event p (playbook_run_id X s) (pc_ticket c) client suffix u"
proof (cases "playbook_checks X c s")
  case (Inl e)
  then show thesis using assms refused [of e] by (auto simp: run_msp_playbook_def)
next
  case (Inr q)
  obtain p pl client where q: "q = (p, pl, client)" by (metis surj_pair)
  obtain ending rs u where steps: "run_playbook_steps X now p c client pl (pd_steps p) []
     (playbook_audit X now ''msp.playbook.started'' p (playbook_run_id X s) (pc_ticket c) client [] s) = (ending, rs, u)"
    by (metis surj_pair)
  obtain status stopped results where out: "steps_outcome (px_env X) p ending rs = (status, stopped, results)" by (metis surj_pair)
  show thesis
  proof (cases "ending = Quarantined_end")
    case True
    then show thesis using assms skipped [of p pl client rs] steps by (simp add: run_msp_playbook_def Inr q Let_def)
  next
    case False
    note d = run_msp_playbook_def Inr q Let_def steps out False
    have "fst (run_msp_playbook X now c s) = x" "snd (run_msp_playbook X now c s) = t" using assms by simp_all
    then show thesis using False out
      by (intro ran [OF Inr [unfolded q] _ steps False]) (auto simp: d)
  qed
qed

text \<open>
  C14. A playbook stops at its first gate or failure. A call that raises has written nothing. Otherwise the results are those of an initial part
  of the playbook's steps, in their order and at least one; all but the last are completed; the status of the run is the status of the
  last result; it is completed only when every step has run, and otherwise the run names the step it stopped after. Whatever a step or a
  callback raises is such a result and never leaves the call. A call that met a quarantined ticket answers skipped, with no result.
\<close>

theorem playbook_stops_at_first_gate:
  "case run_msp_playbook X now c s of
     (Inl e, t) \<Rightarrow> t = s
   | (Inr r, t) \<Rightarrow> \<exists>p. resolve_msp_playbook (px_env X) (pc_playbook c) (pc_client c) s = Inr p \<and>
       (if po_run r = None then po_status r = ''skipped'' \<and> po_steps r = []
        else po_steps r \<noteq> [] \<and> length (po_steps r) \<le> length (pd_steps p) \<and>
          map result_id (po_steps r) = map (\<lambda>k. Some (pk_id k)) (take (length (po_steps r)) (pd_steps p)) \<and>
          (\<forall>x\<in>set (butlast (po_steps r)). result_status x = ''completed'') \<and> po_status r = result_status (last (po_steps r)) \<and>
          (if po_status r = ''completed'' then length (po_steps r) = length (pd_steps p) \<and> po_stopped r = None
           else po_stopped r = Some (pk_id (pd_steps p ! (length (po_steps r) - 1)))))"
proof -
  obtain x t where r: "run_msp_playbook X now c s = (x, t)" by fastforce
  then show ?thesis
  proof (cases rule: run_playbook_cases)
    case (refused e)
    then show ?thesis by (simp add: r)
  next
    case (skipped p pl client rs)
    then show ?thesis by (auto simp: r empty_playbook_result_def playbook_checks_def res_simps)
  next
    case (ran p pl client ending rs u res event suffix)
    have p: "resolve_msp_playbook (px_env X) (pc_playbook c) (pc_client c) s = Inr p" using ran(1) by (auto simp: playbook_checks_def res_simps)
    from steps_in_order [OF ran(3)] have "in_order (pd_steps p) rs" "ended_as (pd_steps p) ending rs" by auto
    from outcome_right [OF this resolved_has_steps [OF p] ran(4), of "px_env X"] show ?thesis
      using p ran(6) unfolding ran(5) [symmetric] by (auto simp: r ran(2) stopped_right_def)
  qed
qed

section \<open>The runs of the steps\<close>

text \<open>What a run of a template leaves in the table of runs, whatever it returns.\<close>

lemma workflow_tail_Inl:
  assumes "\<And>X. executor = Some X \<Longrightarrow> keeps_workflows X" "workflow_inv s" "workflow_tail V executor now q tp ticket cl p s = (Inl e, t)"
  shows "workflow_runs t = workflow_runs s"
proof -
  obtain y s1 where y: "run_template_tool executor now tp ticket (wq_actor q) cl p (wq_correlation q) s = (y, s1)" by fastforce
  note tool = workflow_tool [OF assms(1,2) y]
  show ?thesis
  proof (cases y)
    case (Inl e)
    then show ?thesis using assms(3) tool by (auto simp: workflow_tail_def y)
  next
    case (Inr res)
    let ?base = "workflow_message (sm_env V) tp ticket res"
    let ?m = "if strip (redact (sm_env V) (wq_instructions q)) = [] then ?base
      else ?base @ '' Operator instructions: '' @ strip (redact (sm_env V) (wq_instructions q))"
    obtain z s2 where z: "settle_workflow (sm_env V) now tp ticket cl ?m res s1 = (z, s2)" by fastforce
    have "tool_links r s1" if "res = Some r" for r using tool Inr that by simp
    note settle = workflow_settle [OF conjunct1 [OF tool] this z]
    have "t = s2"
      using assms(3) by (cases z) (auto simp: workflow_tail_def y Inr z Let_def tx_def sbind_def split: prod.splits sum.splits)
    then show ?thesis using settle tool by simp
  qed
qed

lemma template_run_kept:
  assumes "\<And>X. executor = Some X \<Longrightarrow> keeps_workflows X" "workflow_inv s" "run_workflow_template V executor now q s = (x, t)"
  shows "workflow_inv t \<and> (case x of
       Inl e \<Rightarrow> workflow_runs t = workflow_runs s
     | Inr r \<Rightarrow> (if wo_id r = None then workflow_runs t = workflow_runs s
         else \<exists>w. workflow_runs t = workflow_runs s @ [w] \<and> r = run_from_row w \<and> wr_ticket w = wq_ticket q \<and>
           (normalize_client_id (wq_client q) \<noteq> None \<longrightarrow> wr_client w = normalize_client_id (wq_client q))))"
  using assms(3)
proof (cases rule: run_template_cases)
  case (run tp ticket cl p)
  note tail = workflow_tail_inv [OF assms(1,2) run(7)]
  show ?thesis
  proof (cases x)
    case (Inl e)
    then show ?thesis using tail workflow_tail_Inl [OF assms(1,2) run(7) [unfolded Inl]] by simp
  next
    case (Inr r)
    then obtain w where w: "workflow_runs t = workflow_runs s @ [w]" "r = run_from_row w" "wr_ticket w = tk_id ticket" "wr_client w = normalize_client_id cl"
      using tail by (auto simp: run_of_ticket_def)
    have "normalize_client_id (wq_client q) \<noteq> None \<longrightarrow> wr_client w = normalize_client_id (wq_client q)" using w(4) run(8) by auto
    then show ?thesis using tail Inr w run(2) by (auto simp: run_from_row_def)
  qed
qed (use assms(2) in \<open>auto simp: quarantined_run_def\<close>)

text \<open>
  The contract of the hosts: the tools keep the link of runs and requests, and the callback for a finished run does not raise, keeps that
  link and stores no run of its own.
\<close>

definition hosts_ok :: "playbook_env \<Rightarrow> playbook_call \<Rightarrow> bool" where
  "hosts_ok X c \<longleftrightarrow> (\<forall>V. px_tools X = Some V \<longrightarrow> keeps_workflows V) \<and>
     (\<forall>r s. fst (pc_on_run c r s) = Inr () \<and> (workflow_inv s \<longrightarrow> workflow_inv (snd (pc_on_run c r s))) \<and>
        workflow_runs (snd (pc_on_run c r s)) = workflow_runs s)"

fun names_run :: "step_result \<Rightarrow> bool" where
  "names_run (Workflow_result i st run approval message) = True"
| "names_run _ = False"

definition result_of_run :: "string option \<Rightarrow> string option \<Rightarrow> step_result \<Rightarrow> workflow_run_row \<Rightarrow> bool" where
  "result_of_run ticket client x w \<longleftrightarrow> (\<exists>i m. x = Workflow_result i (wr_status w) (wr_id w) (wr_approval w) m) \<and> ticket = Some (wr_ticket w) \<and>
     (normalize_client_id client \<noteq> None \<longrightarrow> wr_client w = normalize_client_id client)"

lemma report_step_runs:
  "run_report_step X now k pl client actor s = (x, t) \<Longrightarrow> workflow_runs t = workflow_runs s \<and> (workflow_inv s \<longrightarrow> workflow_inv t)"
proof -
  have c: "workflow_runs u = workflow_runs s \<and> workflow_runs_seq u = workflow_runs_seq s \<and> approvals u = approvals s \<and> approvals_seq u = approvals_seq s"
    if "create_report E now i ty ti se by_whom cl pr md s = (y, u)" for E i ty ti se by_whom cl pr md y u
    using that by (auto simp: create_report_def save_report_def audit_defs Let_def split: sum.splits if_splits)
  assume "run_report_step X now k pl client actor s = (x, t)"
  then have "t = s \<or> (\<exists>E i ty ti se by_whom cl pr md. create_report E now i ty ti se by_whom cl pr md s = (x, t))"
    unfolding run_report_step_def by (auto split: option.splits sum.splits prod.splits)
  then show ?thesis using c workflow_inv_same [of s t] by blast
qed

lemma step_recorded:
  assumes "hosts_ok X c" "workflow_inv s" "run_playbook_step X now p c client pl k s = (x, t)"
  shows "workflow_inv t \<and> (case x of
     Inr (Some r) \<Rightarrow> if names_run r then \<exists>w. workflow_runs t = workflow_runs s @ [w] \<and> result_of_run (pc_ticket c) client r w
                     else workflow_runs t = workflow_runs s
   | _ \<Rightarrow> workflow_runs t = workflow_runs s)"
proof (cases "pk_kind k = ''workflow''")
  case False
  obtain y u where y: "run_report_step X now k pl client (pc_actor c) s = (y, u)" by fastforce
  then show ?thesis using report_step_runs [OF y] assms(2,3) False by (cases y) (auto simp: run_playbook_step_def)
next
  case True
  show ?thesis
  proof (cases "pc_ticket c = None \<or> pk_template k = None")
    case True
    then show ?thesis using assms(2,3) \<open>pk_kind k = _\<close> by (auto simp: run_playbook_step_def split: option.splits)
  next
    case False
    then obtain ticket template where tt: "pc_ticket c = Some ticket" "pk_template k = Some template" by auto
    let ?q = "\<lparr>wq_template = template, wq_ticket = ticket, wq_client = client, wq_actor = pc_actor c, wq_trigger = pc_trigger c,
                          wq_override = None, wq_instructions = [], wq_version = Some (pd_version p), wq_payload = pl,
                          wq_correlation = None\<rparr>"
    obtain y u where y: "run_workflow_template (px_base X) (px_tools X) now ?q s = (y, u)" by fastforce
    have tools: "\<And>V. px_tools X = Some V \<Longrightarrow> keeps_workflows V" using assms(1) by (simp add: hosts_ok_def)
    note kept = template_run_kept [OF tools assms(2) y]
    have x: "(x, t) = sbind (y, u) (\<lambda>run t. case wo_id run of
                  None \<Rightarrow> (Inr None, t)
                | Some i \<Rightarrow> sbind (pc_on_run c run t) (\<lambda>_ u.
                    (Inr (Some (Workflow_result (pk_id k) (wo_status run) i (wo_approval run) (redact (px_env X) (wo_message run)))), u)))"
      using assms(3) \<open>pk_kind k = _\<close> unfolding run_playbook_step_def tt y [symmetric] by simp
    show ?thesis
    proof (cases y)
      case (Inl e)
      then show ?thesis using x kept by simp
    next
      case (Inr run)
      show ?thesis
      proof (cases "wo_id run")
        case None
        then show ?thesis using x kept Inr by simp
      next
        case (Some i)
        then obtain w where w: "workflow_runs u = workflow_runs s @ [w]" "run = run_from_row w" "wr_ticket w = ticket"
          "normalize_client_id client \<noteq> None \<longrightarrow> wr_client w = normalize_client_id client" and inv: "workflow_inv u"
          using kept Inr by auto
        obtain v where v: "pc_on_run c run u = (Inr (), v)" "workflow_inv v" "workflow_runs v = workflow_runs u"
          using assms(1) inv by (auto simp: hosts_ok_def prod_eq_iff)
        have "i = wr_id w" using Some w(2) by (simp add: run_from_row_def)
        then show ?thesis using x v w tt(1) Some Inr by (auto simp: result_of_run_def run_from_row_def)
      qed
    qed
  qed
qed

lemma steps_recorded:
  assumes "hosts_ok X c" "workflow_inv s" "run_playbook_steps X now p c client pl ks rs s = (ending, rs', t)"
  shows "workflow_inv t \<and> (\<exists>new ws. rs' = rs @ new \<and> workflow_runs t = workflow_runs s @ ws \<and>
     list_all2 (result_of_run (pc_ticket c) client) (filter names_run new) ws)"
  using assms(2,3)
proof (induction ks arbitrary: rs s)
  case (Cons k ks)
  obtain y u where y: "run_playbook_step X now p c client pl k s = (y, u)" by fastforce
  note st = step_recorded [OF assms(1) Cons.prems(1) y]
  consider (ends) "y = Inr None \<or> isl y" | (result) r where "y = Inr (Some r)" by (cases y) auto
  then show ?case
  proof cases
    case ends
    then have "rs' = rs" "t = u" "workflow_runs u = workflow_runs s" using Cons.prems(2) st by (auto simp: y split: sum.splits)
    then show ?thesis using st by auto
  next
    case (result r)
    obtain w where w: "workflow_runs u = workflow_runs s @ w" "list_all2 (result_of_run (pc_ticket c) client) (filter names_run [r]) w" and inv: "workflow_inv u"
      using st result by (cases "names_run r") auto
    show ?thesis
    proof (cases "result_status r = ''completed''")
      case False
      then have "rs' = rs @ [r]" "t = u" using Cons.prems(2) by (auto simp: y result)
      then show ?thesis using w inv by blast
    next
      case True
      then have "run_playbook_steps X now p c client pl ks (rs @ [r]) u = (ending, rs', t)" using Cons.prems(2) by (simp add: y result)
      from Cons.IH [OF inv this] obtain new ws where n: "workflow_inv t" "rs' = rs @ ([r] @ new)" "workflow_runs t = workflow_runs s @ (w @ ws)"
        "list_all2 (result_of_run (pc_ticket c) client) (filter names_run new) ws" using w(1) by auto
      have "list_all2 (result_of_run (pc_ticket c) client) (filter names_run ([r] @ new)) (w @ ws)"
        using w(2) n(4) by (simp only: filter_append list_all2_appendI)
      then show ?thesis using n by blast
    qed
  qed
qed auto


section \<open>Worked runs\<close>

definition demo_hosts :: playbook_env where
  "demo_hosts = \<lparr>px_base = demo_service, px_tools = None, px_date = (\<lambda>s. if s = [] then None else Some (int (length s))),
     px_builder = (\<lambda>k cl a b n s. Inr (PList [], [])), px_fresh = (\<lambda>s. ''1'')\<rparr>"

definition demo_call :: "string \<Rightarrow> playbook_call" where
  "demo_call ticket = \<lparr>pc_playbook = ''p-1'', pc_ticket = Some ticket, pc_client = None, pc_actor = ''alice'', pc_trigger = ''msp_playbook'',
     pc_input = [(''period_start'', PStr ''a''), (''period_end'', PStr ''b'')], pc_on_run = (\<lambda>r s. (Inr (), s))\<rparr>"

definition demo_playbook_step :: "string \<Rightarrow> string \<Rightarrow> string \<Rightarrow> pyval" where
  "demo_playbook_step kind field v = PDict [(''id'', PStr kind), (''name'', PStr ''n''), (''kind'', PStr kind), (''description'', PStr ''d''), (field, PStr v)]"

definition demo_playbook_desk :: "pyval list \<Rightarrow> store" where
  "demo_playbook_desk steps = demo_desk\<lparr>playbook_entries := [\<lparr>en_id = ''p-1'', en_source = ''own'', en_definition = PDict [(''name'', PStr ''n''),
       (''trigger'', PStr ''t''), (''description'', PStr ''d''), (''risk_level'', PStr ''low''), (''steps'', PList steps),
       (''output_evidence'', PList [PStr ''e''])], en_provenance = ''me'', en_enabled = True, en_version = 1, en_created = 1, en_updated = 1,
     en_client = None\<rparr>]\<rparr>"

definition demo_mixed :: store where
  "demo_mixed = demo_playbook_desk [demo_playbook_step ''workflow'' ''workflow_template_id'' ''ticket-triage'', demo_playbook_step ''report'' ''report_type'' ''qbr'']"

definition demo_reporting :: store where
  "demo_reporting = demo_playbook_desk [demo_playbook_step ''report'' ''report_type'' ''qbr'']"

theorem playbook_stops_at_first_gate_witness:
  "case run_msp_playbook demo_hosts 10 (demo_call ''T1'') demo_mixed of (Inl e, t) \<Rightarrow> False
   | (Inr r, t) \<Rightarrow> map result_id (po_steps r) = [Some ''workflow'', Some ''report''] \<and> po_stopped r = None"
proof -
  have c: "case run_msp_playbook demo_hosts 10 (demo_call ''T1'') demo_mixed of (Inl e, t) \<Rightarrow> False
     | (Inr r, t) \<Rightarrow> po_run r \<noteq> None \<and> po_status r = ''completed''" by code_simp
  then obtain r t where r: "run_msp_playbook demo_hosts 10 (demo_call ''T1'') demo_mixed = (Inr r, t)"
    by (cases "run_msp_playbook demo_hosts 10 (demo_call ''T1'') demo_mixed") (auto split: sum.splits)
  with c have d: "po_run r \<noteq> None" "po_status r = ''completed''" by simp_all
  have q: "case resolve_msp_playbook (px_env demo_hosts) (pc_playbook (demo_call ''T1'')) (pc_client (demo_call ''T1'')) demo_mixed of Inl e \<Rightarrow> False
    | Inr p \<Rightarrow> map pk_id (pd_steps p) = [''workflow'', ''report'']" by code_simp
  from playbook_stops_at_first_gate [where X = demo_hosts and now = 10 and c = "demo_call ''T1''" and s = demo_mixed] d
  obtain p where p: "resolve_msp_playbook (px_env demo_hosts) (pc_playbook (demo_call ''T1'')) (pc_client (demo_call ''T1'')) demo_mixed = Inr p"
    "length (po_steps r) = length (pd_steps p)" "map result_id (po_steps r) = map (\<lambda>k. Some (pk_id k)) (take (length (po_steps r)) (pd_steps p))"
    "po_stopped r = None" unfolding r by auto
  have m: "map pk_id (pd_steps p) = [''workflow'', ''report'']" using q p(1) by simp
  have "map (\<lambda>k. Some (pk_id k)) (pd_steps p) = map Some (map pk_id (pd_steps p))" by simp
  also have "\<dots> = [Some ''workflow'', Some ''report'']" unfolding m by simp
  finally show ?thesis using p(2-4) r by simp
qed

lemma demo_hosts_ok: "hosts_ok demo_hosts (demo_call ticket)"
  by (simp add: hosts_ok_def demo_hosts_def demo_call_def)

lemma demo_mixed_inv: "workflow_inv demo_mixed"
  by (rule workflow_inv_same [OF demo_desk_inv]) (simp_all add: demo_mixed_def demo_playbook_desk_def)


text \<open>
  A preview of a report playbook skips a quarantined ticket; the run does not, and stores a report for the quarantine pseudo-client.
\<close>

lemma quarantined_report_runs:
  "(case preview_msp_playbook demo_hosts ''p-1'' (Some ''T2'') None (pc_input (demo_call ''T2'')) demo_reporting of
      Inr (Skipped r) \<Rightarrow> po_status r = ''skipped'' | _ \<Rightarrow> False)"
  "map (\<lambda>r. (rp_client r, rp_type r)) (reports (snd (run_msp_playbook demo_hosts 10 (demo_call ''T2'') demo_reporting))) =
     [(QUARANTINE_CLIENT_ID, ''qbr'')]"
  by code_simp+

end
