(* ===== verification/Playbook_Dispatch_Laws.thy ===== *)
theory Playbook_Dispatch_Laws
  imports Playbook_Run_Laws Dispatch_Laws
begin

text \<open>
  The playbook runner as a runtime of the dispatcher: a run leaves the table of deliveries alone, so that the laws of the dispatcher hold
  with the modelled runner in place of the parameter.
\<close>

definition keeps_deliveries :: "service \<Rightarrow> bool" where
  "keeps_deliveries V \<longleftrightarrow> (\<forall>(k, a)\<in>set (sm_registry V). \<forall>ctx p s. deliveries (snd (ac_run a ctx p s)) = deliveries s)"

lemma safe_run_deliveries:
  "keeps_deliveries V \<Longrightarrow> registry_get (sm_registry V) i = Inr a \<Longrightarrow> safe_run E a ctx p s = (r, t) \<Longrightarrow> deliveries t = deliveries s"
proof -
  assume k: "keeps_deliveries V" and g: "registry_get (sm_registry V) i = Inr a" and r: "safe_run E a ctx p s = (r, t)"
  obtain j where "(j, a) \<in> set (sm_registry V)" using g by (auto simp: registry_get_def split: option.splits dest: dget_Some_in)
  then have "deliveries (snd (ac_run a ctx p s)) = deliveries s" using k unfolding keeps_deliveries_def by blast
  then show ?thesis using r by (auto simp: safe_run_def split: prod.splits sum.splits)
qed

lemma record_deliveries:
  "deliveries (record_action V a i p r c cl tr st co s) = deliveries s" "deliveries (add_audit_event E now ty su de cl ap s) = deliveries s"
  "deliveries (add_history_row E now ty su st m pl cc s) = deliveries s" "deliveries (add_audit_row now ty su de cl ap s) = deliveries s"
  by (simp_all add: record_action_def record_execution_def audit_defs)

lemma persist_deliveries: "persist_result V now a ac d res co cl p cr s = (r, t) \<Longrightarrow> deliveries t = deliveries s"
  by (auto simp: persist_result_def create_smart_action_run_def Let_def record_deliveries)

lemma refuse_deliveries: "refuse_actor V now a d cl p cr s = (r, t) \<Longrightarrow> deliveries t = deliveries s"
  by (auto simp: refuse_actor_def create_smart_action_run_def Let_def record_deliveries)

lemma get_approval_deliveries: "get_approval_request E now i s = (v, t) \<Longrightarrow> deliveries t = deliveries s"
  by (auto simp: get_approval_request_def expire_approval_request_def Let_def audit_defs split: option.splits stamp.splits if_splits)

lemma create_pending_deliveries:
  assumes "create_pending_smart_action E now a ac d out ev p cl n s = Inr ((run, ap), t)"
  shows "deliveries t = deliveries s"
proof -
  obtain e where r: "(let (run, s1) = insert_pending E now a ac d out ev p (normalize_client_id cl) e s in
     case get_approval_request E now (approvals_seq s1) s1 of
       (None, t) \<Rightarrow> Inl (RuntimeError ''pending smart action was not persisted'')
     | (Some approval, t) \<Rightarrow> Inr ((run, approval), t)) = Inr ((run, ap), t)"
    using assms unfolding create_pending_smart_action_def by (simp only: rbind_Inr_iff) blast
  obtain run' u where i: "insert_pending E now a ac d out ev p (normalize_client_id cl) e s = (run', u)" by fastforce
  obtain v w where g: "get_approval_request E now (approvals_seq u) u = (v, w)" by fastforce
  have "deliveries u = deliveries s" using i by (auto simp: insert_pending_def Let_def audit_defs)
  moreover have "t = w" using r by (cases v) (auto simp: i g)
  ultimately show ?thesis using get_approval_deliveries [OF g] by simp
qed

lemma create_request_deliveries:
  assumes "create_approval_request E now sub a p cl n s = Inr (r, t)"
  shows "deliveries t = deliveries s"
proof -
  from assms obtain u where u: "persisted E now (approvals_seq s + 1) u = Inr (r, t)" "deliveries u = deliveries s"
    by (clarsimp simp: create_approval_request_def res_simps Let_def)
  obtain v w where g: "get_approval_request E now (approvals_seq s + 1) u = (v, w)" by fastforce
  have "t = w" using u(1) by (cases v) (auto simp: persisted_def g)
  then show ?thesis using get_approval_deliveries [OF g] u(2) by simp
qed

lemma invoke_deliveries:
  assumes "keeps_deliveries V" "invoke V now i p actor co cl ex rq cr s = (x, t)"
  shows "deliveries t = deliveries s"
proof (cases "registry_get (sm_registry V) i")
  case (Inr a)
  note run = safe_run_deliveries [OF assms(1) Inr]
  have req: "deliveries u = deliveries s" if "request_approval V now a who d co c n p cr s = (y, u)" for who d c n y u
    using that run
    by (auto simp: request_approval_def Let_def sbind_def tx_def record_deliveries split: prod.splits if_splits sum.splits
        dest!: persist_deliveries create_pending_deliveries)
  show ?thesis using assms(2) req run
    by (auto simp: invoke_def Inr Let_def split: if_splits option.splits sum.splits prod.splits dest!: persist_deliveries refuse_deliveries)
qed (use assms(2) in \<open>auto simp: invoke_def split: if_splits\<close>)

section \<open>Templates, reports and playbooks\<close>

text \<open>A sequence leaves the deliveries alone when its parts do.\<close>

lemma sbind_deliveries:
  "deliveries (snd p) = deliveries s \<Longrightarrow> (\<And>a u. deliveries u = deliveries s \<Longrightarrow> deliveries (snd (f a u)) = deliveries s) \<Longrightarrow>
   deliveries (snd (sbind p f)) = deliveries s"
  by (auto simp: sbind_def split: prod.splits sum.splits)

lemma tx_deliveries: "(\<And>y u. c = Inr (y, u) \<Longrightarrow> deliveries u = deliveries s) \<Longrightarrow> deliveries (snd (tx c s)) = deliveries s"
  by (cases c) (auto simp: tx_def split: prod.splits)

lemma tool_deliveries:
  assumes "\<And>V. executor = Some V \<Longrightarrow> keeps_deliveries V"
  shows "deliveries (snd (run_template_tool executor now tp ticket actor cl p cr s)) = deliveries s"
proof (cases "wt_tool tp = None \<or> executor = None")
  case False
  then obtain tool V where f: "wt_tool tp = Some tool" "executor = Some V" by auto
  show ?thesis unfolding run_template_tool_def f option.case
    by (rule sbind_deliveries) (use invoke_deliveries [OF assms [OF f(2)] surjective_pairing] in simp_all)
qed (auto simp: run_template_tool_def split: option.split)

lemma settle_deliveries: "deliveries (snd (settle_workflow E now tp ticket cl m r s)) = deliveries s"
proof (cases "r = None \<and> wt_approval tp")
  case True
  let ?c = "create_approval_request E now (tk_id ticket) (wt_action tp) [(''template_id'', PStr (wt_id tp)), (''ticket_id'', PStr (tk_id ticket)),
    (''message'', PStr m)] cl DEFAULT_APPROVAL_EXPIRY_SECONDS s"
  have "deliveries (snd (tx ?c s)) = deliveries s" using create_request_deliveries by (rule tx_deliveries)
  then show ?thesis unfolding settle_workflow_def using True by (simp add: sbind_deliveries)
qed (auto simp: settle_workflow_def split: option.split)

lemma create_run_deliveries: "create_workflow_run E now tp tk st m ap cl v s = Inr (w, t) \<Longrightarrow> deliveries t = deliveries s"
  unfolding create_workflow_run_def Let_def rbind_Inr_iff
  by (elim exE conjE) (simp split: option.splits, auto simp: audit_defs)

lemma template_deliveries:
  assumes "\<And>V. executor = Some V \<Longrightarrow> keeps_deliveries V" "run_workflow_template V executor now q s = (x, t)"
  shows "deliveries t = deliveries s"
  using assms(2)
proof (cases rule: run_template_cases)
  case (run tp ticket cl p)
  have "deliveries (snd (workflow_tail V executor now q tp ticket cl p s)) = deliveries s"
    unfolding workflow_tail_def Let_def
  proof (rule sbind_deliveries)
    show "deliveries (snd (run_template_tool executor now tp ticket (wq_actor q) cl p (wq_correlation q) s)) = deliveries s"
      using assms(1) by (rule tool_deliveries)
  next
    fix res and u :: store
    assume u: "deliveries u = deliveries s"
    let ?m = "if strip (redact (sm_env V) (wq_instructions q)) = [] then workflow_message (sm_env V) tp ticket res
      else workflow_message (sm_env V) tp ticket res @ '' Operator instructions: '' @ strip (redact (sm_env V) (wq_instructions q))"
    show "deliveries (snd (sbind (settle_workflow (sm_env V) now tp ticket cl ?m res u) (\<lambda>(status, approval) s2.
        sbind (tx (create_workflow_run (sm_env V) now (wt_id tp) (tk_id ticket) status ?m approval cl (wq_version q) s2) s2) (\<lambda>run s3.
        (Inr (run_from_row run), record_workflow_execution V run (wq_actor q) (wq_trigger q) (wq_correlation q) s3))))) = deliveries s"
    proof (rule sbind_deliveries)
      show "deliveries (snd (settle_workflow (sm_env V) now tp ticket cl ?m res u)) = deliveries s" using settle_deliveries u by simp
    next
      fix sa :: "string \<times> int option" and v :: store
      assume v: "deliveries v = deliveries s"
      obtain st ap where sa: "sa = (st, ap)" by fastforce
      have c: "deliveries w = deliveries s" if "create_workflow_run (sm_env V) now (wt_id tp) (tk_id ticket) st ?m ap cl (wq_version q) v = Inr (y, w)" for y w
        using create_run_deliveries [OF that] v by simp
      show "deliveries (snd ((case sa of (status, approval) \<Rightarrow> (\<lambda>s2.
          sbind (tx (create_workflow_run (sm_env V) now (wt_id tp) (tk_id ticket) status ?m approval cl (wq_version q) s2) s2) (\<lambda>run s3.
          (Inr (run_from_row run), record_workflow_execution V run (wq_actor q) (wq_trigger q) (wq_correlation q) s3)))) v)) = deliveries s"
        unfolding sa prod.case using c v
        by (cases "create_workflow_run (sm_env V) now (wt_id tp) (tk_id ticket) st ?m ap cl (wq_version q) v")
          (auto simp: tx_def record_workflow_execution_def record_execution_def split: prod.splits)
    qed
  qed
  then show ?thesis using run(7) by simp
qed auto

lemma report_deliveries: "deliveries (snd (run_report_step X now k pl client actor s)) = deliveries s"
proof -
  have "deliveries (snd (create_report E now i ty ti se by_whom cl pr md s)) = deliveries s" for E i ty ti se by_whom cl pr md
    by (auto simp: create_report_def save_report_def audit_defs Let_def split: sum.split)
  then show ?thesis by (auto simp: run_report_step_def split: option.split sum.split prod.split)
qed

definition quiet_hosts :: "playbook_env \<Rightarrow> playbook_call \<Rightarrow> bool" where
  "quiet_hosts X c \<longleftrightarrow> (\<forall>V. px_tools X = Some V \<longrightarrow> keeps_deliveries V) \<and> (\<forall>r s. deliveries (snd (pc_on_run c r s)) = deliveries s)"

lemma step_deliveries:
  assumes "quiet_hosts X c"
  shows "deliveries (snd (run_playbook_step X now p c client pl k s)) = deliveries s"
proof -
  have t: "deliveries (snd (run_workflow_template (px_base X) (px_tools X) now q s)) = deliveries s" for q
    using assms template_deliveries [OF _ surjective_pairing] unfolding quiet_hosts_def by blast
  have o: "deliveries (snd (pc_on_run c r v)) = deliveries v" for r v using assms by (simp add: quiet_hosts_def)
  show ?thesis unfolding run_playbook_step_def
    by (auto intro!: sbind_deliveries simp: t o report_deliveries split: option.split)
qed

lemma steps_deliveries:
  assumes "quiet_hosts X c"
  shows "run_playbook_steps X now p c client pl ks rs s = (ending, rs', t) \<Longrightarrow> deliveries t = deliveries s"
proof (induction ks arbitrary: rs s)
  case (Cons k ks)
  obtain y u where y: "run_playbook_step X now p c client pl k s = (y, u)" by fastforce
  then have "deliveries u = deliveries s" using step_deliveries [OF assms, of now p client pl k s] by simp
  then show ?case using Cons.prems Cons.IH [of _ u] by (auto simp: y split: sum.splits option.splits if_splits)
qed simp

lemma playbook_deliveries:
  assumes "quiet_hosts X c"
  shows "deliveries (snd (run_msp_playbook X now c s)) = deliveries s"
proof -
  have a: "deliveries (playbook_audit X now ev p i tk cl sf v) = deliveries v" for ev p i tk cl sf v
    by (simp add: playbook_audit_def record_deliveries)
  obtain x t where r: "run_msp_playbook X now c s = (x, t)" by fastforce
  then have "deliveries t = deliveries s"
    by (cases rule: run_playbook_cases) (auto simp: a dest!: steps_deliveries [OF assms])
  then show ?thesis by (simp add: r)
qed

text \<open>The dispatcher with the modelled playbook runner: every law for runtimes of the dispatcher holds of it.\<close>

lemma dispatched_playbooks_ok:
  assumes "runtime_ok R" "\<And>V. px_tools X = Some V \<Longrightarrow> keeps_deliveries V"
  shows "runtime_ok (R\<lparr>rt_playbook := dispatched_playbook X now\<rparr>)"
proof -
  have "quiet_hosts X \<lparr>pc_playbook = p, pc_ticket = tk, pc_client = cl, pc_actor = a, pc_trigger = tr, pc_input = i, pc_on_run = (\<lambda>r t. (Inr (), t))\<rparr>"
    for p tk cl a tr i using assms(2) by (simp add: quiet_hosts_def)
  from playbook_deliveries [OF this] show ?thesis
    using assms(1) by (auto simp: runtime_ok_def dispatched_playbook_def run_and_status_def intro!: sbind_deliveries)
qed

end
