(* ===== verification/Spec2Isabelle.thy ===== *)
theory Spec2Isabelle
  imports Rbac_Laws Access Approval_Laws Dispatch_Laws Poll_Lease Workflow_Laws Supervisor_Laws Scheduler_Laws Privacy Net_Security_Laws Migrations License_Laws Governance_Laws Agent_Bounds Evidence_Laws Workflow_Run_Laws Scheduled_Run_Laws Playbook_Laws Playbook_Dispatch_Laws
begin

text \<open>
  WAIT Local Agent: the control plane of a service desk agent that runs on a managed service provider's own machine. The development models
  the core of \<open>src/wait_local_agent\<close>: who may do what, how an action that needs approval waits for it, and how
  events, schedules, workflows and agents lead to actions.

  How the program fits together. All state is one SQLite database, class \<open>Store\<close>. A request is authenticated to a principal
  and a tenant scope (\<open>rbac.py\<close>, \<open>client_scope.py\<close>). Work starts in four ways: a caller invokes a smart action, a caller or a due
  job runs a workflow template, an event is dispatched to agents and playbooks, or a job of the scheduler falls due. Workflows and
  agents act only through the smart action service, which runs harmless actions at once and turns the others into an approval request; a
  decision completes the run. The supervisor delegates to several agents in dependency order.

  Theories and sources.

  \<^item> \<open>Prelude\<close>, \<open>Json\<close>, \<open>Store_Model\<close>: the errors the code raises and the result type that carries them, Python strings,
    dictionaries and JSON text, and the store as a record of tables, one list of rows per table of \<open>store.py\<close>. The locales
    \<open>guarded_ops\<close> (operations that keep an invariant) and \<open>append_only_log\<close> (operations that only append to the audit log) are
    interpreted for every group of store operations.
  \<^item> \<open>Client_Scope\<close>, \<open>Principals\<close>, \<open>Sessions\<close>, \<open>Capabilities\<close>, \<open>Rbac\<close>: \<open>client_scope.py\<close>, \<open>sessions.py\<close>,
    \<open>capabilities.py\<close>, \<open>rbac.py\<close>, and the methods of \<open>Store\<close> on clients, principals, credentials, roles, sessions,
    identities and grants. \<open>Principal_Laws\<close>, \<open>Rbac_Laws\<close> and \<open>Access\<close>: an administrator is never locked out, the
    identity tables stay consistent, authentication is sound and isolates tenants, deactivation reaches everything.
  \<^item> \<open>Approvals\<close> with \<open>Approval_Laws\<close>: approval requests as a state machine; each operation moves a request by the
    relation \<open>approval_move\<close>, from which follow that an expired request is final and a claim exclusive.
  \<^item> \<open>Smart_Actions\<close> with \<open>Smart_Action_Laws\<close>: registry, invocation and completion (\<open>smart_actions.py\<close>). The laws put a guard
    in front of every action: replacing the calls the guard forbids by errors changes nothing, so no such call is made.
  \<^item> \<open>Workflow_Designer\<close>, \<open>Workflows\<close> with \<open>Workflow_Laws\<close>, \<open>Workflow_Links\<close>, \<open>Workflow_Run_Laws\<close>: visual
    designs (\<open>workflow_designer.py\<close>), accepted exactly when they are workflow graphs; the templates and their runs (\<open>workflows.py\<close>), whose
    status follows the request they wait for. \<open>Graph_Search\<close> holds the two searches the code uses, related to transitive closure.
  \<^item> \<open>Agents\<close>, \<open>Agent_Runs\<close> with \<open>Agent_Types\<close>, \<open>Agent_Laws\<close>, \<open>Agent_Bounds\<close>, \<open>Evidence_Laws\<close>: \<open>agents.py\<close>. Stored
    definitions are well-formed, a run calls only the tools of its definition in its tenant, it ends within a bound, and retrieved
    text cannot forge the delimiters around it.
  \<^item> \<open>Supervisor\<close> with \<open>Supervisor_Laws\<close>: \<open>supervisor.py\<close>, delegation in dependency order within the tenant.
  \<^item> \<open>Deliveries\<close>, \<open>Event_Dispatch\<close> with \<open>Dispatch_Laws\<close>: event deliveries and \<open>event_dispatch.py\<close>; retries are bounded and
    every dispatch ends with a recorded outcome.
  \<^item> \<open>Scheduled_Jobs\<close>, \<open>Scheduled_Runs\<close> with \<open>Scheduler_Laws\<close>, \<open>Scheduled_Run_Laws\<close>: \<open>scheduler.py\<close>. The live
    scheduler refines the table; a due job that fails records its failure and a scheduled agent stays in its tenant.
  \<^item> \<open>Playbook_Catalog\<close>, \<open>Playbooks\<close>, \<open>Playbook_Runs\<close>, \<open>Reports\<close> with \<open>Playbook_Laws\<close>, \<open>Playbook_Run_Laws\<close>,
    \<open>Playbook_Dispatch_Laws\<close>: \<open>msp_playbooks.py\<close>, its tables in \<open>store.py\<close> and \<open>reports/service.py\<close>. A published playbook is read back
    as it was parsed and keeps a complete history (the locale \<open>text_filter\<close> states what a filter of text must promise for that, interpreted
    on the modelled redaction); a run stops at its first gate and reports the runs it stored. \<open>dispatched_playbook\<close> and
    \<open>scheduled_playbook\<close> are the runner as the dispatcher and the scheduler call it; the first is proved a runtime of the dispatcher.
  \<^item> \<open>Poll_Lease\<close>: sync cursors and their leases.
  \<^item> \<open>Redaction\<close> with \<open>Redaction_Laws\<close>, \<open>Privacy\<close>: the redaction functions of \<open>reports/renderers.py\<close>, specified and proved to
    leave no secret, and the tables that inherit it.
  \<^item> \<open>Net_Security\<close>, \<open>Migrations\<close>, \<open>License\<close>, \<open>Governance\<close> with their laws: \<open>net_security.py\<close> on machine words,
    \<open>migrations.py\<close>, \<open>license_v2.py\<close>, \<open>governance.py\<close>.

  Conventions. An operation is a function in the order of the code, with its checks as a chain of results; it returns an error in place of
  raising. A transaction that raises leaves the store as it was; code that makes several transactions returns the store beside its result. Each
  operation reads the clock once, as an argument. Log lines are not modelled.

  Parameters. Code of other packages is an argument: the digest, the text of an exception and the redaction (record \<open>env\<close>,
  instantiated with the modelled redaction as \<open>code_env\<close>), the time zone database, crontab syntax and ISO dates (\<open>sched_lib\<close>, \<open>agent_lib\<close>),
  APScheduler (\<open>live_ops\<close>), the JSON reader and Ed25519 of the license check, URL parsing, name resolution and the inner transport. The
  same holds for parts of the program that are not modelled: the handlers of the registered actions and the execution recorder (\<open>service\<close>),
  retrieval and the model that selects steps (\<open>agent_lib\<close>), the content of reports (\<open>playbook_env\<close>), the agents and playbooks an event reaches (\<open>runtime\<close>, \<open>runner\<close>), and the
  collaborators of due jobs (\<open>job_env\<close>). The theorems hold for all their behaviours unless a hypothesis is stated.

  Termination and bounds. Every function is total; there is no fuel. The loops that are not structural have a measure: the dispatch loop the
  pending agents, the graph searches the unvisited nodes, the agent loops the steps and retries left. A definition has at most eight steps, each
  tried at most four times, hence the bound of 32 invocations. Addresses are 32- and 128-bit words; other integers of the program are Python's.

  Not modelled, beside what is listed as a parameter: vendor connectors, Microsoft Graph and cloud clients, which only build requests
  for and rename fields of remote services; rendering of reports and solution packages; HTTP routes, command line and user interface, which wrap
  the modelled operations; file system, vault and backup code; retrieval scores, which are floating-point; the tables of
  \<open>store.py\<close> behind these parts; the founder scan beyond the step the scheduler takes.
\<close>

end
